(* ===== verification/Prelude.thy ===== *)
theory Prelude
  imports Main "HOL-Library.AList" "HOL-Library.Word"
begin

text \<open>
  What every component of the model shares: the application's error hierarchy as values
  (shared/errors.py), the parts of Python's strings, UUIDs, dicts and sorts the source uses,
  time (shared/clock.py), the tables of the database as ordered association lists, and the
  two interfaces most components rely on: a life cycle (a status field moved only along the
  edges of a diagram) and a keyed table.
\<close>

named_theorems entity_simps \<open>equations of the entities' constructors and methods\<close>
named_theorems step_elims \<open>inversion rules of the step relations\<close>

section \<open>Errors\<close>

text \<open>
  shared/errors.py: every deliberate error is an \<open>AppError\<close> of one of eight classes, with a
  message and a machine-readable code that defaults to the class's own. The exceptions of
  Python itself and of the database that a modelled operation can raise are listed beside.
\<close>

datatype error_class = ValidationErrorC | NotFoundErrorC | ConflictErrorC | AuthenticationErrorC
  | PermissionDeniedErrorC | QuotaExceededErrorC | RateLimitedErrorC | UnavailableErrorC

fun default_code :: "error_class \<Rightarrow> string" where
  "default_code ValidationErrorC = ''validation_error''"
| "default_code NotFoundErrorC = ''not_found''"
| "default_code ConflictErrorC = ''conflict''"
| "default_code AuthenticationErrorC = ''unauthenticated''"
| "default_code PermissionDeniedErrorC = ''permission_denied''"
| "default_code QuotaExceededErrorC = ''quota_exceeded''"
| "default_code RateLimitedErrorC = ''rate_limited''"
| "default_code UnavailableErrorC = ''unavailable''"

datatype exn =
    AppError error_class string string \<comment> \<open>class, message, code\<close>
  | ValueError string
  | KeyError string
  | ZeroDivisionError
  | AssertionError
  | OverflowError
  | NotImplementedError string
  | TypeError string
  | AttributeError string
  | OSError string
  | IntegrityError string
  | DataError string
  | MultipleResultsFound

text \<open>
  \<open>ValidationError(msg)\<close> and its siblings, with the class's default code.
\<close>

abbreviation ValidationError :: "string \<Rightarrow> exn" where
  "ValidationError msg \<equiv> AppError ValidationErrorC msg ''validation_error''"
abbreviation NotFoundError :: "string \<Rightarrow> exn" where
  "NotFoundError msg \<equiv> AppError NotFoundErrorC msg ''not_found''"
abbreviation ConflictError :: "string \<Rightarrow> exn" where
  "ConflictError msg \<equiv> AppError ConflictErrorC msg ''conflict''"
abbreviation PermissionDeniedError :: "string \<Rightarrow> exn" where
  "PermissionDeniedError msg \<equiv> AppError PermissionDeniedErrorC msg ''permission_denied''"
abbreviation QuotaExceededError :: "string \<Rightarrow> exn" where
  "QuotaExceededError msg \<equiv> AppError QuotaExceededErrorC msg ''quota_exceeded''"
abbreviation AuthenticationError :: "string \<Rightarrow> exn" where
  "AuthenticationError msg \<equiv> AppError AuthenticationErrorC msg ''unauthenticated''"

type_synonym 'a result = "exn + 'a"

definition bind_result :: "'a result \<Rightarrow> ('a \<Rightarrow> 'b result) \<Rightarrow> 'b result" where
  "bind_result r f = (case r of Inl e \<Rightarrow> Inl e | Inr x \<Rightarrow> f x)"

lemma bind_result_simps [simp]:
  "bind_result (Inl e) f = Inl e"
  "bind_result (Inr x) f = f x"
  by (simp_all add: bind_result_def)

lemma bind_result_eq_Inr:
  "bind_result r f = Inr y \<longleftrightarrow> (\<exists>x. r = Inr x \<and> f x = Inr y)"
  by (cases r) auto

text \<open>A loop whose body may raise: it stops at the first error, with that error.\<close>

fun fold_result :: "('a \<Rightarrow> 's \<Rightarrow> 's result) \<Rightarrow> 'a list \<Rightarrow> 's \<Rightarrow> 's result" where
  "fold_result f [] s = Inr s"
| "fold_result f (x # xs) s = bind_result (f x s) (fold_result f xs)"

lemma fold_result_invariant:
  assumes "fold_result f xs s = Inr s'" and "P s"
    and "\<And>x s t. x \<in> set xs \<Longrightarrow> f x s = Inr t \<Longrightarrow> P s \<Longrightarrow> P t"
  shows "P s'"
  using assms
proof (induction xs arbitrary: s)
  case (Cons x xs)
  from Cons.prems(1) obtain t where t: "f x s = Inr t" "fold_result f xs t = Inr s'"
    by (auto simp: bind_result_eq_Inr)
  show ?case
    by (rule Cons.IH [OF t(2)]) (use Cons.prems t(1) in auto)
qed simp

section \<open>Strings\<close>

text \<open>
  A Python string is a list of characters with code points below 256 (the code points
  beyond Latin-1 are outside the model). \<open>lower\<close> and \<open>strip\<close> follow Python on that range.
\<close>

definition py_space :: "char \<Rightarrow> bool" where
  "py_space c = (let n = (of_char c :: nat) in
     (9 \<le> n \<and> n \<le> 13) \<or> (28 \<le> n \<and> n \<le> 32) \<or> n = 133 \<or> n = 160)"

definition lower_char :: "char \<Rightarrow> char" where
  "lower_char c = (let n = (of_char c :: nat) in
     if (65 \<le> n \<and> n \<le> 90) \<or> (192 \<le> n \<and> n \<le> 222 \<and> n \<noteq> 215) then char_of (n + 32) else c)"

definition lower :: "string \<Rightarrow> string" where
  "lower s = map lower_char s"

definition lstrip :: "string \<Rightarrow> string" where
  "lstrip s = dropWhile py_space s"

definition strip :: "string \<Rightarrow> string" where
  "strip s = rev (lstrip (rev (lstrip s)))"

lemma lower_char_idem [simp]: "lower_char (lower_char c) = lower_char c"
proof -
  have "(of_char c :: nat) < 256"
    using nat_of_char_less_256 by simp
  then show ?thesis
    by (auto simp: lower_char_def Let_def)
qed

lemma lower_idem [simp]: "lower (lower s) = lower s"
  by (simp add: lower_def)

definition join :: "string \<Rightarrow> string list \<Rightarrow> string" where
  "join sep ss = (case ss of [] \<Rightarrow> [] | x # xs \<Rightarrow> x @ concat (map (\<lambda>y. sep @ y) xs))"

text \<open>\<open>!r\<close> of a status value or another string without quotes, backslashes or control characters.\<close>

definition quoted :: "string \<Rightarrow> string" where
  "quoted s = [CHR 0x27] @ s @ [CHR 0x27]"

text \<open>Decimal digits of an integer, as \<open>str\<close> prints it.\<close>

fun digits :: "nat \<Rightarrow> string" where
  "digits n = (if n < 10 then [char_of (48 + n)] else digits (n div 10) @ [char_of (48 + n mod 10)])"

declare digits.simps [simp del]

lemma char_of_digit [simp]:
  "char_of (48 :: nat) = CHR ''0''" "char_of (49 :: nat) = CHR ''1''" "char_of (50 :: nat) = CHR ''2''"
  "char_of (51 :: nat) = CHR ''3''" "char_of (52 :: nat) = CHR ''4''" "char_of (53 :: nat) = CHR ''5''"
  "char_of (54 :: nat) = CHR ''6''" "char_of (55 :: nat) = CHR ''7''" "char_of (56 :: nat) = CHR ''8''"
  "char_of (57 :: nat) = CHR ''9''"
  by code_simp+

definition str_int :: "int \<Rightarrow> string" where
  "str_int i = (if i < 0 then CHR ''-'' # digits (nat (- i)) else digits (nat i))"


text \<open>
  \<open>!r\<close> of an arbitrary string: single quotes unless the string holds one and no double quote;
  backslash, the quote and the control characters are escaped.
\<close>

definition hex_char :: "nat \<Rightarrow> char" where
  "hex_char d = (if d < 10 then char_of (48 + d) else char_of (87 + d))"

definition repr_char :: "char \<Rightarrow> char \<Rightarrow> string" where
  "repr_char q c = (let n = (of_char c :: nat) in
     if c = CHR 0x5C then [CHR 0x5C, CHR 0x5C]
     else if c = q then [CHR 0x5C, q]
     else if n = 10 then [CHR 0x5C, CHR ''n'']
     else if n = 13 then [CHR 0x5C, CHR ''r'']
     else if n = 9 then [CHR 0x5C, CHR ''t'']
     else if n < 32 \<or> (127 \<le> n \<and> n \<le> 160) \<or> n = 173
       then [CHR 0x5C, CHR ''x'', hex_char (n div 16), hex_char (n mod 16)]
     else [c])"

definition py_repr :: "string \<Rightarrow> string" where
  "py_repr s = (let q = (if CHR 0x27 \<in> set s \<and> CHR 0x22 \<notin> set s then CHR 0x22 else CHR 0x27)
     in [q] @ concat (map (repr_char q) s) @ [q])"

section \<open>Identifiers\<close>

text \<open>
  shared/ids.py: every identifier is a \<open>uuid.UUID\<close>, a 128-bit value. \<open>uuid_str\<close> is
  \<open>str(u)\<close> (32 lower-case hexadecimal digits grouped 8-4-4-4-12), \<open>uuid_parse\<close> is
  \<open>UUID(s)\<close> on the strings the program gives it: braces and hyphens are dropped, 32
  hexadecimal digits must remain, anything else raises \<open>ValueError\<close>.
\<close>

type_synonym uuid = "128 word"

fun hex_digits :: "nat \<Rightarrow> nat \<Rightarrow> string" where
  "hex_digits 0 n = []"
| "hex_digits (Suc k) n = hex_digits k (n div 16) @ [hex_char (n mod 16)]"

definition hex_val :: "char \<Rightarrow> nat option" where
  "hex_val c = (let n = (of_char c :: nat) in
     if 48 \<le> n \<and> n \<le> 57 then Some (n - 48)
     else if 97 \<le> n \<and> n \<le> 102 then Some (n - 87)
     else if 65 \<le> n \<and> n \<le> 70 then Some (n - 55) else None)"

fun hex_parse :: "nat \<Rightarrow> string \<Rightarrow> nat option" where
  "hex_parse acc [] = Some acc"
| "hex_parse acc (c # cs) =
     (case hex_val c of None \<Rightarrow> None | Some d \<Rightarrow> hex_parse (16 * acc + d) cs)"

definition uuid_hex :: "uuid \<Rightarrow> string" where
  "uuid_hex u = hex_digits 32 (unat u)"

definition uuid_str :: "uuid \<Rightarrow> string" where
  "uuid_str u = (let h = uuid_hex u in
     take 8 h @ ''-'' @ take 4 (drop 8 h) @ ''-'' @ take 4 (drop 12 h) @ ''-''
       @ take 4 (drop 16 h) @ ''-'' @ drop 20 h)"

definition uuid_parse :: "string \<Rightarrow> uuid result" where
  "uuid_parse s =
     (let h = filter (\<lambda>c. c \<noteq> CHR ''-'' \<and> c \<noteq> CHR ''{'' \<and> c \<noteq> CHR ''}'') s in
      if length h \<noteq> 32 then Inl (ValueError ''badly formed hexadecimal UUID string'')
      else case hex_parse 0 h of
        None \<Rightarrow> Inl (ValueError ''invalid literal for int() with base 16'')
      | Some n \<Rightarrow> Inr (of_nat n))"

lemma length_hex_digits [simp]: "length (hex_digits k n) = k"
  by (induction k arbitrary: n) auto

lemma hex_char_cases: "d < 16 \<Longrightarrow> hex_val (hex_char d) = Some d \<and> hex_char d \<noteq> CHR ''-''
    \<and> hex_char d \<noteq> CHR ''{'' \<and> hex_char d \<noteq> CHR ''}'' \<and> hex_char d \<noteq> CHR ''.''"
proof -
  assume "d < 16"
  then have "d \<in> {0,1,2,3,4,5,6,7,8,9,10,11,12,13,14,15}" by simp presburger
  then show ?thesis
    by (elim insertE emptyE; hypsubst; code_simp)
qed

lemma hex_parse_append:
  "hex_parse acc (xs @ ys) =
     (case hex_parse acc xs of None \<Rightarrow> None | Some a \<Rightarrow> hex_parse a ys)"
  by (induction xs arbitrary: acc) (auto split: option.splits)

lemma hex_parse_digits: "hex_parse acc (hex_digits k n) = Some (16 ^ k * acc + n mod 16 ^ k)"
proof (induction k arbitrary: n)
  case (Suc k)
  have "16 * (16 ^ k * acc + n div 16 mod 16 ^ k) + n mod 16
      = 16 ^ Suc k * acc + (16 * (n div 16 mod 16 ^ k) + n mod 16)"
    by simp
  also have "16 * (n div 16 mod 16 ^ k) + n mod 16 = n mod 16 ^ Suc k"
    by (simp add: mod_mult2_eq)
  finally show ?case
    using hex_char_cases [of "n mod 16"] by (simp add: hex_parse_append Suc.IH)
qed simp

lemma set_hex_digits: "c \<in> set (hex_digits k n) \<Longrightarrow> \<exists>d < 16. c = hex_char d"
proof (induction k arbitrary: n)
  case (Suc k)
  show ?case
  proof (cases "c \<in> set (hex_digits k (n div 16))")
    case True
    then show ?thesis by (rule Suc.IH)
  next
    case False
    with Suc.prems have "c = hex_char (n mod 16)" by simp
    then show ?thesis by (intro exI [of _ "n mod 16"]) simp
  qed
qed simp

lemma set_uuid_hex: "c \<in> set (uuid_hex u) \<Longrightarrow> c \<noteq> CHR ''-'' \<and> c \<noteq> CHR ''{'' \<and> c \<noteq> CHR ''}'' \<and> c \<noteq> CHR ''.''"
  using set_hex_digits [of c 32 "unat u"] hex_char_cases by (auto simp: uuid_hex_def)

lemma take_drop_chain:
  "take 8 h @ take 4 (drop 8 h) @ take 4 (drop 12 h) @ take 4 (drop 16 h) @ drop 20 h = h"
proof -
  have "take 4 (drop 16 h) @ drop 20 h = drop 16 h"
    using append_take_drop_id [of 4 "drop 16 h"] by simp
  moreover have "take 4 (drop 12 h) @ drop 16 h = drop 12 h"
    using append_take_drop_id [of 4 "drop 12 h"] by simp
  moreover have "take 4 (drop 8 h) @ drop 12 h = drop 8 h"
    using append_take_drop_id [of 4 "drop 8 h"] by simp
  ultimately show ?thesis
    by simp
qed

lemma filter_uuid_str:
  "filter (\<lambda>c. c \<noteq> CHR ''-'' \<and> c \<noteq> CHR ''{'' \<and> c \<noteq> CHR ''}'') (uuid_str u) = uuid_hex u"
proof -
  let ?P = "\<lambda>c. c \<noteq> CHR ''-'' \<and> c \<noteq> CHR ''{'' \<and> c \<noteq> CHR ''}''"
  have all: "filter ?P xs = xs" if "set xs \<subseteq> set (uuid_hex u)" for xs
    using that set_uuid_hex by (intro filter_True) blast
  have sub: "set (take n (drop m (uuid_hex u))) \<subseteq> set (uuid_hex u)"
      "set (take n (uuid_hex u)) \<subseteq> set (uuid_hex u)"
      "set (drop m (uuid_hex u)) \<subseteq> set (uuid_hex u)" for n m
    by (blast dest: in_set_takeD in_set_dropD)+
  show ?thesis
    by (simp only: uuid_str_def Let_def filter_append all sub)
       (simp add: take_drop_chain)
qed

lemma uuid_parse_str [simp]: "uuid_parse (uuid_str u) = Inr u"
proof -
  have len: "length (uuid_hex u) = 32" by (simp add: uuid_hex_def)
  have "unat u < 2 ^ LENGTH(128)" by (rule unsigned_less)
  then have "unat u < 16 ^ 32" by simp
  then have "hex_parse 0 (uuid_hex u) = Some (unat u)"
    by (simp only: uuid_hex_def hex_parse_digits) simp
  with len show ?thesis by (simp add: uuid_parse_def Let_def filter_uuid_str)
qed

lemma uuid_str_inject [simp]: "uuid_str u = uuid_str v \<longleftrightarrow> u = v"
  by (metis uuid_parse_str sum.inject(2))

lemma set_uuid_str: "c \<in> set (uuid_str u) \<Longrightarrow> c \<noteq> CHR ''.''"
  using set_uuid_hex by (auto simp: uuid_str_def Let_def dest!: in_set_takeD in_set_dropD)

lemma uuid_str_nonempty [simp]: "uuid_str u \<noteq> []"
  by (simp add: uuid_str_def Let_def)

end
