(* ===== verification/Store.thy ===== *)
theory Store
  imports Prelude
begin

text \<open>
  The database's tables and Python's dicts, both as association lists in insertion order;
  sorting and Python's \<open>max\<close>; the interface \<open>keyed_store\<close> that the use cases' lemmas rest
  on, with the tables as its interpretation; time.
\<close>

section \<open>Dicts and ordered selections\<close>

text \<open>
  \<open>d[k] = v\<close> keeps the position of an existing key and appends a new one; \<open>AList.update\<close>
  does the same. \<open>d.get(k)\<close> is \<open>map_of d k\<close>.
\<close>

type_synonym ('k, 'v) dict = "('k \<times> 'v) list"

abbreviation dict_set :: "'k \<Rightarrow> 'v \<Rightarrow> ('k, 'v) dict \<Rightarrow> ('k, 'v) dict" where
  "dict_set \<equiv> AList.update"

text \<open>\<open>{f(x): g(x) for x in xs}\<close>: a later element overwrites the value of an equal key.\<close>

definition dict_of :: "('k \<times> 'v) list \<Rightarrow> ('k, 'v) dict" where
  "dict_of kvs = fold (\<lambda>(k, v) d. dict_set k v d) kvs []"

lemma map_of_fold_dict_set:
  "map_of (fold (\<lambda>(k, v) d. dict_set k v d) kvs d0) k
     = (case map_of (rev kvs) k of Some v \<Rightarrow> Some v | None \<Rightarrow> map_of d0 k)"
  by (induction kvs arbitrary: d0)
     (auto simp: update_conv' map_add_def split: option.splits)

lemma map_of_dict_of: "map_of (dict_of kvs) k = map_of (rev kvs) k"
  by (simp add: dict_of_def map_of_fold_dict_set split: option.splits)

lemma keys_fold_dict_set:
  "fst ` set (fold (\<lambda>(k, v) d. dict_set k v d) kvs d0) = fst ` set kvs \<union> fst ` set d0"
  by (induction kvs arbitrary: d0) (simp_all add: dom_update split_beta)

lemma keys_dict_of: "fst ` set (dict_of kvs) = fst ` set kvs"
  by (simp add: dict_of_def keys_fold_dict_set)

lemma distinct_fold_dict_set:
  "distinct (map fst d0) \<Longrightarrow> distinct (map fst (fold (\<lambda>(k, v) d. dict_set k v d) kvs d0))"
  by (induction kvs arbitrary: d0) (auto simp: distinct_update)

lemma distinct_dict_of [simp]: "distinct (map fst (dict_of kvs))"
  by (simp add: dict_of_def distinct_fold_dict_set)

text \<open>\<open>d.setdefault(f(x), []).append(x)\<close> over a list.\<close>

definition group_by :: "('a \<Rightarrow> 'k) \<Rightarrow> 'a list \<Rightarrow> ('k, 'a list) dict" where
  "group_by f xs = fold (\<lambda>x d. dict_set (f x)
     ((case map_of d (f x) of None \<Rightarrow> [] | Some ys \<Rightarrow> ys) @ [x]) d) xs []"

text \<open>\<open>d.get(k, default)\<close>.\<close>

definition dict_get :: "('k, 'v) dict \<Rightarrow> 'k \<Rightarrow> 'v \<Rightarrow> 'v" where
  "dict_get d k dflt = (case map_of d k of None \<Rightarrow> dflt | Some v \<Rightarrow> v)"

lemma dict_get_group_by: "dict_get (group_by f xs) k [] = filter (\<lambda>x. f x = k) xs"
proof -
  have "dict_get (fold (\<lambda>x d. dict_set (f x)
     ((case map_of d (f x) of None \<Rightarrow> [] | Some ys \<Rightarrow> ys) @ [x]) d) xs d0) k []
     = dict_get d0 k [] @ filter (\<lambda>x. f x = k) xs" for d0
    by (induction xs arbitrary: d0) (auto simp: dict_get_def update_conv' split: option.splits)
  from this [of "[]"] show ?thesis by (simp add: group_by_def dict_get_def)
qed

text \<open>\<open>max(xs, key=f)\<close>: the first element whose key no other exceeds; it raises on an empty list.\<close>

fun max_from :: "('a \<Rightarrow> int) \<Rightarrow> 'a \<Rightarrow> 'a list \<Rightarrow> 'a" where
  "max_from f m [] = m"
| "max_from f m (x # xs) = max_from f (if f x > f m then x else m) xs"

definition py_max :: "('a \<Rightarrow> int) \<Rightarrow> 'a list \<Rightarrow> 'a result" where
  "py_max f xs = (case xs of [] \<Rightarrow> Inl (ValueError ''max() iterable argument is empty'')
     | x # xs' \<Rightarrow> Inr (max_from f x xs'))"

lemma max_from_mem: "max_from f m xs \<in> set (m # xs)"
proof (induction xs arbitrary: m)
  case (Cons x xs)
  show ?case using Cons.IH [of "if f x > f m then x else m"] by (auto split: if_splits)
qed simp

lemma max_from_ge: "y \<in> set (m # xs) \<Longrightarrow> f y \<le> f (max_from f m xs)"
proof (induction xs arbitrary: m y)
  case (Cons x xs)
  let ?m = "if f x > f m then x else m"
  have "f y \<le> f (max_from f ?m xs)" if "y \<in> set xs"
    using that by (intro Cons.IH) simp
  moreover have "f ?m \<le> f (max_from f ?m xs)" by (rule Cons.IH) simp
  ultimately show ?case
    using Cons.prems by (auto split: if_splits)
qed simp

lemma py_max_Inr:
  assumes "py_max f xs = Inr m"
  shows "m \<in> set xs" and "\<And>y. y \<in> set xs \<Longrightarrow> f y \<le> f m"
proof -
  from assms obtain x zs where xs: "xs = x # zs" and m: "m = max_from f x zs"
    by (auto simp: py_max_def split: list.splits)
  show "m \<in> set xs" unfolding xs m by (rule max_from_mem)
  show "f y \<le> f m" if "y \<in> set xs" for y
    using that unfolding xs m by (rule max_from_ge)
qed

lemma py_max_defined: "xs \<noteq> [] \<Longrightarrow> \<exists>m. py_max f xs = Inr m"
  by (cases xs) (auto simp: py_max_def)

text \<open>\<open>ORDER BY key LIMIT 1\<close>: rows with equal keys in table order (SQL leaves their order open).\<close>

definition first_by :: "('a \<Rightarrow> 'k::linorder) \<Rightarrow> 'a list \<Rightarrow> 'a option" where
  "first_by f xs = (case sort_key f xs of [] \<Rightarrow> None | x # _ \<Rightarrow> Some x)"

lemma first_by_None [simp]: "first_by f xs = None \<longleftrightarrow> xs = []"
proof -
  have "sort_key f xs = [] \<longleftrightarrow> xs = []"
    by (metis length_0_conv length_sort)
  then show ?thesis by (auto simp: first_by_def split: list.splits)
qed

lemma first_by_Some:
  assumes "first_by f xs = Some x"
  shows "x \<in> set xs" and "\<And>y. y \<in> set xs \<Longrightarrow> f x \<le> f y"
proof -
  from assms obtain zs where s: "sort_key f xs = x # zs"
    by (auto simp: first_by_def split: list.splits)
  then have set: "set xs = set (x # zs)" by (metis set_sort)
  then show "x \<in> set xs" by simp
  have "sorted (map f (x # zs))" by (metis s sorted_sort_key)
  then show "f x \<le> f y" if "y \<in> set xs" for y
    using that set by auto
qed

section \<open>Tables\<close>

text \<open>
  A table keyed by its \<open>id\<close> column. \<open>tbl_add\<close> is an \<open>INSERT\<close>: a primary key already present
  raises. \<open>tbl_put\<close> is what the flush after a change of the loaded entity writes back.
\<close>

type_synonym 'r table = "(uuid \<times> 'r) list"

definition tbl_get :: "'r table \<Rightarrow> uuid \<Rightarrow> 'r option" where
  "tbl_get t i = map_of t i"

definition tbl_put :: "uuid \<Rightarrow> 'r \<Rightarrow> 'r table \<Rightarrow> 'r table" where
  "tbl_put i r t = AList.update i r t"

definition tbl_add :: "uuid \<Rightarrow> 'r \<Rightarrow> 'r table \<Rightarrow> 'r table result" where
  "tbl_add i r t = (if tbl_get t i = None then Inr (t @ [(i, r)])
     else Inl (IntegrityError ''duplicate primary key''))"

definition rows :: "'r table \<Rightarrow> 'r list" where
  "rows t = map snd t"

text \<open>Well-formed: each identifier occurs once, and every row is stored under its own.\<close>

definition tbl_ok :: "('r \<Rightarrow> uuid) \<Rightarrow> 'r table \<Rightarrow> bool" where
  "tbl_ok key t \<longleftrightarrow> distinct (map fst t) \<and> (\<forall>(i, r) \<in> set t. key r = i)"

locale keyed_store =
  fixes get :: "'t \<Rightarrow> uuid \<Rightarrow> 'r option"
    and put :: "uuid \<Rightarrow> 'r \<Rightarrow> 't \<Rightarrow> 't"
    and add :: "uuid \<Rightarrow> 'r \<Rightarrow> 't \<Rightarrow> 't result"
  assumes get_put: "get (put i r t) j = (if j = i then Some r else get t j)"
    and get_add: "add i r t = Inr t' \<Longrightarrow> get t' j = (if j = i then Some r else get t j)"
    and add_fresh: "add i r t = Inr t' \<Longrightarrow> get t i = None"
    and add_defined: "get t i = None \<Longrightarrow> \<exists>t'. add i r t = Inr t'"
begin

lemma put_invariant:
  "\<lbrakk>\<forall>j s. get t j = Some s \<longrightarrow> P j s; P i r\<rbrakk> \<Longrightarrow> \<forall>j s. get (put i r t) j = Some s \<longrightarrow> P j s"
  by (simp add: get_put)

lemma add_invariant:
  "\<lbrakk>\<forall>j s. get t j = Some s \<longrightarrow> P j s; P i r; add i r t = Inr t'\<rbrakk>
   \<Longrightarrow> \<forall>j s. get t' j = Some s \<longrightarrow> P j s"
  by (simp add: get_add)

lemma put_other: "j \<noteq> i \<Longrightarrow> get (put i r t) j = get t j"
  by (simp add: get_put)

lemma add_keeps: "\<lbrakk>add i r t = Inr t'; get t j = Some s\<rbrakk> \<Longrightarrow> get t' j = Some s"
  using add_fresh [of i r t t'] by (auto simp: get_add)

lemma add_add_conflict: "add i r t = Inr t' \<Longrightarrow> \<nexists>t''. add i r' t' = Inr t''"
  using add_fresh [of i r' t'] get_add [of i r t t' i] by auto

end

lemma tbl_get_put: "tbl_get (tbl_put i r t) j = (if j = i then Some r else tbl_get t j)"
  by (simp add: tbl_get_def tbl_put_def update_conv')

lemma tbl_get_add: "tbl_add i r t = Inr t' \<Longrightarrow> tbl_get t' j = (if j = i then Some r else tbl_get t j)"
  by (auto simp: tbl_get_def tbl_add_def map_add_def split: if_splits option.splits)

interpretation tbl: keyed_store tbl_get tbl_put tbl_add
proof unfold_locales
  show "tbl_get (tbl_put i r t) j = (if j = i then Some r else tbl_get t j)"
    for i j and r :: 'a and t by (rule tbl_get_put)
  show "tbl_add i r t = Inr t' \<Longrightarrow> tbl_get t' j = (if j = i then Some r else tbl_get t j)"
    for i j and r :: 'a and t t' by (rule tbl_get_add)
  show "tbl_add i r t = Inr t' \<Longrightarrow> tbl_get t i = None" for i and r :: 'a and t t'
    by (simp add: tbl_add_def split: if_splits)
  show "tbl_get t i = None \<Longrightarrow> \<exists>t'. tbl_add i r t = Inr t'" for i and r :: 'a and t
    by (simp add: tbl_add_def)
qed

lemma tbl_ok_Nil [simp]: "tbl_ok key []"
  by (simp add: tbl_ok_def)

lemma tbl_ok_put:
  assumes "tbl_ok key t" and "key r = i"
  shows "tbl_ok key (tbl_put i r t)"
proof -
  have "set (AList.update i r t) \<subseteq> insert (i, r) (set t)"
    by (induction t) auto
  with assms show ?thesis
    by (auto simp: tbl_ok_def tbl_put_def distinct_update)
qed

lemma tbl_ok_add: "\<lbrakk>tbl_ok key t; key r = i; tbl_add i r t = Inr t'\<rbrakk> \<Longrightarrow> tbl_ok key t'"
  by (auto simp: tbl_ok_def tbl_add_def tbl_get_def map_of_eq_None_iff split: if_splits)

lemma rows_iff: "tbl_ok key t \<Longrightarrow> r \<in> set (rows t) \<longleftrightarrow> tbl_get t (key r) = Some r"
proof -
  assume ok: "tbl_ok key t"
  then have "r \<in> set (rows t) \<longleftrightarrow> (key r, r) \<in> set t"
    by (force simp: tbl_ok_def rows_def)
  with ok show ?thesis by (simp add: tbl_ok_def tbl_get_def)
qed

lemma rows_tbl_add: "tbl_add i r t = Inr t' \<Longrightarrow> rows t' = rows t @ [r]"
  by (auto simp: tbl_add_def rows_def split: if_splits)

lemma tbl_ok_addedI: "\<lbrakk>tbl_add (key r) r t = Inr t'; tbl_ok key t\<rbrakk> \<Longrightarrow> tbl_ok key t'"
  by (rule tbl_ok_add [OF _ refl])

lemma rows_put_subset: "q \<in> set (rows (tbl_put i r t)) \<Longrightarrow> q = r \<or> q \<in> set (rows t)"
proof -
  have "set (AList.update i r t) \<subseteq> insert (i, r) (set t)" by (induction t) auto
  then show "q \<in> set (rows (tbl_put i r t)) \<Longrightarrow> q = r \<or> q \<in> set (rows t)"
    by (auto simp: rows_def tbl_put_def)
qed

lemma tbl_get_key: "\<lbrakk>tbl_ok key t; tbl_get t i = Some r\<rbrakk> \<Longrightarrow> key r = i"
  by (auto simp: tbl_ok_def tbl_get_def dest: map_of_SomeD)

lemma rows_mem: "tbl_get t i = Some r \<Longrightarrow> r \<in> set (rows t)"
  by (force simp: rows_def tbl_get_def dest: map_of_SomeD)

text \<open>
  Every repository's \<open>get(tenant_id, id)\<close>: the row of that id whose tenant is the given one.
\<close>

definition scoped_get :: "('r \<Rightarrow> uuid) \<Rightarrow> 'r table \<Rightarrow> uuid \<Rightarrow> uuid \<Rightarrow> 'r option" where
  "scoped_get tenant t T i =
     (case tbl_get t i of None \<Rightarrow> None | Some r \<Rightarrow> if tenant r = T then Some r else None)"

lemma scoped_get_Some:
  "scoped_get tenant t T i = Some r \<longleftrightarrow> tbl_get t i = Some r \<and> tenant r = T"
  by (auto simp: scoped_get_def split: option.splits if_splits)

text \<open>\<open>scalar_one_or_none()\<close>: no row is \<open>None\<close>, one row is that row, more rows raise.\<close>

definition scalar_one_or_none :: "'r list \<Rightarrow> 'r option result" where
  "scalar_one_or_none rs = (case rs of [] \<Rightarrow> Inr None | [r] \<Rightarrow> Inr (Some r)
     | _ \<Rightarrow> Inl MultipleResultsFound)"

text \<open>
  A loop over rows fetched before it starts: each body sees its row still unchanged when no body
  touches another row.
\<close>

lemma fold_result_rows:
  assumes "fold_result f xs s = Inr s'" and "P s"
    and "distinct (map key xs)" and "\<forall>x \<in> set xs. tbl_get (tab s) (key x) = Some x"
    and "\<And>x t t'. \<lbrakk>x \<in> set xs; f x t = Inr t'; P t; tbl_get (tab t) (key x) = Some x\<rbrakk>
           \<Longrightarrow> P t' \<and> (\<forall>j. j \<noteq> key x \<longrightarrow> tbl_get (tab t') j = tbl_get (tab t) j)"
  shows "P s'"
  using assms
proof (induction xs arbitrary: s)
  case (Cons x xs)
  from Cons.prems(1) obtain t where t: "f x s = Inr t" "fold_result f xs t = Inr s'"
    by (auto simp: bind_result_eq_Inr)
  from Cons.prems(5) [OF _ t(1) Cons.prems(2)] Cons.prems(4)
  have step: "P t" "\<forall>j. j \<noteq> key x \<longrightarrow> tbl_get (tab t) j = tbl_get (tab s) j" by simp_all
  show ?case
  proof (rule Cons.IH [OF t(2) step(1)])
    show "\<forall>y \<in> set xs. tbl_get (tab t) (key y) = Some y"
    proof
      fix y assume y: "y \<in> set xs"
      then have "key y \<in> key ` set xs" by simp
      with Cons.prems(3) have "key y \<noteq> key x" by auto
      with step(2) Cons.prems(4) y show "tbl_get (tab t) (key y) = Some y" by simp
    qed
  qed (use Cons.prems in auto)
qed simp

lemma distinct_map_take: "distinct (map f xs) \<Longrightarrow> distinct (map f (take n xs))"
  by (simp add: take_map [symmetric])

lemma distinct_map_sort: "distinct (map f xs) \<Longrightarrow> distinct (map f (sort_key g xs))"
  by (simp add: distinct_map)

lemma distinct_rows: "tbl_ok key t \<Longrightarrow> distinct (map key (rows t))"
proof -
  assume ok: "tbl_ok key t"
  then have "map key (rows t) = map fst t"
    by (auto simp: tbl_ok_def rows_def)
  with ok show ?thesis by (simp add: tbl_ok_def)
qed

text \<open>What a query \<open>WHERE ... ORDER BY ... LIMIT\<close> returns.\<close>

lemma query_rows:
  assumes "tbl_ok key t"
  shows "distinct (map key (take n (sort_key g (filter Q (rows t)))))"
    and "r \<in> set (take n (sort_key g (filter Q (rows t)))) \<Longrightarrow> tbl_get t (key r) = Some r \<and> Q r"
proof -
  show "distinct (map key (take n (sort_key g (filter Q (rows t)))))"
    by (intro distinct_map_take distinct_map_sort distinct_map_filter distinct_rows assms)
  assume "r \<in> set (take n (sort_key g (filter Q (rows t))))"
  then have "r \<in> set (filter Q (rows t))" by (metis in_set_takeD set_sort)
  then show "tbl_get t (key r) = Some r \<and> Q r" using assms by (simp add: rows_iff [of key t])
qed

section \<open>Time\<close>

text \<open>
  shared/clock.py: an aware \<open>datetime\<close> is its distance from the Unix epoch in microseconds,
  a \<open>timedelta\<close> a number of microseconds; \<open>//\<close> on timedeltas is floor division and raises
  on a zero divisor.
\<close>

type_synonym datetime = int
type_synonym timedelta = int

definition microseconds_per_second :: int where
  "microseconds_per_second = 1000000"

definition seconds :: "int \<Rightarrow> timedelta" where
  "seconds n = n * microseconds_per_second"

definition minutes :: "int \<Rightarrow> timedelta" where
  "minutes n = seconds (60 * n)"

definition hours :: "int \<Rightarrow> timedelta" where
  "hours n = minutes (60 * n)"

definition days :: "int \<Rightarrow> timedelta" where
  "days n = hours (24 * n)"

lemmas timedelta_defs = days_def hours_def minutes_def seconds_def microseconds_per_second_def

definition EPOCH :: datetime where
  "EPOCH = 0"

definition fixed_window_start :: "datetime \<Rightarrow> timedelta \<Rightarrow> datetime result" where
  "fixed_window_start now window =
     (if window = 0 then Inl ZeroDivisionError
      else (let elapsed_windows = (now - EPOCH) div window in Inr (EPOCH + elapsed_windows * window)))"

text \<open>A positive window contains its time, and every time in it has the same start.\<close>

lemma fixed_window_start_bounds:
  assumes "0 < window"
  shows "\<exists>s. fixed_window_start now window = Inr s \<and> s \<le> now \<and> now < s + window
           \<and> (\<forall>t. s \<le> t \<and> t < s + window \<longrightarrow> fixed_window_start t window = Inr s)"
proof -
  let ?s = "now div window * window"
  have same: "t div window = now div window" if "?s \<le> t" "t < ?s + window" for t
    by (rule int_div_pos_eq [where r = "t - ?s"]) (use that in simp_all)
  have low: "?s \<le> now" and high: "now < ?s + window"
    using pos_mod_sign [OF assms, of now] pos_mod_bound [OF assms, of now]
      div_mult_mod_eq [of now window] by linarith+
  have def: "fixed_window_start t window = Inr (t div window * window)" for t
    using assms by (simp add: fixed_window_start_def EPOCH_def)
  have "\<forall>t. ?s \<le> t \<and> t < ?s + window \<longrightarrow> fixed_window_start t window = Inr ?s"
  proof (intro allI impI)
    fix t assume t: "?s \<le> t \<and> t < ?s + window"
    have "t div window = now div window" using t by (intro same) auto
    then show "fixed_window_start t window = Inr ?s" by (subst def) (rule arg_cong)
  qed
  with low high def [of now] show ?thesis by blast
qed

end
