(* ===== verification/Json.thy ===== *)
theory Json
  imports Store
begin

text \<open>
  The values of the JSONB columns (attributes, settings, audit entries, payloads) and of the
  Python dicts they are read into. A number with a fraction is kept as its text.
\<close>

datatype json = JNull | JBool bool | JInt int | JReal string | JStr string
  | JList "json list" | JObj "(string \<times> json) list"

text \<open>\<open>bool(v)\<close>.\<close>

fun truthy :: "json \<Rightarrow> bool" where
  "truthy JNull = False"
| "truthy (JBool b) = b"
| "truthy (JInt i) = (i \<noteq> 0)"
| "truthy (JReal t) = (\<exists>c \<in> set t. c \<in> set ''123456789'')"
| "truthy (JStr s) = (s \<noteq> [])"
| "truthy (JList xs) = (xs \<noteq> [])"
| "truthy (JObj kvs) = (kvs \<noteq> [])"

text \<open>\<open>str(v)\<close>, and \<open>repr(v)\<close> for the elements of a list or dict.\<close>

fun json_repr :: "json \<Rightarrow> string" where
  "json_repr JNull = ''None''"
| "json_repr (JBool b) = (if b then ''True'' else ''False'')"
| "json_repr (JInt i) = str_int i"
| "json_repr (JReal t) = t"
| "json_repr (JStr s) = py_repr s"
| "json_repr (JList xs) = ''['' @ join '', '' (map json_repr xs) @ '']''"
| "json_repr (JObj kvs) =
     ''{'' @ join '', '' (map (\<lambda>(k, v). py_repr k @ '': '' @ json_repr v) kvs) @ ''}''"

definition json_str :: "json \<Rightarrow> string" where
  "json_str v = (case v of JStr s \<Rightarrow> s | _ \<Rightarrow> json_repr v)"

definition jstr_opt :: "string option \<Rightarrow> json" where
  "jstr_opt o1 = (case o1 of None \<Rightarrow> JNull | Some s \<Rightarrow> JStr s)"

text \<open>\<open>d[k]\<close> raises on a missing key.\<close>

definition dict_item :: "('k \<Rightarrow> string) \<Rightarrow> ('k \<times> 'v) list \<Rightarrow> 'k \<Rightarrow> 'v result" where
  "dict_item show d k = (case map_of d k of None \<Rightarrow> Inl (KeyError (show k)) | Some v \<Rightarrow> Inr v)"

end
