(* ===== verification/Calendar.thy ===== *)
theory Calendar
  imports Store
begin

text \<open>
  The calendar side of \<open>datetime\<close>: the civil date (proleptic Gregorian) of a UTC time, the
  \<open>%Y-%m\<close> key quota periods use, and \<open>isoformat()\<close>.
\<close>

definition pad_left :: "nat \<Rightarrow> string \<Rightarrow> string" where
  "pad_left n s = replicate (n - length s) (CHR ''0'') @ s"

text \<open>Year, month and day of a day number counted from 1970-01-01.\<close>

definition civil_of_doy :: "int \<Rightarrow> int \<Rightarrow> int \<times> int \<times> int" where
  "civil_of_doy y doy =
     (let mp = (5 * doy + 2) div 153;
          m = (if mp < 10 then mp + 3 else mp - 9)
      in (y + (if m \<le> 2 then 1 else 0), m, doy - (153 * mp + 2) div 5 + 1))"

definition civil_of_yoe :: "int \<Rightarrow> int \<Rightarrow> int \<Rightarrow> int \<times> int \<times> int" where
  "civil_of_yoe era doe yoe =
     civil_of_doy (yoe + era * 400) (doe - (365 * yoe + yoe div 4 - yoe div 100))"

definition civil_of_doe :: "int \<Rightarrow> int \<Rightarrow> int \<times> int \<times> int" where
  "civil_of_doe era doe =
     civil_of_yoe era doe ((doe - doe div 1460 + doe div 36524 - doe div 146096) div 365)"

definition civil_of_days :: "int \<Rightarrow> int \<times> int \<times> int" where
  "civil_of_days z = civil_of_doe ((z + 719468) div 146097) ((z + 719468) mod 146097)"

lemmas civil_defs = civil_of_days_def civil_of_doe_def civil_of_yoe_def civil_of_doy_def

definition month_key :: "datetime \<Rightarrow> string" where
  "month_key t = (case civil_of_days (t div days 1) of (y, m, d) \<Rightarrow>
     pad_left 4 (str_int y) @ ''-'' @ pad_left 2 (str_int m))"

definition isoformat :: "datetime \<Rightarrow> string" where
  "isoformat t = (case civil_of_days (t div days 1) of (y, m, d) \<Rightarrow>
     let us = t mod days 1; s = us div seconds 1; frac = us mod seconds 1 in
     pad_left 4 (str_int y) @ ''-'' @ pad_left 2 (str_int m) @ ''-'' @ pad_left 2 (str_int d) @ ''T''
     @ pad_left 2 (str_int (s div 3600)) @ '':'' @ pad_left 2 (str_int (s div 60 mod 60)) @ '':''
     @ pad_left 2 (str_int (s mod 60))
     @ (if frac = 0 then [] else ''.'' @ pad_left 6 (str_int frac)) @ ''+00:00'')"

text \<open>29 February 2024, and the day after it.\<close>

lemma civil_leap_day: "civil_of_days 19782 = (2024, 2, 29)" "civil_of_days 19783 = (2024, 3, 1)"
  by (simp_all add: civil_defs)

lemma month_key_epoch: "month_key 0 = ''1970-01''"
  by (simp add: month_key_def civil_defs timedelta_defs str_int_def digits.simps pad_left_def)

end
