(* ===== verification/Task_Queue.thy ===== *)
theory Task_Queue
  imports Complex_Main Json Calendar
begin

text \<open>
  The job queue: services/task_backoff.py, services/ports/task_queue.py (the interface) and
  infrastructure/persistence/task_queue.py (its implementation, one SQL statement per
  operation). A transaction's \<open>SKIP LOCKED\<close> claim is one atomic step here. Random jitter is an
  argument, a rational in \<open>[0, 1)\<close>; delays are rounded to the microsecond as \<open>timedelta\<close>
  does (the rounding of the double product, far below a microsecond, is not modelled).
\<close>

section \<open>Backoff\<close>

definition BASE_SECONDS :: rat where "BASE_SECONDS = 2"
definition CAP_SECONDS :: rat where "CAP_SECONDS = 300"
definition STUCK_JOB_THRESHOLD :: timedelta where "STUCK_JOB_THRESHOLD = minutes 10"

definition round_half_even :: "rat \<Rightarrow> int" where
  "round_half_even x = (let f = \<lfloor>x\<rfloor>; d = x - of_int f in
     if d < 1 / 2 then f else if d > 1 / 2 then f + 1 else if even f then f else f + 1)"

definition two_power :: "int \<Rightarrow> rat" where
  "two_power e = (if 0 \<le> e then 2 ^ nat e else 1 / 2 ^ nat (- e))"

definition backoff_ceiling :: "int \<Rightarrow> rat" where
  "backoff_ceiling attempt = min CAP_SECONDS (BASE_SECONDS * two_power (attempt - 1))"

text \<open>A float overflows from \<open>2 ** 1024\<close> on.\<close>

definition compute_backoff :: "int \<Rightarrow> rat \<Rightarrow> timedelta result" where
  "compute_backoff attempt jitter =
     (if attempt - 1 \<ge> 1024 then Inl OverflowError
      else Inr (round_half_even (backoff_ceiling attempt * jitter * of_int microseconds_per_second)))"

lemma two_power_pos [simp]: "0 < two_power e"
  by (simp add: two_power_def)

lemma two_power_mono: "a \<le> b \<Longrightarrow> two_power a \<le> two_power b"
proof -
  assume le: "a \<le> b"
  have small: "1 / 2 ^ n \<le> (1 :: rat)" "(1 :: rat) \<le> 2 ^ n" for n :: nat by simp_all
  consider "0 \<le> a" | "a < 0" "0 \<le> b" | "b < 0" by linarith
  then show ?thesis
  proof cases
    case 1 with le show ?thesis by (simp add: two_power_def power_increasing nat_mono)
  next
    case 2
    then show ?thesis using order_trans [OF small] by (simp add: two_power_def)
  next
    case 3
    have "(2 :: rat) ^ nat (- b) \<le> 2 ^ nat (- a)" using le by (intro power_increasing) auto
    with 3 le show ?thesis by (simp add: two_power_def frac_le)
  qed
qed

lemma backoff_ceiling_bounds: "0 < backoff_ceiling a" "backoff_ceiling a \<le> 300"
  by (simp_all add: backoff_ceiling_def CAP_SECONDS_def BASE_SECONDS_def min_less_iff_disj)

lemma backoff_ceiling_mono: "a \<le> b \<Longrightarrow> backoff_ceiling a \<le> backoff_ceiling b"
  using two_power_mono [of "a - 1" "b - 1"]
  by (auto simp: backoff_ceiling_def BASE_SECONDS_def min_def)

lemma round_half_even_bounds:
  assumes "0 \<le> x" and "x \<le> of_int n"
  shows "0 \<le> round_half_even x" and "round_half_even x \<le> n"
proof -
  have f0: "0 \<le> \<lfloor>x\<rfloor>" using assms(1) by simp
  then show "0 \<le> round_half_even x" by (simp add: round_half_even_def Let_def)
  show "round_half_even x \<le> n"
  proof (cases "x = of_int \<lfloor>x\<rfloor>")
    case True
    then have "round_half_even x = \<lfloor>x\<rfloor>" by (simp add: round_half_even_def Let_def)
    with assms(2) show ?thesis by (simp add: floor_le_iff)
  next
    case False
    then have "of_int \<lfloor>x\<rfloor> < x" using of_int_floor_le [of x] False by (metis order_le_less)
    then have "of_int \<lfloor>x\<rfloor> < (of_int n :: rat)" using assms(2) by (rule less_le_trans)
    then have "\<lfloor>x\<rfloor> < n" by (simp only: of_int_less_iff)
    then show ?thesis by (simp add: round_half_even_def Let_def)
  qed
qed


text \<open>A delay lies between zero and the ceiling of its attempt, never beyond five minutes.\<close>

lemma compute_backoff_bounds:
  assumes "0 \<le> jitter" and "jitter \<le> 1" and "attempt \<le> 1024"
  shows "\<exists>d. compute_backoff attempt jitter = Inr d \<and> 0 \<le> d \<and> d \<le> seconds 300"
proof -
  let ?x = "backoff_ceiling attempt * jitter * of_int microseconds_per_second"
  have c: "0 < backoff_ceiling attempt" "backoff_ceiling attempt \<le> 300"
    by (rule backoff_ceiling_bounds)+
  have "0 \<le> ?x" using c(1) assms(1) by (simp add: microseconds_per_second_def)
  moreover have "backoff_ceiling attempt * jitter \<le> 300 * 1"
    using c assms by (intro mult_mono) auto
  then have "?x \<le> of_int (seconds 300)" by (simp add: timedelta_defs mult.commute)
  ultimately have "0 \<le> round_half_even ?x \<and> round_half_even ?x \<le> seconds 300"
    using round_half_even_bounds by blast
  then show ?thesis using assms(3) by (simp add: compute_backoff_def)
qed

section \<open>Jobs\<close>

datatype job_status = JOB_PENDING | JOB_RUNNING | JOB_SUCCEEDED | JOB_DEAD

record task_queue_job =
  job_id :: uuid
  job_tenant_id :: uuid
  job_type :: string
  job_payload :: "(string, string) dict"
  job_status :: job_status
  job_attempts :: int
  job_max_attempts :: int
  job_run_at :: datetime
  job_claimed_at :: "datetime option"
  job_claimed_by :: "string option"
  job_last_error :: "string option"
  job_created_at :: datetime
  job_updated_at :: datetime

type_synonym jobs = "task_queue_job table"

definition DEFAULT_MAX_ATTEMPTS :: int where "DEFAULT_MAX_ATTEMPTS = 5"

definition enqueue ::
  "uuid \<Rightarrow> uuid \<Rightarrow> string \<Rightarrow> (string, string) dict \<Rightarrow> datetime \<Rightarrow> datetime \<Rightarrow> int \<Rightarrow> jobs \<Rightarrow> jobs result" where
  "enqueue new_id tenant_id ty payload run_at now max_attempts q =
     tbl_add new_id
       \<lparr>job_id = new_id, job_tenant_id = tenant_id, job_type = ty, job_payload = payload,
        job_status = JOB_PENDING, job_attempts = 0, job_max_attempts = max_attempts,
        job_run_at = run_at, job_claimed_at = None, job_claimed_by = None, job_last_error = None,
        job_created_at = now, job_updated_at = now\<rparr> q"

text \<open>The \<open>WHERE\<close> clause of the claim.\<close>

definition claimable :: "uuid \<Rightarrow> string option \<Rightarrow> datetime \<Rightarrow> task_queue_job \<Rightarrow> bool" where
  "claimable tenant_id ty now j \<longleftrightarrow> job_tenant_id j = tenant_id \<and> job_status j = JOB_PENDING
     \<and> job_run_at j \<le> now \<and> (case ty of None \<Rightarrow> True | Some t \<Rightarrow> job_type j = t)"

definition claim ::
  "uuid \<Rightarrow> string \<Rightarrow> string option \<Rightarrow> datetime \<Rightarrow> jobs \<Rightarrow> task_queue_job option \<times> jobs" where
  "claim tenant_id claimed_by ty now q =
     (case first_by job_run_at (filter (claimable tenant_id ty now) (rows q)) of
        None \<Rightarrow> (None, q)
      | Some j \<Rightarrow>
          let j' = j\<lparr>job_status := JOB_RUNNING, job_claimed_at := Some now,
                     job_claimed_by := Some claimed_by, job_updated_at := now\<rparr>
          in (Some j', tbl_put (job_id j) j' q))"

definition get_job :: "uuid \<Rightarrow> uuid \<Rightarrow> jobs \<Rightarrow> task_queue_job option" where
  "get_job tenant_id i q = scoped_get job_tenant_id q tenant_id i"

definition complete_job :: "uuid \<Rightarrow> uuid \<Rightarrow> datetime \<Rightarrow> jobs \<Rightarrow> jobs" where
  "complete_job tenant_id i now q =
     (case get_job tenant_id i q of
        None \<Rightarrow> q
      | Some j \<Rightarrow> tbl_put i (j\<lparr>job_status := JOB_SUCCEEDED, job_updated_at := now\<rparr>) q)"

definition fail_job ::
  "rat \<Rightarrow> uuid \<Rightarrow> uuid \<Rightarrow> string \<Rightarrow> datetime \<Rightarrow> jobs \<Rightarrow> (job_status \<times> jobs) result" where
  "fail_job jitter tenant_id i error now q =
     (case get_job tenant_id i q of
        None \<Rightarrow> Inl (ValueError (''Task queue job '' @ uuid_str i @ '' not found for tenant ''
                  @ uuid_str tenant_id @ ''.''))
      | Some j \<Rightarrow>
          let new_attempts = job_attempts j + 1 in
          if new_attempts \<ge> job_max_attempts j
          then Inr (JOB_DEAD, tbl_put i (j\<lparr>job_status := JOB_DEAD, job_attempts := new_attempts,
                 job_last_error := Some error, job_updated_at := now\<rparr>) q)
          else bind_result (compute_backoff new_attempts jitter) (\<lambda>delay.
            Inr (JOB_PENDING, tbl_put i (j\<lparr>job_status := JOB_PENDING, job_attempts := new_attempts,
                   job_last_error := Some error, job_run_at := now + delay,
                   job_updated_at := now\<rparr>) q)))"

text \<open>The message's long dash is written as a hyphen (the model's characters are Latin-1).\<close>

definition stuck_error :: "datetime \<Rightarrow> string" where
  "stuck_error claimed_before = ''Job stayed '' @ quoted ''running'' @ '' past ''
     @ isoformat claimed_before
     @ '' without completing or failing - its worker likely crashed.''"

definition stuck :: "uuid \<Rightarrow> datetime \<Rightarrow> task_queue_job \<Rightarrow> bool" where
  "stuck tenant_id claimed_before j \<longleftrightarrow> job_tenant_id j = tenant_id \<and> job_status j = JOB_RUNNING
     \<and> (case job_claimed_at j of None \<Rightarrow> False | Some t \<Rightarrow> t < claimed_before)"

definition reap_stuck ::
  "(uuid \<Rightarrow> rat) \<Rightarrow> uuid \<Rightarrow> datetime \<Rightarrow> datetime \<Rightarrow> jobs \<Rightarrow> (nat \<times> jobs) result" where
  "reap_stuck jitter tenant_id claimed_before now q =
     (let job_ids = map job_id (filter (stuck tenant_id claimed_before) (rows q)) in
      bind_result
        (fold_result (\<lambda>i s. bind_result (fail_job (jitter i) tenant_id i (stuck_error claimed_before) now s)
                              (\<lambda>(_, s'). Inr s')) job_ids q)
        (\<lambda>q'. Inr (length job_ids, q')))"

text \<open>features/system/reap_stuck_task_queue_jobs.py\<close>

definition ReapStuckTaskQueueJobs :: "(uuid \<Rightarrow> rat) \<Rightarrow> uuid \<Rightarrow> datetime \<Rightarrow> jobs \<Rightarrow> (nat \<times> jobs) result" where
  "ReapStuckTaskQueueJobs jitter tenant_id now q =
     reap_stuck jitter tenant_id (now - STUCK_JOB_THRESHOLD) now q"


section \<open>The interface the workers rely on\<close>

text \<open>
  services/ports/task_queue.py as a contract. \<open>same_work\<close> relates two states of one job: what
  it asks for, for whom, and its retry budget.
\<close>

definition same_work :: "task_queue_job \<Rightarrow> task_queue_job \<Rightarrow> bool" where
  "same_work j k \<longleftrightarrow> job_id k = job_id j \<and> job_tenant_id k = job_tenant_id j \<and> job_type k = job_type j
     \<and> job_payload k = job_payload j \<and> job_max_attempts k = job_max_attempts j
     \<and> job_created_at k = job_created_at j"

lemma same_work_refl [simp]: "same_work j j"
  by (simp add: same_work_def)

definition job_claimed :: "string \<Rightarrow> datetime \<Rightarrow> task_queue_job \<Rightarrow> task_queue_job" where
  "job_claimed claimed_by now j = j\<lparr>job_status := JOB_RUNNING, job_claimed_at := Some now,
     job_claimed_by := Some claimed_by, job_updated_at := now\<rparr>"

definition fail_verdict :: "task_queue_job \<Rightarrow> job_status" where
  "fail_verdict j = (if job_attempts j + 1 \<ge> job_max_attempts j then JOB_DEAD else JOB_PENDING)"

locale job_queue =
  fixes jget :: "'q \<Rightarrow> uuid \<Rightarrow> task_queue_job option"
    and jclaim :: "uuid \<Rightarrow> string \<Rightarrow> string option \<Rightarrow> datetime \<Rightarrow> 'q \<Rightarrow> task_queue_job option \<times> 'q"
    and jcomplete :: "uuid \<Rightarrow> uuid \<Rightarrow> datetime \<Rightarrow> 'q \<Rightarrow> 'q"
    and jfail :: "rat \<Rightarrow> uuid \<Rightarrow> uuid \<Rightarrow> string \<Rightarrow> datetime \<Rightarrow> 'q \<Rightarrow> (job_status \<times> 'q) result"
    and jinv :: "'q \<Rightarrow> bool"
  assumes claim_None: "\<lbrakk>jinv q; jclaim T w ty now q = (None, q')\<rbrakk>
        \<Longrightarrow> q' = q \<and> (\<forall>i j. jget q i = Some j \<longrightarrow> \<not> claimable T ty now j)"
    and claim_Some: "\<lbrakk>jinv q; jclaim T w ty now q = (Some j, q')\<rbrakk>
        \<Longrightarrow> \<exists>j0. jget q (job_id j) = Some j0 \<and> claimable T ty now j0 \<and> j = job_claimed w now j0
              \<and> (\<forall>i. jget q' i = (if i = job_id j then Some j else jget q i))
              \<and> (\<forall>i k. jget q i = Some k \<and> claimable T ty now k \<longrightarrow> job_run_at j0 \<le> job_run_at k)"
    and complete_get: "jinv q \<Longrightarrow> jget (jcomplete T i now q) k =
        (case jget q i of Some j \<Rightarrow> if k = i \<and> job_tenant_id j = T
           then Some (j\<lparr>job_status := JOB_SUCCEEDED, job_updated_at := now\<rparr>) else jget q k
         | None \<Rightarrow> jget q k)"
    and fail_Inr: "\<lbrakk>jinv q; jfail jitter T i err now q = Inr (st, q')\<rbrakk>
        \<Longrightarrow> \<exists>j j'. jget q i = Some j \<and> job_tenant_id j = T \<and> same_work j j' \<and> st = fail_verdict j
              \<and> job_status j' = st \<and> job_attempts j' = job_attempts j + 1
              \<and> job_last_error j' = Some err \<and> (\<forall>k. jget q' k = (if k = i then Some j' else jget q k))"
    and fail_defined: "\<lbrakk>jinv q; jget q i = Some j; job_tenant_id j = T; job_attempts j < 1024\<rbrakk>
        \<Longrightarrow> \<exists>st q'. jfail jitter T i err now q = Inr (st, q')"
    and inv_claim: "jinv q \<Longrightarrow> jinv (snd (jclaim T w ty now q))"
    and inv_complete: "jinv q \<Longrightarrow> jinv (jcomplete T i now q)"
    and inv_fail: "\<lbrakk>jinv q; jfail jitter T i err now q = Inr (st, q')\<rbrakk> \<Longrightarrow> jinv q'"
    and get_id: "\<lbrakk>jinv q; jget q i = Some j\<rbrakk> \<Longrightarrow> job_id j = i"
begin

text \<open>A running job is not handed out again before it fails.\<close>

lemma claim_exclusive:
  assumes inv: "jinv q" and one: "jclaim T w ty now q = (Some j, q')"
    and two: "jclaim T' w' ty' now' q' = (Some k, q'')"
  shows "job_id k \<noteq> job_id j"
proof
  assume eq: "job_id k = job_id j"
  obtain j0 where "j = job_claimed w now j0" "jget q' (job_id j) = Some j"
    using claim_Some [OF inv one] by auto
  moreover have "jinv q'" using inv_claim [OF inv, of T w ty now] one by simp
  from claim_Some [OF this two] obtain k0 where "jget q' (job_id k) = Some k0" "claimable T' ty' now' k0"
    by blast
  ultimately show False by (auto simp: eq claimable_def job_claimed_def)
qed

lemma claim_running:
  "\<lbrakk>jinv q; jclaim T w ty now q = (Some j, q')\<rbrakk>
   \<Longrightarrow> job_status j = JOB_RUNNING \<and> job_tenant_id j = T \<and> jget q' (job_id j) = Some j
     \<and> (case ty of None \<Rightarrow> True | Some t \<Rightarrow> job_type j = t)"
  by (drule (1) claim_Some) (auto simp: job_claimed_def claimable_def split: option.splits)

text \<open>A worker of one tenant never touches another tenant's jobs.\<close>

lemma claim_other_tenant:
  assumes "jinv q" and "jclaim T w ty now q = (r, q')" and "jget q i = Some k" and "job_tenant_id k \<noteq> T"
  shows "jget q' i = Some k"
proof (cases r)
  case None
  with assms claim_None show ?thesis by blast
next
  case (Some j)
  with claim_Some [OF assms(1)] assms(2) obtain j0 where "jget q (job_id j) = Some j0"
    "claimable T ty now j0" "jget q' i = (if i = job_id j then Some j else jget q i)" by blast
  with assms(3,4) show ?thesis by (auto simp: claimable_def)
qed

lemma complete_other_tenant:
  "\<lbrakk>jinv q; jget q i = Some k; job_tenant_id k \<noteq> T\<rbrakk> \<Longrightarrow> jget (jcomplete T n now q) i = Some k"
  by (auto simp: complete_get split: option.splits)

lemma fail_other_tenant:
  "\<lbrakk>jinv q; jfail jitter T n err now q = Inr (st, q'); jget q i = Some k; job_tenant_id k \<noteq> T\<rbrakk>
   \<Longrightarrow> jget q' i = Some k"
  by (drule (1) fail_Inr) auto

end

text \<open>
  The table's invariant: identifiers are consistent, budgets are positive, and a job that may
  still run has budget left.
\<close>

definition job_ok :: "task_queue_job \<Rightarrow> bool" where
  "job_ok j \<longleftrightarrow> 0 \<le> job_attempts j \<and> 0 < job_max_attempts j
     \<and> (job_status j \<in> {JOB_PENDING, JOB_RUNNING} \<longrightarrow> job_attempts j < job_max_attempts j)
     \<and> (job_status j = JOB_DEAD \<longrightarrow> job_max_attempts j \<le> job_attempts j)"

definition jobs_ok :: "jobs \<Rightarrow> bool" where
  "jobs_ok q \<longleftrightarrow> tbl_ok job_id q \<and> (\<forall>i j. tbl_get q i = Some j \<longrightarrow> job_ok j)"

lemma jobs_ok_Nil [simp]: "jobs_ok []"
  by (simp add: jobs_ok_def tbl_get_def)

lemma jobs_ok_put: "\<lbrakk>jobs_ok q; job_id j = i; job_ok j\<rbrakk> \<Longrightarrow> jobs_ok (tbl_put i j q)"
  by (simp add: jobs_ok_def tbl_ok_put tbl_get_put)

lemma claim_SomeD:
  assumes ok: "jobs_ok q" and cl: "claim T w ty now q = (Some j, q')"
  shows "\<exists>j0. tbl_get q (job_id j) = Some j0 \<and> claimable T ty now j0 \<and> j = job_claimed w now j0
     \<and> q' = tbl_put (job_id j) j q
     \<and> (\<forall>i k. tbl_get q i = Some k \<and> claimable T ty now k \<longrightarrow> job_run_at j0 \<le> job_run_at k)"
proof -
  from cl obtain j0 where f: "first_by job_run_at (filter (claimable T ty now) (rows q)) = Some j0"
    and j: "j = job_claimed w now j0" "q' = tbl_put (job_id j0) j q"
    by (auto simp: claim_def job_claimed_def Let_def split: option.splits)
  have mem: "j0 \<in> set (rows q)" "claimable T ty now j0" using first_by_Some(1) [OF f] by auto
  have min: "job_run_at j0 \<le> job_run_at k" if "tbl_get q i = Some k" "claimable T ty now k" for i k
    using that by (intro first_by_Some(2) [OF f]) (auto dest: rows_mem)
  have "tbl_get q (job_id j0) = Some j0"
    using mem ok rows_iff [of job_id q j0] by (simp add: jobs_ok_def)
  with mem min j show ?thesis by (intro exI [of _ j0]) (auto simp: job_claimed_def)
qed

lemma claim_NoneD:
  assumes "claim T w ty now q = (None, q')"
  shows "q' = q" and "tbl_get q i = Some k \<Longrightarrow> \<not> claimable T ty now k"
  using assms by (auto simp: claim_def filter_empty_conv Let_def dest: rows_mem split: option.splits)

lemma fail_job_InrD:
  assumes "fail_job jitter T i err now q = Inr (st, q')"
  shows "\<exists>j j'. tbl_get q i = Some j \<and> job_tenant_id j = T \<and> same_work j j' \<and> st = fail_verdict j
     \<and> job_status j' = st \<and> job_attempts j' = job_attempts j + 1 \<and> job_last_error j' = Some err
     \<and> q' = tbl_put i j' q"
proof -
  from assms obtain j where j: "tbl_get q i = Some j" "job_tenant_id j = T"
    by (auto simp: fail_job_def get_job_def scoped_get_Some split: option.splits)
  then have g: "get_job T i q = Some j" by (simp add: get_job_def scoped_get_Some)
  show ?thesis
  proof (cases "job_attempts j + 1 \<ge> job_max_attempts j")
    case True
    let ?j' = "j\<lparr>job_status := JOB_DEAD, job_attempts := job_attempts j + 1,
        job_last_error := Some err, job_updated_at := now\<rparr>"
    from True assms g have "st = JOB_DEAD" "q' = tbl_put i ?j' q"
      by (auto simp: fail_job_def Let_def)
    with True j show ?thesis
      by (intro exI [of _ j] exI [of _ ?j']) (simp add: fail_verdict_def same_work_def)
  next
    case False
    with assms g obtain d where d: "q' = tbl_put i (j\<lparr>job_status := JOB_PENDING,
        job_attempts := job_attempts j + 1, job_last_error := Some err, job_run_at := now + d,
        job_updated_at := now\<rparr>) q" "st = JOB_PENDING"
      by (auto simp: fail_job_def Let_def bind_result_eq_Inr)
    let ?j' = "j\<lparr>job_status := JOB_PENDING, job_attempts := job_attempts j + 1,
        job_last_error := Some err, job_run_at := now + d, job_updated_at := now\<rparr>"
    from False d j show ?thesis
      by (intro exI [of _ j] exI [of _ ?j']) (simp add: fail_verdict_def same_work_def)
  qed
qed

lemma job_ok_fail:
  "\<lbrakk>job_ok j; same_work j j'; job_status j' = fail_verdict j; job_attempts j' = job_attempts j + 1\<rbrakk>
   \<Longrightarrow> job_ok j'"
  by (auto simp: job_ok_def same_work_def fail_verdict_def)

lemma jobs_ok_claim: "jobs_ok q \<Longrightarrow> jobs_ok (snd (claim T w ty now q))"
proof -
  assume ok: "jobs_ok q"
  obtain r q' where c: "claim T w ty now q = (r, q')" by fastforce
  show ?thesis
  proof (cases r)
    case None
    with c ok claim_NoneD show ?thesis by fastforce
  next
    case (Some j)
    from claim_SomeD [OF ok c [unfolded Some]] obtain j0 where
      j0: "tbl_get q (job_id j) = Some j0" "claimable T ty now j0" "j = job_claimed w now j0"
        "q' = tbl_put (job_id j) j q" by blast
    then have "job_ok j" using ok
      by (auto simp: jobs_ok_def job_ok_def job_claimed_def claimable_def)
    with j0 ok c Some show ?thesis by (simp add: jobs_ok_put)
  qed
qed

lemma jobs_ok_complete: "jobs_ok q \<Longrightarrow> jobs_ok (complete_job T i now q)"
proof (cases "get_job T i q")
  case (Some j)
  assume ok: "jobs_ok q"
  from Some have "tbl_get q i = Some j" by (simp add: get_job_def scoped_get_Some)
  with ok have "job_id j = i" "job_ok j" by (auto simp: jobs_ok_def tbl_get_key)
  with ok Some show ?thesis by (simp add: complete_job_def jobs_ok_put job_ok_def)
qed (simp add: complete_job_def)

lemma jobs_ok_fail:
  assumes "jobs_ok q" and "fail_job jitter T i err now q = Inr (st, q')"
  shows "jobs_ok q'"
proof -
  from fail_job_InrD [OF assms(2)] obtain j j' where j: "tbl_get q i = Some j" "same_work j j'"
    "job_status j' = fail_verdict j" "job_attempts j' = job_attempts j + 1" "q' = tbl_put i j' q" by blast
  have "job_ok j" "job_id j = i" using j(1) assms(1) by (auto simp: jobs_ok_def tbl_get_key)
  then have "job_ok j'" "job_id j' = i" using j job_ok_fail by (auto simp: same_work_def)
  with j assms(1) show ?thesis by (simp add: jobs_ok_put)
qed

lemma jobs_ok_enqueue:
  "\<lbrakk>jobs_ok q; enqueue n T ty pay r now m q = Inr q'; 0 < m\<rbrakk> \<Longrightarrow> jobs_ok q'"
  by (auto simp: enqueue_def jobs_ok_def tbl_get_add job_ok_def elim!: tbl_ok_add [rotated 2])


interpretation tq: job_queue tbl_get claim complete_job fail_job jobs_ok
proof unfold_locales
  fix q q' :: jobs and T w ty now
  assume "jobs_ok q" and "claim T w ty now q = (None, q')"
  then show "q' = q \<and> (\<forall>i j. tbl_get q i = Some j \<longrightarrow> \<not> claimable T ty now j)"
    using claim_NoneD by blast
next
  fix q q' :: jobs and T w ty now j
  assume "jobs_ok q" and "claim T w ty now q = (Some j, q')"
  then obtain j0 where j0: "tbl_get q (job_id j) = Some j0" "claimable T ty now j0"
      "j = job_claimed w now j0" "q' = tbl_put (job_id j) j q"
      "\<forall>i k. tbl_get q i = Some k \<and> claimable T ty now k \<longrightarrow> job_run_at j0 \<le> job_run_at k"
    using claim_SomeD by blast
  have "tbl_get q' i = (if i = job_id j then Some j else tbl_get q i)" for i
    by (simp only: j0(4) tbl_get_put)
  with j0 show "\<exists>j0. tbl_get q (job_id j) = Some j0 \<and> claimable T ty now j0
      \<and> j = job_claimed w now j0 \<and> (\<forall>i. tbl_get q' i = (if i = job_id j then Some j else tbl_get q i))
      \<and> (\<forall>i k. tbl_get q i = Some k \<and> claimable T ty now k \<longrightarrow> job_run_at j0 \<le> job_run_at k)"
    by blast
next
  fix q :: jobs and T i now k
  show "tbl_get (complete_job T i now q) k =
        (case tbl_get q i of Some j \<Rightarrow> if k = i \<and> job_tenant_id j = T
           then Some (j\<lparr>job_status := JOB_SUCCEEDED, job_updated_at := now\<rparr>) else tbl_get q k
         | None \<Rightarrow> tbl_get q k)"
    by (simp add: complete_job_def get_job_def scoped_get_def tbl_get_put split: option.splits)
next
  fix q q' :: jobs and jitter T i err now st
  assume "fail_job jitter T i err now q = Inr (st, q')"
  from fail_job_InrD [OF this] show "\<exists>j j'. tbl_get q i = Some j \<and> job_tenant_id j = T
      \<and> same_work j j' \<and> st = fail_verdict j \<and> job_status j' = st
      \<and> job_attempts j' = job_attempts j + 1 \<and> job_last_error j' = Some err
      \<and> (\<forall>k. tbl_get q' k = (if k = i then Some j' else tbl_get q k))"
    by (elim exE conjE) (metis tbl_get_put)
next
  fix q :: jobs and jitter T i err now j
  assume "tbl_get q i = Some j" "job_tenant_id j = T" "job_attempts j < 1024"
  then show "\<exists>st q'. fail_job jitter T i err now q = Inr (st, q')"
    by (simp add: fail_job_def get_job_def scoped_get_def Let_def compute_backoff_def)
next
  show "jobs_ok q \<Longrightarrow> tbl_get q i = Some j \<Longrightarrow> job_id j = i" for q i j
    using tbl_get_key [of job_id q i j] by (simp add: jobs_ok_def)
qed (simp_all add: jobs_ok_claim jobs_ok_complete jobs_ok_fail)

section \<open>Sequences of operations\<close>

text \<open>
  One operation on the queue, labelled with the job it hands to a worker, if any; and a run
  of operations with the list of all jobs handed out.
\<close>

inductive queue_step :: "jobs \<Rightarrow> uuid option \<Rightarrow> jobs \<Rightarrow> bool" where
  enqueue_job: "enqueue n T ty pay r now m q = Inr q' \<Longrightarrow> 0 < m \<Longrightarrow> queue_step q None q'"
| claim_job: "claim T w ty now q = (Some j, q') \<Longrightarrow> queue_step q (Some (job_id j)) q'"
| claim_none: "claim T w ty now q = (None, q') \<Longrightarrow> queue_step q None q'"
| complete: "queue_step q None (complete_job T i now q)"
| fail: "fail_job jitter T i err now q = Inr (st, q') \<Longrightarrow> queue_step q None q'"
| reap: "reap_stuck jt T before now q = Inr (n, q') \<Longrightarrow> queue_step q None q'"

inductive queue_run :: "uuid list \<Rightarrow> jobs \<Rightarrow> bool" where
  start: "queue_run [] []"
| step: "queue_run cs q \<Longrightarrow> queue_step q c q'
    \<Longrightarrow> queue_run (case c of None \<Rightarrow> cs | Some i \<Rightarrow> i # cs) q'"

text \<open>A property that every failure keeps is kept by the sweep over the stuck jobs.\<close>

lemma reap_stuck_invariant:
  assumes reap: "reap_stuck jt T before now q = Inr (n, q')" and "P q"
    and step: "\<And>i jitter err s st s'. fail_job jitter T i err now s = Inr (st, s') \<Longrightarrow> P s \<Longrightarrow> P s'"
  shows "P q'"
proof -
  from reap obtain ids where
    "fold_result (\<lambda>i s. bind_result (fail_job (jt i) T i (stuck_error before) now s)
       (\<lambda>(_, s'). Inr s')) ids q = Inr q'"
    by (auto simp: reap_stuck_def Let_def bind_result_eq_Inr)
  then show ?thesis
    by (rule fold_result_invariant) (use assms(2) step in \<open>auto simp: bind_result_eq_Inr\<close>)
qed

lemma queue_step_ok: "\<lbrakk>queue_step q c q'; jobs_ok q\<rbrakk> \<Longrightarrow> jobs_ok q'"
proof (induction rule: queue_step.induct)
  case (claim_job T w ty now q j q')
  then show ?case using jobs_ok_claim [of q T w ty now] by simp
next
  case (claim_none T w ty now q q')
  then show ?case using claim_NoneD(1) by metis
next
  case (reap jt T before now q n q')
  then show ?case using reap_stuck_invariant [where P = jobs_ok] jobs_ok_fail by blast
qed (auto intro: jobs_ok_enqueue jobs_ok_complete jobs_ok_fail)

text \<open>Claims are paid for: each needs an attempt of the budget, or is the one running now.\<close>

definition claims_paid :: "uuid list \<Rightarrow> jobs \<Rightarrow> bool" where
  "claims_paid cs q \<longleftrightarrow>
     (\<forall>i. (tbl_get q i = None \<longrightarrow> count_list cs i = 0)
        \<and> (\<forall>j. tbl_get q i = Some j \<longrightarrow> int (count_list cs i) \<le> job_max_attempts j
             \<and> int (count_list cs i) \<le> job_attempts j
                 + (if job_status j \<in> {JOB_RUNNING, JOB_SUCCEEDED} then 1 else 0)))"

lemma claims_paid_fail:
  assumes f: "fail_job jitter T i err now q = Inr (st, q')" and paid: "claims_paid cs q"
  shows "claims_paid cs q'"
proof -
  from fail_job_InrD [OF f] obtain j j' where j: "tbl_get q i = Some j" "same_work j j'"
    "job_status j' = fail_verdict j" "job_attempts j' = job_attempts j + 1" "q' = tbl_put i j' q" by blast
  with paid have "int (count_list cs i) \<le> job_max_attempts j'" "int (count_list cs i) \<le> job_attempts j'"
    by (auto simp: claims_paid_def same_work_def split: if_splits dest!: spec [of _ i])
  with paid j(5) show ?thesis by (auto simp: claims_paid_def tbl_get_put fail_verdict_def)
qed

lemma claims_paid_claim:
  assumes ok: "jobs_ok q" and paid: "claims_paid cs q" and c: "claim T w ty now q = (Some j, q')"
  shows "claims_paid (job_id j # cs) q'"
proof -
  from claim_SomeD [OF ok c] obtain j0 where j0: "tbl_get q (job_id j) = Some j0"
    "claimable T ty now j0" "j = job_claimed w now j0" "q' = tbl_put (job_id j) j q" by blast
  then have "job_status j0 = JOB_PENDING" "job_ok j0"
    using ok by (auto simp: claimable_def jobs_ok_def)
  with paid j0(1) have "int (count_list cs (job_id j)) \<le> job_attempts j0"
    "job_attempts j0 < job_max_attempts j0"
    by (auto simp: claims_paid_def job_ok_def dest!: spec [of _ "job_id j"])
  with paid j0 show ?thesis
    by (auto simp: claims_paid_def tbl_get_put job_claimed_def)
qed

lemma claims_paid_complete:
  assumes "claims_paid cs q" shows "claims_paid cs (complete_job T i now q)"
proof (cases "get_job T i q")
  case (Some j)
  then have "tbl_get q i = Some j" by (simp add: get_job_def scoped_get_Some)
  with assms Some show ?thesis
    by (fastforce simp: claims_paid_def complete_job_def tbl_get_put split: if_splits)
qed (use assms in \<open>simp add: complete_job_def\<close>)

lemma claims_paid_enqueue:
  assumes e: "enqueue n T ty pay r now m q = Inr q'" and m: "0 < m" and paid: "claims_paid cs q"
  shows "claims_paid cs q'"
proof -
  have "tbl_get q n = None" using e tbl.add_fresh by (fastforce simp: enqueue_def)
  with paid have "count_list cs n = 0" by (simp add: claims_paid_def)
  with e m paid show ?thesis by (auto simp: claims_paid_def enqueue_def tbl_get_add)
qed

lemma queue_step_paid:
  "\<lbrakk>queue_step q c q'; jobs_ok q; claims_paid cs q\<rbrakk>
   \<Longrightarrow> claims_paid (case c of None \<Rightarrow> cs | Some i \<Rightarrow> i # cs) q'"
proof (induction rule: queue_step.induct)
  case (claim_none T w ty now q q')
  then show ?case using claim_NoneD(1) by fastforce
next
  case (reap jt T before now q n q')
  then show ?case using reap_stuck_invariant [where P = "claims_paid cs"] claims_paid_fail by fastforce
qed (auto intro: claims_paid_enqueue claims_paid_claim claims_paid_complete claims_paid_fail)

lemma queue_run_ok: "queue_run cs q \<Longrightarrow> jobs_ok q \<and> claims_paid cs q"
proof (induction rule: queue_run.induct)
  case start
  show ?case by (simp add: claims_paid_def tbl_get_def)
next
  case (step cs q c q')
  then show ?case using queue_step_ok queue_step_paid by blast
qed

section \<open>Properties\<close>

text \<open>
  C15: Bounded retries. In every sequence of enqueues, claims, completions, failures and reaper
  sweeps, by any tenants and workers, a job is handed to a worker at most \<open>max_attempts\<close> times.
\<close>

theorem job_handed_out_at_most:
  assumes "queue_run cs q" and "tbl_get q i = Some j"
  shows "int (count_list cs i) \<le> job_max_attempts j"
  using queue_run_ok [OF assms(1)] assms(2) by (simp add: claims_paid_def)

definition demo_pending :: task_queue_job where
  "demo_pending = \<lparr>job_id = 7, job_tenant_id = 1, job_type = ''t'', job_payload = [],
     job_status = JOB_PENDING, job_attempts = 0, job_max_attempts = 5, job_run_at = 3,
     job_claimed_at = None, job_claimed_by = None, job_last_error = None, job_created_at = 2,
     job_updated_at = 2\<rparr>"

lemma demo_run: "queue_run [7] [(7, job_claimed ''w'' 4 demo_pending)]"
proof -
  have "enqueue 7 1 ''t'' [] 3 2 5 [] = Inr [(7, demo_pending)]"
    by (simp add: enqueue_def tbl_add_def tbl_get_def demo_pending_def)
  from queue_step.enqueue_job [OF this] have "queue_run [] [(7, demo_pending)]"
    using queue_run.step [OF queue_run.start] by fastforce
  moreover have "claim 1 ''w'' (Some ''t'') 4 [(7, demo_pending)]
      = (Some (job_claimed ''w'' 4 demo_pending), [(7, job_claimed ''w'' 4 demo_pending)])"
    by (simp add: claim_def claimable_def first_by_def rows_def tbl_put_def job_claimed_def
        demo_pending_def Let_def)
  from queue_step.claim_job [OF this] have "queue_step [(7, demo_pending)] (Some 7)
      [(7, job_claimed ''w'' 4 demo_pending)]" by (simp add: job_claimed_def demo_pending_def)
  ultimately show ?thesis using queue_run.step by fastforce
qed

theorem job_handed_out_at_most_witness: "int (count_list [7] (7::uuid)) \<le> 5"
proof -
  have "tbl_get [(7, job_claimed ''w'' 4 demo_pending)] 7 = Some (job_claimed ''w'' 4 demo_pending)"
    by (simp add: tbl_get_def)
  from job_handed_out_at_most [OF demo_run this] show ?thesis
    by (simp add: job_claimed_def demo_pending_def)
qed

text \<open>
  A claim hands out the due pending job of the tenant and type that has waited longest, marks
  it running in the worker's name and changes nothing else; the next claim, whoever makes it,
  gets another job.
\<close>

theorem claim_oldest_exclusive:
  assumes "jobs_ok q" and "claim T w ty now q = (Some j, q')"
  shows "\<exists>j0. tbl_get q (job_id j) = Some j0 \<and> claimable T ty now j0 \<and> j = job_claimed w now j0
     \<and> (\<forall>i k. tbl_get q i = Some k \<and> claimable T ty now k \<longrightarrow> job_run_at j0 \<le> job_run_at k)
     \<and> (\<forall>i. tbl_get q' i = (if i = job_id j then Some j else tbl_get q i))
     \<and> (\<forall>T' w' ty' now' k q''. claim T' w' ty' now' q' = (Some k, q'') \<longrightarrow> job_id k \<noteq> job_id j)"
  using tq.claim_Some [OF assms] tq.claim_exclusive [OF assms] by blast

theorem claim_oldest_exclusive_witness:
  "\<exists>j q'. claim 1 ''w'' None 9 [(7, demo_pending)] = (Some j, q') \<and> job_id j = 7
     \<and> (\<forall>T' w' ty' now' k q''. claim T' w' ty' now' q' = (Some k, q'') \<longrightarrow> job_id k \<noteq> 7)"
proof -
  have ok: "jobs_ok [(7, demo_pending)]"
    by (simp add: jobs_ok_def job_ok_def tbl_ok_def tbl_get_def demo_pending_def)
  have c: "claim 1 ''w'' None 9 [(7, demo_pending)]
      = (Some (job_claimed ''w'' 9 demo_pending), [(7, job_claimed ''w'' 9 demo_pending)])"
    by (simp add: claim_def claimable_def first_by_def rows_def tbl_put_def job_claimed_def
        demo_pending_def Let_def)
  have id: "job_id (job_claimed ''w'' 9 demo_pending) = 7" by (simp add: job_claimed_def demo_pending_def)
  with claim_oldest_exclusive [OF ok c] have "\<forall>T' w' ty' now' k q''.
      claim T' w' ty' now' [(7, job_claimed ''w'' 9 demo_pending)] = (Some k, q'') \<longrightarrow> job_id k \<noteq> 7"
    by metis
  with c id show ?thesis by blast
qed

text \<open>
  The retry delay is never negative and never exceeds five minutes, whatever the attempt, and
  the ceiling it is drawn under never shrinks from one attempt to the next.
\<close>

theorem backoff_bounded_and_growing:
  assumes "0 \<le> jitter" and "jitter \<le> 1" and "attempt \<le> 1024"
  shows "(\<exists>d. compute_backoff attempt jitter = Inr d \<and> 0 \<le> d \<and> d \<le> minutes 5)
     \<and> (\<forall>earlier \<le> attempt. backoff_ceiling earlier \<le> backoff_ceiling attempt)"
  using compute_backoff_bounds [OF assms] backoff_ceiling_mono
  by (simp_all add: timedelta_defs)

theorem backoff_bounded_and_growing_witness:
  "\<exists>d. compute_backoff 9 1 = Inr d \<and> 0 \<le> d \<and> d \<le> minutes 5"
  using backoff_bounded_and_growing [of 1 9] by simp

end
