(* ===== verification/Lifecycle.thy ===== *)
theory Lifecycle
  imports Main
begin

text \<open>
  The contract every stateful entity shares: its methods move a status only along the edges
  of the entity's diagram and never touch the identifying fields. The lemmas hold for any
  sequence of method calls; each entity's theory interprets the locale on its own methods.
\<close>

locale lifecycle =
  fixes step :: "'e \<Rightarrow> 'e \<Rightarrow> bool"
    and status :: "'e \<Rightarrow> 's"
    and edge :: "'s \<Rightarrow> 's \<Rightarrow> bool"
    and ident :: "'e \<Rightarrow> 'k"
  assumes step_edge: "step e e' \<Longrightarrow> edge (status e) (status e')"
    and step_ident: "step e e' \<Longrightarrow> ident e' = ident e"
begin

lemma steps_edges: "step\<^sup>*\<^sup>* e e' \<Longrightarrow> edge\<^sup>*\<^sup>* (status e) (status e')"
  by (induction rule: rtranclp_induct) (auto intro: rtranclp.rtrancl_into_rtrancl step_edge)

lemma steps_ident: "step\<^sup>*\<^sup>* e e' \<Longrightarrow> ident e' = ident e"
  by (induction rule: rtranclp_induct) (auto dest: step_ident)

lemma steps_closed:
  assumes "step\<^sup>*\<^sup>* e e'" and "status e \<in> S" and "\<And>s s'. \<lbrakk>s \<in> S; edge s s'\<rbrakk> \<Longrightarrow> s' \<in> S"
  shows "status e' \<in> S"
  using assms by (induction rule: rtranclp_induct) (auto dest: step_edge)

lemma terminal_frozen:
  assumes "step\<^sup>*\<^sup>* e e'" and "\<And>s. \<not> edge (status e) s"
  shows "e' = e"
  using assms by (metis converse_rtranclpE step_edge)

text \<open>A rank that no edge raises: a status of higher rank is never reached again.\<close>

lemma steps_rank:
  fixes rank :: "'s \<Rightarrow> nat"
  assumes "step\<^sup>*\<^sup>* e e'" and "\<And>s s'. edge s s' \<Longrightarrow> rank s' \<le> rank s"
  shows "rank (status e') \<le> rank (status e)"
  using assms by (induction rule: rtranclp_induct) (auto dest!: step_edge intro: order_trans)

end

end
