(* ===== verification/Publication_Entity.thy ===== *)
theory Publication_Entity
  imports Json Lifecycle
begin

text \<open>
  entities/publication.py: one row per attempted post to a channel, its six statuses and the
  methods that move them. A method that raises returns the error; one that succeeds returns
  the changed row. \<open>publication_step\<close> is one successful method call.
\<close>

datatype publication_status = PUB_SCHEDULED | PUB_DISPATCHING | PUB_PUBLISHED | PUB_FAILED
  | PUB_DEAD | PUB_CANCELLED

fun publication_status_value :: "publication_status \<Rightarrow> string" where
  "publication_status_value PUB_SCHEDULED = ''scheduled''"
| "publication_status_value PUB_DISPATCHING = ''dispatching''"
| "publication_status_value PUB_PUBLISHED = ''published''"
| "publication_status_value PUB_FAILED = ''failed''"
| "publication_status_value PUB_DEAD = ''dead''"
| "publication_status_value PUB_CANCELLED = ''cancelled''"

text \<open>The payload \<open>CreatePublication\<close> builds: caption, media asset ids as strings, link.\<close>

record publication_payload =
  pay_caption :: string
  pay_media_asset_ids :: "string list"
  pay_link :: "string option"

record channel_metrics =
  met_impressions :: "int option"
  met_likes :: "int option"
  met_clicks :: "int option"

record publication =
  pub_id :: uuid
  pub_tenant_id :: uuid
  pub_variant_id :: uuid
  pub_channel_id :: uuid
  pub_content_draft_id :: "uuid option"
  pub_idempotency_key :: string
  pub_status :: publication_status
  pub_due_at :: datetime
  pub_published_at :: "datetime option"
  pub_external_post_id :: "string option"
  pub_permalink :: "string option"
  pub_payload :: publication_payload
  pub_attempts :: int
  pub_last_error :: "string option"
  pub_metrics :: "channel_metrics option"
  pub_metrics_fetched_at :: "datetime option"
  pub_created_at :: datetime
  pub_updated_at :: datetime

text \<open>
  \<open>new_publication_id()\<close> and \<open>uuid4().hex\<close> are random: both are arguments here.
\<close>

definition Publication_create ::
  "uuid \<Rightarrow> uuid \<Rightarrow> uuid \<Rightarrow> uuid \<Rightarrow> uuid \<Rightarrow> uuid option \<Rightarrow> publication_payload \<Rightarrow> datetime option
   \<Rightarrow> datetime \<Rightarrow> publication" where
  "Publication_create new_id key_uuid tenant_id variant_id channel_id content_draft_id payload due_at now =
     \<lparr>pub_id = new_id,
      pub_tenant_id = tenant_id,
      pub_variant_id = variant_id,
      pub_channel_id = channel_id,
      pub_content_draft_id = content_draft_id,
      pub_idempotency_key = uuid_hex key_uuid,
      pub_status = PUB_SCHEDULED,
      pub_due_at = (case due_at of Some d \<Rightarrow> d | None \<Rightarrow> now),
      pub_published_at = None,
      pub_external_post_id = None,
      pub_permalink = None,
      pub_payload = payload,
      pub_attempts = 0,
      pub_last_error = None,
      pub_metrics = None,
      pub_metrics_fetched_at = None,
      pub_created_at = now,
      pub_updated_at = now\<rparr>"

definition Publication_defer_dispatch :: "datetime \<Rightarrow> datetime \<Rightarrow> publication \<Rightarrow> publication result" where
  "Publication_defer_dispatch until now p =
     (if pub_status p \<noteq> PUB_SCHEDULED
      then Inl (ValidationError (''Cannot defer dispatch from status ''
             @ quoted (publication_status_value (pub_status p)) @ ''.''))
      else Inr (p\<lparr>pub_due_at := until, pub_updated_at := now\<rparr>))"

definition Publication_mark_dispatching :: "datetime \<Rightarrow> publication \<Rightarrow> publication result" where
  "Publication_mark_dispatching now p =
     (if pub_status p \<notin> {PUB_SCHEDULED, PUB_FAILED}
      then Inl (ValidationError (''Cannot start dispatching from status ''
             @ quoted (publication_status_value (pub_status p)) @ ''.''))
      else Inr (p\<lparr>pub_status := PUB_DISPATCHING, pub_updated_at := now\<rparr>))"

definition Publication_mark_published ::
  "string \<Rightarrow> string option \<Rightarrow> datetime \<Rightarrow> publication \<Rightarrow> publication result" where
  "Publication_mark_published external_post_id permalink now p =
     (if pub_status p \<noteq> PUB_DISPATCHING
      then Inl (ValidationError (''Cannot publish from status ''
             @ quoted (publication_status_value (pub_status p)) @ ''.''))
      else Inr (p\<lparr>pub_status := PUB_PUBLISHED, pub_external_post_id := Some external_post_id,
                  pub_permalink := permalink, pub_published_at := Some now, pub_updated_at := now\<rparr>))"

definition Publication_record_attempt_failure ::
  "string \<Rightarrow> bool \<Rightarrow> datetime \<Rightarrow> publication \<Rightarrow> publication result" where
  "Publication_record_attempt_failure error terminal now p =
     (if pub_status p \<noteq> PUB_DISPATCHING
      then Inl (ValidationError (''Cannot fail from status ''
             @ quoted (publication_status_value (pub_status p)) @ ''.''))
      else Inr (p\<lparr>pub_attempts := pub_attempts p + 1, pub_last_error := Some error,
                  pub_status := (if terminal then PUB_DEAD else PUB_FAILED), pub_updated_at := now\<rparr>))"

definition Publication_defer ::
  "string \<Rightarrow> datetime \<Rightarrow> datetime \<Rightarrow> publication \<Rightarrow> publication result" where
  "Publication_defer reason due_at now p =
     (if pub_status p \<noteq> PUB_DISPATCHING
      then Inl (ValidationError (''Cannot defer from status ''
             @ quoted (publication_status_value (pub_status p)) @ ''.''))
      else Inr (p\<lparr>pub_last_error := Some reason, pub_status := PUB_SCHEDULED, pub_due_at := due_at,
                  pub_updated_at := now\<rparr>))"

definition Publication_cancel :: "datetime \<Rightarrow> publication \<Rightarrow> publication result" where
  "Publication_cancel now p =
     (if pub_status p \<noteq> PUB_SCHEDULED
      then Inl (ValidationError (''Cannot cancel from status ''
             @ quoted (publication_status_value (pub_status p)) @ ''.''))
      else Inr (p\<lparr>pub_status := PUB_CANCELLED, pub_updated_at := now\<rparr>))"

definition Publication_mark_metrics_fetch_attempted :: "datetime \<Rightarrow> publication \<Rightarrow> publication result" where
  "Publication_mark_metrics_fetch_attempted now p =
     (if pub_status p \<noteq> PUB_PUBLISHED
      then Inl (ValidationError (''Cannot fetch metrics from status ''
             @ quoted (publication_status_value (pub_status p)) @ ''.''))
      else Inr (p\<lparr>pub_metrics_fetched_at := Some now, pub_updated_at := now\<rparr>))"

definition Publication_record_metrics ::
  "channel_metrics \<Rightarrow> datetime \<Rightarrow> publication \<Rightarrow> publication result" where
  "Publication_record_metrics metrics now p =
     (if pub_status p \<noteq> PUB_PUBLISHED
      then Inl (ValidationError (''Cannot fetch metrics from status ''
             @ quoted (publication_status_value (pub_status p)) @ ''.''))
      else Inr (p\<lparr>pub_metrics := Some metrics, pub_updated_at := now\<rparr>))"

lemmas Publication_method_defs = Publication_defer_dispatch_def Publication_mark_dispatching_def
  Publication_mark_published_def Publication_record_attempt_failure_def Publication_defer_def
  Publication_cancel_def Publication_mark_metrics_fetch_attempted_def Publication_record_metrics_def

section \<open>The life cycle\<close>

inductive publication_step :: "publication \<Rightarrow> publication \<Rightarrow> bool" where
  defer_dispatch: "Publication_defer_dispatch until now p = Inr p' \<Longrightarrow> publication_step p p'"
| mark_dispatching: "Publication_mark_dispatching now p = Inr p' \<Longrightarrow> publication_step p p'"
| mark_published: "Publication_mark_published ext link now p = Inr p' \<Longrightarrow> publication_step p p'"
| record_attempt_failure:
    "Publication_record_attempt_failure err terminal now p = Inr p' \<Longrightarrow> publication_step p p'"
| defer_due: "Publication_defer reason due now p = Inr p' \<Longrightarrow> publication_step p p'"
| cancel: "Publication_cancel now p = Inr p' \<Longrightarrow> publication_step p p'"
| metrics_attempted:
    "Publication_mark_metrics_fetch_attempted now p = Inr p' \<Longrightarrow> publication_step p p'"
| record_metrics: "Publication_record_metrics m now p = Inr p' \<Longrightarrow> publication_step p p'"

inductive_cases publication_stepE [elim]: "publication_step p p'"

text \<open>
  The diagram of the module's docstring (docs/DIAGRAMS.md): \<open>scheduled\<close> to \<open>dispatching\<close> to
  \<open>published\<close>, \<open>dispatching\<close> to \<open>failed\<close> and back, \<open>failed\<close> to \<open>dead\<close> (in the code the
  edge starts at \<open>dispatching\<close>), \<open>scheduled\<close> to \<open>cancelled\<close>, the deferral of a rate-limited
  attempt, and the two methods that keep the status.
\<close>

fun publication_edge :: "publication_status \<Rightarrow> publication_status \<Rightarrow> bool" where
  "publication_edge PUB_SCHEDULED t = (t \<in> {PUB_SCHEDULED, PUB_DISPATCHING, PUB_CANCELLED})"
| "publication_edge PUB_DISPATCHING t = (t \<in> {PUB_PUBLISHED, PUB_FAILED, PUB_DEAD, PUB_SCHEDULED})"
| "publication_edge PUB_FAILED t = (t = PUB_DISPATCHING)"
| "publication_edge PUB_PUBLISHED t = (t = PUB_PUBLISHED)"
| "publication_edge PUB_DEAD t = False"
| "publication_edge PUB_CANCELLED t = False"

text \<open>What no method ever writes.\<close>

definition publication_ident :: "publication \<Rightarrow> uuid \<times> uuid \<times> uuid \<times> uuid \<times> uuid option \<times> string
    \<times> publication_payload \<times> datetime" where
  "publication_ident p = (pub_id p, pub_tenant_id p, pub_variant_id p, pub_channel_id p,
     pub_content_draft_id p, pub_idempotency_key p, pub_payload p, pub_created_at p)"

lemma publication_step_edge:
  "publication_step p p' \<Longrightarrow> publication_edge (pub_status p) (pub_status p')"
  by (erule publication_stepE)
     (auto simp: Publication_method_defs split: if_splits)

lemma publication_step_ident: "publication_step p p' \<Longrightarrow> publication_ident p' = publication_ident p"
  by (erule publication_stepE)
     (auto simp: Publication_method_defs publication_ident_def split: if_splits)

interpretation pub_life: lifecycle publication_step pub_status publication_edge publication_ident
  by unfold_locales (simp_all add: publication_step_edge publication_step_ident)

text \<open>A publication is live (single flight) while it is scheduled, dispatching or failed.\<close>

definition LIVE_STATUSES :: "publication_status list" where
  "LIVE_STATUSES = [PUB_SCHEDULED, PUB_DISPATCHING, PUB_FAILED]"

definition pub_live :: "publication \<Rightarrow> bool" where
  "pub_live p \<longleftrightarrow> pub_status p \<in> set LIVE_STATUSES"

lemma pub_live_step: "\<lbrakk>publication_step p p'; pub_live p'\<rbrakk> \<Longrightarrow> pub_live p"
  by (drule publication_step_edge)
     (cases "pub_status p"; auto simp: pub_live_def LIVE_STATUSES_def)

text \<open>Attempts count failures only, one each; they never decrease.\<close>

lemma publication_step_attempts:
  "publication_step p p' \<Longrightarrow> pub_attempts p' = pub_attempts p
     + (if pub_status p = PUB_DISPATCHING \<and> pub_status p' \<in> {PUB_FAILED, PUB_DEAD} then 1 else 0)"
  by (erule publication_stepE)
     (auto simp: Publication_method_defs split: if_splits)

lemma publication_steps_attempts: "publication_step\<^sup>*\<^sup>* p p' \<Longrightarrow> pub_attempts p \<le> pub_attempts p'"
  by (induction rule: rtranclp_induct) (auto dest: publication_step_attempts split: if_splits)

text \<open>
  Whatever sequence of its methods is called, a publication keeps its identity, its idempotency
  key and its payload, never loses a counted attempt, stays published once published, and does
  not change at all once dead or cancelled.
\<close>

theorem publication_lifecycle:
  assumes "publication_step\<^sup>*\<^sup>* p p'"
  shows "publication_ident p' = publication_ident p \<and> pub_attempts p \<le> pub_attempts p'
     \<and> (pub_status p = PUB_PUBLISHED \<longrightarrow> pub_status p' = PUB_PUBLISHED)
     \<and> (pub_status p \<in> {PUB_DEAD, PUB_CANCELLED} \<longrightarrow> p' = p)"
proof -
  have "pub_status p' = PUB_PUBLISHED" if "pub_status p = PUB_PUBLISHED"
    using pub_life.steps_closed [OF assms, of "{PUB_PUBLISHED}"] that by simp
  moreover have "p' = p" if "pub_status p \<in> {PUB_DEAD, PUB_CANCELLED}"
    using pub_life.terminal_frozen [OF assms] that by auto
  ultimately show ?thesis using pub_life.steps_ident [OF assms] publication_steps_attempts [OF assms] by blast
qed

definition demo_row :: publication where
  "demo_row = Publication_create 1 2 3 4 5 None
     \<lparr>pay_caption = [], pay_media_asset_ids = [], pay_link = None\<rparr> None 0"

theorem publication_lifecycle_witness:
  "publication_ident (demo_row\<lparr>pub_status := PUB_CANCELLED, pub_updated_at := 9\<rparr>)
     = publication_ident demo_row"
proof -
  have "Publication_cancel 9 demo_row = Inr (demo_row\<lparr>pub_status := PUB_CANCELLED, pub_updated_at := 9\<rparr>)"
    by (simp add: Publication_cancel_def demo_row_def Publication_create_def)
  from publication_lifecycle [OF r_into_rtranclp [of publication_step, OF publication_step.cancel [OF this]]]
  show ?thesis by blast
qed

end
