(* ===== verification/Generation_Entities.thy ===== *)
theory Generation_Entities
  imports Json Lifecycle
begin

text \<open>
  entities/generation_item.py, entities/generation_request.py and entities/catalog_image.py:
  the attempt log, the request it belongs to and the current image of a slot, each with its
  methods and its life cycle.
\<close>

section \<open>Generation items\<close>

datatype generation_item_status = ITEM_PENDING | ITEM_RUNNING | ITEM_SUCCEEDED | ITEM_FAILED | ITEM_DEAD

fun generation_item_status_value :: "generation_item_status \<Rightarrow> string" where
  "generation_item_status_value ITEM_PENDING = ''pending''"
| "generation_item_status_value ITEM_RUNNING = ''running''"
| "generation_item_status_value ITEM_SUCCEEDED = ''succeeded''"
| "generation_item_status_value ITEM_FAILED = ''failed''"
| "generation_item_status_value ITEM_DEAD = ''dead''"

record generation_item =
  gi_id :: uuid
  gi_tenant_id :: uuid
  gi_request_id :: uuid
  gi_catalog_image_slot_id :: uuid
  gi_template_id :: uuid
  gi_attempt_no :: int
  gi_status :: generation_item_status
  gi_provider :: string
  gi_model :: string
  gi_model_params :: "(string, json) dict"
  gi_seed :: int
  gi_prompt_rendered :: string
  gi_prompt_version :: string
  gi_input_asset_ids :: "uuid list"
  gi_output_asset_id :: "uuid option"
  gi_cost_micros :: "int option"
  gi_latency_ms :: "int option"
  gi_error_code :: "string option"
  gi_error_detail :: "string option"
  gi_created_at :: datetime

definition GenerationItem_create ::
  "uuid \<Rightarrow> uuid \<Rightarrow> uuid \<Rightarrow> uuid \<Rightarrow> uuid \<Rightarrow> int
      \<Rightarrow> string \<Rightarrow> string \<Rightarrow> (string, json) dict \<Rightarrow> int
      \<Rightarrow> string \<Rightarrow> string \<Rightarrow> uuid list \<Rightarrow> datetime
      \<Rightarrow> generation_item" where
  "GenerationItem_create new_id tenant_id request_id catalog_image_slot_id template_id attempt_no
      provider model model_params seed prompt_rendered prompt_version input_asset_ids now =
     \<lparr>gi_id = new_id,
      gi_tenant_id = tenant_id,
      gi_request_id = request_id,
      gi_catalog_image_slot_id = catalog_image_slot_id,
      gi_template_id = template_id,
      gi_attempt_no = attempt_no,
      gi_status = ITEM_PENDING,
      gi_provider = provider,
      gi_model = model,
      gi_model_params = model_params,
      gi_seed = seed,
      gi_prompt_rendered = prompt_rendered,
      gi_prompt_version = prompt_version,
      gi_input_asset_ids = input_asset_ids,
      gi_output_asset_id = None,
      gi_cost_micros = None,
      gi_latency_ms = None,
      gi_error_code = None,
      gi_error_detail = None,
      gi_created_at = now\<rparr>"

definition GenerationItem_mark_running ::
  "generation_item \<Rightarrow> generation_item result" where
  "GenerationItem_mark_running self =
     (if gi_status self \<notin> {ITEM_PENDING, ITEM_FAILED}
      then Inl (ValidationError (''Cannot start running from status ''
          @ quoted (generation_item_status_value (gi_status self)) @ ''.''))
      else Inr (self\<lparr>gi_status := ITEM_RUNNING\<rparr>))"

definition GenerationItem_mark_succeeded ::
  "uuid \<Rightarrow> int \<Rightarrow> int \<Rightarrow> generation_item
      \<Rightarrow> generation_item result" where
  "GenerationItem_mark_succeeded output_asset_id cost_micros latency_ms self =
     (if gi_status self \<noteq> ITEM_RUNNING
      then Inl (ValidationError (''Cannot succeed from status ''
          @ quoted (generation_item_status_value (gi_status self)) @ ''.''))
      else Inr (self\<lparr>gi_status := ITEM_SUCCEEDED, gi_output_asset_id := Some output_asset_id,
          gi_cost_micros := Some cost_micros, gi_latency_ms := Some latency_ms\<rparr>))"

definition GenerationItem_mark_failed ::
  "string \<Rightarrow> string \<Rightarrow> generation_item \<Rightarrow> generation_item result" where
  "GenerationItem_mark_failed error_code error_detail self =
     (if gi_status self \<noteq> ITEM_RUNNING
      then Inl (ValidationError (''Cannot fail from status ''
          @ quoted (generation_item_status_value (gi_status self)) @ ''.''))
      else Inr (self\<lparr>gi_status := ITEM_FAILED, gi_error_code := Some error_code,
          gi_error_detail := Some error_detail\<rparr>))"

definition GenerationItem_mark_dead ::
  "generation_item \<Rightarrow> generation_item result" where
  "GenerationItem_mark_dead self =
     (if gi_status self \<noteq> ITEM_FAILED
      then Inl (ValidationError (''Cannot deadletter from status ''
          @ quoted (generation_item_status_value (gi_status self)) @ ''.''))
      else Inr (self\<lparr>gi_status := ITEM_DEAD\<rparr>))"

lemmas GenerationItem_method_defs = GenerationItem_mark_running_def GenerationItem_mark_succeeded_def
    GenerationItem_mark_failed_def GenerationItem_mark_dead_def

inductive generation_item_step :: "generation_item \<Rightarrow> generation_item \<Rightarrow> bool" where
  mark_running: "GenerationItem_mark_running e = Inr e' \<Longrightarrow> generation_item_step e e'"
| mark_succeeded: "GenerationItem_mark_succeeded a0 a1 a2 e = Inr e'
    \<Longrightarrow> generation_item_step e e'"
| mark_failed: "GenerationItem_mark_failed a0 a1 e = Inr e' \<Longrightarrow> generation_item_step e e'"
| mark_dead: "GenerationItem_mark_dead e = Inr e' \<Longrightarrow> generation_item_step e e'"

inductive_cases generation_item_stepE: "generation_item_step e e'"

text \<open>The diagram \<open>generation_item\<close> of docs/DIAGRAMS.md; the lineage of an attempt is fixed at creation.\<close>

fun generation_item_edge :: "generation_item_status \<Rightarrow> generation_item_status \<Rightarrow> bool" where
  "generation_item_edge ITEM_PENDING t = (t \<in> {ITEM_RUNNING})"
| "generation_item_edge ITEM_RUNNING t = (t \<in> {ITEM_SUCCEEDED, ITEM_FAILED})"
| "generation_item_edge ITEM_SUCCEEDED t = False"
| "generation_item_edge ITEM_FAILED t = (t \<in> {ITEM_RUNNING, ITEM_DEAD})"
| "generation_item_edge ITEM_DEAD t = False"

definition generation_item_ident :: "generation_item \<Rightarrow> uuid \<times> uuid \<times> uuid
    \<times> uuid \<times> uuid \<times> int \<times> string \<times> string \<times> ((string,
    json) dict) \<times> int \<times> string \<times> string \<times> (uuid list)
    \<times> datetime" where
  "generation_item_ident e = (gi_id e, gi_tenant_id e, gi_request_id e, gi_catalog_image_slot_id e,
    gi_template_id e, gi_attempt_no e, gi_provider e, gi_model e, gi_model_params e, gi_seed e,
    gi_prompt_rendered e, gi_prompt_version e, gi_input_asset_ids e, gi_created_at e)"

lemma generation_item_step_edge: "generation_item_step e e'
    \<Longrightarrow> generation_item_edge (gi_status e) (gi_status e')"
  by (erule generation_item_stepE; cases "gi_status e") (auto simp:
    GenerationItem_method_defs split: if_splits)

lemma generation_item_step_ident: "generation_item_step e e'
    \<Longrightarrow> generation_item_ident e' = generation_item_ident e"
  by (erule generation_item_stepE) (auto simp:
    GenerationItem_method_defs generation_item_ident_def split: if_splits)

interpretation gi_life: lifecycle generation_item_step gi_status generation_item_edge generation_item_ident
  by unfold_locales (simp_all add: generation_item_step_edge generation_item_step_ident)

section \<open>Generation requests\<close>

datatype generation_request_status = REQ_QUEUED | REQ_RUNNING | REQ_SUCCEEDED | REQ_PARTIALLY_FAILED | REQ_FAILED | REQ_CANCELLED

fun generation_request_status_value :: "generation_request_status \<Rightarrow> string" where
  "generation_request_status_value REQ_QUEUED = ''queued''"
| "generation_request_status_value REQ_RUNNING = ''running''"
| "generation_request_status_value REQ_SUCCEEDED = ''succeeded''"
| "generation_request_status_value REQ_PARTIALLY_FAILED = ''partially_failed''"
| "generation_request_status_value REQ_FAILED = ''failed''"
| "generation_request_status_value REQ_CANCELLED = ''cancelled''"

record generation_request =
  gr_id :: uuid
  gr_tenant_id :: uuid
  gr_product_id :: uuid
  gr_variant_id :: uuid
  gr_spec_version_id :: uuid
  gr_status :: generation_request_status
  gr_settings_snapshot :: "(string, json) dict"
  gr_quota_reservation_id :: "uuid option"
  gr_requested_by :: uuid
  gr_created_at :: datetime
  gr_completed_at :: "datetime option"

definition GenerationRequest_create ::
  "uuid \<Rightarrow> uuid \<Rightarrow> uuid \<Rightarrow> uuid \<Rightarrow> uuid
      \<Rightarrow> (string, json) dict \<Rightarrow> uuid option \<Rightarrow> uuid
      \<Rightarrow> datetime \<Rightarrow> generation_request" where
  "GenerationRequest_create new_id tenant_id product_id variant_id spec_version_id settings_snapshot
      quota_reservation_id requested_by now =
     \<lparr>gr_id = new_id,
      gr_tenant_id = tenant_id,
      gr_product_id = product_id,
      gr_variant_id = variant_id,
      gr_spec_version_id = spec_version_id,
      gr_status = REQ_QUEUED,
      gr_settings_snapshot = settings_snapshot,
      gr_quota_reservation_id = quota_reservation_id,
      gr_requested_by = requested_by,
      gr_created_at = now,
      gr_completed_at = None\<rparr>"

definition GenerationRequest_mark_running ::
  "datetime \<Rightarrow> generation_request \<Rightarrow> generation_request result" where
  "GenerationRequest_mark_running now self =
     (if gr_status self \<noteq> REQ_QUEUED
      then Inl (ValidationError (''Cannot start running from status ''
          @ quoted (generation_request_status_value (gr_status self)) @ ''.''))
      else Inr (self\<lparr>gr_status := REQ_RUNNING\<rparr>))"

definition GenerationRequest_mark_terminal ::
  "generation_request_status \<Rightarrow> datetime \<Rightarrow> generation_request
      \<Rightarrow> generation_request result" where
  "GenerationRequest_mark_terminal status now self =
     (if gr_status self \<noteq> REQ_RUNNING
      then Inl (ValidationError (''Cannot settle from status ''
          @ quoted (generation_request_status_value (gr_status self)) @ ''.''))
      else Inr (self\<lparr>gr_status := status, gr_completed_at := Some now\<rparr>))"

definition GenerationRequest_mark_succeeded :: "datetime \<Rightarrow> generation_request \<Rightarrow> generation_request result" where
  "GenerationRequest_mark_succeeded now self = GenerationRequest_mark_terminal REQ_SUCCEEDED now self"

definition GenerationRequest_mark_partially_failed :: "datetime \<Rightarrow> generation_request \<Rightarrow> generation_request result" where
  "GenerationRequest_mark_partially_failed now self = GenerationRequest_mark_terminal REQ_PARTIALLY_FAILED now self"

definition GenerationRequest_mark_failed :: "datetime \<Rightarrow> generation_request \<Rightarrow> generation_request result" where
  "GenerationRequest_mark_failed now self = GenerationRequest_mark_terminal REQ_FAILED now self"

lemmas GenerationRequest_method_defs = GenerationRequest_mark_running_def
    GenerationRequest_mark_succeeded_def GenerationRequest_mark_partially_failed_def
    GenerationRequest_mark_failed_def GenerationRequest_mark_terminal_def

inductive generation_request_step :: "generation_request \<Rightarrow> generation_request \<Rightarrow> bool" where
  mark_running: "GenerationRequest_mark_running a0 e = Inr e'
    \<Longrightarrow> generation_request_step e e'"
| mark_succeeded: "GenerationRequest_mark_succeeded a0 e = Inr e'
    \<Longrightarrow> generation_request_step e e'"
| mark_partially_failed: "GenerationRequest_mark_partially_failed a0 e = Inr e'
    \<Longrightarrow> generation_request_step e e'"
| mark_failed: "GenerationRequest_mark_failed a0 e = Inr e'
    \<Longrightarrow> generation_request_step e e'"

inductive_cases generation_request_stepE: "generation_request_step e e'"

text \<open>A request settles once; no method cancels one.\<close>

fun generation_request_edge :: "generation_request_status \<Rightarrow> generation_request_status \<Rightarrow> bool" where
  "generation_request_edge REQ_QUEUED t = (t \<in> {REQ_RUNNING})"
| "generation_request_edge REQ_RUNNING t = (t \<in> {REQ_SUCCEEDED, REQ_PARTIALLY_FAILED, REQ_FAILED})"
| "generation_request_edge REQ_SUCCEEDED t = False"
| "generation_request_edge REQ_PARTIALLY_FAILED t = False"
| "generation_request_edge REQ_FAILED t = False"
| "generation_request_edge REQ_CANCELLED t = False"

definition generation_request_ident :: "generation_request \<Rightarrow> uuid \<times> uuid
    \<times> uuid \<times> uuid \<times> uuid \<times> ((string, json) dict) \<times> (uuid option)
    \<times> uuid \<times> datetime" where
  "generation_request_ident e = (gr_id e, gr_tenant_id e, gr_product_id e, gr_variant_id e,
    gr_spec_version_id e, gr_settings_snapshot e, gr_quota_reservation_id e, gr_requested_by e,
    gr_created_at e)"

lemma generation_request_step_edge: "generation_request_step e e'
    \<Longrightarrow> generation_request_edge (gr_status e) (gr_status e')"
  by (erule generation_request_stepE; cases "gr_status e") (auto simp:
    GenerationRequest_method_defs split: if_splits)

lemma generation_request_step_ident: "generation_request_step e e'
    \<Longrightarrow> generation_request_ident e' = generation_request_ident e"
  by (erule generation_request_stepE) (auto simp:
    GenerationRequest_method_defs generation_request_ident_def split: if_splits)

interpretation gr_life: lifecycle generation_request_step gr_status generation_request_edge generation_request_ident
  by unfold_locales (simp_all add: generation_request_step_edge generation_request_step_ident)

section \<open>Catalog images\<close>

datatype catalog_image_status = IMG_PENDING_QC | IMG_QC_FAILED | IMG_HUMAN_REVIEW | IMG_PENDING_APPROVAL | IMG_APPROVED | IMG_REJECTED

fun catalog_image_status_value :: "catalog_image_status \<Rightarrow> string" where
  "catalog_image_status_value IMG_PENDING_QC = ''pending_qc''"
| "catalog_image_status_value IMG_QC_FAILED = ''qc_failed''"
| "catalog_image_status_value IMG_HUMAN_REVIEW = ''human_review''"
| "catalog_image_status_value IMG_PENDING_APPROVAL = ''pending_approval''"
| "catalog_image_status_value IMG_APPROVED = ''approved''"
| "catalog_image_status_value IMG_REJECTED = ''rejected''"

record catalog_image =
  ci_id :: uuid
  ci_tenant_id :: uuid
  ci_variant_id :: uuid
  ci_catalog_image_slot_id :: uuid
  ci_asset_id :: uuid
  ci_generation_item_id :: uuid
  ci_status :: catalog_image_status
  ci_qc_result :: "((string, json) dict) option"
  ci_is_primary :: bool
  ci_approved_by :: "uuid option"
  ci_approved_at :: "datetime option"
  ci_rejection_reason :: "string option"
  ci_superseded_by :: "uuid option"
  ci_created_at :: datetime
  ci_updated_at :: datetime

definition CatalogImage_create ::
  "uuid \<Rightarrow> uuid \<Rightarrow> uuid \<Rightarrow> uuid \<Rightarrow> uuid \<Rightarrow> uuid
      \<Rightarrow> datetime \<Rightarrow> bool \<Rightarrow> catalog_image" where
  "CatalogImage_create new_id tenant_id variant_id catalog_image_slot_id asset_id generation_item_id
      now is_primary =
     \<lparr>ci_id = new_id,
      ci_tenant_id = tenant_id,
      ci_variant_id = variant_id,
      ci_catalog_image_slot_id = catalog_image_slot_id,
      ci_asset_id = asset_id,
      ci_generation_item_id = generation_item_id,
      ci_status = IMG_PENDING_QC,
      ci_qc_result = None,
      ci_is_primary = is_primary,
      ci_approved_by = None,
      ci_approved_at = None,
      ci_rejection_reason = None,
      ci_superseded_by = None,
      ci_created_at = now,
      ci_updated_at = now\<rparr>"

definition CatalogImage_mark_superseded ::
  "uuid \<Rightarrow> datetime \<Rightarrow> catalog_image \<Rightarrow> catalog_image result" where
  "CatalogImage_mark_superseded by now self =
     (if ci_superseded_by self \<noteq> None
      then Inl (ValidationError (''Catalog image '' @ uuid_str (ci_id self)
          @ '' is already superseded.''))
      else Inr (self\<lparr>ci_superseded_by := Some by, ci_updated_at := now\<rparr>))"

definition CatalogImage_mark_qc_passed ::
  "(string, json) dict \<Rightarrow> datetime \<Rightarrow> catalog_image
      \<Rightarrow> catalog_image result" where
  "CatalogImage_mark_qc_passed qc_result now self =
     (if ci_status self \<noteq> IMG_PENDING_QC
      then Inl (ValidationError (''Cannot pass QC from status ''
          @ quoted (catalog_image_status_value (ci_status self)) @ ''.''))
      else Inr (self\<lparr>ci_status := IMG_PENDING_APPROVAL, ci_qc_result := Some qc_result,
          ci_updated_at := now\<rparr>))"

definition CatalogImage_mark_qc_failed ::
  "(string, json) dict \<Rightarrow> datetime \<Rightarrow> catalog_image
      \<Rightarrow> catalog_image result" where
  "CatalogImage_mark_qc_failed qc_result now self =
     (if ci_status self \<noteq> IMG_PENDING_QC
      then Inl (ValidationError (''Cannot fail QC from status ''
          @ quoted (catalog_image_status_value (ci_status self)) @ ''.''))
      else Inr (self\<lparr>ci_status := IMG_QC_FAILED, ci_qc_result := Some qc_result,
          ci_updated_at := now\<rparr>))"

definition CatalogImage_mark_human_review ::
  "string \<Rightarrow> datetime \<Rightarrow> catalog_image \<Rightarrow> catalog_image result" where
  "CatalogImage_mark_human_review reason now self =
     (if ci_status self \<noteq> IMG_QC_FAILED
      then Inl (ValidationError (''Cannot escalate to human review from status ''
          @ quoted (catalog_image_status_value (ci_status self)) @ ''.''))
      else Inr (self\<lparr>ci_status := IMG_HUMAN_REVIEW, ci_rejection_reason := Some reason,
          ci_updated_at := now\<rparr>))"

definition CatalogImage_approve ::
  "uuid option \<Rightarrow> datetime \<Rightarrow> catalog_image
      \<Rightarrow> catalog_image result" where
  "CatalogImage_approve approved_by now self =
     (if ci_status self \<noteq> IMG_PENDING_APPROVAL
      then Inl (ValidationError (''Cannot approve from status ''
          @ quoted (catalog_image_status_value (ci_status self)) @ ''.''))
      else Inr (self\<lparr>ci_status := IMG_APPROVED, ci_approved_by := approved_by,
          ci_approved_at := Some now, ci_updated_at := now\<rparr>))"

definition CatalogImage_reject ::
  "string \<Rightarrow> datetime \<Rightarrow> catalog_image \<Rightarrow> catalog_image result" where
  "CatalogImage_reject reason now self =
     (if ci_status self \<noteq> IMG_PENDING_APPROVAL
      then Inl (ValidationError (''Cannot reject from status ''
          @ quoted (catalog_image_status_value (ci_status self)) @ ''.''))
      else Inr (self\<lparr>ci_status := IMG_REJECTED, ci_rejection_reason := Some reason,
          ci_updated_at := now\<rparr>))"

lemmas CatalogImage_method_defs = CatalogImage_mark_superseded_def CatalogImage_mark_qc_passed_def
    CatalogImage_mark_qc_failed_def CatalogImage_mark_human_review_def CatalogImage_approve_def
    CatalogImage_reject_def

inductive catalog_image_step :: "catalog_image \<Rightarrow> catalog_image \<Rightarrow> bool" where
  mark_superseded: "CatalogImage_mark_superseded a0 a1 e = Inr e'
    \<Longrightarrow> catalog_image_step e e'"
| mark_qc_passed: "CatalogImage_mark_qc_passed a0 a1 e = Inr e'
    \<Longrightarrow> catalog_image_step e e'"
| mark_qc_failed: "CatalogImage_mark_qc_failed a0 a1 e = Inr e'
    \<Longrightarrow> catalog_image_step e e'"
| mark_human_review: "CatalogImage_mark_human_review a0 a1 e = Inr e'
    \<Longrightarrow> catalog_image_step e e'"
| approve: "CatalogImage_approve a0 a1 e = Inr e' \<Longrightarrow> catalog_image_step e e'"
| reject: "CatalogImage_reject a0 a1 e = Inr e' \<Longrightarrow> catalog_image_step e e'"

inductive_cases catalog_image_stepE: "catalog_image_step e e'"

text \<open>
  The diagram of D18 and D20: quality control first,
    then approval; \<open>human_review\<close> has no way
  out. Superseding keeps the status.
\<close>

fun catalog_image_edge :: "catalog_image_status \<Rightarrow> catalog_image_status \<Rightarrow> bool" where
  "catalog_image_edge IMG_PENDING_QC t = (t \<in> {IMG_PENDING_QC, IMG_PENDING_APPROVAL,
    IMG_QC_FAILED})"
| "catalog_image_edge IMG_QC_FAILED t = (t \<in> {IMG_QC_FAILED, IMG_HUMAN_REVIEW})"
| "catalog_image_edge IMG_HUMAN_REVIEW t = (t \<in> {IMG_HUMAN_REVIEW})"
| "catalog_image_edge IMG_PENDING_APPROVAL t = (t \<in> {IMG_PENDING_APPROVAL, IMG_APPROVED,
    IMG_REJECTED})"
| "catalog_image_edge IMG_APPROVED t = (t \<in> {IMG_APPROVED})"
| "catalog_image_edge IMG_REJECTED t = (t \<in> {IMG_REJECTED})"

definition catalog_image_ident :: "catalog_image \<Rightarrow> uuid \<times> uuid \<times> uuid
    \<times> uuid \<times> uuid \<times> uuid \<times> bool \<times> datetime" where
  "catalog_image_ident e = (ci_id e, ci_tenant_id e, ci_variant_id e, ci_catalog_image_slot_id e,
    ci_asset_id e, ci_generation_item_id e, ci_is_primary e, ci_created_at e)"

lemma catalog_image_step_edge: "catalog_image_step e e'
    \<Longrightarrow> catalog_image_edge (ci_status e) (ci_status e')"
  by (erule catalog_image_stepE; cases "ci_status e") (auto simp:
    CatalogImage_method_defs split: if_splits)

lemma catalog_image_step_ident: "catalog_image_step e e'
    \<Longrightarrow> catalog_image_ident e' = catalog_image_ident e"
  by (erule catalog_image_stepE) (auto simp:
    CatalogImage_method_defs catalog_image_ident_def split: if_splits)

interpretation ci_life: lifecycle catalog_image_step ci_status catalog_image_edge catalog_image_ident
  by unfold_locales (simp_all add: catalog_image_step_edge catalog_image_step_ident)

end
