(* ===== verification/Content_Entities.thy ===== *)
theory Content_Entities
  imports Json Lifecycle
begin

text \<open>
  entities/content_draft.py (the copy of one variant for one channel and locale, with its
  approval life cycle) and entities/social_account.py (a connected channel account).
\<close>

section \<open>Content drafts\<close>

datatype content_draft_status = DRAFT_GENERATED | DRAFT_PENDING_APPROVAL | DRAFT_APPROVED | DRAFT_REJECTED

fun content_draft_status_value :: "content_draft_status \<Rightarrow> string" where
  "content_draft_status_value DRAFT_GENERATED = ''generated''"
| "content_draft_status_value DRAFT_PENDING_APPROVAL = ''pending_approval''"
| "content_draft_status_value DRAFT_APPROVED = ''approved''"
| "content_draft_status_value DRAFT_REJECTED = ''rejected''"

record content_draft =
  cd_id :: uuid
  cd_tenant_id :: uuid
  cd_variant_id :: uuid
  cd_channel :: string
  cd_locale :: string
  cd_title :: "string option"
  cd_body :: string
  cd_hashtags :: "string list"
  cd_cta :: "string option"
  cd_alt_text :: string
  cd_model :: string
  cd_prompt_version :: string
  cd_status :: content_draft_status
  cd_edited_by :: "uuid option"
  cd_approved_by :: "uuid option"
  cd_approved_at :: "datetime option"
  cd_rejection_reason :: "string option"
  cd_superseded_by :: "uuid option"
  cd_created_at :: datetime
  cd_updated_at :: datetime

definition ContentDraft_create ::
  "uuid \<Rightarrow> uuid \<Rightarrow> uuid \<Rightarrow> string \<Rightarrow> string
      \<Rightarrow> string \<Rightarrow> string \<Rightarrow> string \<Rightarrow> string
      \<Rightarrow> datetime \<Rightarrow> string option \<Rightarrow> string list option
      \<Rightarrow> string option \<Rightarrow> uuid option \<Rightarrow> content_draft" where
  "ContentDraft_create new_id tenant_id variant_id channel locale body alt_text model prompt_version
      now title hashtags cta edited_by =
     \<lparr>cd_id = new_id,
      cd_tenant_id = tenant_id,
      cd_variant_id = variant_id,
      cd_channel = channel,
      cd_locale = locale,
      cd_title = title,
      cd_body = body,
      cd_hashtags = (case hashtags of None \<Rightarrow> [] | Some d \<Rightarrow> d),
      cd_cta = cta,
      cd_alt_text = alt_text,
      cd_model = model,
      cd_prompt_version = prompt_version,
      cd_status = DRAFT_GENERATED,
      cd_edited_by = edited_by,
      cd_approved_by = None,
      cd_approved_at = None,
      cd_rejection_reason = None,
      cd_superseded_by = None,
      cd_created_at = now,
      cd_updated_at = now\<rparr>"

definition ContentDraft_mark_superseded ::
  "uuid \<Rightarrow> datetime \<Rightarrow> content_draft \<Rightarrow> content_draft result" where
  "ContentDraft_mark_superseded by now self =
     (if cd_superseded_by self \<noteq> None
      then Inl (ValidationError (''Content draft '' @ uuid_str (cd_id self)
          @ '' is already superseded.''))
      else Inr (self\<lparr>cd_superseded_by := Some by, cd_updated_at := now\<rparr>))"

definition ContentDraft_mark_pending_approval ::
  "datetime \<Rightarrow> content_draft \<Rightarrow> content_draft result" where
  "ContentDraft_mark_pending_approval now self =
     (if cd_status self \<noteq> DRAFT_GENERATED
      then Inl (ValidationError (''Cannot move to pending_approval from status ''
          @ quoted (content_draft_status_value (cd_status self)) @ ''.''))
      else Inr (self\<lparr>cd_status := DRAFT_PENDING_APPROVAL, cd_updated_at := now\<rparr>))"

definition ContentDraft_approve ::
  "uuid option \<Rightarrow> datetime \<Rightarrow> content_draft
      \<Rightarrow> content_draft result" where
  "ContentDraft_approve approved_by now self =
     (if cd_status self \<noteq> DRAFT_PENDING_APPROVAL
      then Inl (ValidationError (''Cannot approve from status ''
          @ quoted (content_draft_status_value (cd_status self)) @ ''.''))
      else Inr (self\<lparr>cd_status := DRAFT_APPROVED, cd_approved_by := approved_by,
          cd_approved_at := Some now, cd_updated_at := now\<rparr>))"

definition ContentDraft_reject ::
  "string \<Rightarrow> datetime \<Rightarrow> content_draft \<Rightarrow> content_draft result" where
  "ContentDraft_reject reason now self =
     (if cd_status self \<noteq> DRAFT_PENDING_APPROVAL
      then Inl (ValidationError (''Cannot reject from status ''
          @ quoted (content_draft_status_value (cd_status self)) @ ''.''))
      else Inr (self\<lparr>cd_status := DRAFT_REJECTED, cd_rejection_reason := Some reason,
          cd_updated_at := now\<rparr>))"

lemmas ContentDraft_method_defs = ContentDraft_mark_superseded_def
    ContentDraft_mark_pending_approval_def ContentDraft_approve_def ContentDraft_reject_def

inductive content_draft_step :: "content_draft \<Rightarrow> content_draft \<Rightarrow> bool" where
  mark_superseded: "ContentDraft_mark_superseded a0 a1 e = Inr e'
    \<Longrightarrow> content_draft_step e e'"
| mark_pending_approval: "ContentDraft_mark_pending_approval a0 e = Inr e'
    \<Longrightarrow> content_draft_step e e'"
| approve: "ContentDraft_approve a0 a1 e = Inr e' \<Longrightarrow> content_draft_step e e'"
| reject: "ContentDraft_reject a0 a1 e = Inr e' \<Longrightarrow> content_draft_step e e'"

inductive_cases content_draft_stepE: "content_draft_step e e'"

text \<open>The approval gate of D23; superseding keeps the status.\<close>

fun content_draft_edge :: "content_draft_status \<Rightarrow> content_draft_status \<Rightarrow> bool" where
  "content_draft_edge DRAFT_GENERATED t = (t \<in> {DRAFT_GENERATED, DRAFT_PENDING_APPROVAL})"
| "content_draft_edge DRAFT_PENDING_APPROVAL t = (t \<in> {DRAFT_PENDING_APPROVAL, DRAFT_APPROVED,
    DRAFT_REJECTED})"
| "content_draft_edge DRAFT_APPROVED t = (t \<in> {DRAFT_APPROVED})"
| "content_draft_edge DRAFT_REJECTED t = (t \<in> {DRAFT_REJECTED})"

definition content_draft_ident :: "content_draft \<Rightarrow> uuid \<times> uuid \<times> uuid
    \<times> string \<times> string \<times> (string option) \<times> string \<times> (string list)
    \<times> (string option) \<times> string \<times> string \<times> string \<times> (uuid option)
    \<times> datetime" where
  "content_draft_ident e = (cd_id e, cd_tenant_id e, cd_variant_id e, cd_channel e, cd_locale e,
    cd_title e, cd_body e, cd_hashtags e, cd_cta e, cd_alt_text e, cd_model e, cd_prompt_version e,
    cd_edited_by e, cd_created_at e)"

lemma content_draft_step_edge: "content_draft_step e e'
    \<Longrightarrow> content_draft_edge (cd_status e) (cd_status e')"
  by (erule content_draft_stepE; cases "cd_status e") (auto simp:
    ContentDraft_method_defs split: if_splits)

lemma content_draft_step_ident: "content_draft_step e e'
    \<Longrightarrow> content_draft_ident e' = content_draft_ident e"
  by (erule content_draft_stepE) (auto simp:
    ContentDraft_method_defs content_draft_ident_def split: if_splits)

interpretation cd_life: lifecycle content_draft_step cd_status content_draft_edge content_draft_ident
  by unfold_locales (simp_all add: content_draft_step_edge content_draft_step_ident)

section \<open>Social accounts\<close>

datatype social_account_status = ACCOUNT_CONNECTED

fun social_account_status_value :: "social_account_status \<Rightarrow> string" where
  "social_account_status_value ACCOUNT_CONNECTED = ''connected''"

record social_account =
  sa_id :: uuid
  sa_tenant_id :: uuid
  sa_provider :: string
  sa_external_account_id :: string
  sa_display_name :: string
  sa_credentials_encrypted :: "string option"
  sa_encryption_key_id :: "string option"
  sa_scopes :: "string list"
  sa_access_expires_at :: "datetime option"
  sa_refresh_expires_at :: "datetime option"
  sa_status :: social_account_status
  sa_last_error :: "string option"
  sa_created_at :: datetime
  sa_updated_at :: datetime

definition SocialAccount_create ::
  "uuid \<Rightarrow> uuid \<Rightarrow> string \<Rightarrow> string \<Rightarrow> string
      \<Rightarrow> string list option \<Rightarrow> datetime \<Rightarrow> social_account" where
  "SocialAccount_create new_id tenant_id provider external_account_id display_name scopes now =
     \<lparr>sa_id = new_id,
      sa_tenant_id = tenant_id,
      sa_provider = provider,
      sa_external_account_id = external_account_id,
      sa_display_name = display_name,
      sa_credentials_encrypted = None,
      sa_encryption_key_id = None,
      sa_scopes = (case scopes of None \<Rightarrow> [] | Some d \<Rightarrow> d),
      sa_access_expires_at = None,
      sa_refresh_expires_at = None,
      sa_status = ACCOUNT_CONNECTED,
      sa_last_error = None,
      sa_created_at = now,
      sa_updated_at = now\<rparr>"

end
