(* ===== verification/Catalog_Entities.thy ===== *)
theory Catalog_Entities
  imports Json Lifecycle
begin

text \<open>
  entities/product.py, product_variant.py, product_input_image.py, catalog_template.py and
  asset.py: what is photographed, generated from and sold, with the life cycles of products,
  input images and templates.
\<close>

section \<open>Products and variants\<close>

datatype product_status = PROD_DRAFT | PROD_READY | PROD_NEEDS_ATTENTION | PROD_GENERATING | PROD_REVIEW | PROD_REJECTED | PROD_APPROVED | PROD_PUBLISHING | PROD_PUBLISHED

fun product_status_value :: "product_status \<Rightarrow> string" where
  "product_status_value PROD_DRAFT = ''draft''"
| "product_status_value PROD_READY = ''ready''"
| "product_status_value PROD_NEEDS_ATTENTION = ''needs_attention''"
| "product_status_value PROD_GENERATING = ''generating''"
| "product_status_value PROD_REVIEW = ''review''"
| "product_status_value PROD_REJECTED = ''rejected''"
| "product_status_value PROD_APPROVED = ''approved''"
| "product_status_value PROD_PUBLISHING = ''publishing''"
| "product_status_value PROD_PUBLISHED = ''published''"

record product =
  prod_id :: uuid
  prod_tenant_id :: uuid
  prod_category_id :: uuid
  prod_spec_version_id :: uuid
  prod_attributes :: "(string, json) dict"
  prod_title :: "string option"
  prod_sku :: "string option"
  prod_price_amount :: "int option"
  prod_price_currency :: "string option"
  prod_status :: product_status
  prod_created_by :: uuid
  prod_created_at :: datetime
  prod_updated_at :: datetime

definition Product_create ::
  "uuid \<Rightarrow> uuid \<Rightarrow> uuid \<Rightarrow> uuid \<Rightarrow> (string, json) dict
      \<Rightarrow> uuid \<Rightarrow> datetime \<Rightarrow> string option
      \<Rightarrow> string option \<Rightarrow> int option \<Rightarrow> string option
      \<Rightarrow> product" where
  "Product_create new_id tenant_id category_id spec_version_id attributes created_by now title sku
      price_amount price_currency =
     \<lparr>prod_id = new_id,
      prod_tenant_id = tenant_id,
      prod_category_id = category_id,
      prod_spec_version_id = spec_version_id,
      prod_attributes = attributes,
      prod_title = title,
      prod_sku = sku,
      prod_price_amount = price_amount,
      prod_price_currency = price_currency,
      prod_status = PROD_DRAFT,
      prod_created_by = created_by,
      prod_created_at = now,
      prod_updated_at = now\<rparr>"

definition Product_mark_ready ::
  "datetime \<Rightarrow> product \<Rightarrow> product result" where
  "Product_mark_ready now self =
     (if prod_status self \<notin> {PROD_DRAFT, PROD_READY, PROD_NEEDS_ATTENTION}
      then Inl (ValidationError (''Cannot mark ready from status ''
          @ quoted (product_status_value (prod_status self)) @ ''.''))
      else Inr (self\<lparr>prod_status := PROD_READY, prod_updated_at := now\<rparr>))"

definition Product_mark_needs_attention ::
  "datetime \<Rightarrow> product \<Rightarrow> product result" where
  "Product_mark_needs_attention now self =
     (if prod_status self \<notin> {PROD_READY, PROD_NEEDS_ATTENTION}
      then Inl (ValidationError (''Only a ready product can need attention, not ''
          @ quoted (product_status_value (prod_status self)) @ ''.''))
      else Inr (self\<lparr>prod_status := PROD_NEEDS_ATTENTION, prod_updated_at := now\<rparr>))"

lemmas Product_method_defs = Product_mark_ready_def Product_mark_needs_attention_def

inductive product_step :: "product \<Rightarrow> product \<Rightarrow> bool" where
  mark_ready: "Product_mark_ready a0 e = Inr e' \<Longrightarrow> product_step e e'"
| mark_needs_attention: "Product_mark_needs_attention a0 e = Inr e' \<Longrightarrow> product_step e e'"

inductive_cases product_stepE: "product_step e e'"

text \<open>Only the readiness part of the diagram has methods; \<open>draft\<close> is never reached again.\<close>

fun product_edge :: "product_status \<Rightarrow> product_status \<Rightarrow> bool" where
  "product_edge PROD_DRAFT t = (t \<in> {PROD_READY})"
| "product_edge PROD_READY t = (t \<in> {PROD_READY, PROD_NEEDS_ATTENTION})"
| "product_edge PROD_NEEDS_ATTENTION t = (t \<in> {PROD_READY, PROD_NEEDS_ATTENTION})"
| "product_edge PROD_GENERATING t = False"
| "product_edge PROD_REVIEW t = False"
| "product_edge PROD_REJECTED t = False"
| "product_edge PROD_APPROVED t = False"
| "product_edge PROD_PUBLISHING t = False"
| "product_edge PROD_PUBLISHED t = False"

definition product_ident :: "product \<Rightarrow> uuid \<times> uuid \<times> uuid \<times> uuid
    \<times> ((string, json) dict) \<times> (string option) \<times> (string option)
    \<times> (int option) \<times> (string option) \<times> uuid \<times> datetime" where
  "product_ident e = (prod_id e, prod_tenant_id e, prod_category_id e, prod_spec_version_id e,
    prod_attributes e, prod_title e, prod_sku e, prod_price_amount e, prod_price_currency e,
    prod_created_by e, prod_created_at e)"

lemma product_step_edge: "product_step e e'
    \<Longrightarrow> product_edge (prod_status e) (prod_status e')"
  by (erule product_stepE; cases "prod_status e") (auto simp: Product_method_defs split: if_splits)

lemma product_step_ident: "product_step e e' \<Longrightarrow> product_ident e' = product_ident e"
  by (erule product_stepE) (auto simp: Product_method_defs product_ident_def split: if_splits)

interpretation prod_life: lifecycle product_step prod_status product_edge product_ident
  by unfold_locales (simp_all add: product_step_edge product_step_ident)

record product_variant =
  pv_id :: uuid
  pv_tenant_id :: uuid
  pv_product_id :: uuid
  pv_sku :: "string option"
  pv_axis_values :: "(string, string) dict"
  pv_attributes :: "(string, json) dict"
  pv_status :: product_status
  pv_is_default :: bool
  pv_position :: int
  pv_created_by :: uuid
  pv_created_at :: datetime
  pv_updated_at :: datetime

definition ProductVariant_create ::
  "uuid \<Rightarrow> uuid \<Rightarrow> uuid \<Rightarrow> (string, string) dict \<Rightarrow> uuid
      \<Rightarrow> datetime \<Rightarrow> string option \<Rightarrow> ((string, json) dict) option
      \<Rightarrow> bool \<Rightarrow> int \<Rightarrow> product_variant" where
  "ProductVariant_create new_id tenant_id product_id axis_values created_by now sku attributes
      is_default position =
     \<lparr>pv_id = new_id,
      pv_tenant_id = tenant_id,
      pv_product_id = product_id,
      pv_sku = sku,
      pv_axis_values = axis_values,
      pv_attributes = (case attributes of None \<Rightarrow> [] | Some d \<Rightarrow> d),
      pv_status = PROD_DRAFT,
      pv_is_default = is_default,
      pv_position = position,
      pv_created_by = created_by,
      pv_created_at = now,
      pv_updated_at = now\<rparr>"

section \<open>Input images\<close>

datatype input_image_status = INPUT_CAPTURED | INPUT_VALIDATING | INPUT_NORMALISING | INPUT_READY | INPUT_REJECTED

fun input_image_status_value :: "input_image_status \<Rightarrow> string" where
  "input_image_status_value INPUT_CAPTURED = ''captured''"
| "input_image_status_value INPUT_VALIDATING = ''validating''"
| "input_image_status_value INPUT_NORMALISING = ''normalising''"
| "input_image_status_value INPUT_READY = ''ready''"
| "input_image_status_value INPUT_REJECTED = ''rejected''"

record product_input_image =
  pii_id :: uuid
  pii_tenant_id :: uuid
  pii_product_id :: uuid
  pii_variant_id :: "uuid option"
  pii_input_image_slot_id :: uuid
  pii_asset_id :: uuid
  pii_normalised_asset_id :: "uuid option"
  pii_status :: input_image_status
  pii_rejection_reason :: "string option"
  pii_created_by :: uuid
  pii_created_at :: datetime
  pii_updated_at :: datetime

definition ProductInputImage_create ::
  "uuid \<Rightarrow> uuid \<Rightarrow> uuid \<Rightarrow> uuid \<Rightarrow> uuid \<Rightarrow> uuid
      \<Rightarrow> datetime \<Rightarrow> uuid option \<Rightarrow> product_input_image" where
  "ProductInputImage_create new_id tenant_id product_id input_image_slot_id asset_id created_by now
      variant_id =
     \<lparr>pii_id = new_id,
      pii_tenant_id = tenant_id,
      pii_product_id = product_id,
      pii_variant_id = variant_id,
      pii_input_image_slot_id = input_image_slot_id,
      pii_asset_id = asset_id,
      pii_normalised_asset_id = None,
      pii_status = INPUT_CAPTURED,
      pii_rejection_reason = None,
      pii_created_by = created_by,
      pii_created_at = now,
      pii_updated_at = now\<rparr>"

definition ProductInputImage_start_validating ::
  "datetime \<Rightarrow> product_input_image \<Rightarrow> product_input_image result" where
  "ProductInputImage_start_validating now self =
     (if pii_status self \<noteq> INPUT_CAPTURED
      then Inl (ValidationError (''Cannot start validation from status ''
          @ quoted (input_image_status_value (pii_status self)) @ ''.''))
      else Inr (self\<lparr>pii_status := INPUT_VALIDATING, pii_updated_at := now\<rparr>))"

definition ProductInputImage_mark_ready ::
  "datetime \<Rightarrow> product_input_image \<Rightarrow> product_input_image result" where
  "ProductInputImage_mark_ready now self =
     (if pii_status self \<noteq> INPUT_VALIDATING
      then Inl (ValidationError (''Cannot mark ready from status ''
          @ quoted (input_image_status_value (pii_status self)) @ ''.''))
      else Inr (self\<lparr>pii_status := INPUT_READY, pii_rejection_reason := None,
          pii_updated_at := now\<rparr>))"

definition ProductInputImage_mark_rejected ::
  "string \<Rightarrow> datetime \<Rightarrow> product_input_image
      \<Rightarrow> product_input_image result" where
  "ProductInputImage_mark_rejected reason now self =
     (if pii_status self \<noteq> INPUT_VALIDATING
      then Inl (ValidationError (''Cannot reject from status ''
          @ quoted (input_image_status_value (pii_status self)) @ ''.''))
      else Inr (self\<lparr>pii_status := INPUT_REJECTED, pii_rejection_reason := Some reason,
          pii_updated_at := now\<rparr>))"

lemmas ProductInputImage_method_defs = ProductInputImage_start_validating_def
    ProductInputImage_mark_ready_def ProductInputImage_mark_rejected_def

inductive product_input_image_step :: "product_input_image \<Rightarrow> product_input_image \<Rightarrow> bool" where
  start_validating: "ProductInputImage_start_validating a0 e = Inr e'
    \<Longrightarrow> product_input_image_step e e'"
| mark_ready: "ProductInputImage_mark_ready a0 e = Inr e'
    \<Longrightarrow> product_input_image_step e e'"
| mark_rejected: "ProductInputImage_mark_rejected a0 a1 e = Inr e'
    \<Longrightarrow> product_input_image_step e e'"

inductive_cases product_input_image_stepE: "product_input_image_step e e'"

text \<open>The module's docstring: \<open>normalising\<close> is never entered.\<close>

fun product_input_image_edge :: "input_image_status \<Rightarrow> input_image_status \<Rightarrow> bool" where
  "product_input_image_edge INPUT_CAPTURED t = (t \<in> {INPUT_VALIDATING})"
| "product_input_image_edge INPUT_VALIDATING t = (t \<in> {INPUT_READY, INPUT_REJECTED})"
| "product_input_image_edge INPUT_NORMALISING t = False"
| "product_input_image_edge INPUT_READY t = False"
| "product_input_image_edge INPUT_REJECTED t = False"

definition product_input_image_ident :: "product_input_image \<Rightarrow> uuid \<times> uuid
    \<times> uuid \<times> (uuid option) \<times> uuid \<times> uuid \<times> (uuid option)
    \<times> uuid \<times> datetime" where
  "product_input_image_ident e = (pii_id e, pii_tenant_id e, pii_product_id e, pii_variant_id e,
    pii_input_image_slot_id e, pii_asset_id e, pii_normalised_asset_id e, pii_created_by e,
    pii_created_at e)"

lemma product_input_image_step_edge: "product_input_image_step e e'
    \<Longrightarrow> product_input_image_edge (pii_status e) (pii_status e')"
  by (erule product_input_image_stepE; cases "pii_status e") (auto simp:
    ProductInputImage_method_defs split: if_splits)

lemma product_input_image_step_ident: "product_input_image_step e e'
    \<Longrightarrow> product_input_image_ident e' = product_input_image_ident e"
  by (erule product_input_image_stepE) (auto simp:
    ProductInputImage_method_defs product_input_image_ident_def split: if_splits)

interpretation pii_life: lifecycle product_input_image_step pii_status product_input_image_edge product_input_image_ident
  by unfold_locales (simp_all add: product_input_image_step_edge product_input_image_step_ident)

section \<open>Templates\<close>

datatype template_kind = TPL_ANALYSED_IMAGE | TPL_AUTHORED_SCENE

fun template_kind_value :: "template_kind \<Rightarrow> string" where
  "template_kind_value TPL_ANALYSED_IMAGE = ''analysed_image''"
| "template_kind_value TPL_AUTHORED_SCENE = ''authored_scene''"

datatype template_status = TPL_UPLOADED | TPL_ANALYSING | TPL_ANALYSED | TPL_ANALYSIS_FAILED | TPL_INVALID | TPL_ARCHIVED

fun template_status_value :: "template_status \<Rightarrow> string" where
  "template_status_value TPL_UPLOADED = ''uploaded''"
| "template_status_value TPL_ANALYSING = ''analysing''"
| "template_status_value TPL_ANALYSED = ''analysed''"
| "template_status_value TPL_ANALYSIS_FAILED = ''analysis_failed''"
| "template_status_value TPL_INVALID = ''invalid''"
| "template_status_value TPL_ARCHIVED = ''archived''"

record catalog_template =
  ct_id :: uuid
  ct_tenant_id :: uuid
  ct_catalog_image_slot_id :: uuid
  ct_name :: string
  ct_version :: int
  ct_is_default :: bool
  ct_position :: int
  ct_kind :: template_kind
  ct_source_asset_id :: "uuid option"
  ct_status :: template_status
  ct_analysis :: "((string, json) dict) option"
  ct_prompt_template :: "string option"
  ct_prompt_version :: "int option"
  ct_analysis_model :: "string option"
  ct_analysed_at :: "datetime option"
  ct_analysis_error :: "string option"
  ct_created_by :: uuid
  ct_created_at :: datetime
  ct_updated_at :: datetime

definition CatalogTemplate_create_from_upload ::
  "uuid \<Rightarrow> uuid \<Rightarrow> uuid \<Rightarrow> string \<Rightarrow> uuid
      \<Rightarrow> uuid \<Rightarrow> datetime \<Rightarrow> int \<Rightarrow> bool \<Rightarrow> int
      \<Rightarrow> catalog_template" where
  "CatalogTemplate_create_from_upload new_id tenant_id catalog_image_slot_id name source_asset_id
      created_by now version is_default position =
     \<lparr>ct_id = new_id,
      ct_tenant_id = tenant_id,
      ct_catalog_image_slot_id = catalog_image_slot_id,
      ct_name = name,
      ct_version = version,
      ct_is_default = is_default,
      ct_position = position,
      ct_kind = TPL_ANALYSED_IMAGE,
      ct_source_asset_id = Some source_asset_id,
      ct_status = TPL_UPLOADED,
      ct_analysis = None,
      ct_prompt_template = None,
      ct_prompt_version = None,
      ct_analysis_model = None,
      ct_analysed_at = None,
      ct_analysis_error = None,
      ct_created_by = created_by,
      ct_created_at = now,
      ct_updated_at = now\<rparr>"

definition CatalogTemplate_create_authored ::
  "uuid \<Rightarrow> uuid \<Rightarrow> uuid \<Rightarrow> string \<Rightarrow> string
      \<Rightarrow> uuid \<Rightarrow> datetime \<Rightarrow> int \<Rightarrow> bool \<Rightarrow> int
      \<Rightarrow> catalog_template" where
  "CatalogTemplate_create_authored new_id tenant_id catalog_image_slot_id name prompt_template
      created_by now version is_default position =
     \<lparr>ct_id = new_id,
      ct_tenant_id = tenant_id,
      ct_catalog_image_slot_id = catalog_image_slot_id,
      ct_name = name,
      ct_version = version,
      ct_is_default = is_default,
      ct_position = position,
      ct_kind = TPL_AUTHORED_SCENE,
      ct_source_asset_id = None,
      ct_status = TPL_UPLOADED,
      ct_analysis = None,
      ct_prompt_template = Some prompt_template,
      ct_prompt_version = Some 1,
      ct_analysis_model = None,
      ct_analysed_at = None,
      ct_analysis_error = None,
      ct_created_by = created_by,
      ct_created_at = now,
      ct_updated_at = now\<rparr>"

definition CatalogTemplate_start_analysing ::
  "datetime \<Rightarrow> catalog_template \<Rightarrow> catalog_template result" where
  "CatalogTemplate_start_analysing now self =
     (if ct_status self \<noteq> TPL_UPLOADED
      then Inl (ValidationError (''Cannot start analysis from status ''
          @ quoted (template_status_value (ct_status self)) @ ''.''))
      else Inr (self\<lparr>ct_status := TPL_ANALYSING, ct_updated_at := now\<rparr>))"

definition CatalogTemplate_mark_analysed ::
  "string \<Rightarrow> ((string, json) dict) option \<Rightarrow> string option
      \<Rightarrow> datetime \<Rightarrow> catalog_template \<Rightarrow> catalog_template result" where
  "CatalogTemplate_mark_analysed prompt_template analysis analysis_model now self =
     (if ct_status self \<noteq> TPL_ANALYSING
      then Inl (ValidationError (''Cannot complete analysis from status ''
          @ quoted (template_status_value (ct_status self)) @ ''.''))
      else Inr (self\<lparr>ct_status := TPL_ANALYSED, ct_prompt_template := Some prompt_template,
          ct_analysis := analysis, ct_analysis_model := analysis_model, ct_analysed_at := Some now,
          ct_analysis_error := None, ct_updated_at := now\<rparr>))"

definition CatalogTemplate_mark_invalid ::
  "string \<Rightarrow> datetime \<Rightarrow> catalog_template
      \<Rightarrow> catalog_template result" where
  "CatalogTemplate_mark_invalid reason now self =
     (if ct_status self \<noteq> TPL_ANALYSING
      then Inl (ValidationError (''Cannot invalidate a template from status ''
          @ quoted (template_status_value (ct_status self)) @ ''.''))
      else Inr (self\<lparr>ct_status := TPL_INVALID, ct_analysis_error := Some reason,
          ct_updated_at := now\<rparr>))"

definition CatalogTemplate_mark_analysis_failed ::
  "string \<Rightarrow> datetime \<Rightarrow> catalog_template
      \<Rightarrow> catalog_template result" where
  "CatalogTemplate_mark_analysis_failed reason now self =
     (if ct_status self \<noteq> TPL_ANALYSING
      then Inl (ValidationError (''Cannot fail analysis from status ''
          @ quoted (template_status_value (ct_status self)) @ ''.''))
      else Inr (self\<lparr>ct_status := TPL_ANALYSIS_FAILED, ct_analysis_error := Some reason,
          ct_updated_at := now\<rparr>))"

definition CatalogTemplate_retry_analysis ::
  "datetime \<Rightarrow> catalog_template \<Rightarrow> catalog_template result" where
  "CatalogTemplate_retry_analysis now self =
     (if ct_status self \<noteq> TPL_ANALYSIS_FAILED
      then Inl (ValidationError (''Cannot retry analysis from status ''
          @ quoted (template_status_value (ct_status self)) @ ''.''))
      else Inr (self\<lparr>ct_status := TPL_UPLOADED, ct_analysis_error := None,
          ct_updated_at := now\<rparr>))"

definition CatalogTemplate_archive ::
  "datetime \<Rightarrow> catalog_template \<Rightarrow> catalog_template result" where
  "CatalogTemplate_archive now self =
     (if ct_status self \<noteq> TPL_ANALYSED
      then Inl (ValidationError ''Only an analysed template can be archived.'')
      else Inr (self\<lparr>ct_status := TPL_ARCHIVED, ct_updated_at := now\<rparr>))"

lemmas CatalogTemplate_method_defs = CatalogTemplate_start_analysing_def
    CatalogTemplate_mark_analysed_def CatalogTemplate_mark_invalid_def
    CatalogTemplate_mark_analysis_failed_def CatalogTemplate_retry_analysis_def
    CatalogTemplate_archive_def

inductive catalog_template_step :: "catalog_template \<Rightarrow> catalog_template \<Rightarrow> bool" where
  start_analysing: "CatalogTemplate_start_analysing a0 e = Inr e'
    \<Longrightarrow> catalog_template_step e e'"
| mark_analysed: "CatalogTemplate_mark_analysed a0 a1 a2 a3 e = Inr e'
    \<Longrightarrow> catalog_template_step e e'"
| mark_invalid: "CatalogTemplate_mark_invalid a0 a1 e = Inr e'
    \<Longrightarrow> catalog_template_step e e'"
| mark_analysis_failed: "CatalogTemplate_mark_analysis_failed a0 a1 e = Inr e'
    \<Longrightarrow> catalog_template_step e e'"
| retry_analysis: "CatalogTemplate_retry_analysis a0 e = Inr e'
    \<Longrightarrow> catalog_template_step e e'"
| archive: "CatalogTemplate_archive a0 e = Inr e' \<Longrightarrow> catalog_template_step e e'"

inductive_cases catalog_template_stepE: "catalog_template_step e e'"

text \<open>The diagram in the module's docstring.\<close>

fun catalog_template_edge :: "template_status \<Rightarrow> template_status \<Rightarrow> bool" where
  "catalog_template_edge TPL_UPLOADED t = (t \<in> {TPL_ANALYSING})"
| "catalog_template_edge TPL_ANALYSING t = (t \<in> {TPL_ANALYSED, TPL_INVALID, TPL_ANALYSIS_FAILED})"
| "catalog_template_edge TPL_ANALYSED t = (t \<in> {TPL_ARCHIVED})"
| "catalog_template_edge TPL_ANALYSIS_FAILED t = (t \<in> {TPL_UPLOADED})"
| "catalog_template_edge TPL_INVALID t = False"
| "catalog_template_edge TPL_ARCHIVED t = False"

definition catalog_template_ident :: "catalog_template \<Rightarrow> uuid \<times> uuid \<times> uuid
    \<times> string \<times> int \<times> bool \<times> int \<times> template_kind
    \<times> (uuid option) \<times> (int option) \<times> uuid \<times> datetime" where
  "catalog_template_ident e = (ct_id e, ct_tenant_id e, ct_catalog_image_slot_id e, ct_name e,
    ct_version e, ct_is_default e, ct_position e, ct_kind e, ct_source_asset_id e,
    ct_prompt_version e, ct_created_by e, ct_created_at e)"

lemma catalog_template_step_edge: "catalog_template_step e e'
    \<Longrightarrow> catalog_template_edge (ct_status e) (ct_status e')"
  by (erule catalog_template_stepE; cases "ct_status e") (auto simp:
    CatalogTemplate_method_defs split: if_splits)

lemma catalog_template_step_ident: "catalog_template_step e e'
    \<Longrightarrow> catalog_template_ident e' = catalog_template_ident e"
  by (erule catalog_template_stepE) (auto simp:
    CatalogTemplate_method_defs catalog_template_ident_def split: if_splits)

interpretation ct_life: lifecycle catalog_template_step ct_status catalog_template_edge catalog_template_ident
  by unfold_locales (simp_all add: catalog_template_step_edge catalog_template_step_ident)

section \<open>Assets\<close>

datatype asset_kind = ASSET_TEMPLATE | ASSET_INPUT | ASSET_GENERATED | ASSET_DERIVATIVE

fun asset_kind_value :: "asset_kind \<Rightarrow> string" where
  "asset_kind_value ASSET_TEMPLATE = ''template''"
| "asset_kind_value ASSET_INPUT = ''input''"
| "asset_kind_value ASSET_GENERATED = ''generated''"
| "asset_kind_value ASSET_DERIVATIVE = ''derivative''"

record asset =
  asset_id :: uuid
  asset_tenant_id :: uuid
  asset_storage_key :: string
  asset_sha256 :: string
  asset_mime :: string
  asset_width :: int
  asset_height :: int
  asset_bytes :: int
  asset_kind :: asset_kind
  asset_source :: string
  asset_parent_asset_id :: "uuid option"
  asset_meta :: "(string, json) dict"
  asset_uploaded_by :: "uuid option"
  asset_created_at :: datetime

definition Asset_create ::
  "uuid \<Rightarrow> uuid \<Rightarrow> string \<Rightarrow> string \<Rightarrow> string
      \<Rightarrow> int \<Rightarrow> int \<Rightarrow> int \<Rightarrow> asset_kind
      \<Rightarrow> string \<Rightarrow> datetime \<Rightarrow> uuid option
      \<Rightarrow> ((string, json) dict) option \<Rightarrow> uuid option \<Rightarrow> asset result" where
  "Asset_create new_id tenant_id storage_key sha256 mime width height nbytes kind source now
      parent_asset_id meta uploaded_by =
     (let sha256_lower = lower sha256 in
      if length sha256_lower \<noteq> 64 \<or> (\<exists>c \<in> set sha256_lower. c \<notin> set ''0123456789abcdef'')
      then Inl (ValidationError ''sha256 must be 64 hex characters'')
      else if width \<le> 0 \<or> height \<le> 0
      then Inl (ValidationError ''width and height must be positive'')
      else if nbytes \<le> 0
      then Inl (ValidationError ''bytes must be positive'')
      else Inr \<lparr>asset_id = new_id,
         asset_tenant_id = tenant_id,
         asset_storage_key = storage_key,
         asset_sha256 = sha256_lower,
         asset_mime = mime,
         asset_width = width,
         asset_height = height,
         asset_bytes = nbytes,
         asset_kind = kind,
         asset_source = source,
         asset_parent_asset_id = parent_asset_id,
         asset_meta = (case meta of None \<Rightarrow> [] | Some d \<Rightarrow> d),
         asset_uploaded_by = uploaded_by,
         asset_created_at = now\<rparr>)"

end
