(* ===== verification/Taxonomy_Entities.thy ===== *)
theory Taxonomy_Entities
  imports Json
begin

text \<open>
  The tenant's own taxonomy: entities/spec_key.py, category.py, attribute_definition.py,
  variant_axis.py, image_slots.py, catalog_slot_input_requirement.py,
  category_spec_version.py and setting.py; and the shape of the spec snapshot
  (services/spec_snapshot.py) and of its change list (services/spec_change_classification.py)
  that a spec version stores.
\<close>

section \<open>Keys\<close>

text \<open>
  \<open>re.match\<close> of \<open>^[a-z][a-z0-9_]*$\<close>: the dollar sign also matches before one newline at the end.
\<close>

definition key_start :: "char \<Rightarrow> bool" where
  "key_start c \<longleftrightarrow> c \<in> set ''abcdefghijklmnopqrstuvwxyz''"

definition key_char :: "char \<Rightarrow> bool" where
  "key_char c \<longleftrightarrow> c \<in> set ''abcdefghijklmnopqrstuvwxyz0123456789_''"

definition strip_final_newline :: "string \<Rightarrow> string" where
  "strip_final_newline s = (if s \<noteq> [] \<and> last s = CHR 0x0A then butlast s else s)"

definition key_pattern_match :: "string \<Rightarrow> bool" where
  "key_pattern_match s = (case s of [] \<Rightarrow> False
     | c # cs \<Rightarrow> key_start c \<and> list_all key_char (strip_final_newline cs))"

definition validate_key :: "string \<Rightarrow> string \<Rightarrow> unit result" where
  "validate_key key what =
     (if \<not> key_pattern_match key
      then Inl (AppError ValidationErrorC (what @ '' '' @ py_repr key
             @ '' must be lowercase, start with a letter, and contain only ''
             @ ''letters, digits and underscores.'') ''invalid_key'')
      else Inr ())"

section \<open>Categories\<close>

record category =
  cat_id :: uuid
  cat_tenant_id :: uuid
  cat_parent_id :: "uuid option"
  cat_path :: string
  cat_depth :: int
  cat_key :: string
  cat_name :: string
  cat_slug :: string
  cat_description :: "string option"
  cat_position :: int
  cat_is_active :: bool
  cat_current_spec_version :: "int option"
  cat_draft_spec_version :: "int option"
  cat_created_at :: datetime
  cat_updated_at :: datetime

definition Category_create ::
  "uuid \<Rightarrow> uuid \<Rightarrow> string \<Rightarrow> string \<Rightarrow> string \<Rightarrow> category option \<Rightarrow> datetime \<Rightarrow> string option
      \<Rightarrow> int \<Rightarrow> category" where
  "Category_create new_id tenant_id key name slug parent now description position =
     (let category_id = new_id;
          (path, depth) = (case parent of
             None \<Rightarrow> (uuid_str category_id, 0)
           | Some p \<Rightarrow> (cat_path p @ ''.'' @ uuid_str category_id, cat_depth p + 1))
      in \<lparr>cat_id = category_id,
          cat_tenant_id = tenant_id,
          cat_parent_id = map_option cat_id parent,
          cat_path = path,
          cat_depth = depth,
          cat_key = key,
          cat_name = name,
          cat_slug = slug,
          cat_description = description,
          cat_position = position,
          cat_is_active = True,
          cat_current_spec_version = None,
          cat_draft_spec_version = None,
          cat_created_at = now,
          cat_updated_at = now\<rparr>)"

text \<open>\<open>path.split(".")\<close>, each part parsed as a UUID.\<close>

fun split_on :: "char \<Rightarrow> string \<Rightarrow> string list" where
  "split_on d [] = [[]]"
| "split_on d (c # cs) = (if c = d then [] # split_on d cs
     else case split_on d cs of w # ws \<Rightarrow> (c # w) # ws | [] \<Rightarrow> [[c]])"

fun map_result :: "('a \<Rightarrow> 'b result) \<Rightarrow> 'a list \<Rightarrow> 'b list result" where
  "map_result f [] = Inr []"
| "map_result f (x # xs) = bind_result (f x) (\<lambda>y. bind_result (map_result f xs) (\<lambda>ys. Inr (y # ys)))"

definition Category_ancestor_ids :: "category \<Rightarrow> uuid list result" where
  "Category_ancestor_ids self = map_result uuid_parse (split_on (CHR ''.'') (cat_path self))"

section \<open>Definitions a category owns\<close>

datatype attribute_data_type = TYPE_TEXT | TYPE_LONG_TEXT | TYPE_INTEGER | TYPE_DECIMAL | TYPE_MONEY | TYPE_BOOLEAN | TYPE_DATE | TYPE_ENUM | TYPE_MULTI_ENUM | TYPE_URL | TYPE_IMAGE_REF | TYPE_DIMENSION

fun attribute_data_type_value :: "attribute_data_type \<Rightarrow> string" where
  "attribute_data_type_value TYPE_TEXT = ''text''"
| "attribute_data_type_value TYPE_LONG_TEXT = ''long_text''"
| "attribute_data_type_value TYPE_INTEGER = ''integer''"
| "attribute_data_type_value TYPE_DECIMAL = ''decimal''"
| "attribute_data_type_value TYPE_MONEY = ''money''"
| "attribute_data_type_value TYPE_BOOLEAN = ''boolean''"
| "attribute_data_type_value TYPE_DATE = ''date''"
| "attribute_data_type_value TYPE_ENUM = ''enum''"
| "attribute_data_type_value TYPE_MULTI_ENUM = ''multi_enum''"
| "attribute_data_type_value TYPE_URL = ''url''"
| "attribute_data_type_value TYPE_IMAGE_REF = ''image_ref''"
| "attribute_data_type_value TYPE_DIMENSION = ''dimension''"

datatype semantic_role = ROLE_TITLE | ROLE_DESCRIPTION | ROLE_PRICE | ROLE_SKU | ROLE_BRAND | ROLE_MATERIAL | ROLE_COLOUR

fun semantic_role_value :: "semantic_role \<Rightarrow> string" where
  "semantic_role_value ROLE_TITLE = ''title''"
| "semantic_role_value ROLE_DESCRIPTION = ''description''"
| "semantic_role_value ROLE_PRICE = ''price''"
| "semantic_role_value ROLE_SKU = ''sku''"
| "semantic_role_value ROLE_BRAND = ''brand''"
| "semantic_role_value ROLE_MATERIAL = ''material''"
| "semantic_role_value ROLE_COLOUR = ''colour''"

record attribute_definition =
  ad_id :: uuid
  ad_tenant_id :: uuid
  ad_category_id :: uuid
  ad_key :: string
  ad_label :: string
  ad_help_text :: "string option"
  ad_data_type :: attribute_data_type
  ad_semantic_role :: "semantic_role option"
  ad_is_required :: bool
  ad_is_filterable :: bool
  ad_is_public :: bool
  ad_position :: int
  ad_validation :: "(string, json) dict"
  ad_ui :: "(string, json) dict"
  ad_default_value :: json
  ad_introduced_in_version :: "int option"
  ad_retired_in_version :: "int option"
  ad_created_at :: datetime
  ad_updated_at :: datetime

definition AttributeDefinition_create ::
  "uuid \<Rightarrow> uuid \<Rightarrow> uuid \<Rightarrow> string \<Rightarrow> string
      \<Rightarrow> attribute_data_type \<Rightarrow> datetime \<Rightarrow> string option
      \<Rightarrow> semantic_role option \<Rightarrow> bool \<Rightarrow> bool \<Rightarrow> bool
      \<Rightarrow> int \<Rightarrow> ((string, json) dict) option
      \<Rightarrow> ((string, json) dict) option \<Rightarrow> json
      \<Rightarrow> attribute_definition result" where
  "AttributeDefinition_create new_id tenant_id category_id key label data_type now help_text
      semantic_role is_required is_filterable is_public position validation ui default_value =
     bind_result (validate_key key ''Attribute key'') (\<lambda>_. Inr \<lparr>ad_id = new_id,
         ad_tenant_id = tenant_id,
         ad_category_id = category_id,
         ad_key = key,
         ad_label = label,
         ad_help_text = help_text,
         ad_data_type = data_type,
         ad_semantic_role = semantic_role,
         ad_is_required = is_required,
         ad_is_filterable = is_filterable,
         ad_is_public = is_public,
         ad_position = position,
         ad_validation = (case validation of None \<Rightarrow> [] | Some d \<Rightarrow> d),
         ad_ui = (case ui of None \<Rightarrow> [] | Some d \<Rightarrow> d),
         ad_default_value = default_value,
         ad_introduced_in_version = None,
         ad_retired_in_version = None,
         ad_created_at = now,
         ad_updated_at = now\<rparr>)"

record variant_axis =
  va_id :: uuid
  va_tenant_id :: uuid
  va_category_id :: uuid
  va_key :: string
  va_label :: string
  va_position :: int
  va_affects_imagery :: bool
  va_introduced_in_version :: "int option"
  va_retired_in_version :: "int option"
  va_created_at :: datetime
  va_updated_at :: datetime

definition VariantAxis_create ::
  "uuid \<Rightarrow> uuid \<Rightarrow> uuid \<Rightarrow> string \<Rightarrow> string
      \<Rightarrow> bool \<Rightarrow> datetime \<Rightarrow> int \<Rightarrow> variant_axis result" where
  "VariantAxis_create new_id tenant_id category_id key label affects_imagery now position =
     bind_result (validate_key key ''Variant axis key'') (\<lambda>_. Inr \<lparr>va_id = new_id,
         va_tenant_id = tenant_id,
         va_category_id = category_id,
         va_key = key,
         va_label = label,
         va_position = position,
         va_affects_imagery = affects_imagery,
         va_introduced_in_version = None,
         va_retired_in_version = None,
         va_created_at = now,
         va_updated_at = now\<rparr>)"

record variant_axis_value =
  vav_id :: uuid
  vav_tenant_id :: uuid
  vav_axis_id :: uuid
  vav_value :: string
  vav_label :: string
  vav_metadata :: "(string, json) dict"
  vav_created_at :: datetime
  vav_updated_at :: datetime

definition VariantAxisValue_create ::
  "uuid \<Rightarrow> uuid \<Rightarrow> uuid \<Rightarrow> string \<Rightarrow> string
      \<Rightarrow> datetime \<Rightarrow> ((string, json) dict) option
      \<Rightarrow> variant_axis_value" where
  "VariantAxisValue_create new_id tenant_id axis_id value label now metadata =
     \<lparr>vav_id = new_id,
      vav_tenant_id = tenant_id,
      vav_axis_id = axis_id,
      vav_value = value,
      vav_label = label,
      vav_metadata = (case metadata of None \<Rightarrow> [] | Some d \<Rightarrow> d),
      vav_created_at = now,
      vav_updated_at = now\<rparr>"

record input_image_slot =
  iis_id :: uuid
  iis_tenant_id :: uuid
  iis_category_id :: uuid
  iis_key :: string
  iis_label :: string
  iis_description :: "string option"
  iis_capture_guidance :: "string option"
  iis_example_asset_id :: "uuid option"
  iis_normalisation :: "(string, json) dict"
  iis_is_required :: bool
  iis_position :: int
  iis_introduced_in_version :: "int option"
  iis_retired_in_version :: "int option"
  iis_created_at :: datetime
  iis_updated_at :: datetime

definition InputImageSlot_create ::
  "uuid \<Rightarrow> uuid \<Rightarrow> uuid \<Rightarrow> string \<Rightarrow> string
      \<Rightarrow> datetime \<Rightarrow> string option \<Rightarrow> string option
      \<Rightarrow> uuid option \<Rightarrow> ((string, json) dict) option \<Rightarrow> bool
      \<Rightarrow> int \<Rightarrow> input_image_slot result" where
  "InputImageSlot_create new_id tenant_id category_id key label now description capture_guidance
      example_asset_id normalisation is_required position =
     bind_result (validate_key key ''Input image slot key'') (\<lambda>_. Inr \<lparr>iis_id = new_id,
         iis_tenant_id = tenant_id,
         iis_category_id = category_id,
         iis_key = key,
         iis_label = label,
         iis_description = description,
         iis_capture_guidance = capture_guidance,
         iis_example_asset_id = example_asset_id,
         iis_normalisation = (case normalisation of None \<Rightarrow> [] | Some d \<Rightarrow> d),
         iis_is_required = is_required,
         iis_position = position,
         iis_introduced_in_version = None,
         iis_retired_in_version = None,
         iis_created_at = now,
         iis_updated_at = now\<rparr>)"

record catalog_image_slot =
  cis_id :: uuid
  cis_tenant_id :: uuid
  cis_category_id :: uuid
  cis_key :: string
  cis_label :: string
  cis_description :: "string option"
  cis_position :: int
  cis_aspect_ratio :: string
  cis_target_width :: int
  cis_target_height :: int
  cis_is_required :: bool
  cis_introduced_in_version :: "int option"
  cis_retired_in_version :: "int option"
  cis_created_at :: datetime
  cis_updated_at :: datetime

definition CatalogImageSlot_create ::
  "uuid \<Rightarrow> uuid \<Rightarrow> uuid \<Rightarrow> string \<Rightarrow> string
      \<Rightarrow> string \<Rightarrow> int \<Rightarrow> int \<Rightarrow> datetime
      \<Rightarrow> string option \<Rightarrow> bool \<Rightarrow> int
      \<Rightarrow> catalog_image_slot result" where
  "CatalogImageSlot_create new_id tenant_id category_id key label aspect_ratio target_width
      target_height now description is_required position =
     bind_result (validate_key key ''Catalog image slot key'') (\<lambda>_. Inr \<lparr>cis_id = new_id,
         cis_tenant_id = tenant_id,
         cis_category_id = category_id,
         cis_key = key,
         cis_label = label,
         cis_description = description,
         cis_position = position,
         cis_aspect_ratio = aspect_ratio,
         cis_target_width = target_width,
         cis_target_height = target_height,
         cis_is_required = is_required,
         cis_introduced_in_version = None,
         cis_retired_in_version = None,
         cis_created_at = now,
         cis_updated_at = now\<rparr>)"

record catalog_slot_input_requirement =
  req_tenant_id :: uuid
  req_catalog_image_slot_id :: uuid
  req_input_image_slot_id :: uuid
  req_role :: string
  req_prompt_position :: int
  req_is_required :: bool
  req_created_at :: datetime

definition CatalogSlotInputRequirement_create ::
  "uuid \<Rightarrow> uuid \<Rightarrow> uuid \<Rightarrow> uuid \<Rightarrow> string
      \<Rightarrow> int \<Rightarrow> datetime \<Rightarrow> bool
      \<Rightarrow> catalog_slot_input_requirement" where
  "CatalogSlotInputRequirement_create new_id tenant_id catalog_image_slot_id input_image_slot_id role
      prompt_position now is_required =
     \<lparr>req_tenant_id = tenant_id,
      req_catalog_image_slot_id = catalog_image_slot_id,
      req_input_image_slot_id = input_image_slot_id,
      req_role = role,
      req_prompt_position = prompt_position,
      req_is_required = is_required,
      req_created_at = now\<rparr>"

section \<open>Spec snapshots and versions\<close>

text \<open>
  The dicts \<open>build_snapshot\<close> writes, with the keys as fields. Identifiers and enum members are
  strings there.
\<close>

record snap_attribute =
  sna_id :: string
  sna_category_id :: string
  sna_key :: string
  sna_label :: string
  sna_help_text :: "string option"
  sna_data_type :: string
  sna_semantic_role :: "string option"
  sna_is_required :: bool
  sna_is_filterable :: bool
  sna_is_public :: bool
  sna_position :: int
  sna_validation :: "(string, json) dict"
  sna_ui :: "(string, json) dict"
  sna_default_value :: json

record snap_axis_value =
  snv_id :: string
  snv_value :: string
  snv_label :: string
  snv_metadata :: "(string, json) dict"

record snap_axis =
  snx_id :: string
  snx_category_id :: string
  snx_key :: string
  snx_label :: string
  snx_position :: int
  snx_affects_imagery :: bool
  snx_values :: "snap_axis_value list"

record snap_input_slot =
  sni_id :: string
  sni_category_id :: string
  sni_key :: string
  sni_label :: string
  sni_description :: "string option"
  sni_capture_guidance :: "string option"
  sni_example_asset_id :: "string option"
  sni_normalisation :: "(string, json) dict"
  sni_is_required :: bool
  sni_position :: int

record snap_requirement =
  snr_input_image_slot_id :: string
  snr_role :: string
  snr_prompt_position :: int
  snr_is_required :: bool

record snap_catalog_slot =
  snc_id :: string
  snc_category_id :: string
  snc_key :: string
  snc_label :: string
  snc_description :: "string option"
  snc_position :: int
  snc_aspect_ratio :: string
  snc_target_width :: int
  snc_target_height :: int
  snc_is_required :: bool
  snc_input_requirements :: "snap_requirement list"

record spec_snapshot =
  attribute_definitions :: "snap_attribute list"
  variant_axes :: "snap_axis list"
  input_image_slots :: "snap_input_slot list"
  catalog_image_slots :: "snap_catalog_slot list"

datatype spec_change_type = ADDED_OPTIONAL | ADDED_REQUIRED | RETIRED | RENAMED

fun spec_change_type_value :: "spec_change_type \<Rightarrow> string" where
  "spec_change_type_value ADDED_OPTIONAL = ''added_optional''"
| "spec_change_type_value ADDED_REQUIRED = ''added_required''"
| "spec_change_type_value RETIRED = ''retired''"
| "spec_change_type_value RENAMED = ''renamed''"

record spec_change =
  chg_change_type :: spec_change_type
  chg_row_kind :: string
  chg_row_id :: string
  chg_key :: string
  chg_previous_key :: "string option"

datatype spec_version_status = SPEC_DRAFT | SPEC_PUBLISHED | SPEC_ARCHIVED

fun spec_version_status_value :: "spec_version_status \<Rightarrow> string" where
  "spec_version_status_value SPEC_DRAFT = ''draft''"
| "spec_version_status_value SPEC_PUBLISHED = ''published''"
| "spec_version_status_value SPEC_ARCHIVED = ''archived''"

record category_spec_version =
  csv_id :: uuid
  csv_tenant_id :: uuid
  csv_category_id :: uuid
  csv_version :: int
  csv_status :: spec_version_status
  csv_snapshot :: spec_snapshot
  csv_change_summary :: "json option"
  csv_published_by :: uuid
  csv_published_at :: datetime

definition CategorySpecVersion_create ::
  "uuid \<Rightarrow> uuid \<Rightarrow> uuid \<Rightarrow> int \<Rightarrow> spec_snapshot
      \<Rightarrow> uuid \<Rightarrow> datetime \<Rightarrow> json option
      \<Rightarrow> category_spec_version" where
  "CategorySpecVersion_create new_id tenant_id category_id version snapshot published_by now
      change_summary =
     \<lparr>csv_id = new_id,
      csv_tenant_id = tenant_id,
      csv_category_id = category_id,
      csv_version = version,
      csv_status = SPEC_PUBLISHED,
      csv_snapshot = snapshot,
      csv_change_summary = change_summary,
      csv_published_by = published_by,
      csv_published_at = now\<rparr>"

section \<open>Settings\<close>

datatype setting_scope = SCOPE_PLATFORM | SCOPE_TENANT | SCOPE_CATEGORY | SCOPE_PRODUCT

fun setting_scope_value :: "setting_scope \<Rightarrow> string" where
  "setting_scope_value SCOPE_PLATFORM = ''platform''"
| "setting_scope_value SCOPE_TENANT = ''tenant''"
| "setting_scope_value SCOPE_CATEGORY = ''category''"
| "setting_scope_value SCOPE_PRODUCT = ''product''"

record setting =
  set_id :: uuid
  set_tenant_id :: "uuid option"
  set_scope_type :: setting_scope
  set_scope_id :: "uuid option"
  set_key :: string
  set_value :: json
  set_created_at :: datetime
  set_updated_at :: datetime

definition Setting_create ::
  "uuid \<Rightarrow> setting_scope \<Rightarrow> uuid option \<Rightarrow> uuid option
      \<Rightarrow> string \<Rightarrow> json \<Rightarrow> datetime \<Rightarrow> setting result" where
  "Setting_create new_id scope_type tenant_id scope_id key value now =
     (if key = [] \<or> strip key \<noteq> key
      then Inl (ValidationError
        ''Setting key must be a non-empty string with no surrounding whitespace.'')
      else if scope_type = SCOPE_PLATFORM \<and> (tenant_id \<noteq> None \<or> scope_id \<noteq> None)
      then Inl (ValidationError ''A platform-scoped setting has no tenant or scope id.'')
      else if scope_type = SCOPE_TENANT \<and> (tenant_id = None \<or> scope_id \<noteq> None)
      then Inl (ValidationError ''A tenant-scoped setting has a tenant id and no scope id.'')
      else if scope_type \<notin> {SCOPE_PLATFORM, SCOPE_TENANT} \<and> (tenant_id = None \<or> scope_id = None)
      then Inl (ValidationError
        ''A category- or product-scoped setting has both a tenant id and a scope id.'')
      else Inr \<lparr>set_id = new_id,
         set_tenant_id = tenant_id,
         set_scope_type = scope_type,
         set_scope_id = scope_id,
         set_key = key,
         set_value = value,
         set_created_at = now,
         set_updated_at = now\<rparr>)"

end
