(* ===== verification/Access_Entities.thy ===== *)
theory Access_Entities
  imports Json
begin

text \<open>
  People and what they may do: entities/user.py, identity.py, session.py, capabilities.py,
  roles.py, tenant_membership.py, principal.py and tenant_domain.py.
\<close>

section \<open>Users, identities, sessions\<close>

datatype user_status = USER_ACTIVE | USER_SUSPENDED

fun user_status_value :: "user_status \<Rightarrow> string" where
  "user_status_value USER_ACTIVE = ''active''"
| "user_status_value USER_SUSPENDED = ''suspended''"

record user =
  usr_id :: uuid
  usr_email :: string
  usr_email_verified :: bool
  usr_display_name :: "string option"
  usr_status :: user_status
  usr_created_at :: datetime
  usr_updated_at :: datetime

definition User_register ::
  "uuid \<Rightarrow> string \<Rightarrow> datetime \<Rightarrow> string option
      \<Rightarrow> user" where
  "User_register new_id email now display_name =
     \<lparr>usr_id = new_id,
      usr_email = lower (strip email),
      usr_email_verified = False,
      usr_display_name = display_name,
      usr_status = USER_ACTIVE,
      usr_created_at = now,
      usr_updated_at = now\<rparr>"

record identity =
  ident_id :: uuid
  ident_user_id :: uuid
  ident_provider :: string
  ident_issuer :: string
  ident_subject :: string
  ident_raw_claims :: "(string, json) dict"
  ident_created_at :: datetime

definition Identity_create ::
  "uuid \<Rightarrow> uuid \<Rightarrow> string \<Rightarrow> string \<Rightarrow> string
      \<Rightarrow> (string, json) dict \<Rightarrow> datetime \<Rightarrow> identity" where
  "Identity_create new_id user_id provider issuer subject raw_claims now =
     \<lparr>ident_id = new_id,
      ident_user_id = user_id,
      ident_provider = provider,
      ident_issuer = issuer,
      ident_subject = subject,
      ident_raw_claims = raw_claims,
      ident_created_at = now\<rparr>"

record session =
  sess_id :: uuid
  sess_user_id :: uuid
  sess_tenant_id :: "uuid option"
  sess_refresh_token_hash :: string
  sess_previous_token_hash :: "string option"
  sess_expires_at :: datetime
  sess_revoked_at :: "datetime option"
  sess_created_at :: datetime

definition Session_is_active :: "datetime \<Rightarrow> session \<Rightarrow> bool" where
  "Session_is_active now self \<longleftrightarrow> sess_revoked_at self = None \<and> sess_expires_at self > now"

section \<open>Capabilities, roles, memberships\<close>

datatype capability = CAP_CATALOG_PUBLISH | CAP_CATALOG_APPROVE | CAP_PRODUCT_MANAGE | CAP_TEMPLATE_MANAGE | CAP_MEMBER_MANAGE | CAP_SETTINGS_MANAGE | CAP_TAXONOMY_MANAGE | CAP_DOMAINS_MANAGE

fun capability_value :: "capability \<Rightarrow> string" where
  "capability_value CAP_CATALOG_PUBLISH = ''catalog.publish''"
| "capability_value CAP_CATALOG_APPROVE = ''catalog.approve''"
| "capability_value CAP_PRODUCT_MANAGE = ''product.manage''"
| "capability_value CAP_TEMPLATE_MANAGE = ''template.manage''"
| "capability_value CAP_MEMBER_MANAGE = ''member.manage''"
| "capability_value CAP_SETTINGS_MANAGE = ''settings.manage''"
| "capability_value CAP_TAXONOMY_MANAGE = ''taxonomy.manage''"
| "capability_value CAP_DOMAINS_MANAGE = ''domains.manage''"

datatype role = ROLE_OWNER | ROLE_ADMIN | ROLE_CATALOG_MANAGER | ROLE_APPROVER | ROLE_VIEWER

fun role_value :: "role \<Rightarrow> string" where
  "role_value ROLE_OWNER = ''owner''"
| "role_value ROLE_ADMIN = ''admin''"
| "role_value ROLE_CATALOG_MANAGER = ''catalog_manager''"
| "role_value ROLE_APPROVER = ''approver''"
| "role_value ROLE_VIEWER = ''viewer''"

definition MANAGER_CAPABILITIES :: "capability list" where
  "MANAGER_CAPABILITIES = [CAP_CATALOG_PUBLISH, CAP_TEMPLATE_MANAGE, CAP_PRODUCT_MANAGE,
     CAP_TAXONOMY_MANAGE]"

fun ROLE_CAPABILITIES :: "role \<Rightarrow> capability list" where
  "ROLE_CAPABILITIES ROLE_OWNER = MANAGER_CAPABILITIES
     @ [CAP_CATALOG_APPROVE, CAP_MEMBER_MANAGE, CAP_SETTINGS_MANAGE, CAP_DOMAINS_MANAGE]"
| "ROLE_CAPABILITIES ROLE_ADMIN = MANAGER_CAPABILITIES
     @ [CAP_CATALOG_APPROVE, CAP_MEMBER_MANAGE, CAP_SETTINGS_MANAGE, CAP_DOMAINS_MANAGE]"
| "ROLE_CAPABILITIES ROLE_CATALOG_MANAGER = MANAGER_CAPABILITIES"
| "ROLE_CAPABILITIES ROLE_APPROVER = [CAP_CATALOG_APPROVE]"
| "ROLE_CAPABILITIES ROLE_VIEWER = []"

record tenant_membership =
  tm_id :: uuid
  tm_tenant_id :: uuid
  tm_user_id :: uuid
  tm_role :: role
  tm_extra_capabilities :: "string list"
  tm_created_at :: datetime

definition TenantMembership_create ::
  "uuid \<Rightarrow> uuid \<Rightarrow> uuid \<Rightarrow> role \<Rightarrow> datetime
      \<Rightarrow> string list option \<Rightarrow> tenant_membership" where
  "TenantMembership_create new_id tenant_id user_id role now extra_capabilities =
     \<lparr>tm_id = new_id,
      tm_tenant_id = tenant_id,
      tm_user_id = user_id,
      tm_role = role,
      tm_extra_capabilities = (case extra_capabilities of None \<Rightarrow> [] | Some d \<Rightarrow> d),
      tm_created_at = now\<rparr>"

section \<open>Principals\<close>

text \<open>A frozen set of strings is kept as a list; only membership is ever asked of it.\<close>

record principal =
  pr_user_id :: uuid
  pr_tenant_id :: "uuid option"
  pr_role :: "role option"
  pr_capabilities :: "string list"
  pr_is_platform_admin :: bool
  pr_impersonated_by :: "uuid option"

definition Principal_has_capability :: "string \<Rightarrow> principal \<Rightarrow> bool" where
  "Principal_has_capability capability self \<longleftrightarrow> capability \<in> set (pr_capabilities self)"

definition Principal_require_capability :: "string \<Rightarrow> principal \<Rightarrow> unit result" where
  "Principal_require_capability capability self =
     (if \<not> Principal_has_capability capability self
      then Inl (PermissionDeniedError (''Missing capability '' @ py_repr capability @ ''.''))
      else Inr ())"

definition Principal_require_platform_admin :: "principal \<Rightarrow> unit result" where
  "Principal_require_platform_admin self =
     (if \<not> pr_is_platform_admin self
      then Inl (PermissionDeniedError ''Platform admin access required.'')
      else Inr ())"

section \<open>Domains\<close>

record tenant_domain =
  td_id :: uuid
  td_tenant_id :: uuid
  td_hostname :: string
  td_is_primary :: bool
  td_verified :: bool
  td_created_at :: datetime
  td_updated_at :: datetime

definition TenantDomain_create ::
  "uuid \<Rightarrow> uuid \<Rightarrow> string \<Rightarrow> bool \<Rightarrow> datetime
      \<Rightarrow> tenant_domain result" where
  "TenantDomain_create new_id tenant_id hostname is_primary now =
     (let normalised = lower (strip hostname) in
      if normalised = [] then Inl (ValidationError ''Hostname must not be empty.'')
      else Inr \<lparr>td_id = new_id,
         td_tenant_id = tenant_id,
         td_hostname = normalised,
         td_is_primary = is_primary,
         td_verified = False,
         td_created_at = now,
         td_updated_at = now\<rparr>)"

end
