(* ===== verification/Database.thy ===== *)
theory Database
  imports Task_Queue Publication_Entity Generation_Entities Content_Entities Catalog_Entities
    Taxonomy_Entities Access_Entities "HOL-Library.Product_Lexorder"
begin

text \<open>
  The database as one record of tables, a transaction as a function on it, and the repositories
  (infrastructure/persistence/*_repository.py, unit_of_work.py) the use cases read and write
  through. A use case is a function \<open>db => ('a \<times> db) result\<close>; \<open>run_uow\<close> runs it as
  \<open>SqlUnitOfWork\<close> does, committing its writes or rolling them back when it raises. Identifiers
  the code draws at random (\<open>uuid.uuid4()\<close>) are arguments.
\<close>

section \<open>Tables\<close>

record audit_entry =
  au_id :: uuid
  au_tenant_id :: uuid
  au_actor_user_id :: "uuid option"
  au_action :: string
  au_subject_type :: string
  au_subject_id :: uuid
  au_before :: "((string, json) dict) option"
  au_after :: "((string, json) dict) option"
  au_ip :: "string option"
  au_occurred_at :: datetime

record outbox_event =
  ev_id :: uuid
  ev_tenant_id :: uuid
  ev_event_type :: string
  ev_payload :: "(string, string) dict"
  ev_created_at :: datetime
  ev_published_at :: "datetime option"

record quota_reservation =
  qr_id :: uuid
  qr_limit_value :: int
  qr_reserved :: int
  qr_committed :: int
  qr_created_at :: datetime
  qr_updated_at :: datetime

text \<open>The unique key of a quota row: tenant, period, metric.\<close>

type_synonym quota_key = "uuid \<times> string \<times> string"

record db =
  db_jobs :: jobs
  db_audit :: "audit_entry table"
  db_outbox :: "outbox_event table"
  db_quota :: "(quota_key, quota_reservation) dict"
  db_publications :: "publication table"
  db_social_accounts :: "social_account table"
  db_drafts :: "content_draft table"
  db_variants :: "product_variant table"
  db_products :: "product table"
  db_input_images :: "product_input_image table"
  db_assets :: "asset table"
  db_templates :: "catalog_template table"
  db_requests :: "generation_request table"
  db_items :: "generation_item table"
  db_images :: "catalog_image table"
  db_categories :: "category table"
  db_attributes :: "attribute_definition table"
  db_axes :: "variant_axis table"
  db_axis_values :: "variant_axis_value table"
  db_input_slots :: "input_image_slot table"
  db_catalog_slots :: "catalog_image_slot table"
  db_requirements :: "catalog_slot_input_requirement list"
  db_spec_versions :: "category_spec_version table"
  db_settings :: "setting table"

definition empty_db :: db where
  "empty_db = \<lparr>db_jobs = [], db_audit = [], db_outbox = [], db_quota = [], db_publications = [],
     db_social_accounts = [], db_drafts = [], db_variants = [], db_products = [],
     db_input_images = [], db_assets = [], db_templates = [], db_requests = [], db_items = [],
     db_images = [], db_categories = [], db_attributes = [], db_axes = [], db_axis_values = [],
     db_input_slots = [], db_catalog_slots = [], db_requirements = [], db_spec_versions = [],
     db_settings = []\<rparr>"

section \<open>Transactions\<close>

type_synonym 'a use_case = "db \<Rightarrow> ('a \<times> db) result"

definition run_uow :: "('s \<Rightarrow> ('a \<times> 's) result) \<Rightarrow> 's \<Rightarrow> 'a result \<times> 's" where
  "run_uow f s = (case f s of Inl e \<Rightarrow> (Inl e, s) | Inr (x, s') \<Rightarrow> (Inr x, s'))"

lemma run_uow_simps [simp]:
  "f s = Inl e \<Longrightarrow> run_uow f s = (Inl e, s)"
  "f s = Inr (x, s') \<Longrightarrow> run_uow f s = (Inr x, s')"
  by (simp_all add: run_uow_def)

text \<open>All or nothing: a transaction that raises leaves the database as it was.\<close>

lemma run_uow_rollback: "run_uow f s = (Inl e, s') \<Longrightarrow> s' = s"
  by (auto simp: run_uow_def split: sum.splits)

lemma run_uow_Inr: "run_uow f s = (Inr x, s') \<longleftrightarrow> f s = Inr (x, s')"
  by (auto simp: run_uow_def split: sum.splits)

lemma run_uow_preserves:
  "\<lbrakk>\<And>x t. f s = Inr (x, t) \<Longrightarrow> P t; P s\<rbrakk> \<Longrightarrow> P (snd (run_uow f s))"
  by (auto simp: run_uow_def split: sum.splits)

text \<open>\<open>if x is None: raise\<close>, and a guard that raises.\<close>

definition require :: "exn \<Rightarrow> 'a option \<Rightarrow> 'a result" where
  "require e r = (case r of None \<Rightarrow> Inl e | Some x \<Rightarrow> Inr x)"

definition ensure :: "bool \<Rightarrow> exn \<Rightarrow> unit result" where
  "ensure ok e = (if ok then Inr () else Inl e)"

lemma require_Inr [simp]: "require e r = Inr x \<longleftrightarrow> r = Some x"
  by (simp add: require_def split: option.splits)

lemma require_simps [simp]: "require e (Some x) = Inr x" "require e None = Inl e"
  by (simp_all add: require_def)

lemma ensure_Inr [simp]: "ensure ok e = Inr u \<longleftrightarrow> ok"
  by (simp add: ensure_def)

lemma ensure_simps [simp]: "ensure True e = Inr ()" "ensure False e = Inl e"
  by (simp_all add: ensure_def)

text \<open>An \<open>INSERT\<close> checked against a unique index as well as the primary key.\<close>

definition tbl_add_unique :: "('r \<Rightarrow> 'r \<Rightarrow> bool) \<Rightarrow> uuid \<Rightarrow> 'r \<Rightarrow> 'r table \<Rightarrow> 'r table result" where
  "tbl_add_unique clash i r t =
     (if list_ex (clash r) (rows t) then Inl (IntegrityError ''duplicate key value'') else tbl_add i r t)"

lemma tbl_add_unique_Inr:
  "tbl_add_unique clash i r t = Inr t' \<longleftrightarrow> \<not> list_ex (clash r) (rows t) \<and> tbl_add i r t = Inr t'"
  by (simp add: tbl_add_unique_def)

section \<open>Audit log, outbox, quota\<close>

definition audit_record ::
  "uuid \<Rightarrow> uuid \<Rightarrow> uuid option \<Rightarrow> string \<Rightarrow> string \<Rightarrow> uuid \<Rightarrow> ((string, json) dict) option
    \<Rightarrow> ((string, json) dict) option \<Rightarrow> datetime \<Rightarrow> db \<Rightarrow> db result" where
  "audit_record new_id tenant_id actor_user_id action subject_type subject_id old_values new_values now s =
     bind_result (tbl_add new_id
       \<lparr>au_id = new_id, au_tenant_id = tenant_id, au_actor_user_id = actor_user_id,
        au_action = action, au_subject_type = subject_type, au_subject_id = subject_id,
        au_before = old_values, au_after = new_values, au_ip = None, au_occurred_at = now\<rparr> (db_audit s))
     (\<lambda>t. Inr (s\<lparr>db_audit := t\<rparr>))"

lemma audit_record_Inr:
  "audit_record n T u a st i b f now s = Inr s' \<Longrightarrow> \<exists>t. s' = s\<lparr>db_audit := t\<rparr>"
  by (auto simp: audit_record_def bind_result_eq_Inr)

lemma audit_record_fresh:
  "tbl_get (db_audit s) n = None \<Longrightarrow> \<exists>t. audit_record n T u a st i b f now s = Inr (s\<lparr>db_audit := t\<rparr>)"
  by (auto simp: audit_record_def tbl_add_def)

lemma audit_record_last:
  assumes "tbl_get (db_audit s) n = None"
  shows "\<exists>t. bind_result (audit_record n T u a st i b f now s) (\<lambda>s'. Inr (x, s')) = Inr (x, s\<lparr>db_audit := t\<rparr>)"
proof -
  from audit_record_fresh [OF assms] obtain t where "audit_record n T u a st i b f now s = Inr (s\<lparr>db_audit := t\<rparr>)" by blast
  then show ?thesis by (intro exI [of _ t]) simp
qed

definition outbox_add ::
  "uuid \<Rightarrow> uuid \<Rightarrow> string \<Rightarrow> (string, string) dict \<Rightarrow> datetime \<Rightarrow> db \<Rightarrow> db result" where
  "outbox_add event_id tenant_id event_type payload now s =
     bind_result (tbl_add event_id
       \<lparr>ev_id = event_id, ev_tenant_id = tenant_id, ev_event_type = event_type,
        ev_payload = payload, ev_created_at = now, ev_published_at = None\<rparr> (db_outbox s))
     (\<lambda>t. Inr (s\<lparr>db_outbox := t\<rparr>))"

lemma outbox_add_Inr: "outbox_add i T ty p now s = Inr s' \<Longrightarrow> \<exists>t. s' = s\<lparr>db_outbox := t\<rparr>"
  by (auto simp: outbox_add_def bind_result_eq_Inr)

definition list_unpublished :: "uuid \<Rightarrow> nat \<Rightarrow> db \<Rightarrow> outbox_event list" where
  "list_unpublished tenant_id limit s =
     take limit (sort_key ev_created_at
       (filter (\<lambda>e. ev_tenant_id e = tenant_id \<and> ev_published_at e = None) (rows (db_outbox s))))"

definition outbox_mark_published :: "uuid \<Rightarrow> uuid \<Rightarrow> datetime \<Rightarrow> db \<Rightarrow> db" where
  "outbox_mark_published tenant_id event_id now s =
     (case scoped_get ev_tenant_id (db_outbox s) tenant_id event_id of
        None \<Rightarrow> s
      | Some e \<Rightarrow> s\<lparr>db_outbox := tbl_put event_id (e\<lparr>ev_published_at := Some now\<rparr>) (db_outbox s)\<rparr>)"

definition enqueue_job ::
  "uuid \<Rightarrow> uuid \<Rightarrow> string \<Rightarrow> (string, string) dict \<Rightarrow> datetime \<Rightarrow> datetime \<Rightarrow> db \<Rightarrow> db result" where
  "enqueue_job new_id tenant_id ty payload run_at now s =
     bind_result (enqueue new_id tenant_id ty payload run_at now DEFAULT_MAX_ATTEMPTS (db_jobs s))
       (\<lambda>q. Inr (s\<lparr>db_jobs := q\<rparr>))"

text \<open>\<open>ON CONFLICT DO NOTHING\<close> on the unique key.\<close>

definition quota_ensure_period :: "uuid \<Rightarrow> quota_key \<Rightarrow> int \<Rightarrow> datetime \<Rightarrow> db \<Rightarrow> db" where
  "quota_ensure_period new_id k limit_value now s =
     (case map_of (db_quota s) k of
        Some _ \<Rightarrow> s
      | None \<Rightarrow> s\<lparr>db_quota := db_quota s @ [(k, \<lparr>qr_id = new_id, qr_limit_value = limit_value,
            qr_reserved = 0, qr_committed = 0, qr_created_at = now, qr_updated_at = now\<rparr>)]\<rparr>)"

text \<open>The conditional \<open>UPDATE\<close>: no row, or too little left, is \<open>False\<close> and no change.\<close>

definition quota_reserve :: "quota_key \<Rightarrow> int \<Rightarrow> datetime \<Rightarrow> db \<Rightarrow> bool \<times> db" where
  "quota_reserve k quantity now s =
     (case map_of (db_quota s) k of
        None \<Rightarrow> (False, s)
      | Some r \<Rightarrow> if qr_limit_value r - qr_reserved r \<ge> quantity
          then (True, s\<lparr>db_quota := AList.update k
                  (r\<lparr>qr_reserved := qr_reserved r + quantity, qr_updated_at := now\<rparr>) (db_quota s)\<rparr>)
          else (False, s))"

definition quota_commit :: "quota_key \<Rightarrow> int \<Rightarrow> datetime \<Rightarrow> db \<Rightarrow> db" where
  "quota_commit k quantity now s =
     (case map_of (db_quota s) k of
        None \<Rightarrow> s
      | Some r \<Rightarrow> s\<lparr>db_quota := AList.update k
            (r\<lparr>qr_committed := qr_committed r + quantity, qr_updated_at := now\<rparr>) (db_quota s)\<rparr>)"

text \<open>Migration f7a1c9e3d5b6 checks \<open>reserved >= 0\<close>.\<close>

definition quota_release :: "quota_key \<Rightarrow> int \<Rightarrow> datetime \<Rightarrow> db \<Rightarrow> db result" where
  "quota_release k quantity now s =
     (case map_of (db_quota s) k of
        None \<Rightarrow> Inr s
      | Some r \<Rightarrow> if qr_reserved r - quantity < 0 then Inl (IntegrityError ''ck_quota_reservations_reserved_non_negative'')
          else Inr (s\<lparr>db_quota := AList.update k
            (r\<lparr>qr_reserved := qr_reserved r - quantity, qr_updated_at := now\<rparr>) (db_quota s)\<rparr>))"

lemmas quota_defs = quota_ensure_period_def quota_reserve_def quota_commit_def quota_release_def

section \<open>Publications\<close>

definition publication_get :: "uuid \<Rightarrow> uuid \<Rightarrow> db \<Rightarrow> publication option" where
  "publication_get tenant_id publication_id s =
     scoped_get pub_tenant_id (db_publications s) tenant_id publication_id"

definition publication_get_live :: "uuid \<Rightarrow> uuid \<Rightarrow> uuid \<Rightarrow> db \<Rightarrow> publication option result" where
  "publication_get_live tenant_id variant_id channel_id s =
     scalar_one_or_none (filter (\<lambda>p. pub_tenant_id p = tenant_id \<and> pub_variant_id p = variant_id
       \<and> pub_channel_id p = channel_id \<and> pub_status p \<in> set LIVE_STATUSES) (rows (db_publications s)))"

definition list_due_for_release :: "uuid \<Rightarrow> datetime \<Rightarrow> nat \<Rightarrow> db \<Rightarrow> publication list" where
  "list_due_for_release tenant_id cutoff limit s =
     take limit (sort_key pub_due_at (filter (\<lambda>p. pub_tenant_id p = tenant_id
       \<and> pub_status p = PUB_SCHEDULED \<and> pub_due_at p \<le> cutoff) (rows (db_publications s))))"

text \<open>
  \<open>ORDER BY published_at\<close> puts NULLs last.
\<close>

definition claim_for_metrics_fetch :: "uuid \<Rightarrow> datetime \<Rightarrow> db \<Rightarrow> publication option" where
  "claim_for_metrics_fetch tenant_id cutoff s =
     first_by (\<lambda>p. case pub_published_at p of Some t \<Rightarrow> (0::int, t) | None \<Rightarrow> (1, 0))
       (filter (\<lambda>p. pub_tenant_id p = tenant_id \<and> pub_status p = PUB_PUBLISHED
          \<and> pub_external_post_id p \<noteq> None
          \<and> (case pub_metrics_fetched_at p of None \<Rightarrow> True | Some t \<Rightarrow> t \<le> cutoff))
        (rows (db_publications s)))"

text \<open>The partial unique index of migration e563d43d40b4.\<close>

definition pub_clash :: "publication \<Rightarrow> publication \<Rightarrow> bool" where
  "pub_clash p r \<longleftrightarrow> pub_tenant_id r = pub_tenant_id p \<and> pub_variant_id r = pub_variant_id p
     \<and> pub_channel_id r = pub_channel_id p \<and> pub_live r \<and> pub_live p"

definition publication_add :: "publication \<Rightarrow> db \<Rightarrow> db result" where
  "publication_add p s =
     bind_result (tbl_add_unique pub_clash (pub_id p) p (db_publications s))
       (\<lambda>t. Inr (s\<lparr>db_publications := t\<rparr>))"

definition publication_update :: "publication \<Rightarrow> db \<Rightarrow> db" where
  "publication_update p s = s\<lparr>db_publications := tbl_put (pub_id p) p (db_publications s)\<rparr>"

lemmas publication_repo_defs = publication_get_def publication_get_live_def publication_add_def
  publication_update_def

section \<open>The outbox relay\<close>

text \<open>
  features/system/relay_outbox_events_for_tenant.py: each unpublished event becomes a job of
  that type, in one transaction. \<open>job_ids\<close> gives the fresh job id per event.
\<close>

definition relay_one :: "(uuid \<Rightarrow> uuid) \<Rightarrow> uuid \<Rightarrow> datetime \<Rightarrow> outbox_event \<Rightarrow> db \<Rightarrow> db result" where
  "relay_one job_ids tenant_id now e s =
     bind_result (enqueue_job (job_ids (ev_id e)) tenant_id (ev_event_type e) (ev_payload e) now now s)
       (\<lambda>s1. Inr (outbox_mark_published tenant_id (ev_id e) now s1))"

definition RelayOutboxEventsForTenant ::
  "(uuid \<Rightarrow> uuid) \<Rightarrow> uuid \<Rightarrow> nat \<Rightarrow> datetime \<Rightarrow> nat use_case" where
  "RelayOutboxEventsForTenant job_ids tenant_id limit now s =
     (let events = list_unpublished tenant_id limit s in
      bind_result (fold_result (relay_one job_ids tenant_id now) events s)
        (\<lambda>s'. Inr (length events, s')))"

end
