(* ===== verification/Rate_Limiter.thy ===== *)
theory Rate_Limiter
  imports Store
begin

text \<open>
  infrastructure/persistence/rate_limiter.py: one counter per tenant, bucket and fixed window,
  moved by a single \<open>INSERT ... ON CONFLICT DO UPDATE ... WHERE count < limit\<close>. A call commits
  its own short transaction.
\<close>

type_synonym windows = "((uuid \<times> string \<times> datetime) \<times> int) list"

definition window_count :: "windows \<Rightarrow> uuid \<Rightarrow> string \<Rightarrow> datetime \<Rightarrow> int" where
  "window_count ws tenant_id bucket start =
     (case map_of ws (tenant_id, bucket, start) of None \<Rightarrow> 0 | Some c \<Rightarrow> c)"

definition allow ::
  "uuid \<Rightarrow> string \<Rightarrow> int \<Rightarrow> timedelta \<Rightarrow> datetime \<Rightarrow> windows \<Rightarrow> (bool \<times> windows) result" where
  "allow tenant_id bucket limit window now ws =
     bind_result (fixed_window_start now window) (\<lambda>window_start.
       let k = (tenant_id, bucket, window_start) in
       case map_of ws k of
         None \<Rightarrow> Inr (True, ws @ [(k, 1)])
       | Some count \<Rightarrow> if count < limit then Inr (True, AList.update k (count + 1) ws)
                        else Inr (False, ws))"

lemma allow_count:
  assumes a: "allow T b limit window now ws = Inr (ok, ws')" and s: "fixed_window_start now window = Inr s"
    and nonneg: "\<forall>k c. map_of ws k = Some c \<longrightarrow> 1 \<le> c"
  shows "window_count ws' T b s = window_count ws T b s + (if ok then 1 else 0)"
    and "ok \<longleftrightarrow> window_count ws T b s = 0 \<or> window_count ws T b s < limit"
    and "\<forall>k. k \<noteq> (T, b, s) \<longrightarrow> map_of ws' k = map_of ws k"
    and "\<forall>k c. map_of ws' k = Some c \<longrightarrow> 1 \<le> c"
proof -
  consider (new) "map_of ws (T, b, s) = None" | (old) c where "map_of ws (T, b, s) = Some c"
    by (cases "map_of ws (T, b, s)") auto
  then have "window_count ws' T b s = window_count ws T b s + (if ok then 1 else 0)
      \<and> (ok \<longleftrightarrow> window_count ws T b s = 0 \<or> window_count ws T b s < limit)
      \<and> (\<forall>k. k \<noteq> (T, b, s) \<longrightarrow> map_of ws' k = map_of ws k)
      \<and> (\<forall>k c. map_of ws' k = Some c \<longrightarrow> 1 \<le> c)"
  proof cases
    case new
    with a s have "ok" "ws' = ws @ [((T, b, s), 1)]" by (auto simp: allow_def)
    with new nonneg show ?thesis
      by (auto simp: window_count_def map_add_def split: option.splits)
  next
    case (old c)
    with nonneg have "1 \<le> c" by blast
    moreover from old a s have "ok \<longleftrightarrow> c < limit"
      "ws' = (if c < limit then AList.update (T, b, s) (c + 1) ws else ws)"
      by (auto simp: allow_def split: if_splits)
    ultimately have "window_count ws' T b s = window_count ws T b s + (if ok then 1 else 0)"
      "ok \<longleftrightarrow> window_count ws T b s = 0 \<or> window_count ws T b s < limit"
      "\<forall>k. k \<noteq> (T, b, s) \<longrightarrow> map_of ws' k = map_of ws k"
      "\<forall>k. map_of ws' k = map_of ws k \<or> map_of ws' k = Some (c + 1)"
      using old by (auto simp: window_count_def update_conv' split: if_splits)
    moreover from this(4) nonneg \<open>1 \<le> c\<close> have "\<forall>k d. map_of ws' k = Some d \<longrightarrow> 1 \<le> d"
      by (metis add_increasing2 option.inject zero_le_one)
    ultimately show ?thesis by blast
  qed
  then show "window_count ws' T b s = window_count ws T b s + (if ok then 1 else 0)"
    and "ok \<longleftrightarrow> window_count ws T b s = 0 \<or> window_count ws T b s < limit"
    and "\<forall>k. k \<noteq> (T, b, s) \<longrightarrow> map_of ws' k = map_of ws k"
    and "\<forall>k c. map_of ws' k = Some c \<longrightarrow> 1 \<le> c" by blast+
qed

section \<open>Sequences of calls\<close>

text \<open>
  Calls of any tenants, buckets, limits and times with one window length, in the order the
  database serialises them; \<open>granted\<close> is the list of those that were allowed.
\<close>

type_synonym call = "uuid \<times> string \<times> int \<times> datetime"

inductive limiter_run :: "timedelta \<Rightarrow> call list \<Rightarrow> windows \<Rightarrow> bool" for window where
  start: "limiter_run window [] []"
| granted: "\<lbrakk>limiter_run window cs ws; allow T b limit window now ws = Inr (True, ws')\<rbrakk>
     \<Longrightarrow> limiter_run window ((T, b, limit, now) # cs) ws'"
| rejected: "\<lbrakk>limiter_run window cs ws; allow T b limit window now ws = Inr (False, ws')\<rbrakk>
     \<Longrightarrow> limiter_run window cs ws'"

text \<open>The granted calls of one tenant and bucket in the window that starts at \<open>s\<close>.\<close>

definition granted_in :: "timedelta \<Rightarrow> uuid \<Rightarrow> string \<Rightarrow> datetime \<Rightarrow> call list \<Rightarrow> call list" where
  "granted_in window T b s cs =
     filter (\<lambda>(T', b', _, now). T' = T \<and> b' = b \<and> fixed_window_start now window = Inr s) cs"

lemma granted_in_Cons: "granted_in window T b s ((T', b', l, now) # cs) =
   (if T' = T \<and> b' = b \<and> fixed_window_start now window = Inr s
    then (T', b', l, now) # granted_in window T b s cs else granted_in window T b s cs)"
  by (simp add: granted_in_def)

lemma window_count_other:
  "\<forall>k. k \<noteq> (T, b, s) \<longrightarrow> map_of ws' k = map_of ws k \<Longrightarrow> (T', b', s') \<noteq> (T, b, s)
   \<Longrightarrow> window_count ws' T' b' s' = window_count ws T' b' s'"
  by (simp add: window_count_def)

lemma limiter_run_counts:
  assumes "limiter_run window cs ws"
  shows "(\<forall>T b s. int (length (granted_in window T b s cs)) = window_count ws T b s)
     \<and> (\<forall>k c. map_of ws k = Some c \<longrightarrow> 1 \<le> c)"
  using assms
proof (induction rule: limiter_run.induct)
  case start
  show ?case by (simp add: granted_in_def window_count_def)
next
  case (granted cs ws T b limit now ws')
  then obtain s where s: "fixed_window_start now window = Inr s"
    by (auto simp: allow_def bind_result_eq_Inr)
  note c = allow_count [OF granted.hyps(2) s conjunct2 [OF granted.IH]]
  have "int (length (granted_in window T' b' s' ((T, b, limit, now) # cs))) = window_count ws' T' b' s'"
    for T' b' s'
  proof (cases "(T', b', s') = (T, b, s)")
    case True
    then show ?thesis using c(1) granted.IH s by (simp add: granted_in_Cons)
  next
    case False
    then show ?thesis using window_count_other [OF c(3) False] granted.IH s
      by (auto simp: granted_in_Cons)
  qed
  with c(4) show ?case by blast
next
  case (rejected cs ws T b limit now ws')
  then obtain s where s: "fixed_window_start now window = Inr s"
    by (auto simp: allow_def bind_result_eq_Inr)
  note c = allow_count [OF rejected.hyps(2) s conjunct2 [OF rejected.IH]]
  have "window_count ws' T' b' s' = window_count ws T' b' s'" for T' b' s'
    using c(1) window_count_other [OF c(3)] by (cases "(T', b', s') = (T, b, s)") auto
  with c(4) rejected.IH show ?case by simp
qed

lemma limiter_run_bound:
  assumes "limiter_run window cs ws" and "1 \<le> L"
    and "\<forall>(T', b', l, now) \<in> set cs. T' = T \<and> b' = b \<longrightarrow> l \<le> L"
  shows "window_count ws T b s \<le> L"
  using assms
proof (induction rule: limiter_run.induct)
  case (granted cs ws T1 b1 limit now ws')
  then obtain s1 where s1: "fixed_window_start now window = Inr s1"
    by (auto simp: allow_def bind_result_eq_Inr)
  note c = allow_count [OF granted.hyps(2) s1 conjunct2 [OF limiter_run_counts [OF granted.hyps(1)]]]
  have IH: "window_count ws T b s \<le> L" using granted.IH granted.prems by simp
  show ?case
  proof (cases "(T, b, s) = (T1, b1, s1)")
    case True
    then have "limit \<le> L" using granted.prems by simp
    with c(1,2) True granted.prems(1) show ?thesis by auto
  qed (use window_count_other [OF c(3)] IH in simp)
next
  case (rejected cs ws T1 b1 limit now ws')
  then obtain s1 where s1: "fixed_window_start now window = Inr s1"
    by (auto simp: allow_def bind_result_eq_Inr)
  note c = allow_count [OF rejected.hyps(2) s1 conjunct2 [OF limiter_run_counts [OF rejected.hyps(1)]]]
  have "window_count ws' T b s = window_count ws T b s"
    using c(1) window_count_other [OF c(3)] by (cases "(T, b, s) = (T1, b1, s1)") auto
  with rejected.IH rejected.prems show ?case by simp
qed (simp add: window_count_def)

section \<open>Properties\<close>

text \<open>
  C26: However calls of all tenants and buckets are interleaved, the calls granted to one tenant's bucket within one fixed
  window never outnumber the largest limit asked for there, or one where that limit is below one. And the limiter is exact:
  the next call of that window is granted when none has been granted in it yet, whatever its limit, or when fewer than its
  limit have been, and refused otherwise.
\<close>

theorem rate_limit_respected:
  assumes "limiter_run window cs ws"
    and "\<forall>(T', b', l, now) \<in> set cs. T' = T \<and> b' = b \<longrightarrow> l \<le> L"
  shows "int (length (granted_in window T b s cs)) \<le> max 1 L
    \<and> (\<forall>limit now granted ws'. fixed_window_start now window = Inr s \<longrightarrow> allow T b limit window now ws = Inr (granted, ws')
        \<longrightarrow> (granted \<longleftrightarrow> granted_in window T b s cs = [] \<or> int (length (granted_in window T b s cs)) < limit))"
proof -
  have "\<forall>(T', b', l, now) \<in> set cs. T' = T \<and> b' = b \<longrightarrow> l \<le> max 1 L" using assms(2) by fastforce
  from limiter_run_bound [OF assms(1) _ this, of s] have bound: "window_count ws T b s \<le> max 1 L" by simp
  note counts = limiter_run_counts [OF assms(1)]
  from counts have eq: "int (length (granted_in window T b s cs)) = window_count ws T b s" by blast
  have ex: "granted \<longleftrightarrow> granted_in window T b s cs = [] \<or> int (length (granted_in window T b s cs)) < limit"
    if "fixed_window_start now window = Inr s" "allow T b limit window now ws = Inr (granted, ws')" for limit now granted ws'
    using allow_count(2) [OF that(2,1) conjunct2 [OF counts]] by (simp only: eq [symmetric] of_nat_eq_0_iff length_0_conv)
  from bound ex show ?thesis unfolding eq [symmetric] by blast
qed

definition demo_windows :: windows where
  "demo_windows = [((1, ''b'', 0), 1)]"

theorem rate_limit_respected_witness:
  "int (length (granted_in 10 1 ''b'' 0 [(1, ''b'', 1, 3)])) \<le> 1
    \<and> allow 1 ''b'' 1 10 4 demo_windows = Inr (False, demo_windows)"
proof -
  have "allow 1 ''b'' 1 10 3 [] = Inr (True, demo_windows)"
    by (simp add: allow_def fixed_window_start_def EPOCH_def demo_windows_def)
  then have run: "limiter_run 10 [(1, ''b'', 1, 3)] demo_windows"
    by (rule limiter_run.granted [OF limiter_run.start])
  have "allow 1 ''b'' 1 10 4 demo_windows = Inr (False, demo_windows)"
    by (simp add: allow_def fixed_window_start_def EPOCH_def demo_windows_def)
  with rate_limit_respected [OF run, of 1 "''b''" 1 0] show ?thesis by simp
qed

text \<open>
  A limit of zero is not "never": the \<open>INSERT\<close> branch does not look at the limit, so the first
  call of every window is granted whatever the limit, and only then are calls refused.
\<close>

theorem rate_limit_zero_admits_one:
  assumes "0 < window" and "limit \<le> 1"
  shows "\<exists>s ws. fixed_window_start now window = Inr s
     \<and> allow T b limit window now [] = Inr (True, ws) \<and> window_count ws T b s = 1
     \<and> allow T b limit window now ws = Inr (False, ws)"
  using assms by (simp add: allow_def fixed_window_start_def window_count_def)

theorem rate_limit_zero_admits_one_witness:
  "\<exists>s ws. fixed_window_start 3 10 = Inr s \<and> allow 1 ''b'' 0 10 3 [] = Inr (True, ws)
     \<and> window_count ws 1 ''b'' s = 1 \<and> allow 1 ''b'' 0 10 3 ws = Inr (False, ws)"
  by (rule rate_limit_zero_admits_one) simp_all

end
