(* ===== verification/Publishing.thy ===== *)
theory Publishing
  imports Database Rate_Limiter
begin

text \<open>
  features/publishing/*.py, one definition per use case, and the two agents that run them around
  the calls to the channel provider (agents/publish_channel.py, agents/publication_metrics.py).
  The provider (\<open>ChannelPublisher\<close>) is code outside the repository: its answers are arguments.
\<close>

section \<open>Use cases\<close>

definition CreatePublication ::
  "uuid \<Rightarrow> uuid \<Rightarrow> uuid \<Rightarrow> uuid \<Rightarrow> uuid \<Rightarrow> uuid option \<Rightarrow> string \<Rightarrow> uuid list \<Rightarrow> string option
    \<Rightarrow> datetime option \<Rightarrow> datetime \<Rightarrow> publication use_case" where
  "CreatePublication new_id key_uuid tenant_id variant_id channel_id content_draft_id caption
       media_asset_ids link due_at now s =
     (if scoped_get pv_tenant_id (db_variants s) tenant_id variant_id = None
      then Inl (NotFoundError ''Product variant not found.'')
      else if scoped_get sa_tenant_id (db_social_accounts s) tenant_id channel_id = None
      then Inl (NotFoundError ''Channel account not found.'')
      else bind_result
        (case content_draft_id of None \<Rightarrow> Inr ()
         | Some draft_id \<Rightarrow> (case scoped_get cd_tenant_id (db_drafts s) tenant_id draft_id of
             None \<Rightarrow> Inl (NotFoundError ''Content draft not found.'')
           | Some draft \<Rightarrow> ensure (\<not> (cd_superseded_by draft \<noteq> None \<or> cd_status draft \<noteq> DRAFT_APPROVED))
               (ValidationError ''Cannot publish from an unapproved content draft.'')))
        (\<lambda>_. if media_asset_ids = []
          then Inl (ValidationError ''A publication needs at least one media asset.'')
          else bind_result (publication_get_live tenant_id variant_id channel_id s) (\<lambda>live.
            if live \<noteq> None
            then Inl (ConflictError
                   ''A publication for this variant and channel is already in flight.'')
            else let publication = Publication_create new_id key_uuid tenant_id variant_id channel_id
                       content_draft_id
                       \<lparr>pay_caption = caption, pay_media_asset_ids = map uuid_str media_asset_ids,
                        pay_link = link\<rparr> due_at now
              in bind_result (publication_add publication s) (\<lambda>s'. Inr (publication, s')))))"

definition PUBLISH_JOB_TYPE :: string where "PUBLISH_JOB_TYPE = ''publication.publish_requested''"
definition PUBLISH_CLAIMED_BY :: string where "PUBLISH_CLAIMED_BY = ''publish-channel-worker''"
definition PUBLISH_CLAIMABLE_STATUSES :: "publication_status list" where
  "PUBLISH_CLAIMABLE_STATUSES = [PUB_SCHEDULED, PUB_FAILED]"

record publish_context =
  ctx_job_id :: uuid
  ctx_publication_id :: uuid
  ctx_variant_id :: uuid
  ctx_channel_id :: uuid
  ctx_idempotency_key :: string
  ctx_payload :: publication_payload

definition StartPublicationPublish ::
  "rat \<Rightarrow> uuid \<Rightarrow> datetime \<Rightarrow> publish_context option use_case" where
  "StartPublicationPublish jitter tenant_id now s =
     (case claim tenant_id PUBLISH_CLAIMED_BY (Some PUBLISH_JOB_TYPE) now (db_jobs s) of
        (None, _) \<Rightarrow> Inr (None, s)
      | (Some job, q) \<Rightarrow>
          let s1 = s\<lparr>db_jobs := q\<rparr> in
          bind_result (dict_item py_repr (job_payload job) ''publication_id'') (\<lambda>raw.
          bind_result (uuid_parse raw) (\<lambda>publication_id.
            case publication_get tenant_id publication_id s1 of
              None \<Rightarrow> bind_result (fail_job jitter tenant_id (job_id job)
                        (''publication '' @ uuid_str publication_id @ '' not found'') now q)
                        (\<lambda>(_, q'). Inr (None, s1\<lparr>db_jobs := q'\<rparr>))
            | Some publication \<Rightarrow>
                if pub_status publication \<notin> set PUBLISH_CLAIMABLE_STATUSES
                then bind_result (fail_job jitter tenant_id (job_id job)
                        (''publication '' @ uuid_str publication_id @ '' is ''
                          @ quoted (publication_status_value (pub_status publication))
                          @ '', not claimable'') now q)
                        (\<lambda>(_, q'). Inr (None, s1\<lparr>db_jobs := q'\<rparr>))
                else bind_result (Publication_mark_dispatching now publication) (\<lambda>publication.
                  Inr (Some \<lparr>ctx_job_id = job_id job, ctx_publication_id = pub_id publication,
                             ctx_variant_id = pub_variant_id publication,
                             ctx_channel_id = pub_channel_id publication,
                             ctx_idempotency_key = pub_idempotency_key publication,
                             ctx_payload = pub_payload publication\<rparr>,
                       publication_update publication s1)))))"

definition status_after :: "publication \<Rightarrow> (string, json) dict" where
  "status_after p = [(''status'', JStr (publication_status_value (pub_status p)))]"

definition CompletePublicationPublish ::
  "uuid \<Rightarrow> uuid \<Rightarrow> uuid \<Rightarrow> uuid \<Rightarrow> string \<Rightarrow> string option \<Rightarrow> datetime \<Rightarrow> publication use_case" where
  "CompletePublicationPublish audit_id tenant_id publication_id jid external_post_id permalink now s =
     bind_result (require (NotFoundError ''Publication not found.'')
                   (publication_get tenant_id publication_id s)) (\<lambda>publication.
     bind_result (Publication_mark_published external_post_id permalink now publication) (\<lambda>publication.
     let s1 = publication_update publication s;
         s2 = s1\<lparr>db_jobs := complete_job tenant_id jid now (db_jobs s1)\<rparr>
     in bind_result (audit_record audit_id tenant_id None ''publication.published'' ''publication''
            (pub_id publication) None
            (Some (status_after publication @ [(''external_post_id'', JStr external_post_id)])) now s2)
          (\<lambda>s3. Inr (publication, s3))))"

definition FailPublicationPublish ::
  "rat \<Rightarrow> uuid \<Rightarrow> uuid \<Rightarrow> uuid \<Rightarrow> uuid \<Rightarrow> string \<Rightarrow> datetime \<Rightarrow> publication use_case" where
  "FailPublicationPublish jitter audit_id tenant_id publication_id jid err now s =
     bind_result (require (NotFoundError ''Publication not found.'')
                   (publication_get tenant_id publication_id s)) (\<lambda>publication.
     bind_result (fail_job jitter tenant_id jid err now (db_jobs s)) (\<lambda>(new_job_status, q).
     bind_result (Publication_record_attempt_failure err (new_job_status = JOB_DEAD) now publication)
       (\<lambda>publication.
     let s2 = publication_update publication (s\<lparr>db_jobs := q\<rparr>)
     in bind_result (audit_record audit_id tenant_id None ''publication.attempt_failed'' ''publication''
            (pub_id publication) None
            (Some (status_after publication @ [(''attempts'', JInt (pub_attempts publication))])) now s2)
          (\<lambda>s3. Inr (publication, s3)))))"

definition DeferPublicationPublish ::
  "uuid \<Rightarrow> uuid \<Rightarrow> uuid \<Rightarrow> string \<Rightarrow> datetime \<Rightarrow> datetime \<Rightarrow> publication use_case" where
  "DeferPublicationPublish tenant_id publication_id jid reason due_at now s =
     bind_result (require (NotFoundError ''Publication not found.'')
                   (publication_get tenant_id publication_id s)) (\<lambda>publication.
     bind_result (Publication_defer reason due_at now publication) (\<lambda>publication.
     let s1 = publication_update publication s
     in Inr (publication, s1\<lparr>db_jobs := complete_job tenant_id jid now (db_jobs s1)\<rparr>)))"

definition CancelPublication ::
  "uuid \<Rightarrow> uuid \<Rightarrow> uuid \<Rightarrow> uuid \<Rightarrow> datetime \<Rightarrow> publication use_case" where
  "CancelPublication audit_id tenant_id publication_id cancelled_by now s =
     bind_result (require (NotFoundError ''Publication not found.'')
                   (publication_get tenant_id publication_id s)) (\<lambda>old.
     bind_result (Publication_cancel now old) (\<lambda>publication.
     bind_result (audit_record audit_id tenant_id (Some cancelled_by) ''publication.cancelled''
         ''publication'' (pub_id publication) (Some (status_after old))
         (Some (status_after publication)) now (publication_update publication s))
       (\<lambda>s'. Inr (publication, s'))))"

definition DISPATCH_GRACE :: timedelta where "DISPATCH_GRACE = minutes 10"

definition release_one ::
  "(uuid \<Rightarrow> uuid) \<Rightarrow> uuid \<Rightarrow> datetime \<Rightarrow> publication \<Rightarrow> db \<Rightarrow> db result" where
  "release_one job_ids tenant_id now publication s =
     bind_result (Publication_defer_dispatch (now + DISPATCH_GRACE) now publication) (\<lambda>publication.
       enqueue_job (job_ids (pub_id publication)) tenant_id PUBLISH_JOB_TYPE
         [(''publication_id'', uuid_str (pub_id publication))] now now
         (publication_update publication s))"

text \<open>\<open>job_ids\<close> gives the fresh job id drawn for each released row.\<close>

definition ReleaseScheduledPublicationsForTenant ::
  "(uuid \<Rightarrow> uuid) \<Rightarrow> uuid \<Rightarrow> nat \<Rightarrow> datetime \<Rightarrow> nat use_case" where
  "ReleaseScheduledPublicationsForTenant job_ids tenant_id limit now s =
     (let due = list_due_for_release tenant_id now limit s in
      bind_result (fold_result (release_one job_ids tenant_id now) due s)
        (\<lambda>s'. Inr (length due, s')))"

definition DEFAULT_STALENESS :: timedelta where "DEFAULT_STALENESS = hours 1"

record metrics_fetch_context =
  mfc_publication_id :: uuid
  mfc_external_post_id :: string

definition StartPublicationMetricsFetch ::
  "uuid \<Rightarrow> timedelta \<Rightarrow> datetime \<Rightarrow> metrics_fetch_context option use_case" where
  "StartPublicationMetricsFetch tenant_id staleness now s =
     (case claim_for_metrics_fetch tenant_id (now - staleness) s of
        None \<Rightarrow> Inr (None, s)
      | Some publication \<Rightarrow>
          bind_result (Publication_mark_metrics_fetch_attempted now publication) (\<lambda>publication.
          bind_result (require AssertionError (pub_external_post_id publication)) (\<lambda>post_id.
            Inr (Some \<lparr>mfc_publication_id = pub_id publication, mfc_external_post_id = post_id\<rparr>,
                 publication_update publication s))))"

definition CompletePublicationMetricsFetch ::
  "uuid \<Rightarrow> uuid \<Rightarrow> channel_metrics \<Rightarrow> datetime \<Rightarrow> publication use_case" where
  "CompletePublicationMetricsFetch tenant_id publication_id metrics now s =
     bind_result (require (NotFoundError ''Publication not found.'')
                   (publication_get tenant_id publication_id s)) (\<lambda>publication.
     bind_result (Publication_record_metrics metrics now publication) (\<lambda>publication.
       Inr (publication, publication_update publication s)))"

section \<open>The agents\<close>

text \<open>
  What \<open>PublishChannelAgent.run\<close> does after \<open>start\<close> and the rate check have returned: the
  provider's two answers (each a result or the text of the exception it raised) decide which
  use case closes the attempt.
\<close>

definition RATE_LIMIT_WINDOW :: timedelta where "RATE_LIMIT_WINDOW = days 1"

definition RATE_LIMIT_REASON :: string where
  "RATE_LIMIT_REASON = ''Per-account publish rate limit exceeded for the day.''"

definition publication_bucket :: "publish_context \<Rightarrow> string" where
  "publication_bucket ctx = ''publication:'' @ uuid_str (ctx_channel_id ctx)"

record publish_payload =
  pp_variant_id :: uuid
  pp_caption :: string
  pp_media_asset_ids :: "uuid list"
  pp_link :: "string option"

definition publish_payload_of :: "publish_context \<Rightarrow> publish_payload result" where
  "publish_payload_of ctx =
     bind_result (map_result uuid_parse (pay_media_asset_ids (ctx_payload ctx))) (\<lambda>ids.
       Inr \<lparr>pp_variant_id = ctx_variant_id ctx, pp_caption = pay_caption (ctx_payload ctx),
            pp_media_asset_ids = ids, pp_link = pay_link (ctx_payload ctx)\<rparr>)"

record 'e provider =
  validate_payload :: "publish_payload \<Rightarrow> 'e + (bool \<times> string list)"
  publish_post :: "publish_payload \<Rightarrow> string \<Rightarrow> 'e + (string \<times> string option)"

text \<open>How an attempt ends; a payload the provider rejects is closed inside the \<open>try\<close>.\<close>

datatype closing = Published string "string option" | Rejected string | Failed string
  | Deferred string datetime

definition provider_outcome :: "string provider \<Rightarrow> publish_payload \<Rightarrow> string \<Rightarrow> closing" where
  "provider_outcome prov payload key =
     (case validate_payload prov payload of
        Inl exc \<Rightarrow> Failed exc
      | Inr (valid, errs) \<Rightarrow>
          if \<not> valid
          then Rejected (let e = join ''; '' errs in if e \<noteq> [] then e else ''Publish payload failed validation.'')
          else (case publish_post prov payload key of
              Inl exc \<Rightarrow> Failed exc
            | Inr (post_id, permalink) \<Rightarrow> Published post_id permalink))"

text \<open>
  What a transaction reads from outside: the clock, the backoff jitter, a fresh identifier.
\<close>

record draws =
  draw_time :: datetime
  draw_jitter :: rat
  draw_id :: uuid

definition fail_attempt :: "draws \<Rightarrow> uuid \<Rightarrow> publish_context \<Rightarrow> string \<Rightarrow> publication use_case" where
  "fail_attempt d tenant_id ctx err =
     FailPublicationPublish (draw_jitter d) (draw_id d) tenant_id (ctx_publication_id ctx)
       (ctx_job_id ctx) err (draw_time d)"

text \<open>
  The closing transaction. Only the \<open>fail\<close> of a rejected payload stands inside the \<open>try\<close>: when it
  raises, the handler fails the attempt once more with that error's text (\<open>str_exc\<close>), in a new
  transaction with draws of its own.
\<close>

definition close_attempt ::
  "(exn \<Rightarrow> string) \<Rightarrow> draws \<Rightarrow> draws \<Rightarrow> uuid \<Rightarrow> publish_context \<Rightarrow> closing \<Rightarrow> publication use_case" where
  "close_attempt str_exc d d' tenant_id ctx c s =
     (case c of
        Published post_id permalink \<Rightarrow> CompletePublicationPublish (draw_id d) tenant_id
          (ctx_publication_id ctx) (ctx_job_id ctx) post_id permalink (draw_time d) s
      | Deferred reason due_at \<Rightarrow> DeferPublicationPublish tenant_id (ctx_publication_id ctx)
          (ctx_job_id ctx) reason due_at (draw_time d) s
      | Failed err \<Rightarrow> fail_attempt d tenant_id ctx err s
      | Rejected err \<Rightarrow> (case fail_attempt d tenant_id ctx err s of
          Inr r \<Rightarrow> Inr r
        | Inl e \<Rightarrow> fail_attempt d' tenant_id ctx (str_exc e) s))"

text \<open>
  \<open>draw 0\<close> belongs to \<open>start\<close>, \<open>draw 1\<close> to the rate check, \<open>draw 2\<close> and \<open>draw 3\<close> to the closing.
\<close>

definition PublishChannelAgent_run ::
  "(exn \<Rightarrow> string) \<Rightarrow> string provider \<Rightarrow> int \<Rightarrow> (nat \<Rightarrow> draws) \<Rightarrow> uuid \<Rightarrow> db \<Rightarrow> windows
    \<Rightarrow> publication option result \<times> db \<times> windows" where
  "PublishChannelAgent_run str_exc prov rate_limit draw tenant_id s ws =
     (case run_uow (StartPublicationPublish (draw_jitter (draw 0)) tenant_id (draw_time (draw 0))) s of
        (Inl e, s1) \<Rightarrow> (Inl e, s1, ws)
      | (Inr None, s1) \<Rightarrow> (Inr None, s1, ws)
      | (Inr (Some ctx), s1) \<Rightarrow>
          (let now = draw_time (draw 1) in
           case allow tenant_id (publication_bucket ctx) rate_limit RATE_LIMIT_WINDOW now ws of
             Inl e \<Rightarrow> (Inl e, s1, ws)
           | Inr (allowed, ws1) \<Rightarrow>
               (case (if \<not> allowed
                      then bind_result (fixed_window_start now RATE_LIMIT_WINDOW) (\<lambda>start.
                             Inr (Deferred RATE_LIMIT_REASON (start + RATE_LIMIT_WINDOW)))
                      else bind_result (publish_payload_of ctx) (\<lambda>payload.
                             Inr (provider_outcome prov payload (ctx_idempotency_key ctx)))) of
                  Inl e \<Rightarrow> (Inl e, s1, ws1)
                | Inr c \<Rightarrow>
                    (case run_uow (close_attempt str_exc (draw 2) (draw 3) tenant_id ctx c) s1 of
                       (r, s2) \<Rightarrow> (bind_result r (\<lambda>p. Inr (Some p)), s2, ws1)))))"

text \<open>A failed fetch of the metrics (\<open>fetch\<close> is the provider's) is swallowed.\<close>

definition PublicationMetricsAgent_run ::
  "(string \<Rightarrow> string + channel_metrics) \<Rightarrow> (nat \<Rightarrow> draws) \<Rightarrow> uuid \<Rightarrow> db
    \<Rightarrow> publication option result \<times> db" where
  "PublicationMetricsAgent_run fetch draw tenant_id s =
     (case run_uow (StartPublicationMetricsFetch tenant_id DEFAULT_STALENESS (draw_time (draw 0))) s of
        (Inl e, s1) \<Rightarrow> (Inl e, s1)
      | (Inr None, s1) \<Rightarrow> (Inr None, s1)
      | (Inr (Some ctx), s1) \<Rightarrow>
          (case fetch (mfc_external_post_id ctx) of
             Inl _ \<Rightarrow> (Inr None, s1)
           | Inr metrics \<Rightarrow>
               (case run_uow (CompletePublicationMetricsFetch tenant_id (mfc_publication_id ctx)
                               metrics (draw_time (draw 1))) s1 of
                  (r, s2) \<Rightarrow> (bind_result r (\<lambda>p. Inr (Some p)), s2))))"

section \<open>What a successful use case did to the publications\<close>

lemma CreatePublication_InrD:
  assumes "CreatePublication n k T v c d cap ms link due now s = Inr (p, s')"
  shows "publication_add p s = Inr s' \<and> pub_id p = n \<and> pub_tenant_id p = T \<and> pub_variant_id p = v
     \<and> pub_channel_id p = c \<and> pub_status p = PUB_SCHEDULED \<and> pub_attempts p = 0
     \<and> pub_idempotency_key p = uuid_hex k \<and> ms \<noteq> []
     \<and> publication_get_live T v c s = Inr None
     \<and> (\<forall>i. d = Some i \<longrightarrow> (\<exists>dr. scoped_get cd_tenant_id (db_drafts s) T i = Some dr
            \<and> cd_status dr = DRAFT_APPROVED \<and> cd_superseded_by dr = None))"
  using assms
  by (auto simp: CreatePublication_def bind_result_eq_Inr Let_def Publication_create_def
      split: if_splits option.splits)

lemma CompletePublicationPublish_InrD:
  assumes "CompletePublicationPublish n T i j ext link now s = Inr (p', s')"
  shows "\<exists>p. publication_get T i s = Some p \<and> Publication_mark_published ext link now p = Inr p'
     \<and> db_publications s' = tbl_put (pub_id p') p' (db_publications s)
     \<and> db_jobs s' = complete_job T j now (db_jobs s)"
  using assms
  by (auto simp: CompletePublicationPublish_def bind_result_eq_Inr Let_def publication_update_def
      dest!: audit_record_Inr)

lemma FailPublicationPublish_InrD:
  assumes "FailPublicationPublish jit n T i j err now s = Inr (p', s')"
  shows "\<exists>p st q. publication_get T i s = Some p \<and> fail_job jit T j err now (db_jobs s) = Inr (st, q)
     \<and> Publication_record_attempt_failure err (st = JOB_DEAD) now p = Inr p'
     \<and> db_publications s' = tbl_put (pub_id p') p' (db_publications s) \<and> db_jobs s' = q"
  using assms
  by (auto simp: FailPublicationPublish_def bind_result_eq_Inr Let_def publication_update_def
      dest!: audit_record_Inr)

lemma DeferPublicationPublish_InrD:
  assumes "DeferPublicationPublish T i j reason due now s = Inr (p', s')"
  shows "\<exists>p. publication_get T i s = Some p \<and> Publication_defer reason due now p = Inr p'
     \<and> db_publications s' = tbl_put (pub_id p') p' (db_publications s)
     \<and> db_jobs s' = complete_job T j now (db_jobs s)"
  using assms
  by (auto simp: DeferPublicationPublish_def bind_result_eq_Inr Let_def publication_update_def)

lemma CancelPublication_InrD:
  assumes "CancelPublication n T i u now s = Inr (p', s')"
  shows "\<exists>p. publication_get T i s = Some p \<and> Publication_cancel now p = Inr p'
     \<and> db_publications s' = tbl_put (pub_id p') p' (db_publications s)"
  using assms
  by (auto simp: CancelPublication_def bind_result_eq_Inr publication_update_def
      dest!: audit_record_Inr)

lemma CompletePublicationMetricsFetch_InrD:
  assumes "CompletePublicationMetricsFetch T i m now s = Inr (p', s')"
  shows "\<exists>p. publication_get T i s = Some p \<and> Publication_record_metrics m now p = Inr p'
     \<and> db_publications s' = tbl_put (pub_id p') p' (db_publications s)"
  using assms
  by (auto simp: CompletePublicationMetricsFetch_def bind_result_eq_Inr publication_update_def)

lemma StartPublicationMetricsFetch_InrD:
  assumes "StartPublicationMetricsFetch T w now s = Inr (r, s')"
  shows "(r = None \<and> s' = s) \<or> (\<exists>p p'. p \<in> set (rows (db_publications s)) \<and> pub_tenant_id p = T
     \<and> Publication_mark_metrics_fetch_attempted now p = Inr p'
     \<and> db_publications s' = tbl_put (pub_id p') p' (db_publications s))"
proof (cases "claim_for_metrics_fetch T (now - w) s")
  case None
  with assms show ?thesis by (simp add: StartPublicationMetricsFetch_def)
next
  case (Some p)
  then have "p \<in> set (rows (db_publications s))" "pub_tenant_id p = T"
    by (auto simp: claim_for_metrics_fetch_def dest!: first_by_Some(1))
  moreover from assms Some obtain p' where "Publication_mark_metrics_fetch_attempted now p = Inr p'"
    "db_publications s' = tbl_put (pub_id p') p' (db_publications s)"
    by (auto simp: StartPublicationMetricsFetch_def bind_result_eq_Inr publication_update_def)
  ultimately show ?thesis by blast
qed

lemma StartPublicationPublish_InrD:
  assumes "StartPublicationPublish jit T now s = Inr (r, s')"
  shows "(r = None \<and> db_publications s' = db_publications s)
     \<or> (\<exists>p p' i ctx. r = Some ctx \<and> publication_get T i s = Some p
          \<and> pub_status p \<in> {PUB_SCHEDULED, PUB_FAILED}
          \<and> Publication_mark_dispatching now p = Inr p'
          \<and> db_publications s' = tbl_put (pub_id p') p' (db_publications s)
          \<and> ctx_publication_id ctx = pub_id p' \<and> ctx_idempotency_key ctx = pub_idempotency_key p'
          \<and> ctx_payload ctx = pub_payload p')"
proof -
  obtain jo q where c: "claim T PUBLISH_CLAIMED_BY (Some PUBLISH_JOB_TYPE) now (db_jobs s) = (jo, q)"
    by fastforce
  show ?thesis
  proof (cases jo)
    case None
    with assms c show ?thesis by (simp add: StartPublicationPublish_def)
  next
    case (Some job)
    with assms c obtain raw i where i: "dict_item py_repr (job_payload job) ''publication_id'' = Inr raw"
      "uuid_parse raw = Inr i"
      by (auto simp: StartPublicationPublish_def Let_def bind_result_eq_Inr)
    have g: "publication_get T i (s\<lparr>db_jobs := q\<rparr>) = publication_get T i s"
      by (simp add: publication_get_def)
    note run = assms [unfolded StartPublicationPublish_def, simplified c Some Let_def i g]
    show ?thesis
    proof (cases "publication_get T i s")
      case None
      with run i c Some g show ?thesis by (auto simp: bind_result_eq_Inr)
    next
      case p: (Some p)
      show ?thesis
      proof (cases "pub_status p \<in> {PUB_SCHEDULED, PUB_FAILED}")
        case False
        with run i c Some g p show ?thesis
          by (auto simp: bind_result_eq_Inr PUBLISH_CLAIMABLE_STATUSES_def)
      next
        case True
        with run i c Some g p obtain p' ctx where "Publication_mark_dispatching now p = Inr p'"
          "r = Some ctx" "ctx_publication_id ctx = pub_id p'"
          "ctx_idempotency_key ctx = pub_idempotency_key p'" "ctx_payload ctx = pub_payload p'"
          "db_publications s' = tbl_put (pub_id p') p' (db_publications s)"
          by (auto simp: bind_result_eq_Inr PUBLISH_CLAIMABLE_STATUSES_def publication_update_def)
        with True p show ?thesis by blast
      qed
    qed
  qed
qed

lemma release_one_InrD:
  assumes "release_one ids T now p s = Inr s'"
  shows "\<exists>p' q. Publication_defer_dispatch (now + DISPATCH_GRACE) now p = Inr p'
     \<and> db_publications s' = tbl_put (pub_id p') p' (db_publications s)
     \<and> enqueue (ids (pub_id p')) T PUBLISH_JOB_TYPE [(''publication_id'', uuid_str (pub_id p'))] now now
         DEFAULT_MAX_ATTEMPTS (db_jobs s) = Inr q \<and> db_jobs s' = q"
  using assms
  by (auto simp: release_one_def enqueue_job_def bind_result_eq_Inr publication_update_def)

lemma close_attempt_InrD:
  assumes "close_attempt str_exc d d' T ctx c s = Inr (p', s')"
  shows "(\<exists>ext link. c = Published ext link \<and> CompletePublicationPublish (draw_id d) T
            (ctx_publication_id ctx) (ctx_job_id ctx) ext link (draw_time d) s = Inr (p', s'))
     \<or> (\<exists>r due. c = Deferred r due \<and> DeferPublicationPublish T (ctx_publication_id ctx)
            (ctx_job_id ctx) r due (draw_time d) s = Inr (p', s'))
     \<or> (\<exists>err d1. (\<exists>e. c = Failed e \<or> c = Rejected e)
            \<and> fail_attempt d1 T ctx err s = Inr (p', s'))"
  using assms by (auto simp: close_attempt_def split: closing.splits sum.splits)

end
