(* ===== verification/Publishing_Protocol.thy ===== *)
theory Publishing_Protocol
  imports Publishing
begin

text \<open>
  Publishing as a system: the database, the workers that stand between the transaction that
  claimed a publication and the one that closes the attempt, and the calls made to the provider.
  Every interleaving of committed transactions is a path of \<open>protocol_step\<close>; a worker may die at
  any point, and any other transaction of the application may change every other table.
\<close>

section \<open>States and steps\<close>

text \<open>A worker: its tenant, the context \<open>start\<close> gave it, and whether it has called \<open>publish\<close>.\<close>

type_synonym worker = "uuid \<times> publish_context \<times> bool"

record protocol =
  pr_db :: db
  pr_workers :: "worker list"
  pr_calls :: "(uuid \<times> string) list" \<comment> \<open>publication and idempotency key of each \<open>publish\<close> call\<close>

text \<open>Which closings the agent's control flow allows before and after the \<open>publish\<close> call.\<close>

fun closing_allowed :: "bool \<Rightarrow> closing \<Rightarrow> bool" where
  "closing_allowed posted (Published _ _) = posted"
| "closing_allowed posted (Rejected _) = (\<not> posted)"
| "closing_allowed posted (Failed _) = True"
| "closing_allowed posted (Deferred _ _) = (\<not> posted)"

inductive protocol_step :: "protocol \<Rightarrow> protocol \<Rightarrow> bool" where
  create: "CreatePublication n k T v c d cap ms link due now (pr_db u) = Inr (p, s')
     \<Longrightarrow> protocol_step u (u\<lparr>pr_db := s'\<rparr>)"
| cancel: "CancelPublication n T i who now (pr_db u) = Inr (p, s')
     \<Longrightarrow> protocol_step u (u\<lparr>pr_db := s'\<rparr>)"
| release: "ReleaseScheduledPublicationsForTenant ids T limit now (pr_db u) = Inr (m, s')
     \<Longrightarrow> protocol_step u (u\<lparr>pr_db := s'\<rparr>)"
| start_none: "StartPublicationPublish jit T now (pr_db u) = Inr (None, s')
     \<Longrightarrow> protocol_step u (u\<lparr>pr_db := s'\<rparr>)"
| start_some: "StartPublicationPublish jit T now (pr_db u) = Inr (Some ctx, s')
     \<Longrightarrow> protocol_step u (u\<lparr>pr_db := s', pr_workers := (T, ctx, False) # pr_workers u\<rparr>)"
| post: "pr_workers u = ws1 @ (T, ctx, False) # ws2
     \<Longrightarrow> protocol_step u (u\<lparr>pr_workers := ws1 @ (T, ctx, True) # ws2,
           pr_calls := (ctx_publication_id ctx, ctx_idempotency_key ctx) # pr_calls u\<rparr>)"
| close: "\<lbrakk>pr_workers u = ws1 @ (T, ctx, posted) # ws2; closing_allowed posted c;
      close_attempt str_exc d d' T ctx c (pr_db u) = Inr (p, s')\<rbrakk>
     \<Longrightarrow> protocol_step u (u\<lparr>pr_db := s', pr_workers := ws1 @ ws2\<rparr>)"
| crash: "pr_workers u = ws1 @ w # ws2 \<Longrightarrow> protocol_step u (u\<lparr>pr_workers := ws1 @ ws2\<rparr>)"
| metrics_start: "StartPublicationMetricsFetch T stale now (pr_db u) = Inr (mc, s')
     \<Longrightarrow> protocol_step u (u\<lparr>pr_db := s'\<rparr>)"
| metrics_complete: "CompletePublicationMetricsFetch T i m now (pr_db u) = Inr (p, s')
     \<Longrightarrow> protocol_step u (u\<lparr>pr_db := s'\<rparr>)"
| other: "db_publications s' = db_publications (pr_db u)
     \<Longrightarrow> protocol_step u (u\<lparr>pr_db := s'\<rparr>)"

text \<open>A system that starts without publications and workers.\<close>

inductive reachable :: "protocol \<Rightarrow> bool" where
  init: "\<lbrakk>db_publications (pr_db u) = []; pr_workers u = []; pr_calls u = []\<rbrakk> \<Longrightarrow> reachable u"
| step: "\<lbrakk>reachable u; protocol_step u u'\<rbrakk> \<Longrightarrow> reachable u'"

section \<open>The invariant\<close>

definition worker_id :: "worker \<Rightarrow> uuid" where
  "worker_id w = ctx_publication_id (fst (snd w))"

definition worker_ids :: "worker list \<Rightarrow> uuid list" where
  "worker_ids ws = map worker_id ws"

text \<open>The publications whose worker has not called the provider yet.\<close>

definition waiting :: "worker list \<Rightarrow> uuid set" where
  "waiting ws = {i. \<exists>T ctx. (T, ctx, False) \<in> set ws \<and> ctx_publication_id ctx = i}"

definition calls_for :: "uuid \<Rightarrow> (uuid \<times> string) list \<Rightarrow> nat" where
  "calls_for i cs = length (filter (\<lambda>(j, _). j = i) cs)"

text \<open>How many \<open>publish\<close> calls a row accounts for.\<close>

definition call_budget :: "publication \<Rightarrow> worker list \<Rightarrow> int" where
  "call_budget p ws = pub_attempts p
     + (if pub_status p = PUB_PUBLISHED \<or> pub_status p = PUB_DISPATCHING \<and> pub_id p \<notin> waiting ws
        then 1 else 0)"

definition serves :: "publication \<Rightarrow> worker \<Rightarrow> bool" where
  "serves p w \<longleftrightarrow> pub_tenant_id p = fst w \<and> pub_status p = PUB_DISPATCHING
     \<and> pub_idempotency_key p = ctx_idempotency_key (fst (snd w))"

definition single_flight :: "publication table \<Rightarrow> bool" where
  "single_flight t \<longleftrightarrow> (\<forall>i j p q. tbl_get t i = Some p \<longrightarrow> tbl_get t j = Some q \<longrightarrow> pub_clash p q \<longrightarrow> i = j)"

definition proto_inv :: "publication table \<Rightarrow> worker list \<Rightarrow> (uuid \<times> string) list \<Rightarrow> bool" where
  "proto_inv t ws cs \<longleftrightarrow> tbl_ok pub_id t \<and> distinct (worker_ids ws)
     \<and> (\<forall>w \<in> set ws. \<exists>p. tbl_get t (worker_id w) = Some p \<and> serves p w)
     \<and> (\<forall>(i, k) \<in> set cs. \<exists>p. tbl_get t i = Some p \<and> pub_idempotency_key p = k)
     \<and> (\<forall>i p. tbl_get t i = Some p \<longrightarrow> int (calls_for i cs) \<le> call_budget p ws)
     \<and> single_flight t"

lemma worker_ids_iff: "i \<in> set (worker_ids ws) \<longleftrightarrow> (\<exists>w \<in> set ws. worker_id w = i)"
  unfolding worker_ids_def by (simp add: image_iff) blast

lemma worker_split:
  assumes "distinct (worker_ids (ws1 @ w # ws2))" and "v \<in> set (ws1 @ ws2)"
  shows "worker_id v \<noteq> worker_id w"
proof -
  have "worker_id v \<in> set (worker_ids (ws1 @ ws2))" using assms(2) by (auto simp: worker_ids_iff)
  moreover have "worker_id w \<notin> set (worker_ids (ws1 @ ws2))" using assms(1) by (simp add: worker_ids_def)
  ultimately show ?thesis by auto
qed

lemma waiting_iff: "i \<in> waiting ws \<longleftrightarrow> (\<exists>w \<in> set ws. worker_id w = i \<and> \<not> snd (snd w))"
  by (force simp: waiting_def worker_id_def)

lemma waiting_subset:
  assumes "\<forall>w \<in> set ws'. worker_id w = j \<longrightarrow> w \<in> set ws"
  shows "j \<in> waiting ws' \<Longrightarrow> j \<in> waiting ws"
  using assms unfolding waiting_def worker_id_def by fastforce

lemma step_ident_facts:
  assumes "publication_step p p'"
  shows "pub_id p' = pub_id p" "pub_tenant_id p' = pub_tenant_id p"
    "pub_variant_id p' = pub_variant_id p" "pub_channel_id p' = pub_channel_id p"
    "pub_idempotency_key p' = pub_idempotency_key p" "pub_payload p' = pub_payload p"
  using publication_step_ident [OF assms] by (simp_all add: publication_ident_def)

lemma single_flight_put:
  assumes "single_flight t" and "tbl_get t i = Some p" and "publication_step p p'"
  shows "single_flight (tbl_put i p' t)"
proof -
  note same = step_ident_facts [OF assms(3)] and live = pub_live_step [OF assms(3)]
  show ?thesis unfolding single_flight_def
  proof (intro allI impI)
    fix a b x y
    assume x: "tbl_get (tbl_put i p' t) a = Some x" and y: "tbl_get (tbl_put i p' t) b = Some y"
      and clash: "pub_clash x y"
    show "a = b"
      using x y clash assms(1,2) live same
      by (cases "a = i"; cases "b = i") (auto simp: tbl_get_put single_flight_def pub_clash_def)
  qed
qed

text \<open>One row moved by one of the entity's methods, the workers changed for that row only.\<close>

lemma proto_put:
  assumes inv: "proto_inv t ws cs" and get: "tbl_get t i = Some p" and step: "publication_step p p'"
    and dist: "distinct (worker_ids ws')"
    and others: "\<forall>w \<in> set ws'. worker_id w \<noteq> i \<longrightarrow> w \<in> set ws"
    and mine: "\<forall>w \<in> set ws'. worker_id w = i \<longrightarrow> serves p' w"
    and budget: "int (calls_for i cs) \<le> call_budget p' ws'"
  shows "proto_inv (tbl_put i p' t) ws' cs"
proof -
  note same = step_ident_facts [OF step]
  have ok: "tbl_ok pub_id t" and id: "pub_id p = i"
    using inv get by (auto simp: proto_inv_def tbl_get_key)
  have "tbl_ok pub_id (tbl_put i p' t)" using ok id same by (simp add: tbl_ok_put)
  moreover have "\<exists>q. tbl_get (tbl_put i p' t) (worker_id w) = Some q \<and> serves q w" if "w \<in> set ws'" for w
    using that mine others inv by (cases "worker_id w = i") (auto simp: tbl_get_put proto_inv_def)
  moreover have "\<exists>q. tbl_get (tbl_put i p' t) j = Some q \<and> pub_idempotency_key q = k"
    if "(j, k) \<in> set cs" for j k
    using that inv get same by (auto simp: tbl_get_put proto_inv_def)
  moreover have "int (calls_for j cs) \<le> call_budget q ws'"
    if q: "tbl_get (tbl_put i p' t) j = Some q" for j q
  proof (cases "j = i")
    case True
    with q budget show ?thesis by (simp add: tbl_get_put)
  next
    case False
    with q have g: "tbl_get t j = Some q" by (simp add: tbl_get_put)
    then have "pub_id q = j" using ok by (simp add: tbl_get_key)
    moreover from False have "j \<in> waiting ws' \<Longrightarrow> j \<in> waiting ws"
      using others by (intro waiting_subset [of ws' j ws]) auto
    ultimately have "call_budget q ws \<le> call_budget q ws'" by (auto simp: call_budget_def)
    with g inv show ?thesis by (fastforce simp: proto_inv_def)
  qed
  moreover have "single_flight (tbl_put i p' t)"
    using inv get step by (auto simp: proto_inv_def intro: single_flight_put)
  ultimately show ?thesis using dist by (auto simp: proto_inv_def)
qed

lemma no_worker:
  assumes "proto_inv t ws cs" and "tbl_get t i = Some p" and "pub_status p \<noteq> PUB_DISPATCHING"
  shows "i \<notin> set (worker_ids ws)"
  using assms by (auto simp: proto_inv_def worker_ids_def serves_def)

lemma not_waiting: "i \<notin> set (worker_ids ws) \<Longrightarrow> i \<notin> waiting ws"
  by (auto simp: waiting_def worker_ids_def worker_id_def image_iff)

text \<open>A row no worker holds, moved by a method that keeps its budget.\<close>

lemma proto_put_idle:
  assumes inv: "proto_inv t ws cs" and get: "tbl_get t i = Some p" and step: "publication_step p p'"
    and st: "pub_status p \<noteq> PUB_DISPATCHING" "pub_status p' \<noteq> PUB_DISPATCHING"
      "pub_attempts p' = pub_attempts p" "pub_status p = PUB_PUBLISHED \<Longrightarrow> pub_status p' = PUB_PUBLISHED"
  shows "proto_inv (tbl_put i p' t) ws cs"
proof (rule proto_put [OF inv get step])
  have none: "i \<notin> set (worker_ids ws)" by (rule no_worker [OF inv get st(1)])
  then show "\<forall>w \<in> set ws. worker_id w = i \<longrightarrow> serves p' w" by (auto simp: worker_ids_def)
  have "int (calls_for i cs) \<le> call_budget p ws" using inv get by (auto simp: proto_inv_def)
  then show "int (calls_for i cs) \<le> call_budget p' ws" using st by (auto simp: call_budget_def split: if_splits)
qed (use inv in \<open>auto simp: proto_inv_def\<close>)

section \<open>Every step keeps it\<close>

lemma publication_get_Some:
  "publication_get T i s = Some p \<longleftrightarrow> tbl_get (db_publications s) i = Some p \<and> pub_tenant_id p = T"
  by (simp add: publication_get_def scoped_get_Some)

lemma pub_clash_sym: "pub_clash p q \<Longrightarrow> pub_clash q p"
  by (auto simp: pub_clash_def)

lemma single_flight_add:
  assumes "single_flight t" and "tbl_add i p t = Inr t'" and "\<not> list_ex (pub_clash p) (rows t)"
  shows "single_flight t'"
proof -
  have no: "\<not> pub_clash p q" "\<not> pub_clash q p" if "tbl_get t j = Some q" for j q
    using assms(3) rows_mem [OF that] pub_clash_sym [of q p] by (auto simp: list_ex_iff)
  show ?thesis unfolding single_flight_def
  proof (intro allI impI)
    fix a b x y
    assume "tbl_get t' a = Some x" "tbl_get t' b = Some y" "pub_clash x y"
    with no assms(1) show "a = b"
      by (cases "a = i"; cases "b = i") (auto simp: tbl_get_add [OF assms(2)] single_flight_def)
  qed
qed

lemma proto_publication_add:
  assumes inv: "proto_inv (db_publications s) ws cs" and add: "publication_add p s = Inr s'"
    and zero: "pub_attempts p = 0"
  shows "proto_inv (db_publications s') ws cs"
proof -
  let ?t = "db_publications s" and ?t' = "db_publications s'"
  from add have new: "\<not> list_ex (pub_clash p) (rows ?t)" "tbl_add (pub_id p) p ?t = Inr ?t'"
    by (auto simp: publication_add_def bind_result_eq_Inr tbl_add_unique_Inr)
  from new(2) have fresh: "tbl_get ?t (pub_id p) = None" by (rule tbl.add_fresh)
  note get = tbl_get_add [OF new(2)]
  have keep: "tbl_get ?t i = Some q \<Longrightarrow> tbl_get ?t' i = Some q" for i q
    using fresh by (auto simp: get)
  have "tbl_ok pub_id ?t'" using inv new(2) by (auto simp: proto_inv_def intro: tbl_ok_add)
  moreover have "\<forall>w \<in> set ws. \<exists>q. tbl_get ?t' (worker_id w) = Some q \<and> serves q w"
    using inv keep by (fastforce simp: proto_inv_def)
  moreover have "\<forall>(i, k) \<in> set cs. \<exists>q. tbl_get ?t' i = Some q \<and> pub_idempotency_key q = k"
    using inv keep by (fastforce simp: proto_inv_def)
  moreover have "int (calls_for i cs) \<le> call_budget q ws" if q: "tbl_get ?t' i = Some q" for i q
  proof (cases "i = pub_id p")
    case True
    then have "calls_for i cs = 0"
      using inv fresh by (fastforce simp: proto_inv_def calls_for_def filter_empty_conv)
    with q True zero show ?thesis by (simp add: get call_budget_def)
  qed (use q inv in \<open>auto simp: get proto_inv_def\<close>)
  moreover have "single_flight ?t'"
    using inv new by (auto simp: proto_inv_def intro: single_flight_add)
  ultimately show ?thesis using inv by (simp add: proto_inv_def)
qed

lemma proto_release_one:
  assumes inv: "proto_inv (db_publications s) ws cs" and r: "release_one ids T now p s = Inr s'"
    and get: "tbl_get (db_publications s) (pub_id p) = Some p"
  shows "proto_inv (db_publications s') ws cs"
    and "j \<noteq> pub_id p \<Longrightarrow> tbl_get (db_publications s') j = tbl_get (db_publications s) j"
proof -
  from release_one_InrD [OF r] obtain p' where
    p': "Publication_defer_dispatch (now + DISPATCH_GRACE) now p = Inr p'"
      "db_publications s' = tbl_put (pub_id p') p' (db_publications s)" by blast
  have step: "publication_step p p'" by (rule publication_step.defer_dispatch [OF p'(1)])
  have id: "pub_id p' = pub_id p" by (rule step_ident_facts [OF step])
  show "proto_inv (db_publications s') ws cs"
    unfolding p'(2) id
    by (rule proto_put_idle [OF inv get step])
       (use p'(1) in \<open>auto simp: Publication_defer_dispatch_def split: if_splits\<close>)
  show "j \<noteq> pub_id p \<Longrightarrow> tbl_get (db_publications s') j = tbl_get (db_publications s) j"
    by (simp add: p'(2) id tbl_get_put)
qed

lemma proto_release:
  assumes inv: "proto_inv (db_publications s) ws cs"
    and r: "ReleaseScheduledPublicationsForTenant ids T limit now s = Inr (m, s')"
  shows "proto_inv (db_publications s') ws cs"
proof -
  let ?due = "list_due_for_release T now limit s"
  have ok: "tbl_ok pub_id (db_publications s)" using inv by (simp add: proto_inv_def)
  note q = query_rows [OF ok]
  from r have f: "fold_result (release_one ids T now) ?due s = Inr s'"
    by (auto simp: ReleaseScheduledPublicationsForTenant_def Let_def bind_result_eq_Inr)
  show ?thesis
  proof (rule fold_result_rows [where key = pub_id and tab = db_publications and
        P = "\<lambda>t. proto_inv (db_publications t) ws cs", OF f inv])
    show "distinct (map pub_id ?due)" unfolding list_due_for_release_def by (rule q(1))
    show "\<forall>p \<in> set ?due. tbl_get (db_publications s) (pub_id p) = Some p"
      unfolding list_due_for_release_def using q(2) by blast
  qed (use proto_release_one in blast)
qed

lemma proto_moved_idle:
  assumes inv: "proto_inv (db_publications s) ws cs"
    and get: "tbl_get (db_publications s) (pub_id p) = Some p" and step: "publication_step p p'"
    and s': "db_publications s' = tbl_put (pub_id p') p' (db_publications s)"
    and st: "pub_status p \<noteq> PUB_DISPATCHING" "pub_status p' \<noteq> PUB_DISPATCHING"
      "pub_attempts p' = pub_attempts p" "pub_status p = PUB_PUBLISHED \<Longrightarrow> pub_status p' = PUB_PUBLISHED"
  shows "proto_inv (db_publications s') ws cs"
  unfolding s' step_ident_facts(1) [OF step] by (rule proto_put_idle [OF inv get step st])

lemma get_own:
  "proto_inv (db_publications s) ws cs \<Longrightarrow> publication_get T i s = Some p
   \<Longrightarrow> tbl_get (db_publications s) (pub_id p) = Some p \<and> pub_id p = i"
  using tbl_get_key [of pub_id "db_publications s" i p]
  by (auto simp: publication_get_Some proto_inv_def)

lemma proto_start:
  assumes inv: "proto_inv (db_publications s) ws cs"
    and st: "StartPublicationPublish jit T now s = Inr (Some ctx, s')"
  shows "proto_inv (db_publications s') ((T, ctx, False) # ws) cs"
proof -
  from StartPublicationPublish_InrD [OF st] obtain p p' i where
    p: "publication_get T i s = Some p" "pub_status p \<in> {PUB_SCHEDULED, PUB_FAILED}"
      "Publication_mark_dispatching now p = Inr p'"
      "db_publications s' = tbl_put (pub_id p') p' (db_publications s)"
      "ctx_publication_id ctx = pub_id p'" "ctx_idempotency_key ctx = pub_idempotency_key p'" by auto
  have step: "publication_step p p'" by (rule publication_step.mark_dispatching [OF p(3)])
  note same = step_ident_facts [OF step]
  from get_own [OF inv p(1)] have get: "tbl_get (db_publications s) (pub_id p) = Some p" by blast
  have idle: "pub_id p \<notin> set (worker_ids ws)" by (rule no_worker [OF inv get]) (use p(2) in auto)
  have st': "pub_status p' = PUB_DISPATCHING" "pub_attempts p' = pub_attempts p"
    using p(3) by (auto simp: Publication_mark_dispatching_def split: if_splits)
  let ?ws = "(T, ctx, False) # ws"
  have "proto_inv (tbl_put (pub_id p) p' (db_publications s)) ?ws cs"
  proof (rule proto_put [OF inv get step])
    show "distinct (worker_ids ?ws)"
      using inv idle p(5) same(1) by (auto simp: worker_ids_def worker_id_def proto_inv_def)
    show "\<forall>w \<in> set ?ws. worker_id w \<noteq> pub_id p \<longrightarrow> w \<in> set ws"
      using p(5) same(1) by (auto simp: worker_id_def)
    show "\<forall>w \<in> set ?ws. worker_id w = pub_id p \<longrightarrow> serves p' w"
    proof -
      have "\<forall>w \<in> set ws. worker_id w \<noteq> pub_id p" using idle unfolding worker_ids_iff by blast
      moreover have "serves p' (T, ctx, False)"
        using p st' same by (simp add: serves_def publication_get_Some)
      ultimately show ?thesis by simp
    qed
    have "int (calls_for (pub_id p) cs) \<le> call_budget p ws" using inv get by (auto simp: proto_inv_def)
    then show "int (calls_for (pub_id p) cs) \<le> call_budget p' ?ws"
      using p(2) st' by (auto simp: call_budget_def split: if_splits)
  qed
  then show ?thesis by (simp add: p(4) same(1))
qed

text \<open>Closing: the worker \<open>w\<close> leaves, its row moves out of \<open>dispatching\<close>.\<close>

lemma proto_close:
  assumes inv: "proto_inv (db_publications s) (ws1 @ (T, ctx, posted) # ws2) cs"
    and allowed: "closing_allowed posted c"
    and cl: "close_attempt str_exc d d' T ctx c s = Inr (p', s')"
  shows "proto_inv (db_publications s') (ws1 @ ws2) cs"
proof -
  let ?w = "(T, ctx, posted)" and ?i = "ctx_publication_id ctx" and ?t = "db_publications s"
  let ?ws = "ws1 @ ?w # ws2"
  have move: "proto_inv (tbl_put (pub_id p') p' ?t) (ws1 @ ws2) cs"
    if g: "publication_get T ?i s = Some p" and step: "publication_step p p'"
      and out: "(pub_status p' = PUB_PUBLISHED \<and> posted \<and> pub_attempts p' = pub_attempts p)
        \<or> (pub_status p' \<in> {PUB_FAILED, PUB_DEAD} \<and> pub_attempts p' = pub_attempts p + 1)
        \<or> (pub_status p' = PUB_SCHEDULED \<and> \<not> posted \<and> pub_attempts p' = pub_attempts p)" for p
  proof -
    from get_own [OF inv g] have get: "tbl_get ?t ?i = Some p" and id: "pub_id p = ?i" by auto
    have dist: "distinct (worker_ids ?ws)" using inv by (simp add: proto_inv_def)
    have rest: "\<forall>w \<in> set (ws1 @ ws2). worker_id w \<noteq> ?i"
      using worker_split [OF dist] by (simp add: worker_id_def)
    have "\<exists>q. tbl_get ?t (worker_id ?w) = Some q \<and> serves q ?w" using inv by (simp add: proto_inv_def)
    with get have disp: "pub_status p = PUB_DISPATCHING" by (simp add: worker_id_def serves_def)
    have old: "int (calls_for ?i cs) \<le> call_budget p ?ws" using inv get by (simp add: proto_inv_def)
    have wait: "\<not> posted \<Longrightarrow> ?i \<in> waiting ?ws" by (auto simp: waiting_def)
    have "proto_inv (tbl_put ?i p' ?t) (ws1 @ ws2) cs"
    proof (rule proto_put [OF inv get step])
      show "distinct (worker_ids (ws1 @ ws2))" using dist by (auto simp: worker_ids_def)
      show "int (calls_for ?i cs) \<le> call_budget p' (ws1 @ ws2)"
        using old out disp wait id by (auto simp: call_budget_def split: if_splits)
    qed (use rest in auto)
    then show ?thesis using step_ident_facts(1) [OF step] id by simp
  qed
  have fail: "proto_inv (db_publications s') (ws1 @ ws2) cs"
    if "fail_attempt d1 T ctx err s = Inr (p', s')" for d1 err
  proof -
    from FailPublicationPublish_InrD [OF that [unfolded fail_attempt_def]] obtain p st where
      p: "publication_get T ?i s = Some p"
        "Publication_record_attempt_failure err (st = JOB_DEAD) (draw_time d1) p = Inr p'"
        "db_publications s' = tbl_put (pub_id p') p' ?t" by blast
    show ?thesis unfolding p(3)
      by (rule move [OF p(1) publication_step.record_attempt_failure [OF p(2)]])
         (use p(2) in \<open>auto simp: Publication_record_attempt_failure_def split: if_splits\<close>)
  qed
  from close_attempt_InrD [OF cl] show ?thesis
  proof (elim disjE exE conjE)
    fix ext link
    assume c: "c = Published ext link" and f: "CompletePublicationPublish (draw_id d) T ?i
      (ctx_job_id ctx) ext link (draw_time d) s = Inr (p', s')"
    from CompletePublicationPublish_InrD [OF f] obtain p where
      p: "publication_get T ?i s = Some p" "Publication_mark_published ext link (draw_time d) p = Inr p'"
        "db_publications s' = tbl_put (pub_id p') p' ?t" by blast
    show ?thesis unfolding p(3)
      by (rule move [OF p(1) publication_step.mark_published [OF p(2)]])
         (use p(2) c allowed in \<open>auto simp: Publication_mark_published_def split: if_splits\<close>)
  next
    fix r due
    assume c: "c = Deferred r due" and f: "DeferPublicationPublish T ?i (ctx_job_id ctx) r due
      (draw_time d) s = Inr (p', s')"
    from DeferPublicationPublish_InrD [OF f] obtain p where
      p: "publication_get T ?i s = Some p" "Publication_defer r due (draw_time d) p = Inr p'"
        "db_publications s' = tbl_put (pub_id p') p' ?t" by blast
    show ?thesis unfolding p(3)
      by (rule move [OF p(1) publication_step.defer_due [OF p(2)]])
         (use p(2) c allowed in \<open>auto simp: Publication_defer_def split: if_splits\<close>)
  qed (use fail in blast)+
qed

text \<open>The provider call, and a worker that dies.\<close>

lemma proto_post:
  assumes inv: "proto_inv t (ws1 @ (T, ctx, False) # ws2) cs"
  shows "proto_inv t (ws1 @ (T, ctx, True) # ws2)
    ((ctx_publication_id ctx, ctx_idempotency_key ctx) # cs)"
proof -
  let ?i = "ctx_publication_id ctx" and ?ws = "ws1 @ (T, ctx, False) # ws2"
  let ?ws' = "ws1 @ (T, ctx, True) # ws2" and ?cs' = "(ctx_publication_id ctx, ctx_idempotency_key ctx) # cs"
  have dist: "distinct (worker_ids ?ws)" and ok: "tbl_ok pub_id t" using inv by (auto simp: proto_inv_def)
  have ids: "worker_ids ?ws' = worker_ids ?ws" by (simp add: worker_ids_def worker_id_def)
  have "\<forall>v \<in> set (ws1 @ ws2). worker_id v \<noteq> ?i"
    using worker_split [OF dist] by (simp add: worker_id_def)
  then have out: "?i \<notin> waiting ?ws'" unfolding waiting_iff by (simp add: worker_id_def)
  have serve: "\<forall>w \<in> set ?ws. \<exists>p. tbl_get t (worker_id w) = Some p \<and> serves p w"
    using inv by (simp add: proto_inv_def)
  then obtain p where p: "tbl_get t ?i = Some p" "serves p (T, ctx, False)"
    by (auto simp: worker_id_def)
  have id: "pub_id p = ?i" using ok p(1) by (simp add: tbl_get_key)
  have "\<forall>w \<in> set ?ws'. \<exists>p. tbl_get t (worker_id w) = Some p \<and> serves p w"
    using serve p by (auto simp: worker_id_def serves_def)
  moreover have "\<forall>(i, k) \<in> set ?cs'. \<exists>p. tbl_get t i = Some p \<and> pub_idempotency_key p = k"
    using inv p by (auto simp: proto_inv_def serves_def)
  moreover have "int (calls_for j ?cs') \<le> call_budget q ?ws'" if q: "tbl_get t j = Some q" for j q
  proof -
    have old: "int (calls_for j cs) \<le> call_budget q ?ws" using inv q by (simp add: proto_inv_def)
    have qid: "pub_id q = j" using ok q by (simp add: tbl_get_key)
    show ?thesis
    proof (cases "j = ?i")
      case True
      then have "q = p" using q p(1) by simp
      moreover have "?i \<in> waiting ?ws" by (auto simp: waiting_def)
      ultimately show ?thesis
        using old True id out p(2) by (simp add: call_budget_def calls_for_def serves_def)
    next
      case False
      have "j \<in> waiting ?ws' \<Longrightarrow> j \<in> waiting ?ws"
        by (rule waiting_subset [of ?ws']) (use False in \<open>auto simp: worker_id_def\<close>)
      with old False qid show ?thesis by (auto simp: call_budget_def calls_for_def split: if_splits)
    qed
  qed
  ultimately show ?thesis using inv by (simp add: proto_inv_def ids)
qed

lemma proto_crash:
  assumes inv: "proto_inv t (ws1 @ w # ws2) cs"
  shows "proto_inv t (ws1 @ ws2) cs"
proof -
  have "int (calls_for i cs) \<le> call_budget p (ws1 @ ws2)" if "tbl_get t i = Some p" for i p
  proof -
    have "waiting (ws1 @ ws2) \<subseteq> waiting (ws1 @ w # ws2)" by (auto simp: waiting_def)
    then have "call_budget p (ws1 @ w # ws2) \<le> call_budget p (ws1 @ ws2)"
      by (auto simp: call_budget_def)
    with inv that show ?thesis by (fastforce simp: proto_inv_def)
  qed
  with inv show ?thesis by (auto simp: proto_inv_def worker_ids_def)
qed

definition protocol_ok :: "protocol \<Rightarrow> bool" where
  "protocol_ok u \<longleftrightarrow> proto_inv (db_publications (pr_db u)) (pr_workers u) (pr_calls u)"

lemma protocol_step_ok: "\<lbrakk>protocol_step u u'; protocol_ok u\<rbrakk> \<Longrightarrow> protocol_ok u'"
proof (induction rule: protocol_step.induct)
  case (create n k T v c d cap ms link due now u p s')
  then show ?case
    using CreatePublication_InrD [OF create(1)] by (auto simp: protocol_ok_def intro: proto_publication_add)
next
  case (cancel n T i who now u p' s')
  note ok = cancel(2) [unfolded protocol_ok_def]
  from CancelPublication_InrD [OF cancel(1)] obtain p where
    p: "publication_get T i (pr_db u) = Some p" "Publication_cancel now p = Inr p'"
      "db_publications s' = tbl_put (pub_id p') p' (db_publications (pr_db u))" by blast
  have "proto_inv (db_publications s') (pr_workers u) (pr_calls u)"
    by (rule proto_moved_idle [OF ok conjunct1 [OF get_own [OF ok p(1)]] publication_step.cancel [OF p(2)] p(3)])
       (use p(2) in \<open>auto simp: Publication_cancel_def split: if_splits\<close>)
  then show ?case by (simp add: protocol_ok_def)
next
  case (release ids T limit now u m s')
  then show ?case by (auto simp: protocol_ok_def intro: proto_release)
next
  case (start_none jit T now u s')
  then show ?case using StartPublicationPublish_InrD [OF start_none(1)] by (auto simp: protocol_ok_def)
next
  case (start_some jit T now u ctx s')
  then show ?case by (auto simp: protocol_ok_def intro: proto_start)
next
  case (post u ws1 T ctx ws2)
  then show ?case by (auto simp: protocol_ok_def intro: proto_post)
next
  case (close u ws1 T ctx posted ws2 c str_exc d d' p s')
  then show ?case by (auto simp: protocol_ok_def intro: proto_close)
next
  case (crash u ws1 w ws2)
  then show ?case by (auto simp: protocol_ok_def intro: proto_crash)
next
  case (metrics_start T stale now u mc s')
  note ok = metrics_start(2) [unfolded protocol_ok_def]
  from StartPublicationMetricsFetch_InrD [OF metrics_start(1)] show ?case
  proof (elim disjE exE conjE)
    fix p p'
    assume p: "p \<in> set (rows (db_publications (pr_db u)))"
      "Publication_mark_metrics_fetch_attempted now p = Inr p'"
      "db_publications s' = tbl_put (pub_id p') p' (db_publications (pr_db u))"
    have "tbl_get (db_publications (pr_db u)) (pub_id p) = Some p"
      using p(1) ok rows_iff [of pub_id _ p] by (auto simp: proto_inv_def)
    moreover from p(2) have "pub_status p = PUB_PUBLISHED" "pub_status p' = PUB_PUBLISHED"
      "pub_attempts p' = pub_attempts p"
      by (auto simp: Publication_mark_metrics_fetch_attempted_def split: if_splits)
    ultimately show ?case
      using proto_moved_idle [OF ok _ publication_step.metrics_attempted [OF p(2)] p(3)]
      by (simp add: protocol_ok_def)
  qed (use metrics_start(2) in simp)
next
  case (metrics_complete T i m now u p' s')
  note ok = metrics_complete(2) [unfolded protocol_ok_def]
  from CompletePublicationMetricsFetch_InrD [OF metrics_complete(1)] obtain p where
    p: "publication_get T i (pr_db u) = Some p" "Publication_record_metrics m now p = Inr p'"
      "db_publications s' = tbl_put (pub_id p') p' (db_publications (pr_db u))" by blast
  have "proto_inv (db_publications s') (pr_workers u) (pr_calls u)"
    by (rule proto_moved_idle [OF ok conjunct1 [OF get_own [OF ok p(1)]]
          publication_step.record_metrics [OF p(2)] p(3)])
       (use p(2) in \<open>auto simp: Publication_record_metrics_def split: if_splits\<close>)
  then show ?case by (simp add: protocol_ok_def)
next
  case (other s' u)
  then show ?case by (simp add: protocol_ok_def)
qed

lemma reachable_ok: "reachable u \<Longrightarrow> protocol_ok u"
proof (induction rule: reachable.induct)
  case (init u)
  then show ?case
    by (simp add: protocol_ok_def proto_inv_def worker_ids_def single_flight_def tbl_get_def)
next
  case (step u u')
  then show ?case by (blast intro: protocol_step_ok)
qed

section \<open>The agent as a path of the protocol\<close>

text \<open>The \<open>publish\<close> calls one run of the agent makes.\<close>

definition PublishChannelAgent_calls ::
  "string provider \<Rightarrow> int \<Rightarrow> (nat \<Rightarrow> draws) \<Rightarrow> uuid \<Rightarrow> db \<Rightarrow> windows \<Rightarrow> (uuid \<times> string) list" where
  "PublishChannelAgent_calls prov rate_limit draw T s ws =
     (case run_uow (StartPublicationPublish (draw_jitter (draw 0)) T (draw_time (draw 0))) s of
        (Inr (Some ctx), _) \<Rightarrow>
          (case allow T (publication_bucket ctx) rate_limit RATE_LIMIT_WINDOW (draw_time (draw 1)) ws of
             Inr (True, _) \<Rightarrow> (case publish_payload_of ctx of
                 Inr payload \<Rightarrow> (case validate_payload prov payload of
                     Inr (True, _) \<Rightarrow> [(ctx_publication_id ctx, ctx_idempotency_key ctx)]
                   | _ \<Rightarrow> [])
               | _ \<Rightarrow> [])
           | _ \<Rightarrow> [])
      | _ \<Rightarrow> [])"

abbreviation protocol_path :: "protocol \<Rightarrow> protocol \<Rightarrow> bool" where
  "protocol_path \<equiv> rtranclp protocol_step"

lemma path_one: "protocol_step a b \<Longrightarrow> protocol_path a b"
  by (rule r_into_rtranclp)

lemma path_step: "\<lbrakk>protocol_step a b; protocol_path b c\<rbrakk> \<Longrightarrow> protocol_path a c"
  by (rule converse_rtranclp_into_rtranclp)

lemma agent_close_path:
  assumes w: "pr_workers u = (T, ctx, posted) # ws0" and a: "closing_allowed posted c"
    and r: "run_uow (close_attempt str_exc d d' T ctx c) (pr_db u) = (r, s')"
  shows "protocol_step u (u\<lparr>pr_db := s', pr_workers := ws0\<rparr>)"
proof (cases r)
  case (Inl e)
  with r have "s' = pr_db u" by (auto dest: run_uow_rollback)
  then show ?thesis using protocol_step.crash [of u "[]" _ ws0] w by simp
next
  case (Inr p)
  with r have "close_attempt str_exc d d' T ctx c (pr_db u) = Inr (p, s')" by (simp add: run_uow_Inr)
  then show ?thesis using protocol_step.close [of u "[]" T ctx posted ws0] w a by simp
qed

lemma agent_decided_path:
  assumes w: "pr_workers u = (T, ctx, False) # ws0"
    and called: "calls = (case validate_payload prov payload of
        Inr (True, _) \<Rightarrow> [(ctx_publication_id ctx, ctx_idempotency_key ctx)] | _ \<Rightarrow> [])"
    and r: "run_uow (close_attempt str_exc d d' T ctx
        (provider_outcome prov payload (ctx_idempotency_key ctx))) (pr_db u) = (r, s')"
  shows "protocol_path u (u\<lparr>pr_db := s', pr_workers := ws0, pr_calls := calls @ pr_calls u\<rparr>)"
proof (cases "\<exists>errs. validate_payload prov payload = Inr (True, errs)")
  case True
  let ?c = "provider_outcome prov payload (ctx_idempotency_key ctx)"
  let ?u = "u\<lparr>pr_workers := (T, ctx, True) # ws0,
     pr_calls := (ctx_publication_id ctx, ctx_idempotency_key ctx) # pr_calls u\<rparr>"
  have one: "protocol_step u ?u" using protocol_step.post [of u "[]" T ctx ws0] w by simp
  have "closing_allowed True ?c"
    using True by (auto simp: provider_outcome_def split: sum.splits)
  then have two: "protocol_step ?u (?u\<lparr>pr_db := s', pr_workers := ws0\<rparr>)"
    by (intro agent_close_path [of ?u T ctx True ws0 ?c str_exc d d' r]) (use r in simp_all)
  have eq: "?u\<lparr>pr_db := s', pr_workers := ws0\<rparr>
      = u\<lparr>pr_db := s', pr_workers := ws0, pr_calls := calls @ pr_calls u\<rparr>"
    using True called by (auto intro: protocol.equality)
  show ?thesis
    using one two unfolding eq by (rule path_step [OF _ path_one])
next
  case False
  let ?c = "provider_outcome prov payload (ctx_idempotency_key ctx)"
  have none: "calls = []" using called False by (auto split: sum.splits bool.splits)
  have "closing_allowed False ?c"
    using False by (auto simp: provider_outcome_def split: sum.splits)
  from agent_close_path [OF w this r] none show ?thesis by (simp add: path_one)
qed

text \<open>
  C7: A run of \<open>PublishChannelAgent\<close> is a path of the protocol: it ends in the database the path
  ends in, leaves no worker behind whatever raised on the way, and its \<open>publish\<close> calls (at most
  one) are exactly those the path records.
\<close>

theorem agent_run_refines:
  assumes "PublishChannelAgent_run str_exc prov rate_limit draw T (pr_db u) ws = (r, s', ws')"
  shows "protocol_path u (u\<lparr>pr_db := s',
     pr_calls := PublishChannelAgent_calls prov rate_limit draw T (pr_db u) ws @ pr_calls u\<rparr>)"
proof -
  let ?calls = "PublishChannelAgent_calls prov rate_limit draw T (pr_db u) ws"
  obtain r0 s1 where start:
    "run_uow (StartPublicationPublish (draw_jitter (draw 0)) T (draw_time (draw 0))) (pr_db u) = (r0, s1)"
    by fastforce
  note run = assms [unfolded PublishChannelAgent_run_def, simplified start]
  consider (err) e where "r0 = Inl e" | (none) "r0 = Inr None" | (ctx) ctx where "r0 = Inr (Some ctx)"
    by (cases r0) auto
  then show ?thesis
  proof cases
    case err
    then have "s1 = pr_db u" "s' = s1" "?calls = []"
      using start run run_uow_rollback by (fastforce simp: PublishChannelAgent_calls_def)+
    then show ?thesis by simp
  next
    case none
    then have "s' = s1" "?calls = []" using start run by (auto simp: PublishChannelAgent_calls_def)
    moreover have "protocol_step u (u\<lparr>pr_db := s1\<rparr>)"
      using start none by (auto simp: run_uow_Inr intro: protocol_step.start_none)
    ultimately show ?thesis by (simp add: path_one)
  next
    case (ctx ctx)
    let ?u1 = "u\<lparr>pr_db := s1, pr_workers := (T, ctx, False) # pr_workers u\<rparr>"
    let ?now = "draw_time (draw 1)"
    have one: "protocol_step u ?u1"
      using start ctx by (auto simp: run_uow_Inr intro: protocol_step.start_some)
    have crash: "protocol_step ?u1 (u\<lparr>pr_db := s1\<rparr>)"
      using protocol_step.crash [of ?u1 "[]" "(T, ctx, False)" "pr_workers u"] by simp
    obtain a where a: "allow T (publication_bucket ctx) rate_limit RATE_LIMIT_WINDOW ?now ws = a" by simp
    show ?thesis
    proof (cases a)
      case (Inl e)
      with run ctx a have "s' = s1" "?calls = []"
        using start by (auto simp: PublishChannelAgent_calls_def)
      then show ?thesis using path_step [OF one path_one [OF crash]] by simp
    next
      case (Inr b)
      obtain ok ws1 where b: "b = (ok, ws1)" by fastforce
      show ?thesis
      proof (cases ok)
        case False
        obtain st where st: "fixed_window_start ?now RATE_LIMIT_WINDOW = Inr st"
          using a Inr by (auto simp: allow_def bind_result_eq_Inr)
        obtain r2 s2 where c: "run_uow (close_attempt str_exc (draw 2) (draw 3) T ctx
            (Deferred RATE_LIMIT_REASON (st + RATE_LIMIT_WINDOW))) s1 = (r2, s2)" by fastforce
        have ended: "s' = s2" "?calls = []" using run ctx a Inr b False st c start
          by (auto simp: PublishChannelAgent_calls_def Let_def)
        have "protocol_step ?u1 (?u1\<lparr>pr_db := s2, pr_workers := pr_workers u\<rparr>)"
          by (rule agent_close_path [where posted = False]) (use c in simp_all)
        then have two: "protocol_step ?u1 (u\<lparr>pr_db := s2\<rparr>)" by simp
        show ?thesis unfolding ended(1) ended(2)
          using path_step [OF one path_one [OF two]] by simp
      next
        case True
        show ?thesis
        proof (cases "publish_payload_of ctx")
          case (Inl e)
          with run ctx a Inr b True have "s' = s1" "?calls = []"
            using start by (auto simp: PublishChannelAgent_calls_def Let_def)
          then show ?thesis using path_step [OF one path_one [OF crash]] by simp
        next
          case (Inr payload)
          obtain r2 s2 where c: "run_uow (close_attempt str_exc (draw 2) (draw 3) T ctx
              (provider_outcome prov payload (ctx_idempotency_key ctx))) s1 = (r2, s2)" by fastforce
          have s': "s' = s2" using run ctx a \<open>a = Inr b\<close> b True Inr c by (auto simp: Let_def)
          have calls: "?calls = (case validate_payload prov payload of
              Inr (True, _) \<Rightarrow> [(ctx_publication_id ctx, ctx_idempotency_key ctx)] | _ \<Rightarrow> [])"
            using ctx a \<open>a = Inr b\<close> b True Inr start by (simp add: PublishChannelAgent_calls_def)
          have "protocol_path ?u1
              (?u1\<lparr>pr_db := s2, pr_workers := pr_workers u, pr_calls := ?calls @ pr_calls ?u1\<rparr>)"
            by (rule agent_decided_path [OF _ calls]) (use c in simp_all)
          then show ?thesis using one s' by (simp add: path_step)
        qed
      qed
    qed
  qed
qed

section \<open>A concrete path\<close>

text \<open>
  Tenant 1 publishes variant 2 on channel 3: the row is created, released, claimed and posted.
\<close>

definition demo_base :: db where
  "demo_base = empty_db\<lparr>db_variants := [(2, ProductVariant_create 2 1 20 [] 7 0 None None True 0)],
     db_social_accounts := [(3, SocialAccount_create 3 1 ''x'' ''acc'' ''Acc'' None 0)]\<rparr>"

definition demo_publication :: publication where
  "demo_publication = Publication_create 10 11 1 2 3 None
     \<lparr>pay_caption = ''hello'', pay_media_asset_ids = [uuid_str 5], pay_link = None\<rparr> None 0"

definition demo_job :: task_queue_job where
  "demo_job = \<lparr>job_id = 110, job_tenant_id = 1, job_type = PUBLISH_JOB_TYPE,
     job_payload = [(''publication_id'', uuid_str 10)], job_status = JOB_PENDING, job_attempts = 0,
     job_max_attempts = 5, job_run_at = 0, job_claimed_at = None, job_claimed_by = None,
     job_last_error = None, job_created_at = 0, job_updated_at = 0\<rparr>"

definition demo_db1 :: db where
  "demo_db1 = demo_base\<lparr>db_publications := [(10, demo_publication)]\<rparr>"

definition demo_db2 :: db where
  "demo_db2 = demo_base\<lparr>db_publications := [(10, demo_publication\<lparr>pub_due_at := DISPATCH_GRACE\<rparr>)],
     db_jobs := [(110, demo_job)]\<rparr>"

definition demo_db3 :: db where
  "demo_db3 = demo_base\<lparr>db_publications := [(10, demo_publication\<lparr>pub_due_at := DISPATCH_GRACE,
       pub_status := PUB_DISPATCHING, pub_updated_at := 5\<rparr>)],
     db_jobs := [(110, job_claimed PUBLISH_CLAIMED_BY 5 demo_job)]\<rparr>"

definition demo_context :: publish_context where
  "demo_context = \<lparr>ctx_job_id = 110, ctx_publication_id = 10, ctx_variant_id = 2, ctx_channel_id = 3,
     ctx_idempotency_key = uuid_hex 11, ctx_payload = pub_payload demo_publication\<rparr>"

lemmas demo_defs = demo_base_def empty_db_def demo_publication_def demo_job_def demo_db1_def demo_db2_def
  demo_db3_def demo_context_def Publication_create_def ProductVariant_create_def SocialAccount_create_def
  Let_def DISPATCH_GRACE_def timedelta_defs PUBLISH_JOB_TYPE_def PUBLISH_CLAIMED_BY_def

lemma demo_create: "CreatePublication 10 11 1 2 3 None ''hello'' [5] None None 0 demo_base
    = Inr (demo_publication, demo_db1)"
  by (simp add: CreatePublication_def publication_get_live_def publication_add_def tbl_add_unique_def
    tbl_add_def tbl_get_def scoped_get_def rows_def scalar_one_or_none_def demo_defs)

lemma demo_release: "ReleaseScheduledPublicationsForTenant (\<lambda>i. i + 100) 1 50 0 demo_db1 = Inr (1, demo_db2)"
  by (simp add: ReleaseScheduledPublicationsForTenant_def list_due_for_release_def release_one_def
   enqueue_job_def enqueue_def DEFAULT_MAX_ATTEMPTS_def publication_update_def Publication_defer_dispatch_def
   tbl_put_def tbl_add_def tbl_get_def rows_def demo_defs)

lemma demo_start: "StartPublicationPublish 0 1 5 demo_db2 = Inr (Some demo_context, demo_db3)"
  by (simp add: StartPublicationPublish_def claim_def claimable_def job_claimed_def first_by_def dict_item_def
   publication_get_def scoped_get_def publication_update_def Publication_mark_dispatching_def
   PUBLISH_CLAIMABLE_STATUSES_def tbl_put_def tbl_get_def rows_def demo_defs)

definition demo_state :: protocol where
  "demo_state = \<lparr>pr_db = demo_db3, pr_workers = [(1, demo_context, True)], pr_calls = [(10, uuid_hex 11)]\<rparr>"

lemma demo_reachable: "reachable demo_state"
proof -
  let ?u0 = "\<lparr>pr_db = demo_base, pr_workers = [], pr_calls = []\<rparr>"
  have 0: "reachable ?u0" by (rule reachable.init) (simp_all add: demo_base_def empty_db_def)
  have 1: "reachable (?u0\<lparr>pr_db := demo_db1\<rparr>)"
    by (rule reachable.step [OF 0 protocol_step.create]) (simp only: protocol.select_convs, rule demo_create)
  have 2: "reachable (?u0\<lparr>pr_db := demo_db2\<rparr>)"
    using reachable.step [OF 1 protocol_step.release [where s' = demo_db2]] demo_release by simp
  have 3: "reachable \<lparr>pr_db = demo_db3, pr_workers = [(1, demo_context, False)], pr_calls = []\<rparr>"
    using reachable.step [OF 2 protocol_step.start_some [where s' = demo_db3]] demo_start by simp
  show ?thesis
    using reachable.step [OF 3 protocol_step.post [of _ "[]" 1 demo_context "[]"]]
    by (simp add: demo_state_def demo_context_def)
qed

section \<open>Stranded publications\<close>

lemma tbl_get_put_other: "\<lbrakk>tbl_get t i = Some p; j \<noteq> i\<rbrakk> \<Longrightarrow> tbl_get (tbl_put j q t) i = Some p"
  by (simp add: tbl_get_put)

text \<open>A row that is dispatching without a worker is touched by no step.\<close>

lemma stranded_release:
  assumes ok: "tbl_ok pub_id (db_publications s)"
    and r: "ReleaseScheduledPublicationsForTenant ids T limit now s = Inr (m, s')"
    and p: "tbl_get (db_publications s) i = Some p" "pub_status p = PUB_DISPATCHING"
  shows "tbl_get (db_publications s') i = Some p"
proof -
  from r have "fold_result (release_one ids T now) (list_due_for_release T now limit s) s = Inr s'"
    by (auto simp: ReleaseScheduledPublicationsForTenant_def Let_def bind_result_eq_Inr)
  then show ?thesis
  proof (rule fold_result_invariant [where P = "\<lambda>t. tbl_get (db_publications t) i = Some p"])
    fix x t t'
    assume x: "x \<in> set (list_due_for_release T now limit s)" and f: "release_one ids T now x t = Inr t'"
      and t: "tbl_get (db_publications t) i = Some p"
    from x have "tbl_get (db_publications s) (pub_id x) = Some x" "pub_status x = PUB_SCHEDULED"
      using query_rows(2) [OF ok] unfolding list_due_for_release_def by blast+
    with p have ne: "pub_id x \<noteq> i" by auto
    from release_one_InrD [OF f] obtain x' where
      "Publication_defer_dispatch (now + DISPATCH_GRACE) now x = Inr x'"
      "db_publications t' = tbl_put (pub_id x') x' (db_publications t)" by blast
    with ne t show "tbl_get (db_publications t') i = Some p"
      by (auto simp: Publication_defer_dispatch_def tbl_get_put split: if_splits)
  qed (use p in simp)
qed

lemma stranded_move:
  assumes ok: "protocol_ok u" and p: "tbl_get (db_publications (pr_db u)) i = Some p"
    and q: "tbl_get (db_publications (pr_db u)) (pub_id q) = Some q" and "q \<noteq> p"
    and step: "publication_step q q'"
    and s': "db_publications s' = tbl_put (pub_id q') q' (db_publications (pr_db u))"
  shows "tbl_get (db_publications s') i = Some p"
proof -
  have "pub_id q \<noteq> i" using p q \<open>q \<noteq> p\<close> by auto
  with p show ?thesis unfolding s' step_ident_facts(1) [OF step] by (simp add: tbl_get_put)
qed

lemma stranded_close:
  assumes ok: "protocol_ok u" and w: "pr_workers u = ws1 @ (T, ctx, posted) # ws2"
    and cl: "close_attempt str_exc d d' T ctx c (pr_db u) = Inr (p', s')"
    and i: "i \<notin> set (worker_ids (pr_workers u))" and p: "tbl_get (db_publications (pr_db u)) i = Some p"
  shows "tbl_get (db_publications s') i = Some p"
proof -
  let ?j = "ctx_publication_id ctx"
  have ne: "?j \<noteq> i" using i w by (auto simp: worker_ids_def worker_id_def)
  note inv = ok [unfolded protocol_ok_def]
  have *: "tbl_get (db_publications s') i = Some p"
    if "publication_get T ?j (pr_db u) = Some q" "publication_step q p'"
      "db_publications s' = tbl_put (pub_id p') p' (db_publications (pr_db u))" for q
    using that get_own [OF inv that(1)] ne p step_ident_facts(1) [OF that(2)] by (simp add: tbl_get_put)
  from close_attempt_InrD [OF cl] show ?thesis
    by (elim disjE exE conjE)
       (unfold fail_attempt_def,
        (blast dest: CompletePublicationPublish_InrD DeferPublicationPublish_InrD FailPublicationPublish_InrD
          intro: * publication_step.intros)+)
qed

lemma stranded_step:
  assumes "protocol_step u u'" and "protocol_ok u" and "i \<notin> set (worker_ids (pr_workers u))"
    and "tbl_get (db_publications (pr_db u)) i = Some p" and "pub_status p = PUB_DISPATCHING"
  shows "i \<notin> set (worker_ids (pr_workers u')) \<and> tbl_get (db_publications (pr_db u')) i = Some p"
  using assms
proof (induction rule: protocol_step.induct)
  case (create n k T v c d cap ms link due now u q s')
  have "publication_add q (pr_db u) = Inr s'" using CreatePublication_InrD [OF create(1)] by blast
  then have "tbl_add_unique pub_clash (pub_id q) q (db_publications (pr_db u)) = Inr (db_publications s')"
    by (auto simp: publication_add_def bind_result_eq_Inr)
  then show ?case using create(3,4) tbl.add_keeps by (auto simp: tbl_add_unique_Inr)
next
  case (cancel n T j who now u q' s')
  from CancelPublication_InrD [OF cancel(1)] obtain q where
    q: "publication_get T j (pr_db u) = Some q" "Publication_cancel now q = Inr q'"
      "db_publications s' = tbl_put (pub_id q') q' (db_publications (pr_db u))" by blast
  have own: "tbl_get (db_publications (pr_db u)) (pub_id q) = Some q"
    using get_own [OF cancel(2) [unfolded protocol_ok_def] q(1)] by blast
  have "q \<noteq> p" using q(2) cancel(5) by (auto simp: Publication_cancel_def split: if_splits)
  from stranded_move [OF cancel(2,4) own this publication_step.cancel [OF q(2)] q(3)]
  show ?case using cancel(3) by simp
next
  case (release ids T limit now u m s')
  then show ?case using stranded_release [OF _ release(1,4,5)] by (simp add: protocol_ok_def proto_inv_def)
next
  case (start_none jit T now u s')
  then show ?case using StartPublicationPublish_InrD [OF start_none(1)] by auto
next
  case (start_some jit T now u ctx s')
  from StartPublicationPublish_InrD [OF start_some(1)] obtain q q' j where
    q: "publication_get T j (pr_db u) = Some q" "Publication_mark_dispatching now q = Inr q'"
      "pub_status q \<in> {PUB_SCHEDULED, PUB_FAILED}" "ctx_publication_id ctx = pub_id q'"
      "db_publications s' = tbl_put (pub_id q') q' (db_publications (pr_db u))" by auto
  have ne: "q \<noteq> p" using q(3) start_some(5) by auto
  have own: "tbl_get (db_publications (pr_db u)) (pub_id q) = Some q"
    using get_own [OF start_some(2) [unfolded protocol_ok_def] q(1)] by blast
  then have "pub_id q \<noteq> i" using ne start_some(4) by auto
  with q(4) step_ident_facts(1) [OF publication_step.mark_dispatching [OF q(2)]]
  have "i \<notin> set (worker_ids ((T, ctx, False) # pr_workers u))"
    using start_some(3) by (simp add: worker_ids_def worker_id_def)
  then show ?case
    using stranded_move [OF start_some(2,4) own ne publication_step.mark_dispatching [OF q(2)] q(5)] by simp
next
  case (post u ws1 T ctx ws2)
  then show ?case by (simp add: worker_ids_def worker_id_def)
next
  case (close u ws1 T ctx posted ws2 c str_exc d d' q s')
  then show ?case using stranded_close [OF close(4,1,3,5,6)] by (simp add: worker_ids_def)
next
  case (crash u ws1 w ws2)
  then show ?case by (simp add: worker_ids_def)
next
  case (metrics_start T stale now u mc s')
  from StartPublicationMetricsFetch_InrD [OF metrics_start(1)] show ?case
  proof (elim disjE exE conjE)
    fix q q'
    assume q: "q \<in> set (rows (db_publications (pr_db u)))"
      "Publication_mark_metrics_fetch_attempted now q = Inr q'"
      "db_publications s' = tbl_put (pub_id q') q' (db_publications (pr_db u))"
    have own: "tbl_get (db_publications (pr_db u)) (pub_id q) = Some q"
      using q(1) metrics_start(2) rows_iff [of pub_id _ q] by (auto simp: protocol_ok_def proto_inv_def)
    have "q \<noteq> p" using q(2) metrics_start(5)
      by (auto simp: Publication_mark_metrics_fetch_attempted_def split: if_splits)
    from stranded_move [OF metrics_start(2,4) own this publication_step.metrics_attempted [OF q(2)] q(3)]
    show ?case using metrics_start(3) by simp
  qed (use metrics_start in simp)
next
  case (metrics_complete T j m now u q' s')
  from CompletePublicationMetricsFetch_InrD [OF metrics_complete(1)] obtain q where
    q: "publication_get T j (pr_db u) = Some q" "Publication_record_metrics m now q = Inr q'"
      "db_publications s' = tbl_put (pub_id q') q' (db_publications (pr_db u))" by blast
  have own: "tbl_get (db_publications (pr_db u)) (pub_id q) = Some q"
    using get_own [OF metrics_complete(2) [unfolded protocol_ok_def] q(1)] by blast
  have "q \<noteq> p" using q(2) metrics_complete(5)
    by (auto simp: Publication_record_metrics_def split: if_splits)
  from stranded_move [OF metrics_complete(2,4) own this publication_step.record_metrics [OF q(2)] q(3)]
  show ?case using metrics_complete(3) by simp
next
  case (other s' u)
  then show ?case by simp
qed

lemma stranded_path:
  assumes "protocol_path u u'" and "protocol_ok u" and "i \<notin> set (worker_ids (pr_workers u))"
    and "tbl_get (db_publications (pr_db u)) i = Some p" and "pub_status p = PUB_DISPATCHING"
  shows "tbl_get (db_publications (pr_db u')) i = Some p"
proof -
  from assms(1) have "protocol_ok u' \<and> i \<notin> set (worker_ids (pr_workers u'))
      \<and> tbl_get (db_publications (pr_db u')) i = Some p"
  proof (induction rule: rtranclp_induct)
    case (step v w)
    then show ?case using stranded_step [OF step(2)] protocol_step_ok [OF step(2)] assms(5) by blast
  qed (use assms in simp)
  then show ?thesis by blast
qed

lemma live_blocks_create:
  assumes "tbl_get (db_publications s) i = Some p" and "pub_live p"
  shows "CreatePublication n k (pub_tenant_id p) (pub_variant_id p) (pub_channel_id p) d cap ms link due now s
    \<noteq> Inr r"
proof
  assume c: "CreatePublication n k (pub_tenant_id p) (pub_variant_id p) (pub_channel_id p) d cap ms link
    due now s = Inr r"
  obtain q s' where r: "r = (q, s')" by fastforce
  from CreatePublication_InrD [OF c [unfolded r]]
  have "publication_get_live (pub_tenant_id p) (pub_variant_id p) (pub_channel_id p) s = Inr None" by blast
  moreover have "p \<in> set (rows (db_publications s))" by (rule rows_mem [OF assms(1)])
  ultimately show False using assms(2)
    by (auto simp: publication_get_live_def scalar_one_or_none_def filter_empty_conv pub_live_def
        split: list.splits)
qed

section \<open>Properties\<close>

text \<open>
  C12: Single dispatch. In every reachable state at most one worker holds a publication, and a
  publication that is held is dispatching, of the worker's tenant, under the worker's key.
\<close>

theorem publish_workers_exclusive:
  assumes "reachable u"
  shows "distinct (worker_ids (pr_workers u)) \<and> (\<forall>(T, ctx, posted) \<in> set (pr_workers u).
     \<exists>p. publication_get T (ctx_publication_id ctx) (pr_db u) = Some p
       \<and> pub_status p = PUB_DISPATCHING \<and> pub_idempotency_key p = ctx_idempotency_key ctx)"
  using reachable_ok [OF assms]
  by (fastforce simp: protocol_ok_def proto_inv_def publication_get_Some worker_id_def serves_def)

theorem publish_workers_exclusive_witness:
  "\<exists>p. publication_get 1 10 demo_db3 = Some p \<and> pub_status p = PUB_DISPATCHING
     \<and> pub_idempotency_key p = uuid_hex 11"
  using publish_workers_exclusive [OF demo_reachable] by (simp add: demo_state_def demo_context_def)

text \<open>
  C3: No double posting under a fresh key. Whatever crashes, retries, deferrals and duplicate jobs
  occur, every \<open>publish\<close> call for a publication carries the key stored in its row when it was
  created; and it was called at most once more often than attempts have failed, exactly no more
  often than they failed while the row is neither published nor dispatching.
\<close>

theorem publish_calls_accounted:
  assumes "reachable u" and "tbl_get (db_publications (pr_db u)) i = Some p"
  shows "(\<forall>k. (i, k) \<in> set (pr_calls u) \<longrightarrow> k = pub_idempotency_key p)
     \<and> int (calls_for i (pr_calls u)) \<le> pub_attempts p
         + (if pub_status p \<in> {PUB_PUBLISHED, PUB_DISPATCHING} then 1 else 0)"
proof -
  from reachable_ok [OF assms(1)] have inv:
    "proto_inv (db_publications (pr_db u)) (pr_workers u) (pr_calls u)" by (simp add: protocol_ok_def)
  then have "int (calls_for i (pr_calls u)) \<le> call_budget p (pr_workers u)"
    using assms(2) by (simp add: proto_inv_def)
  with inv assms(2) show ?thesis by (fastforce simp: proto_inv_def call_budget_def split: if_splits)
qed

theorem publish_calls_accounted_witness:
  "int (calls_for 10 (pr_calls demo_state)) \<le> 0 + 1 \<and> calls_for 10 (pr_calls demo_state) = 1"
  using publish_calls_accounted [OF demo_reachable, of 10]
  by (simp add: demo_state_def demo_db3_def tbl_get_def calls_for_def demo_publication_def
      Publication_create_def)

text \<open>
  C5: Single flight. In every reachable state one variant has at most one live publication
  (scheduled, dispatching or failed) per channel.
\<close>

theorem publication_single_flight:
  assumes "reachable u" and "tbl_get (db_publications (pr_db u)) i = Some p"
    and "tbl_get (db_publications (pr_db u)) j = Some q" and "pub_live p" and "pub_live q"
    and "pub_tenant_id p = pub_tenant_id q" and "pub_variant_id p = pub_variant_id q"
    and "pub_channel_id p = pub_channel_id q"
  shows "i = j"
  using reachable_ok [OF assms(1)] assms(2-8)
  by (auto simp: protocol_ok_def proto_inv_def single_flight_def pub_clash_def)

theorem publication_single_flight_witness: "(10::uuid) = 10 \<and> pub_live (snd (hd (db_publications demo_db3)))"
  using publication_single_flight [OF demo_reachable, of 10 "snd (hd (db_publications demo_db3))" 10
      "snd (hd (db_publications demo_db3))"]
  by (simp add: demo_state_def demo_db3_def tbl_get_def pub_live_def LIVE_STATUSES_def)

text \<open>
  C27: The crash that strands a publication. Once the worker of a dispatching publication is gone,
  no step of the system, the reaper's and every later claim's included, ever moves the row out of
  dispatching; and while it is there a new publication for the variant and channel is refused with
  a conflict and cancelling it with a validation error.
\<close>

theorem publication_stranded:
  assumes "reachable u" and "i \<notin> set (worker_ids (pr_workers u))"
    and "tbl_get (db_publications (pr_db u)) i = Some p" and "pub_status p = PUB_DISPATCHING"
    and "protocol_path u u'"
  shows "tbl_get (db_publications (pr_db u')) i = Some p
    \<and> (\<forall>n k d cap ms link due now r. CreatePublication n k (pub_tenant_id p) (pub_variant_id p)
          (pub_channel_id p) d cap ms link due now (pr_db u') \<noteq> Inr r)
    \<and> (\<forall>n who now. \<exists>msg. CancelPublication n (pub_tenant_id p) i who now (pr_db u')
          = Inl (ValidationError msg))"
proof -
  have get: "tbl_get (db_publications (pr_db u')) i = Some p"
    using stranded_path [OF assms(5) reachable_ok [OF assms(1)] assms(2-4)] .
  moreover have "pub_live p" using assms(4) by (simp add: pub_live_def LIVE_STATUSES_def)
  moreover have "\<exists>msg. CancelPublication n (pub_tenant_id p) i who now (pr_db u')
      = Inl (ValidationError msg)" for n who now
    using get assms(4)
    by (simp add: CancelPublication_def publication_get_def scoped_get_def Publication_cancel_def)
  ultimately show ?thesis using live_blocks_create by blast
qed

definition demo_crashed :: protocol where
  "demo_crashed = \<lparr>pr_db = demo_db3, pr_workers = [], pr_calls = [(10, uuid_hex 11)]\<rparr>"

lemma demo_crashed_reachable: "reachable demo_crashed"
  using reachable.step [OF demo_reachable protocol_step.crash [of _ "[]" _ "[]"]]
  by (simp add: demo_state_def demo_crashed_def)

theorem publication_stranded_witness:
  "\<exists>p. tbl_get (db_publications demo_db3) 10 = Some p
     \<and> (\<forall>n k d cap ms link due now r.
          CreatePublication n k 1 2 3 d cap ms link due now demo_db3 \<noteq> Inr r)"
proof -
  let ?p = "snd (hd (db_publications demo_db3))"
  have p: "tbl_get (db_publications (pr_db demo_crashed)) 10 = Some ?p" "pub_status ?p = PUB_DISPATCHING"
    "10 \<notin> set (worker_ids (pr_workers demo_crashed))"
    by (simp_all add: demo_crashed_def demo_db3_def tbl_get_def worker_ids_def)
  have ids: "pub_tenant_id ?p = 1" "pub_variant_id ?p = 2" "pub_channel_id ?p = 3"
    by (simp_all add: demo_db3_def demo_publication_def Publication_create_def)
  from publication_stranded [OF demo_crashed_reachable p(3,1,2) rtranclp.rtrancl_refl] show ?thesis
    by (simp add: demo_crashed_def ids)
qed

section \<open>The transactions one by one\<close>

text \<open>
  The publication and its job never disagree about another attempt: a recorded failure makes
  the row dead exactly when the job is dead, and failed exactly when the job is pending again,
  counting one attempt on each.
\<close>

theorem fail_publication_agrees:
  assumes "FailPublicationPublish jit n T i j err now s = Inr (p', s')"
  shows "\<exists>p j0 j1. publication_get T i s = Some p \<and> tbl_get (db_jobs s) j = Some j0
     \<and> tbl_get (db_jobs s') j = Some j1 \<and> pub_status p = PUB_DISPATCHING
     \<and> (pub_status p', job_status j1) \<in> {(PUB_DEAD, JOB_DEAD), (PUB_FAILED, JOB_PENDING)}
     \<and> (pub_status p' = PUB_DEAD \<longleftrightarrow> job_attempts j0 + 1 \<ge> job_max_attempts j0)
     \<and> pub_attempts p' = pub_attempts p + 1 \<and> job_attempts j1 = job_attempts j0 + 1
     \<and> pub_idempotency_key p' = pub_idempotency_key p"
proof -
  from FailPublicationPublish_InrD [OF assms] obtain p st q where
    p: "publication_get T i s = Some p" "fail_job jit T j err now (db_jobs s) = Inr (st, q)"
      "Publication_record_attempt_failure err (st = JOB_DEAD) now p = Inr p'" "db_jobs s' = q" by blast
  from fail_job_InrD [OF p(2)] obtain j0 j1 where
    j: "tbl_get (db_jobs s) j = Some j0" "st = fail_verdict j0" "job_status j1 = st"
      "job_attempts j1 = job_attempts j0 + 1" "q = tbl_put j j1 (db_jobs s)" by blast
  from p(3) have "pub_status p = PUB_DISPATCHING" "pub_attempts p' = pub_attempts p + 1"
    "pub_status p' = (if st = JOB_DEAD then PUB_DEAD else PUB_FAILED)"
    "pub_idempotency_key p' = pub_idempotency_key p"
    by (auto simp: Publication_record_attempt_failure_def split: if_splits)
  with p(1,4) j show ?thesis
    by (intro exI [of _ p] exI [of _ j0] exI [of _ j1]) (simp add: tbl_get_put fail_verdict_def)
qed

theorem fail_publication_agrees_witness:
  "\<exists>p' s' j1. FailPublicationPublish 0 500 1 10 110 ''boom'' 6 demo_db3 = Inr (p', s')
     \<and> tbl_get (db_jobs s') 110 = Some j1 \<and> pub_status p' = PUB_FAILED \<and> job_status j1 = JOB_PENDING"
proof -
  have "\<exists>p' s'. FailPublicationPublish 0 500 1 10 110 ''boom'' 6 demo_db3 = Inr (p', s')
      \<and> pub_status p' = PUB_FAILED"
    by (simp add: FailPublicationPublish_def publication_get_def scoped_get_def fail_job_def get_job_def
        compute_backoff_def Publication_record_attempt_failure_def publication_update_def audit_record_def
        status_after_def tbl_put_def tbl_add_def tbl_get_def job_claimed_def demo_defs)
  then obtain p' s' where f: "FailPublicationPublish 0 500 1 10 110 ''boom'' 6 demo_db3 = Inr (p', s')"
    and "pub_status p' = PUB_FAILED" by blast
  with fail_publication_agrees [OF f] show ?thesis by auto
qed

definition released :: "datetime \<Rightarrow> publication \<Rightarrow> publication" where
  "released now p = p\<lparr>pub_due_at := now + DISPATCH_GRACE, pub_updated_at := now\<rparr>"

definition publish_job :: "uuid \<Rightarrow> uuid \<Rightarrow> datetime \<Rightarrow> publication \<Rightarrow> task_queue_job" where
  "publish_job jid T now p = \<lparr>job_id = jid, job_tenant_id = T, job_type = PUBLISH_JOB_TYPE,
     job_payload = [(''publication_id'', uuid_str (pub_id p))], job_status = JOB_PENDING,
     job_attempts = 0, job_max_attempts = DEFAULT_MAX_ATTEMPTS, job_run_at = now, job_claimed_at = None,
     job_claimed_by = None, job_last_error = None, job_created_at = now, job_updated_at = now\<rparr>"

lemma release_one_effect:
  assumes "release_one ids T now p s = Inr s'"
  shows "pub_status p = PUB_SCHEDULED \<and> db_publications s' = tbl_put (pub_id p) (released now p) (db_publications s)
     \<and> tbl_add (ids (pub_id p)) (publish_job (ids (pub_id p)) T now p) (db_jobs s) = Inr (db_jobs s')"
  using assms
  by (auto simp: release_one_def enqueue_job_def enqueue_def bind_result_eq_Inr publication_update_def
      Publication_defer_dispatch_def released_def publish_job_def split: if_splits)

lemma release_fold_effect:
  assumes "fold_result (release_one ids T now) ps s = Inr s'" and "distinct (map pub_id ps)"
  shows "(\<forall>p \<in> set ps. tbl_get (db_publications s') (pub_id p) = Some (released now p)
            \<and> tbl_get (db_jobs s') (ids (pub_id p)) = Some (publish_job (ids (pub_id p)) T now p))
     \<and> (\<forall>i. i \<notin> pub_id ` set ps \<longrightarrow> tbl_get (db_publications s') i = tbl_get (db_publications s) i)
     \<and> (\<forall>i j. tbl_get (db_jobs s) i = Some j \<longrightarrow> tbl_get (db_jobs s') i = Some j)"
  using assms
proof (induction ps arbitrary: s)
  case (Cons p ps)
  from Cons.prems(1) obtain t where t: "release_one ids T now p s = Inr t"
    "fold_result (release_one ids T now) ps t = Inr s'" by (auto simp: bind_result_eq_Inr)
  note e = release_one_effect [OF t(1)] and IH = Cons.IH [OF t(2)]
  have new: "pub_id p \<notin> pub_id ` set ps" using Cons.prems(2) by simp
  have job: "tbl_get (db_jobs t) (ids (pub_id p)) = Some (publish_job (ids (pub_id p)) T now p)"
    "\<forall>i j. tbl_get (db_jobs s) i = Some j \<longrightarrow> tbl_get (db_jobs t) i = Some j"
    using e tbl_get_add [of "ids (pub_id p)" _ "db_jobs s"] tbl.add_keeps [of "ids (pub_id p)" _ "db_jobs s"]
    by auto
  have pubs: "tbl_get (db_publications t) i
      = (if i = pub_id p then Some (released now p) else tbl_get (db_publications s) i)" for i
    using e by (simp add: tbl_get_put)
  show ?case using IH Cons.prems(2) new job pubs by auto
qed simp

text \<open>
  A sweep of the \<open>due_at\<close> poller releases the due scheduled rows of one tenant, at most
  \<open>limit\<close> of them: each keeps its status, gets its due time pushed by the grace period and exactly
  one pending publish job; every other row is untouched; and no sweep within the grace period
  releases it again.
\<close>

theorem release_effect:
  assumes ok: "tbl_ok pub_id (db_publications s)"
    and r: "ReleaseScheduledPublicationsForTenant ids T limit now s = Inr (m, s')"
  shows "m = length (list_due_for_release T now limit s) \<and> m \<le> limit
     \<and> (\<forall>p \<in> set (list_due_for_release T now limit s).
          pub_tenant_id p = T \<and> pub_status p = PUB_SCHEDULED \<and> pub_due_at p \<le> now
          \<and> tbl_get (db_publications s') (pub_id p)
              = Some (p\<lparr>pub_due_at := now + DISPATCH_GRACE, pub_updated_at := now\<rparr>)
          \<and> tbl_get (db_jobs s') (ids (pub_id p)) = Some (publish_job (ids (pub_id p)) T now p)
          \<and> (\<forall>now' limit'. now' < now + DISPATCH_GRACE
               \<longrightarrow> pub_id p \<notin> pub_id ` set (list_due_for_release T now' limit' s')))
     \<and> (\<forall>i. i \<notin> pub_id ` set (list_due_for_release T now limit s)
          \<longrightarrow> tbl_get (db_publications s') i = tbl_get (db_publications s) i)"
proof -
  let ?due = "list_due_for_release T now limit s"
  from r have f: "fold_result (release_one ids T now) ?due s = Inr s'" and m: "m = length ?due"
    by (auto simp: ReleaseScheduledPublicationsForTenant_def Let_def bind_result_eq_Inr)
  have dist: "distinct (map pub_id ?due)" unfolding list_due_for_release_def by (rule query_rows(1) [OF ok])
  have due: "tbl_get (db_publications s) (pub_id p) = Some p \<and> pub_tenant_id p = T
      \<and> pub_status p = PUB_SCHEDULED \<and> pub_due_at p \<le> now" if "p \<in> set ?due" for p
    using that query_rows(2) [OF ok] unfolding list_due_for_release_def by blast
  note e = release_fold_effect [OF f dist]
  have ok': "tbl_ok pub_id (db_publications s')"
    by (rule fold_result_invariant [where P = "\<lambda>t. tbl_ok pub_id (db_publications t)", OF f ok])
       (use release_one_effect in \<open>auto simp: released_def intro!: tbl_ok_put\<close>)
  have again: "pub_id p \<notin> pub_id ` set (list_due_for_release T now' limit' s')"
    if p: "p \<in> set ?due" and now': "now' < now + DISPATCH_GRACE" for p now' limit'
  proof
    assume "pub_id p \<in> pub_id ` set (list_due_for_release T now' limit' s')"
    then obtain q where q: "pub_id q = pub_id p" "tbl_get (db_publications s') (pub_id q) = Some q"
      "pub_due_at q \<le> now'"
      using query_rows(2) [OF ok'] unfolding list_due_for_release_def by (metis (no_types, lifting) imageE)
    with e p have "q = released now p" by simp
    with q(3) now' show False by (simp add: released_def)
  qed
  have "m \<le> limit" unfolding m list_due_for_release_def by simp
  with e due again m show ?thesis by (simp add: released_def)
qed

theorem release_effect_witness:
  "tbl_get (db_publications demo_db2) 10
     = Some (demo_publication\<lparr>pub_due_at := DISPATCH_GRACE, pub_updated_at := 0\<rparr>)
   \<and> (1::nat) = length (list_due_for_release 1 0 50 demo_db1)"
proof -
  have ok: "tbl_ok pub_id (db_publications demo_db1)" by (simp add: tbl_ok_def demo_defs)
  have due: "list_due_for_release 1 0 50 demo_db1 = [demo_publication]"
    by (simp add: list_due_for_release_def rows_def demo_defs)
  have "pub_id demo_publication = 10" by (simp add: demo_defs)
  with release_effect [OF ok demo_release] due show ?thesis by simp
qed

text \<open>
  A rate-limited attempt is deferred, not failed: the row returns to scheduled at the new due
  time with the reason recorded and its attempts unchanged, and its job is completed, not retried.
\<close>

theorem defer_keeps_attempts:
  assumes "DeferPublicationPublish T i j reason due now s = Inr (p', s')"
    and "get_job T j (db_jobs s) = Some job"
  shows "\<exists>p. publication_get T i s = Some p \<and> pub_status p = PUB_DISPATCHING
     \<and> pub_status p' = PUB_SCHEDULED \<and> pub_due_at p' = due \<and> pub_last_error p' = Some reason
     \<and> pub_attempts p' = pub_attempts p
     \<and> tbl_get (db_jobs s') j = Some (job\<lparr>job_status := JOB_SUCCEEDED, job_updated_at := now\<rparr>)"
proof -
  from DeferPublicationPublish_InrD [OF assms(1)] obtain p where
    "publication_get T i s = Some p" "Publication_defer reason due now p = Inr p'"
    "db_jobs s' = complete_job T j now (db_jobs s)" by blast
  with assms(2) show ?thesis
    by (auto simp: Publication_defer_def complete_job_def tbl_get_put split: if_splits)
qed

theorem defer_keeps_attempts_witness:
  "\<exists>p' s'. DeferPublicationPublish 1 10 110 ''later'' 99 6 demo_db3 = Inr (p', s')
     \<and> pub_status p' = PUB_SCHEDULED \<and> pub_due_at p' = 99
     \<and> (\<exists>job. tbl_get (db_jobs s') 110 = Some job \<and> job_status job = JOB_SUCCEEDED)"
proof -
  have "\<exists>p' s'. DeferPublicationPublish 1 10 110 ''later'' 99 6 demo_db3 = Inr (p', s')"
    by (simp add: DeferPublicationPublish_def publication_get_def scoped_get_def Publication_defer_def
        publication_update_def tbl_get_def demo_defs)
  then obtain p' s' where d: "DeferPublicationPublish 1 10 110 ''later'' 99 6 demo_db3 = Inr (p', s')"
    by blast
  have "get_job 1 110 (db_jobs demo_db3) = Some (job_claimed PUBLISH_CLAIMED_BY 5 demo_job)"
    by (simp add: get_job_def scoped_get_def tbl_get_def job_claimed_def demo_defs)
  from d defer_keeps_attempts [OF d this] show ?thesis by auto
qed

text \<open>
  The "dead letter" of a job whose publication cannot be claimed (cancelled, published, already
  dispatching) or does not exist is an ordinary failed attempt: the publication is untouched and
  the worker gets nothing, but while the job has attempts left it goes back to pending and will be
  claimed again; only the last attempt makes it dead.
\<close>

theorem unclaimable_job_is_retried:
  assumes ok: "jobs_ok (db_jobs s)"
    and c: "claim T PUBLISH_CLAIMED_BY (Some PUBLISH_JOB_TYPE) now (db_jobs s) = (Some j, q)"
    and payload: "job_payload j = [(''publication_id'', uuid_str i)]"
    and bad: "\<forall>p. publication_get T i s = Some p \<longrightarrow> pub_status p \<notin> {PUB_SCHEDULED, PUB_FAILED}"
    and attempts: "job_attempts j < 1023"
  shows "\<exists>s' j'. StartPublicationPublish jit T now s = Inr (None, s')
     \<and> db_publications s' = db_publications s \<and> tbl_get (db_jobs s') (job_id j) = Some j'
     \<and> job_attempts j' = job_attempts j + 1
     \<and> job_status j' = (if job_attempts j + 1 < job_max_attempts j then JOB_PENDING else JOB_DEAD)"
proof -
  have run: "tbl_get q (job_id j) = Some j" "job_tenant_id j = T"
    using tq.claim_running [OF ok c] by auto
  have okq: "jobs_ok q" using jobs_ok_claim [OF ok, of T PUBLISH_CLAIMED_BY "Some PUBLISH_JOB_TYPE" now] c by simp
  have g: "publication_get T i (s\<lparr>db_jobs := q\<rparr>) = publication_get T i s" by (simp add: publication_get_def)
  have parse: "dict_item py_repr (job_payload j) ''publication_id'' = Inr (uuid_str i)"
    by (simp add: payload dict_item_def)
  obtain err where e: "StartPublicationPublish jit T now s
      = bind_result (fail_job jit T (job_id j) err now q) (\<lambda>(_, q'). Inr (None, s\<lparr>db_jobs := q'\<rparr>))"
  proof (cases "publication_get T i s")
    case None
    then show ?thesis using that by (simp add: StartPublicationPublish_def c parse Let_def g)
  next
    case (Some p)
    with bad have "pub_status p \<notin> set PUBLISH_CLAIMABLE_STATUSES"
      by (simp add: PUBLISH_CLAIMABLE_STATUSES_def)
    with Some show ?thesis using that by (simp add: StartPublicationPublish_def c parse Let_def g)
  qed
  have "job_attempts j < 1024" using attempts by simp
  from tq.fail_defined [OF okq run this] obtain st q' where
    f: "fail_job jit T (job_id j) err now q = Inr (st, q')" by blast
  from fail_job_InrD [OF f] run(1) obtain j' where
    "job_status j' = fail_verdict j" "job_attempts j' = job_attempts j + 1" "q' = tbl_put (job_id j) j' q"
    by auto
  with e f show ?thesis by (intro exI [of _ "s\<lparr>db_jobs := q'\<rparr>"] exI [of _ j'])
      (simp add: tbl_get_put fail_verdict_def)
qed

definition demo_cancelled :: db where
  "demo_cancelled = demo_base\<lparr>db_publications := [(10, demo_publication\<lparr>pub_status := PUB_CANCELLED\<rparr>)],
     db_jobs := [(110, demo_job)]\<rparr>"

theorem unclaimable_job_is_retried_witness:
  "\<exists>s' j'. StartPublicationPublish 0 1 5 demo_cancelled = Inr (None, s')
     \<and> tbl_get (db_jobs s') 110 = Some j' \<and> job_status j' = JOB_PENDING \<and> job_attempts j' = 1"
proof -
  have ok: "jobs_ok (db_jobs demo_cancelled)"
    by (simp add: demo_cancelled_def jobs_ok_def job_ok_def tbl_ok_def tbl_get_def demo_job_def)
  have c: "claim 1 PUBLISH_CLAIMED_BY (Some PUBLISH_JOB_TYPE) 5 (db_jobs demo_cancelled)
      = (Some (job_claimed PUBLISH_CLAIMED_BY 5 demo_job), [(110, job_claimed PUBLISH_CLAIMED_BY 5 demo_job)])"
    by (simp add: demo_cancelled_def claim_def claimable_def first_by_def rows_def tbl_put_def
        job_claimed_def demo_job_def Let_def)
  have p: "job_payload (job_claimed PUBLISH_CLAIMED_BY 5 demo_job) = [(''publication_id'', uuid_str 10)]"
    "\<forall>p. publication_get 1 10 demo_cancelled = Some p \<longrightarrow> pub_status p \<notin> {PUB_SCHEDULED, PUB_FAILED}"
    "job_attempts (job_claimed PUBLISH_CLAIMED_BY 5 demo_job) < 1023"
    by (simp_all add: job_claimed_def demo_job_def demo_cancelled_def publication_get_def scoped_get_def
        tbl_get_def)
  from unclaimable_job_is_retried [OF ok c p, of 0] show ?thesis
    by (auto simp: job_claimed_def demo_job_def)
qed

definition demo_provider :: "string provider" where
  "demo_provider = \<lparr>validate_payload = \<lambda>_. Inr (True, []), publish_post = \<lambda>_ _. Inr (''post'', None)\<rparr>"

definition demo_draw :: "nat \<Rightarrow> draws" where
  "demo_draw n = \<lparr>draw_time = 5, draw_jitter = 0, draw_id = 200\<rparr>"

lemma demo_payload: "publish_payload_of demo_context = Inr \<lparr>pp_variant_id = 2, pp_caption = ''hello'',
    pp_media_asset_ids = [5], pp_link = None\<rparr>"
  by (simp add: publish_payload_of_def demo_context_def demo_publication_def Publication_create_def)

theorem agent_run_refines_witness:
  "\<exists>s'. protocol_path \<lparr>pr_db = demo_db2, pr_workers = [], pr_calls = []\<rparr>
          \<lparr>pr_db = s', pr_workers = [], pr_calls = [(10, uuid_hex 11)]\<rparr>"
proof -
  let ?u = "\<lparr>pr_db = demo_db2, pr_workers = [], pr_calls = []\<rparr>"
  have calls: "PublishChannelAgent_calls demo_provider 50 demo_draw 1 demo_db2 [] = [(10, uuid_hex 11)]"
    by (simp add: PublishChannelAgent_calls_def demo_draw_def demo_start demo_payload demo_provider_def
        allow_def fixed_window_start_def RATE_LIMIT_WINDOW_def timedelta_defs Let_def)
       (simp add: demo_context_def)
  obtain r s' ws' where "PublishChannelAgent_run (\<lambda>_. []) demo_provider 50 demo_draw 1 (pr_db ?u) []
      = (r, s', ws')" by (metis prod_cases3)
  from agent_run_refines [OF this] calls show ?thesis by auto
qed

end
