(* ===== verification/Specs.thy ===== *)
theory Specs
  imports Database "HOL-Library.List_Lexorder" "HOL-Library.Char_ord"
begin

text \<open>
  The taxonomy's spec machinery: inheritance along the category chain (spec_inheritance.py), the
  snapshot a publish stores (spec_snapshot.py, spec_snapshot_builder.py), its comparison with the
  previous one (spec_change_classification.py), the read path (spec_resolver.py), moving a
  category (category_hierarchy.py), publishing (publish_category_spec.py) and the settings chain
  (settings_resolver.py).
\<close>

section \<open>Inheritance\<close>

definition resolve_inherited ::
  "('r \<Rightarrow> uuid) \<Rightarrow> ('r \<Rightarrow> string) \<Rightarrow> uuid list \<Rightarrow> 'r list \<Rightarrow> (string, 'r) dict" where
  "resolve_inherited category_id key chain row_list =
     (let by_category = group_by category_id row_list in
      fold (\<lambda>c resolved. fold (\<lambda>row d. dict_set (key row) row d) (dict_get by_category c []) resolved)
        chain [])"

definition dict_values :: "('k, 'v) dict \<Rightarrow> 'v list" where
  "dict_values d = map snd d"

text \<open>The rows in the order the loop writes them: a later one of the same key wins.\<close>

definition chain_rows :: "('r \<Rightarrow> uuid) \<Rightarrow> uuid list \<Rightarrow> 'r list \<Rightarrow> 'r list" where
  "chain_rows category_id chain row_list = concat (map (\<lambda>c. filter (\<lambda>r. category_id r = c) row_list) chain)"

lemma resolve_inherited_dict_of:
  "resolve_inherited cat key chain rs = dict_of (map (\<lambda>r. (key r, r)) (chain_rows cat chain rs))"
proof -
  have "fold (\<lambda>c resolved. fold (\<lambda>row d. dict_set (key row) row d) (filter (\<lambda>r. cat r = c) rs) resolved)
      chain d0 = fold (\<lambda>(k, v) d. dict_set k v d) (map (\<lambda>r. (key r, r)) (chain_rows cat chain rs)) d0" for d0
    by (induction chain arbitrary: d0) (simp_all add: chain_rows_def fold_map comp_def)
  then show ?thesis by (simp add: resolve_inherited_def Let_def dict_get_group_by dict_of_def)
qed

lemma map_of_rev_last:
  "map_of (rev (map (\<lambda>r. (f r, r)) xs)) k = (case filter (\<lambda>r. f r = k) xs of [] \<Rightarrow> None | ys \<Rightarrow> Some (last ys))"
  by (induction xs rule: rev_induct) (auto split: list.splits)

lemma resolve_inherited_last:
  "map_of (resolve_inherited cat key chain rs) k
     = (case filter (\<lambda>r. key r = k) (chain_rows cat chain rs) of [] \<Rightarrow> None | ys \<Rightarrow> Some (last ys))"
  by (simp add: resolve_inherited_dict_of map_of_dict_of map_of_rev_last)

lemma chain_rows_mem: "r \<in> set (chain_rows cat chain rs) \<longleftrightarrow> r \<in> set rs \<and> cat r \<in> set chain"
  by (auto simp: chain_rows_def)

text \<open>The last row of a key comes from the last category of the chain that has one.\<close>

lemma chain_rows_append: "chain_rows cat (c1 @ c2) rs = chain_rows cat c1 rs @ chain_rows cat c2 rs"
  by (simp add: chain_rows_def)

lemma resolve_inherited_nearest:
  assumes "map_of (resolve_inherited cat key chain rs) k = Some r"
    and "chain = pre @ [cat r] @ below" and "cat r \<notin> set below" and "s \<in> set rs" and "key s = k"
    and "cat s \<in> set below"
  shows False
proof -
  let ?g = "filter (\<lambda>r. key r = k)"
  let ?below = "?g (chain_rows cat below rs)"
  have "s \<in> set ?below" using assms(4-6) by (simp add: chain_rows_mem)
  then have ne: "?below \<noteq> []" by (cases ?below) auto
  have "?g (chain_rows cat chain rs) = ?g (chain_rows cat (pre @ [cat r]) rs) @ ?below"
    by (simp add: assms(2) chain_rows_append chain_rows_def)
  then have "last (?g (chain_rows cat chain rs)) = last ?below" using ne by simp
  moreover have "last (?g (chain_rows cat chain rs)) = r"
    using assms(1) by (auto simp: resolve_inherited_last split: list.splits)
  ultimately have "r \<in> set ?below" using ne by (metis last_in_set)
  with assms(3) show False by (simp add: chain_rows_mem)
qed

lemma inherited_None:
  "(map_of (resolve_inherited cat key chain rs) k = None)
     = (\<forall>r \<in> set rs. key r = k \<longrightarrow> cat r \<notin> set chain)"
proof -
  have "map_of (resolve_inherited cat key chain rs) k = None
      \<longleftrightarrow> filter (\<lambda>r. key r = k) (chain_rows cat chain rs) = []"
    by (simp add: resolve_inherited_last split: list.splits)
  then show ?thesis by (auto simp: filter_empty_conv chain_rows_mem)
qed

section \<open>Snapshots\<close>

definition serialize_attribute_definition :: "attribute_definition \<Rightarrow> snap_attribute" where
  "serialize_attribute_definition d =
     \<lparr>sna_id = uuid_str (ad_id d), sna_category_id = uuid_str (ad_category_id d), sna_key = ad_key d,
      sna_label = ad_label d, sna_help_text = ad_help_text d,
      sna_data_type = attribute_data_type_value (ad_data_type d),
      sna_semantic_role = map_option semantic_role_value (ad_semantic_role d),
      sna_is_required = ad_is_required d, sna_is_filterable = ad_is_filterable d,
      sna_is_public = ad_is_public d, sna_position = ad_position d, sna_validation = ad_validation d,
      sna_ui = ad_ui d, sna_default_value = ad_default_value d\<rparr>"

definition serialize_variant_axis_value :: "variant_axis_value \<Rightarrow> snap_axis_value" where
  "serialize_variant_axis_value v =
     \<lparr>snv_id = uuid_str (vav_id v), snv_value = vav_value v, snv_label = vav_label v,
      snv_metadata = vav_metadata v\<rparr>"

definition serialize_variant_axis :: "variant_axis \<Rightarrow> variant_axis_value list \<Rightarrow> snap_axis" where
  "serialize_variant_axis axis vs =
     \<lparr>snx_id = uuid_str (va_id axis), snx_category_id = uuid_str (va_category_id axis),
      snx_key = va_key axis, snx_label = va_label axis, snx_position = va_position axis,
      snx_affects_imagery = va_affects_imagery axis, snx_values = map serialize_variant_axis_value vs\<rparr>"

definition serialize_input_image_slot :: "input_image_slot \<Rightarrow> snap_input_slot" where
  "serialize_input_image_slot slot =
     \<lparr>sni_id = uuid_str (iis_id slot), sni_category_id = uuid_str (iis_category_id slot),
      sni_key = iis_key slot, sni_label = iis_label slot, sni_description = iis_description slot,
      sni_capture_guidance = iis_capture_guidance slot,
      sni_example_asset_id = map_option uuid_str (iis_example_asset_id slot),
      sni_normalisation = iis_normalisation slot, sni_is_required = iis_is_required slot,
      sni_position = iis_position slot\<rparr>"

definition serialize_requirement :: "catalog_slot_input_requirement \<Rightarrow> snap_requirement" where
  "serialize_requirement r =
     \<lparr>snr_input_image_slot_id = uuid_str (req_input_image_slot_id r), snr_role = req_role r,
      snr_prompt_position = req_prompt_position r, snr_is_required = req_is_required r\<rparr>"

definition serialize_catalog_image_slot ::
  "catalog_image_slot \<Rightarrow> catalog_slot_input_requirement list \<Rightarrow> snap_catalog_slot" where
  "serialize_catalog_image_slot slot requirements =
     \<lparr>snc_id = uuid_str (cis_id slot), snc_category_id = uuid_str (cis_category_id slot),
      snc_key = cis_key slot, snc_label = cis_label slot, snc_description = cis_description slot,
      snc_position = cis_position slot, snc_aspect_ratio = cis_aspect_ratio slot,
      snc_target_width = cis_target_width slot, snc_target_height = cis_target_height slot,
      snc_is_required = cis_is_required slot,
      snc_input_requirements = sort_key snr_prompt_position (map serialize_requirement requirements)\<rparr>"

definition find_catalog_slot :: "spec_snapshot \<Rightarrow> string \<Rightarrow> snap_catalog_slot option" where
  "find_catalog_slot snapshot catalog_image_slot_id =
     find (\<lambda>slot. snc_id slot = catalog_image_slot_id) (catalog_image_slots snapshot)"

definition build_snapshot ::
  "attribute_definition list \<Rightarrow> variant_axis list \<Rightarrow> (uuid, variant_axis_value list) dict
    \<Rightarrow> input_image_slot list \<Rightarrow> catalog_image_slot list
    \<Rightarrow> (uuid, catalog_slot_input_requirement list) dict \<Rightarrow> spec_snapshot" where
  "build_snapshot attributes axes axis_value_map input_slots catalog_slots requirement_map =
     \<lparr>attribute_definitions = map serialize_attribute_definition attributes,
      variant_axes = map (\<lambda>axis. serialize_variant_axis axis (dict_get axis_value_map (va_id axis) [])) axes,
      input_image_slots = map serialize_input_image_slot input_slots,
      catalog_image_slots = map (\<lambda>slot. serialize_catalog_image_slot slot
         (dict_get requirement_map (cis_id slot) [])) catalog_slots\<rparr>"

text \<open>The repositories' \<open>list_for_categories\<close>: an empty chain asks nothing.\<close>

definition list_for_categories ::
  "('r \<Rightarrow> uuid) \<Rightarrow> ('r \<Rightarrow> uuid) \<Rightarrow> ('r \<Rightarrow> int) \<Rightarrow> 'r table \<Rightarrow> uuid \<Rightarrow> uuid list \<Rightarrow> 'r list" where
  "list_for_categories tenant cat pos t tenant_id category_ids =
     (if category_ids = [] then []
      else sort_key pos (filter (\<lambda>r. tenant r = tenant_id \<and> cat r \<in> set category_ids) (rows t)))"

definition list_for_axis :: "uuid \<Rightarrow> uuid \<Rightarrow> db \<Rightarrow> variant_axis_value list" where
  "list_for_axis tenant_id axis_id s =
     filter (\<lambda>v. vav_tenant_id v = tenant_id \<and> vav_axis_id v = axis_id) (rows (db_axis_values s))"

definition list_for_catalog_slot :: "uuid \<Rightarrow> uuid \<Rightarrow> db \<Rightarrow> catalog_slot_input_requirement list" where
  "list_for_catalog_slot tenant_id slot_id s =
     sort_key req_prompt_position (filter (\<lambda>r. req_tenant_id r = tenant_id
       \<and> req_catalog_image_slot_id r = slot_id) (db_requirements s))"

definition category_get :: "uuid \<Rightarrow> uuid \<Rightarrow> db \<Rightarrow> category option" where
  "category_get tenant_id category_id s = scoped_get cat_tenant_id (db_categories s) tenant_id category_id"

definition SpecSnapshotBuilder_build :: "uuid \<Rightarrow> uuid \<Rightarrow> db \<Rightarrow> spec_snapshot result" where
  "SpecSnapshotBuilder_build tenant_id category_id s =
     bind_result (require (NotFoundError ''Category not found.'') (category_get tenant_id category_id s))
       (\<lambda>category.
     bind_result (Category_ancestor_ids category) (\<lambda>chain.
     let attributes = resolve_inherited ad_category_id ad_key chain
           (list_for_categories ad_tenant_id ad_category_id ad_position (db_attributes s) tenant_id chain);
         axes = resolve_inherited va_category_id va_key chain
           (list_for_categories va_tenant_id va_category_id va_position (db_axes s) tenant_id chain);
         input_slots = resolve_inherited iis_category_id iis_key chain
           (list_for_categories iis_tenant_id iis_category_id iis_position (db_input_slots s) tenant_id chain);
         catalog_slots = resolve_inherited cis_category_id cis_key chain
           (list_for_categories cis_tenant_id cis_category_id cis_position (db_catalog_slots s) tenant_id chain)
     in Inr (build_snapshot (dict_values attributes) (dict_values axes)
          (dict_of (map (\<lambda>axis. (va_id axis, list_for_axis tenant_id (va_id axis) s)) (dict_values axes)))
          (dict_values input_slots) (dict_values catalog_slots)
          (dict_of (map (\<lambda>slot. (cis_id slot, list_for_catalog_slot tenant_id (cis_id slot) s))
             (dict_values catalog_slots))))))"

section \<open>What changed between two snapshots\<close>

text \<open>A row of a section as the classification reads it: \<open>id\<close>, \<open>key\<close>, \<open>is_required\<close>.\<close>

type_synonym section_row = "string \<times> string \<times> bool"

definition section_rows :: "string \<Rightarrow> spec_snapshot \<Rightarrow> section_row list" where
  "section_rows name snap =
     (if name = ''attribute_definitions''
      then map (\<lambda>r. (sna_id r, sna_key r, sna_is_required r)) (attribute_definitions snap)
      else if name = ''input_image_slots''
      then map (\<lambda>r. (sni_id r, sni_key r, sni_is_required r)) (input_image_slots snap)
      else map (\<lambda>r. (snc_id r, snc_key r, snc_is_required r)) (catalog_image_slots snap))"

definition ROW_KINDS :: "(string \<times> string \<times> bool) list" where
  "ROW_KINDS = [(''attribute_definitions'', ''attribute_definition'', True),
                (''input_image_slots'', ''input_image_slot'', True),
                (''catalog_image_slots'', ''catalog_image_slot'', False)]"

definition classify_section ::
  "spec_snapshot option \<Rightarrow> spec_snapshot \<Rightarrow> string \<Rightarrow> string \<Rightarrow> bool \<Rightarrow> spec_change list" where
  "classify_section previous next_snapshot name row_kind honours_required =
     (let previous_rows = (case previous of None \<Rightarrow> [] | Some p \<Rightarrow> dict_of (section_rows name p));
          next_rows = dict_of (section_rows name next_snapshot)
      in concat (map (\<lambda>(row_id, key, is_required).
           (case map_of previous_rows row_id of
              None \<Rightarrow> [\<lparr>chg_change_type = (if honours_required \<and> is_required then ADDED_REQUIRED
                          else ADDED_OPTIONAL), chg_row_kind = row_kind, chg_row_id = row_id,
                        chg_key = key, chg_previous_key = None\<rparr>]
            | Some (previous_key, _) \<Rightarrow>
                if previous_key \<noteq> key
                then [\<lparr>chg_change_type = RENAMED, chg_row_kind = row_kind, chg_row_id = row_id,
                       chg_key = key, chg_previous_key = Some previous_key\<rparr>]
                else [])) next_rows)
         @ concat (map (\<lambda>(row_id, previous_key, _).
             if row_id \<notin> fst ` set next_rows
             then [\<lparr>chg_change_type = RETIRED, chg_row_kind = row_kind, chg_row_id = row_id,
                    chg_key = previous_key, chg_previous_key = None\<rparr>]
             else []) previous_rows))"

definition classify_changes :: "spec_snapshot option \<Rightarrow> spec_snapshot \<Rightarrow> spec_change list" where
  "classify_changes previous next_snapshot =
     concat (map (\<lambda>(name, row_kind, honours_required).
       classify_section previous next_snapshot name row_kind honours_required) ROW_KINDS)"

definition summarize :: "spec_change list \<Rightarrow> json" where
  "summarize changes = JObj [(''changes'', JList (map (\<lambda>change. JObj
      [(''change_type'', JStr (spec_change_type_value (chg_change_type change))),
       (''row_kind'', JStr (chg_row_kind change)),
       (''row_id'', JStr (chg_row_id change)),
       (''key'', JStr (chg_key change)),
       (''previous_key'', jstr_opt (chg_previous_key change))]) changes))]"

definition resolve_published :: "uuid \<Rightarrow> uuid \<Rightarrow> int \<Rightarrow> db \<Rightarrow> spec_snapshot result" where
  "resolve_published tenant_id category_id version s =
     bind_result (scalar_one_or_none (filter (\<lambda>v. csv_tenant_id v = tenant_id
         \<and> csv_category_id v = category_id \<and> csv_version v = version) (rows (db_spec_versions s))))
       (\<lambda>row. bind_result (require (NotFoundError ''Category spec version not found.'') row)
         (\<lambda>r. Inr (csv_snapshot r)))"

section \<open>Moving a category\<close>

definition starts_with :: "string \<Rightarrow> string \<Rightarrow> bool" where
  "starts_with p s \<longleftrightarrow> take (length p) s = p"

text \<open>
  \<open>category\<close> is one of the rows of its subtree; its path and depth are those before the loop.
\<close>

definition reparent_one ::
  "category \<Rightarrow> string \<Rightarrow> int \<Rightarrow> uuid option \<Rightarrow> datetime \<Rightarrow> category \<Rightarrow> category result" where
  "reparent_one category new_path depth_delta new_parent_id now row =
     bind_result
       (if cat_id row = cat_id category then Inr []
        else if starts_with (cat_path category @ ''.'') (cat_path row)
        then Inr (drop (length (cat_path category)) (cat_path row))
        else Inl (ValidationError (uuid_str (cat_id row) @ '' is not part of ''
               @ uuid_str (cat_id category) @ CHR 0x27 # ''s subtree.'')))
       (\<lambda>suffix.
         let row1 = (if cat_id row = cat_id category then row\<lparr>cat_parent_id := new_parent_id\<rparr> else row)
         in Inr (row1\<lparr>cat_path := new_path @ suffix, cat_depth := cat_depth row + depth_delta,
                    cat_updated_at := now\<rparr>))"

definition reparent_subtree ::
  "category \<Rightarrow> category list \<Rightarrow> category option \<Rightarrow> datetime \<Rightarrow> category list result" where
  "reparent_subtree category subtree new_parent now =
     (if (case new_parent of None \<Rightarrow> False | Some p \<Rightarrow> cat_id p = cat_id category)
      then Inl (ValidationError ''A category cannot be its own parent.'')
      else let descendant_ids = map cat_id (filter (\<lambda>row. cat_id row \<noteq> cat_id category) subtree) in
        if (case new_parent of None \<Rightarrow> False | Some p \<Rightarrow> cat_id p \<in> set descendant_ids)
        then Inl (ValidationError ''A category cannot be moved under its own descendant.'')
        else let new_path = (case new_parent of
                     Some p \<Rightarrow> cat_path p @ ''.'' @ uuid_str (cat_id category)
                   | None \<Rightarrow> uuid_str (cat_id category));
                 new_depth = (case new_parent of Some p \<Rightarrow> cat_depth p + 1 | None \<Rightarrow> 0);
                 depth_delta = new_depth - cat_depth category;
                 new_parent_id = map_option cat_id new_parent
             in map_result (reparent_one category new_path depth_delta new_parent_id now) subtree)"

text \<open>
  \<open>list_subtree\<close>: the category itself and every row whose path matches \<open>path.%\<close>, by path.
\<close>

definition list_subtree :: "uuid \<Rightarrow> uuid \<Rightarrow> db \<Rightarrow> category list" where
  "list_subtree tenant_id category_id s =
     (case category_get tenant_id category_id s of
        None \<Rightarrow> []
      | Some top_row \<Rightarrow> sort_key cat_path (filter (\<lambda>c. cat_tenant_id c = tenant_id
          \<and> (cat_id c = category_id \<or> starts_with (cat_path top_row @ ''.'') (cat_path c)))
          (rows (db_categories s))))"

definition category_update :: "category \<Rightarrow> db \<Rightarrow> db" where
  "category_update c s = s\<lparr>db_categories := tbl_put (cat_id c) c (db_categories s)\<rparr>"

text \<open>
  The unique constraints of migration 38c1dad678bc: a slug per tenant, and a key per parent (the two
  partial indexes for roots and for children). A flush that breaks one raises.
\<close>

definition slug_clash :: "category \<Rightarrow> category \<Rightarrow> bool" where
  "slug_clash c r \<longleftrightarrow> cat_tenant_id r = cat_tenant_id c \<and> cat_slug r = cat_slug c"

definition sibling_clash :: "category \<Rightarrow> category \<Rightarrow> bool" where
  "sibling_clash c r \<longleftrightarrow> cat_tenant_id r = cat_tenant_id c \<and> cat_parent_id r = cat_parent_id c
     \<and> cat_key r = cat_key c"

definition category_flush :: "category \<Rightarrow> db \<Rightarrow> db result" where
  "category_flush c s =
     (if list_ex (\<lambda>r. cat_id r \<noteq> cat_id c \<and> (slug_clash c r \<or> sibling_clash c r)) (rows (db_categories s))
      then Inl (IntegrityError ''duplicate key value'') else Inr (category_update c s))"

definition MoveCategory ::
  "uuid \<Rightarrow> uuid \<Rightarrow> uuid \<Rightarrow> uuid option \<Rightarrow> uuid \<Rightarrow> datetime \<Rightarrow> unit use_case" where
  "MoveCategory audit_id tenant_id category_id new_parent_id actor_user_id now s =
     bind_result (require (NotFoundError ''Category not found.'') (category_get tenant_id category_id s))
       (\<lambda>category.
     bind_result (case new_parent_id of None \<Rightarrow> Inr None
         | Some p \<Rightarrow> bind_result (require (NotFoundError ''Target parent category not found.'')
              (category_get tenant_id p s)) (\<lambda>c. Inr (Some c)))
       (\<lambda>new_parent.
     let old_parent_id = cat_parent_id category;
         subtree = list_subtree tenant_id category_id s
     in bind_result (reparent_subtree category subtree new_parent now) (\<lambda>moved.
        bind_result (fold_result category_flush moved s) (\<lambda>s1.
        bind_result (audit_record audit_id tenant_id (Some actor_user_id) ''category.moved'' ''category''
            category_id (Some [(''parent_id'', jstr_opt (map_option uuid_str old_parent_id))])
            (Some [(''parent_id'', jstr_opt (map_option uuid_str new_parent_id))]) now
            s1)
          (\<lambda>s'. Inr ((), s'))))))"

section \<open>Publishing a spec\<close>

text \<open>\<open>list_for_category\<close>, and the stamp on the rows not introduced by an earlier version.\<close>

definition list_for_category ::
  "('r \<Rightarrow> uuid) \<Rightarrow> ('r \<Rightarrow> uuid) \<Rightarrow> ('r \<Rightarrow> int) \<Rightarrow> 'r table \<Rightarrow> uuid \<Rightarrow> uuid \<Rightarrow> 'r list" where
  "list_for_category tenant cat pos t tenant_id category_id =
     sort_key pos (filter (\<lambda>r. tenant r = tenant_id \<and> cat r = category_id) (rows t))"

definition introduce ::
  "('r \<Rightarrow> uuid) \<Rightarrow> ('r \<Rightarrow> int option) \<Rightarrow> ('r \<Rightarrow> 'r) \<Rightarrow> 'r list \<Rightarrow> 'r table \<Rightarrow> 'r table" where
  "introduce key introduced stamp rs t =
     fold (\<lambda>r t. if introduced r = None then tbl_put (key r) (stamp r) t else t) rs t"

definition version_clash :: "category_spec_version \<Rightarrow> category_spec_version \<Rightarrow> bool" where
  "version_clash v r \<longleftrightarrow> csv_tenant_id r = csv_tenant_id v \<and> csv_category_id r = csv_category_id v
     \<and> csv_version r = csv_version v"

definition introduce_rows :: "uuid \<Rightarrow> uuid \<Rightarrow> int \<Rightarrow> db \<Rightarrow> db" where
  "introduce_rows tenant_id category_id next_version s =
     s\<lparr>db_attributes := introduce ad_id ad_introduced_in_version
           (\<lambda>r. r\<lparr>ad_introduced_in_version := Some next_version\<rparr>)
           (list_for_category ad_tenant_id ad_category_id ad_position (db_attributes s) tenant_id category_id)
           (db_attributes s),
       db_axes := introduce va_id va_introduced_in_version
           (\<lambda>r. r\<lparr>va_introduced_in_version := Some next_version\<rparr>)
           (list_for_category va_tenant_id va_category_id va_position (db_axes s) tenant_id category_id)
           (db_axes s),
       db_input_slots := introduce iis_id iis_introduced_in_version
           (\<lambda>r. r\<lparr>iis_introduced_in_version := Some next_version\<rparr>)
           (list_for_category iis_tenant_id iis_category_id iis_position (db_input_slots s) tenant_id category_id)
           (db_input_slots s),
       db_catalog_slots := introduce cis_id cis_introduced_in_version
           (\<lambda>r. r\<lparr>cis_introduced_in_version := Some next_version\<rparr>)
           (list_for_category cis_tenant_id cis_category_id cis_position (db_catalog_slots s) tenant_id category_id)
           (db_catalog_slots s)\<rparr>"

definition json_int_opt :: "int option \<Rightarrow> json" where
  "json_int_opt v = (case v of None \<Rightarrow> JNull | Some i \<Rightarrow> JInt i)"

definition PublishCategorySpec ::
  "uuid \<Rightarrow> uuid \<Rightarrow> uuid \<Rightarrow> uuid \<Rightarrow> uuid \<Rightarrow> datetime \<Rightarrow> category_spec_version use_case" where
  "PublishCategorySpec new_id audit_id tenant_id category_id actor_user_id now s =
     bind_result (require (NotFoundError ''Category not found.'') (category_get tenant_id category_id s))
       (\<lambda>category.
     bind_result (SpecSnapshotBuilder_build tenant_id category_id s) (\<lambda>snapshot.
     let previous_version = cat_current_spec_version category;
         next_version = (case previous_version of None \<Rightarrow> 0 | Some v \<Rightarrow> v) + 1
     in bind_result (case previous_version of None \<Rightarrow> Inr None
          | Some v \<Rightarrow> bind_result (resolve_published tenant_id category_id v s) (\<lambda>p. Inr (Some p)))
        (\<lambda>previous_snapshot.
     let changes = classify_changes previous_snapshot snapshot;
         renamed = filter (\<lambda>c. chg_change_type c = RENAMED) changes
     in if renamed \<noteq> []
        then Inl (ValidationError (''Renaming a key is not permitted (D15) - retire and add instead: ''
               @ join '', '' (map (\<lambda>c. py_repr (case chg_previous_key c of Some k \<Rightarrow> k | None \<Rightarrow> [])
                    @ '' -> '' @ py_repr (chg_key c)) renamed)))
        else let version = CategorySpecVersion_create new_id tenant_id category_id next_version snapshot
                   actor_user_id now (if changes \<noteq> [] then Some (summarize changes) else None);
                 s1 = introduce_rows tenant_id category_id next_version s
             in bind_result (tbl_add_unique version_clash new_id version (db_spec_versions s1)) (\<lambda>versions.
                bind_result (audit_record audit_id tenant_id (Some actor_user_id) ''category_spec.published''
                    ''category'' category_id
                    (Some [(''current_spec_version'', json_int_opt previous_version)])
                    (Some [(''current_spec_version'', JInt next_version)]) now
                    (category_update (category\<lparr>cat_current_spec_version := Some next_version,
                         cat_draft_spec_version := None, cat_updated_at := now\<rparr>)
                      (s1\<lparr>db_spec_versions := versions\<rparr>)))
                  (\<lambda>s'. Inr (version, s'))))))"

section \<open>The settings chain\<close>

text \<open>The scopes from the least to the most specific.\<close>

fun scope_rank :: "setting_scope \<Rightarrow> nat" where
  "scope_rank SCOPE_PLATFORM = 0"
| "scope_rank SCOPE_TENANT = 1"
| "scope_rank SCOPE_CATEGORY = 2"
| "scope_rank SCOPE_PRODUCT = 3"

instantiation setting_scope :: linorder
begin

definition less_eq_setting_scope :: "setting_scope \<Rightarrow> setting_scope \<Rightarrow> bool" where
  "a \<le> b \<longleftrightarrow> scope_rank a \<le> scope_rank b"

definition less_setting_scope :: "setting_scope \<Rightarrow> setting_scope \<Rightarrow> bool" where
  "a < b \<longleftrightarrow> scope_rank a < scope_rank b"

instance
proof
  fix a b :: setting_scope
  show "a \<le> b \<Longrightarrow> b \<le> a \<Longrightarrow> a = b" by (cases a; cases b) (simp_all add: less_eq_setting_scope_def)
qed (auto simp: less_eq_setting_scope_def less_setting_scope_def)

end

definition setting_get ::
  "uuid option \<Rightarrow> setting_scope \<Rightarrow> uuid option \<Rightarrow> string \<Rightarrow> db \<Rightarrow> setting option result" where
  "setting_get tenant_id scope_type scope_id key s =
     scalar_one_or_none (filter (\<lambda>r. set_tenant_id r = tenant_id \<and> set_scope_type r = scope_type
       \<and> set_scope_id r = scope_id \<and> set_key r = key) (rows (db_settings s)))"

definition override :: "json \<Rightarrow> setting option \<Rightarrow> json" where
  "override resolved row = (case row of None \<Rightarrow> resolved | Some r \<Rightarrow> set_value r)"

definition SettingsResolver_resolve ::
  "uuid \<Rightarrow> string \<Rightarrow> uuid option \<Rightarrow> uuid option \<Rightarrow> db \<Rightarrow> json result" where
  "SettingsResolver_resolve tenant_id key category_id product_id s =
     bind_result (setting_get None SCOPE_PLATFORM None key s) (\<lambda>platform_setting.
     bind_result (setting_get (Some tenant_id) SCOPE_TENANT None key s) (\<lambda>tenant_setting.
     let resolved = override (override JNull platform_setting) tenant_setting in
     bind_result (case category_id of None \<Rightarrow> Inr resolved
       | Some c \<Rightarrow>
           bind_result (require (NotFoundError ''Category not found.'') (category_get tenant_id c s))
             (\<lambda>category.
           bind_result (Category_ancestor_ids category) (\<lambda>chain.
           fold_result (\<lambda>ancestor_id resolved.
               bind_result (setting_get (Some tenant_id) SCOPE_CATEGORY (Some ancestor_id) key s)
                 (\<lambda>category_setting. Inr (override resolved category_setting)))
             chain resolved)))
       (\<lambda>resolved.
     case product_id of None \<Rightarrow> Inr resolved
     | Some p \<Rightarrow> bind_result (setting_get (Some tenant_id) SCOPE_PRODUCT (Some p) key s)
         (\<lambda>product_setting. Inr (override resolved product_setting)))))"

lemma dict_of_append: "dict_of (xs @ [(k, v)]) = dict_set k v (dict_of xs)"
  by (simp add: dict_of_def)

lemma dict_set_new: "k \<notin> fst ` set d \<Longrightarrow> dict_set k v d = d @ [(k, v)]"
  by (induction d) auto

lemma dict_of_distinct: "distinct (map fst xs) \<Longrightarrow> dict_of xs = xs"
proof (induction xs rule: rev_induct)
  case (snoc x xs)
  obtain k v where "x = (k, v)" by fastforce
  with snoc show ?case by (simp add: dict_of_append dict_set_new)
qed (simp add: dict_of_def)

section \<open>Paths and chains\<close>

lemma split_on_word: "d \<notin> set w \<Longrightarrow> split_on d (w @ d # rest) = w # split_on d rest"
  by (induction w) auto

lemma split_on_end: "d \<notin> set w \<Longrightarrow> split_on d w = [w]"
  by (induction w) auto

definition path_of :: "uuid list \<Rightarrow> string" where
  "path_of ids = join ''.'' (map uuid_str ids)"

lemma path_of_single [simp]: "path_of [i] = uuid_str i"
  by (simp add: path_of_def join_def)

lemma path_of_Cons: "ids \<noteq> [] \<Longrightarrow> path_of (i # ids) = uuid_str i @ ''.'' @ path_of ids"
  by (cases ids) (simp_all add: path_of_def join_def)

lemma path_of_append: "\<lbrakk>a \<noteq> []; b \<noteq> []\<rbrakk> \<Longrightarrow> path_of (a @ b) = path_of a @ ''.'' @ path_of b"
proof (induction a)
  case (Cons i a)
  then show ?case by (cases "a = []") (simp_all add: path_of_Cons)
qed simp

lemma split_path_of: "ids \<noteq> [] \<Longrightarrow> split_on (CHR ''.'') (path_of ids) = map uuid_str ids"
proof (induction ids)
  case (Cons i ids)
  have no: "CHR ''.'' \<notin> set (uuid_str i)" using set_uuid_str by blast
  show ?case
  proof (cases "ids = []")
    case False
    with Cons.IH split_on_word [OF no] show ?thesis by (simp add: path_of_Cons)
  qed (simp add: split_on_end [OF no])
qed simp

lemma map_result_Inr: "(\<And>x. x \<in> set xs \<Longrightarrow> f x = Inr (g x)) \<Longrightarrow> map_result f xs = Inr (map g xs)"
  by (induction xs) simp_all

lemma map_result_uuid_parse [simp]: "map_result uuid_parse (map uuid_str ids) = Inr ids"
  by (induction ids) simp_all

lemma map_result_rel:
  "map_result f xs = Inr ys \<Longrightarrow> list_all2 (\<lambda>x y. f x = Inr y) xs ys"
  by (induction xs arbitrary: ys) (auto simp: bind_result_eq_Inr)

text \<open>A row that stands where its path says: the identifiers from the root to itself.\<close>

definition located :: "uuid list \<Rightarrow> category \<Rightarrow> bool" where
  "located ids c \<longleftrightarrow> ids \<noteq> [] \<and> last ids = cat_id c \<and> cat_path c = path_of ids
     \<and> cat_depth c = int (length ids) - 1"

lemma located_ancestor_ids: "located ids c \<Longrightarrow> Category_ancestor_ids c = Inr ids"
  by (simp add: located_def Category_ancestor_ids_def split_path_of)

lemma located_create_root:
  "located [n] (Category_create n T key name slug None now desc pos)"
  by (simp add: located_def Category_create_def Let_def)

lemma located_create_child:
  "located ids p \<Longrightarrow> located (ids @ [n]) (Category_create n T key name slug (Some p) now desc pos)"
  by (simp add: located_def Category_create_def Let_def path_of_append)

lemma starts_with_append [simp]: "starts_with p (p @ q)"
  by (simp add: starts_with_def)

lemma reparent_one_located:
  assumes c: "located (old @ [cat_id c]) c"
    and row: "located (old @ [cat_id c] @ suf) row" and suf: "suf = [] \<longleftrightarrow> cat_id row = cat_id c"
  shows "\<exists>row'. reparent_one c (path_of (new @ [cat_id c])) (int (length new) - int (length old)) pid now row
       = Inr row' \<and> located (new @ [cat_id c] @ suf) row' \<and> cat_id row' = cat_id row
     \<and> cat_parent_id row' = (if cat_id row = cat_id c then pid else cat_parent_id row)"
proof (cases "suf = []")
  case True
  with suf row show ?thesis by (simp add: reparent_one_def located_def)
next
  case False
  have p: "cat_path row = (cat_path c @ ''.'') @ path_of suf"
    using row c False path_of_append [of "old @ [cat_id c]" suf] by (simp add: located_def)
  have "starts_with (cat_path c @ ''.'') (cat_path row)" unfolding p by (rule starts_with_append)
  with False suf have "reparent_one c (path_of (new @ [cat_id c])) (int (length new) - int (length old)) pid
      now row = Inr (row\<lparr>cat_path := path_of (new @ [cat_id c]) @ ''.'' @ path_of suf,
      cat_depth := cat_depth row + (int (length new) - int (length old)), cat_updated_at := now\<rparr>)"
    by (simp add: reparent_one_def p)
  with False suf row path_of_append [of "new @ [cat_id c]" suf] show ?thesis
    by (simp add: located_def)
qed

lemma map_result_ex:
  "(\<And>x. x \<in> set xs \<Longrightarrow> \<exists>y. f x = Inr y \<and> R x y) \<Longrightarrow> \<exists>ys. map_result f xs = Inr ys \<and> list_all2 R xs ys"
proof (induction xs)
  case (Cons x xs)
  from Cons.prems [of x] obtain y where "f x = Inr y" "R x y" by auto
  moreover from Cons.IH Cons.prems obtain ys where "map_result f xs = Inr ys" "list_all2 R xs ys" by auto
  ultimately show ?case by simp
qed simp

section \<open>Properties\<close>

text \<open>
  Inheritance is nearest-wins: a key resolves exactly when some category of the chain defines
  it, and then to a row of the last category in root-to-leaf order that does.
\<close>

theorem inheritance_nearest_wins:
  assumes "distinct chain"
  shows "(map_of (resolve_inherited cat key chain rs) k = None
       \<longleftrightarrow> (\<forall>r \<in> set rs. key r = k \<longrightarrow> cat r \<notin> set chain))
     \<and> (\<forall>r. map_of (resolve_inherited cat key chain rs) k = Some r
         \<longrightarrow> r \<in> set rs \<and> key r = k
           \<and> (\<exists>pre post. chain = pre @ [cat r] @ post
                \<and> (\<forall>s \<in> set rs. key s = k \<longrightarrow> cat s \<notin> set post)))"
proof (intro conjI allI impI)
  show "(map_of (resolve_inherited cat key chain rs) k = None)
      = (\<forall>r \<in> set rs. key r = k \<longrightarrow> cat r \<notin> set chain)"
    by (rule inherited_None)
  fix r assume r: "map_of (resolve_inherited cat key chain rs) k = Some r"
  then have "r \<in> set (filter (\<lambda>r. key r = k) (chain_rows cat chain rs))"
    by (auto simp: resolve_inherited_last simp del: set_filter split: list.splits)
  then have mem: "r \<in> set rs" "key r = k" "cat r \<in> set chain" by (auto simp: chain_rows_mem)
  then show "r \<in> set rs" "key r = k" by simp_all
  from mem(3) obtain pre post where chain: "chain = pre @ [cat r] @ post"
    by (auto simp: in_set_conv_decomp)
  with assms have "cat r \<notin> set post" by auto
  with resolve_inherited_nearest [OF r chain]
  show "\<exists>pre post. chain = pre @ [cat r] @ post \<and> (\<forall>s \<in> set rs. key s = k \<longrightarrow> cat s \<notin> set post)"
    using chain by blast
qed

theorem inheritance_nearest_wins_witness:
  "map_of (resolve_inherited fst (\<lambda>r. fst (snd r)) [1, 2] [(1, ''a'', True), (2, ''a'', False)]) ''a''
     \<noteq> None"
  using inheritance_nearest_wins [of "[1::uuid, 2]" fst "\<lambda>r. fst (snd r)"
      "[(1, ''a'', True), (2, ''a'', False)]" "''a''"] by simp

text \<open>
  The materialised path round-trips: a category created under a parent whose path spells the
  parent's chain has a path that parses back to that chain followed by itself, at depth one more.
\<close>

theorem category_path_round_trip:
  assumes "Category_ancestor_ids p = Inr ids" and "located ids p"
  shows "Category_ancestor_ids (Category_create n T key name slug (Some p) now desc pos) = Inr (ids @ [n])
     \<and> Category_ancestor_ids (Category_create n T key name slug None now desc pos) = Inr [n]
     \<and> cat_depth (Category_create n T key name slug (Some p) now desc pos) = int (length ids)"
  using located_ancestor_ids [OF located_create_child [OF assms(2)]]
    located_ancestor_ids [OF located_create_root] located_create_child [OF assms(2)]
  by (simp add: located_def)

definition demo_root :: category where
  "demo_root = Category_create 1 9 ''shoes'' ''Shoes'' ''shoes'' None 0 None 0"

theorem category_path_round_trip_witness:
  "Category_ancestor_ids (Category_create 2 9 ''boots'' ''Boots'' ''boots'' (Some demo_root) 0 None 0) = Inr [1, 2]"
  using category_path_round_trip [of demo_root "[1]"] located_create_root located_ancestor_ids
  by (simp add: demo_root_def)

text \<open>
  Moving a subtree keeps every path true: when each row stands below the category in the old
  tree, then after the move each stands below the new parent with the same tail, its path and depth
  recomputed accordingly and only the category's own parent changed.
\<close>

theorem reparent_keeps_paths:
  assumes c: "located (old @ [cat_id c]) c"
    and rs: "\<forall>row \<in> set rs. located (old @ [cat_id c] @ tail row) row
       \<and> (tail row = [] \<longleftrightarrow> cat_id row = cat_id c)"
    and np: "case new_parent of None \<Rightarrow> new = []
       | Some p \<Rightarrow> located new p \<and> cat_id p \<noteq> cat_id c \<and> cat_id p \<notin> cat_id ` set rs"
  shows "\<exists>rs'. reparent_subtree c rs new_parent now = Inr rs'
     \<and> list_all2 (\<lambda>row row'. located (new @ [cat_id c] @ tail row) row' \<and> cat_id row' = cat_id row
         \<and> cat_parent_id row' = (if cat_id row = cat_id c then map_option cat_id new_parent
                                 else cat_parent_id row)) rs rs'"
proof -
  let ?path = "case new_parent of Some p \<Rightarrow> cat_path p @ ''.'' @ uuid_str (cat_id c)
                | None \<Rightarrow> uuid_str (cat_id c)"
  let ?delta = "(case new_parent of Some p \<Rightarrow> cat_depth p + 1 | None \<Rightarrow> 0) - cat_depth c"
  have path: "?path = path_of (new @ [cat_id c])"
    using np by (auto simp: located_def path_of_append split: option.splits)
  have delta: "?delta = int (length new) - int (length old)"
    using np c by (auto simp: located_def split: option.splits)
  have "reparent_subtree c rs new_parent now
      = map_result (reparent_one c ?path ?delta (map_option cat_id new_parent) now) rs"
    using np by (auto simp: reparent_subtree_def Let_def split: option.splits)
  then have eq: "reparent_subtree c rs new_parent now = map_result (reparent_one c (path_of (new @ [cat_id c]))
      (int (length new) - int (length old)) (map_option cat_id new_parent) now) rs"
    by (simp only: path delta)
  show ?thesis unfolding eq
  proof (rule map_result_ex)
    fix row assume "row \<in> set rs"
    with rs have "located (old @ [cat_id c] @ tail row) row" "tail row = [] \<longleftrightarrow> cat_id row = cat_id c" by auto
    from reparent_one_located [OF c this, of new "map_option cat_id new_parent" now]
    show "\<exists>row'. reparent_one c (path_of (new @ [cat_id c])) (int (length new) - int (length old))
        (map_option cat_id new_parent) now row = Inr row'
      \<and> located (new @ [cat_id c] @ tail row) row' \<and> cat_id row' = cat_id row
      \<and> cat_parent_id row' = (if cat_id row = cat_id c then map_option cat_id new_parent
                              else cat_parent_id row)" .
  qed
qed

definition demo_branch :: category where
  "demo_branch = Category_create 2 9 ''boots'' ''Boots'' ''boots'' (Some demo_root) 0 None 0"

definition demo_leaf :: category where
  "demo_leaf = Category_create 3 9 ''hiking'' ''Hiking'' ''hiking'' (Some demo_branch) 0 None 0"

theorem reparent_keeps_paths_witness:
  "\<exists>a b. reparent_subtree demo_branch [demo_branch, demo_leaf] None 7 = Inr [a, b]
     \<and> located [2] a \<and> located [2, 3] b \<and> cat_parent_id a = None \<and> cat_parent_id b = Some 2"
proof -
  have ids: "cat_id demo_branch = 2" "cat_id demo_leaf = 3" "cat_parent_id demo_leaf = Some 2"
    by (simp_all add: demo_branch_def demo_leaf_def Category_create_def Let_def)
  have l: "located [1] demo_root" unfolding demo_root_def by (rule located_create_root)
  have b: "located [1, 2] demo_branch" unfolding demo_branch_def using located_create_child [OF l] by simp
  have c: "located [1, 2, 3] demo_leaf" unfolding demo_leaf_def using located_create_child [OF b] by simp
  show ?thesis
    using reparent_keeps_paths [where old = "[1]" and c = demo_branch and rs = "[demo_branch, demo_leaf]"
        and tail = "\<lambda>r. if cat_id r = 2 then [] else [3]" and new_parent = None and new = "[]" and now = 7] b c
    by (auto simp: ids list_all2_Cons1)
qed

text \<open>
  The comparison of two snapshots is exact for the sections it looks at. When identifiers are
  unique, a row is reported as added exactly when its identifier is new, as renamed exactly when
  it had another key, as retired exactly when it is gone; the first publish only adds. Nothing else
  is reported: in particular a row that stays and becomes required is no change.
\<close>

theorem classify_section_exact:
  assumes "case previous of None \<Rightarrow> old = [] | Some p \<Rightarrow> section_rows name p = old"
    and "section_rows name snap = new" and "distinct (map fst old)" and "distinct (map fst new)"
  shows "c \<in> set (classify_section previous snap name kind honours) \<longleftrightarrow>
     (\<exists>i k q. c = \<lparr>chg_change_type = (if honours \<and> q then ADDED_REQUIRED else ADDED_OPTIONAL),
          chg_row_kind = kind, chg_row_id = i, chg_key = k, chg_previous_key = None\<rparr>
        \<and> (i, k, q) \<in> set new \<and> i \<notin> fst ` set old)
   \<or> (\<exists>i k q k' q'. c = \<lparr>chg_change_type = RENAMED, chg_row_kind = kind, chg_row_id = i, chg_key = k,
          chg_previous_key = Some k'\<rparr>
        \<and> (i, k, q) \<in> set new \<and> (i, k', q') \<in> set old \<and> k' \<noteq> k)
   \<or> (\<exists>i k q. c = \<lparr>chg_change_type = RETIRED, chg_row_kind = kind, chg_row_id = i, chg_key = k,
          chg_previous_key = None\<rparr>
        \<and> (i, k, q) \<in> set old \<and> i \<notin> fst ` set new)"
  (is "_ \<longleftrightarrow> ?added \<or> ?renamed \<or> ?retired")
proof -
  have rows: "(case previous of None \<Rightarrow> [] | Some p \<Rightarrow> dict_of (section_rows name p)) = old"
    "dict_of (section_rows name snap) = new"
    using assms by (auto simp: dict_of_distinct split: option.splits)
  have none: "map_of old i = None \<longleftrightarrow> i \<notin> fst ` set old" for i by (simp add: map_of_eq_None_iff)
  have some: "map_of old i = Some v \<longleftrightarrow> (i, v) \<in> set old" for i v
    using assms(3) by simp
  let ?next = "\<lambda>(row_id, key, is_required). (case map_of old row_id of
      None \<Rightarrow> [\<lparr>chg_change_type = (if honours \<and> is_required then ADDED_REQUIRED else ADDED_OPTIONAL),
                 chg_row_kind = kind, chg_row_id = row_id, chg_key = key, chg_previous_key = None\<rparr>]
    | Some (previous_key, _) \<Rightarrow> if previous_key \<noteq> key
        then [\<lparr>chg_change_type = RENAMED, chg_row_kind = kind, chg_row_id = row_id, chg_key = key,
               chg_previous_key = Some previous_key\<rparr>] else [])"
  have "c \<in> set (concat (map ?next new)) \<longleftrightarrow> ?added \<or> ?renamed"
  proof
    assume "c \<in> set (concat (map ?next new))"
    then obtain i k q where m: "(i, k, q) \<in> set new" "c \<in> set (?next (i, k, q))" by auto
    show "?added \<or> ?renamed"
    proof (cases "map_of old i")
      case None
      with m none show ?thesis by auto
    next
      case (Some v)
      then obtain k' q' where "v = (k', q')" by fastforce
      with m Some some show ?thesis by (auto split: if_splits)
    qed
  next
    assume "?added \<or> ?renamed"
    then show "c \<in> set (concat (map ?next new))"
    proof
      assume ?added
      then obtain i k q where m: "(i, k, q) \<in> set new" "map_of old i = None"
        and c: "c = \<lparr>chg_change_type = (if honours \<and> q then ADDED_REQUIRED else ADDED_OPTIONAL),
          chg_row_kind = kind, chg_row_id = i, chg_key = k, chg_previous_key = None\<rparr>"
        using none by auto
      then have "c \<in> set (?next (i, k, q))" by simp
      with m(1) show ?thesis unfolding set_concat set_map by blast
    next
      assume ?renamed
      then obtain i k q k' q' where m: "(i, k, q) \<in> set new" "map_of old i = Some (k', q')" "k' \<noteq> k"
        and c: "c = \<lparr>chg_change_type = RENAMED, chg_row_kind = kind, chg_row_id = i, chg_key = k,
          chg_previous_key = Some k'\<rparr>"
        using some by auto
      then have "c \<in> set (?next (i, k, q))" by simp
      with m(1) show ?thesis unfolding set_concat set_map by blast
    qed
  qed
  moreover have "c \<in> set (concat (map (\<lambda>(row_id, previous_key, _). if row_id \<notin> fst ` set new
      then [\<lparr>chg_change_type = RETIRED, chg_row_kind = kind, chg_row_id = row_id, chg_key = previous_key,
             chg_previous_key = None\<rparr>] else []) old)) \<longleftrightarrow> ?retired"
    by (auto split: if_splits)
  ultimately show ?thesis
    by (simp only: classify_section_def Let_def rows set_append Un_iff disj_assoc)
qed

theorem classify_section_exact_witness:
  "classify_section None \<lparr>attribute_definitions = [], variant_axes = [], input_image_slots = [],
      catalog_image_slots = []\<rparr> ''attribute_definitions'' ''attribute_definition'' True = []"
proof -
  have "c \<notin> set (classify_section None \<lparr>attribute_definitions = [], variant_axes = [],
      input_image_slots = [], catalog_image_slots = []\<rparr> ''attribute_definitions'' ''attribute_definition'' True)"
    for c
    using classify_section_exact [where previous = None and old = "[]" and new = "[]" and c = c
        and name = "''attribute_definitions''" and snap = "\<lparr>attribute_definitions = [], variant_axes = [],
          input_image_slots = [], catalog_image_slots = []\<rparr>"] by (simp add: section_rows_def)
  then show ?thesis by (cases "classify_section None \<lparr>attribute_definitions = [], variant_axes = [],
      input_image_slots = [], catalog_image_slots = []\<rparr> ''attribute_definitions'' ''attribute_definition'' True")
      auto
qed

lemma introduce_rows_other [simp]:
  "db_spec_versions (introduce_rows T c v s) = db_spec_versions s"
  "db_categories (introduce_rows T c v s) = db_categories s"
  by (simp_all add: introduce_rows_def)

text \<open>
  C16: Publishing stores the resolved snapshot as the next version, makes it the category's current
  one and what the read path returns for it; and it succeeds only if no row's key was renamed
  since the previous version.
\<close>

theorem publish_spec_effect:
  assumes p: "PublishCategorySpec n a T c u now s = Inr (v, s')"
    and ok: "tbl_ok cat_id (db_categories s)"
  shows "\<exists>cat snap. category_get T c s = Some cat \<and> SpecSnapshotBuilder_build T c s = Inr snap
     \<and> csv_version v = (case cat_current_spec_version cat of None \<Rightarrow> 0 | Some k \<Rightarrow> k) + 1
     \<and> csv_snapshot v = snap \<and> resolve_published T c (csv_version v) s' = Inr snap
     \<and> map_option cat_current_spec_version (category_get T c s') = Some (Some (csv_version v))
     \<and> (\<forall>k. cat_current_spec_version cat = Some k \<longrightarrow> (\<exists>old. resolve_published T c k s = Inr old
          \<and> (\<forall>ch \<in> set (classify_changes (Some old) snap). chg_change_type ch \<noteq> RENAMED)))"
proof -
  from p obtain cat snap where cat: "category_get T c s = Some cat"
    and snap: "SpecSnapshotBuilder_build T c s = Inr snap"
    by (auto simp: PublishCategorySpec_def bind_result_eq_Inr)
  let ?next = "(case cat_current_spec_version cat of None \<Rightarrow> 0 | Some k \<Rightarrow> k) + 1"
  from p cat snap obtain prev versions where
    prev: "(case cat_current_spec_version cat of None \<Rightarrow> Inr None
        | Some k \<Rightarrow> bind_result (resolve_published T c k s) (\<lambda>p. Inr (Some p))) = Inr prev"
    and ren: "filter (\<lambda>ch. chg_change_type ch = RENAMED) (classify_changes prev snap) = []"
    and v: "v = CategorySpecVersion_create n T c ?next snap u now
        (if classify_changes prev snap \<noteq> [] then Some (summarize (classify_changes prev snap)) else None)"
    and add: "tbl_add_unique version_clash n v (db_spec_versions s) = Inr versions"
    and s': "db_spec_versions s' = versions"
      "db_categories s' = tbl_put (cat_id cat) (cat\<lparr>cat_current_spec_version := Some ?next,
         cat_draft_spec_version := None, cat_updated_at := now\<rparr>) (db_categories s)"
    by (auto simp: PublishCategorySpec_def bind_result_eq_Inr Let_def category_update_def
        split: if_splits dest!: audit_record_Inr)
  have fields: "csv_version v = ?next" "csv_snapshot v = snap" "csv_tenant_id v = T" "csv_category_id v = c"
    by (simp_all add: v CategorySpecVersion_create_def)
  have "rows versions = rows (db_spec_versions s) @ [v]"
    using add by (auto simp: tbl_add_unique_Inr intro: rows_tbl_add)
  moreover have "filter (\<lambda>r. csv_tenant_id r = T \<and> csv_category_id r = c \<and> csv_version r = ?next)
      (rows (db_spec_versions s)) = []"
    using add fields by (auto simp: tbl_add_unique_Inr list_ex_iff version_clash_def filter_empty_conv)
  ultimately have read: "resolve_published T c ?next s' = Inr snap"
    using fields by (simp add: resolve_published_def s' scalar_one_or_none_def)
  have id: "cat_id cat = c" "cat_tenant_id cat = T"
    using cat ok tbl_get_key [of cat_id "db_categories s" c cat]
    by (auto simp: category_get_def scoped_get_Some)
  then have cur: "map_option cat_current_spec_version (category_get T c s') = Some (Some ?next)"
    by (simp add: category_get_def s' scoped_get_def tbl_get_put)
  have "\<exists>old. resolve_published T c k s = Inr old
      \<and> (\<forall>ch \<in> set (classify_changes (Some old) snap). chg_change_type ch \<noteq> RENAMED)"
    if "cat_current_spec_version cat = Some k" for k
    using prev ren that by (auto simp: bind_result_eq_Inr filter_empty_conv)
  with cat snap fields read cur show ?thesis by auto
qed

definition demo_taxonomy :: db where
  "demo_taxonomy = empty_db\<lparr>db_categories := [(1, demo_root)]\<rparr>"

theorem publish_spec_effect_witness:
  "\<exists>v s' snap. PublishCategorySpec 50 51 9 1 8 3 demo_taxonomy = Inr (v, s') \<and> csv_version v = 1
     \<and> resolve_published 9 1 1 s' = Inr snap"
proof -
  have ids: "cat_id demo_root = 1" "cat_tenant_id demo_root = 9" "cat_current_spec_version demo_root = None"
    by (simp_all add: demo_root_def Category_create_def Let_def)
  have chain: "Category_ancestor_ids demo_root = Inr [1]"
    unfolding demo_root_def by (rule located_ancestor_ids [OF located_create_root])
  have get: "category_get 9 1 demo_taxonomy = Some demo_root"
    by (simp add: category_get_def demo_taxonomy_def scoped_get_def tbl_get_def ids)
  have tabs: "db_attributes demo_taxonomy = []" "db_axes demo_taxonomy = []" "db_input_slots demo_taxonomy = []"
    "db_catalog_slots demo_taxonomy = []" "db_spec_versions demo_taxonomy = []" "db_audit demo_taxonomy = []"
    by (simp_all add: demo_taxonomy_def empty_db_def)
  have none: "list_for_categories t ct pos [] T ids = []" "resolve_inherited ct key [1] [] = []"
    for t ct pos T ids and key :: "'z \<Rightarrow> string"
    by (simp_all add: list_for_categories_def rows_def resolve_inherited_dict_of chain_rows_def dict_of_def)
  have "SpecSnapshotBuilder_build 9 1 demo_taxonomy = Inr \<lparr>attribute_definitions = [], variant_axes = [],
      input_image_slots = [], catalog_image_slots = []\<rparr>"
    by (simp add: SpecSnapshotBuilder_build_def get chain tabs none Let_def dict_values_def build_snapshot_def)
  then have "\<exists>v s'. PublishCategorySpec 50 51 9 1 8 3 demo_taxonomy = Inr (v, s')"
    by (simp add: PublishCategorySpec_def get ids Let_def classify_changes_def ROW_KINDS_def
        classify_section_def section_rows_def dict_of_def tbl_add_unique_def tbl_add_def tbl_get_def
        rows_def introduce_rows_def list_for_category_def introduce_def audit_record_def
        category_update_def tabs)
  then obtain v s' where p: "PublishCategorySpec 50 51 9 1 8 3 demo_taxonomy = Inr (v, s')" by blast
  have "tbl_ok cat_id (db_categories demo_taxonomy)" by (simp add: tbl_ok_def demo_taxonomy_def ids)
  from publish_spec_effect [OF p this] get ids p show ?thesis by auto
qed

text \<open>Which settings apply to a question, and how specific they are.\<close>

definition setting_applies :: "string \<Rightarrow> uuid \<Rightarrow> uuid list \<Rightarrow> uuid option \<Rightarrow> setting \<Rightarrow> bool" where
  "setting_applies key T chain product_id r \<longleftrightarrow> set_key r = key
     \<and> (case set_scope_type r of
          SCOPE_PLATFORM \<Rightarrow> set_tenant_id r = None \<and> set_scope_id r = None
        | SCOPE_TENANT \<Rightarrow> set_tenant_id r = Some T \<and> set_scope_id r = None
        | SCOPE_CATEGORY \<Rightarrow> set_tenant_id r = Some T \<and> set_scope_id r \<in> Some ` set chain
        | SCOPE_PRODUCT \<Rightarrow> set_tenant_id r = Some T \<and> product_id \<noteq> None \<and> set_scope_id r = product_id)"

lemma setting_get_cases:
  assumes "setting_get t sc i key s = Inr x"
  shows "(x = None \<and> (\<forall>r \<in> set (rows (db_settings s)). \<not> (set_tenant_id r = t \<and> set_scope_type r = sc
            \<and> set_scope_id r = i \<and> set_key r = key)))
    \<or> (\<exists>r. x = Some r \<and> r \<in> set (rows (db_settings s)) \<and> set_tenant_id r = t \<and> set_scope_type r = sc
            \<and> set_scope_id r = i \<and> set_key r = key)"
proof -
  let ?P = "\<lambda>r. set_tenant_id r = t \<and> set_scope_type r = sc \<and> set_scope_id r = i \<and> set_key r = key"
  obtain fs where fs: "filter ?P (rows (db_settings s)) = fs" by simp
  have mem: "set fs = {r \<in> set (rows (db_settings s)). ?P r}" using fs by auto
  from assms fs show ?thesis
  proof (cases fs)
    case Nil
    with assms fs mem show ?thesis by (auto simp: setting_get_def scalar_one_or_none_def)
  next
    case (Cons r rs)
    with assms fs have "rs = []" "x = Some r"
      by (auto simp: setting_get_def scalar_one_or_none_def split: list.splits)
    with Cons mem show ?thesis by auto
  qed
qed

lemma category_settings_fold:
  assumes "fold_result (\<lambda>a v. bind_result (setting_get (Some T) SCOPE_CATEGORY (Some a) key s)
     (\<lambda>x. Inr (override v x))) chain v0 = Inr v"
  shows "(v = v0 \<and> (\<forall>r \<in> set (rows (db_settings s)). set_tenant_id r = Some T
            \<longrightarrow> set_scope_type r = SCOPE_CATEGORY \<longrightarrow> set_key r = key \<longrightarrow> set_scope_id r \<notin> Some ` set chain))
    \<or> (\<exists>pre a post r. chain = pre @ a # post \<and> v = set_value r \<and> r \<in> set (rows (db_settings s))
          \<and> set_tenant_id r = Some T \<and> set_scope_type r = SCOPE_CATEGORY \<and> set_scope_id r = Some a
          \<and> set_key r = key
          \<and> (\<forall>q \<in> set (rows (db_settings s)). set_tenant_id q = Some T
            \<longrightarrow> set_scope_type q = SCOPE_CATEGORY \<longrightarrow> set_key q = key \<longrightarrow> set_scope_id q \<notin> Some ` set post))"
  using assms
proof (induction chain arbitrary: v0)
  case (Cons a chain)
  from Cons.prems obtain x where x: "setting_get (Some T) SCOPE_CATEGORY (Some a) key s = Inr x"
    and rest: "fold_result (\<lambda>a v. bind_result (setting_get (Some T) SCOPE_CATEGORY (Some a) key s)
     (\<lambda>x. Inr (override v x))) chain (override v0 x) = Inr v"
    by (auto simp: bind_result_eq_Inr)
  from Cons.IH [OF rest] show ?case
  proof (elim disjE)
    assume later: "\<exists>pre b post r. chain = pre @ b # post \<and> v = set_value r \<and> r \<in> set (rows (db_settings s))
        \<and> set_tenant_id r = Some T \<and> set_scope_type r = SCOPE_CATEGORY \<and> set_scope_id r = Some b
        \<and> set_key r = key
        \<and> (\<forall>q \<in> set (rows (db_settings s)). set_tenant_id q = Some T
          \<longrightarrow> set_scope_type q = SCOPE_CATEGORY \<longrightarrow> set_key q = key \<longrightarrow> set_scope_id q \<notin> Some ` set post)"
    then obtain pre b post r where "chain = pre @ b # post" and r: "v = set_value r \<and> r \<in> set (rows (db_settings s))
        \<and> set_tenant_id r = Some T \<and> set_scope_type r = SCOPE_CATEGORY \<and> set_scope_id r = Some b
        \<and> set_key r = key
        \<and> (\<forall>q \<in> set (rows (db_settings s)). set_tenant_id q = Some T
          \<longrightarrow> set_scope_type q = SCOPE_CATEGORY \<longrightarrow> set_key q = key \<longrightarrow> set_scope_id q \<notin> Some ` set post)"
      by blast
    then have "a # chain = (a # pre) @ b # post" by simp
    with r show ?thesis by blast
  next
    assume none: "v = override v0 x \<and> (\<forall>r \<in> set (rows (db_settings s)). set_tenant_id r = Some T
      \<longrightarrow> set_scope_type r = SCOPE_CATEGORY \<longrightarrow> set_key r = key \<longrightarrow> set_scope_id r \<notin> Some ` set chain)"
    from setting_get_cases [OF x] show ?thesis
    proof (elim disjE)
      assume "x = None \<and> (\<forall>r \<in> set (rows (db_settings s)). \<not> (set_tenant_id r = Some T
        \<and> set_scope_type r = SCOPE_CATEGORY \<and> set_scope_id r = Some a \<and> set_key r = key))"
      with none show ?thesis by (simp add: override_def) blast
    next
      assume "\<exists>r. x = Some r \<and> r \<in> set (rows (db_settings s)) \<and> set_tenant_id r = Some T
        \<and> set_scope_type r = SCOPE_CATEGORY \<and> set_scope_id r = Some a \<and> set_key r = key"
      then obtain r where r: "x = Some r" "r \<in> set (rows (db_settings s))" "set_tenant_id r = Some T"
        "set_scope_type r = SCOPE_CATEGORY" "set_scope_id r = Some a" "set_key r = key" by blast
      with none have v: "v = set_value r" by (simp add: override_def)
      have "a # chain = [] @ a # chain" by simp
      with v r none show ?thesis by blast
    qed
  qed
qed simp

text \<open>
  C28: Settings precedence. The chain answers with the value of an applicable setting that no other
  applicable setting is more specific than (platform, tenant, category, product), the deepest
  category of the chain winning among categories; and with nothing only if none applies.
\<close>

theorem settings_most_specific:
  assumes r: "SettingsResolver_resolve T key (Some c) product_id s = Inr v"
    and cat: "category_get T c s = Some cat" and chain: "Category_ancestor_ids cat = Inr chain"
  shows "(v = JNull \<and> (\<forall>r \<in> set (rows (db_settings s)). \<not> setting_applies key T chain product_id r))
    \<or> (\<exists>r \<in> set (rows (db_settings s)). setting_applies key T chain product_id r \<and> v = set_value r
        \<and> (\<forall>q \<in> set (rows (db_settings s)). setting_applies key T chain product_id q
             \<longrightarrow> set_scope_type q \<le> set_scope_type r)
        \<and> (set_scope_type r = SCOPE_CATEGORY \<longrightarrow> (\<exists>pre a post. chain = pre @ a # post
             \<and> set_scope_id r = Some a \<and> (\<forall>q \<in> set (rows (db_settings s)). set_scope_type q = SCOPE_CATEGORY
                \<longrightarrow> setting_applies key T chain product_id q \<longrightarrow> set_scope_id q \<notin> Some ` set post))))"
proof -
  let ?R = "set (rows (db_settings s))" and ?A = "setting_applies key T chain product_id"
  from r cat chain obtain p t w where
    p: "setting_get None SCOPE_PLATFORM None key s = Inr p"
    and t: "setting_get (Some T) SCOPE_TENANT None key s = Inr t"
    and w: "fold_result (\<lambda>a v. bind_result (setting_get (Some T) SCOPE_CATEGORY (Some a) key s)
      (\<lambda>x. Inr (override v x))) chain (override (override JNull p) t) = Inr w"
    and v: "(case product_id of None \<Rightarrow> Inr w | Some i \<Rightarrow>
      bind_result (setting_get (Some T) SCOPE_PRODUCT (Some i) key s) (\<lambda>x. Inr (override w x))) = Inr v"
    by (auto simp: SettingsResolver_resolve_def bind_result_eq_Inr Let_def)
  have platform: "?A q \<Longrightarrow> set_scope_type q = SCOPE_PLATFORM \<Longrightarrow> set_tenant_id q = None \<and> set_scope_id q = None \<and> set_key q = key"
    and tenant: "?A q \<Longrightarrow> set_scope_type q = SCOPE_TENANT \<Longrightarrow> set_tenant_id q = Some T \<and> set_scope_id q = None \<and> set_key q = key"
    and categ: "?A q \<Longrightarrow> set_scope_type q = SCOPE_CATEGORY \<Longrightarrow> set_tenant_id q = Some T \<and> set_scope_id q \<in> Some ` set chain \<and> set_key q = key"
    and product: "?A q \<Longrightarrow> set_scope_type q = SCOPE_PRODUCT \<Longrightarrow> set_tenant_id q = Some T \<and> product_id \<noteq> None \<and> set_scope_id q = product_id \<and> set_key q = key"
    for q by (auto simp: setting_applies_def)
  note le = less_eq_setting_scope_def
  consider (prod) i r where "product_id = Some i" "r \<in> ?R" "set_tenant_id r = Some T"
      "set_scope_type r = SCOPE_PRODUCT" "set_scope_id r = Some i" "set_key r = key" "v = set_value r"
    | (no) "v = w" "\<forall>q \<in> ?R. ?A q \<longrightarrow> set_scope_type q \<noteq> SCOPE_PRODUCT"
  proof (cases product_id)
    case None
    with v show ?thesis using no product by auto
  next
    case (Some i)
    with v obtain x where x: "setting_get (Some T) SCOPE_PRODUCT (Some i) key s = Inr x" "v = override w x"
      by (auto simp: bind_result_eq_Inr)
    from setting_get_cases [OF x(1)] show ?thesis
    proof
      assume "x = None \<and> (\<forall>r \<in> ?R. \<not> (set_tenant_id r = Some T \<and> set_scope_type r = SCOPE_PRODUCT
        \<and> set_scope_id r = Some i \<and> set_key r = key))"
      with x(2) Some show ?thesis using no product by (auto simp: override_def)
    next
      assume "\<exists>r. x = Some r \<and> r \<in> ?R \<and> set_tenant_id r = Some T \<and> set_scope_type r = SCOPE_PRODUCT
        \<and> set_scope_id r = Some i \<and> set_key r = key"
      with x(2) Some show ?thesis using prod by (auto simp: override_def)
    qed
  qed
  then show ?thesis
  proof cases
    case prod
    have "set_scope_type q \<le> SCOPE_PRODUCT" for q by (cases "set_scope_type q") (simp_all add: le)
    with prod show ?thesis by (intro disjI2 bexI [of _ r]) (auto simp: setting_applies_def)
  next
    case no
    have below: "\<lbrakk>q \<in> ?R; ?A q\<rbrakk> \<Longrightarrow> set_scope_type q \<le> SCOPE_CATEGORY" for q
      using no(2) by (cases "set_scope_type q") (auto simp: le)
    from category_settings_fold [OF w] show ?thesis
    proof (elim disjE exE conjE)
      fix pre a post r
      assume f: "chain = pre @ a # post" "w = set_value r" "r \<in> ?R" "set_tenant_id r = Some T"
        "set_scope_type r = SCOPE_CATEGORY" "set_scope_id r = Some a" "set_key r = key"
        and last: "\<forall>q \<in> ?R. set_tenant_id q = Some T \<longrightarrow> set_scope_type q = SCOPE_CATEGORY
          \<longrightarrow> set_key q = key \<longrightarrow> set_scope_id q \<notin> Some ` set post"
      have "?A r" using f by (auto simp: setting_applies_def)
      moreover have "\<exists>pre a post. chain = pre @ a # post \<and> set_scope_id r = Some a
          \<and> (\<forall>q \<in> ?R. set_scope_type q = SCOPE_CATEGORY \<longrightarrow> ?A q \<longrightarrow> set_scope_id q \<notin> Some ` set post)"
        using f(1,6) last categ by blast
      ultimately show ?thesis using f(2,3,5) no(1) below by (intro disjI2 bexI [of _ r]) auto
    next
      assume w: "w = override (override JNull p) t"
        and none: "\<forall>r \<in> ?R. set_tenant_id r = Some T \<longrightarrow> set_scope_type r = SCOPE_CATEGORY
          \<longrightarrow> set_key r = key \<longrightarrow> set_scope_id r \<notin> Some ` set chain"
      have below: "set_scope_type q \<le> SCOPE_TENANT" if "q \<in> ?R" "?A q" for q
        using below [OF that] none categ [OF that(2)] that by (cases "set_scope_type q") (auto simp: le)
      from setting_get_cases [OF t] show ?thesis
      proof (elim disjE exE conjE)
        fix r assume "t = Some r" "r \<in> ?R" "set_tenant_id r = Some T" "set_scope_type r = SCOPE_TENANT"
          "set_scope_id r = None" "set_key r = key"
        then show ?thesis using w no(1) below
          by (intro disjI2 bexI [of _ r]) (auto simp: setting_applies_def override_def)
      next
        assume t: "t = None" "\<forall>r \<in> ?R. \<not> (set_tenant_id r = Some T \<and> set_scope_type r = SCOPE_TENANT
          \<and> set_scope_id r = None \<and> set_key r = key)"
        have below: "set_scope_type q = SCOPE_PLATFORM" if "q \<in> ?R" "?A q" for q
          using below [OF that] t(2) tenant [OF that(2)] that by (cases "set_scope_type q") (auto simp: le)
        from setting_get_cases [OF p] show ?thesis
        proof (elim disjE exE conjE)
          fix r assume "p = Some r" "r \<in> ?R" "set_tenant_id r = None" "set_scope_type r = SCOPE_PLATFORM"
            "set_scope_id r = None" "set_key r = key"
          moreover have "set_scope_type q \<le> SCOPE_PLATFORM" if "q \<in> ?R" "?A q" for q
            using below [OF that] by simp
          moreover from calculation have "?A r" by (simp add: setting_applies_def)
          ultimately show ?thesis using w no(1) t
            by (intro disjI2 bexI [of _ r]) (auto simp: override_def)
        next
          assume "p = None" "\<forall>r \<in> ?R. \<not> (set_tenant_id r = None \<and> set_scope_type r = SCOPE_PLATFORM
            \<and> set_scope_id r = None \<and> set_key r = key)"
          then show ?thesis using w no(1) t below platform by (auto simp: override_def)
        qed
      qed
    qed
  qed
qed

theorem settings_most_specific_witness:
  "\<exists>v. SettingsResolver_resolve 9 ''k'' (Some 1) None (demo_taxonomy\<lparr>db_settings :=
      [(70, \<lparr>set_id = 70, set_tenant_id = None, set_scope_type = SCOPE_PLATFORM, set_scope_id = None,
             set_key = ''k'', set_value = JInt 1, set_created_at = 0, set_updated_at = 0\<rparr>),
       (71, \<lparr>set_id = 71, set_tenant_id = Some 9, set_scope_type = SCOPE_CATEGORY, set_scope_id = Some 1,
             set_key = ''k'', set_value = JInt 2, set_created_at = 0, set_updated_at = 0\<rparr>)]\<rparr>) = Inr v
     \<and> v = JInt 2"
proof -
  let ?s = "demo_taxonomy\<lparr>db_settings :=
      [(70, \<lparr>set_id = 70, set_tenant_id = None, set_scope_type = SCOPE_PLATFORM, set_scope_id = None,
             set_key = ''k'', set_value = JInt 1, set_created_at = 0, set_updated_at = 0\<rparr>),
       (71, \<lparr>set_id = 71, set_tenant_id = Some 9, set_scope_type = SCOPE_CATEGORY, set_scope_id = Some 1,
             set_key = ''k'', set_value = JInt 2, set_created_at = 0, set_updated_at = 0\<rparr>)]\<rparr>"
  have chain: "Category_ancestor_ids demo_root = Inr [1]"
    unfolding demo_root_def by (rule located_ancestor_ids [OF located_create_root])
  have get: "category_get 9 1 ?s = Some demo_root"
    by (simp add: category_get_def demo_taxonomy_def scoped_get_def tbl_get_def demo_root_def
        Category_create_def Let_def)
  have r: "SettingsResolver_resolve 9 ''k'' (Some 1) None ?s = Inr (JInt 2)"
    by (simp add: SettingsResolver_resolve_def get chain setting_get_def scalar_one_or_none_def rows_def
        override_def Let_def)
  from settings_most_specific [OF r get chain] r show ?thesis by blast
qed

end
