(* ===== verification/Generation_Services.thy ===== *)
theory Generation_Services
  imports Specs
begin

text \<open>
  The pure decisions of the generation pipeline: variant axis values against the pinned spec
  (variant_axis_validation.py), which photo stands in for a slot (input_image_resolution.py), when
  a product is ready (product_readiness.py), when a request settles (generation_request_rollup.py)
  and what follows a failed quality check (qc_retry_ladder.py).
\<close>

section \<open>Axis values\<close>

definition validate_axis_values :: "spec_snapshot \<Rightarrow> (string, string) dict \<Rightarrow> string list" where
  "validate_axis_values snapshot axis_values =
     (let axes_by_key = dict_of (map (\<lambda>axis. (snx_key axis, axis)) (variant_axes snapshot)) in
      concat (map (\<lambda>(key, value).
        (case map_of axes_by_key key of
           None \<Rightarrow> [''Unknown variant axis '' @ py_repr key @ ''.'']
         | Some axis \<Rightarrow>
             let allowed = map snv_value (snx_values axis) in
             if allowed \<noteq> [] \<and> value \<notin> set allowed
             then [py_repr value @ '' is not a valid value for axis '' @ py_repr key
                     @ '' (allowed: '' @ join '', '' (sort (remdups allowed)) @ '').'']
             else [])) axis_values))"

section \<open>Input images and readiness\<close>

definition resolve_input_image ::
  "product_input_image list \<Rightarrow> uuid option \<Rightarrow> uuid \<Rightarrow> product_input_image option" where
  "resolve_input_image images variant_id slot_id =
     (let own = (if variant_id \<noteq> None
                 then find (\<lambda>i. pii_variant_id i = variant_id \<and> pii_input_image_slot_id i = slot_id) images
                 else None)
      in if own \<noteq> None then own
         else find (\<lambda>i. pii_variant_id i = None \<and> pii_input_image_slot_id i = slot_id) images)"

record readiness_result =
  rdy_is_ready :: bool
  rdy_missing :: "string list"

definition missing_attributes :: "spec_snapshot \<Rightarrow> (string, json) dict \<Rightarrow> string list" where
  "missing_attributes snapshot attributes =
     map (\<lambda>d. ''attribute:'' @ sna_key d)
       (filter (\<lambda>d. sna_is_required d \<and> dict_get attributes (sna_key d) JNull \<in> {JNull, JStr []})
         (attribute_definitions snapshot))"

definition missing_inputs ::
  "spec_snapshot \<Rightarrow> product_input_image list \<Rightarrow> uuid option \<Rightarrow> string list result" where
  "missing_inputs snapshot images variant_id =
     bind_result (map_result (\<lambda>slot.
         if \<not> sni_is_required slot then Inr []
         else bind_result (uuid_parse (sni_id slot)) (\<lambda>slot_id.
           case resolve_input_image images variant_id slot_id of
             None \<Rightarrow> Inr [''input_image:'' @ sni_key slot]
           | Some photo \<Rightarrow> if pii_status photo \<noteq> INPUT_READY
               then Inr [''input_image:'' @ sni_key slot] else Inr []))
       (input_image_slots snapshot))
     (\<lambda>ms. Inr (concat ms))"

definition compute_product_readiness ::
  "spec_snapshot \<Rightarrow> (string, json) dict \<Rightarrow> product_input_image list \<Rightarrow> uuid option
    \<Rightarrow> readiness_result result" where
  "compute_product_readiness snapshot attributes images variant_id =
     bind_result (missing_inputs snapshot images variant_id) (\<lambda>inputs.
       let missing = missing_attributes snapshot attributes @ inputs
       in Inr \<lparr>rdy_is_ready = (missing = []), rdy_missing = missing\<rparr>)"

section \<open>Rollup of a request\<close>

record request_rollup =
  ru_status :: "generation_request_status option"
  ru_succeeded :: nat
  ru_failed :: nat

datatype slot_outcome = SLOT_SUCCEEDED | SLOT_FAILED | SLOT_IN_FLIGHT

text \<open>\<open>max\<close> of a non-empty list, as \<open>max(items, key=attempt_no)\<close> picks it.\<close>

definition latest_attempt :: "generation_item list \<Rightarrow> generation_item option" where
  "latest_attempt items = (case items of [] \<Rightarrow> None | i # is \<Rightarrow> Some (max_from gi_attempt_no i is))"

definition slot_outcome_of :: "generation_item list \<Rightarrow> slot_outcome" where
  "slot_outcome_of slot_items =
     (if list_ex (\<lambda>i. gi_status i = ITEM_SUCCEEDED) slot_items then SLOT_SUCCEEDED
      else case latest_attempt slot_items of
        None \<Rightarrow> SLOT_FAILED
      | Some latest \<Rightarrow> if gi_status latest = ITEM_DEAD then SLOT_FAILED else SLOT_IN_FLIGHT)"

text \<open>The loop over the required slots, which returns at the first slot still in flight.\<close>

fun count_slots :: "(string \<Rightarrow> slot_outcome) \<Rightarrow> string list \<Rightarrow> nat \<Rightarrow> nat \<Rightarrow> (nat \<times> nat) option" where
  "count_slots outcome [] succeeded failed = Some (succeeded, failed)"
| "count_slots outcome (slot_id # rest) succeeded failed =
     (case outcome slot_id of
        SLOT_SUCCEEDED \<Rightarrow> count_slots outcome rest (succeeded + 1) failed
      | SLOT_FAILED \<Rightarrow> count_slots outcome rest succeeded (failed + 1)
      | SLOT_IN_FLIGHT \<Rightarrow> None)"

definition compute_rollup :: "string list \<Rightarrow> generation_item list \<Rightarrow> request_rollup" where
  "compute_rollup required_slot_ids items =
     (if required_slot_ids = [] then \<lparr>ru_status = None, ru_succeeded = 0, ru_failed = 0\<rparr>
      else let by_slot = group_by (\<lambda>i. uuid_str (gi_catalog_image_slot_id i)) items in
        case count_slots (\<lambda>slot_id. slot_outcome_of (dict_get by_slot slot_id [])) required_slot_ids 0 0 of
          None \<Rightarrow> \<lparr>ru_status = None, ru_succeeded = 0, ru_failed = 0\<rparr>
        | Some (succeeded, failed) \<Rightarrow>
            \<lparr>ru_status = Some (if failed = 0 then REQ_SUCCEEDED
               else if succeeded = 0 then REQ_FAILED else REQ_PARTIALLY_FAILED),
             ru_succeeded = succeeded, ru_failed = failed\<rparr>)"

section \<open>The retry ladder\<close>

record retry_rung =
  rr_attempt_no :: int
  rr_template_id :: uuid
  rr_reuse_prompt :: bool

definition next_rung :: "generation_item list \<Rightarrow> catalog_template list \<Rightarrow> retry_rung option result" where
  "next_rung attempts_for_slot alternate_templates =
     bind_result (py_max gi_attempt_no attempts_for_slot) (\<lambda>latest.
       if gi_attempt_no latest = 1
       then Inr (Some \<lparr>rr_attempt_no = gi_attempt_no latest + 1, rr_template_id = gi_template_id latest,
                       rr_reuse_prompt = True\<rparr>)
       else if gi_attempt_no latest = 2
       then (case filter (\<lambda>t. ct_id t \<noteq> gi_template_id latest \<and> ct_status t = TPL_ANALYSED)
               alternate_templates of
              [] \<Rightarrow> Inr None
            | t # _ \<Rightarrow> Inr (Some \<lparr>rr_attempt_no = gi_attempt_no latest + 1, rr_template_id = ct_id t,
                                  rr_reuse_prompt = False\<rparr>))
       else Inr None)"

section \<open>Properties\<close>

lemma count_slots_Some:
  "count_slots f xs a b = Some (m, n) \<longleftrightarrow>
     (\<forall>x \<in> set xs. f x \<noteq> SLOT_IN_FLIGHT)
     \<and> m = a + length (filter (\<lambda>x. f x = SLOT_SUCCEEDED) xs)
     \<and> n = b + length (filter (\<lambda>x. f x = SLOT_FAILED) xs)"
  by (induction xs arbitrary: a b) (auto split: slot_outcome.splits)

lemma count_slots_None: "count_slots f xs a b = None \<longleftrightarrow> (\<exists>x \<in> set xs. f x = SLOT_IN_FLIGHT)"
  by (induction xs arbitrary: a b) (auto split: slot_outcome.splits)

lemma filter_length_all:
  "(\<forall>x \<in> set xs. f x \<noteq> SLOT_IN_FLIGHT) \<Longrightarrow>
   length (filter (\<lambda>x. f x = SLOT_SUCCEEDED) xs) + length (filter (\<lambda>x. f x = SLOT_FAILED) xs) = length xs"
proof (induction xs)
  case (Cons x xs)
  then show ?case by (cases "f x") auto
qed simp

text \<open>The items of one required slot.\<close>

definition items_of_slot :: "string \<Rightarrow> generation_item list \<Rightarrow> generation_item list" where
  "items_of_slot slot items = filter (\<lambda>i. uuid_str (gi_catalog_image_slot_id i) = slot) items"

text \<open>
  A request settles exactly when no required slot is in flight: each slot either has a succeeded
  item or, having none, no item at all or a dead latest attempt. The two counts then add up to the
  required slots, and the status is succeeded, failed or partially failed as none, all or some of
  the slots failed.
\<close>

theorem rollup_settles:
  assumes "required \<noteq> []"
  shows "(ru_status (compute_rollup required items) = None
       \<longleftrightarrow> (\<exists>slot \<in> set required. slot_outcome_of (items_of_slot slot items) = SLOT_IN_FLIGHT))
     \<and> (\<forall>st. ru_status (compute_rollup required items) = Some st \<longrightarrow>
          ru_succeeded (compute_rollup required items) + ru_failed (compute_rollup required items)
            = length required
          \<and> (st = REQ_SUCCEEDED \<longleftrightarrow> (\<forall>slot \<in> set required.
               \<exists>i \<in> set (items_of_slot slot items). gi_status i = ITEM_SUCCEEDED))
          \<and> (st = REQ_FAILED \<longleftrightarrow> (\<forall>slot \<in> set required.
               \<forall>i \<in> set (items_of_slot slot items). gi_status i \<noteq> ITEM_SUCCEEDED))
          \<and> st \<in> {REQ_SUCCEEDED, REQ_FAILED, REQ_PARTIALLY_FAILED})"
proof -
  let ?f = "\<lambda>slot. slot_outcome_of (items_of_slot slot items)"
  have unf: "compute_rollup required items = (case count_slots ?f required 0 0 of
          None \<Rightarrow> \<lparr>ru_status = None, ru_succeeded = 0, ru_failed = 0\<rparr>
        | Some (succeeded, failed) \<Rightarrow>
            \<lparr>ru_status = Some (if failed = 0 then REQ_SUCCEEDED
               else if succeeded = 0 then REQ_FAILED else REQ_PARTIALLY_FAILED),
             ru_succeeded = succeeded, ru_failed = failed\<rparr>)"
    using assms by (simp add: compute_rollup_def dict_get_group_by items_of_slot_def)
  have succ: "?f slot = SLOT_SUCCEEDED \<longleftrightarrow> (\<exists>i \<in> set (items_of_slot slot items). gi_status i = ITEM_SUCCEEDED)"
    for slot by (auto simp: slot_outcome_of_def list_ex_iff split: option.splits)
  show ?thesis
  proof (cases "count_slots ?f required 0 0")
    case None
    then have "\<exists>slot \<in> set required. ?f slot = SLOT_IN_FLIGHT" by (simp only: count_slots_None)
    with None unf show ?thesis by simp
  next
    case (Some mn)
    obtain m n where mn: "mn = (m, n)" by fastforce
    from Some [unfolded mn count_slots_Some] have all: "\<forall>x \<in> set required. ?f x \<noteq> SLOT_IN_FLIGHT"
      and m: "m = length (filter (\<lambda>x. ?f x = SLOT_SUCCEEDED) required)"
      and n: "n = length (filter (\<lambda>x. ?f x = SLOT_FAILED) required)" by auto
    have sum: "m + n = length required" using filter_length_all [OF all] m n by simp
    have n0: "n = 0 \<longleftrightarrow> (\<forall>x \<in> set required. ?f x = SLOT_SUCCEEDED)"
      using all unfolding n by (auto simp: filter_empty_conv) (metis slot_outcome.exhaust)
    have m0: "m = 0 \<longleftrightarrow> (\<forall>x \<in> set required. ?f x \<noteq> SLOT_SUCCEEDED)"
      unfolding m by (auto simp: filter_empty_conv)
    have ne: "\<not> (m = 0 \<and> n = 0)" using sum assms by auto
    from unf Some mn have r: "compute_rollup required items = \<lparr>ru_status = Some (if n = 0 then REQ_SUCCEEDED
        else if m = 0 then REQ_FAILED else REQ_PARTIALLY_FAILED), ru_succeeded = m, ru_failed = n\<rparr>" by simp
    show ?thesis using all sum ne n0 m0 unfolding r by (auto simp: succ)
  qed
qed

definition demo_item :: "int \<Rightarrow> generation_item_status \<Rightarrow> generation_item" where
  "demo_item n st = \<lparr>gi_id = word_of_int n, gi_tenant_id = 1, gi_request_id = 2,
     gi_catalog_image_slot_id = 3, gi_template_id = 4, gi_attempt_no = n, gi_status = st,
     gi_provider = ''p'', gi_model = ''m'', gi_model_params = [], gi_seed = 7, gi_prompt_rendered = [],
     gi_prompt_version = [], gi_input_asset_ids = [], gi_output_asset_id = None, gi_cost_micros = None,
     gi_latency_ms = None, gi_error_code = None, gi_error_detail = None, gi_created_at = 0\<rparr>"

theorem rollup_settles_witness:
  "ru_status (compute_rollup [uuid_str 3] [demo_item 1 ITEM_DEAD, demo_item 2 ITEM_SUCCEEDED])
     = Some REQ_SUCCEEDED"
proof -
  let ?items = "[demo_item 1 ITEM_DEAD, demo_item 2 ITEM_SUCCEEDED]"
  have items: "items_of_slot (uuid_str 3) ?items = ?items"
    by (simp add: items_of_slot_def demo_item_def)
  have "\<exists>i \<in> set ?items. gi_status i = ITEM_SUCCEEDED" by (simp add: demo_item_def)
  moreover have "slot_outcome_of ?items = SLOT_SUCCEEDED" by (simp add: slot_outcome_of_def demo_item_def)
  ultimately show ?thesis
    using rollup_settles [of "[uuid_str 3]" ?items] items
    by (cases "ru_status (compute_rollup [uuid_str 3] ?items)") auto
qed

text \<open>
  The ladder is bounded and never repeats an attempt: a rung's number is one more than every
  attempt made, so at most three; the second attempt keeps the template and its prompt, the third
  takes another analysed template of those offered; after that, or without such a template, there
  is none.
\<close>

theorem retry_ladder_bounded:
  assumes "attempts \<noteq> []" and "\<forall>i \<in> set attempts. 1 \<le> gi_attempt_no i"
  shows "\<exists>latest \<in> set attempts. (\<forall>i \<in> set attempts. gi_attempt_no i \<le> gi_attempt_no latest)
     \<and> (\<exists>r. next_rung attempts alternates = Inr r
       \<and> (r = None \<longleftrightarrow> 3 \<le> gi_attempt_no latest \<or> gi_attempt_no latest = 2
            \<and> (\<forall>t \<in> set alternates. ct_id t = gi_template_id latest \<or> ct_status t \<noteq> TPL_ANALYSED))
       \<and> (\<forall>g. r = Some g \<longrightarrow> rr_attempt_no g = gi_attempt_no latest + 1 \<and> rr_attempt_no g \<le> 3
            \<and> (rr_reuse_prompt g \<longleftrightarrow> rr_attempt_no g = 2)
            \<and> (rr_reuse_prompt g \<longrightarrow> rr_template_id g = gi_template_id latest)
            \<and> (\<not> rr_reuse_prompt g \<longrightarrow> rr_template_id g \<noteq> gi_template_id latest
                 \<and> (\<exists>t \<in> set alternates. ct_id t = rr_template_id g \<and> ct_status t = TPL_ANALYSED))))"
proof -
  from py_max_defined [OF assms(1)] obtain latest where m: "py_max gi_attempt_no attempts = Inr latest" by blast
  have mem: "latest \<in> set attempts" "\<forall>i \<in> set attempts. gi_attempt_no i \<le> gi_attempt_no latest"
    using py_max_Inr [OF m] by auto
  with assms(2) have "1 \<le> gi_attempt_no latest" by blast
  then consider "gi_attempt_no latest = 1" | "gi_attempt_no latest = 2" | "3 \<le> gi_attempt_no latest" by linarith
  then show ?thesis
  proof cases
    case 2
    let ?c = "filter (\<lambda>t. ct_id t \<noteq> gi_template_id latest \<and> ct_status t = TPL_ANALYSED) alternates"
    show ?thesis
    proof (cases ?c)
      case Nil
      with m 2 mem show ?thesis
        by (intro bexI [of _ latest]) (auto simp: next_rung_def filter_empty_conv)
    next
      case (Cons t ts)
      then have "t \<in> set ?c" by simp
      then have t: "t \<in> set alternates" "ct_id t \<noteq> gi_template_id latest" "ct_status t = TPL_ANALYSED" by auto
      with m 2 mem Cons show ?thesis by (intro bexI [of _ latest]) (auto simp: next_rung_def)
    qed
  qed (use m mem in \<open>auto simp: next_rung_def intro!: bexI [of _ latest]\<close>)
qed

theorem retry_ladder_bounded_witness:
  "\<exists>g. next_rung [demo_item 1 ITEM_SUCCEEDED] [] = Inr (Some g) \<and> rr_attempt_no g = 2 \<and> rr_template_id g = 4"
proof -
  have "\<exists>r. next_rung [demo_item 1 ITEM_SUCCEEDED] [] = Inr r \<and> (r = None \<longleftrightarrow> 3 \<le> (1::int) \<or> (1::int) = 2 \<and> True)
     \<and> (\<forall>g. r = Some g \<longrightarrow> rr_attempt_no g = 2 \<and> (rr_reuse_prompt g \<longleftrightarrow> rr_attempt_no g = 2)
            \<and> (rr_reuse_prompt g \<longrightarrow> rr_template_id g = 4))"
    using retry_ladder_bounded [of "[demo_item 1 ITEM_SUCCEEDED]" "[]"] by (auto simp: demo_item_def)
  then show ?thesis by auto
qed

text \<open>
  A product is ready exactly when every required attribute of the pinned spec has a value
  that is neither null nor empty and every required input slot has a photo that is ready: the
  variant's own where it has one, the product's otherwise. What the category's live tables hold
  plays no part.
\<close>

theorem ready_iff_complete:
  assumes "\<forall>slot \<in> set (input_image_slots snapshot). sni_id slot = uuid_str (ident slot)"
  shows "\<exists>r. compute_product_readiness snapshot attributes images variant_id = Inr r
     \<and> (rdy_is_ready r \<longleftrightarrow>
         (\<forall>d \<in> set (attribute_definitions snapshot). sna_is_required d
            \<longrightarrow> (\<exists>v. map_of attributes (sna_key d) = Some v \<and> v \<noteq> JNull \<and> v \<noteq> JStr []))
       \<and> (\<forall>slot \<in> set (input_image_slots snapshot). sni_is_required slot
            \<longrightarrow> (\<exists>photo. resolve_input_image images variant_id (ident slot) = Some photo
                  \<and> pii_status photo = INPUT_READY)))"
proof -
  let ?g = "\<lambda>slot. if \<not> sni_is_required slot then []
      else case resolve_input_image images variant_id (ident slot) of
        None \<Rightarrow> [''input_image:'' @ sni_key slot]
      | Some photo \<Rightarrow> if pii_status photo \<noteq> INPUT_READY then [''input_image:'' @ sni_key slot] else []"
  have "missing_inputs snapshot images variant_id = Inr (concat (map ?g (input_image_slots snapshot)))"
    unfolding missing_inputs_def
    by (subst map_result_Inr [where g = ?g]) (use assms in \<open>auto split: option.splits\<close>)
  moreover have "concat (map ?g (input_image_slots snapshot)) = [] \<longleftrightarrow>
      (\<forall>slot \<in> set (input_image_slots snapshot). sni_is_required slot
        \<longrightarrow> (\<exists>photo. resolve_input_image images variant_id (ident slot) = Some photo
              \<and> pii_status photo = INPUT_READY))"
    by (simp only: concat_eq_Nil_conv set_map ball_simps(9), intro ball_cong refl)
       (auto split: option.splits if_splits)
  moreover have "missing_attributes snapshot attributes = [] \<longleftrightarrow>
      (\<forall>d \<in> set (attribute_definitions snapshot). sna_is_required d
        \<longrightarrow> (\<exists>v. map_of attributes (sna_key d) = Some v \<and> v \<noteq> JNull \<and> v \<noteq> JStr []))"
    by (auto simp: missing_attributes_def filter_empty_conv dict_get_def split: option.splits)
  ultimately show ?thesis by (simp add: compute_product_readiness_def)
qed

theorem ready_iff_complete_witness:
  "\<exists>r. compute_product_readiness \<lparr>attribute_definitions = [], variant_axes = [], input_image_slots = [],
      catalog_image_slots = []\<rparr> [] [] None = Inr r \<and> rdy_is_ready r"
  using ready_iff_complete [of "\<lparr>attribute_definitions = [], variant_axes = [], input_image_slots = [],
      catalog_image_slots = []\<rparr>" "\<lambda>_. 0" "[]" "[]" None] by simp

text \<open>
  Axis values pass exactly when each names an axis of the pinned spec and, where that axis lists
  values, is one of them.
\<close>

theorem axis_values_valid_iff:
  assumes "distinct (map snx_key (variant_axes snapshot))"
  shows "validate_axis_values snapshot axis_values = [] \<longleftrightarrow>
     (\<forall>(key, v) \<in> set axis_values. \<exists>axis \<in> set (variant_axes snapshot). snx_key axis = key
        \<and> (snx_values axis = [] \<or> v \<in> snv_value ` set (snx_values axis)))"
proof -
  let ?d = "map (\<lambda>axis. (snx_key axis, axis)) (variant_axes snapshot)"
  have dist: "distinct (map fst ?d)" using assms by (simp add: comp_def)
  have get: "map_of (dict_of ?d) k = Some a \<longleftrightarrow> a \<in> set (variant_axes snapshot) \<and> snx_key a = k" for k a
    using map_of_eq_Some_iff [OF dist] by (auto simp: dict_of_distinct [OF dist])
  have one: "(case map_of (dict_of ?d) key of
           None \<Rightarrow> [''Unknown variant axis '' @ py_repr key @ ''.'']
         | Some axis \<Rightarrow> let allowed = map snv_value (snx_values axis) in
             if allowed \<noteq> [] \<and> v \<notin> set allowed
             then [py_repr v @ '' is not a valid value for axis '' @ py_repr key
                     @ '' (allowed: '' @ join '', '' (sort (remdups allowed)) @ '').'']
             else []) = []
      \<longleftrightarrow> (\<exists>axis \<in> set (variant_axes snapshot). snx_key axis = key
        \<and> (snx_values axis = [] \<or> v \<in> snv_value ` set (snx_values axis)))" for key v
  proof (cases "map_of (dict_of ?d) key")
    case None
    then have "\<not> (\<exists>axis \<in> set (variant_axes snapshot). snx_key axis = key)" using get by fastforce
    with None show ?thesis by auto
  next
    case (Some axis)
    then have axis: "axis \<in> set (variant_axes snapshot)" "snx_key axis = key" using get by auto
    have "a = axis" if "a \<in> set (variant_axes snapshot)" "snx_key a = key" for a
      using that get [of key a] Some by simp
    with axis have "(\<exists>a \<in> set (variant_axes snapshot). snx_key a = key
        \<and> (snx_values a = [] \<or> v \<in> snv_value ` set (snx_values a)))
      \<longleftrightarrow> (snx_values axis = [] \<or> v \<in> snv_value ` set (snx_values axis))" by blast
    with Some show ?thesis by (simp add: Let_def)
  qed
  show ?thesis unfolding validate_axis_values_def Let_def
    using one [unfolded Let_def] by (simp add: split_beta)
qed

theorem axis_values_valid_iff_witness:
  "validate_axis_values \<lparr>attribute_definitions = [], variant_axes = [], input_image_slots = [],
      catalog_image_slots = []\<rparr> [(''colour'', ''red'')] \<noteq> []"
  using axis_values_valid_iff [of "\<lparr>attribute_definitions = [], variant_axes = [], input_image_slots = [],
      catalog_image_slots = []\<rparr>" "[(''colour'', ''red'')]"] by simp

end
