(* ===== verification/Prompts.thy ===== *)
theory Prompts
  imports Generation_Services
begin

text \<open>
  The texts sent to the providers: the placeholders of a template and their validation against
  the pinned spec (services/template\_placeholder\_validator.py), the role lines
  (services/prompt\_rendering.py), the composition of a generation prompt
  (services/prompt\_composition.py), the prompt of the marketing copy and the forbidden-claims
  check of what comes back (services/copy\_prompt\_composition.py, services/copy\_validation.py).
\<close>

section \<open>Placeholders\<close>

text \<open>
  \<open>PLACEHOLDER_PATTERN\<close> finds, from left to right, two opening braces and the nearest two
  closing braces after them on the same line. \<open>find_close\<close> is the non-greedy body: the text up
  to the nearest closing braces, and what follows them; \<open>segments\<close> is the scan of a whole text
  into the matches and the characters between them.
\<close>

datatype segment = Lit char | Hole string

fun find_close :: "string \<Rightarrow> (string \<times> string) option" where
  "find_close (c # d # cs) =
     (if c = CHR ''}'' \<and> d = CHR ''}'' then Some ([], cs)
      else if c = CHR 0x0A then None
      else map_option (\<lambda>(body, rest). (c # body, rest)) (find_close (d # cs)))"
| "find_close _ = None"

lemma find_close_Some: "find_close s = Some (body, rest) \<Longrightarrow> s = body @ ''}}'' @ rest"
  by (induction s arbitrary: body rule: find_close.induct) (auto split: if_splits)

definition match_at :: "string \<Rightarrow> (string \<times> string) option" where
  "match_at s = (case s of c # d # cs \<Rightarrow> if c = CHR ''{'' \<and> d = CHR ''{'' then find_close cs else None
     | _ \<Rightarrow> None)"

lemma match_at_Some: "match_at s = Some (body, rest) \<Longrightarrow> s = ''{{'' @ body @ ''}}'' @ rest"
  by (auto simp: match_at_def split: list.splits if_splits dest: find_close_Some)

function segments :: "string \<Rightarrow> segment list" where
  "segments s = (case s of [] \<Rightarrow> []
     | c # cs \<Rightarrow> (case match_at s of
           Some (body, rest) \<Rightarrow> Hole body # segments rest
         | None \<Rightarrow> Lit c # segments cs))"
  by pat_completeness auto
termination
  by (relation "measure length") (auto dest: match_at_Some)

declare segments.simps [simp del]

lemma segments_Nil [simp]: "segments [] = []" by (simp add: segments.simps)

lemma segments_None: "match_at (c # cs) = None \<Longrightarrow> segments (c # cs) = Lit c # segments cs"
  by (subst segments.simps) simp

lemma segments_Some: "match_at s = Some (body, rest) \<Longrightarrow> segments s = Hole body # segments rest"
  by (subst segments.simps) (auto dest: match_at_Some split: list.splits)

definition holes :: "string \<Rightarrow> string list" where
  "holes s = concat (map (\<lambda>g. case g of Hole body \<Rightarrow> [body] | Lit c \<Rightarrow> []) (segments s))"

text \<open>
  \<open>PLACEHOLDER_SHAPE_PATTERN\<close>: white space, a namespace, a dot, a key, white space; both names a
  lower-case letter followed by lower-case letters, digits and underscores.
\<close>

definition is_name :: "string \<Rightarrow> bool" where
  "is_name s = (case s of [] \<Rightarrow> False | c # cs \<Rightarrow> key_start c \<and> list_all key_char cs)"

definition shape_match :: "string \<Rightarrow> (string \<times> string) option" where
  "shape_match body =
     (let s = strip body; namespace = takeWhile key_char s in
      case dropWhile key_char s of
        c # key \<Rightarrow> if c = CHR ''.'' \<and> is_name namespace \<and> is_name key then Some (namespace, key) else None
      | [] \<Rightarrow> None)"

definition braced :: "string \<Rightarrow> string" where
  "braced s = ''{{'' @ s @ ''}}''"

definition placeholder_problems :: "string list \<Rightarrow> string list \<Rightarrow> string list \<Rightarrow> string \<Rightarrow> string list" where
  "placeholder_problems required_input_keys attribute_keys variant_keys body =
     (case shape_match body of
        None \<Rightarrow> [''Malformed placeholder '' @ braced body @ '' - expected '' @ braced ''namespace.key'' @ ''.'']
      | Some (namespace, key) \<Rightarrow>
          if namespace \<notin> {''input'', ''attr'', ''variant''}
          then [''Unknown placeholder namespace '' @ braced (namespace @ ''.'' @ key) @ ''.'']
          else if namespace = ''input'' \<and> key \<notin> set required_input_keys
          then [braced (''input.'' @ key) @ '' does not resolve to an input this catalog slot requires.'']
          else if namespace = ''attr'' \<and> key \<notin> set attribute_keys
          then [braced (''attr.'' @ key) @ '' does not resolve to an attribute in this spec.'']
          else if namespace = ''variant'' \<and> key \<notin> set variant_keys
          then [braced (''variant.'' @ key) @ '' does not resolve to a variant axis in this spec.'']
          else [])"

definition required_keys :: "spec_snapshot \<Rightarrow> snap_catalog_slot \<Rightarrow> string list" where
  "required_keys snapshot catalog_slot =
     (let slot_key_by_id = dict_of (map (\<lambda>s. (sni_id s, sni_key s)) (input_image_slots snapshot)) in
      concat (map (\<lambda>r. case map_of slot_key_by_id (snr_input_image_slot_id r) of
        None \<Rightarrow> [] | Some key \<Rightarrow> [key]) (snc_input_requirements catalog_slot)))"

definition validate_template_placeholders :: "spec_snapshot \<Rightarrow> string \<Rightarrow> string \<Rightarrow> string list" where
  "validate_template_placeholders snapshot catalog_image_slot_id prompt_template =
     (case find_catalog_slot snapshot catalog_image_slot_id of
        None \<Rightarrow> [''Catalog image slot '' @ py_repr catalog_image_slot_id @ '' not found in this spec.'']
      | Some catalog_slot \<Rightarrow>
          concat (map (placeholder_problems (required_keys snapshot catalog_slot)
              (map sna_key (attribute_definitions snapshot)) (map snx_key (variant_axes snapshot)))
            (holes prompt_template)))"

section \<open>Role lines\<close>

definition role_line :: "snap_requirement \<Rightarrow> snap_input_slot \<Rightarrow> string" where
  "role_line requirement slot =
     snr_role requirement @ '': ''
       @ (case sni_description slot of Some d \<Rightarrow> (if d \<noteq> [] then d else sni_label slot)
          | None \<Rightarrow> sni_label slot)"

definition render_role_lines :: "spec_snapshot \<Rightarrow> string \<Rightarrow> string list" where
  "render_role_lines snapshot catalog_image_slot_id =
     (case find_catalog_slot snapshot catalog_image_slot_id of
        None \<Rightarrow> []
      | Some catalog_slot \<Rightarrow>
          let slots_by_id = dict_of (map (\<lambda>s. (sni_id s, s)) (input_image_slots snapshot));
              requirements = sort_key snr_prompt_position (snc_input_requirements catalog_slot) in
          concat (map (\<lambda>requirement. case map_of slots_by_id (snr_input_image_slot_id requirement) of
              None \<Rightarrow> [] | Some slot \<Rightarrow> [role_line requirement slot]) requirements))"

section \<open>Composition\<close>

definition merge_attributes :: "(string, json) dict \<Rightarrow> (string, json) dict \<Rightarrow> (string, json) dict" where
  "merge_attributes product_attributes variant_attributes =
     fold (\<lambda>(k, v) d. dict_set k v d) variant_attributes product_attributes"

definition replace_hole :: "(string, json) dict \<Rightarrow> (string, string) dict \<Rightarrow> segment \<Rightarrow> string result" where
  "replace_hole attributes axis_values g = (case g of
     Lit c \<Rightarrow> Inr [c]
   | Hole body \<Rightarrow> (case shape_match body of
        None \<Rightarrow> Inr (braced body)
      | Some (namespace, key) \<Rightarrow>
          if namespace = ''attr'' then
            (case map_of attributes key of
               None \<Rightarrow> Inl (ValidationError (''Product has no value for attribute '' @ py_repr key @ ''.''))
             | Some v \<Rightarrow> Inr (json_str v))
          else if namespace = ''variant'' then
            (case map_of axis_values key of
               None \<Rightarrow> Inl (ValidationError (''Variant has no value for axis '' @ py_repr key @ ''.''))
             | Some v \<Rightarrow> Inr v)
          else Inr (braced body)))"

definition substitute_scene :: "string \<Rightarrow> (string, json) dict \<Rightarrow> (string, string) dict \<Rightarrow> string result" where
  "substitute_scene prompt_template attributes axis_values =
     bind_result (map_result (replace_hole attributes axis_values) (segments prompt_template))
       (\<lambda>parts. Inr (concat parts))"

definition compose_prompt ::
  "spec_snapshot \<Rightarrow> string \<Rightarrow> string \<Rightarrow> (string, json) dict \<Rightarrow> (string, string) dict \<Rightarrow> string result" where
  "compose_prompt snapshot catalog_image_slot_id prompt_template attributes axis_values =
     bind_result (substitute_scene prompt_template attributes axis_values) (\<lambda>scene.
       let role_lines = render_role_lines snapshot catalog_image_slot_id in
       Inr (if role_lines = [] then scene else scene @ [CHR 0x0A, CHR 0x0A] @ join [CHR 0x0A] role_lines))"

section \<open>Marketing copy\<close>

definition compose_copy_prompt :: "string \<Rightarrow> string \<Rightarrow> (string, json) dict \<Rightarrow> string" where
  "compose_copy_prompt channel locale1 attributes =
     (let nl = [CHR 0x0A];
          attribute_lines = join nl (map (\<lambda>(key, v). ''- '' @ key @ '': '' @ json_str v) (sort_key fst attributes)) in
      ''Write marketing copy for the '' @ channel @ '' channel, in locale '' @ locale1 @ ''.'' @ nl
      @ ''Product attributes:'' @ nl
      @ attribute_lines @ nl @ nl
      @ ''Return a title, body, hashtags, a call to action, and image alt text, ''
      @ ''matching the voice conventional for this channel.'')"

record generated_copy =
  gc_title :: "string option"
  gc_body :: string
  gc_hashtags :: "string list"
  gc_cta :: "string option"
  gc_alt_text :: string
  gc_model :: string
  gc_cost_micros :: int
  gc_latency_ms :: int

text \<open>\<open>needle in haystack\<close>.\<close>

fun occurs_in :: "string \<Rightarrow> string \<Rightarrow> bool" where
  "occurs_in needle [] = (needle = [])"
| "occurs_in needle (c # cs) = (take (length needle) (c # cs) = needle \<or> occurs_in needle cs)"

definition or_empty :: "string option \<Rightarrow> string" where
  "or_empty o1 = (case o1 of None \<Rightarrow> [] | Some s \<Rightarrow> s)"

definition copy_haystack :: "generated_copy \<Rightarrow> string" where
  "copy_haystack c = lower (join '' ''
     [or_empty (gc_title c), gc_body c, or_empty (gc_cta c), join '' '' (gc_hashtags c)])"

definition validate_copy :: "generated_copy \<Rightarrow> string list \<Rightarrow> string option" where
  "validate_copy c forbidden_claims =
     map_option (\<lambda>claim. ''Forbidden claim '' @ py_repr claim @ '' found in generated copy.'')
       (find (\<lambda>claim. occurs_in (lower claim) (copy_haystack c)) forbidden_claims)"

section \<open>The scan\<close>

definition segment_text :: "segment \<Rightarrow> string" where
  "segment_text g = (case g of Lit c \<Rightarrow> [c] | Hole body \<Rightarrow> braced body)"

definition is_placeholder_at :: "string \<Rightarrow> string \<Rightarrow> string \<Rightarrow> string \<Rightarrow> bool" where
  "is_placeholder_at s a body b \<longleftrightarrow> s = a @ braced body @ b \<and> CHR 0x0A \<notin> set body"

lemma find_close_body:
  "find_close s = Some (body, rest) \<Longrightarrow> CHR 0x0A \<notin> set body \<and> \<not> occurs_in ''}}'' (body @ ''}'')"
proof (induction s arbitrary: body rule: find_close.induct)
  case (1 c d cs)
  show ?case
  proof (cases "c = CHR ''}'' \<and> d = CHR ''}''")
    case False
    with 1 obtain b where b: "c \<noteq> CHR 0x0A" "find_close (d # cs) = Some (b, rest)" "body = c # b"
      by (auto split: if_splits)
    from 1(1) [OF False b(1,2)] have IH: "CHR 0x0A \<notin> set b \<and> \<not> occurs_in ''}}'' (b @ ''}'')" .
    have "take 2 (c # b @ ''}'') \<noteq> ''}}''"
    proof (cases b)
      case Nil
      then have "d = CHR ''}''" using find_close_Some [OF b(2)] by simp
      with False Nil show ?thesis by simp
    next
      case (Cons x xs)
      then have "x = d" using find_close_Some [OF b(2)] by simp
      with False Cons show ?thesis by auto
    qed
    with IH b show ?thesis by simp
  qed (use 1 in auto)
qed auto

lemma find_close_ex: "CHR 0x0A \<notin> set body \<Longrightarrow> find_close (body @ ''}}'' @ rest) \<noteq> None"
proof (induction body)
  case (Cons c b)
  obtain d ds where d: "b @ ''}}'' @ rest = d # ds" by (cases b) auto
  with Cons show ?case by (auto simp: d)
qed simp

lemma match_at_ex: "CHR 0x0A \<notin> set body \<Longrightarrow> match_at (braced body @ rest) \<noteq> None"
  using find_close_ex by (simp add: match_at_def braced_def)

lemma segments_text: "concat (map segment_text (segments s)) = s"
proof (induction s rule: segments.induct)
  case (1 s)
  show ?case
  proof (cases s)
    case (Cons c cs)
    show ?thesis
    proof (cases "match_at s")
      case None
      with 1(1) Cons show ?thesis by (simp add: segments_None segment_text_def)
    next
      case (Some br)
      obtain body rest where br: "br = (body, rest)" by force
      have IH: "concat (map segment_text (segments rest)) = rest" by (rule 1(2) [OF Cons Some br [symmetric]])
      have "concat (map segment_text (segments s)) = braced body @ rest"
        by (simp add: segments_Some [OF Some [unfolded br]] segment_text_def IH)
      also have "\<dots> = s" by (simp add: braced_def match_at_Some [OF Some [unfolded br]])
      finally show ?thesis .
    qed
  qed simp
qed

lemma holes_body: "body \<in> set (holes s) \<Longrightarrow> CHR 0x0A \<notin> set body \<and> \<not> occurs_in ''}}'' (body @ ''}'')"
proof (induction s rule: segments.induct)
  case (1 s)
  show ?case
  proof (cases s)
    case (Cons c cs)
    show ?thesis
    proof (cases "match_at s")
      case None
      with 1(1,3) Cons show ?thesis by (simp add: segments_None holes_def)
    next
      case (Some br)
      obtain b rest where br: "br = (b, rest)" by force
      from Some Cons have "find_close (tl cs) = Some (b, rest)"
        by (auto simp: match_at_def br split: list.splits if_splits)
      from find_close_body [OF this] 1(2) [OF Cons Some br [symmetric]] 1(3) segments_Some [OF Some [unfolded br]]
      show ?thesis by (auto simp: holes_def)
    qed
  qed (use 1 in \<open>simp add: holes_def\<close>)
qed

lemma holes_empty: "holes s = [] \<Longrightarrow> is_placeholder_at s a body b \<Longrightarrow> False"
proof (induction s arbitrary: a rule: segments.induct)
  case (1 s)
  from 1(4) have s: "s = a @ braced body @ b" "CHR 0x0A \<notin> set body" by (auto simp: is_placeholder_at_def)
  then have "s \<noteq> []" by (simp add: braced_def)
  then obtain c cs where c: "s = c # cs" by (cases s) blast+
  have none: "match_at s = None"
    using 1(3) segments_Some [of s] by (cases "match_at s") (auto simp: holes_def)
  with s match_at_ex [OF s(2), of b] have "a \<noteq> []" by (cases a) auto
  with s c obtain a' where "cs = a' @ braced body @ b" by (cases a) auto
  with s(2) have "is_placeholder_at cs a' body b" by (simp add: is_placeholder_at_def)
  with 1(1) [OF c none] 1(3) segments_None [of c cs] none c show False by (simp add: holes_def)
qed

text \<open>
  The scan of a template loses nothing and finds what is there: the matches and the characters
  between them are the text; every body is the shortest (no closing braces in it) and on one line;
  a text without a match has no two opening braces followed on their line by two closing ones.
\<close>

theorem placeholder_scan_exact:
  "concat (map segment_text (segments s)) = s
   \<and> (\<forall>body \<in> set (holes s). CHR 0x0A \<notin> set body \<and> \<not> occurs_in ''}}'' (body @ ''}''))
   \<and> (holes s = [] \<longleftrightarrow> \<not> (\<exists>a body b. is_placeholder_at s a body b))"
proof -
  have "\<exists>a b. is_placeholder_at s a body b" if "body \<in> set (holes s)" for body
  proof -
    from that have "Hole body \<in> set (segments s)" by (auto simp: holes_def split: segment.splits)
    then obtain xs ys where "segments s = xs @ Hole body # ys" by (meson split_list)
    with segments_text [of s]
    have "s = concat (map segment_text xs) @ braced body @ concat (map segment_text ys)"
      by (simp add: segment_text_def)
    with holes_body [OF that] show ?thesis unfolding is_placeholder_at_def by blast
  qed
  then have "holes s \<noteq> [] \<Longrightarrow> \<exists>a body b. is_placeholder_at s a body b"
    by (cases "holes s") force+
  with holes_empty have "holes s = [] \<longleftrightarrow> \<not> (\<exists>a body b. is_placeholder_at s a body b)" by blast
  then show ?thesis using segments_text holes_body by blast
qed

theorem placeholder_scan_exact_witness:
  "holes ''a {{attr.x}} b'' \<noteq> []"
proof -
  have "is_placeholder_at ''a {{attr.x}} b'' ''a '' ''attr.x'' '' b''"
    by (simp add: is_placeholder_at_def braced_def)
  then show ?thesis using placeholder_scan_exact [of "''a {{attr.x}} b''"] by blast
qed

section \<open>Composition\<close>

definition hole_resolved :: "(string, json) dict \<Rightarrow> (string, string) dict \<Rightarrow> string \<Rightarrow> bool" where
  "hole_resolved attributes axis_values body = (case shape_match body of
     None \<Rightarrow> True
   | Some (namespace, key) \<Rightarrow>
       if namespace = ''attr'' then key \<in> fst ` set attributes
       else if namespace = ''variant'' then key \<in> fst ` set axis_values
       else True)"

definition hole_text :: "(string, json) dict \<Rightarrow> (string, string) dict \<Rightarrow> segment \<Rightarrow> string" where
  "hole_text attributes axis_values g = (case g of Lit c \<Rightarrow> [c] | Hole body \<Rightarrow>
     (case shape_match body of
        Some (namespace, key) \<Rightarrow>
          if namespace = ''attr'' then json_str (the (map_of attributes key))
          else if namespace = ''variant'' then the (map_of axis_values key)
          else braced body
      | None \<Rightarrow> braced body))"

lemma in_keys_iff: "k \<in> fst ` set d \<longleftrightarrow> map_of d k \<noteq> None"
  by (simp add: map_of_eq_None_iff)

lemma replace_hole_resolved:
  "hole_resolved attributes axis_values body \<Longrightarrow>
   replace_hole attributes axis_values (Hole body) = Inr (hole_text attributes axis_values (Hole body))"
  by (auto simp: hole_resolved_def replace_hole_def hole_text_def in_keys_iff simp del: not_None_eq
           split: option.splits prod.splits if_splits)

lemma replace_hole_unresolved:
  "\<not> hole_resolved attributes axis_values body \<Longrightarrow>
   \<exists>m. replace_hole attributes axis_values (Hole body) = Inl (ValidationError m)"
  by (auto simp: hole_resolved_def replace_hole_def in_keys_iff simp del: not_None_eq
           split: option.splits prod.splits if_splits)

lemma replace_hole_Lit [simp]: "replace_hole attributes axis_values (Lit c) = Inr [c]"
  by (simp add: replace_hole_def)

lemma map_result_first_error:
  assumes "x \<in> set xs" and "f x = Inl e"
    and "\<And>y d. y \<in> set xs \<Longrightarrow> f y = Inl d \<Longrightarrow> P d"
  shows "\<exists>d. map_result f xs = Inl d \<and> P d"
  using assms
proof (induction xs)
  case (Cons y ys)
  show ?case
  proof (cases "f y")
    case (Inl d)
    with Cons.prems(3) [of y d] show ?thesis by simp
  next
    case (Inr z)
    with Cons.prems have "x \<in> set ys" by auto
    from Cons.IH [OF this Cons.prems(2)] Cons.prems(3) obtain d where "map_result f ys = Inl d" "P d"
      by auto
    with Inr show ?thesis by simp
  qed
qed simp

lemma Hole_in_segments: "Hole body \<in> set (segments s) \<longleftrightarrow> body \<in> set (holes s)"
  by (force simp: holes_def split: segment.splits)

lemma substitute_resolved:
  assumes "\<forall>body \<in> set (holes t). hole_resolved attributes axis_values body"
  shows "substitute_scene t attributes axis_values
    = Inr (concat (map (hole_text attributes axis_values) (segments t)))"
proof -
  have "replace_hole attributes axis_values g = Inr (hole_text attributes axis_values g)"
    if "g \<in> set (segments t)" for g
  proof (cases g)
    case (Hole body)
    with that assms show ?thesis by (simp add: Hole_in_segments replace_hole_resolved)
  qed (simp add: hole_text_def)
  then have "map_result (replace_hole attributes axis_values) (segments t)
      = Inr (map (hole_text attributes axis_values) (segments t))" by (rule map_result_Inr)
  then show ?thesis by (simp add: substitute_scene_def)
qed

lemma substitute_unresolved:
  assumes "body \<in> set (holes t)" and "\<not> hole_resolved attributes axis_values body"
  shows "\<exists>m. substitute_scene t attributes axis_values = Inl (ValidationError m)"
proof -
  from replace_hole_unresolved [OF assms(2)] obtain m where
    m: "replace_hole attributes axis_values (Hole body) = Inl (ValidationError m)" by blast
  have err: "\<exists>m. d = ValidationError m" if "replace_hole attributes axis_values g = Inl d" for g d
  proof (cases g)
    case (Hole b)
    with that replace_hole_unresolved [of attributes axis_values b] replace_hole_resolved [of attributes axis_values b]
    show ?thesis by (cases "hole_resolved attributes axis_values b") auto
  qed (use that in simp)
  from assms(1) have "Hole body \<in> set (segments t)" by (simp add: Hole_in_segments)
  then have "\<exists>d. map_result (replace_hole attributes axis_values) (segments t) = Inl d
      \<and> (\<exists>m. d = ValidationError m)"
    by (rule map_result_first_error [where f = "replace_hole attributes axis_values"
          and P = "\<lambda>d. \<exists>m. d = ValidationError m", OF _ m]) (blast intro: err)
  then show ?thesis by (auto simp: substitute_scene_def)
qed

text \<open>
  C29: A prompt is composed exactly when every attribute and axis its template names is a key of the product's merged
  attributes and of the variant's axis values. It then is the template with each such placeholder replaced by what is stored
  under the key and everything else (input placeholders, malformed ones) as written, followed, after an empty line, by the role
  lines if there are any. An attribute stored as null is a key like any other, and its placeholder becomes the word None.
  When a key is missing the composition raises a validation error.
\<close>

theorem prompt_composes_iff:
  "(if \<forall>body \<in> set (holes t). hole_resolved attributes axis_values body
    then compose_prompt snapshot slot_id t attributes axis_values
           = Inr (concat (map (hole_text attributes axis_values) (segments t))
               @ (case render_role_lines snapshot slot_id of [] \<Rightarrow> []
                  | ls \<Rightarrow> [CHR 0x0A, CHR 0x0A] @ join [CHR 0x0A] ls))
    else \<exists>m. compose_prompt snapshot slot_id t attributes axis_values = Inl (ValidationError m))
   \<and> (\<forall>body \<in> set (holes t). \<forall>key. shape_match body = Some (''attr'', key) \<longrightarrow> map_of attributes key = Some JNull
        \<longrightarrow> hole_resolved attributes axis_values body \<and> hole_text attributes axis_values (Hole body) = ''None'')"
proof (rule conjI)
  show "if \<forall>body \<in> set (holes t). hole_resolved attributes axis_values body
    then compose_prompt snapshot slot_id t attributes axis_values
           = Inr (concat (map (hole_text attributes axis_values) (segments t))
               @ (case render_role_lines snapshot slot_id of [] \<Rightarrow> []
                  | ls \<Rightarrow> [CHR 0x0A, CHR 0x0A] @ join [CHR 0x0A] ls))
    else \<exists>m. compose_prompt snapshot slot_id t attributes axis_values = Inl (ValidationError m)"
  proof (cases "\<forall>body \<in> set (holes t). hole_resolved attributes axis_values body")
    case True
    then show ?thesis
      by (simp add: compose_prompt_def substitute_resolved Let_def split: list.split)
  next
    case False
    then obtain body where "body \<in> set (holes t)" "\<not> hole_resolved attributes axis_values body" by blast
    from substitute_unresolved [OF this] show ?thesis using False by (auto simp: compose_prompt_def)
  qed
next
  have "json_str JNull = ''None''" by (simp add: json_str_def)
  then show "\<forall>body \<in> set (holes t). \<forall>key. shape_match body = Some (''attr'', key) \<longrightarrow> map_of attributes key = Some JNull
        \<longrightarrow> hole_resolved attributes axis_values body \<and> hole_text attributes axis_values (Hole body) = ''None''"
    by (auto simp: hole_resolved_def hole_text_def in_keys_iff)
qed

theorem prompt_composes_iff_witness:
  "(\<exists>m. compose_prompt \<lparr>attribute_definitions = [], variant_axes = [], input_image_slots = [],
      catalog_image_slots = []\<rparr> [] ''{{attr.x}}'' [] [] = Inl (ValidationError m))
   \<and> compose_prompt \<lparr>attribute_definitions = [], variant_axes = [], input_image_slots = [],
      catalog_image_slots = []\<rparr> [] ''{{attr.x}}'' [(''x'', JNull)] [] = Inr ''None''"
proof -
  let ?spec = "\<lparr>attribute_definitions = [], variant_axes = [], input_image_slots = [], catalog_image_slots = []\<rparr>"
  have seg: "segments ''{{attr.x}}'' = [Hole ''attr.x'']" by (simp add: segments.simps match_at_def)
  then have holes: "holes ''{{attr.x}}'' = [''attr.x'']" by (simp add: holes_def)
  have shape: "shape_match ''attr.x'' = Some (''attr'', ''x'')" by code_simp
  have "\<not> hole_resolved [] [] ''attr.x''" by (simp add: hole_resolved_def shape)
  then have "\<exists>m. compose_prompt ?spec [] ''{{attr.x}}'' [] [] = Inl (ValidationError m)"
    using prompt_composes_iff [of "''{{attr.x}}''" "[]" "[]" ?spec "[]"] holes by simp
  moreover have "hole_resolved [(''x'', JNull)] [] ''attr.x''" "hole_text [(''x'', JNull)] [] (Hole ''attr.x'') = ''None''"
    using prompt_composes_iff [of "''{{attr.x}}''" "[(''x'', JNull)]" "[]" ?spec "[]"] holes shape by simp_all
  moreover have "render_role_lines ?spec [] = []" by (simp add: render_role_lines_def find_catalog_slot_def)
  ultimately show ?thesis
    using prompt_composes_iff [of "''{{attr.x}}''" "[(''x'', JNull)]" "[]" ?spec "[]"] holes seg by simp
qed

lemma placeholder_problems_Nil:
  assumes "placeholder_problems required attribute_keys variant_keys body = []"
  obtains namespace key where "shape_match body = Some (namespace, key)"
    and "namespace \<in> {''input'', ''attr'', ''variant''}"
    and "namespace = ''input'' \<longrightarrow> key \<in> set required"
    and "namespace = ''attr'' \<longrightarrow> key \<in> set attribute_keys"
    and "namespace = ''variant'' \<longrightarrow> key \<in> set variant_keys"
proof (cases "shape_match body")
  case (Some nk)
  obtain namespace key where nk: "nk = (namespace, key)" by force
  with assms Some show ?thesis
    by (intro that [of namespace key]) (simp_all add: placeholder_problems_def split: if_split_asm)
qed (use assms in \<open>simp add: placeholder_problems_def\<close>)

lemma validated_holes:
  assumes "validate_template_placeholders snapshot slot_id t = []" and "find_catalog_slot snapshot slot_id = Some slot"
    and "body \<in> set (holes t)"
  shows "placeholder_problems (required_keys snapshot slot) (map sna_key (attribute_definitions snapshot))
     (map snx_key (variant_axes snapshot)) body = []"
  using assms by (simp add: validate_template_placeholders_def)

lemma validated_slot:
  "validate_template_placeholders snapshot slot_id t = [] \<Longrightarrow> \<exists>slot. find_catalog_slot snapshot slot_id = Some slot"
  by (auto simp: validate_template_placeholders_def split: option.splits)

lemma required_key_input:
  assumes "key \<in> set (required_keys snapshot slot)"
  shows "\<exists>r s. r \<in> set (snc_input_requirements slot) \<and> s \<in> set (input_image_slots snapshot)
    \<and> sni_id s = snr_input_image_slot_id r \<and> sni_key s = key"
proof -
  let ?d = "map (\<lambda>s. (sni_id s, sni_key s)) (input_image_slots snapshot)"
  from assms obtain r where r: "r \<in> set (snc_input_requirements slot)"
      "map_of (rev ?d) (snr_input_image_slot_id r) = Some key"
    by (auto simp: required_keys_def Let_def map_of_dict_of split: option.splits)
  from map_of_SomeD [OF r(2)] have "(snr_input_image_slot_id r, key) \<in> set ?d" by simp
  then obtain s where "s \<in> set (input_image_slots snapshot)" "sni_id s = snr_input_image_slot_id r"
      "sni_key s = key" by auto
  with r(1) show ?thesis by blast
qed

lemma validated_composes:
  assumes "validate_template_placeholders snapshot slot_id t = []"
    and "sna_key ` set (attribute_definitions snapshot) \<subseteq> fst ` set attributes"
    and "snx_key ` set (variant_axes snapshot) \<subseteq> fst ` set axis_values"
  shows "\<exists>p. compose_prompt snapshot slot_id t attributes axis_values = Inr p"
proof -
  from validated_slot [OF assms(1)] obtain slot where slot: "find_catalog_slot snapshot slot_id = Some slot" by blast
  have "hole_resolved attributes axis_values body" if "body \<in> set (holes t)" for body
  proof (rule placeholder_problems_Nil [OF validated_holes [OF assms(1) slot that]])
    fix namespace key
    assume s: "shape_match body = Some (namespace, key)"
      and a: "namespace = ''attr'' \<longrightarrow> key \<in> set (map sna_key (attribute_definitions snapshot))"
      and v: "namespace = ''variant'' \<longrightarrow> key \<in> set (map snx_key (variant_axes snapshot))"
    from a v show ?thesis
      using subsetD [OF assms(2), of key] subsetD [OF assms(3), of key] by (simp add: hole_resolved_def s)
  qed
  then show ?thesis by (simp add: compose_prompt_def substitute_resolved Let_def)
qed

text \<open>
  What the validation of a template promises its renderer: if it reports no problem, every
  placeholder is well formed and in a known namespace, every input one names an input the catalog
  slot requires, and for a product with a value for every attribute and axis of the spec the
  composition cannot fail.
\<close>

theorem validated_template_composes:
  assumes "validate_template_placeholders snapshot slot_id t = []"
    and "sna_key ` set (attribute_definitions snapshot) \<subseteq> fst ` set attributes"
    and "snx_key ` set (variant_axes snapshot) \<subseteq> fst ` set axis_values"
  shows "(\<exists>p. compose_prompt snapshot slot_id t attributes axis_values = Inr p)
     \<and> (\<forall>body \<in> set (holes t). \<exists>namespace key. shape_match body = Some (namespace, key)
          \<and> namespace \<in> {''input'', ''attr'', ''variant''}
          \<and> (namespace = ''input'' \<longrightarrow> (\<exists>slot r s. find_catalog_slot snapshot slot_id = Some slot
                \<and> r \<in> set (snc_input_requirements slot) \<and> s \<in> set (input_image_slots snapshot)
                \<and> sni_id s = snr_input_image_slot_id r \<and> sni_key s = key)))"
proof (intro conjI ballI)
  show "\<exists>p. compose_prompt snapshot slot_id t attributes axis_values = Inr p"
    using assms by (rule validated_composes)
  fix body assume body: "body \<in> set (holes t)"
  from validated_slot [OF assms(1)] obtain slot where slot: "find_catalog_slot snapshot slot_id = Some slot" by blast
  show "\<exists>namespace key. shape_match body = Some (namespace, key)
        \<and> namespace \<in> {''input'', ''attr'', ''variant''}
        \<and> (namespace = ''input'' \<longrightarrow> (\<exists>slot r s. find_catalog_slot snapshot slot_id = Some slot
              \<and> r \<in> set (snc_input_requirements slot) \<and> s \<in> set (input_image_slots snapshot)
              \<and> sni_id s = snr_input_image_slot_id r \<and> sni_key s = key))"
  proof (rule placeholder_problems_Nil [OF validated_holes [OF assms(1) slot body]])
    fix namespace key
    assume "shape_match body = Some (namespace, key)" "namespace \<in> {''input'', ''attr'', ''variant''}"
      and "namespace = ''input'' \<longrightarrow> key \<in> set (required_keys snapshot slot)"
    with required_key_input [of key snapshot slot] slot show ?thesis
      by (intro exI [of _ namespace] exI [of _ key] conjI impI) auto
  qed
qed

theorem validated_template_composes_witness:
  "\<exists>p. compose_prompt \<lparr>attribute_definitions = [], variant_axes = [], input_image_slots = [],
      catalog_image_slots = [\<lparr>snc_id = ''s'', snc_category_id = [], snc_key = [], snc_label = [],
        snc_description = None, snc_position = 0, snc_aspect_ratio = [], snc_target_width = 1,
        snc_target_height = 1, snc_is_required = True, snc_input_requirements = []\<rparr>]\<rparr>
      ''s'' ''plain'' [] [] = Inr p"
  using validated_template_composes [of "\<lparr>attribute_definitions = [], variant_axes = [], input_image_slots = [],
      catalog_image_slots = [\<lparr>snc_id = ''s'', snc_category_id = [], snc_key = [], snc_label = [],
        snc_description = None, snc_position = 0, snc_aspect_ratio = [], snc_target_width = 1,
        snc_target_height = 1, snc_is_required = True, snc_input_requirements = []\<rparr>]\<rparr>" "''s''" "''plain''" "[]" "[]"]
  by (simp add: validate_template_placeholders_def find_catalog_slot_def holes_def segments.simps match_at_def)

section \<open>Forbidden claims\<close>

lemma occurs_in_iff: "occurs_in needle s \<longleftrightarrow> (\<exists>a b. s = a @ needle @ b)"
proof (induction s)
  case (Cons c cs)
  have "take (length needle) (c # cs) = needle \<longleftrightarrow> (\<exists>b. c # cs = needle @ b)"
    by (metis append_eq_conv_conj append_take_drop_id)
  moreover have "(\<exists>a b. c # cs = a @ needle @ b)
      \<longleftrightarrow> (\<exists>b. c # cs = needle @ b) \<or> (\<exists>a b. cs = a @ needle @ b)"
    by (metis append_Cons append_Nil list.exhaust list.inject)
  ultimately show ?case using Cons.IH by simp
qed simp

lemma occurs_in_trans: "occurs_in a b \<Longrightarrow> occurs_in b c \<Longrightarrow> occurs_in a c"
  by (metis append.assoc occurs_in_iff)

lemma occurs_in_lower: "occurs_in a b \<Longrightarrow> occurs_in (lower a) (lower b)"
  by (metis lower_def map_append occurs_in_iff)

lemma occurs_in_join: "s \<in> set ss \<Longrightarrow> occurs_in s (join sep ss)"
proof (cases ss)
  case (Cons x xs)
  have rest: "occurs_in s (concat (map (\<lambda>y. sep @ y) xs))" if "s \<in> set xs"
  proof -
    from that obtain p q where "xs = p @ s # q" by (meson split_list)
    then have "concat (map (\<lambda>y. sep @ y) xs)
        = (concat (map (\<lambda>y. sep @ y) p) @ sep) @ s @ concat (map (\<lambda>y. sep @ y) q)" by simp
    then show ?thesis unfolding occurs_in_iff by blast
  qed
  assume "s \<in> set ss"
  with Cons consider "s = x" | "s \<in> set xs" by auto
  then show ?thesis
  proof cases
    case 1
    with Cons show ?thesis by (auto simp: join_def occurs_in_iff intro: exI [of _ "[]"])
  next
    case 2
    have "occurs_in (concat (map (\<lambda>y. sep @ y) xs)) (join sep ss)"
      using Cons by (auto simp: join_def occurs_in_iff intro: exI [of _ x] exI [of _ "[]"])
    with rest [OF 2] show ?thesis by (rule occurs_in_trans)
  qed
qed simp

lemma clean_copy:
  assumes "validate_copy c forbidden_claims = None" and "phrase \<in> set forbidden_claims"
  shows "\<not> occurs_in (lower phrase) (lower (or_empty (gc_title c)))" "\<not> occurs_in (lower phrase) (lower (gc_body c))"
    "\<not> occurs_in (lower phrase) (lower (or_empty (gc_cta c)))" "tag \<in> set (gc_hashtags c) \<Longrightarrow> \<not> occurs_in (lower phrase) (lower tag)"
proof -
  let ?parts = "[or_empty (gc_title c), gc_body c, or_empty (gc_cta c), join '' '' (gc_hashtags c)]"
  from assms have not_in: "\<not> occurs_in (lower phrase) (copy_haystack c)"
    by (simp add: validate_copy_def find_None_iff)
  have part: "\<not> occurs_in (lower phrase) (lower s)" if "s \<in> set ?parts" for s
    using not_in occurs_in_lower [OF occurs_in_join [OF that, of "'' ''"]] occurs_in_trans
    unfolding copy_haystack_def by blast
  then show "\<not> occurs_in (lower phrase) (lower (or_empty (gc_title c)))" "\<not> occurs_in (lower phrase) (lower (gc_body c))"
    "\<not> occurs_in (lower phrase) (lower (or_empty (gc_cta c)))" by simp_all
  show "\<not> occurs_in (lower phrase) (lower tag)" if "tag \<in> set (gc_hashtags c)"
    using part [of "join '' '' (gc_hashtags c)"] occurs_in_lower [OF occurs_in_join [OF that, of "'' ''"]]
      occurs_in_trans by auto
qed

text \<open>
  Copy that passes the brand check names no forbidden claim, in any letter case, in its title,
  body, call to action or a hashtag. The check looks nowhere else: replacing the image's alt text
  never changes its verdict.
\<close>

theorem accepted_copy_is_clean:
  assumes "validate_copy c forbidden_claims = None" and "phrase \<in> set forbidden_claims"
  shows "\<not> occurs_in (lower phrase) (lower (or_empty (gc_title c)))
     \<and> \<not> occurs_in (lower phrase) (lower (gc_body c))
     \<and> \<not> occurs_in (lower phrase) (lower (or_empty (gc_cta c)))
     \<and> (\<forall>tag \<in> set (gc_hashtags c). \<not> occurs_in (lower phrase) (lower tag))
     \<and> validate_copy (c\<lparr>gc_alt_text := alt\<rparr>) forbidden_claims = None"
proof -
  have "validate_copy (c\<lparr>gc_alt_text := alt\<rparr>) forbidden_claims = None"
    using assms(1) by (simp add: validate_copy_def copy_haystack_def)
  with clean_copy [OF assms] show ?thesis by blast
qed

theorem accepted_copy_is_clean_witness:
  "validate_copy \<lparr>gc_title = None, gc_body = ''Soft'', gc_hashtags = [], gc_cta = None,
      gc_alt_text = ''Pure Silk'', gc_model = [], gc_cost_micros = 0, gc_latency_ms = 0\<rparr> [''silk''] = None"
  using accepted_copy_is_clean [of "\<lparr>gc_title = None, gc_body = ''Soft'', gc_hashtags = [], gc_cta = None,
      gc_alt_text = [], gc_model = [], gc_cost_micros = 0, gc_latency_ms = 0\<rparr>" "[''silk'']" "''silk''" "''Pure Silk''"]
  by (simp add: validate_copy_def copy_haystack_def or_empty_def join_def lower_def lower_char_def Let_def)

end
