(* ===== verification/Generation.thy ===== *)
theory Generation
  imports Prompts Calendar
begin

text \<open>
  The generation pipeline as transactions: features/products/create\_generation\_request.py and
  fan\_out\_generation\_items.py, features/generation/*.py, and the two agents that run the render
  and the quality check around the calls to the providers (agents/generation\_render.py,
  agents/catalog\_image\_qc.py). What the providers, Pillow, the hash and the object storage answer
  are arguments; so are the identifiers and seeds drawn at random.
\<close>

section \<open>Repositories\<close>

definition product_get :: "uuid \<Rightarrow> uuid \<Rightarrow> db \<Rightarrow> product option" where
  "product_get tenant_id product_id s = scoped_get prod_tenant_id (db_products s) tenant_id product_id"

definition variant_get :: "uuid \<Rightarrow> uuid \<Rightarrow> db \<Rightarrow> product_variant option" where
  "variant_get tenant_id variant_id s = scoped_get pv_tenant_id (db_variants s) tenant_id variant_id"

definition spec_version_get :: "uuid \<Rightarrow> uuid \<Rightarrow> db \<Rightarrow> category_spec_version option" where
  "spec_version_get tenant_id version_id s =
     scoped_get csv_tenant_id (db_spec_versions s) tenant_id version_id"

definition asset_get :: "uuid \<Rightarrow> uuid \<Rightarrow> db \<Rightarrow> asset option" where
  "asset_get tenant_id i s = scoped_get asset_tenant_id (db_assets s) tenant_id i"

definition asset_get_by_sha256 :: "uuid \<Rightarrow> string \<Rightarrow> asset_kind \<Rightarrow> db \<Rightarrow> asset option result" where
  "asset_get_by_sha256 tenant_id sha256 kind s =
     scalar_one_or_none (filter (\<lambda>a. asset_tenant_id a = tenant_id \<and> asset_sha256 a = lower sha256
       \<and> asset_kind a = kind) (rows (db_assets s)))"

text \<open>Migration a1c3e9f2b7d4: one asset per tenant, hash and kind.\<close>

definition asset_clash :: "asset \<Rightarrow> asset \<Rightarrow> bool" where
  "asset_clash a r \<longleftrightarrow> asset_tenant_id r = asset_tenant_id a \<and> asset_sha256 r = asset_sha256 a
     \<and> asset_kind r = asset_kind a"

definition asset_add :: "asset \<Rightarrow> db \<Rightarrow> db result" where
  "asset_add a s = bind_result (tbl_add_unique asset_clash (asset_id a) a (db_assets s))
     (\<lambda>t. Inr (s\<lparr>db_assets := t\<rparr>))"

definition input_images_list_for_product :: "uuid \<Rightarrow> uuid \<Rightarrow> db \<Rightarrow> product_input_image list" where
  "input_images_list_for_product tenant_id product_id s =
     filter (\<lambda>i. pii_tenant_id i = tenant_id \<and> pii_product_id i = product_id) (rows (db_input_images s))"

definition template_get :: "uuid \<Rightarrow> uuid \<Rightarrow> db \<Rightarrow> catalog_template option" where
  "template_get tenant_id template_id s = scoped_get ct_tenant_id (db_templates s) tenant_id template_id"

definition templates_list_for_catalog_slot :: "uuid \<Rightarrow> uuid \<Rightarrow> db \<Rightarrow> catalog_template list" where
  "templates_list_for_catalog_slot tenant_id slot_id s =
     sort_key ct_position (filter (\<lambda>t. ct_tenant_id t = tenant_id
       \<and> ct_catalog_image_slot_id t = slot_id) (rows (db_templates s)))"

definition request_get :: "uuid \<Rightarrow> uuid \<Rightarrow> db \<Rightarrow> generation_request option" where
  "request_get tenant_id request_id s = scoped_get gr_tenant_id (db_requests s) tenant_id request_id"

definition request_add :: "generation_request \<Rightarrow> db \<Rightarrow> db result" where
  "request_add r s = bind_result (tbl_add (gr_id r) r (db_requests s)) (\<lambda>t. Inr (s\<lparr>db_requests := t\<rparr>))"

definition request_update :: "generation_request \<Rightarrow> db \<Rightarrow> db" where
  "request_update r s = s\<lparr>db_requests := tbl_put (gr_id r) r (db_requests s)\<rparr>"

definition list_running_for_update :: "uuid \<Rightarrow> nat \<Rightarrow> db \<Rightarrow> generation_request list" where
  "list_running_for_update tenant_id limit s =
     take limit (sort_key gr_created_at (filter (\<lambda>r. gr_tenant_id r = tenant_id
       \<and> gr_status r = REQ_RUNNING) (rows (db_requests s))))"

definition item_get :: "uuid \<Rightarrow> uuid \<Rightarrow> db \<Rightarrow> generation_item option" where
  "item_get tenant_id item_id s = scoped_get gi_tenant_id (db_items s) tenant_id item_id"

text \<open>Migration b6d8f2a4c1e9: one item per request, slot and attempt.\<close>

definition item_clash :: "generation_item \<Rightarrow> generation_item \<Rightarrow> bool" where
  "item_clash i r \<longleftrightarrow> gi_tenant_id r = gi_tenant_id i \<and> gi_request_id r = gi_request_id i
     \<and> gi_catalog_image_slot_id r = gi_catalog_image_slot_id i \<and> gi_attempt_no r = gi_attempt_no i"

definition item_add :: "generation_item \<Rightarrow> db \<Rightarrow> db result" where
  "item_add i s = bind_result (tbl_add_unique item_clash (gi_id i) i (db_items s))
     (\<lambda>t. Inr (s\<lparr>db_items := t\<rparr>))"

definition item_update :: "generation_item \<Rightarrow> db \<Rightarrow> db" where
  "item_update i s = s\<lparr>db_items := tbl_put (gi_id i) i (db_items s)\<rparr>"

definition items_list_for_request :: "uuid \<Rightarrow> uuid \<Rightarrow> db \<Rightarrow> generation_item list" where
  "items_list_for_request tenant_id request_id s =
     filter (\<lambda>i. gi_tenant_id i = tenant_id \<and> gi_request_id i = request_id) (rows (db_items s))"

definition image_get :: "uuid \<Rightarrow> uuid \<Rightarrow> db \<Rightarrow> catalog_image option" where
  "image_get tenant_id image_id s = scoped_get ci_tenant_id (db_images s) tenant_id image_id"

definition same_slot :: "uuid \<Rightarrow> uuid \<Rightarrow> uuid \<Rightarrow> catalog_image \<Rightarrow> bool" where
  "same_slot tenant_id variant_id slot_id i \<longleftrightarrow> ci_tenant_id i = tenant_id
     \<and> ci_variant_id i = variant_id \<and> ci_catalog_image_slot_id i = slot_id"

definition image_get_live :: "uuid \<Rightarrow> uuid \<Rightarrow> uuid \<Rightarrow> db \<Rightarrow> catalog_image option result" where
  "image_get_live tenant_id variant_id slot_id s =
     scalar_one_or_none (filter (\<lambda>i. same_slot tenant_id variant_id slot_id i
       \<and> ci_superseded_by i = None) (rows (db_images s)))"

text \<open>The partial unique index of migration c9e1a3f5b7d2.\<close>

definition image_clash :: "catalog_image \<Rightarrow> catalog_image \<Rightarrow> bool" where
  "image_clash i r \<longleftrightarrow> same_slot (ci_tenant_id i) (ci_variant_id i) (ci_catalog_image_slot_id i) r
     \<and> ci_superseded_by r = None \<and> ci_superseded_by i = None"

definition image_add :: "catalog_image \<Rightarrow> db \<Rightarrow> db result" where
  "image_add i s = bind_result (tbl_add_unique image_clash (ci_id i) i (db_images s))
     (\<lambda>t. Inr (s\<lparr>db_images := t\<rparr>))"

definition image_update :: "catalog_image \<Rightarrow> db \<Rightarrow> db" where
  "image_update i s = s\<lparr>db_images := tbl_put (ci_id i) i (db_images s)\<rparr>"

text \<open>The page of live images after a cursor, by creation time and identifier.\<close>

definition images_list_page ::
  "uuid \<Rightarrow> catalog_image_status option \<Rightarrow> uuid option \<Rightarrow> (datetime \<times> uuid) option \<Rightarrow> nat \<Rightarrow> db
    \<Rightarrow> catalog_image list" where
  "images_list_page tenant_id status product_id cursor limit s =
     take limit (sort_key (\<lambda>i. (ci_created_at i, ci_id i)) (filter (\<lambda>i.
         ci_tenant_id i = tenant_id \<and> ci_superseded_by i = None
       \<and> (case status of None \<Rightarrow> True | Some st \<Rightarrow> ci_status i = st)
       \<and> (case product_id of None \<Rightarrow> True | Some p \<Rightarrow>
            (case variant_get tenant_id (ci_variant_id i) s of None \<Rightarrow> False
             | Some v \<Rightarrow> pv_product_id v = p))
       \<and> (case cursor of None \<Rightarrow> True | Some c \<Rightarrow> c < (ci_created_at i, ci_id i)))
      (rows (db_images s))))"

section \<open>Requests and their fan-out\<close>

definition QUOTA_METRIC :: string where "QUOTA_METRIC = ''generation.images''"

definition quota_key_of :: "uuid \<Rightarrow> datetime \<Rightarrow> quota_key" where
  "quota_key_of tenant_id t = (tenant_id, month_key t, QUOTA_METRIC)"

definition required_slots :: "spec_snapshot \<Rightarrow> snap_catalog_slot list" where
  "required_slots snapshot = filter snc_is_required (catalog_image_slots snapshot)"

definition PINNED_SPEC_MISSING :: exn where
  "PINNED_SPEC_MISSING =
     NotFoundError ''The product's pinned spec version is missing (data inconsistency).''"

definition CreateGenerationRequest ::
  "uuid \<Rightarrow> uuid \<Rightarrow> uuid \<Rightarrow> uuid \<Rightarrow> uuid \<Rightarrow> uuid \<Rightarrow> uuid \<Rightarrow> datetime
    \<Rightarrow> generation_request use_case" where
  "CreateGenerationRequest new_id event_id audit_id tenant_id product_id variant_id requested_by now s =
     bind_result (require (NotFoundError ''Product not found.'') (product_get tenant_id product_id s))
       (\<lambda>product.
     bind_result (require (NotFoundError ''Product variant not found.'')
         (case variant_get tenant_id variant_id s of None \<Rightarrow> None
          | Some v \<Rightarrow> if pv_product_id v \<noteq> product_id then None else Some v)) (\<lambda>_.
     bind_result (require PINNED_SPEC_MISSING
         (spec_version_get tenant_id (prod_spec_version_id product) s)) (\<lambda>spec_version.
     let required_slot_count = int (length (required_slots (csv_snapshot spec_version)));
         k = quota_key_of tenant_id now
     in if required_slot_count = 0
        then Inl (NotFoundError ''This product's spec has no required catalog image slots to generate.'')
        else (case quota_reserve k required_slot_count now s of
          (reserved, s1) \<Rightarrow>
            if \<not> reserved
            then Inl (QuotaExceededError (''Quota exceeded for '' @ py_repr QUOTA_METRIC @ '' in period ''
                   @ py_repr (month_key now) @ '': cannot reserve '' @ str_int required_slot_count
                   @ '' more.''))
            else bind_result (require AssertionError (map_of (db_quota s1) k)) (\<lambda>reservation.
              let request = GenerationRequest_create new_id tenant_id product_id variant_id
                    (prod_spec_version_id product) [] (Some (qr_id reservation)) requested_by now
              in bind_result (request_add request s1) (\<lambda>s2.
                 bind_result (outbox_add event_id tenant_id ''generation_request.created''
                   [(''generation_request_id'', uuid_str (gr_id request))] now s2) (\<lambda>s3.
                 bind_result (audit_record audit_id tenant_id (Some requested_by)
                   ''generation_request.created'' ''generation_request'' (gr_id request) None
                   (Some [(''product_id'', JStr (uuid_str product_id)),
                          (''variant_id'', JStr (uuid_str variant_id)),
                          (''required_slot_count'', JInt required_slot_count)]) now s3)
                   (\<lambda>s4. Inr (request, s4)))))))))"

text \<open>What the fan-out draws for its n-th item: two identifiers and a seed.\<close>

record item_draw =
  dr_item_id :: uuid
  dr_event_id :: uuid
  dr_seed :: int

definition COMPOSITION_VERSION :: string where "COMPOSITION_VERSION = ''composition-v1''"

definition pick_default_template :: "uuid \<Rightarrow> snap_catalog_slot \<Rightarrow> db \<Rightarrow> catalog_template result" where
  "pick_default_template tenant_id slot s =
     bind_result (uuid_parse (snc_id slot)) (\<lambda>slot_id.
       require (ValidationError (''Catalog slot '' @ py_repr (snc_key slot)
           @ '' has no default, analysed template to generate from.''))
         (find (\<lambda>t. ct_is_default t \<and> ct_status t = TPL_ANALYSED)
           (templates_list_for_catalog_slot tenant_id slot_id s)))"

definition resolve_required_inputs ::
  "snap_catalog_slot \<Rightarrow> product_input_image list \<Rightarrow> uuid \<Rightarrow> uuid list result" where
  "resolve_required_inputs slot captured_images variant_id =
     bind_result (map_result (\<lambda>requirement.
         bind_result (uuid_parse (snr_input_image_slot_id requirement)) (\<lambda>slot_id.
           case resolve_input_image captured_images (Some variant_id) slot_id of
             Some photo \<Rightarrow> Inr [pii_asset_id photo]
           | None \<Rightarrow> if snr_is_required requirement
               then Inl (ValidationError (''Required input ''
                      @ py_repr (snr_input_image_slot_id requirement) @ '' for catalog slot ''
                      @ py_repr (snc_key slot) @ '' was never captured.''))
               else Inr []))
       (snc_input_requirements slot))
     (\<lambda>ids. Inr (concat ids))"

record fan_out_inputs =
  fo_snapshot :: spec_snapshot
  fo_ready_images :: "product_input_image list"
  fo_attributes :: "(string, json) dict"
  fo_variant :: product_variant
  fo_request :: generation_request
  fo_provider :: string
  fo_model :: string

definition fan_out_item ::
  "fan_out_inputs \<Rightarrow> uuid \<Rightarrow> datetime \<Rightarrow> item_draw \<Rightarrow> snap_catalog_slot \<Rightarrow> db \<Rightarrow> generation_item result" where
  "fan_out_item inp tenant_id now d slot s =
     bind_result (pick_default_template tenant_id slot s) (\<lambda>template.
     bind_result (resolve_required_inputs slot (fo_ready_images inp) (pv_id (fo_variant inp)))
       (\<lambda>input_asset_ids.
     bind_result (compose_prompt (fo_snapshot inp) (snc_id slot) (or_empty (ct_prompt_template template))
         (fo_attributes inp) (pv_axis_values (fo_variant inp))) (\<lambda>prompt_rendered.
       Inr (GenerationItem_create (dr_item_id d) tenant_id (gr_id (fo_request inp))
         (ct_catalog_image_slot_id template) (ct_id template) 1 (fo_provider inp) (fo_model inp) []
         (dr_seed d) prompt_rendered COMPOSITION_VERSION input_asset_ids now))))"

definition request_render :: "uuid \<Rightarrow> datetime \<Rightarrow> uuid \<Rightarrow> generation_item \<Rightarrow> db \<Rightarrow> db result" where
  "request_render tenant_id now event_id item s =
     bind_result (item_add item s) (\<lambda>s1.
       outbox_add event_id tenant_id ''generation_item.render_requested''
         [(''generation_item_id'', uuid_str (gi_id item))] now s1)"

definition fan_out_one ::
  "fan_out_inputs \<Rightarrow> uuid \<Rightarrow> datetime \<Rightarrow> (nat \<Rightarrow> item_draw) \<Rightarrow> snap_catalog_slot
    \<Rightarrow> generation_item list \<times> db \<Rightarrow> (generation_item list \<times> db) result" where
  "fan_out_one inp tenant_id now draw slot acc = (case acc of (items, s) \<Rightarrow>
     let d = draw (length items) in
     bind_result (fan_out_item inp tenant_id now d slot s) (\<lambda>item.
     bind_result (request_render tenant_id now (dr_event_id d) item s) (\<lambda>s'.
       Inr (items @ [item], s'))))"

definition FanOutGenerationItems ::
  "string \<Rightarrow> string \<Rightarrow> (nat \<Rightarrow> item_draw) \<Rightarrow> uuid \<Rightarrow> uuid \<Rightarrow> uuid \<Rightarrow> datetime
    \<Rightarrow> generation_item list use_case" where
  "FanOutGenerationItems provider model draw audit_id tenant_id request_id now s =
     bind_result (require (NotFoundError ''Generation request not found.'')
         (request_get tenant_id request_id s)) (\<lambda>request.
     if gr_status request \<noteq> REQ_QUEUED
     then Inl (ValidationError (''Cannot fan out from status ''
            @ quoted (generation_request_status_value (gr_status request))
            @ '' - a request is only fanned out once, from 'queued'.''))
     else
     bind_result (require (NotFoundError ''Product not found.'')
         (product_get tenant_id (gr_product_id request) s)) (\<lambda>product.
     bind_result (require (NotFoundError ''Product variant not found.'')
         (variant_get tenant_id (gr_variant_id request) s)) (\<lambda>variant.
     bind_result (require PINNED_SPEC_MISSING
         (spec_version_get tenant_id (prod_spec_version_id product) s)) (\<lambda>spec_version.
     let inp = \<lparr>fo_snapshot = csv_snapshot spec_version,
           fo_ready_images = filter (\<lambda>i. pii_status i = INPUT_READY)
              (input_images_list_for_product tenant_id (prod_id product) s),
           fo_attributes = merge_attributes (prod_attributes product) (pv_attributes variant),
           fo_variant = variant, fo_request = request, fo_provider = provider, fo_model = model\<rparr>
     in bind_result (fold_result (fan_out_one inp tenant_id now draw)
            (required_slots (csv_snapshot spec_version)) ([], s)) (\<lambda>(items, s1).
        bind_result (GenerationRequest_mark_running now request) (\<lambda>request.
        bind_result (audit_record audit_id tenant_id (Some (gr_requested_by request))
            ''generation_request.fanned_out'' ''generation_request'' (gr_id request) None
            (Some [(''item_count'', JInt (int (length items)))]) now (request_update request s1))
          (\<lambda>s2. Inr (items, s2))))))))"

section \<open>Rendering\<close>

definition RENDER_JOB_TYPE :: string where "RENDER_JOB_TYPE = ''generation_item.render_requested''"
definition RENDER_CLAIMED_BY :: string where "RENDER_CLAIMED_BY = ''generation-render-worker''"

record render_context =
  rc_job_id :: uuid
  rc_item_id :: uuid
  rc_prompt :: string
  rc_model :: string
  rc_seed :: int
  rc_model_params :: "(string, json) dict"
  rc_reference_storage_keys :: "string list"

definition reference_key :: "uuid \<Rightarrow> db \<Rightarrow> uuid \<Rightarrow> string result" where
  "reference_key tenant_id s i =
     bind_result (require (NotFoundError (''Reference asset '' @ uuid_str i @ '' not found.''))
         (asset_get tenant_id i s)) (\<lambda>a. Inr (asset_storage_key a))"

definition StartGenerationItemRender :: "rat \<Rightarrow> uuid \<Rightarrow> datetime \<Rightarrow> render_context option use_case" where
  "StartGenerationItemRender jitter tenant_id now s =
     (case claim tenant_id RENDER_CLAIMED_BY (Some RENDER_JOB_TYPE) now (db_jobs s) of
        (None, _) \<Rightarrow> Inr (None, s)
      | (Some job, q) \<Rightarrow>
          let s1 = s\<lparr>db_jobs := q\<rparr> in
          bind_result (dict_item py_repr (job_payload job) ''generation_item_id'') (\<lambda>raw.
          bind_result (uuid_parse raw) (\<lambda>item_id.
            case item_get tenant_id item_id s1 of
              None \<Rightarrow> bind_result (fail_job jitter tenant_id (job_id job)
                        (''generation_item '' @ uuid_str item_id @ '' not found'') now q)
                        (\<lambda>(_, q'). Inr (None, s1\<lparr>db_jobs := q'\<rparr>))
            | Some item \<Rightarrow>
                bind_result (map_result (reference_key tenant_id s1) (gi_input_asset_ids item))
                  (\<lambda>reference_storage_keys.
                bind_result (GenerationItem_mark_running item) (\<lambda>item.
                  Inr (Some \<lparr>rc_job_id = job_id job, rc_item_id = gi_id item,
                             rc_prompt = gi_prompt_rendered item, rc_model = gi_model item,
                             rc_seed = gi_seed item, rc_model_params = gi_model_params item,
                             rc_reference_storage_keys = reference_storage_keys\<rparr>,
                       item_update item s1))))))"

text \<open>
  The bytes a provider returned, as the code sees them through Pillow, SHA-256 and the object
  storage: the inspection (or its error), the hash, the length, the fresh storage key, and how the
  write and the delete of that key end.
\<close>

record image_inspection =
  ins_mime :: string
  ins_width :: int
  ins_height :: int

record stored_file =
  sf_inspection :: "image_inspection result"
  sf_sha256 :: string
  sf_length :: int
  sf_storage_key :: string
  sf_write :: "unit result"
  sf_delete :: "unit result"

definition EXTENSION_FOR_MIME :: "(string, string) dict" where
  "EXTENSION_FOR_MIME = [(''image/jpeg'', ''jpg''), (''image/png'', ''png''), (''image/webp'', ''webp'')]"

record completion_ids =
  cp_asset_id :: uuid
  cp_image_id :: uuid
  cp_event_id :: uuid
  cp_audit_id :: uuid

definition register_generated_asset ::
  "uuid \<Rightarrow> uuid \<Rightarrow> stored_file \<Rightarrow> image_inspection \<Rightarrow> datetime \<Rightarrow> asset use_case" where
  "register_generated_asset new_id tenant_id f inspection now s =
     bind_result (asset_get_by_sha256 tenant_id (sf_sha256 f) ASSET_GENERATED s) (\<lambda>found.
       case found of
         Some a \<Rightarrow> bind_result (sf_delete f) (\<lambda>_. Inr (a, s))
       | None \<Rightarrow>
           bind_result (Asset_create new_id tenant_id (sf_storage_key f) (sf_sha256 f) (ins_mime inspection)
               (ins_width inspection) (ins_height inspection) (sf_length f) ASSET_GENERATED ''generation''
               now None None None) (\<lambda>a.
           bind_result (asset_add a s) (\<lambda>s1. Inr (a, s1))))"

text \<open>Retire the live image of the slot, if any, then insert the new one.\<close>

definition replace_live_image :: "catalog_image \<Rightarrow> datetime \<Rightarrow> db \<Rightarrow> db result" where
  "replace_live_image new_image now s =
     bind_result (image_get_live (ci_tenant_id new_image) (ci_variant_id new_image)
         (ci_catalog_image_slot_id new_image) s) (\<lambda>live.
     bind_result (case live of None \<Rightarrow> Inr s
       | Some old \<Rightarrow> bind_result (CatalogImage_mark_superseded (ci_id new_image) now old)
           (\<lambda>old. Inr (image_update old s))) (\<lambda>s1.
     image_add new_image s1))"

definition CompleteGenerationItemRender ::
  "completion_ids \<Rightarrow> stored_file \<Rightarrow> uuid \<Rightarrow> uuid \<Rightarrow> uuid \<Rightarrow> int \<Rightarrow> int \<Rightarrow> datetime
    \<Rightarrow> generation_item use_case" where
  "CompleteGenerationItemRender ids f tenant_id item_id jid cost_micros latency_ms now s =
     bind_result (sf_inspection f) (\<lambda>inspection.
     bind_result (dict_item py_repr EXTENSION_FOR_MIME (ins_mime inspection)) (\<lambda>_.
     bind_result (sf_write f) (\<lambda>_.
     bind_result (require (NotFoundError ''Generation item not found.'') (item_get tenant_id item_id s))
       (\<lambda>item.
     bind_result (require (NotFoundError ''Generation request not found.'')
         (request_get tenant_id (gi_request_id item) s)) (\<lambda>request.
     bind_result (register_generated_asset (cp_asset_id ids) tenant_id f inspection now s) (\<lambda>(a, s1).
     bind_result (GenerationItem_mark_succeeded (asset_id a) cost_micros latency_ms item) (\<lambda>item.
     let s2 = item_update item s1;
         new_image = CatalogImage_create (cp_image_id ids) tenant_id (gr_variant_id request)
           (gi_catalog_image_slot_id item) (asset_id a) (gi_id item) now False
     in bind_result (replace_live_image new_image now s2) (\<lambda>s3.
        bind_result (outbox_add (cp_event_id ids) tenant_id ''catalog_image.qc_requested''
            [(''catalog_image_id'', uuid_str (ci_id new_image))] now s3) (\<lambda>s4.
        bind_result (audit_record (cp_audit_id ids) tenant_id None ''generation_item.succeeded''
            ''generation_item'' (gi_id item) None
            (Some [(''catalog_image_id'', JStr (uuid_str (ci_id new_image))),
                   (''asset_id'', JStr (uuid_str (asset_id a)))]) now
            (s4\<lparr>db_jobs := complete_job tenant_id jid now (db_jobs s4)\<rparr>))
          (\<lambda>s5. Inr (item, s5)))))))))))"

definition FailGenerationItemRender ::
  "rat \<Rightarrow> uuid \<Rightarrow> uuid \<Rightarrow> uuid \<Rightarrow> uuid \<Rightarrow> string \<Rightarrow> string \<Rightarrow> datetime \<Rightarrow> generation_item use_case" where
  "FailGenerationItemRender jitter audit_id tenant_id item_id jid error_code error_detail now s =
     bind_result (require (NotFoundError ''Generation item not found.'') (item_get tenant_id item_id s))
       (\<lambda>item.
     bind_result (GenerationItem_mark_failed error_code error_detail item) (\<lambda>item.
     let s1 = item_update item s in
     bind_result (fail_job jitter tenant_id jid (error_code @ '': '' @ error_detail) now (db_jobs s1))
       (\<lambda>(new_job_status, q).
     bind_result (if new_job_status = JOB_DEAD then GenerationItem_mark_dead item else Inr item) (\<lambda>item.
     bind_result (audit_record audit_id tenant_id None ''generation_item.failed'' ''generation_item''
         (gi_id item) None
         (Some [(''error_code'', JStr error_code),
                (''status'', JStr (generation_item_status_value (gi_status item)))]) now
         (item_update item (s1\<lparr>db_jobs := q\<rparr>)))
       (\<lambda>s2. Inr (item, s2))))))"

section \<open>Quality control\<close>

definition QC_JOB_TYPE :: string where "QC_JOB_TYPE = ''catalog_image.qc_requested''"
definition QC_CLAIMED_BY :: string where "QC_CLAIMED_BY = ''catalog-image-qc-worker''"
definition APPROVAL_REQUIRED_KEY :: string where "APPROVAL_REQUIRED_KEY = ''approval.required''"

text \<open>A slot missing from the snapshot is \<open>{}\<close> in the code and \<open>None\<close> here.\<close>

record qc_context =
  qc_job_id :: uuid
  qc_catalog_image_id :: uuid
  qc_image_storage_key :: string
  qc_reference_storage_keys :: "string list"
  qc_slot_spec :: "snap_catalog_slot option"
  qc_declared_colour :: json

definition declared_colour :: "spec_snapshot \<Rightarrow> (string, json) dict \<Rightarrow> json" where
  "declared_colour snapshot merged =
     (case find (\<lambda>a. sna_semantic_role a = Some (semantic_role_value ROLE_COLOUR))
        (attribute_definitions snapshot) of
        None \<Rightarrow> JNull | Some a \<Rightarrow> dict_get merged (sna_key a) JNull)"

definition StartCatalogImageQc :: "rat \<Rightarrow> uuid \<Rightarrow> datetime \<Rightarrow> qc_context option use_case" where
  "StartCatalogImageQc jitter tenant_id now s =
     (case claim tenant_id QC_CLAIMED_BY (Some QC_JOB_TYPE) now (db_jobs s) of
        (None, _) \<Rightarrow> Inr (None, s)
      | (Some job, q) \<Rightarrow>
          let s1 = s\<lparr>db_jobs := q\<rparr> in
          bind_result (dict_item py_repr (job_payload job) ''catalog_image_id'') (\<lambda>raw.
          bind_result (uuid_parse raw) (\<lambda>image_id.
            case image_get tenant_id image_id s1 of
              None \<Rightarrow> bind_result (fail_job jitter tenant_id (job_id job)
                        (''catalog_image '' @ uuid_str image_id @ '' not found'') now q)
                        (\<lambda>(_, q'). Inr (None, s1\<lparr>db_jobs := q'\<rparr>))
            | Some img \<Rightarrow>
                bind_result (require (NotFoundError (''Catalog image asset '' @ uuid_str (ci_asset_id img)
                    @ '' not found.'')) (asset_get tenant_id (ci_asset_id img) s1)) (\<lambda>a.
                bind_result (require (NotFoundError (''Generation item ''
                    @ uuid_str (ci_generation_item_id img) @ '' not found.''))
                    (item_get tenant_id (ci_generation_item_id img) s1)) (\<lambda>item.
                bind_result (map_result (reference_key tenant_id s1) (gi_input_asset_ids item)) (\<lambda>keys.
                bind_result (require (NotFoundError ''Product variant not found.'')
                    (variant_get tenant_id (ci_variant_id img) s1)) (\<lambda>variant.
                bind_result (require (NotFoundError ''Product not found.'')
                    (product_get tenant_id (pv_product_id variant) s1)) (\<lambda>product.
                bind_result (require PINNED_SPEC_MISSING
                    (spec_version_get tenant_id (prod_spec_version_id product) s1)) (\<lambda>spec_version.
                let snapshot = csv_snapshot spec_version;
                    merged = merge_attributes (prod_attributes product) (pv_attributes variant)
                in Inr (Some \<lparr>qc_job_id = job_id job, qc_catalog_image_id = ci_id img,
                       qc_image_storage_key = asset_storage_key a, qc_reference_storage_keys = keys,
                       qc_slot_spec = find_catalog_slot snapshot (uuid_str (ci_catalog_image_slot_id img)),
                       qc_declared_colour = declared_colour snapshot merged\<rparr>, s1))))))))))"

record qc_verdict =
  ver_passed :: bool
  ver_checks :: "(string \<times> bool) list"
  ver_reason :: "string option"

definition checks_json :: "(string \<times> bool) list \<Rightarrow> (string, json) dict" where
  "checks_json cs = map (\<lambda>(k, b). (k, JBool b)) cs"

definition recompose_prompt ::
  "uuid \<Rightarrow> generation_item \<Rightarrow> uuid \<Rightarrow> db \<Rightarrow> string result" where
  "recompose_prompt tenant_id item template_id s =
     bind_result (require (NotFoundError ''Alternate template not found.'')
         (template_get tenant_id template_id s)) (\<lambda>template.
     bind_result (require (NotFoundError ''Generation request not found.'')
         (request_get tenant_id (gi_request_id item) s)) (\<lambda>request.
     bind_result (require (NotFoundError ''Product variant not found.'')
         (variant_get tenant_id (gr_variant_id request) s)) (\<lambda>variant.
     bind_result (require (NotFoundError ''Product not found.'')
         (product_get tenant_id (gr_product_id request) s)) (\<lambda>product.
     bind_result (require PINNED_SPEC_MISSING
         (spec_version_get tenant_id (prod_spec_version_id product) s)) (\<lambda>spec_version.
       compose_prompt (csv_snapshot spec_version) (uuid_str (gi_catalog_image_slot_id item))
         (or_empty (ct_prompt_template template))
         (merge_attributes (prod_attributes product) (pv_attributes variant))
         (pv_axis_values variant))))))"

definition retry_item ::
  "item_draw \<Rightarrow> uuid \<Rightarrow> generation_item \<Rightarrow> retry_rung \<Rightarrow> datetime \<Rightarrow> db \<Rightarrow> db result" where
  "retry_item d tenant_id item rung now s =
     bind_result (if rr_reuse_prompt rung then Inr (gi_prompt_rendered item)
         else recompose_prompt tenant_id item (rr_template_id rung) s) (\<lambda>prompt_rendered.
       request_render tenant_id now (dr_event_id d)
         (GenerationItem_create (dr_item_id d) tenant_id (gi_request_id item)
           (gi_catalog_image_slot_id item) (rr_template_id rung) (rr_attempt_no rung) (gi_provider item)
           (gi_model item) (gi_model_params item) (dr_seed d) prompt_rendered COMPOSITION_VERSION
           (gi_input_asset_ids item) now) s)"

definition qc_passed_image :: "uuid \<Rightarrow> qc_verdict \<Rightarrow> datetime \<Rightarrow> catalog_image \<Rightarrow> db \<Rightarrow> catalog_image result" where
  "qc_passed_image tenant_id verdict now img s =
     bind_result (CatalogImage_mark_qc_passed (checks_json (ver_checks verdict)) now img) (\<lambda>img.
     bind_result (require (NotFoundError ''Generation item not found.'')
         (item_get tenant_id (ci_generation_item_id img) s)) (\<lambda>item.
     bind_result (require (NotFoundError ''Generation request not found.'')
         (request_get tenant_id (gi_request_id item) s)) (\<lambda>request.
     bind_result (require (NotFoundError ''Product not found.'')
         (product_get tenant_id (gr_product_id request) s)) (\<lambda>product.
     bind_result (SettingsResolver_resolve tenant_id APPROVAL_REQUIRED_KEY
         (Some (prod_category_id product)) (Some (prod_id product)) s) (\<lambda>approval_required.
       if approval_required = JBool False then CatalogImage_approve None now img else Inr img)))))"

definition qc_failed_step ::
  "item_draw \<Rightarrow> uuid \<Rightarrow> qc_verdict \<Rightarrow> datetime \<Rightarrow> catalog_image \<Rightarrow> db \<Rightarrow> db result" where
  "qc_failed_step d tenant_id verdict now img s =
     bind_result (CatalogImage_mark_qc_failed (checks_json (ver_checks verdict)) now img) (\<lambda>img.
     let s1 = image_update img s in
     bind_result (require (NotFoundError ''Generation item not found.'')
         (item_get tenant_id (ci_generation_item_id img) s1)) (\<lambda>item.
     bind_result (next_rung
         (filter (\<lambda>i. gi_catalog_image_slot_id i = gi_catalog_image_slot_id item)
           (items_list_for_request tenant_id (gi_request_id item) s1))
         (templates_list_for_catalog_slot tenant_id (gi_catalog_image_slot_id item) s1)) (\<lambda>rung.
       case rung of
         None \<Rightarrow> bind_result (CatalogImage_mark_human_review
             (case ver_reason verdict of Some r \<Rightarrow> (if r \<noteq> [] then r else ''QC retry ladder exhausted.'')
              | None \<Rightarrow> ''QC retry ladder exhausted.'') now img) (\<lambda>img. Inr (image_update img s1))
       | Some rung \<Rightarrow> retry_item d tenant_id item rung now s1)))"

definition CompleteCatalogImageQc ::
  "item_draw \<Rightarrow> uuid \<Rightarrow> uuid \<Rightarrow> uuid \<Rightarrow> qc_verdict \<Rightarrow> datetime \<Rightarrow> unit use_case" where
  "CompleteCatalogImageQc d tenant_id image_id jid verdict now s =
     bind_result (require (NotFoundError ''Catalog image not found.'') (image_get tenant_id image_id s))
       (\<lambda>img.
     bind_result (if ver_passed verdict
         then bind_result (qc_passed_image tenant_id verdict now img s) (\<lambda>img. Inr (image_update img s))
         else qc_failed_step d tenant_id verdict now img s) (\<lambda>s1.
       Inr ((), s1\<lparr>db_jobs := complete_job tenant_id jid now (db_jobs s1)\<rparr>)))"

definition FailCatalogImageQc :: "rat \<Rightarrow> uuid \<Rightarrow> uuid \<Rightarrow> string \<Rightarrow> datetime \<Rightarrow> unit use_case" where
  "FailCatalogImageQc jitter tenant_id jid err now s =
     bind_result (fail_job jitter tenant_id jid err now (db_jobs s))
       (\<lambda>(_, q). Inr ((), s\<lparr>db_jobs := q\<rparr>))"

section \<open>Review\<close>

definition image_status :: "catalog_image \<Rightarrow> (string, json) dict" where
  "image_status img = [(''status'', JStr (catalog_image_status_value (ci_status img)))]"

definition ApproveCatalogImage :: "uuid \<Rightarrow> uuid \<Rightarrow> uuid \<Rightarrow> uuid \<Rightarrow> datetime \<Rightarrow> catalog_image use_case" where
  "ApproveCatalogImage audit_id tenant_id image_id approved_by now s =
     bind_result (require (NotFoundError ''Catalog image not found.'') (image_get tenant_id image_id s))
       (\<lambda>old.
     bind_result (CatalogImage_approve (Some approved_by) now old) (\<lambda>img.
     bind_result (audit_record audit_id tenant_id (Some approved_by) ''catalog_image.approved''
         ''catalog_image'' image_id (Some (image_status old)) (Some (image_status img)) now
         (image_update img s)) (\<lambda>s'. Inr (img, s'))))"

definition RejectCatalogImage ::
  "uuid \<Rightarrow> uuid \<Rightarrow> uuid \<Rightarrow> string \<Rightarrow> uuid \<Rightarrow> datetime \<Rightarrow> catalog_image use_case" where
  "RejectCatalogImage audit_id tenant_id image_id reason rejected_by now s =
     bind_result (require (NotFoundError ''Catalog image not found.'') (image_get tenant_id image_id s))
       (\<lambda>old.
     bind_result (CatalogImage_reject reason now old) (\<lambda>img.
     bind_result (audit_record audit_id tenant_id (Some rejected_by) ''catalog_image.rejected''
         ''catalog_image'' image_id (Some (image_status old))
         (Some (image_status img @ [(''rejection_reason'', JStr reason)])) now
         (image_update img s)) (\<lambda>s'. Inr (img, s'))))"

definition BULK_LIMIT :: nat where "BULK_LIMIT = 200"

definition bulk_approve_one ::
  "(uuid \<Rightarrow> uuid) \<Rightarrow> uuid \<Rightarrow> uuid \<Rightarrow> datetime \<Rightarrow> catalog_image \<Rightarrow> db \<Rightarrow> db result" where
  "bulk_approve_one audit_ids tenant_id approved_by now old s =
     bind_result (CatalogImage_approve (Some approved_by) now old) (\<lambda>img.
       audit_record (audit_ids (ci_id img)) tenant_id (Some approved_by) ''catalog_image.approved''
         ''catalog_image'' (ci_id img) (Some [(''status'', JStr ''pending_approval'')])
         (Some (image_status img)) now (image_update img s))"

definition BulkApproveCatalogImagesForProduct ::
  "(uuid \<Rightarrow> uuid) \<Rightarrow> uuid \<Rightarrow> uuid \<Rightarrow> uuid \<Rightarrow> datetime \<Rightarrow> nat use_case" where
  "BulkApproveCatalogImagesForProduct audit_ids tenant_id product_id approved_by now s =
     bind_result (require (NotFoundError ''Product not found.'') (product_get tenant_id product_id s))
       (\<lambda>_.
     let images = images_list_page tenant_id (Some IMG_PENDING_APPROVAL) (Some product_id) None
           (BULK_LIMIT + 1) s
     in if length images > BULK_LIMIT
        then Inl (ConflictError
          ''Too many pending images to approve in one request; approve in smaller batches.'')
        else bind_result (fold_result (bulk_approve_one audit_ids tenant_id approved_by now) images s)
          (\<lambda>s'. Inr (length images, s')))"

definition MAX_IMAGES :: nat where "MAX_IMAGES = 200"

definition ListPublicCatalogImagesForProduct :: "uuid \<Rightarrow> uuid \<Rightarrow> db \<Rightarrow> catalog_image list result" where
  "ListPublicCatalogImagesForProduct tenant_id product_id s =
     bind_result (require (NotFoundError ''Product not found.'')
         (case product_get tenant_id product_id s of None \<Rightarrow> None
          | Some p \<Rightarrow> if prod_status p \<noteq> PROD_PUBLISHED then None else Some p)) (\<lambda>_.
       Inr (images_list_page tenant_id (Some IMG_APPROVED) (Some product_id) None MAX_IMAGES s))"

section \<open>The reconciler\<close>

definition settle_request ::
  "generation_request_status \<Rightarrow> datetime \<Rightarrow> generation_request \<Rightarrow> generation_request result" where
  "settle_request status now request =
     (if status = REQ_SUCCEEDED then GenerationRequest_mark_succeeded now request
      else if status = REQ_PARTIALLY_FAILED then GenerationRequest_mark_partially_failed now request
      else if status = REQ_FAILED then GenerationRequest_mark_failed now request
      else Inl (NotImplementedError (''Unhandled rollup status ''
             @ generation_request_status_value status @ ''.'')))"

definition reservation_mismatch :: "generation_request \<Rightarrow> uuid \<Rightarrow> exn" where
  "reservation_mismatch request reservation_id =
     NotFoundError (''Generation request '' @ uuid_str (gr_id request) @ [CHR 0x27]
       @ ''s quota reservation '' @ uuid_str reservation_id @ '' no longer matches the ''
       @ py_repr (month_key (gr_created_at request)) @ ''/'' @ py_repr QUOTA_METRIC
       @ '' row (data inconsistency).'')"

definition settle_quota :: "uuid \<Rightarrow> generation_request \<Rightarrow> request_rollup \<Rightarrow> datetime \<Rightarrow> db \<Rightarrow> db result" where
  "settle_quota tenant_id request rollup now s =
     (case gr_quota_reservation_id request of None \<Rightarrow> Inr s
      | Some reservation_id \<Rightarrow>
          let k = quota_key_of tenant_id (gr_created_at request) in
          bind_result (require (reservation_mismatch request reservation_id)
             (case map_of (db_quota s) k of None \<Rightarrow> None
              | Some r \<Rightarrow> if qr_id r \<noteq> reservation_id then None else Some r)) (\<lambda>_.
          let s1 = (if ru_succeeded rollup \<noteq> 0 then quota_commit k (int (ru_succeeded rollup)) now s else s)
          in if ru_failed rollup \<noteq> 0 then quota_release k (int (ru_failed rollup)) now s1 else Inr s1))"

definition reconcile_one ::
  "uuid \<Rightarrow> datetime \<Rightarrow> generation_request \<Rightarrow> nat \<times> db \<Rightarrow> (nat \<times> db) result" where
  "reconcile_one tenant_id now request acc = (case acc of (settled, s) \<Rightarrow>
     bind_result (require (NotFoundError ''The request's pinned spec version is missing (data inconsistency).'')
         (spec_version_get tenant_id (gr_spec_version_id request) s)) (\<lambda>spec_version.
     let rollup = compute_rollup (map snc_id (required_slots (csv_snapshot spec_version)))
           (items_list_for_request tenant_id (gr_id request) s)
     in case ru_status rollup of None \<Rightarrow> Inr (settled, s)
        | Some status \<Rightarrow>
            bind_result (settle_request status now request) (\<lambda>request.
            bind_result (settle_quota tenant_id request rollup now (request_update request s)) (\<lambda>s'.
              Inr (settled + 1, s')))))"

definition ReconcileGenerationRequestsForTenant :: "uuid \<Rightarrow> nat \<Rightarrow> datetime \<Rightarrow> nat use_case" where
  "ReconcileGenerationRequestsForTenant tenant_id limit now s =
     fold_result (reconcile_one tenant_id now) (list_running_for_update tenant_id limit s) (0, s)"

section \<open>The agents\<close>

text \<open>
  \<open>generate\<close> stands for reading the reference images and the provider's call: an exception's class
  name and text, or the stored bytes with their cost and latency. \<open>evaluate\<close> likewise.
\<close>

record generation_draws =
  gd_time :: "nat \<Rightarrow> datetime"
  gd_jitter :: "nat \<Rightarrow> rat"
  gd_ids :: completion_ids
  gd_audit_id :: uuid
  gd_item :: item_draw

definition GenerationRenderAgent_run ::
  "(render_context \<Rightarrow> (string \<times> string) + (stored_file \<times> int \<times> int)) \<Rightarrow> generation_draws \<Rightarrow> uuid \<Rightarrow> db
    \<Rightarrow> generation_item option result \<times> db" where
  "GenerationRenderAgent_run generate d tenant_id s =
     (case run_uow (StartGenerationItemRender (gd_jitter d 0) tenant_id (gd_time d 0)) s of
        (Inl e, s1) \<Rightarrow> (Inl e, s1)
      | (Inr None, s1) \<Rightarrow> (Inr None, s1)
      | (Inr (Some ctx), s1) \<Rightarrow>
          (case run_uow (case generate ctx of
               Inl (code, detail) \<Rightarrow> FailGenerationItemRender (gd_jitter d 1) (gd_audit_id d) tenant_id
                 (rc_item_id ctx) (rc_job_id ctx) code detail (gd_time d 1)
             | Inr (f, cost, latency) \<Rightarrow> CompleteGenerationItemRender (gd_ids d) f tenant_id
                 (rc_item_id ctx) (rc_job_id ctx) cost latency (gd_time d 1)) s1 of
             (r, s2) \<Rightarrow> (bind_result r (\<lambda>i. Inr (Some i)), s2)))"

definition CatalogImageQcAgent_run ::
  "(qc_context \<Rightarrow> string + qc_verdict) \<Rightarrow> generation_draws \<Rightarrow> uuid \<Rightarrow> db \<Rightarrow> bool result \<times> db" where
  "CatalogImageQcAgent_run evaluate d tenant_id s =
     (case run_uow (StartCatalogImageQc (gd_jitter d 0) tenant_id (gd_time d 0)) s of
        (Inl e, s1) \<Rightarrow> (Inl e, s1)
      | (Inr None, s1) \<Rightarrow> (Inr False, s1)
      | (Inr (Some ctx), s1) \<Rightarrow>
          (case run_uow (case evaluate ctx of
               Inl err \<Rightarrow> FailCatalogImageQc (gd_jitter d 1) tenant_id (qc_job_id ctx) err (gd_time d 1)
             | Inr verdict \<Rightarrow> CompleteCatalogImageQc (gd_item d) tenant_id (qc_catalog_image_id ctx)
                 (qc_job_id ctx) verdict (gd_time d 1)) s1 of
             (r, s2) \<Rightarrow> (bind_result r (\<lambda>_. Inr True), s2)))"

end
