(* ===== verification/Unique_Index.thy ===== *)
theory Unique_Index
  imports Database
begin

text \<open>
  The contract of a unique index, partial or not: each row has at most one key under it
  (\<open>None\<close>: the row is outside the index), and an insert is refused exactly when a row holds its
  key already. The tables that have such an index interpret it.
\<close>

definition unique_on :: "('r \<Rightarrow> 'c option) \<Rightarrow> 'r table \<Rightarrow> bool" where
  "unique_on ukey t \<longleftrightarrow> (\<forall>i j r q. tbl_get t i = Some r \<longrightarrow> tbl_get t j = Some q
     \<longrightarrow> ukey r \<noteq> None \<longrightarrow> ukey r = ukey q \<longrightarrow> i = j)"

lemma unique_on_Nil [simp]: "unique_on ukey []"
  by (simp add: unique_on_def tbl_get_def)

lemma unique_onD:
  "\<lbrakk>unique_on ukey t; tbl_get t i = Some r; tbl_get t j = Some q; ukey r = Some k; ukey q = Some k\<rbrakk> \<Longrightarrow> i = j"
  unfolding unique_on_def by (metis option.distinct(1))

lemma scalar_one_or_none_defined: "length xs \<le> 1 \<Longrightarrow> \<exists>r. scalar_one_or_none xs = Inr r"
  by (cases xs; cases "tl xs") (auto simp: scalar_one_or_none_def)

lemma scalar_Some: "scalar_one_or_none (filter P xs) = Inr (Some r) \<Longrightarrow> r \<in> set xs \<and> P r"
  by (cases "filter P xs") (auto simp: scalar_one_or_none_def filter_eq_Cons_iff split: list.splits)

lemma scalar_None: "scalar_one_or_none (filter P xs) = Inr None \<longleftrightarrow> (\<forall>r \<in> set xs. \<not> P r)"
  by (cases "filter P xs") (auto simp: scalar_one_or_none_def filter_empty_conv filter_eq_Cons_iff split: list.splits)

lemma scalar_hit:
  assumes "length (filter P xs) \<le> 1" and "r \<in> set xs" and "P r"
  shows "scalar_one_or_none (filter P xs) = Inr (Some r)"
proof -
  from assms(2,3) have "r \<in> set (filter P xs)" by simp
  with assms(1) have "filter P xs = [r]" by (cases "filter P xs"; cases "tl (filter P xs)") auto
  then show ?thesis by (simp add: scalar_one_or_none_def)
qed

locale unique_index =
  fixes rid :: "'r \<Rightarrow> uuid"
    and ukey :: "'r \<Rightarrow> 'c option"
    and clash :: "'r \<Rightarrow> 'r \<Rightarrow> bool"
  assumes clash_iff: "clash r q \<longleftrightarrow> ukey r \<noteq> None \<and> ukey q = ukey r"
begin

lemma add_unique:
  assumes "tbl_ok rid t" and "unique_on ukey t" and "\<not> list_ex (clash r) (rows t)"
    and "tbl_add (rid r) r t = Inr t'"
  shows "unique_on ukey t'" and "tbl_ok rid t'"
proof -
  have get: "tbl_get t' j = (if j = rid r then Some r else tbl_get t j)" for j
    by (rule tbl_get_add [OF assms(4)])
  have none: "ukey q \<noteq> ukey r" if "tbl_get t j = Some q" "ukey r \<noteq> None" for j q
    using assms(3) rows_mem [OF that(1)] that(2) by (auto simp: list_ex_iff clash_iff)
  show "unique_on ukey t'"
    unfolding unique_on_def get using assms(2) none
    by (auto simp: unique_on_def split: if_splits)
  show "tbl_ok rid t'" by (rule tbl_ok_add [OF assms(1) refl assms(4)])
qed

lemma put_unique:
  assumes "unique_on ukey t" and "tbl_get t i = Some old" and "ukey r = ukey old \<or> ukey r = None"
  shows "unique_on ukey (tbl_put i r t)"
  unfolding unique_on_def
proof (intro allI impI)
  fix j k p q
  assume p: "tbl_get (tbl_put i r t) j = Some p" and q: "tbl_get (tbl_put i r t) k = Some q"
    and u: "ukey p \<noteq> None" "ukey p = ukey q"
  from p have "\<exists>p0. tbl_get t j = Some p0 \<and> (j = i \<longrightarrow> p = r \<and> p0 = old) \<and> (j \<noteq> i \<longrightarrow> p = p0)"
    using assms(2) by (auto simp: tbl_get_put split: if_splits)
  then obtain p0 where p0: "tbl_get t j = Some p0" "j = i \<Longrightarrow> p = r \<and> p0 = old" "j \<noteq> i \<Longrightarrow> p = p0" by blast
  from q have "\<exists>q0. tbl_get t k = Some q0 \<and> (k = i \<longrightarrow> q = r \<and> q0 = old) \<and> (k \<noteq> i \<longrightarrow> q = q0)"
    using assms(2) by (auto simp: tbl_get_put split: if_splits)
  then obtain q0 where q0: "tbl_get t k = Some q0" "k = i \<Longrightarrow> q = r \<and> q0 = old" "k \<noteq> i \<Longrightarrow> q = q0" by blast
  have "ukey p0 = ukey p" "ukey q0 = ukey q"
    using p0 q0 u assms(3) by (cases "j = i"; cases "k = i"; auto)+
  with u p0(1) q0(1) assms(1) show "j = k" unfolding unique_on_def by metis
qed

lemma keys_distinct:
  assumes "tbl_ok rid t" and "unique_on ukey t" and "\<And>r. P r \<Longrightarrow> ukey r \<noteq> None"
  shows "distinct (map ukey (filter P (rows t)))"
  unfolding distinct_map
proof (intro conjI inj_onI)
  show "distinct (filter P (rows t))" using distinct_rows [OF assms(1)] by (simp add: distinct_map)
  fix r q
  assume r: "r \<in> set (filter P (rows t))" and q: "q \<in> set (filter P (rows t))" and k: "ukey r = ukey q"
  from r q have get: "tbl_get t (rid r) = Some r" "tbl_get t (rid q) = Some q"
    by (simp_all add: rows_iff [OF assms(1)])
  from r assms(3) [of r] obtain c where c: "ukey r = Some c" by auto
  have "rid r = rid q" by (rule unique_onD [OF assms(2) get c]) (use c k in simp)
  with get show "r = q" by (metis option.inject)
qed

text \<open>So a query by the whole key meets at most one row, and \<open>scalar_one_or_none\<close> cannot raise.\<close>

lemma query_at_most_one:
  assumes "tbl_ok rid t" and "unique_on ukey t" and "\<And>r. P r \<Longrightarrow> ukey r = Some k"
  shows "length (filter P (rows t)) \<le> 1"
proof -
  have "distinct (map ukey (filter P (rows t)))"
    by (rule keys_distinct [OF assms(1,2)]) (simp add: assms(3))
  moreover have "map ukey (filter P (rows t)) = map (\<lambda>_. Some k) (filter P (rows t))"
    by (rule map_cong) (auto dest: assms(3))
  ultimately have "distinct (replicate (length (filter P (rows t))) (Some k))"
    by (simp add: map_replicate_const)
  then show ?thesis by (cases "length (filter P (rows t))" rule: nat.exhaust) (auto split: if_splits)
qed

lemma put_checked:
  assumes "tbl_ok rid t" and "unique_on ukey t" and "\<not> list_ex (\<lambda>q. clash r q \<and> rid q \<noteq> rid r) (rows t)"
  shows "unique_on ukey (tbl_put (rid r) r t)"
proof -
  have other: "ukey q \<noteq> ukey r" if "tbl_get t j = Some q" "j \<noteq> rid r" "ukey r \<noteq> None" for j q
    using assms(3) rows_mem [OF that(1)] that tbl_get_key [OF assms(1) that(1)] by (auto simp: list_ex_iff clash_iff)
  then show ?thesis
    using assms(2) unfolding unique_on_def tbl_get_put by (metis option.inject)
qed

lemma query_hit:
  assumes "tbl_ok rid t" and "unique_on ukey t" and "\<And>q. P q \<Longrightarrow> ukey q = Some k"
    and "r \<in> set (rows t)" and "P r"
  shows "scalar_one_or_none (filter P (rows t)) = Inr (Some r)"
  using query_at_most_one [OF assms(1-3)] assms(4,5) by (rule scalar_hit)

lemma query_unique:
  assumes "tbl_ok rid t" and "unique_on ukey t"
  shows "\<exists>r. scalar_one_or_none (filter (\<lambda>r. ukey r = Some k) (rows t)) = Inr r"
  using query_at_most_one [OF assms, of "\<lambda>r. ukey r = Some k" k] by (intro scalar_one_or_none_defined) simp

end

end
