(* ===== verification/Generation_Protocol.thy ===== *)
theory Generation_Protocol
  imports Generation Unique_Index
begin

text \<open>
  What holds of the generation pipeline over every interleaving of its transactions. A step is one
  committed transaction of features/products/create\_generation\_request.py,
  fan\_out\_generation\_items.py, of features/generation, or of the quota's provisioning; workers
  that crash between two transactions simply take no further step.
\<close>

section \<open>What a transaction leaves alone\<close>

text \<open>The tables the invariants below speak of.\<close>

definition ledger_view :: "db \<Rightarrow> generation_request table \<times> (quota_key, quota_reservation) dict
    \<times> category_spec_version table" where
  "ledger_view s = (db_requests s, db_quota s, db_spec_versions s)"

lemma audit_record_frame:
  assumes "audit_record n T u a st i b f now s = Inr s'"
  shows "ledger_view s' = ledger_view s" "db_items s' = db_items s" "db_images s' = db_images s"
    "db_jobs s' = db_jobs s" "db_requests s' = db_requests s" "db_quota s' = db_quota s"
    "db_spec_versions s' = db_spec_versions s" "db_templates s' = db_templates s"
  using audit_record_Inr [OF assms] by (auto simp: ledger_view_def)

lemma outbox_add_frame:
  assumes "outbox_add i T ty p now s = Inr s'"
  shows "ledger_view s' = ledger_view s" "db_items s' = db_items s" "db_images s' = db_images s"
    "db_jobs s' = db_jobs s" "db_requests s' = db_requests s" "db_quota s' = db_quota s"
    "db_spec_versions s' = db_spec_versions s" "db_templates s' = db_templates s"
  using outbox_add_Inr [OF assms] by (auto simp: ledger_view_def)

lemma item_add_InrD:
  assumes "item_add i s = Inr s'"
  shows "\<not> list_ex (item_clash i) (rows (db_items s))" "tbl_add (gi_id i) i (db_items s) = Inr (db_items s')"
    "ledger_view s' = ledger_view s" "db_images s' = db_images s" "db_jobs s' = db_jobs s"
    "db_quota s' = db_quota s" "db_requests s' = db_requests s" "db_spec_versions s' = db_spec_versions s"
    "db_templates s' = db_templates s"
  using assms by (auto simp: item_add_def bind_result_eq_Inr tbl_add_unique_Inr ledger_view_def)

lemma image_add_InrD:
  assumes "image_add i s = Inr s'"
  shows "\<not> list_ex (image_clash i) (rows (db_images s))" "tbl_add (ci_id i) i (db_images s) = Inr (db_images s')"
    "ledger_view s' = ledger_view s" "db_items s' = db_items s" "db_jobs s' = db_jobs s"
  using assms by (auto simp: image_add_def bind_result_eq_Inr tbl_add_unique_Inr ledger_view_def)

lemma update_frames [simp]:
  "ledger_view (item_update i s) = ledger_view s" "db_images (item_update i s) = db_images s"
  "db_jobs (item_update i s) = db_jobs s"
  "ledger_view (image_update g s) = ledger_view s" "db_items (image_update g s) = db_items s"
  "db_jobs (image_update g s) = db_jobs s"
  "db_items (request_update r s) = db_items s" "db_images (request_update r s) = db_images s"
  "db_quota (request_update r s) = db_quota s" "db_spec_versions (request_update r s) = db_spec_versions s"
  "db_jobs (request_update r s) = db_jobs s"
  "ledger_view (s\<lparr>db_jobs := q\<rparr>) = ledger_view s"
  by (simp_all add: item_update_def image_update_def request_update_def ledger_view_def)

lemma request_render_InrD:
  assumes "request_render T now e item s = Inr s'"
  obtains t where "item_add item s = Inr t" "db_items s' = db_items t" "ledger_view s' = ledger_view s"
    "db_images s' = db_images s" "db_jobs s' = db_jobs s" "db_requests s' = db_requests s"
    "db_quota s' = db_quota s" "db_spec_versions s' = db_spec_versions s" "db_templates s' = db_templates s"
proof -
  from assms obtain t where t: "item_add item s = Inr t"
    "outbox_add e T ''generation_item.render_requested'' [(''generation_item_id'', uuid_str (gi_id item))] now t = Inr s'"
    by (auto simp: request_render_def bind_result_eq_Inr)
  show ?thesis
    by (rule that [OF t(1)]) (simp_all add: outbox_add_frame [OF t(2)] item_add_InrD [OF t(1)])
qed

section \<open>Inversion of the use cases\<close>

lemma CreateGenerationRequest_InrD:
  assumes "CreateGenerationRequest n e a T p v u now s = Inr (r, s')"
  obtains product spec_version row where
    "product_get T p s = Some product"
    "spec_version_get T (prod_spec_version_id product) s = Some spec_version"
    "required_slots (csv_snapshot spec_version) \<noteq> []"
    "map_of (db_quota s) (quota_key_of T now) = Some row"
    "qr_reserved row + int (length (required_slots (csv_snapshot spec_version))) \<le> qr_limit_value row"
    "db_quota s' = AList.update (quota_key_of T now)
       (row\<lparr>qr_reserved := qr_reserved row + int (length (required_slots (csv_snapshot spec_version))),
            qr_updated_at := now\<rparr>) (db_quota s)"
    "r = GenerationRequest_create n T p v (prod_spec_version_id product) [] (Some (qr_id row)) u now"
    "tbl_add n r (db_requests s) = Inr (db_requests s')"
    "db_spec_versions s' = db_spec_versions s" "db_items s' = db_items s" "db_images s' = db_images s"
    "db_jobs s' = db_jobs s"
proof -
  let ?k = "quota_key_of T now"
  from assms obtain product spec_version where
    p: "product_get T p s = Some product" "spec_version_get T (prod_spec_version_id product) s = Some spec_version"
    by (auto simp: CreateGenerationRequest_def bind_result_eq_Inr)
  let ?n = "int (length (required_slots (csv_snapshot spec_version)))"
  from assms p have ne: "required_slots (csv_snapshot spec_version) \<noteq> []"
    by (auto simp: CreateGenerationRequest_def bind_result_eq_Inr Let_def split: if_splits)
  obtain ok s1 where res: "quota_reserve ?k ?n now s = (ok, s1)" by force
  with assms p have ok by (auto simp: CreateGenerationRequest_def bind_result_eq_Inr Let_def split: if_splits)
  with res obtain row where row: "map_of (db_quota s) ?k = Some row" "?n \<le> qr_limit_value row - qr_reserved row"
    and s1: "s1 = s\<lparr>db_quota := AList.update ?k (row\<lparr>qr_reserved := qr_reserved row + ?n, qr_updated_at := now\<rparr>) (db_quota s)\<rparr>"
    by (auto simp: quota_reserve_def split: option.splits if_splits)
  have k1: "map_of (db_quota s1) ?k = Some (row\<lparr>qr_reserved := qr_reserved row + ?n, qr_updated_at := now\<rparr>)"
    by (simp add: s1 update_conv')
  let ?r = "GenerationRequest_create n T p v (prod_spec_version_id product) [] (Some (qr_id row)) u now"
  from assms p ne res \<open>ok\<close> k1 obtain s2 s3 where
    r: "r = ?r" and s2: "request_add ?r s1 = Inr s2"
    and s3: "outbox_add e T ''generation_request.created'' [(''generation_request_id'', uuid_str (gr_id ?r))] now s2 = Inr s3"
    and s4: "\<exists>b. audit_record a T (Some u) ''generation_request.created'' ''generation_request'' (gr_id ?r) None b now s3 = Inr s'"
    by (auto simp: CreateGenerationRequest_def bind_result_eq_Inr Let_def)
  have s2': "tbl_add n ?r (db_requests s) = Inr (db_requests s2)" "db_quota s2 = db_quota s1"
      "db_spec_versions s2 = db_spec_versions s" "db_items s2 = db_items s" "db_images s2 = db_images s"
      "db_jobs s2 = db_jobs s"
    using s2 by (auto simp: request_add_def bind_result_eq_Inr s1 GenerationRequest_create_def)
  from s4 obtain b where s4: "audit_record a T (Some u) ''generation_request.created'' ''generation_request'' (gr_id ?r) None b now s3 = Inr s'" ..
  show ?thesis
    by (rule that [OF p ne row(1) _ _ r])
       (use row(2) in \<open>simp_all add: audit_record_frame [OF s4] outbox_add_frame [OF s3] s2' s1 r\<close>)
qed

lemma outbox_add_rows:
  assumes "outbox_add e T ty p now s = Inr s'"
  shows "map ev_payload (rows (db_outbox s')) = map ev_payload (rows (db_outbox s)) @ [p]"
    and "map ev_event_type (rows (db_outbox s')) = map ev_event_type (rows (db_outbox s)) @ [ty]"
  using assms by (auto simp: outbox_add_def bind_result_eq_Inr dest!: rows_tbl_add)

lemma request_render_rows:
  assumes "request_render T now e item s = Inr s'"
  shows "rows (db_items s') = rows (db_items s) @ [item]"
    and "map ev_payload (rows (db_outbox s')) = map ev_payload (rows (db_outbox s))
      @ [[(''generation_item_id'', uuid_str (gi_id item))]]"
proof -
  from assms obtain t where t: "item_add item s = Inr t"
    "outbox_add e T ''generation_item.render_requested'' [(''generation_item_id'', uuid_str (gi_id item))] now t = Inr s'"
    by (auto simp: request_render_def bind_result_eq_Inr)
  have "db_outbox t = db_outbox s" using t(1) by (auto simp: item_add_def bind_result_eq_Inr)
  with outbox_add_rows(1) [OF t(2)] show "map ev_payload (rows (db_outbox s')) = map ev_payload (rows (db_outbox s))
      @ [[(''generation_item_id'', uuid_str (gi_id item))]]" by simp
  show "rows (db_items s') = rows (db_items s) @ [item]"
    using rows_tbl_add [OF item_add_InrD(2) [OF t(1)]] by (simp add: outbox_add_frame [OF t(2)])
qed

lemma fan_out_item_reads_templates:
  "db_templates t = db_templates s \<Longrightarrow> fan_out_item inp T now d slot t = fan_out_item inp T now d slot s"
  by (simp add: fan_out_item_def pick_default_template_def templates_list_for_catalog_slot_def)

lemma fan_out_one_Inr:
  "fan_out_one inp T now draw slot (items, s) = Inr (items', s') \<longleftrightarrow>
     (\<exists>item. fan_out_item inp T now (draw (length items)) slot s = Inr item
        \<and> request_render T now (dr_event_id (draw (length items))) item s = Inr s' \<and> items' = items @ [item])"
  by (auto simp: fan_out_one_def bind_result_eq_Inr Let_def)

lemma fan_out_loop:
  assumes "fold_result (fan_out_one inp T now draw) slots (items0, s0) = Inr (items, s1)"
  shows "\<exists>new. items = items0 @ new \<and> length new = length slots
     \<and> (\<forall>i < length slots. fan_out_item inp T now (draw (length items0 + i)) (slots ! i) s0 = Inr (new ! i))
     \<and> rows (db_items s1) = rows (db_items s0) @ new
     \<and> map ev_payload (rows (db_outbox s1)) = map ev_payload (rows (db_outbox s0))
         @ map (\<lambda>i. [(''generation_item_id'', uuid_str (gi_id i))]) new
     \<and> ledger_view s1 = ledger_view s0 \<and> db_images s1 = db_images s0 \<and> db_jobs s1 = db_jobs s0
     \<and> db_templates s1 = db_templates s0"
  using assms
proof (induction slots arbitrary: items0 s0)
  case (Cons slot slots)
  from Cons.prems obtain item t where
    item: "fan_out_item inp T now (draw (length items0)) slot s0 = Inr item"
    and t: "request_render T now (dr_event_id (draw (length items0))) item s0 = Inr t"
    and rest: "fold_result (fan_out_one inp T now draw) slots (items0 @ [item], t) = Inr (items, s1)"
    by (auto simp: bind_result_eq_Inr fan_out_one_Inr)
  obtain t' where fr: "ledger_view t = ledger_view s0" "db_images t = db_images s0" "db_jobs t = db_jobs s0"
    "db_templates t = db_templates s0" by (rule request_render_InrD [OF t]) blast
  from Cons.IH [OF rest] obtain new where new: "items = (items0 @ [item]) @ new" "length new = length slots"
    "\<forall>i < length slots. fan_out_item inp T now (draw (length (items0 @ [item]) + i)) (slots ! i) t = Inr (new ! i)"
    "rows (db_items s1) = rows (db_items t) @ new"
    "map ev_payload (rows (db_outbox s1)) = map ev_payload (rows (db_outbox t))
         @ map (\<lambda>i. [(''generation_item_id'', uuid_str (gi_id i))]) new"
    "ledger_view s1 = ledger_view t" "db_images s1 = db_images t" "db_jobs s1 = db_jobs t"
    "db_templates s1 = db_templates t" by blast
  have "fan_out_item inp T now (draw (length items0 + i)) ((slot # slots) ! i) s0 = Inr ((item # new) ! i)"
    if "i < length (slot # slots)" for i
  proof (cases i)
    case (Suc j)
    with new(3) that have "fan_out_item inp T now (draw (length items0 + i)) (slots ! j) t = Inr (new ! j)" by simp
    with Suc show ?thesis by (simp add: fan_out_item_reads_templates [OF fr(4)])
  qed (use item in simp)
  with new fr request_render_rows [OF t] show ?case by (intro exI [of _ "item # new"]) simp
qed simp

lemma FanOutGenerationItems_InrD:
  assumes "FanOutGenerationItems provider model draw a T rid now s = Inr (items, s')"
  obtains request product variant spec_version inp where
    "request_get T rid s = Some request" "gr_status request = REQ_QUEUED"
    "product_get T (gr_product_id request) s = Some product"
    "variant_get T (gr_variant_id request) s = Some variant"
    "spec_version_get T (prod_spec_version_id product) s = Some spec_version"
    "inp = \<lparr>fo_snapshot = csv_snapshot spec_version,
           fo_ready_images = filter (\<lambda>i. pii_status i = INPUT_READY)
              (input_images_list_for_product T (prod_id product) s),
           fo_attributes = merge_attributes (prod_attributes product) (pv_attributes variant),
           fo_variant = variant, fo_request = request, fo_provider = provider, fo_model = model\<rparr>"
    "length items = length (required_slots (csv_snapshot spec_version))"
    "\<forall>i < length items. fan_out_item inp T now (draw i) (required_slots (csv_snapshot spec_version) ! i) s
        = Inr (items ! i)"
    "rows (db_items s') = rows (db_items s) @ items"
    "map ev_payload (rows (db_outbox s')) = map ev_payload (rows (db_outbox s))
       @ map (\<lambda>i. [(''generation_item_id'', uuid_str (gi_id i))]) items"
    "db_requests s' = tbl_put (gr_id request) (request\<lparr>gr_status := REQ_RUNNING\<rparr>) (db_requests s)"
    "db_quota s' = db_quota s" "db_spec_versions s' = db_spec_versions s" "db_images s' = db_images s"
    "db_jobs s' = db_jobs s"
proof -
  from assms obtain request where r: "request_get T rid s = Some request" "gr_status request = REQ_QUEUED"
    by (auto simp: FanOutGenerationItems_def bind_result_eq_Inr split: if_splits)
  with assms obtain product variant spec_version where
    p: "product_get T (gr_product_id request) s = Some product" "variant_get T (gr_variant_id request) s = Some variant"
      "spec_version_get T (prod_spec_version_id product) s = Some spec_version"
    by (auto simp: FanOutGenerationItems_def bind_result_eq_Inr)
  define inp where "inp = \<lparr>fo_snapshot = csv_snapshot spec_version,
           fo_ready_images = filter (\<lambda>i. pii_status i = INPUT_READY)
              (input_images_list_for_product T (prod_id product) s),
           fo_attributes = merge_attributes (prod_attributes product) (pv_attributes variant),
           fo_variant = variant, fo_request = request, fo_provider = provider, fo_model = model\<rparr>"
  let ?r = "request\<lparr>gr_status := REQ_RUNNING\<rparr>"
  from assms r p obtain s1 where
    loop: "fold_result (fan_out_one inp T now draw) (required_slots (csv_snapshot spec_version)) ([], s) = Inr (items, s1)"
    and au: "audit_record a T (Some (gr_requested_by request)) ''generation_request.fanned_out''
      ''generation_request'' (gr_id request) None (Some [(''item_count'', JInt (int (length items)))]) now
      (request_update ?r s1) = Inr s'"
    unfolding inp_def
    by (auto simp: FanOutGenerationItems_def bind_result_eq_Inr Let_def GenerationRequest_mark_running_def)
  have out: "db_outbox s' = db_outbox s1" using audit_record_Inr [OF au] by (auto simp: request_update_def)
  from fan_out_loop [OF loop] audit_record_frame [OF au] out
  show ?thesis
    by (intro that [OF r p inp_def]) (auto simp: ledger_view_def request_update_def)
qed

lemma CompleteGenerationItemRender_InrD:
  assumes "CompleteGenerationItemRender ids f T i j c l now s = Inr (x, s')"
  obtains inspection item request a s1 s3 where
    "sf_inspection f = Inr inspection"
    "item_get T i s = Some item"
    "request_get T (gi_request_id item) s = Some request"
    "register_generated_asset (cp_asset_id ids) T f inspection now s = Inr (a, s1)"
    "GenerationItem_mark_succeeded (asset_id a) c l item = Inr x"
    "replace_live_image (CatalogImage_create (cp_image_id ids) T (gr_variant_id request)
       (gi_catalog_image_slot_id x) (asset_id a) (gi_id x) now False) now (item_update x s1) = Inr s3"
    "ledger_view s' = ledger_view s3" "db_items s' = db_items s3" "db_images s' = db_images s3"
    "db_jobs s' = complete_job T j now (db_jobs s3)"
    "map ev_payload (rows (db_outbox s')) = map ev_payload (rows (db_outbox s3))
       @ [[(''catalog_image_id'', uuid_str (cp_image_id ids))]]"
proof -
  from assms obtain inspection item request a s1 s3 s4 where
    p: "sf_inspection f = Inr inspection" "item_get T i s = Some item"
      "request_get T (gi_request_id item) s = Some request"
      "register_generated_asset (cp_asset_id ids) T f inspection now s = Inr (a, s1)"
      "GenerationItem_mark_succeeded (asset_id a) c l item = Inr x"
      "replace_live_image (CatalogImage_create (cp_image_id ids) T (gr_variant_id request)
         (gi_catalog_image_slot_id x) (asset_id a) (gi_id x) now False) now (item_update x s1) = Inr s3"
    and out: "outbox_add (cp_event_id ids) T ''catalog_image.qc_requested''
         [(''catalog_image_id'', uuid_str (ci_id (CatalogImage_create (cp_image_id ids) T (gr_variant_id request)
         (gi_catalog_image_slot_id x) (asset_id a) (gi_id x) now False)))] now s3 = Inr s4"
    and au: "audit_record (cp_audit_id ids) T None ''generation_item.succeeded'' ''generation_item'' (gi_id x) None
         (Some [(''catalog_image_id'', JStr (uuid_str (ci_id (CatalogImage_create (cp_image_id ids) T (gr_variant_id request)
         (gi_catalog_image_slot_id x) (asset_id a) (gi_id x) now False)))),
           (''asset_id'', JStr (uuid_str (asset_id a)))]) now
         (s4\<lparr>db_jobs := complete_job T j now (db_jobs s4)\<rparr>) = Inr s'"
    by (auto simp: CompleteGenerationItemRender_def bind_result_eq_Inr Let_def)
  have "db_outbox s' = db_outbox s4" using audit_record_Inr [OF au] by auto
  with outbox_add_rows(1) [OF out] show ?thesis
    by (intro that [OF p]) (simp_all add: audit_record_frame [OF au] outbox_add_frame [OF out] CatalogImage_create_def)
qed

section \<open>Attempts and live images\<close>

definition item_ukey :: "generation_item \<Rightarrow> (uuid \<times> uuid \<times> uuid \<times> int) option" where
  "item_ukey i = Some (gi_tenant_id i, gi_request_id i, gi_catalog_image_slot_id i, gi_attempt_no i)"

definition image_ukey :: "catalog_image \<Rightarrow> (uuid \<times> uuid \<times> uuid) option" where
  "image_ukey i = (if ci_superseded_by i = None
     then Some (ci_tenant_id i, ci_variant_id i, ci_catalog_image_slot_id i) else None)"

definition asset_ukey :: "asset \<Rightarrow> (uuid \<times> string \<times> asset_kind) option" where
  "asset_ukey a = Some (asset_tenant_id a, asset_sha256 a, asset_kind a)"

interpretation item_index: unique_index gi_id item_ukey item_clash
  by unfold_locales (auto simp: item_ukey_def item_clash_def)

interpretation image_index: unique_index ci_id image_ukey image_clash
  by unfold_locales (auto simp: image_ukey_def image_clash_def same_slot_def)

interpretation asset_index: unique_index asset_id asset_ukey asset_clash
  by unfold_locales (auto simp: asset_ukey_def asset_clash_def)

definition MAX_ATTEMPTS :: int where "MAX_ATTEMPTS = 3"

definition items_ok :: "generation_item table \<Rightarrow> bool" where
  "items_ok t \<longleftrightarrow> tbl_ok gi_id t \<and> unique_on item_ukey t
     \<and> (\<forall>i \<in> set (rows t). 1 \<le> gi_attempt_no i \<and> gi_attempt_no i \<le> MAX_ATTEMPTS)"

definition images_ok :: "catalog_image table \<Rightarrow> bool" where
  "images_ok t \<longleftrightarrow> tbl_ok ci_id t \<and> unique_on image_ukey t"

definition pipeline_ok :: "db \<Rightarrow> bool" where
  "pipeline_ok s \<longleftrightarrow> items_ok (db_items s) \<and> images_ok (db_images s)"

lemma pipeline_okI: "\<lbrakk>items_ok (db_items s); images_ok (db_images s)\<rbrakk> \<Longrightarrow> pipeline_ok s"
  by (simp add: pipeline_ok_def)

lemma pipeline_okD: "pipeline_ok s \<Longrightarrow> items_ok (db_items s)" "pipeline_ok s \<Longrightarrow> images_ok (db_images s)"
  by (simp_all add: pipeline_ok_def)

lemma pipeline_frame:
  "\<lbrakk>pipeline_ok s; db_items s' = db_items s; db_images s' = db_images s\<rbrakk> \<Longrightarrow> pipeline_ok s'"
  by (simp add: pipeline_ok_def)

lemma items_ok_put:
  assumes ok: "items_ok t" and get: "tbl_get t i = Some old"
    and new: "generation_item_ident new = generation_item_ident old"
  shows "items_ok (tbl_put (gi_id new) new t)"
proof -
  from ok have t: "tbl_ok gi_id t" "unique_on item_ukey t" by (simp_all add: items_ok_def)
  from new have id: "gi_id new = gi_id old" "item_ukey new = item_ukey old" "gi_attempt_no new = gi_attempt_no old"
    by (simp_all add: generation_item_ident_def item_ukey_def)
  have i: "gi_id old = i" by (rule tbl_get_key [OF t(1) get])
  have ok': "tbl_ok gi_id (tbl_put (gi_id new) new t)" by (rule tbl_ok_put [OF t(1)]) simp
  have bound: "1 \<le> gi_attempt_no x \<and> gi_attempt_no x \<le> MAX_ATTEMPTS" if "x \<in> set (rows t)" for x
    using ok that by (simp add: items_ok_def)
  have "1 \<le> gi_attempt_no x \<and> gi_attempt_no x \<le> MAX_ATTEMPTS" if "x \<in> set (rows (tbl_put (gi_id new) new t))" for x
  proof -
    from that have "tbl_get (tbl_put (gi_id new) new t) (gi_id x) = Some x" by (simp add: rows_iff [OF ok'])
    then have "x = new \<or> x \<in> set (rows t)" by (auto simp: tbl_get_put split: if_splits intro: rows_mem)
    then show ?thesis using bound [OF rows_mem [OF get]] bound id(3) by auto
  qed
  moreover have "unique_on item_ukey (tbl_put (gi_id new) new t)"
    using item_index.put_unique [OF t(2) get, of new] id i by simp
  ultimately show ?thesis using ok' by (simp add: items_ok_def)
qed

lemma items_ok_add:
  assumes ok: "items_ok (db_items s)" and add: "item_add x s = Inr s'"
    and n: "1 \<le> gi_attempt_no x" "gi_attempt_no x \<le> MAX_ATTEMPTS"
  shows "items_ok (db_items s')"
proof -
  note a = item_add_InrD(1,2) [OF add]
  from ok have t: "tbl_ok gi_id (db_items s)" "unique_on item_ukey (db_items s)" by (simp_all add: items_ok_def)
  from item_index.add_unique [OF t a] rows_tbl_add [OF a(2)] ok n show ?thesis by (auto simp: items_ok_def)
qed

lemma images_ok_put:
  assumes ok: "images_ok t" and get: "tbl_get t i = Some old" and id: "ci_id new = ci_id old"
    and key: "image_ukey new = image_ukey old \<or> image_ukey new = None"
  shows "images_ok (tbl_put (ci_id new) new t)"
proof -
  from ok have t: "tbl_ok ci_id t" "unique_on image_ukey t" by (simp_all add: images_ok_def)
  have i: "ci_id old = i" by (rule tbl_get_key [OF t(1) get])
  have "tbl_ok ci_id (tbl_put (ci_id new) new t)" by (rule tbl_ok_put [OF t(1)]) simp
  then show ?thesis using image_index.put_unique [OF t(2) get key] id i by (simp add: images_ok_def)
qed

lemma images_ok_add:
  assumes ok: "images_ok (db_images s)" and add: "image_add x s = Inr s'"
  shows "images_ok (db_images s')"
proof -
  note a = image_add_InrD(1,2) [OF add]
  from ok have t: "tbl_ok ci_id (db_images s)" "unique_on image_ukey (db_images s)" by (simp_all add: images_ok_def)
  from image_index.add_unique [OF t a] show ?thesis by (simp add: images_ok_def)
qed

lemma item_get_Some: "item_get T i s = Some x \<longleftrightarrow> tbl_get (db_items s) i = Some x \<and> gi_tenant_id x = T"
  by (simp add: item_get_def scoped_get_Some)

lemma image_get_Some: "image_get T i s = Some x \<longleftrightarrow> tbl_get (db_images s) i = Some x \<and> ci_tenant_id x = T"
  by (simp add: image_get_def scoped_get_Some)

lemma pipeline_item_put:
  assumes "pipeline_ok s" and "tbl_get (db_items s) i = Some old"
    and "generation_item_ident new = generation_item_ident old"
  shows "pipeline_ok (item_update new s)"
  using items_ok_put [OF pipeline_okD(1) [OF assms(1)] assms(2,3)] pipeline_okD(2) [OF assms(1)]
  by (simp add: item_update_def pipeline_ok_def)

lemma pipeline_image_put:
  assumes "pipeline_ok s" and "tbl_get (db_images s) i = Some old"
    and "catalog_image_ident new = catalog_image_ident old"
    and "ci_superseded_by new = ci_superseded_by old \<or> ci_superseded_by new \<noteq> None"
  shows "pipeline_ok (image_update new s)"
proof -
  from assms(3,4) have "ci_id new = ci_id old" "image_ukey new = image_ukey old \<or> image_ukey new = None"
    by (auto simp: catalog_image_ident_def image_ukey_def)
  from images_ok_put [OF pipeline_okD(2) [OF assms(1)] assms(2) this] pipeline_okD(1) [OF assms(1)]
  show ?thesis by (simp add: image_update_def pipeline_ok_def)
qed

end
