(* ===== verification/Quota_Ledger.thy ===== *)
theory Quota_Ledger
  imports Generation_Protocol
begin

text \<open>
  The quota of generated images (infrastructure/persistence/quota\_reservation\_repository.py) over
  the life of the requests that hold it: every unit reserved is either committed or owed by a
  request that has not settled.
\<close>

section \<open>What the requests in flight owe\<close>

definition slot_total :: "category_spec_version table \<Rightarrow> generation_request \<Rightarrow> int" where
  "slot_total versions r =
     (case scoped_get csv_tenant_id versions (gr_tenant_id r) (gr_spec_version_id r) of
        None \<Rightarrow> 0 | Some v \<Rightarrow> int (length (required_slots (csv_snapshot v))))"

definition owes :: "category_spec_version table \<Rightarrow> uuid \<Rightarrow> generation_request \<Rightarrow> int" where
  "owes versions q r = (if gr_quota_reservation_id r = Some q \<and> gr_status r \<in> {REQ_QUEUED, REQ_RUNNING}
     then slot_total versions r else 0)"

definition outstanding :: "db \<Rightarrow> uuid \<Rightarrow> int" where
  "outstanding s q = sum_list (map (owes (db_spec_versions s) q) (rows (db_requests s)))"

definition quota_ids :: "db \<Rightarrow> uuid list" where
  "quota_ids s = map (qr_id \<circ> snd) (db_quota s)"

definition ledger_ok :: "db \<Rightarrow> bool" where
  "ledger_ok s \<longleftrightarrow> tbl_ok gr_id (db_requests s) \<and> distinct (map fst (db_quota s)) \<and> distinct (quota_ids s)
     \<and> (\<forall>r \<in> set (rows (db_requests s)). \<forall>q. gr_quota_reservation_id r = Some q \<longrightarrow> q \<in> set (quota_ids s))
     \<and> (\<forall>k row. map_of (db_quota s) k = Some row \<longrightarrow>
          qr_reserved row = qr_committed row + outstanding s (qr_id row)
          \<and> 0 \<le> qr_committed row \<and> qr_reserved row \<le> qr_limit_value row)"

lemma owes_nonneg: "0 \<le> owes versions q r"
  by (simp add: owes_def slot_total_def split: option.split)

lemma outstanding_nonneg: "0 \<le> outstanding s q"
  by (auto simp: outstanding_def owes_nonneg intro!: sum_list_nonneg)

lemma sum_rows_put:
  fixes f :: "'r \<Rightarrow> int"
  shows "tbl_get t i = Some old \<Longrightarrow>
    sum_list (map f (rows (tbl_put i r t))) = sum_list (map f (rows t)) - f old + f r"
  by (induction t) (auto simp: tbl_get_def tbl_put_def rows_def split: if_splits)

lemma sum_rows_add:
  fixes f :: "'r \<Rightarrow> int"
  shows "tbl_add i r t = Inr t' \<Longrightarrow> sum_list (map f (rows t')) = sum_list (map f (rows t)) + f r"
  using rows_tbl_add [of i r t t'] by simp

lemma ledger_view_ok: "ledger_view s' = ledger_view s \<Longrightarrow> ledger_ok s' = ledger_ok s"
  by (simp add: ledger_view_def ledger_ok_def outstanding_def quota_ids_def)

lemma quota_ids_update:
  assumes "map_of (db_quota s) k = Some row" and "qr_id row' = qr_id row"
  shows "map (qr_id \<circ> snd) (AList.update k row' (db_quota s)) = quota_ids s"
proof -
  have "map_of d k = Some row \<Longrightarrow> map (qr_id \<circ> snd) (AList.update k row' d) = map (qr_id \<circ> snd) d" for d
    using assms(2) by (induction d) (auto split: if_splits)
  with assms(1) show ?thesis by (simp add: quota_ids_def)
qed

lemma quota_ids_inj:
  assumes "distinct (quota_ids s)" and "map_of (db_quota s) k = Some row" and "map_of (db_quota s) k' = Some row'"
    and "qr_id row = qr_id row'"
  shows "k = k'"
proof -
  have "(k, row) \<in> set (db_quota s)" "(k', row') \<in> set (db_quota s)"
    using assms(2,3) by (auto dest: map_of_SomeD)
  moreover have "inj_on (qr_id \<circ> snd) (set (db_quota s))"
    using assms(1) by (simp add: quota_ids_def distinct_map)
  ultimately show ?thesis
    using inj_onD [of "qr_id \<circ> snd" "set (db_quota s)" "(k, row)" "(k', row')"] assms(4) by simp
qed

lemma ledger_row:
  assumes "ledger_ok s" and "map_of (db_quota s) k = Some row"
  shows "qr_reserved row = qr_committed row + outstanding s (qr_id row)" and "0 \<le> qr_committed row"
    and "qr_reserved row \<le> qr_limit_value row"
  using assms unfolding ledger_ok_def by blast+

lemma ledger_parts:
  assumes "ledger_ok s"
  shows "tbl_ok gr_id (db_requests s)" and "distinct (map fst (db_quota s))" and "distinct (quota_ids s)"
    and "\<lbrakk>r \<in> set (rows (db_requests s)); gr_quota_reservation_id r = Some q\<rbrakk> \<Longrightarrow> q \<in> set (quota_ids s)"
  using assms unfolding ledger_ok_def by blast+

lemma ledger_okI:
  assumes "tbl_ok gr_id (db_requests s)" and "distinct (map fst (db_quota s))" and "distinct (quota_ids s)"
    and "\<And>r q. \<lbrakk>r \<in> set (rows (db_requests s)); gr_quota_reservation_id r = Some q\<rbrakk> \<Longrightarrow> q \<in> set (quota_ids s)"
    and "\<And>k row. map_of (db_quota s) k = Some row \<Longrightarrow>
       qr_reserved row = qr_committed row + outstanding s (qr_id row)
       \<and> 0 \<le> qr_committed row \<and> qr_reserved row \<le> qr_limit_value row"
  shows "ledger_ok s"
  using assms unfolding ledger_ok_def by blast

text \<open>
  The one arithmetical step all operations share: one row of the ledger moves together with what
  the requests owe on it, the others stand still.
\<close>

lemma ledger_step:
  assumes ok: "ledger_ok s" and row: "map_of (db_quota s) k = Some row"
    and q': "db_quota s' = AList.update k row' (db_quota s)" and id: "qr_id row' = qr_id row"
    and out: "\<And>q. outstanding s' q = outstanding s q + (if q = qr_id row then d else 0)"
    and bal: "qr_reserved row' = qr_committed row' + (outstanding s (qr_id row) + d)"
    and bounds: "0 \<le> qr_committed row'" "qr_reserved row' \<le> qr_limit_value row'"
    and reqs: "tbl_ok gr_id (db_requests s')"
      "\<forall>r \<in> set (rows (db_requests s')). \<forall>q. gr_quota_reservation_id r = Some q \<longrightarrow> q \<in> set (quota_ids s)"
  shows "ledger_ok s'"
proof -
  have ids: "quota_ids s' = quota_ids s"
    using quota_ids_update [OF row id] by (simp add: quota_ids_def q')
  note dist = ledger_parts(3,2) [OF ok]
  have "qr_reserved r = qr_committed r + outstanding s' (qr_id r) \<and> 0 \<le> qr_committed r
      \<and> qr_reserved r \<le> qr_limit_value r" if "map_of (db_quota s') k' = Some r" for k' r
  proof (cases "k' = k")
    case True
    with that have "r = row'" by (simp add: q' update_conv')
    with bal bounds id show ?thesis by (simp add: out)
  next
    case False
    with that have r: "map_of (db_quota s) k' = Some r" by (simp add: q' update_conv')
    with quota_ids_inj [OF dist(1) r row] False have "qr_id r \<noteq> qr_id row" by blast
    with ledger_row [OF ok r] show ?thesis by (simp add: out)
  qed
  moreover have "distinct (map fst (db_quota s'))" using dist(2) by (simp add: q' distinct_update)
  ultimately show ?thesis
    using reqs dist(1) unfolding ledger_ok_def ids by blast
qed

lemma put_reservation_ids:
  assumes ok: "ledger_ok s" and get: "tbl_get (db_requests s) (gr_id r) = Some r"
    and new: "gr_id r' = gr_id r" "gr_quota_reservation_id r' = gr_quota_reservation_id r"
    and x: "x \<in> set (rows (tbl_put (gr_id r) r' (db_requests s)))" "gr_quota_reservation_id x = Some q"
  shows "q \<in> set (quota_ids s)"
proof -
  have "tbl_ok gr_id (tbl_put (gr_id r) r' (db_requests s))"
    by (rule tbl_ok_put [OF ledger_parts(1) [OF ok] new(1)])
  with x(1) have "tbl_get (tbl_put (gr_id r) r' (db_requests s)) (gr_id x) = Some x" by (simp add: rows_iff)
  then have "x = r' \<or> tbl_get (db_requests s) (gr_id x) = Some x"
    by (auto simp: tbl_get_put split: if_splits)
  then show ?thesis
  proof
    assume "x = r'"
    with x(2) new(2) ledger_parts(4) [OF ok rows_mem [OF get]] show ?thesis by simp
  qed (use x(2) ledger_parts(4) [OF ok rows_mem] in blast)
qed

section \<open>The operations\<close>

lemma ledger_provision:
  assumes "ledger_ok s" and "n \<notin> set (quota_ids s)" and "0 \<le> l"
  shows "ledger_ok (quota_ensure_period n k l now s)"
proof (cases "map_of (db_quota s) k")
  case None
  let ?s' = "quota_ensure_period n k l now s"
  have q': "db_quota ?s' = db_quota s @ [(k, \<lparr>qr_id = n, qr_limit_value = l, qr_reserved = 0, qr_committed = 0,
      qr_created_at = now, qr_updated_at = now\<rparr>)]" "db_requests ?s' = db_requests s"
      "db_spec_versions ?s' = db_spec_versions s"
    by (simp_all add: quota_ensure_period_def None)
  have "gr_quota_reservation_id r \<noteq> Some n" if "r \<in> set (rows (db_requests s))" for r
    using that assms(1,2) by (auto simp: ledger_ok_def)
  then have "map (owes (db_spec_versions s) n) (rows (db_requests s)) = map (\<lambda>_. 0) (rows (db_requests s))"
    by (simp add: owes_def)
  then have "outstanding s n = 0" unfolding outstanding_def by (simp only: sum_list_0)
  moreover have "outstanding ?s' q = outstanding s q" for q by (simp add: outstanding_def q')
  ultimately have out: "outstanding ?s' n = 0" "\<And>q. outstanding ?s' q = outstanding s q" by simp_all
  have ids: "quota_ids ?s' = quota_ids s @ [n]" by (simp add: quota_ids_def q')
  show ?thesis
  proof (rule ledger_okI)
    show "tbl_ok gr_id (db_requests ?s')" unfolding q' by (rule ledger_parts(1) [OF assms(1)])
    show "distinct (map fst (db_quota ?s'))" "distinct (quota_ids ?s')"
      using ledger_parts(2,3) [OF assms(1)] assms(2) None by (simp_all add: q' quota_ids_def map_of_eq_None_iff)
    show "r \<in> set (rows (db_requests ?s')) \<Longrightarrow> gr_quota_reservation_id r = Some q \<Longrightarrow> q \<in> set (quota_ids ?s')" for r q
      using ledger_parts(4) [OF assms(1)] unfolding q' ids by auto
    show "qr_reserved row = qr_committed row + outstanding ?s' (qr_id row)
        \<and> 0 \<le> qr_committed row \<and> qr_reserved row \<le> qr_limit_value row"
      if "map_of (db_quota ?s') k' = Some row" for k' row
    proof (cases "map_of (db_quota s) k'")
      case None
      with that out(1) assms(3) show ?thesis by (auto simp: q' map_add_def split: if_splits)
    next
      case (Some row0)
      with that have "row = row0" by (auto simp: q' map_add_def \<open>map_of (db_quota s) k = None\<close> split: if_splits)
      with ledger_row [OF assms(1) Some] show ?thesis by (simp add: out(2))
    qed
  qed
qed (use assms in \<open>simp add: quota_ensure_period_def\<close>)

lemma ledger_create:
  assumes ok: "ledger_ok s" and c: "CreateGenerationRequest n e a T p v u now s = Inr (r, s')"
  shows "ledger_ok s'"
proof -
  obtain product spec_version row where
    "product_get T p s = Some product"
    and sv: "spec_version_get T (prod_spec_version_id product) s = Some spec_version"
    and row: "map_of (db_quota s) (quota_key_of T now) = Some row"
      "qr_reserved row + int (length (required_slots (csv_snapshot spec_version))) \<le> qr_limit_value row"
    and s': "db_quota s' = AList.update (quota_key_of T now)
       (row\<lparr>qr_reserved := qr_reserved row + int (length (required_slots (csv_snapshot spec_version))),
            qr_updated_at := now\<rparr>) (db_quota s)"
    and r: "r = GenerationRequest_create n T p v (prod_spec_version_id product) [] (Some (qr_id row)) u now"
    and add: "tbl_add n r (db_requests s) = Inr (db_requests s')"
    and vs: "db_spec_versions s' = db_spec_versions s"
    by (rule CreateGenerationRequest_InrD [OF c]) blast
  let ?n = "int (length (required_slots (csv_snapshot spec_version)))"
  have "owes (db_spec_versions s) q r = (if q = qr_id row then ?n else 0)" for q
    using sv by (auto simp: owes_def slot_total_def r GenerationRequest_create_def spec_version_get_def)
  then have out: "outstanding s' q = outstanding s q + (if q = qr_id row then ?n else 0)" for q
    by (simp add: outstanding_def vs sum_rows_add [OF add])
  have in_ids: "qr_id row \<in> set (quota_ids s)"
    using row(1) by (force simp: quota_ids_def dest: map_of_SomeD)
  have bal: "qr_reserved row = qr_committed row + outstanding s (qr_id row)" "0 \<le> qr_committed row"
    using ledger_row [OF ok row(1)] by blast+
  show ?thesis
  proof (rule ledger_step [OF ok row(1) s' _ out])
    have "gr_id r = n" by (simp add: r GenerationRequest_create_def)
    moreover note ledger_parts(1) [OF ok]
    ultimately show "tbl_ok gr_id (db_requests s')" using add by (blast intro: tbl_ok_add)
    show "\<forall>x \<in> set (rows (db_requests s')). \<forall>q. gr_quota_reservation_id x = Some q \<longrightarrow> q \<in> set (quota_ids s)"
      using ledger_parts(4) [OF ok] in_ids rows_tbl_add [OF add] by (auto simp: r GenerationRequest_create_def)
  qed (use bal row(2) in simp_all)
qed

lemma ledger_fan_out:
  assumes ok: "ledger_ok s" and f: "FanOutGenerationItems provider model draw a T rid now s = Inr (items, s')"
  shows "ledger_ok s'"
proof -
  obtain request where
    req: "request_get T rid s = Some request" "gr_status request = REQ_QUEUED"
    and s': "db_requests s' = tbl_put (gr_id request) (request\<lparr>gr_status := REQ_RUNNING\<rparr>) (db_requests s)"
      "db_quota s' = db_quota s" "db_spec_versions s' = db_spec_versions s"
    by (rule FanOutGenerationItems_InrD [OF f]) blast
  note tok = ledger_parts(1) [OF ok]
  from req(1) have "tbl_get (db_requests s) rid = Some request" by (simp add: request_get_def scoped_get_Some)
  with tbl_get_key [OF tok this] have get: "tbl_get (db_requests s) (gr_id request) = Some request" by simp
  have "owes vs q (request\<lparr>gr_status := REQ_RUNNING\<rparr>) = owes vs q request" for vs q
    by (simp add: owes_def slot_total_def req(2))
  then have out: "outstanding s' q = outstanding s q" for q
    by (simp add: outstanding_def s' sum_rows_put [OF get])
  have ids: "quota_ids s' = quota_ids s" by (simp add: quota_ids_def s'(2))
  show ?thesis
  proof (rule ledger_okI)
    show "tbl_ok gr_id (db_requests s')" unfolding s'(1) by (rule tbl_ok_put [OF tok]) simp
    show "x \<in> set (rows (db_requests s')) \<Longrightarrow> gr_quota_reservation_id x = Some q \<Longrightarrow> q \<in> set (quota_ids s')" for x q
      unfolding s'(1) ids using put_reservation_ids [OF ok get, of "request\<lparr>gr_status := REQ_RUNNING\<rparr>" x q] by simp
    show "distinct (map fst (db_quota s'))" "distinct (quota_ids s')"
      using ledger_parts(2,3) [OF ok] by (simp_all add: s'(2) ids)
    show "qr_reserved row = qr_committed row + outstanding s' (qr_id row)
        \<and> 0 \<le> qr_committed row \<and> qr_reserved row \<le> qr_limit_value row"
      if "map_of (db_quota s') k = Some row" for k row
      using ledger_row [OF ok that [unfolded s'(2)]] by (simp add: out)
  qed
qed

text \<open>A settled request: its slots are shared out between what is committed and what is given back.\<close>

lemma compute_rollup_total:
  assumes "ru_status (compute_rollup slot_list items) = Some st"
  shows "ru_succeeded (compute_rollup slot_list items) + ru_failed (compute_rollup slot_list items) = length slot_list"
    and "st \<in> {REQ_SUCCEEDED, REQ_FAILED, REQ_PARTIALLY_FAILED}"
  using assms
  by (auto simp: compute_rollup_def Let_def count_slots_Some filter_length_all split: if_splits option.splits)

lemma settle_request_Inr:
  assumes "settle_request st now r = Inr r'" and "st \<in> {REQ_SUCCEEDED, REQ_FAILED, REQ_PARTIALLY_FAILED}"
  shows "gr_status r = REQ_RUNNING" and "r' = r\<lparr>gr_status := st, gr_completed_at := Some now\<rparr>"
  using assms
  by (auto simp: settle_request_def GenerationRequest_method_defs split: if_splits)

lemma dict_set_same: "map_of d k = Some v \<Longrightarrow> dict_set k v d = d"
  by (induction d) (auto split: if_splits)

lemma dict_set_set: "dict_set k w (dict_set k v d) = dict_set k w d"
  by (induction d) auto

lemma settle_quota_InrD:
  assumes "settle_quota T r rollup now s = Inr s'" and "gr_quota_reservation_id r = Some q"
  obtains row u where "map_of (db_quota s) (quota_key_of T (gr_created_at r)) = Some row" "qr_id row = q"
    "db_quota s' = AList.update (quota_key_of T (gr_created_at r))
       (row\<lparr>qr_committed := qr_committed row + int (ru_succeeded rollup),
            qr_reserved := qr_reserved row - int (ru_failed rollup), qr_updated_at := u\<rparr>) (db_quota s)"
    "db_requests s' = db_requests s" "db_spec_versions s' = db_spec_versions s"
    "db_items s' = db_items s" "db_images s' = db_images s" "db_jobs s' = db_jobs s"
    "db_outbox s' = db_outbox s"
proof -
  let ?k = "quota_key_of T (gr_created_at r)"
  from assms obtain row where row: "map_of (db_quota s) ?k = Some row" "qr_id row = q"
    by (auto simp: settle_quota_def Let_def bind_result_eq_Inr split: option.splits if_splits)
  have same: "AList.update ?k row (db_quota s) = db_quota s"
    by (rule dict_set_same [OF row(1)])
  define s1 where "s1 = (if ru_succeeded rollup \<noteq> 0 then quota_commit ?k (int (ru_succeeded rollup)) now s else s)"
  have s1: "\<exists>u. s1 = s\<lparr>db_quota := AList.update ?k (row\<lparr>qr_committed := qr_committed row + int (ru_succeeded rollup),
      qr_updated_at := u\<rparr>) (db_quota s)\<rparr>"
  proof (cases "ru_succeeded rollup = 0")
    case True
    then show ?thesis by (intro exI [of _ "qr_updated_at row"]) (simp add: s1_def same)
  qed (auto simp: s1_def quota_commit_def row)
  then obtain u where s1': "s1 = s\<lparr>db_quota := AList.update ?k (row\<lparr>qr_committed := qr_committed row + int (ru_succeeded rollup),
      qr_updated_at := u\<rparr>) (db_quota s)\<rparr>" ..
  let ?row1 = "row\<lparr>qr_committed := qr_committed row + int (ru_succeeded rollup), qr_updated_at := u\<rparr>"
  have k1: "map_of (db_quota s1) ?k = Some ?row1" by (simp add: s1' update_conv')
  from assms row have s': "(if ru_failed rollup \<noteq> 0 then quota_release ?k (int (ru_failed rollup)) now s1 else Inr s1) = Inr s'"
    by (auto simp: settle_quota_def Let_def s1_def split: if_splits)
  show ?thesis
  proof (cases "ru_failed rollup = 0")
    case True
    with s' s1' show ?thesis by (intro that [OF row, of u]) auto
  next
    case False
    with s' k1 have "s' = s1\<lparr>db_quota := AList.update ?k (?row1\<lparr>qr_reserved := qr_reserved row - int (ru_failed rollup),
        qr_updated_at := now\<rparr>) (db_quota s1)\<rparr>"
      by (auto simp: quota_release_def split: if_splits)
    with s1' dict_set_set show ?thesis by (intro that [OF row, of now]) auto
  qed
qed

lemma reconcile_one_InrD:
  assumes "reconcile_one T now r (m, s) = Inr (m', s')"
  shows "(m' = m \<and> s' = s)
    \<or> (\<exists>v rollup st. spec_version_get T (gr_spec_version_id r) s = Some v
        \<and> rollup = compute_rollup (map snc_id (required_slots (csv_snapshot v)))
             (items_list_for_request T (gr_id r) s)
        \<and> ru_status rollup = Some st \<and> m' = m + 1 \<and> gr_status r = REQ_RUNNING
        \<and> ru_succeeded rollup + ru_failed rollup = length (required_slots (csv_snapshot v))
        \<and> settle_quota T (r\<lparr>gr_status := st, gr_completed_at := Some now\<rparr>) rollup now
             (request_update (r\<lparr>gr_status := st, gr_completed_at := Some now\<rparr>) s) = Inr s'
        \<and> st \<in> {REQ_SUCCEEDED, REQ_FAILED, REQ_PARTIALLY_FAILED})"
proof -
  from assms obtain v where v: "spec_version_get T (gr_spec_version_id r) s = Some v"
    by (auto simp: reconcile_one_def bind_result_eq_Inr)
  define rollup where "rollup = compute_rollup (map snc_id (required_slots (csv_snapshot v)))
      (items_list_for_request T (gr_id r) s)"
  show ?thesis
  proof (cases "ru_status rollup")
    case None
    with assms v show ?thesis by (simp add: reconcile_one_def Let_def rollup_def)
  next
    case (Some st)
    from compute_rollup_total [OF Some [unfolded rollup_def]]
    have st: "ru_succeeded rollup + ru_failed rollup = length (required_slots (csv_snapshot v))"
      "st \<in> {REQ_SUCCEEDED, REQ_FAILED, REQ_PARTIALLY_FAILED}" by (simp_all add: rollup_def)
    from assms v Some obtain r' where r': "settle_request st now r = Inr r'"
      and q: "settle_quota T r' rollup now (request_update r' s) = Inr s'" and m: "m' = m + 1"
      by (auto simp: reconcile_one_def Let_def rollup_def bind_result_eq_Inr)
    from settle_request_Inr [OF r' st(2)] q m v Some st show ?thesis by (auto simp: rollup_def)
  qed
qed

lemma ledger_reconcile_one:
  assumes ok: "ledger_ok s" and r: "reconcile_one T now r (m, s) = Inr (m', s')"
    and get: "tbl_get (db_requests s) (gr_id r) = Some r" and T: "gr_tenant_id r = T"
  shows "ledger_ok s' \<and> (\<forall>j. j \<noteq> gr_id r \<longrightarrow> tbl_get (db_requests s') j = tbl_get (db_requests s) j)"
proof -
  from reconcile_one_InrD [OF r] consider "s' = s" | v rollup st where
      "spec_version_get T (gr_spec_version_id r) s = Some v" "gr_status r = REQ_RUNNING"
      "ru_succeeded rollup + ru_failed rollup = length (required_slots (csv_snapshot v))"
      "settle_quota T (r\<lparr>gr_status := st, gr_completed_at := Some now\<rparr>) rollup now
         (request_update (r\<lparr>gr_status := st, gr_completed_at := Some now\<rparr>) s) = Inr s'"
      "st \<in> {REQ_SUCCEEDED, REQ_FAILED, REQ_PARTIALLY_FAILED}" by blast
  then show ?thesis
  proof cases
    case 2
    let ?r = "r\<lparr>gr_status := st, gr_completed_at := Some now\<rparr>"
    let ?s1 = "request_update ?r s"
    have s1: "db_requests ?s1 = tbl_put (gr_id r) ?r (db_requests s)" by (simp add: request_update_def)
    have tot: "slot_total (db_spec_versions s) r = int (ru_succeeded rollup) + int (ru_failed rollup)"
      using 2(1,3) T by (simp add: slot_total_def spec_version_get_def)
    have dead: "owes vs q ?r = 0" for vs q using 2(5) by (auto simp: owes_def)
    have reqs: "tbl_ok gr_id (db_requests ?s1)"
      unfolding s1 by (rule tbl_ok_put [OF ledger_parts(1) [OF ok]]) simp
    have ids: "\<forall>x \<in> set (rows (db_requests ?s1)). \<forall>q. gr_quota_reservation_id x = Some q \<longrightarrow> q \<in> set (quota_ids s)"
      using put_reservation_ids [OF ok get, of ?r] unfolding s1 by simp
    have out: "outstanding t q = outstanding s q - owes (db_spec_versions s) q r"
      if "db_requests t = db_requests ?s1" "db_spec_versions t = db_spec_versions s" for t q
      by (simp add: outstanding_def that s1 sum_rows_put [OF get] dead)
    show ?thesis
    proof (cases "gr_quota_reservation_id r")
      case None
      with 2(4) have s': "s' = ?s1" by (simp add: settle_quota_def)
      have "ledger_ok s'"
      proof (rule ledger_okI)
        show "qr_reserved row = qr_committed row + outstanding s' (qr_id row)
            \<and> 0 \<le> qr_committed row \<and> qr_reserved row \<le> qr_limit_value row"
          if "map_of (db_quota s') k = Some row" for k row
          using ledger_row [OF ok, of k row] that out [of s' "qr_id row"] None by (simp add: s' owes_def)
      qed (use reqs ids ledger_parts(2,3) [OF ok] in \<open>auto simp: s' quota_ids_def\<close>)
      then show ?thesis by (simp add: s' s1 tbl_get_put)
    next
      case (Some q)
      then have "gr_quota_reservation_id ?r = Some q" by simp
      from 2(4) this obtain row u where
        row: "map_of (db_quota ?s1) (quota_key_of T (gr_created_at ?r)) = Some row" "qr_id row = q"
        and q': "db_quota s' = AList.update (quota_key_of T (gr_created_at ?r))
           (row\<lparr>qr_committed := qr_committed row + int (ru_succeeded rollup),
            qr_reserved := qr_reserved row - int (ru_failed rollup), qr_updated_at := u\<rparr>) (db_quota ?s1)"
        and s': "db_requests s' = db_requests ?s1" "db_spec_versions s' = db_spec_versions ?s1"
        by (rule settle_quota_InrD) (rule that)
      note row = row(1) [simplified] row(2) and q' = q' [simplified] and s' = s' [simplified]
      have "owes (db_spec_versions s) p r = (if p = q then int (ru_succeeded rollup) + int (ru_failed rollup) else 0)" for p
        using Some 2(2) tot by (auto simp: owes_def)
      then have o': "outstanding s' p = outstanding s p
          + (if p = qr_id row then - (int (ru_succeeded rollup) + int (ru_failed rollup)) else 0)" for p
        using out [OF s'] by (simp add: row(2))
      note b = ledger_row [OF ok row(1)]
      have "ledger_ok s'"
        by (rule ledger_step [OF ok row(1) q' _ o'])
           (use b reqs ids row(2) in \<open>simp_all add: s'(1)\<close>)
      then show ?thesis by (simp add: s'(1) s1 tbl_get_put)
    qed
  qed (use ok in simp)
qed

lemma ledger_reconcile:
  assumes ok: "ledger_ok s" and r: "ReconcileGenerationRequestsForTenant T limit now s = Inr (m, s')"
  shows "ledger_ok s'"
proof -
  let ?due = "list_running_for_update T limit s"
  note q = query_rows [OF ledger_parts(1) [OF ok]]
  have f: "fold_result (reconcile_one T now) ?due (0, s) = Inr (m, s')"
    using r by (simp add: ReconcileGenerationRequestsForTenant_def)
  have due: "tbl_get (db_requests s) (gr_id x) = Some x \<and> gr_tenant_id x = T" if "x \<in> set ?due" for x
    using q(2) that unfolding list_running_for_update_def by blast
  have "(\<lambda>p. ledger_ok (snd p)) (m, s')"
  proof (rule fold_result_rows [where key = gr_id and tab = "\<lambda>p. db_requests (snd p)", OF f])
    show "distinct (map gr_id ?due)" unfolding list_running_for_update_def by (rule q(1))
    show "ledger_ok (snd t') \<and> (\<forall>j. j \<noteq> gr_id x \<longrightarrow> tbl_get (db_requests (snd t')) j = tbl_get (db_requests (snd t)) j)"
      if "x \<in> set ?due" "reconcile_one T now x t = Inr t'" "ledger_ok (snd t)"
        "tbl_get (db_requests (snd t)) (gr_id x) = Some x" for x t t'
      using that due ledger_reconcile_one [of "snd t" T now x "fst t" "fst t'" "snd t'"] by simp
  qed (use ok due in auto)
  then show ?thesis by simp
qed

end
