(* ===== verification/Generation_Runs.thy ===== *)
theory Generation_Runs
  imports Quota_Ledger
begin

text \<open>
  The generation pipeline as a transition system: one step per committed transaction, in any
  order and from any number of workers, and the invariants of every state it reaches.
\<close>

section \<open>Each transaction keeps the pipeline in order\<close>

text \<open>Both invariants at once, for the transactions that leave the ledger's tables alone.\<close>

definition generation_ok :: "db \<Rightarrow> bool" where
  "generation_ok s \<longleftrightarrow> ledger_ok s \<and> pipeline_ok s"

lemma generation_okI: "\<lbrakk>generation_ok s; ledger_view s' = ledger_view s; pipeline_ok s'\<rbrakk> \<Longrightarrow> generation_ok s'"
  using ledger_view_ok [of s' s] by (auto simp: generation_ok_def)

lemma generation_frame:
  "\<lbrakk>generation_ok s; ledger_view s' = ledger_view s; db_items s' = db_items s; db_images s' = db_images s\<rbrakk>
    \<Longrightarrow> generation_ok s'"
  by (rule generation_okI) (auto simp: generation_ok_def intro: pipeline_frame)

lemma start_render_ok:
  assumes ok: "generation_ok s" and r: "StartGenerationItemRender jitter T now s = Inr (c, s')"
  shows "generation_ok s'"
proof -
  obtain job q where claim: "claim T RENDER_CLAIMED_BY (Some RENDER_JOB_TYPE) now (db_jobs s) = (job, q)" by force
  show ?thesis
  proof (cases job)
    case (Some j)
    let ?s1 = "s\<lparr>db_jobs := q\<rparr>"
    from r claim Some obtain raw i where raw: "dict_item py_repr (job_payload j) ''generation_item_id'' = Inr raw"
      "uuid_parse raw = Inr i"
      by (auto simp: StartGenerationItemRender_def bind_result_eq_Inr Let_def)
    show ?thesis
    proof (cases "item_get T i ?s1")
      case None
      with r claim Some raw obtain q' where "s' = ?s1\<lparr>db_jobs := q'\<rparr>"
        by (auto simp: StartGenerationItemRender_def bind_result_eq_Inr Let_def)
      then show ?thesis by (intro generation_frame [OF ok]) (simp_all add: ledger_view_def)
    next
      case item: (Some x)
      with r claim Some raw obtain y where y: "GenerationItem_mark_running x = Inr y" "s' = item_update y ?s1"
        by (auto simp: StartGenerationItemRender_def bind_result_eq_Inr Let_def)
      have "pipeline_ok ?s1" using ok by (simp add: generation_ok_def pipeline_ok_def)
      moreover have "tbl_get (db_items ?s1) i = Some x" using item by (simp add: item_get_Some)
      ultimately have "pipeline_ok s'" unfolding y(2)
        by (rule pipeline_item_put) (rule generation_item_step_ident [OF generation_item_step.mark_running [OF y(1)]])
      then show ?thesis by (rule generation_okI [OF ok, rotated]) (simp add: y(2) ledger_view_def item_update_def)
    qed
  qed (use r claim ok in \<open>auto simp: StartGenerationItemRender_def\<close>)
qed

lemma fail_render_ok:
  assumes ok: "generation_ok s" and r: "FailGenerationItemRender jitter a T i j c d now s = Inr (x, s')"
  shows "generation_ok s'"
proof -
  from r obtain old y st q z b where
    old: "item_get T i s = Some old" and y: "GenerationItem_mark_failed c d old = Inr y"
    and z: "(if st = JOB_DEAD then GenerationItem_mark_dead y else Inr y) = Inr z"
    and au: "audit_record a T None ''generation_item.failed'' ''generation_item'' (gi_id z) None b now
       (item_update z ((item_update y s)\<lparr>db_jobs := q\<rparr>)) = Inr s'"
    by (auto simp: FailGenerationItemRender_def bind_result_eq_Inr Let_def split_beta)
  have ids: "generation_item_ident y = generation_item_ident old"
    by (rule generation_item_step_ident [OF generation_item_step.mark_failed [OF y]])
  have idz: "generation_item_ident z = generation_item_ident y"
    using z generation_item_step_ident [OF generation_item_step.mark_dead [of y z]] by (auto split: if_splits)
  let ?s1 = "(item_update y s)\<lparr>db_jobs := q\<rparr>"
  have "pipeline_ok s" using ok by (simp add: generation_ok_def)
  moreover have "tbl_get (db_items s) i = Some old" using old by (simp add: item_get_Some)
  ultimately have "pipeline_ok (item_update y s)" by (rule pipeline_item_put [OF _ _ ids])
  then have "pipeline_ok ?s1" by (simp add: pipeline_ok_def)
  moreover have "tbl_get (db_items ?s1) (gi_id y) = Some y" by (simp add: item_update_def tbl_get_put)
  ultimately have p: "pipeline_ok (item_update z ?s1)" by (rule pipeline_item_put [OF _ _ idz])
  show ?thesis
    by (rule generation_okI [OF ok]) (simp_all add: audit_record_frame [OF au] pipeline_frame [OF p])
qed

lemma replace_live_image_ok:
  assumes ok: "pipeline_ok s" and r: "replace_live_image x now s = Inr s'" and live: "ci_superseded_by x = None"
  shows "pipeline_ok s'" and "ledger_view s' = ledger_view s" and "db_jobs s' = db_jobs s"
    and "db_items s' = db_items s"
    and "tbl_get (db_images s') (ci_id x) = Some x"
    and "\<lbrakk>tbl_get (db_images s') j = Some y; image_ukey y = image_ukey x\<rbrakk> \<Longrightarrow> y = x"
proof -
  from r obtain found s1 where
    found: "image_get_live (ci_tenant_id x) (ci_variant_id x) (ci_catalog_image_slot_id x) s = Inr found"
    and s1: "(case found of None \<Rightarrow> Inr s
       | Some old \<Rightarrow> bind_result (CatalogImage_mark_superseded (ci_id x) now old) (\<lambda>old. Inr (image_update old s))) = Inr s1"
    and add: "image_add x s1 = Inr s'"
    by (auto simp: replace_live_image_def bind_result_eq_Inr)
  have s1': "pipeline_ok s1 \<and> ledger_view s1 = ledger_view s \<and> db_jobs s1 = db_jobs s \<and> db_items s1 = db_items s"
  proof (cases found)
    case (Some old)
    then have mem: "old \<in> set (rows (db_images s))" "ci_superseded_by old = None"
      using found by (auto simp: image_get_live_def scalar_one_or_none_def filter_eq_Cons_iff split: list.splits)
    have tok: "tbl_ok ci_id (db_images s)" using pipeline_okD(2) [OF ok] by (simp add: images_ok_def)
    from s1 Some obtain y where y: "CatalogImage_mark_superseded (ci_id x) now old = Inr y" "s1 = image_update y s"
      by (auto simp: bind_result_eq_Inr)
    have "pipeline_ok s1" unfolding y(2)
    proof (rule pipeline_image_put [OF ok])
      show "tbl_get (db_images s) (ci_id old) = Some old" using mem(1) by (simp add: rows_iff [OF tok])
      show "catalog_image_ident y = catalog_image_ident old"
        by (rule catalog_image_step_ident [OF catalog_image_step.mark_superseded [OF y(1)]])
      show "ci_superseded_by y = ci_superseded_by old \<or> ci_superseded_by y \<noteq> None"
        using y(1) by (auto simp: CatalogImage_mark_superseded_def split: if_splits)
    qed
    then show ?thesis by (simp add: y(2))
  qed (use s1 ok in simp)
  note a = image_add_InrD [OF add]
  have img: "images_ok (db_images s')" using s1' by (intro images_ok_add [OF _ add]) (simp add: pipeline_okD)
  with s1' a show "pipeline_ok s'" "ledger_view s' = ledger_view s" "db_jobs s' = db_jobs s" "db_items s' = db_items s"
    by (auto simp: pipeline_ok_def)
  show get: "tbl_get (db_images s') (ci_id x) = Some x" by (simp add: tbl_get_add [OF a(2)])
  assume y: "tbl_get (db_images s') j = Some y" "image_ukey y = image_ukey x"
  have k: "image_ukey x = Some (ci_tenant_id x, ci_variant_id x, ci_catalog_image_slot_id x)"
    using live by (simp add: image_ukey_def)
  have "unique_on image_ukey (db_images s')" using img by (simp add: images_ok_def)
  from unique_onD [OF this y(1) get] y(2) k have "j = ci_id x" by simp
  with y(1) get show "y = x" by simp
qed

lemma complete_render_ok:
  assumes ok: "generation_ok s" and r: "CompleteGenerationItemRender ids f T i j c l now s = Inr (x, s')"
  shows "generation_ok s'"
proof -
  from r obtain inspection item request a s1 s3 where
    "sf_inspection f = Inr inspection"
    and item: "item_get T i s = Some item"
    and "request_get T (gi_request_id item) s = Some request"
    and reg: "register_generated_asset (cp_asset_id ids) T f inspection now s = Inr (a, s1)"
    and y: "GenerationItem_mark_succeeded (asset_id a) c l item = Inr x"
    and live: "replace_live_image (CatalogImage_create (cp_image_id ids) T (gr_variant_id request)
       (gi_catalog_image_slot_id x) (asset_id a) (gi_id x) now False) now (item_update x s1) = Inr s3"
    and s': "ledger_view s' = ledger_view s3" "db_items s' = db_items s3" "db_images s' = db_images s3"
    by (rule CompleteGenerationItemRender_InrD)
  have reg': "ledger_view s1 = ledger_view s" "db_items s1 = db_items s" "db_images s1 = db_images s"
    using reg by (auto simp: register_generated_asset_def bind_result_eq_Inr asset_add_def ledger_view_def
        split: option.splits)
  have "pipeline_ok s1" using ok reg' by (simp add: generation_ok_def pipeline_ok_def)
  moreover have "tbl_get (db_items s1) i = Some item" using item reg' by (simp add: item_get_Some)
  ultimately have p: "pipeline_ok (item_update x s1)"
    by (rule pipeline_item_put) (rule generation_item_step_ident [OF generation_item_step.mark_succeeded [OF y]])
  note l = replace_live_image_ok [OF p live]
  have "pipeline_ok s3" by (rule l) (simp add: CatalogImage_create_def)
  moreover have "ledger_view s3 = ledger_view s" by (subst l) (simp_all add: CatalogImage_create_def reg')
  ultimately show ?thesis
    by (intro generation_okI [OF ok])
       (simp_all add: s' pipeline_ok_def)
qed

lemma start_qc_ok:
  assumes ok: "generation_ok s" and r: "StartCatalogImageQc jitter T now s = Inr (c, s')"
  shows "generation_ok s'"
proof -
  have "\<exists>q. s' = s\<lparr>db_jobs := q\<rparr>"
    using r by (auto simp: StartCatalogImageQc_def bind_result_eq_Inr Let_def
        split: prod.splits option.splits intro: exI [of _ "db_jobs s"])
  then show ?thesis by (auto intro!: generation_frame [OF ok] simp: ledger_view_def)
qed

lemma next_rung_bounds:
  "next_rung attempts alternates = Inr (Some g) \<Longrightarrow> 1 \<le> rr_attempt_no g \<and> rr_attempt_no g \<le> MAX_ATTEMPTS"
  by (auto simp: next_rung_def bind_result_eq_Inr MAX_ATTEMPTS_def split: if_splits list.splits)

lemma qc_passed_image_ident:
  assumes "qc_passed_image T v now img s = Inr img'"
  shows "catalog_image_ident img' = catalog_image_ident img" and "ci_superseded_by img' = ci_superseded_by img"
  using assms
  by (auto simp: qc_passed_image_def bind_result_eq_Inr CatalogImage_method_defs catalog_image_ident_def
      split: if_splits)

lemma complete_qc_ok:
  assumes ok: "generation_ok s" and r: "CompleteCatalogImageQc d T i j v now s = Inr (u, s')"
  shows "generation_ok s'"
proof -
  from r obtain img s1 where img: "image_get T i s = Some img"
    and s1: "(if ver_passed v then bind_result (qc_passed_image T v now img s) (\<lambda>img. Inr (image_update img s))
         else qc_failed_step d T v now img s) = Inr s1"
    and s': "s' = s1\<lparr>db_jobs := complete_job T j now (db_jobs s1)\<rparr>"
    by (auto simp: CompleteCatalogImageQc_def bind_result_eq_Inr)
  have p: "pipeline_ok s" using ok by (simp add: generation_ok_def)
  have get: "tbl_get (db_images s) i = Some img" using img by (simp add: image_get_Some)
  have "pipeline_ok s1 \<and> ledger_view s1 = ledger_view s"
  proof (cases "ver_passed v")
    case True
    with s1 obtain y where "qc_passed_image T v now img s = Inr y" "s1 = image_update y s"
      by (auto simp: bind_result_eq_Inr)
    with pipeline_image_put [OF p get] qc_passed_image_ident show ?thesis by simp
  next
    case False
    with s1 obtain y item rung where y: "CatalogImage_mark_qc_failed (checks_json (ver_checks v)) now img = Inr y"
      and rung: "next_rung (filter (\<lambda>k. gi_catalog_image_slot_id k = gi_catalog_image_slot_id item)
           (items_list_for_request T (gi_request_id item) (image_update y s)))
           (templates_list_for_catalog_slot T (gi_catalog_image_slot_id item) (image_update y s)) = Inr rung"
      and rest: "(case rung of
         None \<Rightarrow> bind_result (CatalogImage_mark_human_review
             (case ver_reason v of Some r \<Rightarrow> (if r \<noteq> [] then r else ''QC retry ladder exhausted.'')
              | None \<Rightarrow> ''QC retry ladder exhausted.'') now y) (\<lambda>img. Inr (image_update img (image_update y s)))
       | Some rung \<Rightarrow> retry_item d T item rung now (image_update y s)) = Inr s1"
      by (auto simp: qc_failed_step_def bind_result_eq_Inr Let_def)
    have idy: "catalog_image_ident y = catalog_image_ident img" "ci_superseded_by y = ci_superseded_by img"
      using y by (auto simp: CatalogImage_method_defs catalog_image_ident_def split: if_splits)
    have p1: "pipeline_ok (image_update y s)" by (rule pipeline_image_put [OF p get idy(1)]) (simp add: idy)
    show ?thesis
    proof (cases rung)
      case None
      with rest obtain m z where z: "CatalogImage_mark_human_review m now y = Inr z" "s1 = image_update z (image_update y s)"
        by (auto simp: bind_result_eq_Inr)
      have idz: "catalog_image_ident z = catalog_image_ident y" "ci_superseded_by z = ci_superseded_by y"
        using z(1) by (auto simp: CatalogImage_method_defs catalog_image_ident_def split: if_splits)
      have "tbl_get (db_images (image_update y s)) (ci_id y) = Some y" by (simp add: image_update_def tbl_get_put)
      from pipeline_image_put [OF p1 this idz(1)] idz(2) show ?thesis by (simp add: z(2))
    next
      case (Some g)
      with rest obtain prompt where ren: "request_render T now (dr_event_id d)
          (GenerationItem_create (dr_item_id d) T (gi_request_id item) (gi_catalog_image_slot_id item)
            (rr_template_id g) (rr_attempt_no g) (gi_provider item) (gi_model item) (gi_model_params item)
            (dr_seed d) prompt COMPOSITION_VERSION (gi_input_asset_ids item) now) (image_update y s) = Inr s1"
        by (auto simp: retry_item_def bind_result_eq_Inr)
      show ?thesis
      proof (rule request_render_InrD [OF ren])
        fix t
        assume t: "item_add (GenerationItem_create (dr_item_id d) T (gi_request_id item) (gi_catalog_image_slot_id item)
            (rr_template_id g) (rr_attempt_no g) (gi_provider item) (gi_model item) (gi_model_params item)
            (dr_seed d) prompt COMPOSITION_VERSION (gi_input_asset_ids item) now) (image_update y s) = Inr t"
          and f: "db_items s1 = db_items t" "ledger_view s1 = ledger_view (image_update y s)"
            "db_images s1 = db_images (image_update y s)"
        have "items_ok (db_items t)"
          using next_rung_bounds [of _ _ g] rung Some
          by (intro items_ok_add [OF pipeline_okD(1) [OF p1] t]) (auto simp: GenerationItem_create_def)
        with f p1 show ?thesis by (simp add: pipeline_ok_def)
      qed
    qed
  qed
  then show ?thesis
    by (intro generation_okI [OF ok]) (simp_all add: s' pipeline_ok_def)
qed

lemma moved_image_ok:
  assumes ok: "generation_ok s" and get: "tbl_get (db_images s) i = Some old" and st: "catalog_image_step old new"
    and sup: "ci_superseded_by new = ci_superseded_by old"
    and au: "audit_record a T u act st' sid b f now (image_update new s) = Inr s'"
  shows "generation_ok s'"
    and "j \<noteq> ci_id old \<Longrightarrow> tbl_get (db_images s') j = tbl_get (db_images s) j"
proof -
  note id = catalog_image_step_ident [OF st]
  have "pipeline_ok s" using ok by (simp add: generation_ok_def)
  from pipeline_image_put [OF this get id] sup have "pipeline_ok (image_update new s)" by simp
  then show "generation_ok s'"
    by (intro generation_okI [OF ok]) (simp_all add: audit_record_frame [OF au] pipeline_ok_def)
  show "j \<noteq> ci_id old \<Longrightarrow> tbl_get (db_images s') j = tbl_get (db_images s) j"
    using id by (simp add: audit_record_frame [OF au] image_update_def tbl_get_put catalog_image_ident_def)
qed

lemma CatalogImage_review_keeps:
  "CatalogImage_approve u now x = Inr y \<Longrightarrow> ci_superseded_by y = ci_superseded_by x"
  "CatalogImage_reject reason now x = Inr y \<Longrightarrow> ci_superseded_by y = ci_superseded_by x"
  by (auto simp: CatalogImage_method_defs split: if_splits)

lemma approve_ok:
  assumes ok: "generation_ok s" and r: "ApproveCatalogImage a T i u now s = Inr (x, s')"
  shows "generation_ok s'"
proof -
  from r obtain old where old: "image_get T i s = Some old" and x: "CatalogImage_approve (Some u) now old = Inr x"
    and au: "audit_record a T (Some u) ''catalog_image.approved'' ''catalog_image'' i (Some (image_status old))
       (Some (image_status x)) now (image_update x s) = Inr s'"
    by (auto simp: ApproveCatalogImage_def bind_result_eq_Inr)
  have get: "tbl_get (db_images s) i = Some old" using old by (simp add: image_get_Some)
  show ?thesis
    by (rule moved_image_ok [OF ok get catalog_image_step.approve [OF x] CatalogImage_review_keeps(1) [OF x] au])
qed

lemma reject_ok:
  assumes ok: "generation_ok s" and r: "RejectCatalogImage a T i reason u now s = Inr (x, s')"
  shows "generation_ok s'"
proof -
  from r obtain old where old: "image_get T i s = Some old" and x: "CatalogImage_reject reason now old = Inr x"
    and au: "audit_record a T (Some u) ''catalog_image.rejected'' ''catalog_image'' i (Some (image_status old))
       (Some (image_status x @ [(''rejection_reason'', JStr reason)])) now (image_update x s) = Inr s'"
    by (auto simp: RejectCatalogImage_def bind_result_eq_Inr)
  have get: "tbl_get (db_images s) i = Some old" using old by (simp add: image_get_Some)
  show ?thesis
    by (rule moved_image_ok [OF ok get catalog_image_step.reject [OF x] CatalogImage_review_keeps(2) [OF x] au])
qed

lemma bulk_approve_ok:
  assumes ok: "generation_ok s" and r: "BulkApproveCatalogImagesForProduct aids T p u now s = Inr (m, s')"
  shows "generation_ok s'"
proof -
  let ?imgs = "images_list_page T (Some IMG_PENDING_APPROVAL) (Some p) None (BULK_LIMIT + 1) s"
  from r have f: "fold_result (bulk_approve_one aids T u now) ?imgs s = Inr s'"
    by (auto simp: BulkApproveCatalogImagesForProduct_def bind_result_eq_Inr Let_def split: if_splits)
  have "tbl_ok ci_id (db_images s)" using ok by (simp add: generation_ok_def pipeline_ok_def images_ok_def)
  note q = query_rows [OF this]
  show ?thesis
  proof (rule fold_result_rows [where key = ci_id and tab = db_images and P = generation_ok, OF f ok])
    show "distinct (map ci_id ?imgs)" unfolding images_list_page_def by (rule q(1))
    show "\<forall>x \<in> set ?imgs. tbl_get (db_images s) (ci_id x) = Some x"
      unfolding images_list_page_def using q(2) by blast
    show "generation_ok t' \<and> (\<forall>j. j \<noteq> ci_id x \<longrightarrow> tbl_get (db_images t') j = tbl_get (db_images t) j)"
      if b: "bulk_approve_one aids T u now x t = Inr t'" and t: "generation_ok t"
        and get: "tbl_get (db_images t) (ci_id x) = Some x" for x t t'
    proof -
      from b obtain y where y: "CatalogImage_approve (Some u) now x = Inr y"
        and au: "audit_record (aids (ci_id y)) T (Some u) ''catalog_image.approved'' ''catalog_image'' (ci_id y)
          (Some [(''status'', JStr ''pending_approval'')]) (Some (image_status y)) now (image_update y t) = Inr t'"
        by (auto simp: bulk_approve_one_def bind_result_eq_Inr)
      note m = moved_image_ok [OF t get catalog_image_step.approve [OF y] CatalogImage_review_keeps(1) [OF y] au]
      show ?thesis using m by blast
    qed
  qed
qed

lemma jobs_ok_frame: "generation_ok s \<Longrightarrow> generation_ok (s\<lparr>db_jobs := q\<rparr>)"
  by (erule generation_frame) (simp_all add: ledger_view_def)

lemma relay_frame:
  assumes "RelayOutboxEventsForTenant ids T limit now s = Inr (m, s')" and ok: "generation_ok s"
  shows "generation_ok s'"
proof -
  from assms have f: "fold_result (relay_one ids T now) (list_unpublished T limit s) s = Inr s'"
    by (auto simp: RelayOutboxEventsForTenant_def Let_def bind_result_eq_Inr)
  show ?thesis
  proof (rule fold_result_invariant [where P = generation_ok, OF f ok])
    show "generation_ok t'" if "relay_one ids T now e t = Inr t'" "generation_ok t" for e t t'
      using that(1)
      by (intro generation_frame [OF that(2)])
         (auto simp: relay_one_def bind_result_eq_Inr enqueue_job_def outbox_mark_published_def ledger_view_def
            split: option.splits)
  qed
qed

lemma fan_out_item_attempt: "fan_out_item inp T now d slot s = Inr x \<Longrightarrow> gi_attempt_no x = 1"
  by (auto simp: fan_out_item_def bind_result_eq_Inr GenerationItem_create_def)

lemma fan_out_fold_ok:
  "\<lbrakk>fold_result (fan_out_one inp T now draw) slots (items0, s0) = Inr (items, s1); items_ok (db_items s0)\<rbrakk>
    \<Longrightarrow> items_ok (db_items s1)"
proof (induction slots arbitrary: items0 s0)
  case (Cons slot slots)
  from Cons.prems(1) obtain x t where
    x: "fan_out_item inp T now (draw (length items0)) slot s0 = Inr x"
    and t: "request_render T now (dr_event_id (draw (length items0))) x s0 = Inr t"
    and rest: "fold_result (fan_out_one inp T now draw) slots (items0 @ [x], t) = Inr (items, s1)"
    by (auto simp: bind_result_eq_Inr fan_out_one_Inr)
  have "items_ok (db_items t)"
  proof (rule request_render_InrD [OF t])
    fix t' assume "item_add x s0 = Inr t'" "db_items t = db_items t'"
    with items_ok_add [OF Cons.prems(2)] fan_out_item_attempt [OF x] show ?thesis by (simp add: MAX_ATTEMPTS_def)
  qed
  with Cons.IH [OF rest] show ?case by simp
qed simp

lemma fan_out_pipeline_ok:
  assumes "FanOutGenerationItems provider model draw a T rid now s = Inr (items, s')" and "pipeline_ok s"
  shows "pipeline_ok s'"
proof -
  from assms(1) obtain inp slots r t u sid b where
    loop: "fold_result (fan_out_one inp T now draw) slots ([], s) = Inr (items, t)"
    and au: "audit_record a T u ''generation_request.fanned_out'' ''generation_request'' sid None b now (request_update r t) = Inr s'"
    by (auto simp: FanOutGenerationItems_def bind_result_eq_Inr Let_def split_beta split: if_splits)
  have "items_ok (db_items t)" by (rule fan_out_fold_ok [OF loop pipeline_okD(1) [OF assms(2)]])
  moreover have "db_images t = db_images s" using fan_out_loop [OF loop] by blast
  ultimately show ?thesis using assms(2) by (simp add: pipeline_ok_def audit_record_frame [OF au])
qed

lemma reconcile_frame:
  assumes "ReconcileGenerationRequestsForTenant T limit now s = Inr (m, s')"
  shows "db_items s' = db_items s \<and> db_images s' = db_images s"
proof -
  from assms have f: "fold_result (reconcile_one T now) (list_running_for_update T limit s) (0, s) = Inr (m, s')"
    by (simp add: ReconcileGenerationRequestsForTenant_def)
  have "(\<lambda>p. db_items (snd p) = db_items s \<and> db_images (snd p) = db_images s) (m, s')"
  proof (rule fold_result_invariant [OF f])
    show "db_items (snd t') = db_items s \<and> db_images (snd t') = db_images s"
      if r: "reconcile_one T now x t = Inr t'" and t: "db_items (snd t) = db_items s \<and> db_images (snd t) = db_images s" for x t t'
    proof -
      obtain k d k' d' where p: "t = (k, d)" "t' = (k', d')" by (metis surj_pair)
      have q: "settle_quota T q rollup now (request_update q d) = Inr d' \<Longrightarrow> db_items d' = db_items d \<and> db_images d' = db_images d"
        for q rollup
        by (auto simp: settle_quota_def Let_def bind_result_eq_Inr quota_commit_def quota_release_def
            split: option.splits if_splits)
      from reconcile_one_InrD [OF r [unfolded p]] q t show ?thesis unfolding p by auto
    qed
  qed simp
  then show ?thesis by simp
qed

section \<open>The transition system\<close>

text \<open>
  Every argument is free: which tenant, when, with which random draws and which answers of the
  providers. Two steps are no use case: the provisioning of a quota row (its limit is not
  negative, its identifier fresh), and the reaper of stuck jobs.
\<close>

inductive generation_step :: "db \<Rightarrow> db \<Rightarrow> bool" where
  provision: "\<lbrakk>n \<notin> set (quota_ids s); 0 \<le> l\<rbrakk> \<Longrightarrow> generation_step s (quota_ensure_period n k l now s)"
| create: "CreateGenerationRequest n e a T p v u now s = Inr (r, s') \<Longrightarrow> generation_step s s'"
| fan_out: "FanOutGenerationItems provider model draw a T rid now s = Inr (items, s') \<Longrightarrow> generation_step s s'"
| relay: "RelayOutboxEventsForTenant ids T limit now s = Inr (m, s') \<Longrightarrow> generation_step s s'"
| start_render: "StartGenerationItemRender jitter T now s = Inr (c, s') \<Longrightarrow> generation_step s s'"
| complete_render: "CompleteGenerationItemRender cids f T i j cost latency now s = Inr (x, s') \<Longrightarrow> generation_step s s'"
| fail_render: "FailGenerationItemRender jitter a T i j code detail now s = Inr (x, s') \<Longrightarrow> generation_step s s'"
| start_qc: "StartCatalogImageQc jitter T now s = Inr (qc, s') \<Longrightarrow> generation_step s s'"
| complete_qc: "CompleteCatalogImageQc d T i j verdict now s = Inr (y, s') \<Longrightarrow> generation_step s s'"
| fail_qc: "FailCatalogImageQc jitter T j err now s = Inr (y, s') \<Longrightarrow> generation_step s s'"
| approve_image: "ApproveCatalogImage a T i u now s = Inr (img, s') \<Longrightarrow> generation_step s s'"
| reject_image: "RejectCatalogImage a T i reason u now s = Inr (img, s') \<Longrightarrow> generation_step s s'"
| bulk_approve: "BulkApproveCatalogImagesForProduct aids T p u now s = Inr (m, s') \<Longrightarrow> generation_step s s'"
| reconcile: "ReconcileGenerationRequestsForTenant T limit now s = Inr (m, s') \<Longrightarrow> generation_step s s'"
| reap: "ReapStuckTaskQueueJobs jitters T now (db_jobs s) = Inr (m, q) \<Longrightarrow> generation_step s (s\<lparr>db_jobs := q\<rparr>)"

inductive_cases generation_stepE [step_elims]: "generation_step s s'"

lemma generation_step_ok: "\<lbrakk>generation_step s s'; generation_ok s\<rbrakk> \<Longrightarrow> generation_ok s'"
proof (induction rule: generation_step.induct)
  case (provision n s l k now)
  have "pipeline_ok (quota_ensure_period n k l now s)"
    using provision(3) by (auto simp: generation_ok_def pipeline_ok_def quota_ensure_period_def split: option.splits)
  with ledger_provision [OF _ provision(1,2)] provision(3) show ?case by (simp add: generation_ok_def)
next
  case (create n e a T p v u now s r s')
  then have "ledger_ok s'" using ledger_create by (auto simp: generation_ok_def)
  moreover have "db_items s' = db_items s \<and> db_images s' = db_images s"
    by (rule CreateGenerationRequest_InrD [OF create(1)]) blast
  ultimately show ?case using create(2) by (simp add: generation_ok_def pipeline_ok_def)
next
  case (fan_out provider model draw a T rid now s items s')
  then have "ledger_ok s'" using ledger_fan_out by (auto simp: generation_ok_def)
  moreover have "pipeline_ok s'"
    using fan_out(2) fan_out_pipeline_ok [OF fan_out(1)] by (simp add: generation_ok_def)
  ultimately show ?case by (simp add: generation_ok_def)
next
  case (relay ids T limit now s m s')
  then show ?case by (rule relay_frame)
next
  case (start_render jitter T now s c s')
  from start_render_ok [OF this(2,1)] show ?case .
next
  case (complete_render cids f T i j cost latency now s x s')
  from complete_render_ok [OF this(2,1)] show ?case .
next
  case (fail_render jitter a T i j code detail now s x s')
  from fail_render_ok [OF this(2,1)] show ?case .
next
  case (start_qc jitter T now s qc s')
  from start_qc_ok [OF this(2,1)] show ?case .
next
  case (complete_qc d T i j verdict now s y s')
  from complete_qc_ok [OF this(2,1)] show ?case .
next
  case (fail_qc jitter T j err now s y s')
  then show ?case by (auto simp: FailCatalogImageQc_def bind_result_eq_Inr intro: jobs_ok_frame)
next
  case (approve_image a T i u now s img s')
  from approve_ok [OF this(2,1)] show ?case .
next
  case (reject_image a T i reason u now s img s')
  from reject_ok [OF this(2,1)] show ?case .
next
  case (bulk_approve aids T p u now s m s')
  from bulk_approve_ok [OF this(2,1)] show ?case .
next
  case (reconcile T limit now s m s')
  then have "ledger_ok s'" using ledger_reconcile by (auto simp: generation_ok_def)
  moreover have "db_items s' = db_items s \<and> db_images s' = db_images s" by (rule reconcile_frame [OF reconcile(1)])
  ultimately show ?case using reconcile(2) by (simp add: generation_ok_def pipeline_ok_def)
next
  case (reap jitters T now s m q)
  then show ?case by (simp add: jobs_ok_frame)
qed

definition generation_start :: "db \<Rightarrow> bool" where
  "generation_start s \<longleftrightarrow> db_requests s = [] \<and> db_quota s = [] \<and> db_items s = [] \<and> db_images s = []"

lemma generation_start_ok: "generation_start s \<Longrightarrow> generation_ok s"
  by (auto simp: generation_start_def generation_ok_def ledger_ok_def quota_ids_def pipeline_ok_def items_ok_def
      images_ok_def rows_def)

lemma generation_reachable_ok: "\<lbrakk>generation_step\<^sup>*\<^sup>* s s'; generation_start s\<rbrakk> \<Longrightarrow> generation_ok s'"
  by (induction rule: rtranclp_induct) (auto intro: generation_start_ok generation_step_ok)

end
