(* ===== verification/Generation_Properties.thy ===== *)
theory Generation_Properties
  imports Generation_Runs
begin

text \<open>
  What the generation pipeline promises: its quota ledger, its attempts and live images in every
  reachable state, and the effect of its transactions.
\<close>

section \<open>A small tenant\<close>

text \<open>Tenant 1: product 2 of category 9 under spec version 3, whose one catalog slot 5 is required; variant 4; template 6.\<close>

definition demo_catalog_slot :: snap_catalog_slot where
  "demo_catalog_slot = \<lparr>snc_id = uuid_str 5, snc_category_id = uuid_str 9, snc_key = ''front'',
     snc_label = ''Front'', snc_description = None, snc_position = 0, snc_aspect_ratio = ''1:1'',
     snc_target_width = 512, snc_target_height = 512, snc_is_required = True, snc_input_requirements = []\<rparr>"

definition demo_snapshot :: spec_snapshot where
  "demo_snapshot = \<lparr>attribute_definitions = [], variant_axes = [], input_image_slots = [],
     catalog_image_slots = [demo_catalog_slot]\<rparr>"

definition demo_template :: catalog_template where
  "demo_template = (CatalogTemplate_create_authored 6 1 5 ''Plain'' ''A plain photo.'' 7 0 1 True 0)
     \<lparr>ct_status := TPL_ANALYSED\<rparr>"

definition demo_tenant :: db where
  "demo_tenant = empty_db\<lparr>db_products := [(2, Product_create 2 1 9 3 [] 7 0 None None None None)],
     db_variants := [(4, ProductVariant_create 4 1 2 [] 7 0 None None True 0)],
     db_spec_versions := [(3, CategorySpecVersion_create 3 1 9 1 demo_snapshot 7 0 None)],
     db_templates := [(6, demo_template)]\<rparr>"

definition demo_key :: quota_key where "demo_key = (1, ''1970-01'', QUOTA_METRIC)"

definition demo_quota_row :: quota_reservation where
  "demo_quota_row = \<lparr>qr_id = 8, qr_limit_value = 2, qr_reserved = 0, qr_committed = 0, qr_created_at = 0, qr_updated_at = 0\<rparr>"

definition demo_provisioned :: db where
  "demo_provisioned = demo_tenant\<lparr>db_quota := [(demo_key, demo_quota_row)]\<rparr>"

definition demo_request :: generation_request where
  "demo_request = GenerationRequest_create 10 1 2 4 3 [] (Some 8) 7 0"

definition demo_event :: "uuid \<Rightarrow> string \<Rightarrow> (string, string) dict \<Rightarrow> datetime option \<Rightarrow> outbox_event" where
  "demo_event i ty payload published = \<lparr>ev_id = i, ev_tenant_id = 1, ev_event_type = ty, ev_payload = payload,
     ev_created_at = 0, ev_published_at = published\<rparr>"

definition demo_requested :: db where
  "demo_requested = demo_provisioned\<lparr>db_quota := [(demo_key, demo_quota_row\<lparr>qr_reserved := 1\<rparr>)],
     db_requests := [(10, demo_request)],
     db_outbox := [(11, demo_event 11 ''generation_request.created'' [(''generation_request_id'', uuid_str 10)] None)],
     db_audit := [(12, \<lparr>au_id = 12, au_tenant_id = 1, au_actor_user_id = Some 7,
       au_action = ''generation_request.created'', au_subject_type = ''generation_request'', au_subject_id = 10,
       au_before = None, au_after = Some [(''product_id'', JStr (uuid_str 2)), (''variant_id'', JStr (uuid_str 4)),
       (''required_slot_count'', JInt 1)], au_ip = None, au_occurred_at = 0\<rparr>)]\<rparr>"

lemmas demo_tenant_defs = demo_catalog_slot_def demo_snapshot_def demo_template_def demo_tenant_def demo_key_def
  demo_quota_row_def demo_provisioned_def demo_request_def demo_event_def demo_requested_def empty_db_def
  Product_create_def ProductVariant_create_def CategorySpecVersion_create_def
  CatalogTemplate_create_authored_def GenerationRequest_create_def

lemmas table_defs = tbl_put_def tbl_add_def tbl_get_def scoped_get_def rows_def tbl_add_unique_def

lemma demo_tenant_start: "generation_start demo_tenant"
  by (simp add: generation_start_def demo_tenant_def empty_db_def)

lemma demo_provision: "generation_step demo_tenant demo_provisioned"
proof -
  have "demo_provisioned = quota_ensure_period 8 demo_key 2 0 demo_tenant"
    by (simp add: quota_ensure_period_def demo_tenant_defs)
  then show ?thesis
    using generation_step.provision [of 8 demo_tenant 2 demo_key 0]
    by (simp add: quota_ids_def demo_tenant_def empty_db_def)
qed

lemma demo_create_request: "CreateGenerationRequest 10 11 12 1 2 4 7 0 demo_provisioned = Inr (demo_request, demo_requested)"
  by (simp add: CreateGenerationRequest_def product_get_def variant_get_def spec_version_get_def required_slots_def
      quota_key_of_def month_key_epoch quota_reserve_def Let_def request_add_def outbox_add_def audit_record_def table_defs
      demo_tenant_defs)

text \<open>The rest of that tenant's first run: fanned out, relayed, claimed by a worker that dies, reaped.\<close>

definition demo_attempt :: generation_item where
  "demo_attempt = GenerationItem_create 13 1 10 5 6 1 ''stub'' ''m'' [] 99 ''A plain photo.'' COMPOSITION_VERSION [] 0"

definition demo_fanned_out :: db where
  "demo_fanned_out = demo_requested\<lparr>db_requests := [(10, demo_request\<lparr>gr_status := REQ_RUNNING\<rparr>)],
     db_items := [(13, demo_attempt)],
     db_outbox := [(11, demo_event 11 ''generation_request.created'' [(''generation_request_id'', uuid_str 10)] None),
       (14, demo_event 14 RENDER_JOB_TYPE [(''generation_item_id'', uuid_str 13)] None)],
     db_audit := db_audit demo_requested @ [(15, \<lparr>au_id = 15, au_tenant_id = 1, au_actor_user_id = Some 7,
       au_action = ''generation_request.fanned_out'', au_subject_type = ''generation_request'', au_subject_id = 10,
       au_before = None, au_after = Some [(''item_count'', JInt 1)], au_ip = None, au_occurred_at = 0\<rparr>)]\<rparr>"

definition demo_render_job :: "uuid \<Rightarrow> string \<Rightarrow> (string, string) dict \<Rightarrow> task_queue_job" where
  "demo_render_job i ty payload = \<lparr>job_id = i, job_tenant_id = 1, job_type = ty, job_payload = payload,
     job_status = JOB_PENDING, job_attempts = 0, job_max_attempts = 5, job_run_at = 0, job_claimed_at = None,
     job_claimed_by = None, job_last_error = None, job_created_at = 0, job_updated_at = 0\<rparr>"

definition demo_relayed :: db where
  "demo_relayed = demo_fanned_out\<lparr>
     db_outbox := [(11, demo_event 11 ''generation_request.created'' [(''generation_request_id'', uuid_str 10)] (Some 0)),
       (14, demo_event 14 RENDER_JOB_TYPE [(''generation_item_id'', uuid_str 13)] (Some 0))],
     db_jobs := [(111, demo_render_job 111 ''generation_request.created'' [(''generation_request_id'', uuid_str 10)]),
       (114, demo_render_job 114 RENDER_JOB_TYPE [(''generation_item_id'', uuid_str 13)])]\<rparr>"

definition demo_rendering :: db where
  "demo_rendering = demo_relayed\<lparr>db_items := [(13, demo_attempt\<lparr>gi_status := ITEM_RUNNING\<rparr>)],
     db_jobs := [(111, demo_render_job 111 ''generation_request.created'' [(''generation_request_id'', uuid_str 10)]),
       (114, job_claimed RENDER_CLAIMED_BY 0 (demo_render_job 114 RENDER_JOB_TYPE [(''generation_item_id'', uuid_str 13)]))]\<rparr>"

definition demo_reaped :: db where
  "demo_reaped = demo_rendering\<lparr>db_jobs := [(111, demo_render_job 111 ''generation_request.created'' [(''generation_request_id'', uuid_str 10)]),
       (114, (job_claimed RENDER_CLAIMED_BY 0 (demo_render_job 114 RENDER_JOB_TYPE [(''generation_item_id'', uuid_str 13)]))
          \<lparr>job_status := JOB_PENDING, job_attempts := 1, job_run_at := minutes 11, job_updated_at := minutes 11,
           job_last_error := Some (stuck_error (minutes 1))\<rparr>)]\<rparr>"

lemmas demo_run_defs = demo_attempt_def demo_fanned_out_def demo_render_job_def demo_relayed_def demo_rendering_def
  demo_reaped_def GenerationItem_create_def job_claimed_def Let_def RENDER_JOB_TYPE_def RENDER_CLAIMED_BY_def
  demo_tenant_defs

lemma demo_prompt: "compose_prompt demo_snapshot (uuid_str 5) ''A plain photo.'' [] [] = Inr ''A plain photo.''"
  by code_simp

lemma demo_fan_out:
  "FanOutGenerationItems ''stub'' ''m'' (\<lambda>_. \<lparr>dr_item_id = 13, dr_event_id = 14, dr_seed = 99\<rparr>) 15 1 10 0 demo_requested
     = Inr ([demo_attempt], demo_fanned_out)"
proof -
  have item: "fan_out_item \<lparr>fo_snapshot = demo_snapshot, fo_ready_images = [], fo_attributes = [],
      fo_variant = ProductVariant_create 4 1 2 [] 7 0 None None True 0, fo_request = demo_request,
      fo_provider = ''stub'', fo_model = ''m''\<rparr> 1 0 \<lparr>dr_item_id = 13, dr_event_id = 14, dr_seed = 99\<rparr>
      demo_catalog_slot demo_requested = Inr demo_attempt"
    using demo_prompt
    by (simp add: fan_out_item_def pick_default_template_def templates_list_for_catalog_slot_def
        resolve_required_inputs_def or_empty_def rows_def demo_run_defs)
  have gets: "request_get 1 10 demo_requested = Some demo_request"
    "product_get 1 2 demo_requested = Some (Product_create 2 1 9 3 [] 7 0 None None None None)"
    "variant_get 1 4 demo_requested = Some (ProductVariant_create 4 1 2 [] 7 0 None None True 0)"
    "spec_version_get 1 3 demo_requested = Some (CategorySpecVersion_create 3 1 9 1 demo_snapshot 7 0 None)"
    "input_images_list_for_product 1 2 demo_requested = []"
    by (simp_all add: request_get_def product_get_def variant_get_def spec_version_get_def
        input_images_list_for_product_def table_defs demo_tenant_defs)
  have slots: "required_slots demo_snapshot = [demo_catalog_slot]"
    by (simp add: required_slots_def demo_snapshot_def demo_catalog_slot_def)
  have entities: "gr_status demo_request = REQ_QUEUED" "gr_product_id demo_request = 2" "gr_variant_id demo_request = 4"
    "prod_spec_version_id (Product_create 2 1 9 3 [] 7 0 None None None None) = 3"
    "prod_id (Product_create 2 1 9 3 [] 7 0 None None None None) = 2"
    "prod_attributes (Product_create 2 1 9 3 [] 7 0 None None None None) = []"
    "pv_attributes (ProductVariant_create 4 1 2 [] 7 0 None None True 0) = []"
    "csv_snapshot (CategorySpecVersion_create 3 1 9 1 demo_snapshot 7 0 None) = demo_snapshot"
    by (simp_all add: demo_request_def GenerationRequest_create_def Product_create_def ProductVariant_create_def
        CategorySpecVersion_create_def)
  have tail: "bind_result (request_render 1 0 14 demo_attempt demo_requested) (\<lambda>t.
      bind_result (GenerationRequest_mark_running 0 demo_request) (\<lambda>r.
      audit_record 15 1 (Some (gr_requested_by r)) ''generation_request.fanned_out'' ''generation_request'' (gr_id r)
        None (Some [(''item_count'', JInt 1)]) 0 (request_update r t))) = Inr demo_fanned_out"
    by (simp add: request_render_def item_add_def outbox_add_def audit_record_def request_update_def
        GenerationRequest_mark_running_def table_defs demo_run_defs)
  have "merge_attributes [] [] = []" by (simp add: merge_attributes_def)
  with item tail show ?thesis
    by (simp add: FanOutGenerationItems_def gets entities slots fan_out_one_def Let_def bind_result_eq_Inr)
qed

lemma demo_relay: "RelayOutboxEventsForTenant (\<lambda>i. i + 100) 1 50 0 demo_fanned_out = Inr (2, demo_relayed)"
  by (simp add: RelayOutboxEventsForTenant_def list_unpublished_def relay_one_def enqueue_job_def enqueue_def
      DEFAULT_MAX_ATTEMPTS_def outbox_mark_published_def table_defs demo_run_defs)

lemma demo_start_render: "\<exists>c. StartGenerationItemRender 0 1 0 demo_relayed = Inr (c, demo_rendering)"
  by (simp add: StartGenerationItemRender_def claim_def claimable_def first_by_def dict_item_def item_get_def
      item_update_def GenerationItem_mark_running_def table_defs demo_run_defs)

lemma demo_reap: "ReapStuckTaskQueueJobs (\<lambda>_. 0) 1 (minutes 11) (db_jobs demo_rendering) = Inr (1, db_jobs demo_reaped)"
  by (simp add: ReapStuckTaskQueueJobs_def reap_stuck_def stuck_def fail_job_def get_job_def compute_backoff_def
      round_half_even_def STUCK_JOB_THRESHOLD_def timedelta_defs table_defs demo_run_defs)

lemma demo_path: "generation_step\<^sup>*\<^sup>* demo_tenant demo_requested" "generation_step\<^sup>*\<^sup>* demo_tenant demo_rendering"
  "generation_step\<^sup>*\<^sup>* demo_tenant demo_reaped"
proof -
  show 1: "generation_step\<^sup>*\<^sup>* demo_tenant demo_requested"
    using demo_provision generation_step.create [OF demo_create_request]
    by (meson converse_rtranclp_into_rtranclp r_into_rtranclp)
  obtain c where "StartGenerationItemRender 0 1 0 demo_relayed = Inr (c, demo_rendering)" using demo_start_render ..
  note steps = generation_step.fan_out [OF demo_fan_out] generation_step.relay [OF demo_relay]
    generation_step.start_render [OF this] generation_step.reap [OF demo_reap]
  show 2: "generation_step\<^sup>*\<^sup>* demo_tenant demo_rendering"
    using 1 steps(1,2,3) by (meson rtranclp.rtrancl_into_rtrancl)
  have "demo_rendering\<lparr>db_jobs := db_jobs demo_reaped\<rparr> = demo_reaped" by (simp add: demo_reaped_def)
  with 2 steps(4) show "generation_step\<^sup>*\<^sup>* demo_tenant demo_reaped" by (metis rtranclp.rtrancl_into_rtrancl)
qed

section \<open>The quota ledger\<close>
section \<open>The quota ledger\<close>

text \<open>
  C2: In every state the transactions of the pipeline can reach from an empty one, a quota row
  holds exactly what has been committed plus what the requests still queued or running will settle,
  neither negative, and never more than its limit: nothing is charged twice, and nothing leaks.
\<close>

theorem quota_ledger_balanced:
  assumes "generation_start s\<^sub>0" and "generation_step\<^sup>*\<^sup>* s\<^sub>0 s" and "map_of (db_quota s) k = Some row"
  shows "qr_reserved row = qr_committed row + outstanding s (qr_id row)
    \<and> 0 \<le> qr_committed row \<and> qr_committed row \<le> qr_reserved row \<and> qr_reserved row \<le> qr_limit_value row"
proof -
  have "ledger_ok s" using generation_reachable_ok [OF assms(2,1)] by (simp add: generation_ok_def)
  from ledger_row [OF this assms(3)] outstanding_nonneg [of s "qr_id row"] show ?thesis by simp
qed

theorem quota_ledger_balanced_witness:
  "map_of (db_quota demo_requested) demo_key = Some (demo_quota_row\<lparr>qr_reserved := 1\<rparr>) \<and> outstanding demo_requested 8 = 1"
proof -
  have row: "map_of (db_quota demo_requested) demo_key = Some (demo_quota_row\<lparr>qr_reserved := 1\<rparr>)"
    by (simp add: demo_requested_def)
  from quota_ledger_balanced [OF demo_tenant_start demo_path(1) row] row show ?thesis by (simp add: demo_quota_row_def)
qed

section \<open>Attempts and live images\<close>

lemma distinct_of_map: "distinct (map f xs) \<Longrightarrow> distinct xs"
  by (simp add: distinct_map)

lemma attempts_of_slot:
  assumes "items_ok t"
  shows "length (filter (\<lambda>i. gi_tenant_id i = T \<and> gi_request_id i = q \<and> gi_catalog_image_slot_id i = c) (rows t)) \<le> 3"
proof -
  define f where "f = filter (\<lambda>i. gi_tenant_id i = T \<and> gi_request_id i = q \<and> gi_catalog_image_slot_id i = c) (rows t)"
  from assms have "distinct (map item_ukey f)"
    unfolding f_def by (intro item_index.keys_distinct) (simp_all add: items_ok_def item_ukey_def)
  moreover have "map item_ukey f = map (\<lambda>n. Some (T, q, c, n)) (map gi_attempt_no f)"
    by (simp add: item_ukey_def f_def)
  ultimately have "distinct (map (\<lambda>n. Some (T, q, c, n)) (map gi_attempt_no f))" by (simp only:)
  then have "distinct (map gi_attempt_no f)" by (rule distinct_of_map)
  then have "length f = card (set (map gi_attempt_no f))" by (simp only: distinct_card length_map)
  also have "\<dots> \<le> card {1 .. MAX_ATTEMPTS}"
    using assms by (intro card_mono) (auto simp: items_ok_def f_def)
  also have "\<dots> = 3" by (simp add: MAX_ATTEMPTS_def)
  finally show ?thesis by (simp only: f_def)
qed

text \<open>
  C11: In every reachable state a slot of a request has at most three attempts, and a slot of a
  variant has at most one live image, so the code's query for the live image never meets two rows.
\<close>

theorem attempts_and_live_images:
  assumes "generation_start s\<^sub>0" and "generation_step\<^sup>*\<^sup>* s\<^sub>0 s"
  shows "length (filter (\<lambda>i. gi_catalog_image_slot_id i = c) (items_list_for_request T q s)) \<le> 3
    \<and> length (filter (\<lambda>g. same_slot T v c g \<and> ci_superseded_by g = None) (rows (db_images s))) \<le> 1
    \<and> (\<exists>live. image_get_live T v c s = Inr live)"
proof (intro conjI)
  have ok: "items_ok (db_items s)" "images_ok (db_images s)"
    using generation_reachable_ok [OF assms(2,1)] by (simp_all add: generation_ok_def pipeline_ok_def)
  show "length (filter (\<lambda>i. gi_catalog_image_slot_id i = c) (items_list_for_request T q s)) \<le> 3"
    using attempts_of_slot [OF ok(1), of T q c] by (simp add: items_list_for_request_def conj_ac)
  show one: "length (filter (\<lambda>g. same_slot T v c g \<and> ci_superseded_by g = None) (rows (db_images s))) \<le> 1"
    using ok(2) by (intro image_index.query_at_most_one [where k = "(T, v, c)"])
      (auto simp: images_ok_def image_ukey_def same_slot_def)
  then show "\<exists>live. image_get_live T v c s = Inr live"
    unfolding image_get_live_def by (rule scalar_one_or_none_defined)
qed

theorem attempts_and_live_images_witness:
  "length (items_list_for_request 1 10 demo_rendering) = 1
   \<and> length (filter (\<lambda>i. gi_catalog_image_slot_id i = 5) (items_list_for_request 1 10 demo_rendering)) \<le> 3
   \<and> (\<exists>live. image_get_live 1 4 5 demo_rendering = Inr live)"
  using attempts_and_live_images [OF demo_tenant_start demo_path(2), of 5 1 10 4]
  by (simp add: items_list_for_request_def rows_def demo_run_defs)

section \<open>Requests\<close>

text \<open>
  A request reserves exactly one unit per required slot of the product's pinned spec, on the
  row of the tenant's current month, and refuses when that is more than the month has left; it
  starts queued and remembers the row it reserved on.
\<close>

theorem create_request_reserves:
  assumes "product_get T p s = Some product" and "variant_get T v s = Some variant" and "pv_product_id variant = p"
    and "spec_version_get T (prod_spec_version_id product) s = Some spec_version"
    and "required_slots (csv_snapshot spec_version) \<noteq> []"
  shows "(\<forall>r s'. CreateGenerationRequest n e a T p v u now s = Inr (r, s') \<longrightarrow>
      (\<exists>row. map_of (db_quota s) (quota_key_of T now) = Some row
        \<and> db_quota s' = AList.update (quota_key_of T now) (row\<lparr>qr_reserved :=
             qr_reserved row + int (length (required_slots (csv_snapshot spec_version))), qr_updated_at := now\<rparr>) (db_quota s)
        \<and> request_get T n s' = Some r \<and> gr_status r = REQ_QUEUED \<and> gr_quota_reservation_id r = Some (qr_id row)))
    \<and> ((\<exists>m. CreateGenerationRequest n e a T p v u now s = Inl (QuotaExceededError m)) \<longleftrightarrow>
      (case map_of (db_quota s) (quota_key_of T now) of None \<Rightarrow> True
       | Some row \<Rightarrow> qr_limit_value row - qr_reserved row < int (length (required_slots (csv_snapshot spec_version)))))"
proof (intro conjI allI impI)
  fix r s'
  assume r: "CreateGenerationRequest n e a T p v u now s = Inr (r, s')"
  from CreateGenerationRequest_InrD [OF r] assms(1,4)
  show "\<exists>row. map_of (db_quota s) (quota_key_of T now) = Some row
        \<and> db_quota s' = AList.update (quota_key_of T now) (row\<lparr>qr_reserved :=
             qr_reserved row + int (length (required_slots (csv_snapshot spec_version))), qr_updated_at := now\<rparr>) (db_quota s)
        \<and> request_get T n s' = Some r \<and> gr_status r = REQ_QUEUED \<and> gr_quota_reservation_id r = Some (qr_id row)"
    by (force simp: request_get_def scoped_get_Some tbl_get_add GenerationRequest_create_def)
next
  show "(\<exists>m. CreateGenerationRequest n e a T p v u now s = Inl (QuotaExceededError m)) \<longleftrightarrow>
      (case map_of (db_quota s) (quota_key_of T now) of None \<Rightarrow> True
       | Some row \<Rightarrow> qr_limit_value row - qr_reserved row < int (length (required_slots (csv_snapshot spec_version))))"
    using assms
    by (auto simp: CreateGenerationRequest_def Let_def quota_reserve_def update_conv' request_add_def outbox_add_def
        audit_record_def tbl_add_def bind_result_def split: option.splits if_splits sum.splits)
qed

lemma demo_gets:
  "product_get 1 2 demo_provisioned = Some (Product_create 2 1 9 3 [] 7 0 None None None None)"
  "variant_get 1 4 demo_provisioned = Some (ProductVariant_create 4 1 2 [] 7 0 None None True 0)"
  "spec_version_get 1 3 demo_provisioned = Some (CategorySpecVersion_create 3 1 9 1 demo_snapshot 7 0 None)"
  "length (required_slots demo_snapshot) = 1" "required_slots demo_snapshot \<noteq> []"
  by (simp_all add: product_get_def variant_get_def spec_version_get_def required_slots_def table_defs demo_tenant_defs)

theorem create_request_reserves_witness:
  "\<exists>row. map_of (db_quota demo_provisioned) (quota_key_of 1 0) = Some row \<and> gr_quota_reservation_id demo_request = Some (qr_id row)"
  using create_request_reserves [OF demo_gets(1,2), THEN conjunct1, rule_format, OF _ _ _ demo_create_request] demo_gets(3,5)
  by (simp add: Product_create_def ProductVariant_create_def CategorySpecVersion_create_def) blast

text \<open>What a slot's first attempt must be, for a product and variant under a pinned spec.\<close>

definition first_attempt_of ::
  "uuid \<Rightarrow> db \<Rightarrow> spec_snapshot \<Rightarrow> product \<Rightarrow> product_variant \<Rightarrow> snap_catalog_slot \<Rightarrow> generation_item \<Rightarrow> bool" where
  "first_attempt_of T s snapshot product variant slot x \<longleftrightarrow>
     uuid_parse (snc_id slot) = Inr (gi_catalog_image_slot_id x) \<and> gi_attempt_no x = 1 \<and> gi_status x = ITEM_PENDING
     \<and> (\<exists>template \<in> set (templates_list_for_catalog_slot T (gi_catalog_image_slot_id x) s).
          ct_is_default template \<and> ct_status template = TPL_ANALYSED \<and> gi_template_id x = ct_id template
          \<and> compose_prompt snapshot (snc_id slot) (or_empty (ct_prompt_template template))
              (merge_attributes (prod_attributes product) (pv_attributes variant)) (pv_axis_values variant)
            = Inr (gi_prompt_rendered x))"

lemma fan_out_item_first_attempt:
  assumes f: "fan_out_item inp T now d slot s = Inr x"
    and inp: "fo_snapshot inp = snapshot" "fo_variant inp = variant"
      "fo_attributes inp = merge_attributes (prod_attributes product) (pv_attributes variant)"
  shows "first_attempt_of T s snapshot product variant slot x" and "gi_request_id x = gr_id (fo_request inp)"
proof -
  from f obtain template where t: "pick_default_template T slot s = Inr template"
    and c: "compose_prompt snapshot (snc_id slot) (or_empty (ct_prompt_template template))
        (merge_attributes (prod_attributes product) (pv_attributes variant)) (pv_axis_values variant) = Inr (gi_prompt_rendered x)"
    and x: "gi_catalog_image_slot_id x = ct_catalog_image_slot_id template" "gi_template_id x = ct_id template"
      "gi_attempt_no x = 1" "gi_status x = ITEM_PENDING" and q: "gi_request_id x = gr_id (fo_request inp)"
    by (auto simp: fan_out_item_def inp bind_result_eq_Inr GenerationItem_create_def)
  from t obtain sid where sid: "uuid_parse (snc_id slot) = Inr sid"
    and fd: "find (\<lambda>t. ct_is_default t \<and> ct_status t = TPL_ANALYSED) (templates_list_for_catalog_slot T sid s) = Some template"
    by (auto simp: pick_default_template_def bind_result_eq_Inr)
  then have mem: "template \<in> set (templates_list_for_catalog_slot T sid s)" "ct_is_default template" "ct_status template = TPL_ANALYSED"
    by (auto simp: find_Some_iff set_conv_nth)
  then have "ct_catalog_image_slot_id template = sid" by (simp add: templates_list_for_catalog_slot_def)
  with sid mem c x show "first_attempt_of T s snapshot product variant slot x" by (auto simp: first_attempt_of_def)
  show "gi_request_id x = gr_id (fo_request inp)" by (rule q)
qed

text \<open>
  C17: A fan-out makes one first attempt per required slot of the pinned spec, in its order: from
  the slot's first default, analysed template, with the prompt composed for this product and
  variant, and one render event per attempt. The request then runs, and is never fanned out again.
\<close>

theorem fan_out_complete:
  assumes r: "FanOutGenerationItems provider model draw a T q now s = Inr (items, s')" and ok: "tbl_ok gr_id (db_requests s)"
  shows "\<exists>request product variant spec_version. request_get T q s = Some request \<and> gr_status request = REQ_QUEUED
     \<and> product_get T (gr_product_id request) s = Some product \<and> variant_get T (gr_variant_id request) s = Some variant
     \<and> spec_version_get T (prod_spec_version_id product) s = Some spec_version
     \<and> list_all2 (first_attempt_of T s (csv_snapshot spec_version) product variant)
         (required_slots (csv_snapshot spec_version)) items
     \<and> (\<forall>x \<in> set items. gi_request_id x = q)
     \<and> rows (db_items s') = rows (db_items s) @ items
     \<and> map ev_payload (rows (db_outbox s')) = map ev_payload (rows (db_outbox s))
         @ map (\<lambda>i. [(''generation_item_id'', uuid_str (gi_id i))]) items
     \<and> (\<exists>m. FanOutGenerationItems provider' model' draw' a' T q now' s' = Inl (ValidationError m))"
proof -
  from FanOutGenerationItems_InrD [OF r] obtain request product variant spec_version inp where
    r: "request_get T q s = Some request" "gr_status request = REQ_QUEUED"
    and p: "product_get T (gr_product_id request) s = Some product" "variant_get T (gr_variant_id request) s = Some variant"
    and v: "spec_version_get T (prod_spec_version_id product) s = Some spec_version"
    and inp: "inp = \<lparr>fo_snapshot = csv_snapshot spec_version,
           fo_ready_images = filter (\<lambda>i. pii_status i = INPUT_READY)
              (input_images_list_for_product T (prod_id product) s),
           fo_attributes = merge_attributes (prod_attributes product) (pv_attributes variant),
           fo_variant = variant, fo_request = request, fo_provider = provider, fo_model = model\<rparr>"
    and len: "length items = length (required_slots (csv_snapshot spec_version))"
    and item: "\<forall>i < length items. fan_out_item inp T now (draw i) (required_slots (csv_snapshot spec_version) ! i) s
        = Inr (items ! i)"
    and out: "rows (db_items s') = rows (db_items s) @ items"
      "map ev_payload (rows (db_outbox s')) = map ev_payload (rows (db_outbox s))
         @ map (\<lambda>i. [(''generation_item_id'', uuid_str (gi_id i))]) items"
    and req: "db_requests s' = tbl_put (gr_id request) (request\<lparr>gr_status := REQ_RUNNING\<rparr>) (db_requests s)"
    by (rule FanOutGenerationItems_InrD [OF r], rule that)
  have "tbl_get (db_requests s) q = Some request" "gr_tenant_id request = T"
    using r(1) by (simp_all add: request_get_def scoped_get_Some)
  then have q: "gr_id request = q" "gr_tenant_id request = T" using tbl_get_key [OF ok] by blast+
  have inp': "fo_snapshot inp = csv_snapshot spec_version" "fo_variant inp = variant" "fo_request inp = request"
    "fo_attributes inp = merge_attributes (prod_attributes product) (pv_attributes variant)" by (simp_all add: inp)
  have first: "first_attempt_of T s (csv_snapshot spec_version) product variant (required_slots (csv_snapshot spec_version) ! i)
      (items ! i) \<and> gi_request_id (items ! i) = q" if "i < length items" for i
    using fan_out_item_first_attempt [OF item [rule_format, OF that] inp'(1,2,4)] by (simp add: inp' q)
  then have all2: "list_all2 (first_attempt_of T s (csv_snapshot spec_version) product variant)
         (required_slots (csv_snapshot spec_version)) items"
    using len by (simp add: list_all2_conv_all_nth)
  have of_q: "\<forall>x \<in> set items. gi_request_id x = q" using first by (auto simp: set_conv_nth)
  have "request_get T q s' = Some (request\<lparr>gr_status := REQ_RUNNING\<rparr>)"
    using q by (simp add: request_get_def scoped_get_Some req tbl_get_put)
  then have "\<exists>m. FanOutGenerationItems provider' model' draw' a' T q now' s' = Inl (ValidationError m)"
    by (simp add: FanOutGenerationItems_def)
  with r p v all2 of_q out show ?thesis by blast
qed

theorem fan_out_complete_witness:
  "list_all2 (first_attempt_of 1 demo_requested demo_snapshot (Product_create 2 1 9 3 [] 7 0 None None None None)
      (ProductVariant_create 4 1 2 [] 7 0 None None True 0)) [demo_catalog_slot] [demo_attempt]
   \<and> gi_request_id demo_attempt = 10"
proof -
  have "tbl_ok gr_id (db_requests demo_requested)"
    by (simp add: tbl_ok_def demo_tenant_defs)
  note f = fan_out_complete [OF demo_fan_out this]
  have gets: "request_get 1 10 demo_requested = Some demo_request" "gr_product_id demo_request = 2"
    "gr_variant_id demo_request = 4"
    "product_get 1 2 demo_requested = Some (Product_create 2 1 9 3 [] 7 0 None None None None)"
    "variant_get 1 4 demo_requested = Some (ProductVariant_create 4 1 2 [] 7 0 None None True 0)"
    "prod_spec_version_id (Product_create 2 1 9 3 [] 7 0 None None None None) = 3"
    "spec_version_get 1 3 demo_requested = Some (CategorySpecVersion_create 3 1 9 1 demo_snapshot 7 0 None)"
    "csv_snapshot (CategorySpecVersion_create 3 1 9 1 demo_snapshot 7 0 None) = demo_snapshot"
    "required_slots demo_snapshot = [demo_catalog_slot]"
    by (simp_all add: request_get_def product_get_def variant_get_def spec_version_get_def
        required_slots_def table_defs demo_tenant_defs)
  obtain request product variant spec_version where
    "request_get 1 10 demo_requested = Some request" "product_get 1 (gr_product_id request) demo_requested = Some product"
    "variant_get 1 (gr_variant_id request) demo_requested = Some variant"
    "spec_version_get 1 (prod_spec_version_id product) demo_requested = Some spec_version"
    and all2: "list_all2 (first_attempt_of 1 demo_requested (csv_snapshot spec_version) product variant)
         (required_slots (csv_snapshot spec_version)) [demo_attempt]" and of_q: "gi_request_id demo_attempt = 10"
    using f by (metis list.set_intros(1))
  moreover from this have "request = demo_request" by (simp add: gets)
  ultimately have "product = Product_create 2 1 9 3 [] 7 0 None None None None"
    "variant = ProductVariant_create 4 1 2 [] 7 0 None None True 0" "csv_snapshot spec_version = demo_snapshot"
    by (auto simp: gets)
  with all2 of_q show ?thesis by (simp add: gets)
qed

section \<open>Rendering\<close>

text \<open>
  An attempt and its job never disagree about another try: a recorded failure makes the item
  dead exactly when the job is dead, failed exactly when the job is pending again, counting one
  attempt on the job and none on the item.
\<close>

theorem render_failure_agrees:
  assumes "FailGenerationItemRender jitter a T i j code detail now s = Inr (x, s')"
  shows "\<exists>old j0 j1. item_get T i s = Some old \<and> gi_status old = ITEM_RUNNING
     \<and> tbl_get (db_items s') (gi_id x) = Some x \<and> gi_attempt_no x = gi_attempt_no old
     \<and> gi_error_code x = Some code \<and> gi_error_detail x = Some detail
     \<and> tbl_get (db_jobs s) j = Some j0 \<and> tbl_get (db_jobs s') j = Some j1 \<and> job_attempts j1 = job_attempts j0 + 1
     \<and> (gi_status x, job_status j1) \<in> {(ITEM_DEAD, JOB_DEAD), (ITEM_FAILED, JOB_PENDING)}
     \<and> (gi_status x = ITEM_DEAD \<longleftrightarrow> job_attempts j0 + 1 \<ge> job_max_attempts j0)"
proof -
  from assms obtain old y st q b where
    old: "item_get T i s = Some old" and y: "GenerationItem_mark_failed code detail old = Inr y"
    and f: "fail_job jitter T j (code @ '': '' @ detail) now (db_jobs s) = Inr (st, q)"
    and x: "(if st = JOB_DEAD then GenerationItem_mark_dead y else Inr y) = Inr x"
    and au: "audit_record a T None ''generation_item.failed'' ''generation_item'' (gi_id x) None b now
       (item_update x ((item_update y s)\<lparr>db_jobs := q\<rparr>)) = Inr s'"
    by (auto simp: FailGenerationItemRender_def bind_result_eq_Inr Let_def split_beta)
  from fail_job_InrD [OF f] obtain j0 j1 where
    j: "tbl_get (db_jobs s) j = Some j0" "st = fail_verdict j0" "job_status j1 = st"
      "job_attempts j1 = job_attempts j0 + 1" "q = tbl_put j j1 (db_jobs s)" by blast
  have "gi_status old = ITEM_RUNNING" "gi_attempt_no x = gi_attempt_no old" "gi_error_code x = Some code"
    "gi_error_detail x = Some detail" "gi_status x = (if st = JOB_DEAD then ITEM_DEAD else ITEM_FAILED)"
    using x y by (auto simp: GenerationItem_method_defs split: if_splits)
  with old j show ?thesis
    by (intro exI [of _ old] exI [of _ j0] exI [of _ j1])
       (simp add: audit_record_frame [OF au] item_update_def tbl_get_put fail_verdict_def)
qed

theorem render_failure_agrees_witness:
  "\<exists>x s' j1. FailGenerationItemRender 0 500 1 13 114 ''Timeout'' ''no answer'' 6 demo_rendering = Inr (x, s')
     \<and> tbl_get (db_jobs s') 114 = Some j1 \<and> gi_status x = ITEM_FAILED \<and> job_status j1 = JOB_PENDING"
proof -
  have "\<exists>x s'. FailGenerationItemRender 0 500 1 13 114 ''Timeout'' ''no answer'' 6 demo_rendering = Inr (x, s')
      \<and> gi_status x = ITEM_FAILED"
    by (simp add: FailGenerationItemRender_def item_get_def fail_job_def get_job_def compute_backoff_def
        GenerationItem_method_defs item_update_def audit_record_def table_defs demo_run_defs)
  then obtain x s' where f: "FailGenerationItemRender 0 500 1 13 114 ''Timeout'' ''no answer'' 6 demo_rendering = Inr (x, s')"
    and "gi_status x = ITEM_FAILED" by blast
  with render_failure_agrees [OF f] show ?thesis by auto
qed

lemma poisoned_start:
  assumes j: "j \<in> set (rows (db_jobs s))" "job_tenant_id j = T" "job_type j = RENDER_JOB_TYPE" "job_status j = JOB_PENDING"
    and first: "\<forall>k \<in> set (rows (db_jobs s)). job_tenant_id k = T \<longrightarrow> job_type k = RENDER_JOB_TYPE
       \<longrightarrow> job_status k = JOB_PENDING \<longrightarrow> k \<noteq> j \<longrightarrow> job_run_at j < job_run_at k"
    and item: "map_of (job_payload j) ''generation_item_id'' = Some raw" "uuid_parse raw = Inr i"
      "item_get T i s = Some x" "gi_status x = ITEM_RUNNING"
  shows "if job_run_at j \<le> t then \<exists>e. StartGenerationItemRender jitter T t s = Inl e
    else StartGenerationItemRender jitter T t s = Inr (None, s)"
proof -
  let ?ready = "filter (claimable T (Some RENDER_JOB_TYPE) t) (rows (db_jobs s))"
  show ?thesis
  proof (cases "job_run_at j \<le> t")
    case True
    then have mem: "j \<in> set ?ready" using j by (simp add: claimable_def)
    obtain k where k: "first_by job_run_at ?ready = Some k" using mem by (metis first_by_None list.set_cases list.simps(3) not_None_eq)
    note least = first_by_Some [OF k]
    have "k = j" using least(1) least(2) [OF mem] first by (auto simp: claimable_def)
    then have cl: "claim T RENDER_CLAIMED_BY (Some RENDER_JOB_TYPE) t (db_jobs s)
        = (Some (job_claimed RENDER_CLAIMED_BY t j), tbl_put (job_id j) (job_claimed RENDER_CLAIMED_BY t j) (db_jobs s))"
      using k by (simp add: claim_def job_claimed_def Let_def)
    have "\<exists>e. GenerationItem_mark_running x = Inl e" using item(4) by (simp add: GenerationItem_mark_running_def)
    moreover have "item_get T i (s\<lparr>db_jobs := q\<rparr>) = Some x" for q using item(3) by (simp add: item_get_def)
    ultimately show ?thesis
      using item(1,2) cl True
      by (auto simp: StartGenerationItemRender_def Let_def dict_item_def job_claimed_def bind_result_def split: sum.splits)
  next
    case False
    have "?ready = []" using first False by (force simp: claimable_def filter_empty_conv)
    then have "claim T RENDER_CLAIMED_BY (Some RENDER_JOB_TYPE) t (db_jobs s) = (None, db_jobs s)" by (simp add: claim_def first_by_def)
    with False show ?thesis by (simp add: StartGenerationItemRender_def)
  qed
qed

text \<open>What a worker that starts a render leaves behind if it goes no further.\<close>

lemma start_render_claims:
  assumes start: "StartGenerationItemRender jitter T now s = Inr (Some ctx, s1)"
    and ok: "items_ok (db_items s)" "jobs_ok (db_jobs s)"
  shows "\<exists>j raw x. tbl_get (db_jobs s1) (rc_job_id ctx) = Some j \<and> job_tenant_id j = T \<and> job_type j = RENDER_JOB_TYPE
    \<and> map_of (job_payload j) ''generation_item_id'' = Some raw \<and> uuid_parse raw = Inr (rc_item_id ctx)
    \<and> item_get T (rc_item_id ctx) s1 = Some x \<and> gi_status x = ITEM_RUNNING"
proof -
  obtain r q where c: "claim T RENDER_CLAIMED_BY (Some RENDER_JOB_TYPE) now (db_jobs s) = (r, q)" by fastforce
  with start obtain job where r: "r = Some job" by (cases r) (auto simp: StartGenerationItemRender_def)
  from start c r obtain raw i x y keys where
    raw: "map_of (job_payload job) ''generation_item_id'' = Some raw" and i: "uuid_parse raw = Inr i"
    and x: "item_get T i (s\<lparr>db_jobs := q\<rparr>) = Some x" and y: "GenerationItem_mark_running x = Inr y"
    and ctx: "rc_job_id ctx = job_id job" "rc_item_id ctx = gi_id y"
    and s1: "s1 = item_update y (s\<lparr>db_jobs := q\<rparr>)"
    by (auto simp: StartGenerationItemRender_def Let_def dict_item_def bind_result_eq_Inr split: option.splits)
  have yx: "gi_id y = gi_id x" "gi_tenant_id y = gi_tenant_id x" "gi_status y = ITEM_RUNNING"
    using y by (auto simp: GenerationItem_mark_running_def split: if_splits)
  from x have "tbl_get (db_items s) i = Some x" "gi_tenant_id x = T" by (simp_all add: item_get_def scoped_get_Some)
  moreover from this ok(1) have "gi_id x = i" by (auto simp: items_ok_def dest: tbl_get_key)
  ultimately have item: "item_get T i s1 = Some y" "gi_id y = i"
    using yx by (simp_all add: s1 item_update_def item_get_def scoped_get_Some tbl_get_put)
  from claim_SomeD [OF ok(2) c [unfolded r]] obtain j0 where
    "q = tbl_put (job_id job) job (db_jobs s)" "claimable T (Some RENDER_JOB_TYPE) now j0" "job = job_claimed RENDER_CLAIMED_BY now j0"
    by blast
  then have "tbl_get (db_jobs s1) (job_id job) = Some job" "job_tenant_id job = T" "job_type job = RENDER_JOB_TYPE"
    by (simp_all add: s1 item_update_def tbl_get_put claimable_def job_claimed_def)
  with raw i item yx(3) ctx show ?thesis by auto
qed

lemma reap_same_work:
  assumes "ReapStuckTaskQueueJobs jitters T now q = Inr (n, q')" and "tbl_get q i = Some j"
  shows "\<exists>k. tbl_get q' i = Some k \<and> same_work j k"
proof -
  from assms(1) have "reap_stuck jitters T (now - STUCK_JOB_THRESHOLD) now q = Inr (n, q')" by (simp add: ReapStuckTaskQueueJobs_def)
  then show ?thesis
  proof (rule reap_stuck_invariant)
    show "\<exists>k. tbl_get q i = Some k \<and> same_work j k" using assms(2) by (simp add: same_work_def)
    fix i' jitter err p st p'
    assume "fail_job jitter T i' err now p = Inr (st, p')" and "\<exists>k. tbl_get p i = Some k \<and> same_work j k"
    then show "\<exists>k. tbl_get p' i = Some k \<and> same_work j k"
      by (auto dest!: fail_job_InrD simp: tbl_get_put same_work_def)
  qed
qed

text \<open>A run of the render worker of a tenant, at any time, with any draws and any provider.\<close>

definition render_run :: "uuid \<Rightarrow> db \<Rightarrow> db \<Rightarrow> bool" where
  "render_run T s s' \<longleftrightarrow> (\<exists>generate d. snd (GenerationRenderAgent_run generate d T s) = s')"

text \<open>
  C30: A worker claims a render job and dies; the reaper returns the job to the queue, but the item stays running. Once that
  job is the tenant's pending render job that is due first, every later start of a render raises inside the transaction that
  claims it, whatever the time and the jitter, and is rolled back: however many runs of the render worker follow, the database
  stays as it is, so neither this item nor any other of the tenant is ever rendered by them.
\<close>

theorem render_queue_poisoned:
  assumes ok: "generation_ok s" "jobs_ok (db_jobs s)"
    and died: "StartGenerationItemRender jitter T now s = Inr (Some ctx, s1)"
    and reaped: "ReapStuckTaskQueueJobs jitters T later (db_jobs s1) = Inr (n, q)"
    and j: "tbl_get q (rc_job_id ctx) = Some j" "job_status j = JOB_PENDING"
    and first: "\<forall>k \<in> set (rows q). job_tenant_id k = T \<longrightarrow> job_type k = RENDER_JOB_TYPE
       \<longrightarrow> job_status k = JOB_PENDING \<longrightarrow> k \<noteq> j \<longrightarrow> job_run_at j < job_run_at k"
  shows "(\<exists>x. item_get T (rc_item_id ctx) (s1\<lparr>db_jobs := q\<rparr>) = Some x \<and> gi_status x = ITEM_RUNNING)
    \<and> (\<forall>t jitter'. job_run_at j \<le> t \<longrightarrow> (\<exists>e. StartGenerationItemRender jitter' T t (s1\<lparr>db_jobs := q\<rparr>) = Inl e))
    \<and> (\<forall>s2. (render_run T)\<^sup>*\<^sup>* (s1\<lparr>db_jobs := q\<rparr>) s2 \<longrightarrow> s2 = s1\<lparr>db_jobs := q\<rparr>)"
proof -
  let ?s = "s1\<lparr>db_jobs := q\<rparr>"
  have items: "items_ok (db_items s)" using ok(1) by (simp add: generation_ok_def pipeline_ok_def)
  from start_render_claims [OF died items ok(2)] obtain j1 raw x where
    j1: "tbl_get (db_jobs s1) (rc_job_id ctx) = Some j1" "job_tenant_id j1 = T" "job_type j1 = RENDER_JOB_TYPE"
      "map_of (job_payload j1) ''generation_item_id'' = Some raw" and raw: "uuid_parse raw = Inr (rc_item_id ctx)"
    and x: "item_get T (rc_item_id ctx) s1 = Some x" "gi_status x = ITEM_RUNNING" by blast
  from reap_same_work [OF reaped j1(1)] j(1) have work: "same_work j1 j" by simp
  have item: "item_get T (rc_item_id ctx) ?s = Some x" using x(1) by (simp add: item_get_def)
  have start: "if job_run_at j \<le> t then \<exists>e. StartGenerationItemRender jitter' T t ?s = Inl e
      else StartGenerationItemRender jitter' T t ?s = Inr (None, ?s)" for t jitter'
    by (rule poisoned_start [where raw = raw and i = "rc_item_id ctx" and x = x])
       (use rows_mem [OF j(1)] j(2) j1 work first raw item x(2) in \<open>simp_all add: same_work_def\<close>)
  have "GenerationRenderAgent_run generate d T ?s = (r, s') \<Longrightarrow> s' = ?s" for generate d r s'
    using start [of "gd_time d 0" "gd_jitter d 0"] by (auto simp: GenerationRenderAgent_run_def run_uow_def split: if_splits)
  then have step: "render_run T ?s s' \<Longrightarrow> s' = ?s" for s' unfolding render_run_def by (metis prod.collapse)
  have "s2 = ?s" if "(render_run T)\<^sup>*\<^sup>* ?s s2" for s2
    using that by (induction rule: rtranclp_induct) (use step in auto)
  with start item x(2) show ?thesis by meson
qed

theorem render_queue_poisoned_witness:
  "generation_step\<^sup>*\<^sup>* demo_tenant demo_reaped
   \<and> (\<exists>e. StartGenerationItemRender 0 1 (minutes 20) demo_reaped = Inl e)"
proof -
  obtain c where c: "StartGenerationItemRender 0 1 0 demo_relayed = Inr (c, demo_rendering)" using demo_start_render ..
  have jobs: "jobs_ok (db_jobs demo_relayed)"
    by (simp add: jobs_ok_def job_ok_def tbl_ok_def table_defs demo_run_defs)
  have "generation_step\<^sup>*\<^sup>* demo_tenant demo_relayed"
    using demo_path(1) generation_step.fan_out [OF demo_fan_out] generation_step.relay [OF demo_relay]
    by (meson rtranclp.rtrancl_into_rtrancl)
  then have ok: "generation_ok demo_relayed" using demo_tenant_start by (rule generation_reachable_ok)
  have some: "\<exists>ctx. c = Some ctx \<and> rc_job_id ctx = 114"
    using c by (auto simp: StartGenerationItemRender_def claim_def claimable_def first_by_def dict_item_def item_get_def
      item_update_def GenerationItem_mark_running_def table_defs demo_run_defs)
  then obtain ctx where ctx: "c = Some ctx" "rc_job_id ctx = 114" by blast
  let ?j = "snd (db_jobs demo_reaped ! 1)"
  have j: "tbl_get (db_jobs demo_reaped) (rc_job_id ctx) = Some ?j" "job_status ?j = JOB_PENDING" "job_run_at ?j \<le> minutes 20"
    and first: "\<forall>k \<in> set (rows (db_jobs demo_reaped)). job_tenant_id k = 1 \<longrightarrow> job_type k = RENDER_JOB_TYPE
       \<longrightarrow> job_status k = JOB_PENDING \<longrightarrow> k \<noteq> ?j \<longrightarrow> job_run_at ?j < job_run_at k"
    by (simp_all add: ctx(2) table_defs demo_run_defs timedelta_defs)
  have "demo_rendering\<lparr>db_jobs := db_jobs demo_reaped\<rparr> = demo_reaped" by (simp add: demo_reaped_def)
  with render_queue_poisoned [OF ok jobs c [unfolded ctx(1)] demo_reap j(1,2) first] j(3) demo_path(3) show ?thesis by auto
qed

section \<open>Quality control\<close>


text \<open>All attempts at the slot of an item, and the usable templates of the slot other than the one tried last.\<close>

definition slot_attempts :: "uuid \<Rightarrow> generation_item \<Rightarrow> db \<Rightarrow> generation_item list" where
  "slot_attempts T item s = filter (\<lambda>i. gi_catalog_image_slot_id i = gi_catalog_image_slot_id item)
     (items_list_for_request T (gi_request_id item) s)"


lemma slot_attempts_update [simp]: "slot_attempts T item (image_update y s) = slot_attempts T item s"
  by (simp add: slot_attempts_def items_list_for_request_def image_update_def)










end
