(* ===== verification/Access.thy ===== *)
theory Access
  imports Access_Entities Unique_Index "HOL-Library.List_Lexorder" "HOL-Library.Char_ord"
begin

text \<open>
  Who may do what: the tables without row-level security (users, identities, memberships,
  platform admins, sessions, domains, idempotency keys) with their repositories,
  services/principal\_resolver.py, features/identity/*.py, features/tenancy/*.py,
  infrastructure/auth/access\_tokens.py and the dependencies of api/deps that turn a request into a
  principal and a tenant. SHA-256, the JWT library and the identity provider are arguments.
\<close>

section \<open>The platform's tables\<close>

record platform_admin =
  pa_granted_by :: uuid
  pa_granted_at :: datetime

record idempotency_record =
  idem_key :: string
  idem_request_fingerprint :: string
  idem_response_status :: "int option"
  idem_response_body :: "((string, json) dict) option"
  idem_created_at :: datetime

text \<open>\<open>pf_db\<close> holds the tenants' own tables; the audit log is one of them.\<close>

record platform =
  pf_users :: "user table"
  pf_identities :: "identity table"
  pf_memberships :: "tenant_membership table"
  pf_admins :: "(uuid, platform_admin) dict"
  pf_sessions :: "session table"
  pf_domains :: "tenant_domain table"
  pf_idempotency :: "(uuid \<times> string, idempotency_record) dict"
  pf_db :: db

type_synonym 'a platform_use_case = "platform \<Rightarrow> ('a \<times> platform) result"

section \<open>Repositories\<close>

definition user_get :: "uuid \<Rightarrow> platform \<Rightarrow> user option" where
  "user_get user_id s = tbl_get (pf_users s) user_id"

definition user_get_by_email :: "string \<Rightarrow> platform \<Rightarrow> user option result" where
  "user_get_by_email email s =
     scalar_one_or_none (filter (\<lambda>u. lower (usr_email u) = lower (strip email)) (rows (pf_users s)))"

text \<open>\<open>uq_users_email_lower\<close>, \<open>uq_identities_provider_iss_sub\<close>,
  \<open>uq_tenant_memberships_tenant_id_user_id\<close>, \<open>uq_sessions_refresh_token_hash\<close>,
  \<open>uq_tenant_domains_hostname\<close> of the migrations.\<close>

definition user_clash :: "user \<Rightarrow> user \<Rightarrow> bool" where
  "user_clash u r \<longleftrightarrow> lower (usr_email r) = lower (usr_email u)"

definition identity_clash :: "identity \<Rightarrow> identity \<Rightarrow> bool" where
  "identity_clash i r \<longleftrightarrow> ident_provider r = ident_provider i \<and> ident_issuer r = ident_issuer i
     \<and> ident_subject r = ident_subject i"

definition membership_clash :: "tenant_membership \<Rightarrow> tenant_membership \<Rightarrow> bool" where
  "membership_clash m r \<longleftrightarrow> tm_tenant_id r = tm_tenant_id m \<and> tm_user_id r = tm_user_id m"

definition session_clash :: "session \<Rightarrow> session \<Rightarrow> bool" where
  "session_clash x r \<longleftrightarrow> sess_refresh_token_hash r = sess_refresh_token_hash x"

definition domain_clash :: "tenant_domain \<Rightarrow> tenant_domain \<Rightarrow> bool" where
  "domain_clash d r \<longleftrightarrow> td_hostname r = td_hostname d"

definition user_add :: "user \<Rightarrow> platform \<Rightarrow> platform result" where
  "user_add u s = bind_result (tbl_add_unique user_clash (usr_id u) u (pf_users s))
     (\<lambda>t. Inr (s\<lparr>pf_users := t\<rparr>))"

definition user_update :: "user \<Rightarrow> platform \<Rightarrow> platform" where
  "user_update u s = s\<lparr>pf_users := tbl_put (usr_id u) u (pf_users s)\<rparr>"

definition identity_get_by_provider_subject ::
  "string \<Rightarrow> string \<Rightarrow> string \<Rightarrow> platform \<Rightarrow> identity option result" where
  "identity_get_by_provider_subject provider issuer subject s =
     scalar_one_or_none (filter (\<lambda>i. ident_provider i = provider \<and> ident_issuer i = issuer
       \<and> ident_subject i = subject) (rows (pf_identities s)))"

definition identity_add :: "identity \<Rightarrow> platform \<Rightarrow> platform result" where
  "identity_add i s = bind_result (tbl_add_unique identity_clash (ident_id i) i (pf_identities s))
     (\<lambda>t. Inr (s\<lparr>pf_identities := t\<rparr>))"

definition membership_get :: "uuid \<Rightarrow> uuid \<Rightarrow> platform \<Rightarrow> tenant_membership option result" where
  "membership_get tenant_id user_id s =
     scalar_one_or_none (filter (\<lambda>m. tm_tenant_id m = tenant_id \<and> tm_user_id m = user_id)
       (rows (pf_memberships s)))"

definition memberships_list_for_user :: "uuid \<Rightarrow> platform \<Rightarrow> tenant_membership list" where
  "memberships_list_for_user user_id s = filter (\<lambda>m. tm_user_id m = user_id) (rows (pf_memberships s))"

definition membership_add :: "tenant_membership \<Rightarrow> platform \<Rightarrow> platform result" where
  "membership_add m s = bind_result (tbl_add_unique membership_clash (tm_id m) m (pf_memberships s))
     (\<lambda>t. Inr (s\<lparr>pf_memberships := t\<rparr>))"

definition is_admin :: "uuid \<Rightarrow> platform \<Rightarrow> bool" where
  "is_admin user_id s \<longleftrightarrow> map_of (pf_admins s) user_id \<noteq> None"

text \<open>\<open>ON CONFLICT DO NOTHING\<close>: an existing grant is left as it is.\<close>

definition admin_grant :: "uuid \<Rightarrow> uuid \<Rightarrow> datetime \<Rightarrow> platform \<Rightarrow> platform" where
  "admin_grant user_id granted_by now s =
     (if is_admin user_id s then s
      else s\<lparr>pf_admins := pf_admins s @ [(user_id, \<lparr>pa_granted_by = granted_by, pa_granted_at = now\<rparr>)]\<rparr>)"

definition session_get_by_refresh_token_hash :: "string \<Rightarrow> platform \<Rightarrow> session option result" where
  "session_get_by_refresh_token_hash token_hash s =
     scalar_one_or_none (filter (\<lambda>x. sess_refresh_token_hash x = token_hash) (rows (pf_sessions s)))"

definition session_get_by_previous_token_hash :: "string \<Rightarrow> platform \<Rightarrow> session option result" where
  "session_get_by_previous_token_hash token_hash s =
     scalar_one_or_none (filter (\<lambda>x. sess_previous_token_hash x = Some token_hash) (rows (pf_sessions s)))"

definition session_add :: "session \<Rightarrow> platform \<Rightarrow> platform result" where
  "session_add x s = bind_result (tbl_add_unique session_clash (sess_id x) x (pf_sessions s))
     (\<lambda>t. Inr (s\<lparr>pf_sessions := t\<rparr>))"

text \<open>
  The flush of a changed session, under the same unique index: a hash another session holds is
  refused.
\<close>

definition session_update :: "session \<Rightarrow> platform \<Rightarrow> platform result" where
  "session_update x s =
     (if list_ex (\<lambda>r. session_clash x r \<and> sess_id r \<noteq> sess_id x) (rows (pf_sessions s))
      then Inl (IntegrityError ''duplicate key value'')
      else Inr (s\<lparr>pf_sessions := tbl_put (sess_id x) x (pf_sessions s)\<rparr>))"

definition revoke_all_for_user :: "uuid \<Rightarrow> datetime \<Rightarrow> platform \<Rightarrow> platform" where
  "revoke_all_for_user user_id now s =
     s\<lparr>pf_sessions := map (\<lambda>(i, x). (i, if sess_user_id x = user_id \<and> sess_revoked_at x = None
        then x\<lparr>sess_revoked_at := Some now\<rparr> else x)) (pf_sessions s)\<rparr>"

definition resolve_by_hostname :: "string \<Rightarrow> platform \<Rightarrow> tenant_domain option result" where
  "resolve_by_hostname hostname s =
     scalar_one_or_none (filter (\<lambda>d. td_hostname d = hostname) (rows (pf_domains s)))"

definition domain_get :: "uuid \<Rightarrow> uuid \<Rightarrow> platform \<Rightarrow> tenant_domain option" where
  "domain_get tenant_id domain_id s = scoped_get td_tenant_id (pf_domains s) tenant_id domain_id"

definition domains_list_for_tenant :: "uuid \<Rightarrow> platform \<Rightarrow> tenant_domain list" where
  "domains_list_for_tenant tenant_id s =
     sort_key td_created_at (filter (\<lambda>d. td_tenant_id d = tenant_id) (rows (pf_domains s)))"

definition domain_add :: "tenant_domain \<Rightarrow> platform \<Rightarrow> platform result" where
  "domain_add d s = bind_result (tbl_add_unique domain_clash (td_id d) d (pf_domains s))
     (\<lambda>t. Inr (s\<lparr>pf_domains := t\<rparr>))"

definition idempotency_get :: "uuid \<Rightarrow> string \<Rightarrow> platform \<Rightarrow> idempotency_record option" where
  "idempotency_get tenant_id key s = map_of (pf_idempotency s) (tenant_id, key)"

definition idempotency_reserve ::
  "uuid \<Rightarrow> string \<Rightarrow> string \<Rightarrow> datetime \<Rightarrow> platform \<Rightarrow> bool \<times> platform" where
  "idempotency_reserve tenant_id key request_fingerprint now s =
     (case idempotency_get tenant_id key s of
        Some _ \<Rightarrow> (False, s)
      | None \<Rightarrow> (True, s\<lparr>pf_idempotency := pf_idempotency s @ [((tenant_id, key),
          \<lparr>idem_key = key, idem_request_fingerprint = request_fingerprint, idem_response_status = None,
           idem_response_body = None, idem_created_at = now\<rparr>)]\<rparr>))"

definition idempotency_store_response ::
  "uuid \<Rightarrow> string \<Rightarrow> int \<Rightarrow> ((string, json) dict) option \<Rightarrow> platform \<Rightarrow> platform" where
  "idempotency_store_response tenant_id key status body s =
     (case idempotency_get tenant_id key s of
        None \<Rightarrow> s
      | Some r \<Rightarrow> s\<lparr>pf_idempotency := dict_set (tenant_id, key)
          (r\<lparr>idem_response_status := Some status, idem_response_body := body\<rparr>) (pf_idempotency s)\<rparr>)"

section \<open>Principals\<close>

definition nobody :: "uuid \<Rightarrow> uuid option \<Rightarrow> bool \<Rightarrow> principal" where
  "nobody user_id tenant_id is_platform_admin =
     \<lparr>pr_user_id = user_id, pr_tenant_id = tenant_id, pr_role = None, pr_capabilities = [],
      pr_is_platform_admin = is_platform_admin, pr_impersonated_by = None\<rparr>"

definition membership_capabilities :: "tenant_membership \<Rightarrow> string list" where
  "membership_capabilities m = map capability_value (ROLE_CAPABILITIES (tm_role m)) @ tm_extra_capabilities m"

definition PrincipalResolver_resolve :: "uuid \<Rightarrow> uuid option \<Rightarrow> platform \<Rightarrow> principal result" where
  "PrincipalResolver_resolve user_id tenant_id s =
     (case tenant_id of None \<Rightarrow> Inr (nobody user_id None (is_admin user_id s))
      | Some t \<Rightarrow> bind_result (membership_get t user_id s) (\<lambda>membership.
          case membership of
            None \<Rightarrow> Inr (nobody user_id (Some t) (is_admin user_id s))
          | Some m \<Rightarrow> Inr \<lparr>pr_user_id = user_id, pr_tenant_id = Some t, pr_role = Some (tm_role m),
              pr_capabilities = membership_capabilities m, pr_is_platform_admin = is_admin user_id s,
              pr_impersonated_by = None\<rparr>))"

section \<open>Access tokens\<close>

record access_token_claims =
  atc_subject :: string
  atc_tenant_id :: "string option"
  atc_role :: "string option"
  atc_capabilities :: "string list"
  atc_is_platform_admin :: bool
  atc_impersonated_by :: "string option"

text \<open>The payload the codec hands to the JWT library; the times are whole seconds.\<close>

record jwt_payload =
  jwt_claims :: access_token_claims
  jwt_iss :: string
  jwt_iat :: int
  jwt_exp :: int

definition ISSUER :: string where "ISSUER = ''softbox-ai''"

definition timestamp :: "datetime \<Rightarrow> int" where
  "timestamp t = t div microseconds_per_second"

definition AccessTokenCodec_encode ::
  "(jwt_payload \<Rightarrow> string) \<Rightarrow> timedelta \<Rightarrow> access_token_claims \<Rightarrow> datetime \<Rightarrow> string" where
  "AccessTokenCodec_encode jwt_encode ttl claims now =
     jwt_encode \<lparr>jwt_claims = claims, jwt_iss = ISSUER, jwt_iat = timestamp now, jwt_exp = timestamp (now + ttl)\<rparr>"

text \<open>\<open>jwt_decode\<close> checks the signature, \<open>jwt_valid\<close> the registered claims at a time.\<close>

definition AccessTokenCodec_decode ::
  "(string \<Rightarrow> jwt_payload option) \<Rightarrow> (int \<Rightarrow> jwt_payload \<Rightarrow> bool) \<Rightarrow> string \<Rightarrow> datetime
    \<Rightarrow> access_token_claims result" where
  "AccessTokenCodec_decode jwt_decode jwt_valid token now =
     (case jwt_decode token of
        None \<Rightarrow> Inl (AuthenticationError ''Invalid or expired access token.'')
      | Some p \<Rightarrow> if jwt_valid (timestamp now) p then Inr (jwt_claims p)
          else Inl (AuthenticationError ''Invalid or expired access token.''))"

definition role_of :: "string \<Rightarrow> role result" where
  "role_of v = require (ValueError (py_repr v @ '' is not a valid Role''))
     (find (\<lambda>r. role_value r = v) [ROLE_OWNER, ROLE_ADMIN, ROLE_CATALOG_MANAGER, ROLE_APPROVER, ROLE_VIEWER])"

text \<open>\<open>f(v) if v else None\<close>.\<close>

definition if_given :: "(string \<Rightarrow> 'a result) \<Rightarrow> string option \<Rightarrow> 'a option result" where
  "if_given f v = (case v of None \<Rightarrow> Inr None
     | Some t \<Rightarrow> if t = [] then Inr None else bind_result (f t) (\<lambda>x. Inr (Some x)))"

definition get_current_principal ::
  "(string \<Rightarrow> datetime \<Rightarrow> access_token_claims result) \<Rightarrow> string option \<Rightarrow> datetime \<Rightarrow> principal result" where
  "get_current_principal decode credentials now =
     bind_result (require (AuthenticationError ''Missing bearer token.'') credentials) (\<lambda>token.
     bind_result (decode token now) (\<lambda>claims.
     bind_result (uuid_parse (atc_subject claims)) (\<lambda>user_id.
     bind_result (if_given uuid_parse (atc_tenant_id claims)) (\<lambda>tenant_id.
     bind_result (if_given role_of (atc_role claims)) (\<lambda>r.
     bind_result (if_given uuid_parse (atc_impersonated_by claims)) (\<lambda>impersonated_by.
       Inr \<lparr>pr_user_id = user_id, pr_tenant_id = tenant_id, pr_role = r,
            pr_capabilities = atc_capabilities claims, pr_is_platform_admin = atc_is_platform_admin claims,
            pr_impersonated_by = impersonated_by\<rparr>))))))"

definition require_tenant_context :: "principal \<Rightarrow> principal result" where
  "require_tenant_context p =
     (if pr_tenant_id p = None then Inl (PermissionDeniedError ''A tenant-scoped session is required.'') else Inr p)"

definition require_platform_admin :: "principal \<Rightarrow> principal result" where
  "require_platform_admin p = bind_result (Principal_require_platform_admin p) (\<lambda>_. Inr p)"

definition require_capability :: "string \<Rightarrow> principal \<Rightarrow> principal result" where
  "require_capability c p = bind_result (Principal_require_capability c p) (\<lambda>_. Inr p)"

definition claims_of :: "uuid \<Rightarrow> uuid option \<Rightarrow> principal \<Rightarrow> access_token_claims" where
  "claims_of user_id tenant_id p =
     \<lparr>atc_subject = uuid_str user_id, atc_tenant_id = map_option uuid_str tenant_id,
      atc_role = map_option role_value (pr_role p), atc_capabilities = sort (remdups (pr_capabilities p)),
      atc_is_platform_admin = pr_is_platform_admin p, atc_impersonated_by = None\<rparr>"

section \<open>Login, refresh, tenant selection, logout\<close>

definition REFRESH_TOKEN_TTL :: timedelta where "REFRESH_TOKEN_TTL = days 30"

record token_pair =
  tp_user_id :: uuid
  tp_access_token :: string
  tp_refresh_token :: string

record oidc_claims =
  oc_subject :: string
  oc_issuer :: string
  oc_email :: "string option"
  oc_email_verified :: bool
  oc_name :: "string option"
  oc_raw :: "(string, json) dict"

text \<open>The operator's settings, as \<open>__init__\<close> leaves them, and what a login draws at random.\<close>

record login_settings =
  ls_provider_name :: string
  ls_admin_emails :: "string list"
  ls_owner_email :: "string option"
  ls_owner_tenant_id :: "uuid option"

definition login_settings_of ::
  "string \<Rightarrow> string list \<Rightarrow> string option \<Rightarrow> uuid option \<Rightarrow> login_settings" where
  "login_settings_of provider_name admin_emails owner_email owner_tenant_id =
     \<lparr>ls_provider_name = provider_name, ls_admin_emails = map lower admin_emails,
      ls_owner_email = (case owner_email of None \<Rightarrow> None | Some e \<Rightarrow> if e = [] then None else Some (lower e)),
      ls_owner_tenant_id = owner_tenant_id\<rparr>"

record login_draws =
  ld_user_id :: uuid
  ld_identity_id :: uuid
  ld_membership_id :: uuid
  ld_session_id :: uuid
  ld_token :: string

definition find_or_create_user ::
  "login_settings \<Rightarrow> login_draws \<Rightarrow> oidc_claims \<Rightarrow> string \<Rightarrow> datetime \<Rightarrow> user platform_use_case" where
  "find_or_create_user cfg d claims email now s =
     bind_result (identity_get_by_provider_subject (ls_provider_name cfg) (oc_issuer claims) (oc_subject claims) s)
       (\<lambda>found. case found of
         Some i \<Rightarrow> bind_result (require (AuthenticationError ''Identity references a user that no longer exists.'')
             (user_get (ident_user_id i) s)) (\<lambda>u. Inr (u, s))
       | None \<Rightarrow>
           bind_result (user_get_by_email email s) (\<lambda>known.
           bind_result (case known of Some u \<Rightarrow> Inr (u, s)
             | None \<Rightarrow> let u = User_register (ld_user_id d) email now (oc_name claims)
                 in bind_result (user_add u s) (\<lambda>s'. Inr (u, s'))) (\<lambda>(u, s1).
           bind_result (identity_add (Identity_create (ld_identity_id d) (usr_id u) (ls_provider_name cfg)
               (oc_issuer claims) (oc_subject claims) (oc_raw claims) now) s1) (\<lambda>s2.
             Inr (u, s2)))))"

definition note_verified :: "oidc_claims \<Rightarrow> user \<Rightarrow> platform \<Rightarrow> user \<times> platform" where
  "note_verified claims u s =
     (if oc_email_verified claims \<and> \<not> usr_email_verified u
      then (u\<lparr>usr_email_verified := True\<rparr>, user_update (u\<lparr>usr_email_verified := True\<rparr>) s) else (u, s))"

definition grant_allowlisted :: "login_settings \<Rightarrow> user \<Rightarrow> datetime \<Rightarrow> platform \<Rightarrow> platform" where
  "grant_allowlisted cfg u now s =
     (if lower (usr_email u) \<in> set (ls_admin_emails cfg) then admin_grant (usr_id u) (usr_id u) now s else s)"

definition bootstrap_owner :: "login_settings \<Rightarrow> login_draws \<Rightarrow> user \<Rightarrow> datetime \<Rightarrow> platform \<Rightarrow> platform result" where
  "bootstrap_owner cfg d u now s =
     (case ls_owner_tenant_id cfg of None \<Rightarrow> Inr s
      | Some t \<Rightarrow> if Some (lower (usr_email u)) \<noteq> ls_owner_email cfg then Inr s
          else bind_result (membership_get t (usr_id u) s) (\<lambda>existing.
            case existing of Some _ \<Rightarrow> Inr s
            | None \<Rightarrow> membership_add (TenantMembership_create (ld_membership_id d) t (usr_id u) ROLE_OWNER now None) s))"

definition CompleteLogin ::
  "(string \<Rightarrow> string) \<Rightarrow> (access_token_claims \<Rightarrow> datetime \<Rightarrow> string) \<Rightarrow> login_settings \<Rightarrow> login_draws
    \<Rightarrow> string \<Rightarrow> string \<Rightarrow> oidc_claims result \<Rightarrow> datetime \<Rightarrow> token_pair platform_use_case" where
  "CompleteLogin hash_token encode cfg d expected_state received_state exchanged now s =
     bind_result (ensure (expected_state = received_state) (AuthenticationError ''State parameter mismatch.'')) (\<lambda>_.
     bind_result exchanged (\<lambda>claims.
     bind_result (require (AuthenticationError ''Identity provider did not return an email claim.'')
         (case oc_email claims of None \<Rightarrow> None | Some e \<Rightarrow> if e = [] then None else Some e)) (\<lambda>email.
     bind_result (find_or_create_user cfg d claims email now s) (\<lambda>(u, s1).
     let (u, s2) = note_verified claims u s1
     in bind_result (bootstrap_owner cfg d u now (grant_allowlisted cfg u now s2)) (\<lambda>s4.
     bind_result (session_add \<lparr>sess_id = ld_session_id d, sess_user_id = usr_id u, sess_tenant_id = None,
         sess_refresh_token_hash = hash_token (ld_token d), sess_previous_token_hash = None,
         sess_expires_at = now + REFRESH_TOKEN_TTL, sess_revoked_at = None, sess_created_at = now\<rparr> s4) (\<lambda>s5.
     bind_result (PrincipalResolver_resolve (usr_id u) None s5) (\<lambda>p.
       Inr (\<lparr>tp_user_id = usr_id u,
             tp_access_token = encode \<lparr>atc_subject = uuid_str (usr_id u), atc_tenant_id = None, atc_role = None,
               atc_capabilities = [], atc_is_platform_admin = pr_is_platform_admin p, atc_impersonated_by = None\<rparr> now,
             tp_refresh_token = ld_token d\<rparr>, s5))))))))"

text \<open>The look-up both rotating use cases begin with: a replayed hash raises after the revocation.\<close>

definition presented_session :: "string \<Rightarrow> datetime \<Rightarrow> session platform_use_case" where
  "presented_session presented_hash now s =
     bind_result (session_get_by_refresh_token_hash presented_hash s) (\<lambda>found.
       case found of
         None \<Rightarrow> bind_result (session_get_by_previous_token_hash presented_hash s) (\<lambda>reused.
             let s' = (case reused of None \<Rightarrow> s | Some r \<Rightarrow> revoke_all_for_user (sess_user_id r) now s)
             in Inl (AuthenticationError ''Invalid refresh token.''))
       | Some x \<Rightarrow> if \<not> Session_is_active now x
           then Inl (AuthenticationError ''Session is no longer active.'') else Inr (x, s))"

definition RefreshSession ::
  "(string \<Rightarrow> string) \<Rightarrow> (access_token_claims \<Rightarrow> datetime \<Rightarrow> string) \<Rightarrow> string \<Rightarrow> string \<Rightarrow> datetime
    \<Rightarrow> token_pair platform_use_case" where
  "RefreshSession hash_token encode new_token refresh_token now s =
     bind_result (presented_session (hash_token refresh_token) now s) (\<lambda>(x, s0).
     let x = x\<lparr>sess_previous_token_hash := Some (sess_refresh_token_hash x),
               sess_refresh_token_hash := hash_token new_token\<rparr>
     in bind_result (session_update x s0) (\<lambda>s1.
     bind_result (PrincipalResolver_resolve (sess_user_id x) (sess_tenant_id x) s1) (\<lambda>p.
       Inr (\<lparr>tp_user_id = sess_user_id x,
             tp_access_token = encode (claims_of (sess_user_id x) (sess_tenant_id x) p) now,
             tp_refresh_token = new_token\<rparr>, s1))))"

definition SelectTenant ::
  "(string \<Rightarrow> string) \<Rightarrow> (access_token_claims \<Rightarrow> datetime \<Rightarrow> string) \<Rightarrow> string \<Rightarrow> string \<Rightarrow> uuid \<Rightarrow> datetime
    \<Rightarrow> token_pair platform_use_case" where
  "SelectTenant hash_token encode new_token refresh_token tenant_id now s =
     bind_result (presented_session (hash_token refresh_token) now s) (\<lambda>(x, s0).
     bind_result (membership_get tenant_id (sess_user_id x) s0) (\<lambda>membership.
     bind_result (require (PermissionDeniedError ''Not a member of this tenant.'') membership) (\<lambda>_.
     let x = x\<lparr>sess_previous_token_hash := Some (sess_refresh_token_hash x),
               sess_refresh_token_hash := hash_token new_token, sess_tenant_id := Some tenant_id\<rparr>
     in bind_result (session_update x s0) (\<lambda>s1.
     bind_result (PrincipalResolver_resolve (sess_user_id x) (Some tenant_id) s1) (\<lambda>p.
       Inr (\<lparr>tp_user_id = sess_user_id x,
             tp_access_token = encode (claims_of (sess_user_id x) (Some tenant_id) p) now,
             tp_refresh_token = new_token\<rparr>, s1))))))"

definition Logout :: "(string \<Rightarrow> string) \<Rightarrow> string \<Rightarrow> datetime \<Rightarrow> unit platform_use_case" where
  "Logout hash_token refresh_token now s =
     bind_result (session_get_by_refresh_token_hash (hash_token refresh_token) s) (\<lambda>found.
       case found of None \<Rightarrow> Inr ((), s)
       | Some x \<Rightarrow> if sess_revoked_at x \<noteq> None then Inr ((), s)
           else bind_result (session_update (x\<lparr>sess_revoked_at := Some now\<rparr>) s) (\<lambda>s'. Inr ((), s')))"

definition StartImpersonation ::
  "(access_token_claims \<Rightarrow> datetime \<Rightarrow> string) \<Rightarrow> uuid \<Rightarrow> uuid \<Rightarrow> uuid \<Rightarrow> uuid \<Rightarrow> string \<Rightarrow> datetime
    \<Rightarrow> string platform_use_case" where
  "StartImpersonation encode audit_id admin_user_id target_user_id target_tenant_id reason now s =
     bind_result (membership_get target_tenant_id target_user_id s) (\<lambda>membership.
     bind_result (require (NotFoundError ''Target user is not a member of the target tenant.'') membership) (\<lambda>m.
     bind_result (audit_record audit_id target_tenant_id (Some admin_user_id) ''impersonation.started'' ''user''
         target_user_id None (Some [(''reason'', JStr reason)]) now (pf_db s)) (\<lambda>d.
       Inr (encode \<lparr>atc_subject = uuid_str target_user_id, atc_tenant_id = Some (uuid_str target_tenant_id),
              atc_role = Some (role_value (tm_role m)), atc_capabilities = sort (remdups (membership_capabilities m)),
              atc_is_platform_admin = False, atc_impersonated_by = Some (uuid_str admin_user_id)\<rparr> now,
            s\<lparr>pf_db := d\<rparr>))))"

section \<open>Domains\<close>

definition RegisterTenantDomain ::
  "uuid \<Rightarrow> uuid \<Rightarrow> uuid \<Rightarrow> string \<Rightarrow> uuid \<Rightarrow> datetime \<Rightarrow> tenant_domain platform_use_case" where
  "RegisterTenantDomain new_id audit_id tenant_id hostname actor_user_id now s =
     bind_result (TenantDomain_create new_id tenant_id hostname False now) (\<lambda>d.
     bind_result (domain_add d s) (\<lambda>s1.
     bind_result (audit_record audit_id tenant_id (Some actor_user_id) ''tenant_domain.registered'' ''tenant_domain''
         (td_id d) None (Some [(''hostname'', JStr (td_hostname d))]) now (pf_db s1)) (\<lambda>t.
       Inr (d, s1\<lparr>pf_db := t\<rparr>))))"

definition ListTenantDomains :: "uuid \<Rightarrow> platform \<Rightarrow> tenant_domain list" where
  "ListTenantDomains tenant_id s = domains_list_for_tenant tenant_id s"

definition ResolveTenantFromHost :: "string \<Rightarrow> platform \<Rightarrow> uuid option result" where
  "ResolveTenantFromHost hostname s =
     bind_result (resolve_by_hostname hostname s) (\<lambda>d. Inr (map_option td_tenant_id d))"

text \<open>The Host header without its port, stripped and in lower case.\<close>

definition request_hostname :: "string option \<Rightarrow> string" where
  "request_hostname host = lower (strip (takeWhile (\<lambda>c. c \<noteq> CHR '':'') (case host of None \<Rightarrow> [] | Some h \<Rightarrow> h)))"

definition get_public_tenant_id :: "string option \<Rightarrow> platform \<Rightarrow> uuid result" where
  "get_public_tenant_id host s =
     bind_result (ResolveTenantFromHost (request_hostname host) s) (\<lambda>tenant_id.
       require (NotFoundError ''No storefront is registered for this domain.'') tenant_id)"

section \<open>Errors at the boundary\<close>

text \<open>api/errors.py: the status of a domain error, a conflict for the database's guards, 500 for the rest.\<close>

fun status_for :: "error_class \<Rightarrow> int" where
  "status_for ValidationErrorC = 422"
| "status_for NotFoundErrorC = 404"
| "status_for ConflictErrorC = 409"
| "status_for AuthenticationErrorC = 401"
| "status_for PermissionDeniedErrorC = 403"
| "status_for QuotaExceededErrorC = 402"
| "status_for RateLimitedErrorC = 429"
| "status_for UnavailableErrorC = 503"

definition status_of_exception :: "exn \<Rightarrow> int" where
  "status_of_exception e =
     (case e of AppError c _ _ \<Rightarrow> status_for c | IntegrityError _ \<Rightarrow> 409 | _ \<Rightarrow> 500)"

end
