(* ===== verification/Access_Protocol.thy ===== *)
theory Access_Protocol
  imports Access "HOL-Library.Countable"
begin

text \<open>
  The transactions of login, refresh, tenant selection, logout, impersonation and domain
  registration as a transition system, what every reachable state keeps, and what the tokens they
  issue are worth.
\<close>

section \<open>The unique indexes of the platform's tables\<close>

interpretation user_index: unique_index usr_id "\<lambda>u. Some (lower (usr_email u))" user_clash
  by unfold_locales (auto simp: user_clash_def)

interpretation identity_index: unique_index ident_id "\<lambda>i. Some (ident_provider i, ident_issuer i, ident_subject i)" identity_clash
  by unfold_locales (auto simp: identity_clash_def)

interpretation membership_index: unique_index tm_id "\<lambda>m. Some (tm_tenant_id m, tm_user_id m)" membership_clash
  by unfold_locales (auto simp: membership_clash_def)

interpretation session_index: unique_index sess_id "\<lambda>x. Some (sess_refresh_token_hash x)" session_clash
  by unfold_locales (auto simp: session_clash_def)

interpretation domain_index: unique_index td_id "\<lambda>d. Some (td_hostname d)" domain_clash
  by unfold_locales (auto simp: domain_clash_def)

section \<open>The look-up of a presented token\<close>

lemma presented_session_Inr:
  "presented_session h now s = Inr (x, s0) \<longleftrightarrow>
     s0 = s \<and> session_get_by_refresh_token_hash h s = Inr (Some x) \<and> Session_is_active now x"
  by (auto simp: presented_session_def bind_result_eq_Inr Let_def split: option.splits if_splits)

lemma session_found:
  assumes "session_get_by_refresh_token_hash h s = Inr (Some x)" and "tbl_ok sess_id (pf_sessions s)"
  shows "tbl_get (pf_sessions s) (sess_id x) = Some x" and "sess_refresh_token_hash x = h"
  using scalar_Some [OF assms(1) [unfolded session_get_by_refresh_token_hash_def]] by (simp_all add: rows_iff [OF assms(2)])

lemma membership_found:
  "membership_get t u s = Inr (Some m) \<Longrightarrow> m \<in> set (rows (pf_memberships s)) \<and> tm_tenant_id m = t \<and> tm_user_id m = u"
  unfolding membership_get_def by (drule scalar_Some) simp

lemma session_update_Inr:
  "session_update x s = Inr s' \<Longrightarrow> \<not> list_ex (\<lambda>r. session_clash x r \<and> sess_id r \<noteq> sess_id x) (rows (pf_sessions s))
     \<and> s' = s\<lparr>pf_sessions := tbl_put (sess_id x) x (pf_sessions s)\<rparr>"
  by (simp add: session_update_def split: if_splits)

lemma RefreshSession_InrD:
  assumes "RefreshSession H enc new tok now s = Inr (p, s')"
  obtains x y pr where "session_get_by_refresh_token_hash (H tok) s = Inr (Some x)" "Session_is_active now x"
    "y = x\<lparr>sess_previous_token_hash := Some (sess_refresh_token_hash x), sess_refresh_token_hash := H new\<rparr>"
    "session_update y s = Inr s'" "PrincipalResolver_resolve (sess_user_id x) (sess_tenant_id x) s' = Inr pr"
    "p = \<lparr>tp_user_id = sess_user_id x, tp_access_token = enc (claims_of (sess_user_id x) (sess_tenant_id x) pr) now,
          tp_refresh_token = new\<rparr>"
  using assms by (auto simp: RefreshSession_def bind_result_eq_Inr Let_def presented_session_Inr)

lemma SelectTenant_InrD:
  assumes "SelectTenant H enc new tok t now s = Inr (p, s')"
  obtains x y m pr where "session_get_by_refresh_token_hash (H tok) s = Inr (Some x)" "Session_is_active now x"
    "membership_get t (sess_user_id x) s = Inr (Some m)"
    "y = x\<lparr>sess_previous_token_hash := Some (sess_refresh_token_hash x), sess_refresh_token_hash := H new,
           sess_tenant_id := Some t\<rparr>"
    "session_update y s = Inr s'" "PrincipalResolver_resolve (sess_user_id x) (Some t) s' = Inr pr"
    "p = \<lparr>tp_user_id = sess_user_id x, tp_access_token = enc (claims_of (sess_user_id x) (Some t) pr) now,
          tp_refresh_token = new\<rparr>"
  using assms by (auto simp: SelectTenant_def bind_result_eq_Inr Let_def presented_session_Inr)

section \<open>What every state keeps\<close>

text \<open>
  \<open>M\<close> holds the memberships the platform started with: the only other ones are the bootstrap
  owner's.
\<close>

definition owner_grant :: "login_settings \<Rightarrow> platform \<Rightarrow> tenant_membership \<Rightarrow> bool" where
  "owner_grant cfg s m \<longleftrightarrow> ls_owner_tenant_id cfg = Some (tm_tenant_id m) \<and> tm_role m = ROLE_OWNER
     \<and> tm_extra_capabilities m = []
     \<and> (\<exists>r. tbl_get (pf_users s) (tm_user_id m) = Some r \<and> Some (lower (usr_email r)) = ls_owner_email cfg)"

definition tables_ok :: "platform \<Rightarrow> bool" where
  "tables_ok s \<longleftrightarrow>
     tbl_ok usr_id (pf_users s) \<and> unique_on (\<lambda>u. Some (lower (usr_email u))) (pf_users s)
   \<and> tbl_ok tm_id (pf_memberships s) \<and> unique_on (\<lambda>m. Some (tm_tenant_id m, tm_user_id m)) (pf_memberships s)
   \<and> tbl_ok sess_id (pf_sessions s) \<and> unique_on (\<lambda>x. Some (sess_refresh_token_hash x)) (pf_sessions s)
   \<and> tbl_ok td_id (pf_domains s) \<and> unique_on (\<lambda>d. Some (td_hostname d)) (pf_domains s)"

definition standing_ok :: "login_settings \<Rightarrow> tenant_membership set \<Rightarrow> platform \<Rightarrow> bool" where
  "standing_ok cfg M s \<longleftrightarrow>
     (\<forall>i x t. tbl_get (pf_sessions s) i = Some x \<longrightarrow> sess_tenant_id x = Some t \<longrightarrow>
        (\<exists>m \<in> set (rows (pf_memberships s)). tm_tenant_id m = t \<and> tm_user_id m = sess_user_id x))
   \<and> (\<forall>u. is_admin u s \<longrightarrow> (\<exists>r. tbl_get (pf_users s) u = Some r \<and> lower (usr_email r) \<in> set (ls_admin_emails cfg)))
   \<and> (\<forall>m \<in> set (rows (pf_memberships s)). m \<in> M \<or> owner_grant cfg s m)"

definition access_ok :: "login_settings \<Rightarrow> tenant_membership set \<Rightarrow> platform \<Rightarrow> bool" where
  "access_ok cfg M s \<longleftrightarrow> tables_ok s \<and> standing_ok cfg M s"

lemma tables_okD:
  assumes "tables_ok s"
  shows "tbl_ok usr_id (pf_users s)" "unique_on (\<lambda>u. Some (lower (usr_email u))) (pf_users s)"
    "tbl_ok tm_id (pf_memberships s)" "unique_on (\<lambda>m. Some (tm_tenant_id m, tm_user_id m)) (pf_memberships s)"
    "tbl_ok sess_id (pf_sessions s)" "unique_on (\<lambda>x. Some (sess_refresh_token_hash x)) (pf_sessions s)"
    "tbl_ok td_id (pf_domains s)" "unique_on (\<lambda>d. Some (td_hostname d)) (pf_domains s)"
  using assms unfolding tables_ok_def by blast+

lemma access_okD:
  assumes "access_ok cfg M s"
  shows "tables_ok s" "standing_ok cfg M s"
  using assms by (simp_all add: access_ok_def)

text \<open>The users and memberships of a later state: nobody disappears, no address changes.\<close>

lemma owner_grant_users:
  "\<lbrakk>owner_grant cfg s m; \<And>u r. tbl_get (pf_users s) u = Some r \<Longrightarrow> \<exists>r'. tbl_get (pf_users s') u = Some r' \<and> usr_email r' = usr_email r\<rbrakk>
    \<Longrightarrow> owner_grant cfg s' m"
  unfolding owner_grant_def by metis

lemma standing_ok_step:
  assumes ok: "standing_ok cfg M s"
    and users: "\<And>u r. tbl_get (pf_users s) u = Some r \<Longrightarrow> \<exists>r'. tbl_get (pf_users s') u = Some r' \<and> usr_email r' = usr_email r"
    and members: "set (rows (pf_memberships s)) \<subseteq> set (rows (pf_memberships s'))"
    and new_members: "\<And>m. m \<in> set (rows (pf_memberships s')) \<Longrightarrow> m \<in> set (rows (pf_memberships s)) \<or> owner_grant cfg s' m"
    and admins: "\<And>u. is_admin u s' \<Longrightarrow> is_admin u s \<or> (\<exists>r. tbl_get (pf_users s') u = Some r \<and> lower (usr_email r) \<in> set (ls_admin_emails cfg))"
    and sessions: "\<And>i x t. \<lbrakk>tbl_get (pf_sessions s') i = Some x; sess_tenant_id x = Some t\<rbrakk> \<Longrightarrow>
        (\<exists>y. tbl_get (pf_sessions s) i = Some y \<and> sess_tenant_id y = Some t \<and> sess_user_id y = sess_user_id x)
        \<or> (\<exists>m \<in> set (rows (pf_memberships s')). tm_tenant_id m = t \<and> tm_user_id m = sess_user_id x)"
  shows "standing_ok cfg M s'"
  unfolding standing_ok_def
proof (intro conjI allI ballI impI)
  fix i x t
  assume "tbl_get (pf_sessions s') i = Some x" "sess_tenant_id x = Some t"
  from sessions [OF this] show "\<exists>m \<in> set (rows (pf_memberships s')). tm_tenant_id m = t \<and> tm_user_id m = sess_user_id x"
  proof
    assume "\<exists>y. tbl_get (pf_sessions s) i = Some y \<and> sess_tenant_id y = Some t \<and> sess_user_id y = sess_user_id x"
    with ok have "\<exists>m \<in> set (rows (pf_memberships s)). tm_tenant_id m = t \<and> tm_user_id m = sess_user_id x"
      unfolding standing_ok_def by metis
    with members show ?thesis by blast
  qed
next
  fix u assume "is_admin u s'"
  from admins [OF this] show "\<exists>r. tbl_get (pf_users s') u = Some r \<and> lower (usr_email r) \<in> set (ls_admin_emails cfg)"
  proof
    assume "is_admin u s"
    with ok obtain r where "tbl_get (pf_users s) u = Some r" "lower (usr_email r) \<in> set (ls_admin_emails cfg)"
      unfolding standing_ok_def by blast
    with users show ?thesis by metis
  qed
next
  fix m assume "m \<in> set (rows (pf_memberships s'))"
  from new_members [OF this] show "m \<in> M \<or> owner_grant cfg s' m"
  proof
    assume "m \<in> set (rows (pf_memberships s))"
    with ok have "m \<in> M \<or> owner_grant cfg s m" unfolding standing_ok_def by blast
    with owner_grant_users [OF _ users] show ?thesis by blast
  qed simp
qed

section \<open>Each operation keeps it\<close>

lemma session_put_ok:
  assumes ok: "access_ok cfg M s" and old: "tbl_get (pf_sessions s) (sess_id y) = Some x"
    and up: "session_update y s = Inr s'" and user: "sess_user_id y = sess_user_id x"
    and tenant: "sess_tenant_id y = sess_tenant_id x
      \<or> (\<exists>m \<in> set (rows (pf_memberships s)). sess_tenant_id y = Some (tm_tenant_id m) \<and> tm_user_id m = sess_user_id x)"
  shows "access_ok cfg M s'"
proof -
  note t = tables_okD [OF access_okD(1) [OF ok]]
  note u = session_update_Inr [OF up]
  then have s': "s' = s\<lparr>pf_sessions := tbl_put (sess_id y) y (pf_sessions s)\<rparr>" by simp
  have "tables_ok s'"
    using session_index.put_checked [OF t(5,6) conjunct1 [OF u]] tbl_ok_put [OF t(5) refl] t
    unfolding tables_ok_def s' by simp
  moreover have "standing_ok cfg M s'"
    by (rule standing_ok_step [OF access_okD(2) [OF ok]])
       (use old user tenant in \<open>auto simp: s' is_admin_def tbl_get_put split: if_splits\<close>)
  ultimately show ?thesis by (simp add: access_ok_def)
qed

lemma rows_add: "tbl_add i r t = Inr t' \<Longrightarrow> rows t' = rows t @ [r]"
  by (auto simp: tbl_add_def rows_def split: if_splits)

lemma user_add_ok:
  assumes ok: "access_ok cfg M s" and add: "user_add u s = Inr s'"
  shows "access_ok cfg M s'" and "tbl_get (pf_users s') (usr_id u) = Some u"
proof -
  note t = tables_okD [OF access_okD(1) [OF ok]]
  from add obtain q where q: "\<not> list_ex (user_clash u) (rows (pf_users s))" "tbl_add (usr_id u) u (pf_users s) = Inr q"
    and s': "s' = s\<lparr>pf_users := q\<rparr>" by (auto simp: user_add_def bind_result_eq_Inr tbl_add_unique_Inr)
  have keep: "tbl_get q j = Some r" if "tbl_get (pf_users s) j = Some r" for j r
    by (rule tbl.add_keeps [OF q(2) that])
  have "tables_ok s'"
    using user_index.add_unique [OF t(1,2) q] t unfolding tables_ok_def s' by simp
  moreover have "standing_ok cfg M s'"
    by (rule standing_ok_step [OF access_okD(2) [OF ok]]) (use keep in \<open>auto simp: s' is_admin_def\<close>)
  ultimately show "access_ok cfg M s'" by (simp add: access_ok_def)
  show "tbl_get (pf_users s') (usr_id u) = Some u" by (simp add: s' tbl_get_add [OF q(2)])
qed

lemma user_verified_ok:
  assumes ok: "access_ok cfg M s" and old: "tbl_get (pf_users s) (usr_id u) = Some u"
  shows "access_ok cfg M (user_update (u\<lparr>usr_email_verified := b\<rparr>) s)"
proof -
  note t = tables_okD [OF access_okD(1) [OF ok]]
  let ?u = "u\<lparr>usr_email_verified := b\<rparr>" and ?s = "user_update (u\<lparr>usr_email_verified := b\<rparr>) s"
  have "tables_ok ?s"
    using user_index.put_unique [OF t(2) old, of ?u] tbl_ok_put [OF t(1), of ?u "usr_id u"] t
    unfolding tables_ok_def user_update_def by simp
  moreover have "standing_ok cfg M ?s"
    by (rule standing_ok_step [OF access_okD(2) [OF ok]])
       (use old in \<open>auto simp: user_update_def is_admin_def tbl_get_put split: if_splits\<close>)
  ultimately show ?thesis by (simp add: access_ok_def)
qed

lemma identity_add_ok:
  assumes "access_ok cfg M s" and "identity_add i s = Inr s'"
  shows "access_ok cfg M s'" and "pf_users s' = pf_users s"
proof -
  from assms(2) obtain q where s': "s' = s\<lparr>pf_identities := q\<rparr>" by (auto simp: identity_add_def bind_result_eq_Inr)
  show "access_ok cfg M s'"
    using assms(1) unfolding s' access_ok_def tables_ok_def standing_ok_def owner_grant_def is_admin_def by simp
  show "pf_users s' = pf_users s" by (simp add: s')
qed

lemma admin_grant_ok:
  assumes ok: "access_ok cfg M s" and u: "tbl_get (pf_users s) i = Some u" "lower (usr_email u) \<in> set (ls_admin_emails cfg)"
  shows "access_ok cfg M (admin_grant i g now s)"
proof -
  have "tables_ok (admin_grant i g now s)"
    using access_okD(1) [OF ok] by (simp add: tables_ok_def admin_grant_def)
  moreover have "standing_ok cfg M (admin_grant i g now s)"
    by (rule standing_ok_step [OF access_okD(2) [OF ok]])
       (use u in \<open>auto simp: admin_grant_def is_admin_def split: if_splits option.splits\<close>)
  ultimately show ?thesis by (simp add: access_ok_def)
qed

lemma bootstrap_owner_ok:
  assumes ok: "access_ok cfg M s" and u: "tbl_get (pf_users s) (usr_id u) = Some u"
    and r: "bootstrap_owner cfg d u now s = Inr s'"
  shows "access_ok cfg M s'" and "pf_users s' = pf_users s"
proof -
  note t = tables_okD [OF access_okD(1) [OF ok]]
  from r consider "s' = s" | tn q where "ls_owner_tenant_id cfg = Some tn" "Some (lower (usr_email u)) = ls_owner_email cfg"
      "\<not> list_ex (membership_clash (TenantMembership_create (ld_membership_id d) tn (usr_id u) ROLE_OWNER now None)) (rows (pf_memberships s))"
      "tbl_add (tm_id (TenantMembership_create (ld_membership_id d) tn (usr_id u) ROLE_OWNER now None))
         (TenantMembership_create (ld_membership_id d) tn (usr_id u) ROLE_OWNER now None) (pf_memberships s) = Inr q"
      "s' = s\<lparr>pf_memberships := q\<rparr>"
    by (auto simp: bootstrap_owner_def membership_add_def bind_result_eq_Inr tbl_add_unique_Inr split: option.splits if_splits)
  then have "access_ok cfg M s' \<and> pf_users s' = pf_users s"
  proof cases
    case 2
    note rw = rows_add [OF 2(4)]
    have "tables_ok s'"
      using membership_index.add_unique [OF t(3,4) 2(3,4)] t unfolding tables_ok_def 2(5) by simp
    moreover have "standing_ok cfg M s'"
      by (rule standing_ok_step [OF access_okD(2) [OF ok]])
         (use u 2(1,2) in \<open>auto simp: 2(5) rw is_admin_def owner_grant_def TenantMembership_create_def\<close>)
    ultimately show ?thesis by (simp add: access_ok_def 2(5))
  qed (use ok in simp)
  then show "access_ok cfg M s'" "pf_users s' = pf_users s" by simp_all
qed

lemma session_add_ok:
  assumes ok: "access_ok cfg M s" and add: "session_add x s = Inr s'" and none: "sess_tenant_id x = None"
  shows "access_ok cfg M s'"
proof -
  note t = tables_okD [OF access_okD(1) [OF ok]]
  from add obtain q where q: "\<not> list_ex (session_clash x) (rows (pf_sessions s))" "tbl_add (sess_id x) x (pf_sessions s) = Inr q"
    and s': "s' = s\<lparr>pf_sessions := q\<rparr>" by (auto simp: session_add_def bind_result_eq_Inr tbl_add_unique_Inr)
  have "tables_ok s'"
    using session_index.add_unique [OF t(5,6) q] t unfolding tables_ok_def s' by simp
  moreover have "standing_ok cfg M s'"
    by (rule standing_ok_step [OF access_okD(2) [OF ok]])
       (use none in \<open>auto simp: s' is_admin_def tbl_get_add [OF q(2)] split: if_splits\<close>)
  ultimately show ?thesis by (simp add: access_ok_def)
qed

lemma find_or_create_user_ok:
  assumes ok: "access_ok cfg M s" and r: "find_or_create_user cfg d claims email now s = Inr (u, s')"
  shows "access_ok cfg M s'" and "tbl_get (pf_users s') (usr_id u) = Some u"
proof -
  note t = tables_okD(1,2) [OF access_okD(1) [OF ok]]
  obtain found where found: "identity_get_by_provider_subject (ls_provider_name cfg) (oc_issuer claims) (oc_subject claims) s = Inr found"
    using r by (auto simp: find_or_create_user_def bind_result_eq_Inr)
  have "access_ok cfg M s' \<and> tbl_get (pf_users s') (usr_id u) = Some u"
  proof (cases found)
    case (Some i)
    with r found have "user_get (ident_user_id i) s = Some u" "s' = s"
      by (auto simp: find_or_create_user_def bind_result_eq_Inr)
    with ok tbl_get_key [OF t(1)] show ?thesis by (auto simp: user_get_def)
  next
    case None
    with r found obtain known s1 where known: "user_get_by_email email s = Inr known"
      and s1: "(case known of Some u \<Rightarrow> Inr (u, s)
             | None \<Rightarrow> let u = User_register (ld_user_id d) email now (oc_name claims)
                 in bind_result (user_add u s) (\<lambda>s'. Inr (u, s'))) = Inr (u, s1)"
      and i: "identity_add (Identity_create (ld_identity_id d) (usr_id u) (ls_provider_name cfg)
               (oc_issuer claims) (oc_subject claims) (oc_raw claims) now) s1 = Inr s'"
      by (auto simp: find_or_create_user_def bind_result_eq_Inr)
    have "access_ok cfg M s1 \<and> tbl_get (pf_users s1) (usr_id u) = Some u"
    proof (cases known)
      case (Some v)
      with s1 have "v = u" "s1 = s" by simp_all
      moreover have "v \<in> set (rows (pf_users s))"
        using scalar_Some [OF known [unfolded Some user_get_by_email_def]] by simp
      then have "tbl_get (pf_users s) (usr_id v) = Some v" by (simp only: rows_iff [OF t(1)])
      ultimately show ?thesis using ok by blast
    next
      case None
      with s1 have "user_add u s = Inr s1" by (auto simp: Let_def bind_result_eq_Inr)
      with user_add_ok [OF ok] show ?thesis by blast
    qed
    with identity_add_ok [OF _ i] show ?thesis by metis
  qed
  then show "access_ok cfg M s'" "tbl_get (pf_users s') (usr_id u) = Some u" by simp_all
qed

lemma login_ok:
  assumes ok: "access_ok cfg M s" and r: "CompleteLogin H enc cfg d es rs ex now s = Inr (p, s')"
  shows "access_ok cfg M s'"
proof -
  from r obtain claims email u s1 v s2 s4 x where
    f: "find_or_create_user cfg d claims email now s = Inr (u, s1)" and v: "note_verified claims u s1 = (v, s2)"
    and b: "bootstrap_owner cfg d v now (grant_allowlisted cfg v now s2) = Inr s4"
    and x: "session_add x s4 = Inr s'" "sess_tenant_id x = None"
    by (force simp: CompleteLogin_def bind_result_eq_Inr split_beta)
  note f' = find_or_create_user_ok [OF ok f]
  let ?s3 = "grant_allowlisted cfg v now s2"
  have 2: "access_ok cfg M s2" "tbl_get (pf_users s2) (usr_id v) = Some v"
    using v f' user_verified_ok [OF f'] by (auto simp: note_verified_def user_update_def tbl_get_put split: if_splits)
  have "access_ok cfg M ?s3 \<and> tbl_get (pf_users ?s3) (usr_id v) = Some v"
    using 2 admin_grant_ok [OF 2] by (auto simp: grant_allowlisted_def admin_grant_def)
  with bootstrap_owner_ok [OF _ _ b] have "access_ok cfg M s4" by blast
  from session_add_ok [OF this x] show ?thesis .
qed

lemma refresh_ok:
  assumes ok: "access_ok cfg M s" and r: "RefreshSession H enc new tok now s = Inr (p, s')"
  shows "access_ok cfg M s'"
proof -
  from r obtain x y where x: "session_get_by_refresh_token_hash (H tok) s = Inr (Some x)"
    and y: "y = x\<lparr>sess_previous_token_hash := Some (sess_refresh_token_hash x), sess_refresh_token_hash := H new\<rparr>"
    and up: "session_update y s = Inr s'" by (rule RefreshSession_InrD)
  have "tbl_get (pf_sessions s) (sess_id y) = Some x"
    using session_found(1) [OF x] tables_okD(5) [OF access_okD(1) [OF ok]] by (simp add: y)
  then show ?thesis by (rule session_put_ok [OF ok _ up]) (simp_all add: y)
qed

lemma select_ok:
  assumes ok: "access_ok cfg M s" and r: "SelectTenant H enc new tok t now s = Inr (p, s')"
  shows "access_ok cfg M s'"
proof -
  from r obtain x y m where x: "session_get_by_refresh_token_hash (H tok) s = Inr (Some x)"
    and m: "membership_get t (sess_user_id x) s = Inr (Some m)"
    and y: "y = x\<lparr>sess_previous_token_hash := Some (sess_refresh_token_hash x), sess_refresh_token_hash := H new,
           sess_tenant_id := Some t\<rparr>"
    and up: "session_update y s = Inr s'" by (rule SelectTenant_InrD)
  have "tbl_get (pf_sessions s) (sess_id y) = Some x"
    using session_found(1) [OF x] tables_okD(5) [OF access_okD(1) [OF ok]] by (simp add: y)
  then show ?thesis by (rule session_put_ok [OF ok _ up]) (use membership_found [OF m] in \<open>auto simp: y\<close>)
qed

lemma logout_ok:
  assumes ok: "access_ok cfg M s" and r: "Logout H tok now s = Inr (u, s')"
  shows "access_ok cfg M s'"
proof -
  from r consider "s' = s" | x where "session_get_by_refresh_token_hash (H tok) s = Inr (Some x)"
      "session_update (x\<lparr>sess_revoked_at := Some now\<rparr>) s = Inr s'"
    by (auto simp: Logout_def bind_result_eq_Inr split: option.splits if_splits)
  then show ?thesis
  proof cases
    case 2
    have "tbl_get (pf_sessions s) (sess_id (x\<lparr>sess_revoked_at := Some now\<rparr>)) = Some x"
      using session_found(1) [OF 2(1)] tables_okD(5) [OF access_okD(1) [OF ok]] by simp
    then show ?thesis by (rule session_put_ok [OF ok _ 2(2)]) simp_all
  qed (use ok in simp)
qed

lemma access_ok_db: "access_ok cfg M (s\<lparr>pf_db := d\<rparr>) = access_ok cfg M s"
  by (simp add: access_ok_def tables_ok_def standing_ok_def owner_grant_def is_admin_def)

lemma domain_add_ok:
  assumes ok: "access_ok cfg M s" and add: "domain_add d s = Inr s'"
  shows "access_ok cfg M s'" and "rows (pf_domains s') = rows (pf_domains s) @ [d]"
proof -
  note t = tables_okD [OF access_okD(1) [OF ok]]
  from add obtain q where q: "\<not> list_ex (domain_clash d) (rows (pf_domains s))" "tbl_add (td_id d) d (pf_domains s) = Inr q"
    and s': "s' = s\<lparr>pf_domains := q\<rparr>" by (auto simp: domain_add_def bind_result_eq_Inr tbl_add_unique_Inr)
  have "tables_ok s'"
    using domain_index.add_unique [OF t(7,8) q] t unfolding tables_ok_def s' by simp
  moreover have "standing_ok cfg M s'"
    using access_okD(2) [OF ok] by (simp add: s' standing_ok_def owner_grant_def is_admin_def)
  ultimately show "access_ok cfg M s'" by (simp add: access_ok_def)
  show "rows (pf_domains s') = rows (pf_domains s) @ [d]" by (simp add: s' rows_add [OF q(2)])
qed

section \<open>The transition system\<close>

inductive access_step ::
  "(string \<Rightarrow> string) \<Rightarrow> (access_token_claims \<Rightarrow> datetime \<Rightarrow> string) \<Rightarrow> login_settings \<Rightarrow> platform \<Rightarrow> platform \<Rightarrow> bool"
  for H enc cfg where
  login: "CompleteLogin H enc cfg d es rs ex now s = Inr (p, s') \<Longrightarrow> access_step H enc cfg s s'"
| refresh: "RefreshSession H enc new tok now s = Inr (p, s') \<Longrightarrow> access_step H enc cfg s s'"
| select: "SelectTenant H enc new tok t now s = Inr (p, s') \<Longrightarrow> access_step H enc cfg s s'"
| logout: "Logout H tok now s = Inr (u, s') \<Longrightarrow> access_step H enc cfg s s'"
| impersonate: "StartImpersonation enc a adm tu tt reason now s = Inr (c, s') \<Longrightarrow> access_step H enc cfg s s'"
| register: "RegisterTenantDomain n a t h u now s = Inr (dm, s') \<Longrightarrow> access_step H enc cfg s s'"

inductive_cases access_stepE [step_elims]: "access_step H enc cfg s s'"

lemma access_step_ok: "\<lbrakk>access_step H enc cfg s s'; access_ok cfg M s\<rbrakk> \<Longrightarrow> access_ok cfg M s'"
proof (induction rule: access_step.induct)
  case (impersonate a adm tu tt reason now s c s')
  then obtain d where "s' = s\<lparr>pf_db := d\<rparr>" by (auto simp: StartImpersonation_def bind_result_eq_Inr)
  with impersonate(2) show ?case by (simp add: access_ok_db)
next
  case (register n a t h u now s dm s')
  then obtain d s1 e where "domain_add d s = Inr s1" "s' = s1\<lparr>pf_db := e\<rparr>"
    by (auto simp: RegisterTenantDomain_def bind_result_eq_Inr)
  with domain_add_ok(1) [OF register(2)] show ?case by (simp add: access_ok_db)
qed (blast intro: login_ok refresh_ok select_ok logout_ok)+

text \<open>An empty platform, but for users and memberships an operator put there.\<close>

definition platform_start :: "platform \<Rightarrow> bool" where
  "platform_start s \<longleftrightarrow> tables_ok s \<and> pf_sessions s = [] \<and> pf_admins s = []"

lemma access_reachable_ok:
  "\<lbrakk>(access_step H enc cfg)\<^sup>*\<^sup>* s s'; platform_start s\<rbrakk> \<Longrightarrow> access_ok cfg (set (rows (pf_memberships s))) s'"
proof (induction rule: rtranclp_induct)
  case base
  then show ?case by (simp add: platform_start_def access_ok_def standing_ok_def is_admin_def tbl_get_def)
qed (blast intro: access_step_ok)

section \<open>A small platform\<close>

text \<open>Ann, user 1, manages tenant 50's catalogue; the hash is a prefix, the encoder forgetful.\<close>

definition demo_user :: user where "demo_user = User_register 1 ''ann@shop.com'' 0 None"

definition demo_membership :: tenant_membership where
  "demo_membership = TenantMembership_create 2 50 1 ROLE_CATALOG_MANAGER 0 (Some [''catalog.approve''])"

definition demo_platform :: platform where
  "demo_platform = \<lparr>pf_users = [(1, demo_user)], pf_identities = [], pf_memberships = [(2, demo_membership)],
     pf_admins = [], pf_sessions = [], pf_domains = [], pf_idempotency = [], pf_db = empty_db\<rparr>"

definition demo_settings :: login_settings where
  "demo_settings = login_settings_of ''google'' [''root@shop.com''] None None"

definition demo_hash :: "string \<Rightarrow> string" where "demo_hash t = ''h:'' @ t"

definition demo_session :: session where
  "demo_session = \<lparr>sess_id = 4, sess_user_id = 1, sess_tenant_id = None, sess_refresh_token_hash = ''h:r1'',
     sess_previous_token_hash = None, sess_expires_at = REFRESH_TOKEN_TTL, sess_revoked_at = None, sess_created_at = 0\<rparr>"

definition demo_logged_in :: platform where
  "demo_logged_in = demo_platform\<lparr>pf_sessions := [(4, demo_session)],
     pf_identities := [(3, Identity_create 3 1 ''google'' ''iss'' ''sub'' [] 0)]\<rparr>"

definition demo_selected :: platform where
  "demo_selected = demo_logged_in\<lparr>pf_sessions := [(4, demo_session\<lparr>sess_refresh_token_hash := ''h:r2'',
     sess_previous_token_hash := Some ''h:r1'', sess_tenant_id := Some 50\<rparr>)]\<rparr>"

lemmas demo_platform_defs = demo_user_def demo_membership_def demo_platform_def demo_settings_def demo_hash_def
  demo_session_def demo_logged_in_def demo_selected_def User_register_def TenantMembership_create_def
  login_settings_of_def Identity_create_def lower_def lower_char_def strip_def lstrip_def py_space_def

lemmas session_defs = session_get_by_refresh_token_hash_def session_get_by_previous_token_hash_def presented_session_def
  Session_is_active_def session_update_def session_clash_def membership_get_def scalar_one_or_none_def
  tbl_put_def tbl_get_def tbl_add_def rows_def

lemma demo_login:
  "\<exists>p. CompleteLogin demo_hash (\<lambda>_ _. ''t'') demo_settings \<lparr>ld_user_id = 90, ld_identity_id = 3, ld_membership_id = 91,
      ld_session_id = 4, ld_token = ''r1''\<rparr> ''x'' ''x'' (Inr \<lparr>oc_subject = ''sub'', oc_issuer = ''iss'',
      oc_email = Some ''ann@shop.com'', oc_email_verified = False, oc_name = None, oc_raw = []\<rparr>) 0 demo_platform
     = Inr (p, demo_logged_in)"
  by (simp add: CompleteLogin_def find_or_create_user_def identity_get_by_provider_subject_def user_get_by_email_def
      identity_add_def tbl_add_unique_def note_verified_def grant_allowlisted_def bootstrap_owner_def session_add_def
      PrincipalResolver_resolve_def session_defs demo_platform_defs)

lemma demo_select: "\<exists>p. SelectTenant demo_hash (\<lambda>_ _. ''t'') ''r2'' ''r1'' 50 1 demo_logged_in = Inr (p, demo_selected)"
  by (simp add: SelectTenant_def PrincipalResolver_resolve_def session_defs demo_platform_defs REFRESH_TOKEN_TTL_def timedelta_defs)

lemma demo_platform_start: "platform_start demo_platform"
  by (simp add: platform_start_def tables_ok_def tbl_ok_def unique_on_def tbl_get_def demo_platform_def demo_user_def
      demo_membership_def User_register_def TenantMembership_create_def)

lemma demo_selected_path: "(access_step demo_hash (\<lambda>_ _. ''t'') demo_settings)\<^sup>*\<^sup>* demo_platform demo_selected"
proof -
  obtain p q where "CompleteLogin demo_hash (\<lambda>_ _. ''t'') demo_settings \<lparr>ld_user_id = 90, ld_identity_id = 3,
      ld_membership_id = 91, ld_session_id = 4, ld_token = ''r1''\<rparr> ''x'' ''x'' (Inr \<lparr>oc_subject = ''sub'', oc_issuer = ''iss'',
      oc_email = Some ''ann@shop.com'', oc_email_verified = False, oc_name = None, oc_raw = []\<rparr>) 0 demo_platform
     = Inr (p, demo_logged_in)"
    "SelectTenant demo_hash (\<lambda>_ _. ''t'') ''r2'' ''r1'' 50 1 demo_logged_in = Inr (q, demo_selected)"
    using demo_login demo_select by blast
  from access_step.login [OF this(1)] access_step.select [OF this(2)] show ?thesis
    by (meson converse_rtranclp_into_rtranclp r_into_rtranclp)
qed

section \<open>Standing\<close>

text \<open>
  C10: Standing is never acquired by the way. In every reachable state a session's active tenant is
  one its user is a member of, every platform admin's address is on the operator's list, and every
  membership is one the platform started with or the configured owner's of the configured tenant.
\<close>

theorem standing_is_granted:
  assumes "platform_start s\<^sub>0" and "(access_step H enc cfg)\<^sup>*\<^sup>* s\<^sub>0 s"
  shows "(\<forall>x \<in> set (rows (pf_sessions s)). \<forall>t. sess_tenant_id x = Some t \<longrightarrow>
        (\<exists>m. membership_get t (sess_user_id x) s = Inr (Some m)))
   \<and> (\<forall>u. is_admin u s \<longrightarrow> (\<exists>r. user_get u s = Some r \<and> lower (usr_email r) \<in> set (ls_admin_emails cfg)))
   \<and> (\<forall>m \<in> set (rows (pf_memberships s)). m \<in> set (rows (pf_memberships s\<^sub>0))
        \<or> ls_owner_tenant_id cfg = Some (tm_tenant_id m) \<and> tm_role m = ROLE_OWNER
          \<and> (\<exists>r. user_get (tm_user_id m) s = Some r \<and> Some (lower (usr_email r)) = ls_owner_email cfg))"
proof (intro conjI ballI allI impI)
  have ok: "tables_ok s" "standing_ok cfg (set (rows (pf_memberships s\<^sub>0))) s"
    using access_reachable_ok [OF assms(2,1)] by (simp_all add: access_ok_def)
  note t = tables_okD [OF ok(1)]
  show "\<exists>m. membership_get t (sess_user_id x) s = Inr (Some m)"
    if x: "x \<in> set (rows (pf_sessions s))" "sess_tenant_id x = Some t" for x t
  proof -
    from x ok(2) obtain m where m: "m \<in> set (rows (pf_memberships s))" "tm_tenant_id m = t \<and> tm_user_id m = sess_user_id x"
      unfolding standing_ok_def rows_iff [OF t(5)] by blast
    have "membership_get t (sess_user_id x) s = Inr (Some m)"
      unfolding membership_get_def
      by (rule membership_index.query_hit [OF t(3,4), where k = "(t, sess_user_id x)"]) (use m in simp_all)
    then show ?thesis by blast
  qed
  show "\<exists>r. user_get u s = Some r \<and> lower (usr_email r) \<in> set (ls_admin_emails cfg)" if "is_admin u s" for u
    using ok(2) that unfolding standing_ok_def user_get_def by blast
  show "m \<in> set (rows (pf_memberships s\<^sub>0)) \<or> ls_owner_tenant_id cfg = Some (tm_tenant_id m) \<and> tm_role m = ROLE_OWNER
          \<and> (\<exists>r. user_get (tm_user_id m) s = Some r \<and> Some (lower (usr_email r)) = ls_owner_email cfg)"
    if "m \<in> set (rows (pf_memberships s))" for m
    using ok(2) that unfolding standing_ok_def owner_grant_def user_get_def by blast
qed

theorem standing_is_granted_witness: "\<exists>m. membership_get 50 1 demo_selected = Inr (Some m)"
proof -
  let ?x = "demo_session\<lparr>sess_refresh_token_hash := ''h:r2'', sess_previous_token_hash := Some ''h:r1'', sess_tenant_id := Some 50\<rparr>"
  have "?x \<in> set (rows (pf_sessions demo_selected))" by (simp add: demo_selected_def rows_def)
  from bspec [OF conjunct1 [OF standing_is_granted [OF demo_platform_start demo_selected_path]] this] show ?thesis
    by (simp add: demo_session_def)
qed

section \<open>Rotation and replay\<close>

lemma resolve_sessions [simp]:
  "PrincipalResolver_resolve u q (s\<lparr>pf_sessions := t\<rparr>) = PrincipalResolver_resolve u q s"
  by (simp add: PrincipalResolver_resolve_def membership_get_def is_admin_def cong: option.case_cong)

lemma resolve_defined: "tables_ok s \<Longrightarrow> \<exists>p. PrincipalResolver_resolve u t s = Inr p"
proof (cases t)
  case (Some tn)
  assume "tables_ok s"
  note t = tables_okD(3,4) [OF this]
  have "\<exists>m. membership_get tn u s = Inr m"
    unfolding membership_get_def
    by (rule scalar_one_or_none_defined, rule membership_index.query_at_most_one [OF t, where k = "(tn, u)"]) simp
  with Some show ?thesis by (auto simp: PrincipalResolver_resolve_def split: option.splits)
qed (simp add: PrincipalResolver_resolve_def)

text \<open>
  A refresh token is good for one use. A refresh by the current token of an active session
  stores the new token's hash, keeps the old one as the previous hash and touches no other session;
  afterwards the old token is refused and the new one accepted while the session lives.
\<close>

theorem refresh_rotates:
  assumes "tables_ok s" and r: "RefreshSession H enc new tok now s = Inr (p, s')" and ne: "H new \<noteq> H tok"
  shows "tp_refresh_token p = new \<and> (\<exists>x y. tbl_get (pf_sessions s) (sess_id x) = Some x \<and> Session_is_active now x
     \<and> sess_refresh_token_hash x = H tok
     \<and> y = x\<lparr>sess_previous_token_hash := Some (H tok), sess_refresh_token_hash := H new\<rparr>
     \<and> (\<forall>i. tbl_get (pf_sessions s') i = (if i = sess_id x then Some y else tbl_get (pf_sessions s) i))
     \<and> session_get_by_refresh_token_hash (H new) s' = Inr (Some y)
     \<and> (\<forall>n t. \<exists>e. RefreshSession H enc n tok t s' = Inl e))"
proof -
  from r obtain x y where x: "session_get_by_refresh_token_hash (H tok) s = Inr (Some x)" "Session_is_active now x"
    and y: "y = x\<lparr>sess_previous_token_hash := Some (sess_refresh_token_hash x), sess_refresh_token_hash := H new\<rparr>"
    and up: "session_update y s = Inr s'" and p: "tp_refresh_token p = new"
    by (rule RefreshSession_InrD) simp
  note t = tables_okD(5,6) [OF assms(1)]
  note f = session_found [OF x(1) t(1)]
  note u = session_update_Inr [OF up]
  have ses: "pf_sessions s' = tbl_put (sess_id x) y (pf_sessions s)" using u by (simp add: y)
  have get: "tbl_get (pf_sessions s') i = (if i = sess_id x then Some y else tbl_get (pf_sessions s) i)" for i
    by (simp add: ses tbl_get_put)
  have t': "tbl_ok sess_id (pf_sessions s')" "unique_on (\<lambda>x. Some (sess_refresh_token_hash x)) (pf_sessions s')"
    using tbl_ok_put [OF t(1), of y "sess_id x"] session_index.put_checked [OF t conjunct1 [OF u]] by (simp_all add: ses y)
  have "y \<in> set (rows (pf_sessions s'))" using get [of "sess_id x"] by (auto dest: rows_mem)
  then have new: "session_get_by_refresh_token_hash (H new) s' = Inr (Some y)"
    unfolding session_get_by_refresh_token_hash_def
    by (intro session_index.query_hit [OF t', where k = "H new"]) (simp_all add: y)
  have "sess_refresh_token_hash z \<noteq> H tok" if z: "z \<in> set (rows (pf_sessions s'))" for z
  proof
    assume eq: "sess_refresh_token_hash z = H tok"
    have zg: "tbl_get (pf_sessions s') (sess_id z) = Some z" using z by (simp only: rows_iff [OF t'(1)])
    show False
    proof (cases "sess_id z = sess_id x")
      case True
      with zg get have "z = y" by simp
      with eq ne show False by (simp add: y)
    next
      case False
      with zg get have "tbl_get (pf_sessions s) (sess_id z) = Some z" by simp
      from unique_onD [OF t(2) this f(1)] eq f(2) False show False by simp
    qed
  qed
  then have none: "session_get_by_refresh_token_hash (H tok) s' = Inr None"
    unfolding session_get_by_refresh_token_hash_def by (simp only: scalar_None) blast
  then have "\<exists>e. RefreshSession H enc n tok t s' = Inl e" for n t
    by (cases "RefreshSession H enc n tok t s'") (auto elim!: RefreshSession_InrD)
  with p x f get new y show ?thesis by (intro conjI exI [of _ x] exI [of _ y]) auto
qed

theorem refresh_rotates_witness:
  "\<exists>p s'. RefreshSession demo_hash (\<lambda>_ _. ''t'') ''r3'' ''r2'' 5 demo_selected = Inr (p, s') \<and> tp_refresh_token p = ''r3''
     \<and> (\<exists>y. session_get_by_refresh_token_hash ''h:r3'' s' = Inr (Some y) \<and> sess_previous_token_hash y = Some ''h:r2'')"
proof -
  have ok: "tables_ok demo_selected"
    using access_reachable_ok [OF demo_selected_path demo_platform_start] by (simp add: access_ok_def)
  obtain p s' where r: "RefreshSession demo_hash (\<lambda>_ _. ''t'') ''r3'' ''r2'' 5 demo_selected = Inr (p, s')"
    by (simp add: RefreshSession_def PrincipalResolver_resolve_def session_defs demo_platform_defs REFRESH_TOKEN_TTL_def timedelta_defs)
  have "demo_hash ''r3'' \<noteq> demo_hash ''r2''" by (simp add: demo_hash_def)
  from refresh_rotates [OF ok r this] r show ?thesis by (auto simp: demo_hash_def)
qed

text \<open>
  C31: Replay detection revokes nothing. When a token that was rotated away is presented again, the
  use case marks the user's sessions revoked and then raises inside the same transaction: the call
  fails, the revocation is rolled back with it, and whoever holds the session's current token
  refreshes it as before.
\<close>

theorem replayed_token_revokes_nothing:
  assumes "tables_ok s" and "session_get_by_refresh_token_hash (H stolen) s = Inr None"
    and prev: "session_get_by_previous_token_hash (H stolen) s = Inr (Some x)"
    and cur: "H current = sess_refresh_token_hash x" "Session_is_active later x"
    and fresh: "\<forall>y \<in> set (rows (pf_sessions s)). sess_refresh_token_hash y \<noteq> H new"
  shows "run_uow (RefreshSession H enc n stolen now) s = (Inl (AuthenticationError ''Invalid refresh token.''), s)
    \<and> run_uow (SelectTenant H enc n stolen t now) s = (Inl (AuthenticationError ''Invalid refresh token.''), s)
    \<and> (\<exists>p s'. RefreshSession H enc new current later s = Inr (p, s'))"
proof (intro conjI)
  show "run_uow (RefreshSession H enc n stolen now) s = (Inl (AuthenticationError ''Invalid refresh token.''), s)"
    "run_uow (SelectTenant H enc n stolen t now) s = (Inl (AuthenticationError ''Invalid refresh token.''), s)"
    using assms(2) prev
    by (simp_all add: run_uow_def RefreshSession_def SelectTenant_def presented_session_def Let_def)
  note t = tables_okD(5,6) [OF assms(1)]
  have mem: "x \<in> set (rows (pf_sessions s))"
    using scalar_Some [OF prev [unfolded session_get_by_previous_token_hash_def]] by simp
  have found: "session_get_by_refresh_token_hash (H current) s = Inr (Some x)"
    unfolding session_get_by_refresh_token_hash_def
    by (rule session_index.query_hit [OF t, where k = "H current"]) (use mem cur in simp_all)
  let ?y = "x\<lparr>sess_previous_token_hash := Some (sess_refresh_token_hash x), sess_refresh_token_hash := H new\<rparr>"
  let ?s = "s\<lparr>pf_sessions := tbl_put (sess_id x) ?y (pf_sessions s)\<rparr>"
  have up: "session_update ?y s = Inr ?s"
    using fresh by (simp add: session_update_def session_clash_def list_ex_iff)
  from resolve_defined [OF assms(1)] found cur up
  show "\<exists>p s'. RefreshSession H enc new current later s = Inr (p, s')"
    by (auto simp: RefreshSession_def presented_session_def Let_def bind_result_eq_Inr)
qed

theorem replayed_token_revokes_nothing_witness:
  "run_uow (RefreshSession demo_hash (\<lambda>_ _. ''t'') ''r9'' ''r1'' 5) demo_selected
     = (Inl (AuthenticationError ''Invalid refresh token.''), demo_selected)
   \<and> (\<exists>p s'. RefreshSession demo_hash (\<lambda>_ _. ''t'') ''r3'' ''r2'' 6 demo_selected = Inr (p, s'))"
proof -
  let ?x = "demo_session\<lparr>sess_refresh_token_hash := ''h:r2'', sess_previous_token_hash := Some ''h:r1'', sess_tenant_id := Some 50\<rparr>"
  have ok: "tables_ok demo_selected"
    using access_reachable_ok [OF demo_selected_path demo_platform_start] by (simp add: access_ok_def)
  have f: "session_get_by_refresh_token_hash (demo_hash ''r1'') demo_selected = Inr None"
    "session_get_by_previous_token_hash (demo_hash ''r1'') demo_selected = Inr (Some ?x)"
    "demo_hash ''r2'' = sess_refresh_token_hash ?x" "Session_is_active 6 ?x"
    "\<forall>y \<in> set (rows (pf_sessions demo_selected)). sess_refresh_token_hash y \<noteq> demo_hash ''r3''"
    by (simp_all add: session_defs demo_platform_defs REFRESH_TOKEN_TTL_def timedelta_defs)
  from replayed_token_revokes_nothing [where H = demo_hash and stolen = "''r1''" and current = "''r2''" and new = "''r3''"
      and enc = "\<lambda>_ _. ''t''" and n = "''r9''" and now = 5, OF ok f]
  show ?thesis by blast
qed

section \<open>What a token is worth\<close>

text \<open>
  The JWT library's contract: a signed payload decodes to itself, and is valid at a time not past
  its expiry when the issuer is ours.
\<close>

lemma role_of_value [simp]: "role_of (role_value r) = Inr r"
  by (cases r) (simp_all add: role_of_def)

lemma role_value_given: "role_value r \<noteq> []"
  by (cases r) simp_all

lemma get_current_principal_claims:
  assumes "decode token t = Inr (claims_of u q p)"
  shows "get_current_principal decode (Some token) t = Inr \<lparr>pr_user_id = u, pr_tenant_id = q, pr_role = pr_role p,
     pr_capabilities = sort (remdups (pr_capabilities p)), pr_is_platform_admin = pr_is_platform_admin p,
     pr_impersonated_by = None\<rparr>"
  using assms
  by (auto simp: get_current_principal_def claims_of_def if_given_def uuid_str_nonempty role_value_given
      split: option.splits)

text \<open>
  C32: A token carries the standing its holder had when it was issued, and no other. What a later
  request is given from the token of a refresh - user, tenant, role, capabilities, platform-admin
  flag - is what the resolver finds for the session's user in the session's tenant; so a capability
  in it is one of the membership's role or one of its own.
\<close>

theorem token_carries_standing:
  assumes jwt: "\<forall>p. jwt_decode (jwt_encode p) = Some p"
    and valid: "\<forall>sec p. jwt_iss p = ISSUER \<longrightarrow> sec \<le> jwt_exp p \<longrightarrow> jwt_valid sec p"
    and r: "RefreshSession H (AccessTokenCodec_encode jwt_encode ttl) new tok now s = Inr (pair, s')"
    and t: "t \<le> now + ttl"
  shows "\<exists>x pr p. session_get_by_refresh_token_hash (H tok) s = Inr (Some x)
     \<and> PrincipalResolver_resolve (sess_user_id x) (sess_tenant_id x) s' = Inr pr
     \<and> get_current_principal (AccessTokenCodec_decode jwt_decode jwt_valid) (Some (tp_access_token pair)) t = Inr p
     \<and> pr_user_id p = sess_user_id x \<and> pr_tenant_id p = sess_tenant_id x \<and> pr_role p = pr_role pr
     \<and> pr_is_platform_admin p = is_admin (sess_user_id x) s'
     \<and> (\<forall>c. Principal_has_capability c p \<longleftrightarrow> (\<exists>q m. sess_tenant_id x = Some q
          \<and> membership_get q (sess_user_id x) s' = Inr (Some m) \<and> c \<in> set (membership_capabilities m)))"
proof -
  from r obtain x pr where x: "session_get_by_refresh_token_hash (H tok) s = Inr (Some x)"
    and pr: "PrincipalResolver_resolve (sess_user_id x) (sess_tenant_id x) s' = Inr pr"
    and pair: "tp_access_token pair = AccessTokenCodec_encode jwt_encode ttl (claims_of (sess_user_id x) (sess_tenant_id x) pr) now"
    by (rule RefreshSession_InrD) simp
  have "timestamp t \<le> timestamp (now + ttl)"
    using t unfolding timestamp_def by (rule zdiv_mono1) (simp add: microseconds_per_second_def)
  then have "AccessTokenCodec_decode jwt_decode jwt_valid (tp_access_token pair) t
      = Inr (claims_of (sess_user_id x) (sess_tenant_id x) pr)"
    using jwt valid by (simp add: pair AccessTokenCodec_encode_def AccessTokenCodec_decode_def)
  note p = get_current_principal_claims [of "AccessTokenCodec_decode jwt_decode jwt_valid", OF this]
  have "pr_is_platform_admin pr = is_admin (sess_user_id x) s'"
    "c \<in> set (pr_capabilities pr) \<longleftrightarrow> (\<exists>q m. sess_tenant_id x = Some q
          \<and> membership_get q (sess_user_id x) s' = Inr (Some m) \<and> c \<in> set (membership_capabilities m))" for c
    using pr by (auto simp: PrincipalResolver_resolve_def nobody_def bind_result_eq_Inr split: option.splits)
  with x pr p show ?thesis by (auto simp: Principal_has_capability_def)
qed

text \<open>A codec that keeps the contract: the payload's number in unary.\<close>

definition payload_fields where
  "payload_fields p = ((atc_subject (jwt_claims p), atc_tenant_id (jwt_claims p), atc_role (jwt_claims p)),
     (atc_capabilities (jwt_claims p), atc_is_platform_admin (jwt_claims p), atc_impersonated_by (jwt_claims p)),
     (jwt_iss p, jwt_iat p, jwt_exp p))"

definition payload_of where
  "payload_of = (\<lambda>((sub, tn, r), (caps, adm, imp), (iss, iat, ex)). \<lparr>jwt_claims = \<lparr>atc_subject = sub,
     atc_tenant_id = tn, atc_role = r, atc_capabilities = caps, atc_is_platform_admin = adm,
     atc_impersonated_by = imp\<rparr>, jwt_iss = iss, jwt_iat = iat, jwt_exp = ex\<rparr>)"

definition demo_jwt_encode :: "jwt_payload \<Rightarrow> string" where
  "demo_jwt_encode p = replicate (to_nat (payload_fields p)) (CHR ''x'')"

definition demo_jwt_decode :: "string \<Rightarrow> jwt_payload option" where
  "demo_jwt_decode t = Some (payload_of (from_nat (length t)))"

lemma demo_jwt: "demo_jwt_decode (demo_jwt_encode p) = Some p"
  by (simp add: demo_jwt_decode_def demo_jwt_encode_def payload_of_def payload_fields_def)

theorem token_carries_standing_witness:
  "\<exists>pair s' p. RefreshSession demo_hash (AccessTokenCodec_encode demo_jwt_encode (minutes 15)) ''r3'' ''r2'' 5 demo_selected = Inr (pair, s')
     \<and> get_current_principal (AccessTokenCodec_decode demo_jwt_decode (\<lambda>sec p. jwt_iss p = ISSUER \<and> sec \<le> jwt_exp p))
         (Some (tp_access_token pair)) 6 = Inr p
     \<and> pr_tenant_id p = Some 50 \<and> Principal_has_capability ''catalog.approve'' p \<and> \<not> Principal_has_capability ''settings.manage'' p"
proof -
  let ?enc = "AccessTokenCodec_encode demo_jwt_encode (minutes 15)" and ?valid = "\<lambda>sec p. jwt_iss p = ISSUER \<and> sec \<le> jwt_exp p"
  have look: "session_get_by_refresh_token_hash (demo_hash ''r2'') demo_selected = Inr (Some (snd (hd (pf_sessions demo_selected))))"
    "sess_user_id (snd (hd (pf_sessions demo_selected))) = 1" "sess_tenant_id (snd (hd (pf_sessions demo_selected))) = Some 50"
    by (simp_all add: session_defs demo_platform_defs)
  have "\<exists>pair s'. RefreshSession demo_hash ?enc ''r3'' ''r2'' 5 demo_selected = Inr (pair, s')
      \<and> membership_get 50 1 s' = Inr (Some demo_membership)"
    by (simp add: RefreshSession_def PrincipalResolver_resolve_def session_defs demo_platform_defs REFRESH_TOKEN_TTL_def timedelta_defs Let_def)
  then obtain pair s' where r: "RefreshSession demo_hash ?enc ''r3'' ''r2'' 5 demo_selected = Inr (pair, s')"
    and m: "membership_get 50 1 s' = Inr (Some demo_membership)" by blast
  have "\<forall>p. demo_jwt_decode (demo_jwt_encode p) = Some p" "\<forall>sec p. jwt_iss p = ISSUER \<longrightarrow> sec \<le> jwt_exp p \<longrightarrow> ?valid sec p"
    "(6 :: datetime) \<le> 5 + minutes 15" by (simp_all add: demo_jwt timedelta_defs)
  from token_carries_standing [OF this(1,2) r this(3)] look obtain p where
    p: "get_current_principal (AccessTokenCodec_decode demo_jwt_decode ?valid) (Some (tp_access_token pair)) 6 = Inr p"
      "pr_tenant_id p = Some 50"
      "\<And>c. Principal_has_capability c p \<longleftrightarrow> (\<exists>q m. Some (50::uuid) = Some q
          \<and> membership_get q 1 s' = Inr (Some m) \<and> c \<in> set (membership_capabilities m))"
    by auto
  have "''catalog.approve'' \<in> set (membership_capabilities demo_membership)" "''settings.manage'' \<notin> set (membership_capabilities demo_membership)"
    by (simp_all add: membership_capabilities_def demo_membership_def TenantMembership_create_def MANAGER_CAPABILITIES_def)
  with r p m show ?thesis by (intro exI [of _ pair] exI [of _ s'] exI [of _ p]) auto
qed

section \<open>Hosts\<close>

text \<open>Another way to write a host: in any letter case, with spaces around it.\<close>

definition spelling_of :: "string \<Rightarrow> string \<Rightarrow> bool" where
  "spelling_of h v \<longleftrightarrow> (\<exists>before x after. v = before @ x @ after \<and> list_all py_space before \<and> list_all py_space after
     \<and> lower x = lower (strip h))"

lemma py_space_lower [simp]: "py_space (lower_char c) = py_space c"
proof -
  have "(of_char c :: nat) < 256" using nat_of_char_less_256 by simp
  then show ?thesis by (auto simp: lower_char_def py_space_def Let_def)
qed

lemma colon_lower [simp]: "lower_char c = CHR '':'' \<longleftrightarrow> c = CHR '':''"
proof
  assume "lower_char c = CHR '':''"
  then have n: "(of_char (lower_char c) :: nat) = 58" by simp
  have "(of_char c :: nat) < 256" using nat_of_char_less_256 by simp
  with n have "(of_char c :: nat) = 58" by (auto simp: lower_char_def Let_def split: if_splits)
  then have "char_of (of_char c :: nat) = (char_of (58 :: nat) :: char)" by simp
  moreover have "char_of (58 :: nat) = CHR '':''" by code_simp
  ultimately show "c = CHR '':''" by simp
qed (simp add: lower_char_def)

lemma strip_ends:
  assumes "strip h \<noteq> []"
  shows "\<not> py_space (hd (strip h))" and "\<not> py_space (last (strip h))"
proof -
  let ?y = "dropWhile py_space h"
  have y: "?y = strip h @ rev (takeWhile py_space (rev ?y))"
    unfolding strip_def lstrip_def by (metis rev_append rev_rev_ident takeWhile_dropWhile_id)
  have "?y \<noteq> []" using assms by (auto simp: strip_def lstrip_def simp del: dropWhile_eq_Nil_conv)
  then have "\<not> py_space (hd ?y)" by (rule hd_dropWhile)
  moreover have "hd ?y = hd (strip h)" using y assms by (metis hd_append2)
  ultimately show "\<not> py_space (hd (strip h))" by simp
  have "dropWhile py_space (rev ?y) \<noteq> []" using assms by (simp add: strip_def lstrip_def)
  from hd_dropWhile [OF this] show "\<not> py_space (last (strip h))" by (simp add: strip_def lstrip_def last_rev)
qed

lemma spelling_normalised:
  assumes "spelling_of h v" and "strip h \<noteq> []"
  shows "lower (strip v) = lower (strip h)" and "CHR '':'' \<notin> set h \<Longrightarrow> CHR '':'' \<notin> set v"
proof -
  from assms(1) obtain before x after where v: "v = before @ x @ after" and sp: "list_all py_space before" "list_all py_space after"
    and x: "lower x = lower (strip h)" by (auto simp: spelling_of_def)
  from x assms(2) have ne: "x \<noteq> []" by (auto simp: lower_def)
  have "lower_char (hd x) = lower_char (hd (strip h))" "lower_char (last x) = lower_char (last (strip h))"
    using x ne assms(2) unfolding lower_def by (metis hd_map, metis last_map)
  then have ends: "\<not> py_space (hd x)" "\<not> py_space (last x)" using strip_ends [OF assms(2)] by (metis py_space_lower)+
  have "lstrip v = x @ after"
    using sp(1) ends(1) ne by (cases x) (simp_all add: v lstrip_def dropWhile_append2 list_all_iff)
  moreover have "lstrip (rev after @ rev x) = rev x"
  proof -
    have "rev x \<noteq> []" "\<not> py_space (hd (rev x))" using ne ends(2) by (simp_all add: hd_rev)
    then have "dropWhile py_space (rev x) = rev x" by (cases "rev x") simp_all
    moreover have "dropWhile py_space (rev after @ rev x) = dropWhile py_space (rev x)"
      using sp(2) by (intro dropWhile_append2) (simp add: list_all_iff)
    ultimately show ?thesis by (simp add: lstrip_def)
  qed
  ultimately show "lower (strip v) = lower (strip h)" using x by (simp add: strip_def)
  assume colon: "CHR '':'' \<notin> set h"
  have "set (strip h) \<subseteq> set h"
    by (auto simp: strip_def lstrip_def dest!: set_dropWhileD)
  with colon have "CHR '':'' \<notin> set (lower (strip h))" by (auto simp: lower_def dest!: sym [of "CHR '':''"])
  with x have "CHR '':'' \<notin> set (lower x)" by simp
  moreover have "lower_char CHR '':'' = CHR '':''" by simp
  ultimately have "CHR '':'' \<notin> set x" unfolding lower_def by (metis image_eqI set_map)
  moreover have "\<not> py_space CHR '':''" by code_simp
  ultimately show "CHR '':'' \<notin> set v" using sp by (auto simp: v list_all_iff)
qed

text \<open>
  C33: A hostname without a colon leads to the tenant that registered it at once: right after the
  registration, before anything verifies the domain, a request for it - in any letter case, with spaces around,
  with or without a port - is served as that tenant's, every host that led to a tenant before still leads to it, and no
  tenant can register the name again, in whatever spelling.
\<close>

theorem host_round_trip:
  assumes ok: "tables_ok s" and colon: "CHR '':'' \<notin> set h"
    and r: "RegisterTenantDomain n a tn h u now s = Inr (d, s')"
  shows "\<not> td_verified d
     \<and> (\<forall>v. spelling_of h v \<longrightarrow> get_public_tenant_id (Some v) s' = Inr tn
          \<and> (\<forall>port. get_public_tenant_id (Some (v @ CHR '':'' # port)) s' = Inr tn)
          \<and> (\<forall>n' a' tn' u' now'. \<exists>e. RegisterTenantDomain n' a' tn' v u' now' s' = Inl e))
     \<and> (\<forall>host q. get_public_tenant_id host s = Inr q \<longrightarrow> get_public_tenant_id host s' = Inr q)"
proof -
  from r obtain s1 b where d: "TenantDomain_create n tn h False now = Inr d" and add: "domain_add d s = Inr s1" and s': "s' = s1\<lparr>pf_db := b\<rparr>"
    by (auto simp: RegisterTenantDomain_def bind_result_eq_Inr)
  note t = tables_okD(7,8) [OF ok]
  from add obtain q where q: "\<not> list_ex (domain_clash d) (rows (pf_domains s))" "tbl_add (td_id d) d (pf_domains s) = Inr q"
    and s1: "s1 = s\<lparr>pf_domains := q\<rparr>" by (auto simp: domain_add_def bind_result_eq_Inr tbl_add_unique_Inr)
  have dd: "td_hostname d = lower (strip h)" "td_tenant_id d = tn" "\<not> td_verified d" and ne: "strip h \<noteq> []"
    using d by (auto simp: TenantDomain_create_def Let_def lower_def split: if_splits)
  have t': "tbl_ok td_id (pf_domains s')" "unique_on (\<lambda>d. Some (td_hostname d)) (pf_domains s')"
    using domain_index.add_unique [OF t q] by (simp_all add: s' s1)
  have rw: "rows (pf_domains s') = rows (pf_domains s) @ [d]" by (simp add: s' s1 rows_add [OF q(2)])
  have hit: "resolve_by_hostname (td_hostname x) s' = Inr (Some x)" if "x \<in> set (rows (pf_domains s'))" for x
    unfolding resolve_by_hostname_def
    by (rule domain_index.query_hit [OF t', where k = "td_hostname x"]) (use that in simp_all)
  from hit [of d] have self: "resolve_by_hostname (lower (strip h)) s' = Inr (Some d)" by (simp add: rw dd)
  have served: "get_public_tenant_id (Some v) s' = Inr tn" "get_public_tenant_id (Some (v @ CHR '':'' # port)) s' = Inr tn"
    if "spelling_of h v" for v port
  proof -
    note v = spelling_normalised [OF that ne]
    have whole: "takeWhile (\<lambda>c. c \<noteq> CHR '':'') v = v" using v(2) [OF colon] by (auto simp: takeWhile_eq_all_conv)
    have "takeWhile (\<lambda>c. c \<noteq> CHR '':'') (v @ CHR '':'' # port) = v"
      using v(2) [OF colon] by (subst takeWhile_append2) auto
    then show "get_public_tenant_id (Some v) s' = Inr tn" "get_public_tenant_id (Some (v @ CHR '':'' # port)) s' = Inr tn"
      using self by (simp_all add: get_public_tenant_id_def ResolveTenantFromHost_def request_hostname_def whole dd v(1))
  qed
  have kept: "get_public_tenant_id host s' = Inr p" if g: "get_public_tenant_id host s = Inr p" for host p
  proof -
    from g obtain x where x: "resolve_by_hostname (request_hostname host) s = Inr (Some x)" "p = td_tenant_id x"
      by (auto simp: get_public_tenant_id_def ResolveTenantFromHost_def bind_result_eq_Inr)
    from scalar_Some [OF x(1) [unfolded resolve_by_hostname_def]] hit [of x]
    have "resolve_by_hostname (request_hostname host) s' = Inr (Some x)" by (simp add: rw)
    with x(2) show ?thesis by (simp add: get_public_tenant_id_def ResolveTenantFromHost_def)
  qed
  have taken: "\<exists>e. RegisterTenantDomain n' a' tn' v u' now' s' = Inl e" if "spelling_of h v" for n' a' tn' v u' now'
  proof (cases "TenantDomain_create n' tn' v False now'")
    case (Inr x)
    then have "td_hostname x = td_hostname d"
      using spelling_normalised(1) [OF that ne] by (auto simp: TenantDomain_create_def Let_def dd split: if_splits)
    with Inr show ?thesis by (simp add: RegisterTenantDomain_def domain_add_def tbl_add_unique_def rw domain_clash_def)
  qed (simp add: RegisterTenantDomain_def)
  from dd(3) served kept taken show ?thesis by blast
qed

theorem host_round_trip_witness:
  "\<exists>d s'. RegisterTenantDomain 30 31 50 ''shop.com'' 1 7 demo_platform = Inr (d, s')
     \<and> \<not> td_verified d \<and> get_public_tenant_id (Some '' Shop.COM:8443'') s' = Inr 50"
proof -
  have ok: "tables_ok demo_platform" using demo_platform_start by (simp add: platform_start_def)
  obtain d s' where r: "RegisterTenantDomain 30 31 50 ''shop.com'' 1 7 demo_platform = Inr (d, s')"
    by (simp add: RegisterTenantDomain_def TenantDomain_create_def domain_add_def tbl_add_unique_def audit_record_def
        empty_db_def session_defs demo_platform_defs)
  have "CHR '':'' \<notin> set ''shop.com''" by simp
  note trip = host_round_trip [OF ok this r]
  have "lower ''Shop.COM'' = lower (strip ''shop.com'')" "list_all py_space '' ''" by code_simp+
  then have "spelling_of ''shop.com'' ('' '' @ ''Shop.COM'' @ [])" unfolding spelling_of_def by (intro exI [of _ "'' ''"] exI [of _ "''Shop.COM''"] exI [of _ "[]"]) simp
  then have "get_public_tenant_id (Some (('' '' @ ''Shop.COM'' @ []) @ CHR '':'' # ''8443'')) s' = Inr 50" using trip by blast
  with trip r show ?thesis by auto
qed

end
