(* ===== verification/Base64.thy ===== *)
theory Base64
  imports Store
begin

text \<open>
  The URL-safe alphabet of base64 the cursors of shared/pagination.py are printed in
  (\<open>base64.urlsafe_b64encode\<close>), and \<open>urlsafe_b64decode\<close> with the leniency of \<open>binascii.a2b_base64\<close>:
  characters outside the alphabet are skipped, and a complete padding ends the input. A byte is a
  number below 256. Decoding gives back what was encoded.
\<close>

definition b64_char :: "nat \<Rightarrow> char" where
  "b64_char n = (if n < 26 then char_of (n + 65) else if n < 52 then char_of (n + 71)
     else if n < 62 then char_of (n - 4) else if n = 62 then CHR ''-'' else CHR ''_'')"

text \<open>The decoder reads the plain alphabet's two characters as well.\<close>

definition b64_val :: "char \<Rightarrow> nat option" where
  "b64_val c = (let n = (of_char c :: nat) in
     if 65 \<le> n \<and> n \<le> 90 then Some (n - 65)
     else if 97 \<le> n \<and> n \<le> 122 then Some (n - 71)
     else if 48 \<le> n \<and> n \<le> 57 then Some (n + 4)
     else if n = 45 \<or> n = 43 then Some 62
     else if n = 95 \<or> n = 47 then Some 63 else None)"

fun b64_encode :: "nat list \<Rightarrow> string" where
  "b64_encode [] = []"
| "b64_encode [a] = [b64_char (a div 4), b64_char (a mod 4 * 16), CHR ''='', CHR ''='']"
| "b64_encode [a, b] = [b64_char (a div 4), b64_char (a mod 4 * 16 + b div 16),
     b64_char (b mod 16 * 4), CHR ''='']"
| "b64_encode (a # b # c # bs) = b64_char (a div 4) # b64_char (a mod 4 * 16 + b div 16)
     # b64_char (b mod 16 * 4 + c div 64) # b64_char (c mod 64) # b64_encode bs"

text \<open>
  The position in the group of four, the bits left over from the previous character, and the padding
  characters seen since then; characters outside the alphabet are skipped.
\<close>

fun a2b_base64 :: "nat \<Rightarrow> nat \<Rightarrow> nat \<Rightarrow> string \<Rightarrow> nat list option" where
  "a2b_base64 quad_pos leftchar pads [] = (if quad_pos = 0 then Some [] else None)"
| "a2b_base64 quad_pos leftchar pads (c # cs) =
     (if c = CHR ''='' then
        (if quad_pos \<ge> 2 then
           (if quad_pos + (pads + 1) \<ge> 4 then Some [] else a2b_base64 quad_pos leftchar (pads + 1) cs)
         else a2b_base64 quad_pos leftchar pads cs)
      else case b64_val c of
        None \<Rightarrow> a2b_base64 quad_pos leftchar pads cs
      | Some v \<Rightarrow>
          if quad_pos = 0 then a2b_base64 1 v 0 cs
          else if quad_pos = 1
          then map_option ((#) (leftchar * 4 + v div 16)) (a2b_base64 2 (v mod 16) 0 cs)
          else if quad_pos = 2
          then map_option ((#) (leftchar * 16 + v div 4)) (a2b_base64 3 (v mod 4) 0 cs)
          else map_option ((#) (leftchar * 64 + v)) (a2b_base64 0 0 0 cs))"

lemma b64_val_char:
  assumes "n < 64"
  shows "b64_val (b64_char n) = Some n" "b64_char n \<noteq> CHR ''=''"
proof -
  have "b64_val (b64_char n) = Some n \<and> b64_char n \<noteq> CHR ''=''"
  proof (cases "n < 62")
    case True
    then have *: "b64_char n = char_of (if n < 26 then n + 65 else if n < 52 then n + 71 else n - 4)"
      by (simp add: b64_char_def)
    have "(of_char (CHR ''='') :: nat) = 61" by simp
    with True * show ?thesis
      by (auto simp: b64_val_def Let_def dest!: arg_cong [where f = "of_char :: char \<Rightarrow> nat"])
  next
    case False
    with assms have "n = 62 \<or> n = 63" by auto
    then show ?thesis by (auto simp: b64_char_def b64_val_def)
  qed
  then show "b64_val (b64_char n) = Some n" "b64_char n \<noteq> CHR ''=''" by auto
qed

lemma b64_char_ascii: "(of_char (b64_char n) :: nat) < 128"
  by (auto simp: b64_char_def)

lemma b64_split:
  assumes "(a :: nat) < 256" and "b < 256"
  shows "a div 4 < 64" "a mod 4 * 16 + b div 16 < 64" "b mod 16 * 4 + a div 64 < 64"
    "(a mod 4 * 16 + b div 16) div 16 = a mod 4" "(a mod 4 * 16 + b div 16) mod 16 = b div 16"
    "(b mod 16 * 4 + a div 64) div 4 = b mod 16" "(b mod 16 * 4 + a div 64) mod 4 = a div 64"
proof -
  have "b div 16 < 16" "a div 64 < 4" using assms by auto
  then show "a div 4 < 64" "a mod 4 * 16 + b div 16 < 64" "b mod 16 * 4 + a div 64 < 64"
    "(a mod 4 * 16 + b div 16) div 16 = a mod 4" "(a mod 4 * 16 + b div 16) mod 16 = b div 16"
    "(b mod 16 * 4 + a div 64) div 4 = b mod 16" "(b mod 16 * 4 + a div 64) mod 4 = a div 64"
    using assms by auto
qed

lemma b64_round_trip: "\<forall>b \<in> set bs. b < 256 \<Longrightarrow> a2b_base64 0 0 0 (b64_encode bs) = Some bs"
proof (induction bs rule: b64_encode.induct)
  case (2 a)
  then show ?case using b64_split [of a 0] by (simp add: b64_val_char)
next
  case (3 a b)
  then show ?case using b64_split [of a b] b64_split [of 0 b] by (simp add: b64_val_char)
next
  case (4 a b c bs)
  then show ?case using b64_split [of a b] b64_split [of c b] by (simp add: b64_val_char)
qed simp

lemma b64_encode_ascii: "c \<in> set (b64_encode bs) \<Longrightarrow> (of_char c :: nat) < 128"
  using b64_char_ascii by (induction bs rule: b64_encode.induct) auto

end
