(* ===== verification/Json_Text.thy ===== *)
theory Json_Text
  imports Specs
begin

text \<open>
  \<open>json.dumps(..., separators=(",", ":"))\<close> and \<open>json.loads\<close> of Python's standard library, which the
  cursors of shared/pagination.py go through. Reading gives back every value without fractions
  that was printed, and the bound on the nesting never decides the result.
\<close>

text \<open>\<open>json.dumps\<close> with \<open>ensure_ascii\<close>: what is not printable ASCII is escaped.\<close>

definition json_escape :: "char \<Rightarrow> string" where
  "json_escape c = (let n = (of_char c :: nat) in
     if c = CHR 0x22 \<or> c = CHR 0x5C then [CHR 0x5C, c]
     else if n = 10 then [CHR 0x5C, CHR ''n'']
     else if n = 13 then [CHR 0x5C, CHR ''r'']
     else if n = 9 then [CHR 0x5C, CHR ''t'']
     else if n = 12 then [CHR 0x5C, CHR ''f'']
     else if n = 8 then [CHR 0x5C, CHR ''b'']
     else if n < 32 \<or> 126 < n
       then CHR 0x5C # CHR ''u'' # hex_digits 4 n
     else [c])"

definition json_quote :: "string \<Rightarrow> string" where
  "json_quote s = CHR 0x22 # concat (map json_escape s) @ [CHR 0x22]"

fun json_dumps :: "json \<Rightarrow> string" where
  "json_dumps JNull = ''null''"
| "json_dumps (JBool b) = (if b then ''true'' else ''false'')"
| "json_dumps (JInt i) = str_int i"
| "json_dumps (JReal t) = t"
| "json_dumps (JStr s) = json_quote s"
| "json_dumps (JList xs) = ''['' @ join '','' (map json_dumps xs) @ '']''"
| "json_dumps (JObj kvs) =
     ''{'' @ join '','' (map (\<lambda>(k, v). json_quote k @ '':'' @ json_dumps v) kvs) @ ''}''"

definition json_space :: "char \<Rightarrow> bool" where
  "json_space c \<longleftrightarrow> c \<in> {CHR '' '', CHR 0x09, CHR 0x0A, CHR 0x0D}"

definition skip_space :: "string \<Rightarrow> string" where
  "skip_space = dropWhile json_space"

definition unescape :: "char \<Rightarrow> char option" where
  "unescape c = (if c = CHR 0x22 \<or> c = CHR 0x5C \<or> c = CHR ''/'' then Some c
     else if c = CHR ''n'' then Some (CHR 0x0A) else if c = CHR ''r'' then Some (CHR 0x0D)
     else if c = CHR ''t'' then Some (CHR 0x09) else if c = CHR ''f'' then Some (CHR 0x0C)
     else if c = CHR ''b'' then Some (CHR 0x08) else None)"

text \<open>
  The rest of a string after its opening quote: its value and what follows the closing quote.
  Escapes of code points beyond Latin-1 are outside the model's strings and not read.
\<close>

fun scan_string :: "string \<Rightarrow> (string \<times> string) option" where
  "scan_string [] = None"
| "scan_string (c # cs) =
     (if c = CHR 0x22 then Some ([], cs)
      else if c = CHR 0x5C then
        (case cs of
           [] \<Rightarrow> None
         | d # ds \<Rightarrow>
             if d = CHR ''u'' then
               (case ds of
                  h1 # h2 # h3 # h4 # rest \<Rightarrow>
                    (case hex_parse 0 [h1, h2, h3, h4] of
                       None \<Rightarrow> None
                     | Some n \<Rightarrow> if n < 256
                         then map_option (apfst ((#) (char_of n))) (scan_string rest) else None)
                | _ \<Rightarrow> None)
             else (case unescape d of
                 None \<Rightarrow> None
               | Some e \<Rightarrow> map_option (apfst ((#) e)) (scan_string ds)))
      else if (of_char c :: nat) < 32 then None
      else map_option (apfst ((#) c)) (scan_string cs))"

definition dec_val :: "char \<Rightarrow> nat option" where
  "dec_val c = (let n = (of_char c :: nat) in if 48 \<le> n \<and> n \<le> 57 then Some (n - 48) else None)"

definition is_digit :: "char \<Rightarrow> bool" where
  "is_digit c \<longleftrightarrow> dec_val c \<noteq> None"

fun read_dec :: "nat \<Rightarrow> string \<Rightarrow> nat option" where
  "read_dec acc [] = Some acc"
| "read_dec acc (c # cs) = (case dec_val c of None \<Rightarrow> None | Some d \<Rightarrow> read_dec (10 * acc + d) cs)"

text \<open>\<open>-?(0|[1-9][0-9]*)(.[0-9]+)?([eE][-+]?[0-9]+)?\<close>, the longest match.\<close>

definition scan_fraction :: "string \<Rightarrow> string \<times> string" where
  "scan_fraction s = (case s of
       [] \<Rightarrow> ([], s)
     | c # cs \<Rightarrow> if c = CHR ''.'' \<and> takeWhile is_digit cs \<noteq> []
         then (c # takeWhile is_digit cs, dropWhile is_digit cs) else ([], s))"

definition scan_exponent :: "string \<Rightarrow> string \<times> string" where
  "scan_exponent s = (case s of
       [] \<Rightarrow> ([], s)
     | c # cs \<Rightarrow> if c \<noteq> CHR ''e'' \<and> c \<noteq> CHR ''E'' then ([], s)
         else let sign = takeWhile (\<lambda>x. x = CHR ''-'' \<or> x = CHR ''+'') (take 1 cs);
                  ds = drop (length sign) cs
              in if takeWhile is_digit ds = [] then ([], s)
                 else (c # sign @ takeWhile is_digit ds, dropWhile is_digit ds))"

definition scan_natural :: "bool \<Rightarrow> string \<Rightarrow> (json \<times> string) option" where
  "scan_natural neg r =
     (if takeWhile is_digit r = [] then None
      else let ds = (if hd r = CHR ''0'' then ''0'' else takeWhile is_digit r)
           in case scan_fraction (drop (length ds) r) of (fr, r2) \<Rightarrow>
              case scan_exponent r2 of (ex, r3) \<Rightarrow>
                if fr = [] \<and> ex = []
                then map_option (\<lambda>n. (JInt (if neg then - int n else int n), r3)) (read_dec 0 ds)
                else Some (JReal ((if neg then ''-'' else []) @ ds @ fr @ ex), r3))"

definition scan_number :: "string \<Rightarrow> (json \<times> string) option" where
  "scan_number s = (if s \<noteq> [] \<and> hd s = CHR ''-'' then scan_natural True (drop 1 s) else scan_natural False s)"

definition scan_literal :: "string \<Rightarrow> json \<Rightarrow> string \<Rightarrow> (json \<times> string) option" where
  "scan_literal w v s = (if starts_with w s then Some (v, drop (length w) s) else None)"

text \<open>
  The values; the number bounds the nesting. \<open>scan_members\<close> reads the members of an object after
  a brace or a comma, \<open>scan_elements\<close> those of an array.
\<close>

fun scan_value :: "nat \<Rightarrow> string \<Rightarrow> (json \<times> string) option"
and scan_elements :: "nat \<Rightarrow> string \<Rightarrow> (json list \<times> string) option"
and scan_members :: "nat \<Rightarrow> string \<Rightarrow> ((string \<times> json) list \<times> string) option" where
  "scan_value 0 s = None"
| "scan_value (Suc n) s =
     (case s of
        [] \<Rightarrow> None
      | c # cs \<Rightarrow>
          if c = CHR 0x22 then map_option (apfst JStr) (scan_string cs)
          else if c = CHR ''{'' then
            (case skip_space cs of
               [] \<Rightarrow> None
             | d # ds \<Rightarrow> if d = CHR ''}'' then Some (JObj [], ds)
                 else map_option (apfst (\<lambda>kvs. JObj (dict_of kvs))) (scan_members n (d # ds)))
          else if c = CHR ''['' then
            (case skip_space cs of
               [] \<Rightarrow> None
             | d # ds \<Rightarrow> if d = CHR '']'' then Some (JList [], ds)
                 else map_option (apfst JList) (scan_elements n (d # ds)))
          else if c = CHR ''n'' then scan_literal ''null'' JNull s
          else if c = CHR ''t'' then scan_literal ''true'' (JBool True) s
          else if c = CHR ''f'' then scan_literal ''false'' (JBool False) s
          else if c = CHR ''N'' then scan_literal ''NaN'' (JReal ''NaN'') s
          else if c = CHR ''I'' then scan_literal ''Infinity'' (JReal ''Infinity'') s
          else if starts_with ''-Infinity'' s then scan_literal ''-Infinity'' (JReal ''-Infinity'') s
          else scan_number s)"
| "scan_elements 0 s = None"
| "scan_elements (Suc n) s =
     (case scan_value n s of
        None \<Rightarrow> None
      | Some (v, r) \<Rightarrow>
          (case skip_space r of
             [] \<Rightarrow> None
           | d # ds \<Rightarrow> if d = CHR '']'' then Some ([v], ds)
               else if d = CHR '','' then map_option (apfst ((#) v)) (scan_elements n (skip_space ds))
               else None))"
| "scan_members 0 s = None"
| "scan_members (Suc n) s =
     (case s of
        [] \<Rightarrow> None
      | c # cs \<Rightarrow> if c \<noteq> CHR 0x22 then None
          else (case scan_string cs of
             None \<Rightarrow> None
           | Some (k, r) \<Rightarrow>
               (case skip_space r of
                  [] \<Rightarrow> None
                | d # ds \<Rightarrow> if d \<noteq> CHR '':'' then None
                    else (case scan_value n (skip_space ds) of
                       None \<Rightarrow> None
                     | Some (v, r2) \<Rightarrow>
                         (case skip_space r2 of
                            [] \<Rightarrow> None
                          | e # es \<Rightarrow> if e = CHR ''}'' then Some ([(k, v)], es)
                              else if e = CHR '','' then
                                map_option (apfst ((#) (k, v))) (scan_members n (skip_space es))
                              else None)))))"

text \<open>\<open>json.loads\<close>: one value, with nothing but white space around it.\<close>

definition json_loads :: "string \<Rightarrow> json option" where
  "json_loads s =
     (case scan_value (2 * length s) (skip_space s) of
        None \<Rightarrow> None
      | Some (v, r) \<Rightarrow> if skip_space r = [] then Some v else None)"

text \<open>Reading consumes: what is left is shorter, so twice the length of the input is enough.\<close>

lemma length_skip_space: "length (skip_space s) \<le> length s"
  by (simp add: skip_space_def length_dropWhile_le)

lemma scan_string_shorter: "scan_string s = Some (v, r) \<Longrightarrow> length r < length s"
  by (induction s arbitrary: v r rule: scan_string.induct)
     (fastforce split: if_splits list.splits option.splits)+

lemma scan_fraction_shorter: "scan_fraction s = (x, r) \<Longrightarrow> length r \<le> length s"
  by (auto simp: scan_fraction_def length_dropWhile_le le_SucI split: list.splits if_splits)

lemma scan_exponent_shorter:
  assumes "scan_exponent s = (x, r)"
  shows "length r \<le> length s"
proof (cases s)
  case (Cons c cs)
  have "length (dropWhile is_digit (drop k cs)) \<le> Suc (length cs)" for k
    using length_dropWhile_le [of is_digit "drop k cs"] by simp
  with Cons assms show ?thesis by (auto simp: scan_exponent_def Let_def split: if_splits)
qed (use assms in \<open>simp add: scan_exponent_def\<close>)

lemma scan_natural_shorter:
  assumes "scan_natural neg s = Some (v, r)"
  shows "length r < length s"
proof -
  define ds where "ds = (if hd s = CHR ''0'' then ''0'' else takeWhile is_digit s)"
  obtain fr r2 where fr: "scan_fraction (drop (length ds) s) = (fr, r2)" by (cases "scan_fraction (drop (length ds) s)")
  obtain ex r3 where ex: "scan_exponent r2 = (ex, r3)" by (cases "scan_exponent r2")
  have t: "takeWhile is_digit s \<noteq> []" and r: "r = r3"
    using assms fr ex unfolding scan_natural_def Let_def by (auto simp: ds_def split: if_splits)
  then have "ds \<noteq> []" "s \<noteq> []" by (auto simp: ds_def)
  then have "length (drop (length ds) s) < length s" by simp
  with scan_fraction_shorter [OF fr] scan_exponent_shorter [OF ex] r show ?thesis by simp
qed

lemma scan_number_shorter: "scan_number s = Some (v, r) \<Longrightarrow> length r < length s"
  by (auto simp: scan_number_def split: if_splits dest!: scan_natural_shorter)

lemma scan_literal_shorter: "scan_literal w v s = Some (x, r) \<Longrightarrow> w \<noteq> [] \<Longrightarrow> length r < length s"
  by (cases s) (auto simp: scan_literal_def starts_with_def split: if_splits)

lemma scan_shorter:
  "scan_value n s = Some (v, r) \<Longrightarrow> length r < length s"
  "scan_elements n s = Some (vs, r) \<Longrightarrow> length r < length s"
  "scan_members n s = Some (ms, r) \<Longrightarrow> length r < length s"
proof (induction n s and n s and n s arbitrary: v r and vs r and ms r
    rule: scan_value_scan_elements_scan_members.induct)
  case (2 n s)
  note lits = scan_literal_shorter scan_number_shorter
  show ?case
  proof (cases s)
    case (Cons c cs)
    show ?thesis
      using "2.prems" "2.IH" [OF Cons] length_skip_space [of cs] unfolding Cons
      by (auto split: if_splits list.splits dest!: scan_string_shorter lits; fastforce)
  qed (use "2.prems" in simp)
next
  case (4 n s)
  then obtain v1 r1 d ds where v: "scan_value n s = Some (v1, r1)" and d: "skip_space r1 = d # ds"
    by (auto split: option.splits list.splits)
  have "length ds < length r1" using length_skip_space [of r1] d by simp
  with 4 v d length_skip_space [of ds] show ?case by (fastforce split: if_splits)
next
  case (6 n s)
  then obtain c cs k r1 d ds v1 r2 e es where *: "s = c # cs" "scan_string cs = Some (k, r1)"
    "skip_space r1 = d # ds" "d = CHR '':''" "scan_value n (skip_space ds) = Some (v1, r2)" "skip_space r2 = e # es"
    "c = CHR 0x22"
    by (auto split: option.splits list.splits if_splits)
  have "length r1 < length cs" "length ds < length r1" "length r2 < length (skip_space ds)"
      "length es < length r2"
    using scan_string_shorter [OF *(2)] length_skip_space [of r1] length_skip_space [of r2] * 6 by auto
  with 6 * length_skip_space [of ds] length_skip_space [of es] show ?case by (fastforce split: if_splits)
qed simp_all

lemma scan_members_step:
  "scan_members (Suc n) s = (case s of [] \<Rightarrow> None | c # cs \<Rightarrow>
     if c \<noteq> CHR 0x22 then None
     else (case scan_string cs of None \<Rightarrow> None | Some (k, r) \<Rightarrow>
       (case skip_space r of [] \<Rightarrow> None | d # ds \<Rightarrow> if d \<noteq> CHR '':'' then None
          else (case scan_value n (skip_space ds) of None \<Rightarrow> None | Some (v, r2) \<Rightarrow>
            (case skip_space r2 of [] \<Rightarrow> None
             | e # es \<Rightarrow> if e = CHR ''}'' then Some ([(k, v)], es)
                 else if e = CHR '','' then map_option (apfst ((#) (k, v))) (scan_members n (skip_space es))
                 else None)))))"
  by simp

lemma scan_Nil [simp]: "scan_value k [] = None" "scan_elements k [] = None" "scan_members k [] = None"
proof -
  show v: "scan_value k [] = None" for k by (cases k) simp_all
  show "scan_elements k [] = None" "scan_members k [] = None" by (cases k; simp add: v)+
qed

lemma scan_enough:
  "(2 * length s \<le> n \<longrightarrow> 2 * length s \<le> m \<longrightarrow> scan_value n s = scan_value m s)
   \<and> (2 * length s < n \<longrightarrow> 2 * length s < m \<longrightarrow> scan_elements n s = scan_elements m s
        \<and> scan_members n s = scan_members m s)"
proof (induction "length s" arbitrary: s n m rule: less_induct)
  case less
  note IHv = less.hyps [THEN conjunct1, rule_format]
    and IHe = less.hyps [THEN conjunct2, rule_format, THEN conjunct1]
    and IHm = less.hyps [THEN conjunct2, rule_format, THEN conjunct2]
  have sk: "length t < length s" if "skip_space r = d # t" "length r \<le> length s" for r d t
    using length_skip_space [of r] that by simp
  have v: "scan_value n s = scan_value m s" if "2 * length s \<le> n" "2 * length s \<le> m" for n m
  proof (cases s)
    case (Cons c cs)
    with that obtain n' m' where nm: "n = Suc n'" "m = Suc m'" "2 * length cs < n'" "2 * length cs < m'"
      by (cases n; cases m) auto
    have *: "scan_elements n' (skip_space cs) = scan_elements m' (skip_space cs)"
      "scan_members n' (skip_space cs) = scan_members m' (skip_space cs)"
      using nm(3,4) length_skip_space [of cs] by (auto intro!: IHe IHm simp: Cons)
    then show ?thesis unfolding nm(1,2) Cons by (auto split: list.split)
  qed simp
  have e: "scan_elements n s = scan_elements m s" if "2 * length s < n" "2 * length s < m"
  proof -
    from that obtain n' m' where nm: "n = Suc n'" "m = Suc m'" "2 * length s \<le> n'" "2 * length s \<le> m'"
      by (cases n; cases m) auto
    have "scan_elements n' (skip_space ds) = scan_elements m' (skip_space ds)"
      if "scan_value m' s = Some (x, r)" "skip_space r = d # ds" for x r d ds
    proof -
      have "length ds < length s" using scan_shorter(1) [OF that(1)] sk [OF that(2)] by simp
      then show ?thesis using nm(3,4) length_skip_space [of ds] by (intro IHe) auto
    qed
    then show ?thesis unfolding nm(1,2) using v [OF nm(3,4)] by (auto split: option.split list.split)
  qed
  have "scan_members n s = scan_members m s" if "2 * length s < n" "2 * length s < m"
  proof -
    from that obtain n' m' where nm: "n = Suc n'" "m = Suc m'" "2 * length s \<le> n'" "2 * length s \<le> m'"
      by (cases n; cases m) auto
    have 1: "scan_value n' (skip_space ds) = scan_value m' (skip_space ds)"
      if "s = c # cs" "scan_string cs = Some (k, r)" "skip_space r = d # ds" for c cs k r d ds
      using scan_string_shorter [OF that(2)] sk [OF that(3)] length_skip_space [of ds] nm(3,4) that(1)
      by (intro IHv) auto
    have 2: "scan_members n' (skip_space es) = scan_members m' (skip_space es)"
      if "s = c # cs" "scan_string cs = Some (k, r)" "skip_space r = d # ds"
        "scan_value m' (skip_space ds) = Some (x, r2)" "skip_space r2 = e # es" for c cs k r d ds x r2 e es
    proof -
      have "length r2 < length (skip_space ds)" using scan_shorter(1) [OF that(4)] .
      moreover have "length ds < length s" using scan_string_shorter [OF that(2)] sk [OF that(3)] that(1) by simp
      ultimately have "length es < length s" using length_skip_space [of ds] sk [OF that(5)] by simp
      then show ?thesis using nm(3,4) length_skip_space [of es] by (intro IHm) auto
    qed
    show ?thesis unfolding nm(1,2) scan_members_step
      using 1 2 by (auto split: option.split list.split)
  qed
  with v e show ?case by blast
qed

subsection \<open>Reading back what was printed\<close>

lemma hex_digits_4: "\<exists>a b c d. hex_digits 4 n = [a, b, c, d]"
proof -
  have four: "(4 :: nat) = Suc (Suc (Suc (Suc 0)))" by simp
  show ?thesis unfolding four hex_digits.simps append_Nil append_Cons by blast
qed

lemma char_of_control:
  "char_of (8 :: nat) = CHR 0x08" "char_of (9 :: nat) = CHR 0x09" "char_of (10 :: nat) = CHR 0x0A"
  "char_of (12 :: nat) = CHR 0x0C" "char_of (13 :: nat) = CHR 0x0D"
  by code_simp+

lemma scan_string_escape: "scan_string (json_escape c @ t) = map_option (apfst ((#) c)) (scan_string t)"
proof -
  obtain h1 h2 h3 h4 where h: "hex_digits 4 (of_char c) = [h1, h2, h3, h4]" using hex_digits_4 by blast
  have "hex_parse 0 [h1, h2, h3, h4] = Some (of_char c mod 16 ^ 4)"
    using hex_parse_digits [of 0 4 "of_char c"] unfolding h by simp
  moreover have lt: "(of_char c :: nat) < 256" using nat_of_char_less_256 by simp
  ultimately have hex: "hex_parse 0 [h1, h2, h3, h4] = Some (of_char c)" by simp
  have ctl: "c = char_of n" if "(of_char c :: nat) = n" for n using that by auto
  show ?thesis
    unfolding json_escape_def Let_def
    by (auto simp: h hex lt unescape_def char_of_control dest!: ctl simp del: hex_parse.simps)
qed

lemma scan_string_quote: "scan_string (concat (map json_escape s) @ CHR 0x22 # r) = Some (s, r)"
  by (induction s) (simp_all add: scan_string_escape)

lemma dec_val_digit: "d < 10 \<Longrightarrow> dec_val (char_of (48 + d)) = Some d"
  by (simp add: dec_val_def)

lemma read_dec_append: "read_dec a (xs @ ys) = (case read_dec a xs of None \<Rightarrow> None | Some b \<Rightarrow> read_dec b ys)"
  by (induction xs arbitrary: a) (auto split: option.splits)

lemma read_dec_digits: "read_dec 0 (digits n) = Some n"
proof (induction n rule: digits.induct)
  case (1 n)
  show ?case
  proof (cases "n < 10")
    case False
    with 1 show ?thesis
      by (subst digits.simps) (simp add: read_dec_append dec_val_digit)
  qed (subst digits.simps, simp add: dec_val_digit)
qed

lemma is_digit_char: "(d :: nat) < 10 \<Longrightarrow> is_digit (char_of (48 + d))"
  by (simp add: is_digit_def dec_val_digit)

lemma digits_are_digits: "\<forall>c \<in> set (digits n). is_digit c"
proof (induction n rule: digits.induct)
  case (1 n)
  then show ?case
    by (cases "n < 10"; subst digits.simps) (auto simp: is_digit_char)
qed

lemma digits_nonempty: "digits n \<noteq> []"
  by (subst digits.simps) simp

lemma hd_digits: "hd (digits n) = CHR ''0'' \<longleftrightarrow> n = 0"
proof (induction n rule: digits.induct)
  case (1 n)
  show ?case
  proof (cases "n < 10")
    case True
    have "char_of (48 + n) = CHR ''0'' \<longleftrightarrow> n = 0"
    proof
      assume "char_of (48 + n) = CHR ''0''"
      then have "dec_val (char_of (48 + n)) = dec_val (CHR ''0'')" by simp
      with True show "n = 0" by (simp add: dec_val_digit) (simp add: dec_val_def)
    qed simp
    with True show ?thesis by (subst digits.simps) simp
  next
    case False
    then have "n div 10 \<noteq> 0" by auto
    with 1 False show ?thesis by (subst digits.simps) (simp add: digits_nonempty)
  qed
qed

definition json_stop :: "string \<Rightarrow> bool" where
  "json_stop r \<longleftrightarrow> (case r of [] \<Rightarrow> True | c # _ \<Rightarrow> c \<in> {CHR '','', CHR '']'', CHR ''}''})"

lemma json_stop_Cons [simp]: "json_stop (c # r) \<longleftrightarrow> c \<in> {CHR '','', CHR '']'', CHR ''}''}"
  by (simp add: json_stop_def)

lemma json_stop_scan: "json_stop r \<Longrightarrow> scan_fraction r = ([], r) \<and> scan_exponent r = ([], r)
    \<and> takeWhile is_digit r = [] \<and> dropWhile is_digit r = r"
  by (cases r) (auto simp: json_stop_def scan_fraction_def scan_exponent_def is_digit_def dec_val_def)

lemma minus_not_digit: "\<not> is_digit (CHR ''-'')"
  by (simp add: is_digit_def dec_val_def)

lemma takeWhile_digits: "json_stop r \<Longrightarrow> takeWhile is_digit (digits n @ r) = digits n"
  using digits_are_digits [of n] by (simp add: takeWhile_append2 json_stop_scan)

lemma scan_number_int:
  assumes "json_stop r"
  shows "scan_number (str_int i @ r) = Some (JInt i, r)"
proof -
  have nat: "scan_natural neg (digits n @ r) = Some (JInt (if neg then - int n else int n), r)" for neg n
  proof -
    have "(if hd (digits n @ r) = CHR ''0'' then ''0'' else takeWhile is_digit (digits n @ r)) = digits n"
      using hd_digits [of n] digits_nonempty [of n] takeWhile_digits [OF assms, of n] digits.simps [of 0]
      by auto
    then show ?thesis
      using takeWhile_digits [OF assms, of n] digits_nonempty [of n] json_stop_scan [OF assms]
      by (simp add: scan_natural_def read_dec_digits Let_def del: hd_append2)
  qed
  have "hd (digits n) \<noteq> CHR ''-''" for n
    using digits_are_digits [of n] digits_nonempty [of n] minus_not_digit hd_in_set by metis
  then show ?thesis
    using digits_nonempty by (simp add: scan_number_def str_int_def nat)
qed

text \<open>What reading gives back: no number with a fraction, no key twice in an object.\<close>

fun json_plain :: "json \<Rightarrow> bool" where
  "json_plain (JReal t) = False"
| "json_plain (JList xs) = list_all json_plain xs"
| "json_plain (JObj kvs) = (distinct (map fst kvs) \<and> list_all (\<lambda>(k, v). json_plain v) kvs)"
| "json_plain _ = True"

lemma is_digit_bounds: "is_digit c \<Longrightarrow> 48 \<le> (of_char c :: nat) \<and> (of_char c :: nat) \<le> 57"
  by (simp add: is_digit_def dec_val_def Let_def split: if_splits)

lemma str_int_head:
  obtains c cs where "str_int i = c # cs" and "45 \<le> (of_char c :: nat)" and "(of_char c :: nat) \<le> 57"
    and "c = CHR ''-'' \<Longrightarrow> i < 0"
proof -
  have d: "\<exists>c cs. digits n = c # cs \<and> is_digit c" for n
    using digits_nonempty [of n] digits_are_digits [of n] by (cases "digits n") auto
  show thesis
  proof (cases "i < 0")
    case True
    then show thesis by (intro that [of "CHR ''-''" "digits (nat (- i))"]) (simp_all add: str_int_def)
  next
    case False
    from d obtain c cs where "digits (nat i) = c # cs" "is_digit c" by blast
    with False is_digit_bounds [of c] minus_not_digit show thesis
      by (intro that [of c cs]) (auto simp: str_int_def)
  qed
qed

lemma hd_dumps: "json_plain j \<Longrightarrow> json_dumps j \<noteq> [] \<and> \<not> json_space (hd (json_dumps j))
    \<and> hd (json_dumps j) \<noteq> CHR '']'' \<and> hd (json_dumps j) \<noteq> CHR ''}''"
proof (cases j)
  case (JInt i)
  obtain c cs where c: "str_int i = c # cs" "45 \<le> (of_char c :: nat)" "(of_char c :: nat) \<le> 57"
    by (rule str_int_head)
  then have "c \<noteq> CHR '' ''" "c \<noteq> CHR 0x09" "c \<noteq> CHR 0x0A" "c \<noteq> CHR 0x0D" "c \<noteq> CHR '']''" "c \<noteq> CHR ''}''"
    by (intro notI; simp)+
  with c JInt show ?thesis by (simp add: json_space_def)
qed (simp_all add: json_space_def json_quote_def)

lemma skip_space_dumps: "json_plain j \<Longrightarrow> skip_space (json_dumps j @ r) = json_dumps j @ r"
  using hd_dumps [of j] by (cases "json_dumps j") (auto simp: skip_space_def)

lemma skip_space_simps [simp]:
  "skip_space (CHR '','' # r) = CHR '','' # r" "skip_space (CHR '']'' # r) = CHR '']'' # r"
  "skip_space (CHR ''}'' # r) = CHR ''}'' # r" "skip_space (CHR '':'' # r) = CHR '':'' # r"
  "skip_space (CHR 0x22 # r) = CHR 0x22 # r"
  by (simp_all add: skip_space_def json_space_def)

lemma scan_value_int:
  assumes "json_stop r"
  shows "scan_value (Suc n) (str_int i @ r) = Some (JInt i, r)"
proof -
  obtain c cs where c: "str_int i = c # cs" "45 \<le> (of_char c :: nat)" "(of_char c :: nat) \<le> 57"
    "c = CHR ''-'' \<Longrightarrow> i < 0"
    by (rule str_int_head) auto
  then have "c \<noteq> CHR 0x22" "c \<noteq> CHR ''{''" "c \<noteq> CHR ''[''" "c \<noteq> CHR ''n''" "c \<noteq> CHR ''t''"
    "c \<noteq> CHR ''f''" "c \<noteq> CHR ''N''" "c \<noteq> CHR ''I''"
    by (intro notI; simp)+
  moreover have "\<not> starts_with ''-Infinity'' (str_int i @ r)"
  proof
    assume s: "starts_with ''-Infinity'' (str_int i @ r)"
    with c have "i < 0" by (simp add: starts_with_def)
    moreover obtain d ds where d: "digits (nat (- i)) = d # ds"
      using digits_nonempty by (cases "digits (nat (- i))") auto
    moreover have "is_digit d" using digits_are_digits [of "nat (- i)"] d by simp
    then have "d \<noteq> CHR ''I''" using is_digit_bounds [of d] by (intro notI) simp
    ultimately show False using s by (simp add: starts_with_def str_int_def)
  qed
  ultimately show ?thesis
    using scan_number_int [OF assms, of i] c(1) by simp
qed

lemma join_step: "join sep [x] = x" "join sep (x # y # ys) = x @ sep @ join sep (y # ys)"
  by (simp_all add: join_def)

definition reads_back :: "json \<Rightarrow> bool" where
  "reads_back j \<longleftrightarrow> (\<forall>r n. json_stop r \<longrightarrow> 2 * length (json_dumps j @ r) \<le> n
     \<longrightarrow> scan_value n (json_dumps j @ r) = Some (j, r))"

lemma scan_elements_join:
  "\<lbrakk>list_all json_plain xs; \<forall>x \<in> set xs. reads_back x; xs \<noteq> [];
    2 * length (join '','' (map json_dumps xs) @ CHR '']'' # r) < n\<rbrakk>
   \<Longrightarrow> scan_elements n (join '','' (map json_dumps xs) @ CHR '']'' # r) = Some (xs, r)"
proof (induction xs arbitrary: n)
  case (Cons x xs)
  then obtain n' where n: "n = Suc n'" by (cases n) auto
  show ?case
  proof (cases xs)
    case Nil
    with Cons.prems n have "scan_value n' (json_dumps x @ CHR '']'' # r) = Some (x, CHR '']'' # r)"
      by (simp add: reads_back_def join_step)
    with Nil n show ?thesis by (simp add: join_step)
  next
    case (Cons y ys)
    let ?t = "join '','' (map json_dumps xs) @ CHR '']'' # r"
    have "scan_value n' (json_dumps x @ CHR '','' # ?t) = Some (x, CHR '','' # ?t)"
      using Cons.prems Cons n by (simp add: reads_back_def join_step)
    moreover have "skip_space ?t = ?t"
    proof -
      have "\<exists>u. ?t = json_dumps y @ u" using Cons by (cases ys) (simp_all add: join_step)
      with Cons.prems Cons show ?thesis using skip_space_dumps [of y] by auto
    qed
    moreover have "scan_elements n' ?t = Some (xs, r)"
      using Cons.prems Cons n by (intro Cons.IH) (auto simp: join_step)
    ultimately show ?thesis using Cons n by (simp add: join_step)
  qed
qed simp

definition member_text :: "string \<times> json \<Rightarrow> string" where
  "member_text = (\<lambda>(k, v). json_quote k @ '':'' @ json_dumps v)"

lemma scan_members_join:
  "\<lbrakk>list_all (\<lambda>(k, v). json_plain v) kvs; \<forall>(k, v) \<in> set kvs. reads_back v; kvs \<noteq> [];
    2 * length (join '','' (map member_text kvs) @ CHR ''}'' # r) < n\<rbrakk>
   \<Longrightarrow> scan_members n (join '','' (map member_text kvs) @ CHR ''}'' # r) = Some (kvs, r)"
proof (induction kvs arbitrary: n)
  case (Cons kv kvs)
  obtain k v where kv: "kv = (k, v)" by (cases kv)
  from Cons.prems obtain n' where n: "n = Suc n'" by (cases n) auto
  have read: "scan_members n (member_text (k, v) @ t) = (case skip_space t of [] \<Rightarrow> None
      | e # es \<Rightarrow> if e = CHR ''}'' then Some ([(k, v)], es)
          else if e = CHR '','' then map_option (apfst ((#) (k, v))) (scan_members n' (skip_space es))
          else None)" if "json_stop t" "2 * length (member_text (k, v) @ t) < n" for t
  proof -
    have "scan_value n' (json_dumps v @ t) = Some (v, t)"
      using Cons.prems that n by (simp add: kv reads_back_def member_text_def json_quote_def)
    then show ?thesis
      using Cons.prems
      by (simp add: n kv member_text_def json_quote_def scan_string_quote skip_space_dumps)
  qed
  show ?case
  proof (cases kvs)
    case Nil
    with Cons.prems read [of "CHR ''}'' # r"] show ?thesis by (simp add: join_step kv)
  next
    case (Cons kv2 rest)
    let ?t = "join '','' (map member_text kvs) @ CHR ''}'' # r"
    have "skip_space ?t = ?t"
    proof -
      have "\<exists>u. ?t = CHR 0x22 # u"
        using Cons by (cases rest) (simp_all add: join_step member_text_def json_quote_def split: prod.splits)
      then show ?thesis by auto
    qed
    moreover have "scan_members n' ?t = Some (kvs, r)"
      using Cons.prems Cons n by (intro Cons.IH) (auto simp: join_step)
    ultimately show ?thesis using Cons Cons.prems read [of "CHR '','' # ?t"] by (simp add: join_step kv)
  qed
qed simp

lemma reads_backI:
  assumes "json_dumps j \<noteq> []"
    and "\<And>r n. json_stop r \<Longrightarrow> 2 * length (json_dumps j @ r) \<le> Suc n
      \<Longrightarrow> scan_value (Suc n) (json_dumps j @ r) = Some (j, r)"
  shows "reads_back j"
  unfolding reads_back_def
proof (intro allI impI)
  fix r n assume "json_stop r" and n: "2 * length (json_dumps j @ r) \<le> n"
  moreover from n assms(1) obtain n' where "n = Suc n'" by (cases n) auto
  ultimately show "scan_value n (json_dumps j @ r) = Some (j, r)" using assms(2) by blast
qed

lemma reads_back_list:
  assumes "list_all json_plain xs" and "\<forall>x \<in> set xs. reads_back x"
  shows "reads_back (JList xs)"
proof (rule reads_backI)
  fix r n assume n: "2 * length (json_dumps (JList xs) @ r) \<le> Suc n"
  show "scan_value (Suc n) (json_dumps (JList xs) @ r) = Some (JList xs, r)"
  proof (cases xs)
    case Nil
    then show ?thesis by (simp add: join_def)
  next
    case (Cons x ys)
    let ?t = "join '','' (map json_dumps xs) @ CHR '']'' # r"
    obtain u where u: "?t = json_dumps x @ u" using Cons by (cases ys) (simp_all add: join_step)
    have x: "json_plain x" using assms Cons by simp
    with u hd_dumps [OF x] obtain c cs where c: "?t = c # cs" "c \<noteq> CHR '']''"
      by (cases "json_dumps x") auto
    have "scan_elements n ?t = Some (xs, r)"
      using assms Cons n by (intro scan_elements_join) auto
    moreover have "skip_space ?t = ?t" using u skip_space_dumps [OF x] by simp
    ultimately show ?thesis using c by simp
  qed
qed simp

lemma reads_back_object:
  assumes "json_plain (JObj kvs)" and "\<forall>(k, v) \<in> set kvs. reads_back v"
  shows "reads_back (JObj kvs)"
proof (rule reads_backI)
  have printed: "json_dumps (JObj kvs) @ r = CHR ''{'' # join '','' (map member_text kvs) @ CHR ''}'' # r" for r
    by (simp add: member_text_def)
  fix r n assume n: "2 * length (json_dumps (JObj kvs) @ r) \<le> Suc n"
  show "scan_value (Suc n) (json_dumps (JObj kvs) @ r) = Some (JObj kvs, r)"
  proof (cases kvs)
    case Nil
    then show ?thesis by (simp add: join_def)
  next
    case (Cons kv rest)
    let ?t = "join '','' (map member_text kvs) @ CHR ''}'' # r"
    obtain u where u: "?t = CHR 0x22 # u"
      using Cons by (cases rest; cases kv) (simp_all add: join_step member_text_def json_quote_def)
    have "scan_members n ?t = Some (kvs, r)"
      using assms Cons n unfolding printed by (intro scan_members_join) auto
    moreover have "dict_of kvs = kvs" using assms by (simp add: dict_of_distinct)
    ultimately show ?thesis using u unfolding printed by simp
  qed
qed simp

lemma json_reads_back: "json_plain j \<Longrightarrow> reads_back j"
proof (induction j)
  case (JList xs)
  then show ?case by (intro reads_back_list) (auto simp: list_all_iff)
next
  case (JObj kvs)
  then show ?case by (intro reads_back_object) (auto simp: list_all_iff)
next
  case (JInt i)
  obtain c cs where c: "str_int i = c # cs" by (rule str_int_head)
  show ?case
  proof (rule reads_backI)
    show "json_dumps (JInt i) \<noteq> []" using c by simp
  qed (simp only: json_dumps.simps scan_value_int)
next
  case (JStr s)
  show ?case by (rule reads_backI) (simp_all add: json_quote_def scan_string_quote)
next
  case (JBool b)
  show ?case by (rule reads_backI) (simp_all add: scan_literal_def starts_with_def)
next
  case JNull
  show ?case by (rule reads_backI) (simp_all add: scan_literal_def starts_with_def)
qed simp

lemma json_loads_dumps: "json_plain j \<Longrightarrow> json_loads (json_dumps j) = Some j"
proof -
  assume j: "json_plain j"
  have "json_stop []" by (simp add: json_stop_def)
  with json_reads_back [OF j] have "scan_value (2 * length (json_dumps j)) (json_dumps j) = Some (j, [])"
    unfolding reads_back_def by (metis append_Nil2 order_refl)
  moreover have "skip_space (json_dumps j) = json_dumps j" using skip_space_dumps [OF j, of "[]"] by simp
  ultimately show ?thesis by (simp add: json_loads_def) (simp add: skip_space_def)
qed

text \<open>What is printed is ASCII.\<close>

definition ascii :: "string \<Rightarrow> bool" where
  "ascii s \<longleftrightarrow> (\<forall>c \<in> set s. (of_char c :: nat) < 128)"

lemma ascii_simps [simp]:
  "ascii []" "ascii (c # s) \<longleftrightarrow> (of_char c :: nat) < 128 \<and> ascii s" "ascii (s @ t) \<longleftrightarrow> ascii s \<and> ascii t"
  by (auto simp: ascii_def)

lemma ascii_concat: "(\<And>x. x \<in> set xs \<Longrightarrow> ascii x) \<Longrightarrow> ascii (concat xs)"
  by (auto simp: ascii_def)

lemma ascii_join: "ascii sep \<Longrightarrow> (\<And>x. x \<in> set xs \<Longrightarrow> ascii x) \<Longrightarrow> ascii (join sep xs)"
  by (cases xs) (auto simp: join_def intro!: ascii_concat)

lemma ascii_hex_digits: "ascii (hex_digits k n)"
proof (induction k arbitrary: n)
  case (Suc k)
  have "(of_char (hex_char d) :: nat) < 128" if "d < 16" for d
    using that by (auto simp: hex_char_def)
  with Suc show ?case by simp
qed simp

lemma ascii_escape: "ascii (json_escape c)"
  using ascii_hex_digits by (simp add: json_escape_def Let_def)

lemma ascii_quote: "ascii (json_quote s)"
  using ascii_escape by (auto simp: json_quote_def intro!: ascii_concat)

lemma ascii_digits: "ascii (digits n)"
  using digits_are_digits [of n] is_digit_bounds by (fastforce simp: ascii_def)

lemma ascii_dumps: "json_plain j \<Longrightarrow> ascii (json_dumps j)"
proof (induction j)
  case (JList xs)
  then show ?case by (auto simp: list_all_iff intro!: ascii_join)
next
  case (JObj kvs)
  then have "ascii (json_quote k @ '':'' @ json_dumps v)" if "(k, v) \<in> set kvs" for k v
    using that ascii_quote by (fastforce simp: list_all_iff)
  then show ?case by (auto intro!: ascii_join)
qed (use ascii_digits ascii_quote in \<open>auto simp: str_int_def\<close>)

end
