(* ===== verification/Iso_Time.thy ===== *)
theory Iso_Time
  imports Json_Text Calendar
begin

text \<open>
  \<open>datetime.fromisoformat\<close> on what \<open>isoformat\<close> prints: the civil calendar read backwards, and the
  round trip of every time a \<open>datetime\<close> can hold.
\<close>

text \<open>The day number of a civil date.\<close>

definition days_of_civil :: "int \<Rightarrow> int \<Rightarrow> int \<Rightarrow> int" where
  "days_of_civil y m d =
     (let y1 = (if m \<le> 2 then y - 1 else y); era = y1 div 400; yoe = y1 mod 400;
          mp = (if m > 2 then m - 3 else m + 9); doy = (153 * mp + 2) div 5 + d - 1
      in era * 146097 + (yoe * 365 + yoe div 4 - yoe div 100 + doy) - 719468)"

text \<open>The day number is recovered from the civil date; its month and day are in range.\<close>

lemma civil_of_doy_back:
  assumes "0 \<le> doy" "doy \<le> 366" and "civil_of_doy y doy = (y', m, d)"
  shows "1 \<le> m \<and> m \<le> 12 \<and> 1 \<le> d \<and> d \<le> 31
    \<and> (if m \<le> 2 then y' - 1 else y') = y
    \<and> (153 * (if m > 2 then m - 3 else m + 9) + 2) div 5 + d - 1 = doy"
proof -
  define mp where "mp = (5 * doy + 2) div 153"
  have mp: "0 \<le> mp" "mp \<le> 11" using assms(1,2) by (auto simp: mp_def)
  have d: "d = doy - (153 * mp + 2) div 5 + 1" and m: "m = (if mp < 10 then mp + 3 else mp - 9)"
    and y: "y' = y + (if m \<le> 2 then 1 else 0)"
    using assms(3) unfolding civil_of_doy_def Let_def mp_def [symmetric] by auto
  have "mp * 153 \<le> 5 * doy + 2" "5 * doy + 2 < mp * 153 + 153" unfolding mp_def by linarith+
  then have "(153 * mp + 2) div 5 \<le> doy" "doy \<le> (153 * mp + 2) div 5 + 30" by linarith+
  with mp d m y show ?thesis by auto
qed

lemma yoe_bounds:
  assumes "0 \<le> doe" "doe < (146097 :: int)"
  defines "yoe \<equiv> (doe - doe div 1460 + doe div 36524 - doe div 146096) div 365"
  shows "0 \<le> yoe \<and> yoe < 400 \<and> 0 \<le> doe - (365 * yoe + yoe div 4 - yoe div 100)
    \<and> doe - (365 * yoe + yoe div 4 - yoe div 100) \<le> 366"
proof -
  define q c e f g where "q = doe div 1460" and "c = doe div 36524" and "e = doe div 146096"
    and "f = yoe div 4" and "g = yoe div 100"
  have q: "1460 * q \<le> doe" "doe < 1460 * q + 1460" unfolding q_def by linarith+
  have c: "36524 * c \<le> doe" "doe < 36524 * c + 36524" unfolding c_def by linarith+
  have e: "146096 * e \<le> doe" "doe < 146096 * e + 146096" unfolding e_def by linarith+
  have f: "4 * f \<le> yoe" "yoe < 4 * f + 4" unfolding f_def by linarith+
  have g: "100 * g \<le> yoe" "yoe < 100 * g + 100" unfolding g_def by linarith+
  have Y: "365 * yoe \<le> doe - q + c - e" "doe - q + c - e < 365 * yoe + 365"
    unfolding yoe_def q_def c_def e_def by linarith+
  have c4: "c = 0 \<or> c = 1 \<or> c = 2 \<or> c = 3 \<or> c = 4" using c assms(1,2) by auto
  have e1: "e = 0 \<or> e = 1" using e assms(1,2) by auto
  have y: "0 \<le> yoe" "yoe < 400" using Y q c4 e1 e c assms(1,2) by auto
  have g4: "g = 0 \<or> g = 1 \<or> g = 2 \<or> g = 3" using g y by auto
  have "c \<le> q" by (insert c4, elim disjE; insert q c assms(1); linarith)
  then have "f \<le> q" by (insert e1, elim disjE; insert q f Y; linarith)
  moreover have "q \<le> f + 1" by (insert c4 e1, elim disjE; insert q f Y assms(1,2); linarith)
  ultimately have qf: "q = f \<or> q = f + 1" by auto
  have "0 \<le> doe - (365 * yoe + f - g)"
    by (insert c4 e1 g4 qf, elim disjE; insert q c e f g Y y; linarith)
  moreover have "doe - (365 * yoe + f - g) \<le> 366"
    by (insert c4 e1 g4 qf, elim disjE; insert q c e f g Y y; linarith)
  ultimately show ?thesis using y by (simp add: f_def g_def)
qed
lemma civil_of_days_back:
  assumes "civil_of_days z = (y, m, d)"
  shows "days_of_civil y m d = z \<and> 1 \<le> m \<and> m \<le> 12 \<and> 1 \<le> d \<and> d \<le> 31"
proof -
  define era doe where "era = (z + 719468) div 146097" and "doe = (z + 719468) mod 146097"
  define yoe where "yoe = (doe - doe div 1460 + doe div 36524 - doe div 146096) div 365"
  define doy where "doy = doe - (365 * yoe + yoe div 4 - yoe div 100)"
  have doe: "0 \<le> doe" "doe < 146097" by (auto simp: doe_def)
  have b: "0 \<le> yoe \<and> yoe < 400 \<and> 0 \<le> doy \<and> doy \<le> 366"
    using yoe_bounds [OF doe] by (simp add: yoe_def doy_def)
  have "civil_of_doy (yoe + era * 400) doy = (y, m, d)"
    using assms by (simp add: civil_of_days_def civil_of_doe_def civil_of_yoe_def era_def doe_def yoe_def doy_def)
  from civil_of_doy_back [OF _ _ this] b
  have r: "1 \<le> m \<and> m \<le> 12 \<and> 1 \<le> d \<and> d \<le> 31"
      "(if m \<le> 2 then y - 1 else y) = yoe + era * 400"
      "(153 * (if m > 2 then m - 3 else m + 9) + 2) div 5 + d - 1 = doy" by simp_all
  have z: "z = era * 146097 + doe - 719468" by (simp add: era_def doe_def)
  have "(yoe + era * 400) div 400 = era" "(yoe + era * 400) mod 400 = yoe" using b by auto
  then have "days_of_civil y m d = z"
    unfolding days_of_civil_def Let_def r(2) r(3) z by (simp add: doy_def)
  with r(1) show ?thesis by simp
qed

text \<open>
  \<open>fromisoformat\<close> on the form \<open>isoformat\<close> prints; a date that does not exist is not read. The
  other ISO 8601 forms Python accepts are read by \<open>iso_other\<close>.
\<close>

definition datetime_of ::
  "int \<Rightarrow> int \<Rightarrow> int \<Rightarrow> int \<Rightarrow> int \<Rightarrow> int \<Rightarrow> int \<Rightarrow> datetime option" where
  "datetime_of y m d hh mm ss us =
     (if 1 \<le> y \<and> y \<le> 9999 \<and> 1 \<le> m \<and> m \<le> 12 \<and> 1 \<le> d \<and> d \<le> 31
         \<and> civil_of_days (days_of_civil y m d) = (y, m, d) \<and> hh < 24 \<and> mm < 60 \<and> ss < 60
      then Some (days_of_civil y m d * days 1 + hours hh + minutes mm + seconds ss + us) else None)"

definition iso_field :: "nat \<Rightarrow> nat \<Rightarrow> string \<Rightarrow> int option" where
  "iso_field a n s = map_option int (read_dec 0 (take n (drop a s)))"

definition iso_punctuation :: "string \<Rightarrow> bool" where
  "iso_punctuation s \<longleftrightarrow> take 1 (drop 4 s) = ''-'' \<and> take 1 (drop 7 s) = ''-'' \<and> take 1 (drop 10 s) = ''T''
     \<and> take 1 (drop 13 s) = '':'' \<and> take 1 (drop 16 s) = '':''
     \<and> (drop 19 s = ''+00:00'' \<or> length s = 32 \<and> take 1 (drop 19 s) = ''.'' \<and> drop 26 s = ''+00:00'')"

definition parse_isoformat :: "string \<Rightarrow> datetime option" where
  "parse_isoformat s =
     (if \<not> iso_punctuation s then None
      else case (iso_field 0 4 s, iso_field 5 2 s, iso_field 8 2 s, iso_field 11 2 s, iso_field 14 2 s,
                 iso_field 17 2 s, if length s = 32 then iso_field 20 6 s else Some 0) of
        (Some y, Some m, Some d, Some hh, Some mm, Some ss, Some us) \<Rightarrow> datetime_of y m d hh mm ss us
      | _ \<Rightarrow> None)"

definition fromisoformat :: "(string \<Rightarrow> datetime result) \<Rightarrow> string \<Rightarrow> datetime result" where
  "fromisoformat iso_other s = (case parse_isoformat s of Some t \<Rightarrow> Inr t | None \<Rightarrow> iso_other s)"

text \<open>A \<open>datetime\<close> has a year from 1 to 9999.\<close>

definition datetime_ok :: "datetime \<Rightarrow> bool" where
  "datetime_ok t \<longleftrightarrow> fst (civil_of_days (t div days 1)) \<in> {1..9999}"

lemma read_dec_zeros: "read_dec 0 (replicate n (CHR ''0'') @ s) = read_dec 0 s"
  by (induction n) (simp_all add: dec_val_def)

lemma length_digits: "n < 10 ^ Suc k \<Longrightarrow> length (digits n) \<le> Suc k"
proof (induction n arbitrary: k rule: digits.induct)
  case (1 n)
  show ?case
  proof (cases "n < 10")
    case True
    then show ?thesis by (subst digits.simps) simp
  next
    case False
    with "1.prems" obtain k' where k: "k = Suc k'" by (cases k) auto
    with "1.prems" have "n div 10 < 10 ^ Suc k'" by (simp add: less_mult_imp_div_less mult.commute)
    with "1.IH" [OF False] k False show ?thesis by (subst digits.simps) simp
  qed
qed

lemma pad_left_number:
  assumes "0 \<le> i" and "i < 10 ^ Suc k"
  shows "length (pad_left (Suc k) (str_int i)) = Suc k"
    and "read_dec 0 (pad_left (Suc k) (str_int i)) = Some (nat i)"
proof -
  have "nat i < 10 ^ Suc k" using assms by (simp add: nat_less_iff)
  then show "length (pad_left (Suc k) (str_int i)) = Suc k"
    using length_digits [of "nat i" k] assms by (simp add: pad_left_def str_int_def)
  show "read_dec 0 (pad_left (Suc k) (str_int i)) = Some (nat i)"
    using assms by (simp add: pad_left_def str_int_def read_dec_zeros read_dec_digits)
qed

lemma pad_left_2:
  assumes "0 \<le> i" and "i < 100"
  shows "length (pad_left 2 (str_int i)) = 2" and "read_dec 0 (pad_left 2 (str_int i)) = Some (nat i)"
  using pad_left_number [of i 1] assms by (simp_all add: numeral_2_eq_2)

lemmas pad_left_4 = pad_left_number [of _ 3, simplified]
  and pad_left_6 = pad_left_number [of _ 5, simplified]

lemma iso_layout:
  assumes "length y = 4" "length m = 2" "length d = 2" "length hh = 2" "length mm = 2" "length ss = 2"
    and "rest = ''+00:00'' \<or> (\<exists>us. length us = 6 \<and> rest = ''.'' @ us @ ''+00:00'')"
  defines "s \<equiv> y @ ''-'' @ m @ ''-'' @ d @ ''T'' @ hh @ '':'' @ mm @ '':'' @ ss @ rest"
  shows "iso_punctuation s" "iso_field 0 4 s = map_option int (read_dec 0 y)"
    "iso_field 5 2 s = map_option int (read_dec 0 m)" "iso_field 8 2 s = map_option int (read_dec 0 d)"
    "iso_field 11 2 s = map_option int (read_dec 0 hh)" "iso_field 14 2 s = map_option int (read_dec 0 mm)"
    "iso_field 17 2 s = map_option int (read_dec 0 ss)" "length s = 19 + length rest"
    "iso_field 20 6 s = map_option int (read_dec 0 (take 6 (drop 1 rest)))"
  using assms(1-7) unfolding s_def iso_punctuation_def iso_field_def by auto

lemma time_of_day:
  "us = t mod days 1 \<Longrightarrow> 0 \<le> us div seconds 1 div 3600 \<and> us div seconds 1 div 3600 < 24
     \<and> hours (us div seconds 1 div 3600) + minutes (us div seconds 1 div 60 mod 60)
       + seconds (us div seconds 1 mod 60) + us mod seconds 1 = us"
proof -
  assume us: "us = t mod days 1"
  define s where "s = us div 1000000"
  have "0 \<le> us" "us < 86400 * 1000000" by (simp_all add: us timedelta_defs)
  then have "0 \<le> s" "s < 86400" unfolding s_def by linarith+
  moreover from this have "0 \<le> s div 3600" "s div 3600 < 24" by linarith+
  moreover have "us = s * 1000000 + us mod 1000000" by (simp add: s_def)
  moreover have "s = 3600 * (s div 3600) + 60 * (s div 60 mod 60) + s mod 60"
  proof -
    have "s div 3600 = s div 60 div 60" using zdiv_zmult2_eq [of 60 s 60] by simp
    moreover have "s div 60 = 60 * (s div 60 div 60) + s div 60 mod 60" by simp
    moreover have "s = 60 * (s div 60) + s mod 60" by simp
    ultimately show ?thesis by linarith
  qed
  ultimately show ?thesis by (simp add: timedelta_defs s_def [symmetric])
qed

lemma isoformat_round_trip: "datetime_ok t \<Longrightarrow> parse_isoformat (isoformat t) = Some t"
proof -
  assume ok: "datetime_ok t"
  obtain y m d where c: "civil_of_days (t div days 1) = (y, m, d)" by (cases "civil_of_days (t div days 1)")
  define us where "us = t mod days 1"
  define s where "s = us div seconds 1"
  define fr where "fr = us mod seconds 1"
  have y: "1 \<le> y" "y \<le> 9999" using ok c by (auto simp: datetime_ok_def)
  have d: "days_of_civil y m d = t div days 1" "1 \<le> m" "m \<le> 12" "1 \<le> d" "d \<le> 31"
    using civil_of_days_back [OF c] by auto
  have tod: "0 \<le> s div 3600" "s div 3600 < 24"
      "hours (s div 3600) + minutes (s div 60 mod 60) + seconds (s mod 60) + fr = us"
    using time_of_day [OF us_def] by (simp_all add: s_def fr_def)
  have fr: "0 \<le> fr" "fr < 1000000" by (simp_all add: fr_def timedelta_defs)
  have t: "t = t div days 1 * days 1 + us" by (simp add: us_def)
  let ?rest = "(if fr = 0 then [] else ''.'' @ pad_left 6 (str_int fr)) @ ''+00:00''"
  have iso: "isoformat t = pad_left 4 (str_int y) @ ''-'' @ pad_left 2 (str_int m) @ ''-''
      @ pad_left 2 (str_int d) @ ''T'' @ pad_left 2 (str_int (s div 3600)) @ '':''
      @ pad_left 2 (str_int (s div 60 mod 60)) @ '':'' @ pad_left 2 (str_int (s mod 60)) @ ?rest"
    by (simp add: isoformat_def c Let_def us_def s_def fr_def)
  have rest: "?rest = ''+00:00'' \<or> (\<exists>us. length us = 6 \<and> ?rest = ''.'' @ us @ ''+00:00'')"
    using pad_left_6(1) [of fr] fr by auto
  have m60: "0 \<le> s div 60 mod 60" "s div 60 mod 60 < 60" "0 \<le> s mod 60" "s mod 60 < 60" by simp_all
  have lens: "length (pad_left 4 (str_int y)) = 4" "length (pad_left 2 (str_int m)) = 2"
      "length (pad_left 2 (str_int d)) = 2" "length (pad_left 2 (str_int (s div 3600))) = 2"
      "length (pad_left 2 (str_int (s div 60 mod 60))) = 2" "length (pad_left 2 (str_int (s mod 60))) = 2"
    using y d tod(1,2) m60 by (simp_all add: pad_left_4(1) pad_left_2(1))
  have reads: "read_dec 0 (pad_left 4 (str_int y)) = Some (nat y)"
      "read_dec 0 (pad_left 2 (str_int m)) = Some (nat m)" "read_dec 0 (pad_left 2 (str_int d)) = Some (nat d)"
      "read_dec 0 (pad_left 2 (str_int (s div 3600))) = Some (nat (s div 3600))"
      "read_dec 0 (pad_left 2 (str_int (s div 60 mod 60))) = Some (nat (s div 60 mod 60))"
      "read_dec 0 (pad_left 2 (str_int (s mod 60))) = Some (nat (s mod 60))"
    using y d tod(1,2) m60 by (simp_all add: pad_left_4(2) pad_left_2(2))
  note parts = iso_layout [OF lens rest, folded iso]
  have us: "(if length (isoformat t) = 32 then iso_field 20 6 (isoformat t) else Some 0) = Some fr"
  proof (cases "fr = 0")
    case True
    then have "length (isoformat t) \<noteq> 32" unfolding parts(8) by simp
    with True show ?thesis by (simp only: if_False)
  next
    case False
    let ?f = "pad_left 6 (str_int fr)"
    have f: "length ?f = 6" "read_dec 0 ?f = Some (nat fr)" using fr by (simp_all add: pad_left_6)
    have r: "?rest = CHR ''.'' # ?f @ ''+00:00''" using False by simp
    have "length (isoformat t) = 32" unfolding parts(8) r using f(1) by simp
    moreover have "take 6 (drop 1 ?rest) = ?f" unfolding r using f(1) by simp
    then have "iso_field 20 6 (isoformat t) = Some fr" unfolding parts(9) using f(2) fr(1) by simp
    ultimately show ?thesis by simp
  qed
  have "parse_isoformat (isoformat t) = datetime_of y m d (s div 3600) (s div 60 mod 60) (s mod 60) fr"
    unfolding parse_isoformat_def us parts(2-7) reads using parts(1) y(1) d(2,4) tod(1) m60 by simp
  also have "\<dots> = Some (t div days 1 * days 1 + us)"
    using y d c tod m60 by (simp add: datetime_of_def add.assoc)
  finally show ?thesis using t by simp
qed

end
