(* ===== verification/Pagination.thy ===== *)
theory Pagination
  imports Base64 Iso_Time Generation
begin

text \<open>
  shared/pagination.py and the listings built on it: features/products/list\_products.py and
  list\_public\_products.py, features/generation/list\_catalog\_images\_for\_review.py, with the keyset
  queries of their repositories. The locale \<open>keyset\<close> is the contract of such a query; whoever
  follows the cursors of a listing sees every row once, in order.
\<close>

section \<open>Cursors\<close>

record cursor =
  cur_sort_key :: json
  cur_id :: uuid

definition encode_cursor :: "cursor \<Rightarrow> string" where
  "encode_cursor c = b64_encode (map of_char (json_dumps
     (JObj [(''k'', cur_sort_key c), (''id'', JStr (uuid_str (cur_id c)))])))"

definition INVALID_CURSOR :: exn where
  "INVALID_CURSOR = ValidationError ''Invalid pagination cursor.''"

text \<open>
  \<open>UUID(x)\<close>: \<open>None\<close> is a \<open>TypeError\<close>; any other value that is not a string has no \<open>replace\<close>.
\<close>

definition uuid_of_json :: "json \<Rightarrow> uuid result" where
  "uuid_of_json v = (case v of
       JStr s \<Rightarrow> uuid_parse s
     | JNull \<Rightarrow> Inl (TypeError ''one of the hex, bytes, bytes_le, fields, or int arguments must be given'')
     | _ \<Rightarrow> Inl (AttributeError ''object has no attribute 'replace' ''))"

text \<open>
  The bytes as UTF-8; code points beyond Latin-1 are outside the model's strings and not read, nor are
  the UTF-16 and UTF-32 texts \<open>json.loads\<close> would recognise by their null bytes.
\<close>

fun utf8_decode :: "nat list \<Rightarrow> string option" where
  "utf8_decode [] = Some []"
| "utf8_decode (b # bs) =
     (if b < 128 then map_option ((#) (char_of b)) (utf8_decode bs)
      else if b = 194 \<or> b = 195 then
        (case bs of
           [] \<Rightarrow> None
         | c # cs \<Rightarrow> if 128 \<le> c \<and> c < 192
             then map_option ((#) (char_of ((b - 192) * 64 + (c - 128)))) (utf8_decode cs) else None)
      else None)"

text \<open>\<open>token.encode("ascii")\<close>, the two decoders, and the two lookups.\<close>

definition read_cursor :: "string \<Rightarrow> cursor result" where
  "read_cursor token =
     (if \<exists>c \<in> set token. (of_char c :: nat) \<ge> 128 then Inl (ValueError ''ordinal not in range(128)'')
      else case a2b_base64 0 0 0 token of
        None \<Rightarrow> Inl (ValueError ''Incorrect padding'')
      | Some raw \<Rightarrow>
          (case Option.bind (utf8_decode raw) json_loads of
            None \<Rightarrow> Inl (ValueError ''Expecting value'')
          | Some (JObj d) \<Rightarrow>
              bind_result (dict_item py_repr d ''k'') (\<lambda>k.
              bind_result (dict_item py_repr d ''id'') (\<lambda>i.
              bind_result (uuid_of_json i) (\<lambda>u. Inr \<lparr>cur_sort_key = k, cur_id = u\<rparr>)))
          | Some _ \<Rightarrow> Inl (TypeError ''indices must be integers or slices'')))"

text \<open>\<open>except (ValueError, KeyError, TypeError)\<close>.\<close>

definition decode_cursor :: "string \<Rightarrow> cursor result" where
  "decode_cursor token = (case read_cursor token of
       Inr c \<Rightarrow> Inr c
     | Inl (ValueError m) \<Rightarrow> Inl INVALID_CURSOR
     | Inl (KeyError m) \<Rightarrow> Inl INVALID_CURSOR
     | Inl (TypeError m) \<Rightarrow> Inl INVALID_CURSOR
     | Inl e \<Rightarrow> Inl e)"

lemma utf8_decode_ascii: "ascii s \<Longrightarrow> utf8_decode (map of_char s) = Some s"
  by (induction s) simp_all

definition json_token :: "json \<Rightarrow> string" where
  "json_token j = b64_encode (map of_char (json_dumps j))"

lemma token_payload:
  assumes "json_plain j"
  shows "a2b_base64 0 0 0 (json_token j) = Some (map of_char (json_dumps j))"
    and "Option.bind (utf8_decode (map of_char (json_dumps j))) json_loads = Some j"
    and "\<not> (\<exists>c \<in> set (json_token j). (of_char c :: nat) \<ge> 128)"
proof -
  have "\<forall>b \<in> set (map of_char (json_dumps j)). b < (256 :: nat)"
    using nat_of_char_less_256 by auto
  then show "a2b_base64 0 0 0 (json_token j) = Some (map of_char (json_dumps j))"
    unfolding json_token_def by (rule b64_round_trip)
  show "Option.bind (utf8_decode (map of_char (json_dumps j))) json_loads = Some j"
    using json_loads_dumps [OF assms] utf8_decode_ascii [OF ascii_dumps [OF assms]] by simp
  show "\<not> (\<exists>c \<in> set (json_token j). (of_char c :: nat) \<ge> 128)"
    using b64_encode_ascii unfolding json_token_def by fastforce
qed

lemma read_encode_cursor:
  assumes "json_plain (cur_sort_key c)"
  shows "read_cursor (encode_cursor c) = Inr c"
proof -
  let ?j = "JObj [(''k'', cur_sort_key c), (''id'', JStr (uuid_str (cur_id c)))]"
  have "json_plain ?j" using assms by simp
  from token_payload [OF this] show ?thesis
    unfolding encode_cursor_def json_token_def [symmetric] read_cursor_def
    by (simp add: dict_item_def uuid_of_json_def del: json_dumps.simps)
qed

lemma decode_encode_cursor: "json_plain (cur_sort_key c) \<Longrightarrow> decode_cursor (encode_cursor c) = Inr c"
  by (simp add: decode_cursor_def read_encode_cursor)

section \<open>Keyset queries\<close>

text \<open>\<open>(datetime.fromisoformat(after.sort_key), after.id)\<close>.\<close>

type_synonym position = "datetime \<times> uuid"

definition cursor_position :: "(string \<Rightarrow> datetime result) \<Rightarrow> cursor option \<Rightarrow> position option result" where
  "cursor_position iso_other after =
     (case after of None \<Rightarrow> Inr None
      | Some c \<Rightarrow> (case cur_sort_key c of
          JStr t \<Rightarrow> bind_result (fromisoformat iso_other t) (\<lambda>t. Inr (Some (t, cur_id c)))
        | _ \<Rightarrow> Inl (TypeError ''fromisoformat: argument must be str'')))"

definition beyond :: "position option \<Rightarrow> position \<Rightarrow> bool" where
  "beyond pos k = (case pos of None \<Rightarrow> True | Some p \<Rightarrow> p < k)"

text \<open>\<open>WHERE key > position ORDER BY key LIMIT n\<close>; the database refuses a negative limit.\<close>

definition keyset_rows :: "('r \<Rightarrow> position) \<Rightarrow> position option \<Rightarrow> int \<Rightarrow> 'r list \<Rightarrow> 'r list result" where
  "keyset_rows key pos limit rs =
     (if limit < 0 then Inl (DataError ''LIMIT must not be negative'')
      else Inr (take (nat limit) (sort_key key (filter (\<lambda>r. beyond pos (key r)) rs))))"

definition product_key :: "product \<Rightarrow> position" where
  "product_key p = (prod_created_at p, prod_id p)"

definition products_in :: "uuid \<Rightarrow> uuid option \<Rightarrow> db \<Rightarrow> product list" where
  "products_in tenant_id category_id s = filter (\<lambda>p. prod_tenant_id p = tenant_id
     \<and> (case category_id of None \<Rightarrow> True | Some c \<Rightarrow> prod_category_id p = c)) (rows (db_products s))"

definition published_in :: "uuid \<Rightarrow> uuid option \<Rightarrow> db \<Rightarrow> product list" where
  "published_in tenant_id category_id s =
     filter (\<lambda>p. prod_status p = PROD_PUBLISHED) (products_in tenant_id category_id s)"

definition products_list_page ::
  "(string \<Rightarrow> datetime result) \<Rightarrow> uuid \<Rightarrow> uuid option \<Rightarrow> cursor option \<Rightarrow> int \<Rightarrow> db \<Rightarrow> product list result" where
  "products_list_page iso_other tenant_id category_id after limit s =
     bind_result (cursor_position iso_other after) (\<lambda>pos.
       keyset_rows product_key pos limit (products_in tenant_id category_id s))"

definition products_list_published_page ::
  "(string \<Rightarrow> datetime result) \<Rightarrow> uuid \<Rightarrow> uuid option \<Rightarrow> cursor option \<Rightarrow> int \<Rightarrow> db \<Rightarrow> product list result" where
  "products_list_published_page iso_other tenant_id category_id after limit s =
     bind_result (cursor_position iso_other after) (\<lambda>pos.
       keyset_rows product_key pos limit (published_in tenant_id category_id s))"

section \<open>Listings\<close>

record 'r page =
  pg_items :: "'r list"
  pg_next_cursor :: "string option"

definition token_of :: "position \<Rightarrow> string" where
  "token_of = (\<lambda>(created_at, i). encode_cursor \<lparr>cur_sort_key = JStr (isoformat created_at), cur_id = i\<rparr>)"

text \<open>\<open>has_more\<close>, \<open>items\<close> and \<open>next_cursor\<close>; the query was asked for one row more than the limit.\<close>

definition page_of :: "('r \<Rightarrow> position) \<Rightarrow> int \<Rightarrow> 'r list \<Rightarrow> 'r page" where
  "page_of key limit rs =
     (let has_more = int (length rs) > limit; items = take (nat limit) rs in
      \<lparr>pg_items = items,
       pg_next_cursor = (if has_more \<and> items \<noteq> [] then Some (token_of (key (last items))) else None)\<rparr>)"

definition decode_optional :: "string option \<Rightarrow> cursor option result" where
  "decode_optional cursor =
     (case cursor of None \<Rightarrow> Inr None | Some t \<Rightarrow> bind_result (decode_cursor t) (\<lambda>c. Inr (Some c)))"

definition DEFAULT_LIMIT :: int where "DEFAULT_LIMIT = 20"

definition ListProducts ::
  "(string \<Rightarrow> datetime result) \<Rightarrow> uuid \<Rightarrow> uuid option \<Rightarrow> string option \<Rightarrow> int \<Rightarrow> db
    \<Rightarrow> product page result" where
  "ListProducts iso_other tenant_id category_id cursor limit s =
     bind_result (decode_optional cursor) (\<lambda>after.
     bind_result (products_list_page iso_other tenant_id category_id after (limit + 1) s) (\<lambda>rs.
       Inr (page_of product_key limit rs)))"

definition ListPublicProducts ::
  "(string \<Rightarrow> datetime result) \<Rightarrow> uuid \<Rightarrow> uuid option \<Rightarrow> string option \<Rightarrow> int \<Rightarrow> db
    \<Rightarrow> product page result" where
  "ListPublicProducts iso_other tenant_id category_id cursor limit s =
     bind_result (decode_optional cursor) (\<lambda>after.
     bind_result (products_list_published_page iso_other tenant_id category_id after (limit + 1) s) (\<lambda>rs.
       Inr (page_of product_key limit rs)))"

definition image_key :: "catalog_image \<Rightarrow> position" where
  "image_key i = (ci_created_at i, ci_id i)"

definition ListCatalogImagesForReview ::
  "(string \<Rightarrow> datetime result) \<Rightarrow> uuid \<Rightarrow> catalog_image_status option \<Rightarrow> uuid option \<Rightarrow> string option \<Rightarrow> int
    \<Rightarrow> db \<Rightarrow> catalog_image page result" where
  "ListCatalogImagesForReview iso_other tenant_id status product_id cursor limit s =
     bind_result (decode_optional cursor) (\<lambda>after.
     bind_result (cursor_position iso_other after) (\<lambda>pos.
     bind_result (ensure (0 \<le> limit + 1) (DataError ''LIMIT must not be negative'')) (\<lambda>_.
       Inr (page_of image_key limit
         (images_list_page tenant_id status product_id pos (nat (limit + 1)) s)))))"

text \<open>A reader who follows \<open>next_cursor\<close> until there is none, for at most so many pages.\<close>

fun follow :: "(string option \<Rightarrow> 'r page result) \<Rightarrow> nat \<Rightarrow> string option \<Rightarrow> 'r list result option" where
  "follow fetch 0 cursor = None"
| "follow fetch (Suc n) cursor =
     (case fetch cursor of
        Inl e \<Rightarrow> Some (Inl e)
      | Inr p \<Rightarrow> (case pg_next_cursor p of
          None \<Rightarrow> Some (Inr (pg_items p))
        | Some t \<Rightarrow> map_option (\<lambda>r. bind_result r (\<lambda>later. Inr (pg_items p @ later)))
            (follow fetch n (Some t))))"

text \<open>
  The contract: at a position the listing returns the page of the rows beyond it, in the order of
  their keys.
\<close>

locale keyset_listing =
  fixes all_rows :: "'s \<Rightarrow> 'r list" and key :: "'r \<Rightarrow> position"
    and listing :: "string option \<Rightarrow> int \<Rightarrow> 's \<Rightarrow> 'r page result"
  assumes page: "\<lbrakk>0 \<le> limit; case pos of None \<Rightarrow> True | Some p \<Rightarrow> datetime_ok (fst p)\<rbrakk> \<Longrightarrow>
    listing (map_option token_of pos) limit s = Inr (page_of key limit
      (take (nat (limit + 1)) (sort_key key (filter (\<lambda>r. beyond pos (key r)) (all_rows s)))))"
begin

lemma beyond_last:
  assumes "sorted_wrt (<) (map key ys)" and "0 < k" and "k \<le> length ys"
  shows "filter (\<lambda>r. key (ys ! (k - 1)) < key r) ys = drop k ys"
  using assms
proof (induction ys arbitrary: k)
  case (Cons y ys)
  show ?case
  proof (cases "k = 1")
    case True
    have "filter (\<lambda>r. key y < key r) ys = ys" using Cons.prems by (auto intro: filter_True)
    with True show ?thesis by simp
  next
    case False
    with Cons.prems obtain k' where k: "k = Suc k'" "0 < k'" "k' \<le> length ys" by (cases k) auto
    then have nth: "(y # ys) ! (k - 1) = ys ! (k' - 1)" by (cases k') auto
    have "ys ! (k' - 1) \<in> set ys" using k by (intro nth_mem) auto
    then have "key y < key (ys ! (k' - 1))" using Cons.prems by auto
    moreover have "filter (\<lambda>r. key (ys ! (k' - 1)) < key r) ys = drop k' ys"
      using Cons.prems k by (intro Cons.IH) auto
    ultimately show ?thesis using k nth by auto
  qed
qed simp

lemma follow_from:
  assumes "1 \<le> limit" and "\<forall>r \<in> set (all_rows s). datetime_ok (fst (key r))"
    and "distinct (map key (all_rows s))"
  shows "\<lbrakk>case pos of None \<Rightarrow> True | Some p \<Rightarrow> datetime_ok (fst p);
      length (filter (\<lambda>r. beyond pos (key r)) (all_rows s)) < n\<rbrakk>
    \<Longrightarrow> follow (\<lambda>c. listing c limit s) n (map_option token_of pos)
      = Some (Inr (sort_key key (filter (\<lambda>r. beyond pos (key r)) (all_rows s))))"
proof (induction n arbitrary: pos)
  case (Suc n)
  define k where "k = nat limit"
  define ys where "ys = sort_key key (filter (\<lambda>r. beyond pos (key r)) (all_rows s))"
  have k: "0 < k" "nat (limit + 1) = Suc k" "int k = limit" using assms(1) by (auto simp: k_def)
  have len: "length ys \<le> n" using Suc.prems(2) by (simp add: ys_def)
  have mem: "r \<in> set ys \<longleftrightarrow> r \<in> set (all_rows s) \<and> beyond pos (key r)" for r
    by (simp add: ys_def)
  have "distinct (map key ys)" unfolding ys_def by (intro distinct_map_sort distinct_map_filter assms(3))
  then have strict: "sorted_wrt (<) (map key ys)"
    by (simp add: ys_def strict_sorted_iff)
  have page: "listing (map_option token_of pos) limit s = Inr (page_of key limit (take (Suc k) ys))"
    using page [of limit pos s] Suc.prems(1) assms(1) k by (simp add: ys_def)
  show ?case
  proof (cases "length ys \<le> k")
    case True
    then have "page_of key limit (take (Suc k) ys) = \<lparr>pg_items = ys, pg_next_cursor = None\<rparr>"
      using k by (auto simp: page_of_def Let_def k_def)
    then show ?thesis by (simp add: page ys_def)
  next
    case False
    let ?l = "ys ! (k - 1)"
    have "take k ys \<noteq> []" using False k(1) by auto
    then have "last (take k ys) = ?l" using False k(1) by (simp add: last_conv_nth min_def)
    then have pg: "page_of key limit (take (Suc k) ys)
        = \<lparr>pg_items = take k ys, pg_next_cursor = Some (token_of (key ?l))\<rparr>"
      using False k by (auto simp: page_of_def Let_def k_def min_def)
    have l: "?l \<in> set ys" using False k by (intro nth_mem) auto
    have "beyond (Some (key ?l)) (key r) \<Longrightarrow> beyond pos (key r)" for r
      using l mem [of ?l] by (auto simp: beyond_def split: option.splits)
    then have "filter (\<lambda>r. beyond (Some (key ?l)) (key r)) (all_rows s)
        = filter (\<lambda>r. beyond (Some (key ?l)) (key r)) (filter (\<lambda>r. beyond pos (key r)) (all_rows s))"
      by (auto intro: filter_cong)
    then have "sort_key key (filter (\<lambda>r. beyond (Some (key ?l)) (key r)) (all_rows s))
        = filter (\<lambda>r. beyond (Some (key ?l)) (key r)) ys"
      by (simp only: ys_def filter_sort)
    also have "\<dots> = drop k ys"
      using beyond_last [OF strict k(1)] False by (simp add: beyond_def)
    finally have next_rows: "sort_key key (filter (\<lambda>r. beyond (Some (key ?l)) (key r)) (all_rows s)) = drop k ys" .
    have "length (drop k ys) < n" using len k(1) False by simp
    then have "length (filter (\<lambda>r. beyond (Some (key ?l)) (key r)) (all_rows s)) < n"
      by (simp only: next_rows [symmetric] length_sort)
    then have "follow (\<lambda>c. listing c limit s) n (Some (token_of (key ?l))) = Some (Inr (drop k ys))"
      using Suc.IH [of "Some (key ?l)"] assms(2) l mem [of ?l] next_rows by simp
    then show ?thesis by (simp add: page pg) (simp add: ys_def)
  qed
qed simp

lemma follow_all:
  assumes "1 \<le> limit" and "\<forall>r \<in> set (all_rows s). datetime_ok (fst (key r))"
    and "distinct (map key (all_rows s))"
  shows "follow (\<lambda>c. listing c limit s) (Suc (length (all_rows s))) None = Some (Inr (sort_key key (all_rows s)))"
  using follow_from [OF assms, of None "Suc (length (all_rows s))"] by (simp add: beyond_def)

end

lemma follow_positions:
  assumes "datetime_ok (fst p)"
  shows "decode_optional (Some (token_of p)) = Inr (Some \<lparr>cur_sort_key = JStr (isoformat (fst p)), cur_id = snd p\<rparr>)"
    and "cursor_position iso_other (Some \<lparr>cur_sort_key = JStr (isoformat (fst p)), cur_id = snd p\<rparr>) = Inr (Some p)"
  using assms
  by (simp_all add: decode_optional_def token_of_def decode_encode_cursor cursor_position_def
      fromisoformat_def isoformat_round_trip split: prod.split)

lemma bind_result_assoc: "bind_result (bind_result r f) g = bind_result r (\<lambda>x. bind_result (f x) g)"
  by (cases r) simp_all

text \<open>What the three listings share: the position a token stands for is the one it was made from.\<close>

lemma token_position:
  "(case pos of None \<Rightarrow> True | Some p \<Rightarrow> datetime_ok (fst p)) \<Longrightarrow>
   bind_result (decode_optional (map_option token_of pos)) (\<lambda>after.
     bind_result (cursor_position iso_other after) f) = f pos"
  by (cases pos) (simp_all add: follow_positions, simp add: decode_optional_def cursor_position_def)

interpretation all_products: keyset_listing "products_in T C" product_key "ListProducts iso_other T C" for T C iso_other
  by unfold_locales
     (simp add: ListProducts_def products_list_page_def bind_result_assoc token_position keyset_rows_def)

interpretation public_products: keyset_listing "published_in T C" product_key "ListPublicProducts iso_other T C"
  for T C iso_other
  by unfold_locales
     (simp add: ListPublicProducts_def products_list_published_page_def bind_result_assoc token_position
       keyset_rows_def)

definition live_images_in :: "uuid \<Rightarrow> catalog_image_status option \<Rightarrow> uuid option \<Rightarrow> db \<Rightarrow> catalog_image list" where
  "live_images_in T st P s = filter (\<lambda>i. ci_tenant_id i = T \<and> ci_superseded_by i = None
     \<and> (case st of None \<Rightarrow> True | Some st \<Rightarrow> ci_status i = st)
     \<and> (case P of None \<Rightarrow> True | Some p \<Rightarrow> (case variant_get T (ci_variant_id i) s of None \<Rightarrow> False
          | Some v \<Rightarrow> pv_product_id v = p))) (rows (db_images s))"

lemma images_list_page_keyset:
  "images_list_page T st P pos n s
     = take n (sort_key image_key (filter (\<lambda>i. beyond pos (image_key i)) (live_images_in T st P s)))"
  by (simp add: images_list_page_def live_images_in_def image_key_def [abs_def] beyond_def conj_ac cong: filter_cong)

interpretation review_images: keyset_listing "live_images_in T st P" image_key "ListCatalogImagesForReview iso_other T st P"
  for T st P iso_other
  by unfold_locales
     (simp add: ListCatalogImagesForReview_def token_position images_list_page_keyset)

section \<open>Properties\<close>

text \<open>
  A cursor the program issues is read back as it was, whatever the time and the identifier.
\<close>

theorem cursor_round_trip:
  "datetime_ok t \<Longrightarrow> bind_result (decode_cursor (encode_cursor \<lparr>cur_sort_key = JStr (isoformat t), cur_id = i\<rparr>))
     (\<lambda>c. cursor_position iso_other (Some c)) = Inr (Some (t, i))"
  by (simp add: decode_encode_cursor cursor_position_def fromisoformat_def isoformat_round_trip)

definition demo_product :: "uuid \<Rightarrow> datetime \<Rightarrow> product" where
  "demo_product i t = (Product_create i 1 2 3 [] 4 t None None None None)\<lparr>prod_status := PROD_PUBLISHED\<rparr>"

definition demo_shop :: db where
  "demo_shop = empty_db\<lparr>db_products := [(7, demo_product 7 60), (8, demo_product 8 60), (9, demo_product 9 30)]\<rparr>"

lemma datetime_ok_demo: "datetime_ok 60" "datetime_ok 30"
  by (simp_all add: datetime_ok_def civil_defs timedelta_defs)

theorem cursor_round_trip_witness:
  "bind_result (decode_cursor (encode_cursor \<lparr>cur_sort_key = JStr (isoformat 60), cur_id = 8\<rparr>))
     (\<lambda>c. cursor_position (\<lambda>_. Inl (ValueError [])) (Some c)) = Inr (Some (60, 8))"
  by (rule cursor_round_trip [OF datetime_ok_demo(1)])

text \<open>
  C14: Whoever follows the cursors of the storefront's product listing, with pages of any size, gets
  every published product once, oldest first and by identifier among equals, and reaches the end.
\<close>

theorem public_listing_complete:
  assumes "tbl_ok prod_id (db_products s)" and "\<forall>p \<in> set (rows (db_products s)). datetime_ok (prod_created_at p)"
    and "1 \<le> limit"
  shows "follow (\<lambda>c. ListPublicProducts iso_other T C c limit s) (Suc (length (published_in T C s))) None
    = Some (Inr (sort_key product_key (published_in T C s)))"
proof (rule public_products.follow_all [OF assms(3)])
  show "\<forall>p \<in> set (published_in T C s). datetime_ok (fst (product_key p))"
    using assms(2) by (simp add: published_in_def products_in_def product_key_def)
  have "distinct (map prod_id (published_in T C s))"
    unfolding published_in_def products_in_def by (intro distinct_map_filter distinct_rows assms(1))
  then show "distinct (map product_key (published_in T C s))"
    by (auto simp: distinct_map product_key_def inj_on_def)
qed

theorem public_listing_complete_witness:
  "follow (\<lambda>c. ListPublicProducts (\<lambda>_. Inl (ValueError [])) 1 None c 2 demo_shop) 4 None
     = Some (Inr [demo_product 9 30, demo_product 7 60, demo_product 8 60])"
proof -
  have shop: "published_in 1 None demo_shop = [demo_product 7 60, demo_product 8 60, demo_product 9 30]"
    by (simp add: published_in_def products_in_def demo_shop_def rows_def demo_product_def Product_create_def)
  have sorted: "sort_key product_key [demo_product 7 60, demo_product 8 60, demo_product 9 30]
      = [demo_product 9 30, demo_product 7 60, demo_product 8 60]"
    by (simp add: product_key_def demo_product_def Product_create_def)
  have ok: "tbl_ok prod_id (db_products demo_shop)"
    by (simp add: demo_shop_def tbl_ok_def demo_product_def Product_create_def)
  have times: "\<forall>p \<in> set (rows (db_products demo_shop)). datetime_ok (prod_created_at p)"
    using datetime_ok_demo by (simp add: demo_shop_def rows_def demo_product_def Product_create_def)
  have four: "Suc (length [a, b, c]) = 4" for a b c :: product by simp
  have "(1 :: int) \<le> 2" by simp
  from public_listing_complete [OF ok times this, of "\<lambda>_. Inl (ValueError [])" 1 None]
  show ?thesis unfolding shop sorted four .
qed

lemma uuid_of_json_error:
  "uuid_of_json i = Inl e \<Longrightarrow> (\<exists>m. e = ValueError m \<or> e = TypeError m)
     \<or> i \<noteq> JNull \<and> (\<forall>u. i \<noteq> JStr u) \<and> (\<exists>m. e = AttributeError m)"
  by (cases i) (auto simp: uuid_of_json_def uuid_parse_def Let_def split: if_splits option.splits)

text \<open>
  A cursor that cannot be read is a validation error, unless its identifier is a JSON value other
  than a string or null: then an \<open>AttributeError\<close> escapes, which \<open>except\<close> does not name.
\<close>

theorem cursor_errors:
  assumes "decode_cursor token = Inl e"
  shows "e = INVALID_CURSOR \<or> (\<exists>raw d i m. a2b_base64 0 0 0 token = Some raw
     \<and> Option.bind (utf8_decode raw) json_loads = Some (JObj d) \<and> map_of d ''id'' = Some i
     \<and> i \<noteq> JNull \<and> (\<forall>u. i \<noteq> JStr u) \<and> e = AttributeError m)"
proof -
  obtain e0 where e0: "read_cursor token = Inl e0"
    using assms by (cases "read_cursor token") (auto simp: decode_cursor_def)
  show ?thesis
  proof (cases "\<exists>m. e0 = ValueError m \<or> e0 = KeyError m \<or> e0 = TypeError m")
    case True
    with assms e0 show ?thesis by (auto simp: decode_cursor_def)
  next
    case other: False
    obtain raw d k i where *: "a2b_base64 0 0 0 token = Some raw"
        "Option.bind (utf8_decode raw) json_loads = Some (JObj d)" "map_of d ''k'' = Some k"
        "map_of d ''id'' = Some i"
      using e0 other unfolding read_cursor_def dict_item_def
      by (auto split: if_splits option.splits json.splits)
    with e0 other have "uuid_of_json i = Inl e0"
      by (cases "uuid_of_json i") (auto simp: read_cursor_def dict_item_def split: if_splits)
    with uuid_of_json_error [OF this] other obtain m where "e0 = AttributeError m" "i \<noteq> JNull" "\<forall>u. i \<noteq> JStr u"
      by auto
    moreover from this have "e = e0" using assms e0 by (simp add: decode_cursor_def)
    ultimately show ?thesis using * by auto
  qed
qed

text \<open>Such a token: the identifier is the number 5.\<close>

theorem cursor_errors_witness:
  "AttributeError ''object has no attribute 'replace' '' = INVALID_CURSOR \<or>
   (\<exists>raw d i m. a2b_base64 0 0 0 (json_token (JObj [(''k'', JNull), (''id'', JInt 5)])) = Some raw
     \<and> Option.bind (utf8_decode raw) json_loads = Some (JObj d) \<and> map_of d ''id'' = Some i
     \<and> i \<noteq> JNull \<and> (\<forall>u. i \<noteq> JStr u) \<and> AttributeError ''object has no attribute 'replace' '' = AttributeError m)"
proof (rule cursor_errors)
  let ?j = "JObj [(''k'', JNull), (''id'', JInt 5)]"
  have "json_plain ?j" by simp
  from token_payload [OF this]
  show "decode_cursor (json_token ?j) = Inl (AttributeError ''object has no attribute 'replace' '')"
    unfolding decode_cursor_def read_cursor_def
    by (simp add: dict_item_def uuid_of_json_def del: json_dumps.simps)
qed

end
