(* ===== verification/Products.thy ===== *)
theory Products
  imports Pagination
begin

text \<open>
  features/products/*.py: creating a product against its category's published spec, its variants and
  photos, the validation of a photo (agents/input\_image\_validation.py, services/input\_image\_validation.py)
  and the readiness of a product; with services/attribute\_model\_compiler.py. Pydantic's verdict on the
  attributes and Pillow's measurements of a photo are arguments.
\<close>

section \<open>Repositories\<close>

definition product_add :: "product \<Rightarrow> db \<Rightarrow> db result" where
  "product_add p s = bind_result (tbl_add (prod_id p) p (db_products s)) (\<lambda>t. Inr (s\<lparr>db_products := t\<rparr>))"

definition product_update :: "product \<Rightarrow> db \<Rightarrow> db" where
  "product_update p s = s\<lparr>db_products := tbl_put (prod_id p) p (db_products s)\<rparr>"

definition products_list_for_category :: "uuid \<Rightarrow> uuid \<Rightarrow> db \<Rightarrow> product list" where
  "products_list_for_category tenant_id category_id s =
     sort_key prod_created_at (filter (\<lambda>p. prod_tenant_id p = tenant_id
       \<and> prod_category_id p = category_id) (rows (db_products s)))"

definition variant_add :: "product_variant \<Rightarrow> db \<Rightarrow> db result" where
  "variant_add v s = bind_result (tbl_add (pv_id v) v (db_variants s)) (\<lambda>t. Inr (s\<lparr>db_variants := t\<rparr>))"

definition variants_list_for_product :: "uuid \<Rightarrow> uuid \<Rightarrow> db \<Rightarrow> product_variant list" where
  "variants_list_for_product tenant_id product_id s =
     sort_key pv_position (filter (\<lambda>v. pv_tenant_id v = tenant_id
       \<and> pv_product_id v = product_id) (rows (db_variants s)))"

definition input_image_get :: "uuid \<Rightarrow> uuid \<Rightarrow> db \<Rightarrow> product_input_image option" where
  "input_image_get tenant_id image_id s = scoped_get pii_tenant_id (db_input_images s) tenant_id image_id"

definition input_image_add :: "product_input_image \<Rightarrow> db \<Rightarrow> db result" where
  "input_image_add i s = bind_result (tbl_add (pii_id i) i (db_input_images s)) (\<lambda>t. Inr (s\<lparr>db_input_images := t\<rparr>))"

definition input_image_update :: "product_input_image \<Rightarrow> db \<Rightarrow> db" where
  "input_image_update i s = s\<lparr>db_input_images := tbl_put (pii_id i) i (db_input_images s)\<rparr>"

definition spec_version_get_by_version :: "uuid \<Rightarrow> uuid \<Rightarrow> int \<Rightarrow> db \<Rightarrow> category_spec_version option result" where
  "spec_version_get_by_version tenant_id category_id version s =
     scalar_one_or_none (filter (\<lambda>v. csv_tenant_id v = tenant_id
         \<and> csv_category_id v = category_id \<and> csv_version v = version) (rows (db_spec_versions s)))"

section \<open>The attribute model\<close>

datatype field_type = T_str | T_int | T_Decimal | T_bool | T_date | T_list_str | T_dimension
  | T_Literal "json list" | T_list_Literal "json list" | T_optional field_type

fun PYTHON_TYPE :: "attribute_data_type \<Rightarrow> field_type" where
  "PYTHON_TYPE TYPE_TEXT = T_str"
| "PYTHON_TYPE TYPE_LONG_TEXT = T_str"
| "PYTHON_TYPE TYPE_INTEGER = T_int"
| "PYTHON_TYPE TYPE_DECIMAL = T_Decimal"
| "PYTHON_TYPE TYPE_MONEY = T_int"
| "PYTHON_TYPE TYPE_BOOLEAN = T_bool"
| "PYTHON_TYPE TYPE_DATE = T_date"
| "PYTHON_TYPE TYPE_ENUM = T_str"
| "PYTHON_TYPE TYPE_MULTI_ENUM = T_list_str"
| "PYTHON_TYPE TYPE_URL = T_str"
| "PYTHON_TYPE TYPE_IMAGE_REF = T_str"
| "PYTHON_TYPE TYPE_DIMENSION = T_dimension"

text \<open>\<open>tuple(options)\<close>.\<close>

fun py_tuple :: "json \<Rightarrow> json list result" where
  "py_tuple (JList xs) = Inr xs"
| "py_tuple (JStr s) = Inr (map (\<lambda>c. JStr [c]) s)"
| "py_tuple (JObj kvs) = Inr (map (JStr \<circ> fst) kvs)"
| "py_tuple _ = Inl (TypeError ''object is not iterable'')"

definition field_type_of :: "attribute_definition \<Rightarrow> field_type result" where
  "field_type_of d =
     (let options = dict_get (ad_validation d) ''options'' JNull in
      if ad_data_type d = TYPE_ENUM \<and> truthy options
      then bind_result (py_tuple options) (\<lambda>xs. Inr (T_Literal xs))
      else if ad_data_type d = TYPE_MULTI_ENUM \<and> truthy options
      then bind_result (py_tuple options) (\<lambda>xs. Inr (T_list_Literal xs))
      else Inr (PYTHON_TYPE (ad_data_type d)))"

definition field_constraints :: "attribute_definition \<Rightarrow> (string, json) dict" where
  "field_constraints d = concat (map (\<lambda>(source, target).
       case map_of (ad_validation d) source of None \<Rightarrow> [] | Some v \<Rightarrow> [(target, v)])
     [(''min'', ''ge''), (''max'', ''le''), (''maxLength'', ''max_length''), (''regex'', ''pattern'')])"

text \<open>\<open>fld_default\<close> is \<open>None\<close> for a required field.\<close>

record model_field =
  fld_type :: field_type
  fld_default :: "json option"
  fld_title :: string
  fld_constraints :: "(string, json) dict"

type_synonym attribute_model = "string \<times> (string, model_field) dict"

definition model_field_of :: "attribute_definition \<Rightarrow> model_field result" where
  "model_field_of d =
     bind_result (field_type_of d) (\<lambda>ty.
       Inr \<lparr>fld_type = (if ad_is_required d then ty else T_optional ty),
            fld_default = (if ad_is_required d then None else Some (ad_default_value d)),
            fld_title = ad_label d, fld_constraints = field_constraints d\<rparr>)"

definition compile_attribute_model :: "string \<Rightarrow> attribute_definition list \<Rightarrow> attribute_model result" where
  "compile_attribute_model model_name definitions =
     bind_result (fold_result (\<lambda>d fields. bind_result (model_field_of d) (\<lambda>f. Inr (dict_set (ad_key d) f fields)))
        definitions [])
       (\<lambda>fields. Inr (model_name, fields))"

text \<open>\<open>AttributeModelCache\<close>: its state is the dict of compiled models.\<close>

type_synonym model_cache = "(uuid \<times> int, attribute_model) dict"

definition get_or_compile ::
  "uuid \<Rightarrow> int \<Rightarrow> attribute_definition list \<Rightarrow> model_cache \<Rightarrow> (attribute_model \<times> model_cache) result" where
  "get_or_compile category_id spec_version definitions models =
     (case map_of models (category_id, spec_version) of
        Some cached \<Rightarrow> Inr (cached, models)
      | None \<Rightarrow> bind_result (compile_attribute_model
            (''AttributeModel_'' @ uuid_hex category_id @ ''_'' @ str_int spec_version) definitions)
          (\<lambda>model. Inr (model, dict_set (category_id, spec_version) model models)))"

section \<open>Creating products and variants\<close>

text \<open>The value of the last definition with a role, and what the columns accept.\<close>

definition semantic_value :: "semantic_role \<Rightarrow> attribute_definition list \<Rightarrow> (string, json) dict \<Rightarrow> json" where
  "semantic_value role definitions attributes =
     fold (\<lambda>d v. if ad_semantic_role d = Some role then dict_get attributes (ad_key d) JNull else v)
       definitions JNull"

definition text_column :: "json \<Rightarrow> string option result" where
  "text_column v = (case v of JNull \<Rightarrow> Inr None | JStr s \<Rightarrow> Inr (Some s)
     | _ \<Rightarrow> Inl (DataError ''expected str''))"

definition bigint_column :: "json \<Rightarrow> int option result" where
  "bigint_column v = (case v of JNull \<Rightarrow> Inr None
     | JInt i \<Rightarrow> if - (2 ^ 63) \<le> i \<and> i < 2 ^ 63 then Inr (Some i) else Inl (DataError ''value out of int64 range'')
     | JBool b \<Rightarrow> Inr (Some (if b then 1 else 0))
     | _ \<Rightarrow> Inl (DataError ''an integer is required''))"

definition CreateProduct ::
  "(attribute_model \<Rightarrow> (string, json) dict \<Rightarrow> string + (string, json) dict) \<Rightarrow> uuid \<Rightarrow> uuid \<Rightarrow> uuid \<Rightarrow> uuid
    \<Rightarrow> (string, json) dict \<Rightarrow> uuid \<Rightarrow> datetime \<Rightarrow> product use_case" where
  "CreateProduct model_validate new_id audit_id tenant_id category_id attributes created_by now s =
     bind_result (require (NotFoundError ''Category not found.'') (category_get tenant_id category_id s)) (\<lambda>category.
     bind_result (require (ValidationError ''This category has no published spec yet.'')
         (cat_current_spec_version category)) (\<lambda>current.
     bind_result (spec_version_get_by_version tenant_id category_id current s) (\<lambda>row.
     bind_result (require (NotFoundError ''The category's published spec version is missing (data inconsistency).'')
         row) (\<lambda>spec_version.
     bind_result (Category_ancestor_ids category) (\<lambda>chain.
     let definitions = dict_values (resolve_inherited ad_category_id ad_key chain
           (list_for_categories ad_tenant_id ad_category_id ad_position (db_attributes s) tenant_id chain))
     in bind_result (compile_attribute_model (''AttributeModel_'' @ uuid_hex category_id @ ''_draft'') definitions)
         (\<lambda>model.
     (case model_validate model attributes of
        Inl msg \<Rightarrow> Inl (ValidationError (''Invalid attributes: '' @ msg))
      | Inr validated \<Rightarrow>
          bind_result (text_column (semantic_value ROLE_TITLE definitions validated)) (\<lambda>title.
          bind_result (text_column (semantic_value ROLE_SKU definitions validated)) (\<lambda>sku.
          bind_result (bigint_column (semantic_value ROLE_PRICE definitions validated)) (\<lambda>price_amount.
          let product = Product_create new_id tenant_id category_id (csv_id spec_version) validated created_by
                now title sku price_amount None
          in bind_result (product_add product s) (\<lambda>s1.
             bind_result (audit_record audit_id tenant_id (Some created_by) ''product.created'' ''product''
                 (prod_id product) None (Some [(''category_id'', JStr (uuid_str category_id))]) now s1) (\<lambda>s2.
               Inr (product, s2)))))))))))))"

definition CreateProductVariant ::
  "uuid \<Rightarrow> uuid \<Rightarrow> uuid \<Rightarrow> uuid \<Rightarrow> (string, string) dict \<Rightarrow> uuid \<Rightarrow> string option
    \<Rightarrow> ((string, json) dict) option \<Rightarrow> bool \<Rightarrow> int \<Rightarrow> datetime \<Rightarrow> product_variant use_case" where
  "CreateProductVariant new_id audit_id tenant_id product_id axis_values created_by sku attributes is_default
      position now s =
     bind_result (require (NotFoundError ''Product not found.'') (product_get tenant_id product_id s)) (\<lambda>product.
     bind_result (require PINNED_SPEC_MISSING
         (spec_version_get tenant_id (prod_spec_version_id product) s)) (\<lambda>spec_version.
     let problems = validate_axis_values (csv_snapshot spec_version) axis_values
     in bind_result (ensure (problems = []) (ValidationError (join ''; '' problems))) (\<lambda>_.
     let variant = ProductVariant_create new_id tenant_id product_id axis_values created_by now sku attributes
           is_default position
     in bind_result (variant_add variant s) (\<lambda>s1.
        bind_result (audit_record audit_id tenant_id (Some created_by) ''product_variant.created''
            ''product_variant'' (pv_id variant) None
            (Some [(''product_id'', JStr (uuid_str product_id)),
                   (''axis_values'', JObj (map (\<lambda>(k, v). (k, JStr v)) axis_values))]) now s1) (\<lambda>s2.
          Inr (variant, s2))))))"

section \<open>Photos\<close>

definition CaptureProductInputImage ::
  "uuid \<Rightarrow> uuid \<Rightarrow> uuid \<Rightarrow> uuid \<Rightarrow> uuid \<Rightarrow> uuid \<Rightarrow> uuid \<Rightarrow> uuid option \<Rightarrow> datetime
    \<Rightarrow> product_input_image use_case" where
  "CaptureProductInputImage new_id audit_id tenant_id product_id input_image_slot_id source_asset_id created_by
      variant_id now s =
     bind_result (require (NotFoundError ''Product not found.'') (product_get tenant_id product_id s)) (\<lambda>product.
     bind_result (case variant_id of None \<Rightarrow> Inr ()
        | Some v \<Rightarrow> (case variant_get tenant_id v s of
            None \<Rightarrow> Inl (NotFoundError ''Product variant not found.'')
          | Some variant \<Rightarrow> ensure (pv_product_id variant = product_id) (NotFoundError ''Product variant not found.''))) (\<lambda>_.
     bind_result (require (NotFoundError ''Asset not found.'') (asset_get tenant_id source_asset_id s)) (\<lambda>asset.
     bind_result (ensure (asset_kind asset = ASSET_INPUT) (ValidationError (''Asset kind ''
         @ quoted (asset_kind_value (asset_kind asset)) @ '' is not an input photo.''))) (\<lambda>_.
     bind_result (require PINNED_SPEC_MISSING
         (spec_version_get tenant_id (prod_spec_version_id product) s)) (\<lambda>spec_version.
     bind_result (ensure (uuid_str input_image_slot_id \<in> set (map sni_id (input_image_slots (csv_snapshot spec_version))))
         (ValidationError ''Input image slot is not part of this product's spec.'')) (\<lambda>_.
     let photo = ProductInputImage_create new_id tenant_id product_id input_image_slot_id source_asset_id created_by now
           variant_id
     in bind_result (input_image_add photo s) (\<lambda>s1.
        bind_result (audit_record audit_id tenant_id (Some created_by) ''product_input_image.captured''
            ''product_input_image'' (pii_id photo) None
            (Some [(''product_id'', JStr (uuid_str product_id)), (''asset_id'', JStr (uuid_str source_asset_id))]) now s1) (\<lambda>s2.
          Inr (photo, s2)))))))))"

record input_image_validation_context =
  ivc_image_id :: uuid
  ivc_storage_key :: string
  ivc_width :: int
  ivc_height :: int

definition StartInputImageValidation ::
  "uuid \<Rightarrow> uuid \<Rightarrow> datetime \<Rightarrow> input_image_validation_context use_case" where
  "StartInputImageValidation tenant_id image_id now s =
     bind_result (require (NotFoundError ''Input image not found.'') (input_image_get tenant_id image_id s)) (\<lambda>photo.
     bind_result (require (NotFoundError ''Source asset not found.'')
         (asset_get tenant_id (pii_asset_id photo) s)) (\<lambda>asset.
     bind_result (ProductInputImage_start_validating now photo) (\<lambda>photo.
       Inr (\<lparr>ivc_image_id = pii_id photo, ivc_storage_key = asset_storage_key asset,
             ivc_width = asset_width asset, ivc_height = asset_height asset\<rparr>, input_image_update photo s))))"

definition CompleteInputImageValidation ::
  "uuid \<Rightarrow> uuid \<Rightarrow> uuid \<Rightarrow> bool \<Rightarrow> string option \<Rightarrow> datetime \<Rightarrow> product_input_image use_case" where
  "CompleteInputImageValidation audit_id tenant_id image_id passed reason now s =
     bind_result (require (NotFoundError ''Input image not found.'') (input_image_get tenant_id image_id s)) (\<lambda>photo0.
     bind_result (if passed then ProductInputImage_mark_ready now photo0
        else ProductInputImage_mark_rejected
          (case reason of None \<Rightarrow> ''Validation failed.'' | Some r \<Rightarrow> if r = [] then ''Validation failed.'' else r)
          now photo0) (\<lambda>photo.
     bind_result (audit_record audit_id tenant_id None ''product_input_image.validation_completed''
         ''product_input_image'' (pii_id photo)
         (Some [(''status'', JStr (input_image_status_value (pii_status photo0)))])
         (Some [(''status'', JStr (input_image_status_value (pii_status photo))),
                (''rejection_reason'', jstr_opt (pii_rejection_reason photo))]) now
         (input_image_update photo s)) (\<lambda>s'.
       Inr (photo, s'))))"

text \<open>
  What Pillow measures of a decoded photo: the variance of its edges and its mean brightness; \<open>None\<close> when
  it cannot be decoded. The messages' long dashes are written as hyphens.
\<close>

record photo_measures =
  ph_blur_variance :: rat
  ph_brightness :: rat

definition MIN_WIDTH :: int where "MIN_WIDTH = 600"
definition MIN_HEIGHT :: int where "MIN_HEIGHT = 600"
definition MIN_BLUR_VARIANCE :: rat where "MIN_BLUR_VARIANCE = 150"
definition MIN_BRIGHTNESS :: rat where "MIN_BRIGHTNESS = 25"
definition MAX_BRIGHTNESS :: rat where "MAX_BRIGHTNESS = 230"

record validation_verdict =
  vv_passed :: bool
  vv_reason :: "string option"

definition rejected :: "string \<Rightarrow> validation_verdict" where
  "rejected reason = \<lparr>vv_passed = False, vv_reason = Some reason\<rparr>"

definition validate_input_image :: "photo_measures option \<Rightarrow> int \<Rightarrow> int \<Rightarrow> validation_verdict result" where
  "validate_input_image data width height =
     (if width < MIN_WIDTH \<or> height < MIN_HEIGHT
      then Inr (rejected (''Image resolution is too low ('' @ str_int width @ ''x'' @ str_int height
             @ '') - retake at least '' @ str_int MIN_WIDTH @ ''x'' @ str_int MIN_HEIGHT @ ''.''))
      else if \<not> (height \<le> 3 * width \<and> width \<le> 3 * height)
      then Inr (rejected ''Image aspect ratio is too extreme - retake in a more standard framing.'')
      else (case data of
          None \<Rightarrow> Inl (ValidationError ''File is not a readable image.'')
        | Some m \<Rightarrow>
            if ph_blur_variance m < MIN_BLUR_VARIANCE
            then Inr (rejected ''Image is too blurry - retake in better light or hold the camera steady.'')
            else if ph_brightness m < MIN_BRIGHTNESS
            then Inr (rejected ''Image is too dark - retake in better light.'')
            else if ph_brightness m > MAX_BRIGHTNESS
            then Inr (rejected ''Image is overexposed - retake with less direct light.'')
            else Inr \<lparr>vv_passed = True, vv_reason = None\<rparr>))"

text \<open>\<open>read\<close> is the object storage: the stored bytes as Pillow will measure them, or an exception.\<close>

definition InputImageValidationAgent_run ::
  "(string \<Rightarrow> photo_measures option result) \<Rightarrow> (nat \<Rightarrow> datetime) \<Rightarrow> uuid \<Rightarrow> uuid \<Rightarrow> uuid \<Rightarrow> db
    \<Rightarrow> product_input_image result \<times> db" where
  "InputImageValidationAgent_run read time audit_id tenant_id image_id s =
     (case run_uow (StartInputImageValidation tenant_id image_id (time 0)) s of
        (Inl e, s1) \<Rightarrow> (Inl e, s1)
      | (Inr ctx, s1) \<Rightarrow>
          let verdict = (case bind_result (read (ivc_storage_key ctx))
                (\<lambda>data. validate_input_image data (ivc_width ctx) (ivc_height ctx)) of
              Inl _ \<Rightarrow> rejected ''Could not read the uploaded photo - try uploading it again.''
            | Inr v \<Rightarrow> v)
          in run_uow (CompleteInputImageValidation audit_id tenant_id (ivc_image_id ctx)
               (vv_passed verdict) (vv_reason verdict) (time 1)) s1)"

section \<open>Readiness and the storefront\<close>

definition RecomputeProductReadiness :: "uuid \<Rightarrow> uuid \<Rightarrow> datetime \<Rightarrow> product use_case" where
  "RecomputeProductReadiness tenant_id product_id now s =
     bind_result (require (NotFoundError ''Product not found.'') (product_get tenant_id product_id s)) (\<lambda>product.
     bind_result (require (NotFoundError ''Product's pinned spec version not found.'')
         (spec_version_get tenant_id (prod_spec_version_id product) s)) (\<lambda>spec_version.
     bind_result (compute_product_readiness (csv_snapshot spec_version) (prod_attributes product)
         (input_images_list_for_product tenant_id product_id s) None) (\<lambda>outcome.
     bind_result (if rdy_is_ready outcome then Product_mark_ready now product
        else if prod_status product \<in> {PROD_READY, PROD_NEEDS_ATTENTION}
        then Product_mark_needs_attention now product else Inr product) (\<lambda>product.
       Inr (product, product_update product s)))))"

definition GetPublicProduct :: "uuid \<Rightarrow> uuid \<Rightarrow> db \<Rightarrow> product result" where
  "GetPublicProduct tenant_id product_id s =
     require (NotFoundError ''Product not found.'')
       (case product_get tenant_id product_id s of None \<Rightarrow> None
        | Some p \<Rightarrow> if prod_status p \<noteq> PROD_PUBLISHED then None else Some p)"

end
