(* ===== verification/Taxonomy.thy ===== *)
theory Taxonomy
  imports Specs Unique_Index
begin

text \<open>
  features/taxonomy/*.py and features/settings/*.py: the editing of categories, attribute definitions, variant axes
  and their values, input and catalog image slots and the requirements between them, their listings, and settings.
  MoveCategory and PublishCategorySpec are in Specs.
\<close>

section \<open>Categories\<close>

definition category_add :: "category \<Rightarrow> db \<Rightarrow> db result" where
  "category_add c s = bind_result (tbl_add_unique (\<lambda>c r. slug_clash c r \<or> sibling_clash c r) (cat_id c) c (db_categories s))
     (\<lambda>t. Inr (s\<lparr>db_categories := t\<rparr>))"

definition list_children :: "uuid \<Rightarrow> uuid option \<Rightarrow> db \<Rightarrow> category list" where
  "list_children tenant_id parent_id s =
     sort_key cat_position (filter (\<lambda>c. cat_tenant_id c = tenant_id \<and> cat_parent_id c = parent_id)
       (rows (db_categories s)))"

definition CreateCategory ::
  "uuid \<Rightarrow> uuid \<Rightarrow> uuid \<Rightarrow> string \<Rightarrow> string \<Rightarrow> string \<Rightarrow> uuid option \<Rightarrow> string option \<Rightarrow> int \<Rightarrow> uuid \<Rightarrow> datetime
    \<Rightarrow> category use_case" where
  "CreateCategory new_id audit_id tenant_id key name slug parent_id description position actor_user_id now s =
     bind_result (case parent_id of None \<Rightarrow> Inr None
         | Some p \<Rightarrow> bind_result (require (NotFoundError ''Parent category not found.'') (category_get tenant_id p s))
             (\<lambda>c. Inr (Some c))) (\<lambda>parent.
     let category = Category_create new_id tenant_id key name slug parent now description position
     in bind_result (category_add category s) (\<lambda>s1.
        bind_result (audit_record audit_id tenant_id (Some actor_user_id) ''category.created'' ''category''
            (cat_id category) None (Some [(''key'', JStr key), (''name'', JStr name),
              (''parent_id'', jstr_opt (map_option uuid_str parent_id))]) now s1) (\<lambda>s2.
          Inr (category, s2))))"

definition UpdateCategory ::
  "uuid \<Rightarrow> uuid \<Rightarrow> uuid \<Rightarrow> string \<Rightarrow> string option \<Rightarrow> int \<Rightarrow> bool \<Rightarrow> uuid \<Rightarrow> datetime \<Rightarrow> category use_case" where
  "UpdateCategory audit_id tenant_id category_id name description position is_active actor_user_id now s =
     bind_result (require (NotFoundError ''Category not found.'') (category_get tenant_id category_id s)) (\<lambda>old.
     let category = old\<lparr>cat_name := name, cat_description := description, cat_position := position,
           cat_is_active := is_active, cat_updated_at := now\<rparr>
     in bind_result (audit_record audit_id tenant_id (Some actor_user_id) ''category.updated'' ''category'' category_id
          (Some [(''name'', JStr (cat_name old)), (''description'', jstr_opt (cat_description old)),
                 (''position'', JInt (cat_position old)), (''is_active'', JBool (cat_is_active old))])
          (Some [(''name'', JStr name), (''description'', jstr_opt description),
                 (''position'', JInt position), (''is_active'', JBool is_active)]) now (category_update category s)) (\<lambda>s1.
          Inr (category, s1)))"

definition GetCategory :: "uuid \<Rightarrow> uuid \<Rightarrow> db \<Rightarrow> category result" where
  "GetCategory tenant_id category_id s =
     require (NotFoundError ''Category not found.'') (category_get tenant_id category_id s)"

definition GetPublishedCategorySpec :: "uuid \<Rightarrow> uuid \<Rightarrow> int \<Rightarrow> db \<Rightarrow> spec_snapshot result" where
  "GetPublishedCategorySpec tenant_id category_id version s = resolve_published tenant_id category_id version s"

definition ListCategoryChildren :: "uuid \<Rightarrow> uuid option \<Rightarrow> db \<Rightarrow> category list" where
  "ListCategoryChildren tenant_id parent_id s = list_children tenant_id parent_id s"

definition ListPublicCategoryChildren :: "uuid \<Rightarrow> uuid option \<Rightarrow> db \<Rightarrow> category list" where
  "ListPublicCategoryChildren tenant_id parent_id s = filter cat_is_active (list_children tenant_id parent_id s)"

text \<open>The category every definition of a spec belongs to.\<close>

definition owning_category :: "uuid \<Rightarrow> uuid \<Rightarrow> db \<Rightarrow> category result" where
  "owning_category tenant_id category_id s =
     require (NotFoundError ''Category not found.'') (category_get tenant_id category_id s)"

text \<open>\<open>after = {"key": key, "category_id": str(category_id)}\<close>.\<close>

definition created_with :: "string \<Rightarrow> uuid \<Rightarrow> ((string, json) dict) option" where
  "created_with key category_id = Some [(''key'', JStr key), (''category_id'', JStr (uuid_str category_id))]"

section \<open>Attribute definitions\<close>

definition attribute_get :: "uuid \<Rightarrow> uuid \<Rightarrow> db \<Rightarrow> attribute_definition option" where
  "attribute_get tenant_id definition_id s = scoped_get ad_tenant_id (db_attributes s) tenant_id definition_id"

definition attribute_add :: "attribute_definition \<Rightarrow> db \<Rightarrow> db result" where
  "attribute_add d s = bind_result (tbl_add (ad_id d) d (db_attributes s)) (\<lambda>t. Inr (s\<lparr>db_attributes := t\<rparr>))"

definition attribute_update :: "attribute_definition \<Rightarrow> db \<Rightarrow> db" where
  "attribute_update d s = s\<lparr>db_attributes := tbl_put (ad_id d) d (db_attributes s)\<rparr>"

definition CreateAttributeDefinition ::
  "uuid \<Rightarrow> uuid \<Rightarrow> uuid \<Rightarrow> uuid \<Rightarrow> string \<Rightarrow> string \<Rightarrow> attribute_data_type \<Rightarrow> string option \<Rightarrow> semantic_role option
    \<Rightarrow> bool \<Rightarrow> bool \<Rightarrow> bool \<Rightarrow> int \<Rightarrow> ((string, json) dict) option \<Rightarrow> ((string, json) dict) option \<Rightarrow> json \<Rightarrow> uuid
    \<Rightarrow> datetime \<Rightarrow> attribute_definition use_case" where
  "CreateAttributeDefinition new_id audit_id tenant_id category_id key label data_type help_text semantic_role is_required
      is_filterable is_public position validation ui default_value actor_user_id now s =
     bind_result (owning_category tenant_id category_id s) (\<lambda>_.
     bind_result (AttributeDefinition_create new_id tenant_id category_id key label data_type now help_text semantic_role
         is_required is_filterable is_public position validation ui default_value) (\<lambda>d.
     bind_result (attribute_add d s) (\<lambda>s1.
     bind_result (audit_record audit_id tenant_id (Some actor_user_id) ''attribute_definition.created''
         ''attribute_definition'' (ad_id d) None (created_with key category_id) now s1) (\<lambda>s2.
       Inr (d, s2)))))"

definition UpdateAttributeDefinition ::
  "uuid \<Rightarrow> uuid \<Rightarrow> uuid \<Rightarrow> string \<Rightarrow> string option \<Rightarrow> semantic_role option \<Rightarrow> bool \<Rightarrow> bool \<Rightarrow> bool \<Rightarrow> int
    \<Rightarrow> (string, json) dict \<Rightarrow> (string, json) dict \<Rightarrow> json \<Rightarrow> uuid \<Rightarrow> datetime \<Rightarrow> attribute_definition use_case" where
  "UpdateAttributeDefinition audit_id tenant_id definition_id label help_text semantic_role is_required is_filterable
      is_public position validation ui default_value actor_user_id now s =
     bind_result (require (NotFoundError ''Attribute definition not found.'') (attribute_get tenant_id definition_id s)) (\<lambda>old.
     let d = old\<lparr>ad_label := label, ad_help_text := help_text, ad_semantic_role := semantic_role,
           ad_is_required := is_required, ad_is_filterable := is_filterable, ad_is_public := is_public,
           ad_position := position, ad_validation := validation, ad_ui := ui, ad_default_value := default_value,
           ad_updated_at := now\<rparr>
     in bind_result (audit_record audit_id tenant_id (Some actor_user_id) ''attribute_definition.updated''
          ''attribute_definition'' definition_id
          (Some [(''label'', JStr (ad_label old)), (''is_required'', JBool (ad_is_required old))])
          (Some [(''label'', JStr label), (''is_required'', JBool is_required)]) now (attribute_update d s)) (\<lambda>s1.
          Inr (d, s1)))"

definition ListAttributeDefinitions :: "uuid \<Rightarrow> uuid \<Rightarrow> db \<Rightarrow> attribute_definition list" where
  "ListAttributeDefinitions tenant_id category_id s =
     list_for_category ad_tenant_id ad_category_id ad_position (db_attributes s) tenant_id category_id"

section \<open>Variant axes and their values\<close>

definition axis_get :: "uuid \<Rightarrow> uuid \<Rightarrow> db \<Rightarrow> variant_axis option" where
  "axis_get tenant_id axis_id s = scoped_get va_tenant_id (db_axes s) tenant_id axis_id"

definition axis_add :: "variant_axis \<Rightarrow> db \<Rightarrow> db result" where
  "axis_add a s = bind_result (tbl_add (va_id a) a (db_axes s)) (\<lambda>t. Inr (s\<lparr>db_axes := t\<rparr>))"

definition axis_update :: "variant_axis \<Rightarrow> db \<Rightarrow> db" where
  "axis_update a s = s\<lparr>db_axes := tbl_put (va_id a) a (db_axes s)\<rparr>"

definition CreateVariantAxis ::
  "uuid \<Rightarrow> uuid \<Rightarrow> uuid \<Rightarrow> uuid \<Rightarrow> string \<Rightarrow> string \<Rightarrow> bool \<Rightarrow> int \<Rightarrow> uuid \<Rightarrow> datetime \<Rightarrow> variant_axis use_case" where
  "CreateVariantAxis new_id audit_id tenant_id category_id key label affects_imagery position actor_user_id now s =
     bind_result (owning_category tenant_id category_id s) (\<lambda>_.
     bind_result (VariantAxis_create new_id tenant_id category_id key label affects_imagery now position) (\<lambda>a.
     bind_result (axis_add a s) (\<lambda>s1.
     bind_result (audit_record audit_id tenant_id (Some actor_user_id) ''variant_axis.created''
         ''variant_axis'' (va_id a) None (created_with key category_id) now s1) (\<lambda>s2.
       Inr (a, s2)))))"

definition UpdateVariantAxis ::
  "uuid \<Rightarrow> uuid \<Rightarrow> uuid \<Rightarrow> string \<Rightarrow> bool \<Rightarrow> int \<Rightarrow> uuid \<Rightarrow> datetime \<Rightarrow> variant_axis use_case" where
  "UpdateVariantAxis audit_id tenant_id axis_id label affects_imagery position actor_user_id now s =
     bind_result (require (NotFoundError ''Variant axis not found.'') (axis_get tenant_id axis_id s)) (\<lambda>old.
     let a = old\<lparr>va_label := label, va_affects_imagery := affects_imagery, va_position := position, va_updated_at := now\<rparr>
     in bind_result (audit_record audit_id tenant_id (Some actor_user_id) ''variant_axis.updated'' ''variant_axis'' axis_id
          (Some [(''label'', JStr (va_label old)), (''affects_imagery'', JBool (va_affects_imagery old))])
          (Some [(''label'', JStr label), (''affects_imagery'', JBool affects_imagery)]) now (axis_update a s)) (\<lambda>s1.
          Inr (a, s1)))"

definition ListVariantAxes :: "uuid \<Rightarrow> uuid \<Rightarrow> db \<Rightarrow> variant_axis list" where
  "ListVariantAxes tenant_id category_id s =
     list_for_category va_tenant_id va_category_id va_position (db_axes s) tenant_id category_id"

text \<open>Migration 1dfda8ee6f19: one value of a name per axis.\<close>

definition axis_value_clash :: "variant_axis_value \<Rightarrow> variant_axis_value \<Rightarrow> bool" where
  "axis_value_clash v r \<longleftrightarrow> vav_tenant_id r = vav_tenant_id v \<and> vav_axis_id r = vav_axis_id v \<and> vav_value r = vav_value v"

definition axis_value_get :: "uuid \<Rightarrow> uuid \<Rightarrow> db \<Rightarrow> variant_axis_value option" where
  "axis_value_get tenant_id value_id s = scoped_get vav_tenant_id (db_axis_values s) tenant_id value_id"

definition axis_value_add :: "variant_axis_value \<Rightarrow> db \<Rightarrow> db result" where
  "axis_value_add v s = bind_result (tbl_add_unique axis_value_clash (vav_id v) v (db_axis_values s))
     (\<lambda>t. Inr (s\<lparr>db_axis_values := t\<rparr>))"

definition axis_value_update :: "variant_axis_value \<Rightarrow> db \<Rightarrow> db" where
  "axis_value_update v s = s\<lparr>db_axis_values := tbl_put (vav_id v) v (db_axis_values s)\<rparr>"

definition CreateVariantAxisValue ::
  "uuid \<Rightarrow> uuid \<Rightarrow> uuid \<Rightarrow> uuid \<Rightarrow> string \<Rightarrow> string \<Rightarrow> ((string, json) dict) option \<Rightarrow> uuid \<Rightarrow> datetime
    \<Rightarrow> variant_axis_value use_case" where
  "CreateVariantAxisValue new_id audit_id tenant_id axis_id value_name label metadata actor_user_id now s =
     bind_result (require (NotFoundError ''Variant axis not found.'') (axis_get tenant_id axis_id s)) (\<lambda>_.
     let v = VariantAxisValue_create new_id tenant_id axis_id value_name label now metadata
     in bind_result (axis_value_add v s) (\<lambda>s1.
        bind_result (audit_record audit_id tenant_id (Some actor_user_id) ''variant_axis_value.created''
            ''variant_axis_value'' (vav_id v) None
            (Some [(''value'', JStr value_name), (''axis_id'', JStr (uuid_str axis_id))]) now s1) (\<lambda>s2.
          Inr (v, s2))))"

definition UpdateVariantAxisValue ::
  "uuid \<Rightarrow> uuid \<Rightarrow> uuid \<Rightarrow> string \<Rightarrow> (string, json) dict \<Rightarrow> uuid \<Rightarrow> datetime \<Rightarrow> variant_axis_value use_case" where
  "UpdateVariantAxisValue audit_id tenant_id value_id label metadata actor_user_id now s =
     bind_result (require (NotFoundError ''Variant axis value not found.'') (axis_value_get tenant_id value_id s)) (\<lambda>old.
     let v = old\<lparr>vav_label := label, vav_metadata := metadata, vav_updated_at := now\<rparr>
     in bind_result (audit_record audit_id tenant_id (Some actor_user_id) ''variant_axis_value.updated''
          ''variant_axis_value'' value_id (Some [(''label'', JStr (vav_label old))])
          (Some [(''label'', JStr label)]) now (axis_value_update v s)) (\<lambda>s1. Inr (v, s1)))"

definition ListVariantAxisValues :: "uuid \<Rightarrow> uuid \<Rightarrow> db \<Rightarrow> variant_axis_value list" where
  "ListVariantAxisValues tenant_id axis_id s = list_for_axis tenant_id axis_id s"

section \<open>Image slots\<close>

definition input_slot_get :: "uuid \<Rightarrow> uuid \<Rightarrow> db \<Rightarrow> input_image_slot option" where
  "input_slot_get tenant_id slot_id s = scoped_get iis_tenant_id (db_input_slots s) tenant_id slot_id"

definition input_slot_add :: "input_image_slot \<Rightarrow> db \<Rightarrow> db result" where
  "input_slot_add i s = bind_result (tbl_add (iis_id i) i (db_input_slots s)) (\<lambda>t. Inr (s\<lparr>db_input_slots := t\<rparr>))"

definition input_slot_update :: "input_image_slot \<Rightarrow> db \<Rightarrow> db" where
  "input_slot_update i s = s\<lparr>db_input_slots := tbl_put (iis_id i) i (db_input_slots s)\<rparr>"

definition CreateInputImageSlot ::
  "uuid \<Rightarrow> uuid \<Rightarrow> uuid \<Rightarrow> uuid \<Rightarrow> string \<Rightarrow> string \<Rightarrow> string option \<Rightarrow> string option \<Rightarrow> uuid option
    \<Rightarrow> ((string, json) dict) option \<Rightarrow> bool \<Rightarrow> int \<Rightarrow> uuid \<Rightarrow> datetime \<Rightarrow> input_image_slot use_case" where
  "CreateInputImageSlot new_id audit_id tenant_id category_id key label description capture_guidance example_asset_id
      normalisation is_required position actor_user_id now s =
     bind_result (owning_category tenant_id category_id s) (\<lambda>_.
     bind_result (InputImageSlot_create new_id tenant_id category_id key label now description capture_guidance
         example_asset_id normalisation is_required position) (\<lambda>i.
     bind_result (input_slot_add i s) (\<lambda>s1.
     bind_result (audit_record audit_id tenant_id (Some actor_user_id) ''input_image_slot.created''
         ''input_image_slot'' (iis_id i) None (created_with key category_id) now s1) (\<lambda>s2.
       Inr (i, s2)))))"

definition UpdateInputImageSlot ::
  "uuid \<Rightarrow> uuid \<Rightarrow> uuid \<Rightarrow> string \<Rightarrow> string option \<Rightarrow> string option \<Rightarrow> uuid option \<Rightarrow> (string, json) dict \<Rightarrow> bool \<Rightarrow> int
    \<Rightarrow> uuid \<Rightarrow> datetime \<Rightarrow> input_image_slot use_case" where
  "UpdateInputImageSlot audit_id tenant_id slot_id label description capture_guidance example_asset_id normalisation
      is_required position actor_user_id now s =
     bind_result (require (NotFoundError ''Input image slot not found.'') (input_slot_get tenant_id slot_id s)) (\<lambda>old.
     let i = old\<lparr>iis_label := label, iis_description := description, iis_capture_guidance := capture_guidance,
           iis_example_asset_id := example_asset_id, iis_normalisation := normalisation, iis_is_required := is_required,
           iis_position := position, iis_updated_at := now\<rparr>
     in bind_result (audit_record audit_id tenant_id (Some actor_user_id) ''input_image_slot.updated''
          ''input_image_slot'' slot_id
          (Some [(''label'', JStr (iis_label old)), (''is_required'', JBool (iis_is_required old))])
          (Some [(''label'', JStr label), (''is_required'', JBool is_required)]) now (input_slot_update i s)) (\<lambda>s1.
          Inr (i, s1)))"

definition ListInputImageSlots :: "uuid \<Rightarrow> uuid \<Rightarrow> db \<Rightarrow> input_image_slot list" where
  "ListInputImageSlots tenant_id category_id s =
     list_for_category iis_tenant_id iis_category_id iis_position (db_input_slots s) tenant_id category_id"

definition catalog_slot_get :: "uuid \<Rightarrow> uuid \<Rightarrow> db \<Rightarrow> catalog_image_slot option" where
  "catalog_slot_get tenant_id slot_id s = scoped_get cis_tenant_id (db_catalog_slots s) tenant_id slot_id"

definition catalog_slot_add :: "catalog_image_slot \<Rightarrow> db \<Rightarrow> db result" where
  "catalog_slot_add c s = bind_result (tbl_add (cis_id c) c (db_catalog_slots s)) (\<lambda>t. Inr (s\<lparr>db_catalog_slots := t\<rparr>))"

definition catalog_slot_update :: "catalog_image_slot \<Rightarrow> db \<Rightarrow> db" where
  "catalog_slot_update c s = s\<lparr>db_catalog_slots := tbl_put (cis_id c) c (db_catalog_slots s)\<rparr>"

definition CreateCatalogImageSlot ::
  "uuid \<Rightarrow> uuid \<Rightarrow> uuid \<Rightarrow> uuid \<Rightarrow> string \<Rightarrow> string \<Rightarrow> string \<Rightarrow> int \<Rightarrow> int \<Rightarrow> string option \<Rightarrow> bool \<Rightarrow> int
    \<Rightarrow> uuid \<Rightarrow> datetime \<Rightarrow> catalog_image_slot use_case" where
  "CreateCatalogImageSlot new_id audit_id tenant_id category_id key label aspect_ratio target_width target_height
      description is_required position actor_user_id now s =
     bind_result (owning_category tenant_id category_id s) (\<lambda>_.
     bind_result (CatalogImageSlot_create new_id tenant_id category_id key label aspect_ratio target_width target_height
         now description is_required position) (\<lambda>c.
     bind_result (catalog_slot_add c s) (\<lambda>s1.
     bind_result (audit_record audit_id tenant_id (Some actor_user_id) ''catalog_image_slot.created''
         ''catalog_image_slot'' (cis_id c) None (created_with key category_id) now s1) (\<lambda>s2.
       Inr (c, s2)))))"

definition UpdateCatalogImageSlot ::
  "uuid \<Rightarrow> uuid \<Rightarrow> uuid \<Rightarrow> string \<Rightarrow> string option \<Rightarrow> string \<Rightarrow> int \<Rightarrow> int \<Rightarrow> bool \<Rightarrow> int \<Rightarrow> uuid \<Rightarrow> datetime
    \<Rightarrow> catalog_image_slot use_case" where
  "UpdateCatalogImageSlot audit_id tenant_id slot_id label description aspect_ratio target_width target_height is_required
      position actor_user_id now s =
     bind_result (require (NotFoundError ''Catalog image slot not found.'') (catalog_slot_get tenant_id slot_id s)) (\<lambda>old.
     let c = old\<lparr>cis_label := label, cis_description := description, cis_aspect_ratio := aspect_ratio,
           cis_target_width := target_width, cis_target_height := target_height, cis_is_required := is_required,
           cis_position := position, cis_updated_at := now\<rparr>
     in bind_result (audit_record audit_id tenant_id (Some actor_user_id) ''catalog_image_slot.updated''
          ''catalog_image_slot'' slot_id
          (Some [(''label'', JStr (cis_label old)), (''aspect_ratio'', JStr (cis_aspect_ratio old))])
          (Some [(''label'', JStr label), (''aspect_ratio'', JStr aspect_ratio)]) now (catalog_slot_update c s)) (\<lambda>s1.
          Inr (c, s1)))"

definition ListCatalogImageSlots :: "uuid \<Rightarrow> uuid \<Rightarrow> db \<Rightarrow> catalog_image_slot list" where
  "ListCatalogImageSlots tenant_id category_id s =
     list_for_category cis_tenant_id cis_category_id cis_position (db_catalog_slots s) tenant_id category_id"

section \<open>Requirements between slots\<close>

text \<open>The primary key of migration dd47a2b7a9ac is the pair of slots.\<close>

definition requirement_key :: "catalog_slot_input_requirement \<Rightarrow> uuid \<times> uuid" where
  "requirement_key r = (req_catalog_image_slot_id r, req_input_image_slot_id r)"

definition requirement_get :: "uuid \<Rightarrow> uuid \<Rightarrow> uuid \<Rightarrow> db \<Rightarrow> catalog_slot_input_requirement option result" where
  "requirement_get tenant_id catalog_slot_id input_slot_id s =
     scalar_one_or_none (filter (\<lambda>r. req_tenant_id r = tenant_id \<and> requirement_key r = (catalog_slot_id, input_slot_id))
       (db_requirements s))"

definition requirement_add :: "catalog_slot_input_requirement \<Rightarrow> db \<Rightarrow> db result" where
  "requirement_add r s =
     (if requirement_key r \<in> set (map requirement_key (db_requirements s))
      then Inl (IntegrityError ''duplicate primary key'') else Inr (s\<lparr>db_requirements := db_requirements s @ [r]\<rparr>))"

definition requirement_update :: "catalog_slot_input_requirement \<Rightarrow> db \<Rightarrow> db" where
  "requirement_update r s = s\<lparr>db_requirements :=
     map (\<lambda>q. if requirement_key q = requirement_key r then r else q) (db_requirements s)\<rparr>"

definition requirement_remove :: "uuid \<Rightarrow> uuid \<Rightarrow> uuid \<Rightarrow> db \<Rightarrow> db" where
  "requirement_remove tenant_id catalog_slot_id input_slot_id s = s\<lparr>db_requirements :=
     filter (\<lambda>r. \<not> (req_tenant_id r = tenant_id \<and> requirement_key r = (catalog_slot_id, input_slot_id))) (db_requirements s)\<rparr>"

definition AttachInputToCatalogSlot ::
  "uuid \<Rightarrow> uuid \<Rightarrow> uuid \<Rightarrow> uuid \<Rightarrow> uuid \<Rightarrow> string \<Rightarrow> int \<Rightarrow> bool \<Rightarrow> uuid \<Rightarrow> datetime
    \<Rightarrow> catalog_slot_input_requirement use_case" where
  "AttachInputToCatalogSlot new_id audit_id tenant_id catalog_slot_id input_slot_id role_name prompt_position is_required
      actor_user_id now s =
     bind_result (require (NotFoundError ''Catalog image slot not found.'') (catalog_slot_get tenant_id catalog_slot_id s)) (\<lambda>_.
     bind_result (require (NotFoundError ''Input image slot not found.'') (input_slot_get tenant_id input_slot_id s)) (\<lambda>_.
     let r = CatalogSlotInputRequirement_create new_id tenant_id catalog_slot_id input_slot_id role_name prompt_position
           now is_required
     in bind_result (requirement_add r s) (\<lambda>s1.
        bind_result (audit_record audit_id tenant_id (Some actor_user_id) ''catalog_slot_input_requirement.created''
            ''catalog_slot_input_requirement'' catalog_slot_id None
            (Some [(''input_image_slot_id'', JStr (uuid_str input_slot_id)), (''role'', JStr role_name)]) now s1) (\<lambda>s2.
          Inr (r, s2)))))"

definition UpdateCatalogSlotInputRequirement ::
  "uuid \<Rightarrow> uuid \<Rightarrow> uuid \<Rightarrow> uuid \<Rightarrow> string \<Rightarrow> int \<Rightarrow> bool \<Rightarrow> uuid \<Rightarrow> datetime
    \<Rightarrow> catalog_slot_input_requirement use_case" where
  "UpdateCatalogSlotInputRequirement audit_id tenant_id catalog_slot_id input_slot_id role_name prompt_position is_required
      actor_user_id now s =
     bind_result (requirement_get tenant_id catalog_slot_id input_slot_id s) (\<lambda>row.
     bind_result (require (NotFoundError ''Catalog slot input requirement not found.'') row) (\<lambda>old.
     let r = old\<lparr>req_role := role_name, req_prompt_position := prompt_position, req_is_required := is_required\<rparr>
     in bind_result (audit_record audit_id tenant_id (Some actor_user_id) ''catalog_slot_input_requirement.updated''
          ''catalog_slot_input_requirement'' catalog_slot_id
          (Some [(''role'', JStr (req_role old)), (''prompt_position'', JInt (req_prompt_position old))])
          (Some [(''role'', JStr role_name), (''prompt_position'', JInt prompt_position)]) now
          (requirement_update r s)) (\<lambda>s1. Inr (r, s1))))"

definition DetachInputFromCatalogSlot ::
  "uuid \<Rightarrow> uuid \<Rightarrow> uuid \<Rightarrow> uuid \<Rightarrow> uuid \<Rightarrow> datetime \<Rightarrow> unit use_case" where
  "DetachInputFromCatalogSlot audit_id tenant_id catalog_slot_id input_slot_id actor_user_id now s =
     bind_result (audit_record audit_id tenant_id (Some actor_user_id) ''catalog_slot_input_requirement.removed''
         ''catalog_slot_input_requirement'' catalog_slot_id
         (Some [(''input_image_slot_id'', JStr (uuid_str input_slot_id))]) None now
         (requirement_remove tenant_id catalog_slot_id input_slot_id s)) (\<lambda>s1. Inr ((), s1))"

definition ListCatalogSlotInputRequirements :: "uuid \<Rightarrow> uuid \<Rightarrow> db \<Rightarrow> catalog_slot_input_requirement list" where
  "ListCatalogSlotInputRequirements tenant_id catalog_slot_id s = list_for_catalog_slot tenant_id catalog_slot_id s"

section \<open>Settings\<close>

text \<open>The partial unique indexes of migration 77ef8de529f6; a \<open>NULL\<close> column never collides.\<close>

definition setting_key :: "setting \<Rightarrow> (uuid option \<times> setting_scope \<times> uuid option \<times> string) option" where
  "setting_key r = (case set_scope_type r of
       SCOPE_PLATFORM \<Rightarrow> Some (None, SCOPE_PLATFORM, None, set_key r)
     | SCOPE_TENANT \<Rightarrow> (case set_tenant_id r of None \<Rightarrow> None | Some T \<Rightarrow> Some (Some T, SCOPE_TENANT, None, set_key r))
     | sc \<Rightarrow> (case (set_tenant_id r, set_scope_id r) of
           (Some T, Some i) \<Rightarrow> Some (Some T, sc, Some i, set_key r) | _ \<Rightarrow> None))"

definition setting_clash :: "setting \<Rightarrow> setting \<Rightarrow> bool" where
  "setting_clash r q \<longleftrightarrow> setting_key r \<noteq> None \<and> setting_key q = setting_key r"

definition setting_add :: "setting \<Rightarrow> db \<Rightarrow> db result" where
  "setting_add r s = bind_result (tbl_add_unique setting_clash (set_id r) r (db_settings s))
     (\<lambda>t. Inr (s\<lparr>db_settings := t\<rparr>))"

definition setting_update :: "setting \<Rightarrow> db \<Rightarrow> db" where
  "setting_update r s = s\<lparr>db_settings := tbl_put (set_id r) r (db_settings s)\<rparr>"

definition UpsertSetting ::
  "uuid \<Rightarrow> uuid option \<Rightarrow> setting_scope \<Rightarrow> uuid option \<Rightarrow> string \<Rightarrow> json \<Rightarrow> datetime \<Rightarrow> setting use_case" where
  "UpsertSetting new_id tenant_id scope_type scope_id key new_value now s =
     bind_result (setting_get tenant_id scope_type scope_id key s) (\<lambda>existing.
     (case existing of
        Some old \<Rightarrow> let r = old\<lparr>set_value := new_value, set_updated_at := now\<rparr> in Inr (r, setting_update r s)
      | None \<Rightarrow> bind_result (Setting_create new_id scope_type tenant_id scope_id key new_value now) (\<lambda>r.
          bind_result (setting_add r s) (\<lambda>s1. Inr (r, s1)))))"

definition ResolveSetting :: "uuid \<Rightarrow> string \<Rightarrow> uuid option \<Rightarrow> uuid option \<Rightarrow> db \<Rightarrow> json result" where
  "ResolveSetting tenant_id key category_id product_id s = SettingsResolver_resolve tenant_id key category_id product_id s"

end
