(* ===== verification/Templates.thy ===== *)
theory Templates
  imports Products Taxonomy
begin

text \<open>
  features/templates/*.py and agents/template\_analysis.py: the versions of a slot's templates, written by hand,
  seeded from the stock presets or analysed from an uploaded picture, and checked against the live spec of the
  slot's category before they may be used. The vision provider is an argument.
\<close>

section \<open>Repositories\<close>

text \<open>The unique constraint of migration c4e6b1d9a72f.\<close>

definition template_clash :: "catalog_template \<Rightarrow> catalog_template \<Rightarrow> bool" where
  "template_clash t r \<longleftrightarrow> ct_tenant_id r = ct_tenant_id t \<and> ct_catalog_image_slot_id r = ct_catalog_image_slot_id t
     \<and> ct_name r = ct_name t \<and> ct_version r = ct_version t"

definition template_add :: "catalog_template \<Rightarrow> db \<Rightarrow> db result" where
  "template_add t s = bind_result (tbl_add_unique template_clash (ct_id t) t (db_templates s))
     (\<lambda>ts. Inr (s\<lparr>db_templates := ts\<rparr>))"

definition template_update :: "catalog_template \<Rightarrow> db \<Rightarrow> db" where
  "template_update t s = s\<lparr>db_templates := tbl_put (ct_id t) t (db_templates s)\<rparr>"

definition get_latest_version :: "uuid \<Rightarrow> uuid \<Rightarrow> string \<Rightarrow> db \<Rightarrow> catalog_template option" where
  "get_latest_version tenant_id slot_id name s =
     first_by (\<lambda>t. - ct_version t) (filter (\<lambda>t. ct_tenant_id t = tenant_id
       \<and> ct_catalog_image_slot_id t = slot_id \<and> ct_name t = name) (rows (db_templates s)))"

definition next_version :: "uuid \<Rightarrow> uuid \<Rightarrow> string \<Rightarrow> db \<Rightarrow> int" where
  "next_version tenant_id slot_id name s =
     (case get_latest_version tenant_id slot_id name s of Some t \<Rightarrow> ct_version t + 1 | None \<Rightarrow> 1)"

section \<open>Templates written by hand\<close>

text \<open>\<open>mark_invalid\<close> when there are problems, \<open>mark_analysed\<close> otherwise.\<close>

definition settle_analysis ::
  "string list \<Rightarrow> string \<Rightarrow> ((string, json) dict) option \<Rightarrow> string option \<Rightarrow> datetime
    \<Rightarrow> catalog_template \<Rightarrow> catalog_template result" where
  "settle_analysis problems prompt_template analysis analysis_model now t =
     (if problems \<noteq> [] then CatalogTemplate_mark_invalid (join ''; '' problems) now t
      else CatalogTemplate_mark_analysed prompt_template analysis analysis_model now t)"

definition CreateAuthoredTemplate ::
  "uuid \<Rightarrow> uuid \<Rightarrow> uuid \<Rightarrow> uuid \<Rightarrow> string \<Rightarrow> string \<Rightarrow> uuid \<Rightarrow> datetime \<Rightarrow> catalog_template use_case" where
  "CreateAuthoredTemplate new_id audit_id tenant_id catalog_image_slot_id name prompt_template actor_user_id now s =
     bind_result (require (NotFoundError ''Catalog image slot not found.'')
         (catalog_slot_get tenant_id catalog_image_slot_id s)) (\<lambda>catalog_slot.
     let version = next_version tenant_id catalog_image_slot_id name s;
         template = CatalogTemplate_create_authored new_id tenant_id catalog_image_slot_id name prompt_template
           actor_user_id now version False 0
     in bind_result (template_add template s) (\<lambda>s1.
     bind_result (SpecSnapshotBuilder_build tenant_id (cis_category_id catalog_slot) s1) (\<lambda>snapshot.
     let problems = validate_template_placeholders snapshot (uuid_str catalog_image_slot_id) prompt_template
     in bind_result (CatalogTemplate_start_analysing now template) (\<lambda>template.
     bind_result (settle_analysis problems prompt_template None None now template) (\<lambda>template.
     bind_result (audit_record audit_id tenant_id (Some actor_user_id) ''catalog_template.created''
         ''catalog_template'' (ct_id template) None
         (Some [(''kind'', JStr ''authored_scene''), (''status'', JStr (template_status_value (ct_status template))),
                (''version'', JInt version)]) now (template_update template s1)) (\<lambda>s2.
       Inr (template, s2)))))))"

definition DEFAULT_STOCK_SCENE_PRESETS :: "(string \<times> string) list" where
  "DEFAULT_STOCK_SCENE_PRESETS =
    [(''Studio flatlay'',
      ''A clean flat-lay composition on a seamless white studio surface, ''
      @ ''soft diffused overhead daylight, minimal shadow, straight-down camera angle.''),
     (''Marble tabletop'',
      ''Resting on a polished white marble surface, soft natural light from ''
      @ ''the left, shallow depth of field, slight warm colour grade.''),
     (''Linen backdrop'',
      ''Draped against a neutral linen backdrop, warm late-afternoon light, ''
      @ ''gentle diagonal composition, soft grain.''),
     (''Outdoor natural light'',
      ''Photographed outdoors in open shade, soft natural daylight, ''
      @ ''softly blurred greenery in the background, eye-level camera angle.'')]"

definition seed_one ::
  "(nat \<Rightarrow> uuid) \<Rightarrow> uuid \<Rightarrow> uuid \<Rightarrow> uuid \<Rightarrow> spec_snapshot \<Rightarrow> datetime \<Rightarrow> nat \<times> string \<times> string
    \<Rightarrow> catalog_template list \<times> db \<Rightarrow> (catalog_template list \<times> db) result" where
  "seed_one new_ids tenant_id catalog_image_slot_id actor_user_id snapshot now preset w =
     (case (preset, w) of ((position, name, prompt_template), (seeded, s)) \<Rightarrow>
       let version = next_version tenant_id catalog_image_slot_id name s;
           template = CatalogTemplate_create_authored (new_ids position) tenant_id catalog_image_slot_id name
             prompt_template actor_user_id now version False (int position)
       in bind_result (template_add template s) (\<lambda>s1.
          let problems = validate_template_placeholders snapshot (uuid_str catalog_image_slot_id) prompt_template
          in bind_result (CatalogTemplate_start_analysing now template) (\<lambda>template.
             bind_result (settle_analysis problems prompt_template None None now template) (\<lambda>template.
               Inr (seeded @ [template], template_update template s1)))))"

definition SeedStockPresets ::
  "(nat \<Rightarrow> uuid) \<Rightarrow> uuid \<Rightarrow> uuid \<Rightarrow> uuid \<Rightarrow> uuid \<Rightarrow> (string \<times> string) list \<Rightarrow> datetime
    \<Rightarrow> catalog_template list use_case" where
  "SeedStockPresets new_ids audit_id tenant_id catalog_image_slot_id actor_user_id presets now s =
     bind_result (require (NotFoundError ''Catalog image slot not found.'')
         (catalog_slot_get tenant_id catalog_image_slot_id s)) (\<lambda>catalog_slot.
     bind_result (SpecSnapshotBuilder_build tenant_id (cis_category_id catalog_slot) s) (\<lambda>snapshot.
     bind_result (fold_result (seed_one new_ids tenant_id catalog_image_slot_id actor_user_id snapshot now)
         (enumerate 0 presets) ([], s)) (\<lambda>(seeded, s1).
     bind_result (audit_record audit_id tenant_id (Some actor_user_id) ''catalog_template.stock_presets_seeded''
         ''catalog_image_slot'' catalog_image_slot_id None
         (Some [(''count'', JInt (int (length seeded)))]) now s1) (\<lambda>s2.
       Inr (seeded, s2)))))"

section \<open>Templates analysed from a picture\<close>

definition CreateTemplateFromUpload ::
  "uuid \<Rightarrow> uuid \<Rightarrow> uuid \<Rightarrow> uuid \<Rightarrow> string \<Rightarrow> uuid \<Rightarrow> uuid \<Rightarrow> datetime \<Rightarrow> catalog_template use_case" where
  "CreateTemplateFromUpload new_id audit_id tenant_id catalog_image_slot_id name source_asset_id actor_user_id now s =
     bind_result (require (NotFoundError ''Catalog image slot not found.'')
         (catalog_slot_get tenant_id catalog_image_slot_id s)) (\<lambda>catalog_slot.
     bind_result (require (NotFoundError ''Source asset not found.'') (asset_get tenant_id source_asset_id s)) (\<lambda>asset.
     bind_result (ensure (asset_kind asset = ASSET_TEMPLATE)
         (ValidationError ''Source asset must be an uploaded template image.'')) (\<lambda>_.
     let version = next_version tenant_id catalog_image_slot_id name s;
         template = CatalogTemplate_create_from_upload new_id tenant_id catalog_image_slot_id name source_asset_id
           actor_user_id now version False 0
     in bind_result (template_add template s) (\<lambda>s1.
        bind_result (audit_record audit_id tenant_id (Some actor_user_id) ''catalog_template.created''
            ''catalog_template'' (ct_id template) None
            (Some [(''kind'', JStr ''analysed_image''), (''status'', JStr (template_status_value (ct_status template))),
                   (''version'', JInt version)]) now s1) (\<lambda>s2.
          Inr (template, s2))))))"

record template_analysis_context =
  tac_template_id :: uuid
  tac_category_id :: uuid
  tac_storage_key :: string
  tac_mime :: string

definition NOT_ANALYSABLE :: exn where
  "NOT_ANALYSABLE = ValidationError ''Only an analysed_image template with a source asset can be analysed.''"

definition StartTemplateAnalysis :: "uuid \<Rightarrow> uuid \<Rightarrow> datetime \<Rightarrow> template_analysis_context use_case" where
  "StartTemplateAnalysis tenant_id template_id now s =
     bind_result (require (NotFoundError ''Template not found.'') (template_get tenant_id template_id s)) (\<lambda>template.
     (case ct_source_asset_id template of
        None \<Rightarrow> Inl NOT_ANALYSABLE
      | Some source_asset_id \<Rightarrow>
          if ct_kind template \<noteq> TPL_ANALYSED_IMAGE then Inl NOT_ANALYSABLE
          else
          bind_result (require (NotFoundError ''Catalog image slot not found.'')
              (catalog_slot_get tenant_id (ct_catalog_image_slot_id template) s)) (\<lambda>catalog_slot.
          bind_result (require (NotFoundError ''Source asset not found.'') (asset_get tenant_id source_asset_id s)) (\<lambda>asset.
          bind_result (CatalogTemplate_start_analysing now template) (\<lambda>template.
            Inr (\<lparr>tac_template_id = ct_id template, tac_category_id = cis_category_id catalog_slot,
                  tac_storage_key = asset_storage_key asset, tac_mime = asset_mime asset\<rparr>,
                 template_update template s))))))"

definition CompleteTemplateAnalysis ::
  "uuid \<Rightarrow> uuid \<Rightarrow> uuid \<Rightarrow> uuid \<Rightarrow> ((string, json) dict) option \<Rightarrow> string \<Rightarrow> string option \<Rightarrow> datetime
    \<Rightarrow> catalog_template use_case" where
  "CompleteTemplateAnalysis audit_id tenant_id template_id category_id analysis prompt_template analysis_model now s =
     bind_result (require (NotFoundError ''Template not found.'') (template_get tenant_id template_id s)) (\<lambda>template0.
     bind_result (SpecSnapshotBuilder_build tenant_id category_id s) (\<lambda>snapshot.
     let problems = validate_template_placeholders snapshot (uuid_str (ct_catalog_image_slot_id template0)) prompt_template
     in bind_result (settle_analysis problems prompt_template analysis analysis_model now template0) (\<lambda>template.
        bind_result (audit_record audit_id tenant_id None ''catalog_template.analysis_completed''
            ''catalog_template'' (ct_id template)
            (Some [(''status'', JStr (template_status_value (ct_status template0)))])
            (Some [(''status'', JStr (template_status_value (ct_status template)))]) now (template_update template s)) (\<lambda>s1.
          Inr (template, s1)))))"

definition FailTemplateAnalysis :: "uuid \<Rightarrow> uuid \<Rightarrow> uuid \<Rightarrow> string \<Rightarrow> datetime \<Rightarrow> catalog_template use_case" where
  "FailTemplateAnalysis audit_id tenant_id template_id reason now s =
     bind_result (require (NotFoundError ''Template not found.'') (template_get tenant_id template_id s)) (\<lambda>template.
     bind_result (CatalogTemplate_mark_analysis_failed reason now template) (\<lambda>template.
     bind_result (audit_record audit_id tenant_id None ''catalog_template.analysis_failed''
         ''catalog_template'' (ct_id template) (Some [(''status'', JStr ''analysing'')])
         (Some [(''status'', JStr ''analysis_failed''), (''reason'', JStr reason)]) now (template_update template s)) (\<lambda>s1.
       Inr (template, s1))))"

definition ArchiveTemplate :: "uuid \<Rightarrow> uuid \<Rightarrow> datetime \<Rightarrow> catalog_template use_case" where
  "ArchiveTemplate tenant_id template_id now s =
     bind_result (require (NotFoundError ''Template not found.'') (template_get tenant_id template_id s)) (\<lambda>template.
     bind_result (CatalogTemplate_archive now template) (\<lambda>template.
       Inr (template, template_update template s)))"

definition ListTemplates :: "uuid \<Rightarrow> uuid \<Rightarrow> db \<Rightarrow> catalog_template list" where
  "ListTemplates tenant_id catalog_image_slot_id s = templates_list_for_catalog_slot tenant_id catalog_image_slot_id s"

text \<open>What a vision provider answers.\<close>

record template_analysis =
  tan_analysis :: "(string, json) dict"
  tan_prompt_template :: string
  tan_model :: string

text \<open>
  \<open>analyse\<close> stands for reading the picture and asking the provider: an exception's text, or an analysis.
\<close>

definition TemplateAnalysisAgent_run ::
  "(string \<Rightarrow> string \<Rightarrow> string + template_analysis) \<Rightarrow> (nat \<Rightarrow> datetime) \<Rightarrow> uuid \<Rightarrow> uuid \<Rightarrow> uuid \<Rightarrow> db
    \<Rightarrow> catalog_template result \<times> db" where
  "TemplateAnalysisAgent_run analyse time audit_id tenant_id template_id s =
     (case run_uow (StartTemplateAnalysis tenant_id template_id (time 0)) s of
        (Inl e, s1) \<Rightarrow> (Inl e, s1)
      | (Inr ctx, s1) \<Rightarrow>
          (case analyse (tac_storage_key ctx) (tac_mime ctx) of
             Inl reason \<Rightarrow> run_uow (FailTemplateAnalysis audit_id tenant_id (tac_template_id ctx) reason (time 1)) s1
           | Inr result \<Rightarrow> run_uow (CompleteTemplateAnalysis audit_id tenant_id (tac_template_id ctx) (tac_category_id ctx)
               (Some (tan_analysis result)) (tan_prompt_template result) (Some (tan_model result)) (time 1)) s1))"

end
