(* ===== verification/Assets.thy ===== *)
theory Assets
  imports Generation Access
begin

text \<open>
  Files and uploads: infrastructure/storage/local\_object\_storage.py, services/image\_inspection.py,
  features/assets/*.py and the upload and download routes of api/routers/webhooks.py. The files lie
  beside the database and are not part of its transactions, so an operation here returns its result
  together with what it left behind. Pillow's decoding, the SHA-256 digest, the moderation service and
  the signatures of JSON web tokens are arguments.
\<close>

section \<open>The file store\<close>

type_synonym bytes = "8 word list"
type_synonym path = "string list"
type_synonym files = "(path, bytes) dict"

text \<open>
  \<open>Path(root) / key\<close> resolved: the root is a resolved path and the tree holds no symbolic links, so
  a \<open>..\<close> removes the component before it.
\<close>

definition path_step :: "string \<Rightarrow> path \<Rightarrow> path" where
  "path_step c p = (if c = ''..'' then butlast p else p @ [c])"

definition resolve_path :: "path \<Rightarrow> string \<Rightarrow> path" where
  "resolve_path root_dir key =
     fold path_step (filter (\<lambda>c. c \<noteq> [] \<and> c \<noteq> ''.'') (split_on (CHR ''/'') key))
       (if starts_with ''/'' key then [] else root_dir)"

definition path_for :: "path \<Rightarrow> string \<Rightarrow> path result" where
  "path_for root_dir storage_key =
     (let candidate = resolve_path root_dir storage_key in
      if take (length root_dir) candidate = root_dir then Inr candidate
      else Inl (ValidationError ''Storage key resolves outside the storage root.''))"

definition storage_read :: "path \<Rightarrow> string \<Rightarrow> files \<Rightarrow> bytes result" where
  "storage_read root_dir storage_key fs =
     bind_result (path_for root_dir storage_key) (\<lambda>p.
       require (NotFoundError (''No object at storage key '' @ py_repr storage_key @ ''.'')) (map_of fs p))"

text \<open>
  Writing needs directories above the file and none in its place; removing a missing file is no error.
\<close>

definition strictly_below :: "path \<Rightarrow> path \<Rightarrow> bool" where
  "strictly_below p q \<longleftrightarrow> length p < length q \<and> take (length p) q = p"

definition is_directory :: "path \<Rightarrow> path \<Rightarrow> files \<Rightarrow> bool" where
  "is_directory root_dir p fs \<longleftrightarrow> p = root_dir \<or> strictly_below p root_dir \<or> (\<exists>q \<in> fst ` set fs. strictly_below p q)"

definition storage_write :: "path \<Rightarrow> string \<Rightarrow> bytes \<Rightarrow> files \<Rightarrow> files result" where
  "storage_write root_dir storage_key data fs =
     bind_result (path_for root_dir storage_key) (\<lambda>p.
       if is_directory root_dir p fs then Inl (OSError ''Is a directory'')
       else if \<exists>q \<in> fst ` set fs. strictly_below q p then Inl (OSError ''Not a directory'')
       else Inr (dict_set p data fs))"

definition storage_delete :: "path \<Rightarrow> string \<Rightarrow> files \<Rightarrow> files result" where
  "storage_delete root_dir storage_key fs =
     bind_result (path_for root_dir storage_key) (\<lambda>p.
       if is_directory root_dir p fs then Inl (OSError ''Is a directory'')
       else if \<exists>q \<in> fst ` set fs. strictly_below q p then Inl (OSError ''Not a directory'')
       else Inr (filter (\<lambda>e. fst e \<noteq> p) fs))"

section \<open>Presigned tokens\<close>

record presign_payload =
  ps_storage_key :: string
  ps_purpose :: string
  ps_iss :: string
  ps_iat :: int
  ps_exp :: int
  ps_content_type :: "string option"
  ps_max_bytes :: "int option"
  ps_tenant_id :: "string option"
  ps_kind :: "string option"
  ps_uploaded_by :: "string option"

definition STORAGE_ISSUER :: string where "STORAGE_ISSUER = ''softbox-ai-local-object-storage''"

text \<open>
  \<open>jwt_encode\<close> signs a payload; \<open>jwt_decode\<close> gives it back if the signature is right; \<open>jwt_valid\<close> is
  the registry's check of \<open>exp\<close> and \<open>iss\<close> at a time.
\<close>

definition PresignTokenCodec_encode ::
  "(presign_payload \<Rightarrow> string) \<Rightarrow> string \<Rightarrow> string \<Rightarrow> datetime \<Rightarrow> timedelta \<Rightarrow> string option \<Rightarrow> int option
    \<Rightarrow> string option \<Rightarrow> string option \<Rightarrow> string option \<Rightarrow> string" where
  "PresignTokenCodec_encode jwt_encode storage_key purpose now expires_in content_type max_bytes tenant_id kind
      uploaded_by =
     jwt_encode \<lparr>ps_storage_key = storage_key, ps_purpose = purpose, ps_iss = STORAGE_ISSUER,
       ps_iat = timestamp now, ps_exp = timestamp (now + expires_in), ps_content_type = content_type,
       ps_max_bytes = max_bytes, ps_tenant_id = tenant_id, ps_kind = kind, ps_uploaded_by = uploaded_by\<rparr>"

definition PresignTokenCodec_decode ::
  "(string \<Rightarrow> presign_payload option) \<Rightarrow> (int \<Rightarrow> string \<Rightarrow> presign_payload \<Rightarrow> bool) \<Rightarrow> string \<Rightarrow> string \<Rightarrow> datetime
    \<Rightarrow> presign_payload result" where
  "PresignTokenCodec_decode jwt_decode jwt_valid token purpose now =
     (case jwt_decode token of
        None \<Rightarrow> Inl (ValidationError ''Invalid or expired upload token.'')
      | Some p \<Rightarrow>
          if \<not> jwt_valid (timestamp now) STORAGE_ISSUER p
          then Inl (ValidationError ''Invalid or expired upload token.'')
          else if ps_purpose p \<noteq> purpose
          then Inl (ValidationError ''Upload token is not valid for this operation.'')
          else Inr p)"

text \<open>\<open>uuid4()\<close> is an argument.\<close>

definition new_storage_key :: "uuid \<Rightarrow> uuid \<Rightarrow> string \<Rightarrow> string \<Rightarrow> string" where
  "new_storage_key drawn tenant_id kind extension =
     ''tenants/'' @ uuid_str tenant_id @ ''/'' @ kind @ ''/'' @ uuid_str drawn @ ''.''
       @ dropWhile (\<lambda>c. c = CHR ''.'') extension"

record presigned_upload =
  pu_url :: string
  pu_method :: string
  pu_headers :: "(string, string) dict"
  pu_storage_key :: string
  pu_expires_at :: datetime

record upload_claims =
  uc_tenant_id :: uuid
  uc_storage_key :: string
  uc_kind :: string
  uc_uploaded_by :: uuid

definition presign_put ::
  "(presign_payload \<Rightarrow> string) \<Rightarrow> string \<Rightarrow> uuid \<Rightarrow> string \<Rightarrow> string \<Rightarrow> uuid \<Rightarrow> string \<Rightarrow> int \<Rightarrow> datetime \<Rightarrow> timedelta
    \<Rightarrow> presigned_upload" where
  "presign_put jwt_encode base_url tenant_id storage_key kind uploaded_by content_type max_bytes now expires_in =
     \<lparr>pu_url = base_url @ ''/api/v1/webhooks/uploads/'' @ PresignTokenCodec_encode jwt_encode storage_key ''put''
        now expires_in (Some content_type) (Some max_bytes) (Some (uuid_str tenant_id)) (Some kind)
        (Some (uuid_str uploaded_by)),
      pu_method = ''PUT'', pu_headers = [(''Content-Type'', content_type)], pu_storage_key = storage_key,
      pu_expires_at = now + expires_in\<rparr>"

definition presign_get ::
  "(presign_payload \<Rightarrow> string) \<Rightarrow> string \<Rightarrow> string \<Rightarrow> string \<Rightarrow> datetime \<Rightarrow> timedelta \<Rightarrow> string" where
  "presign_get jwt_encode base_url storage_key content_type now expires_in =
     base_url @ ''/api/v1/webhooks/uploads/'' @ PresignTokenCodec_encode jwt_encode storage_key ''get'' now expires_in
       (Some content_type) None None None None"

definition claims_from :: "presign_payload \<Rightarrow> upload_claims result" where
  "claims_from p =
     bind_result (require (KeyError ''tenant_id'') (ps_tenant_id p)) (\<lambda>t.
     bind_result (uuid_parse t) (\<lambda>tenant_id.
     bind_result (require (KeyError ''kind'') (ps_kind p)) (\<lambda>kind.
     bind_result (require (KeyError ''uploaded_by'') (ps_uploaded_by p)) (\<lambda>u.
     bind_result (uuid_parse u) (\<lambda>uploaded_by.
       Inr \<lparr>uc_tenant_id = tenant_id, uc_storage_key = ps_storage_key p, uc_kind = kind,
            uc_uploaded_by = uploaded_by\<rparr>)))))"

text \<open>The store with its root and the functions that stand for the JSON web tokens.\<close>

record storage_config =
  st_root :: path
  st_base_url :: string
  st_jwt_encode :: "presign_payload \<Rightarrow> string"
  st_jwt_decode :: "string \<Rightarrow> presign_payload option"
  st_jwt_valid :: "int \<Rightarrow> string \<Rightarrow> presign_payload \<Rightarrow> bool"

definition token_decode :: "storage_config \<Rightarrow> string \<Rightarrow> string \<Rightarrow> datetime \<Rightarrow> presign_payload result" where
  "token_decode cfg = PresignTokenCodec_decode (st_jwt_decode cfg) (st_jwt_valid cfg)"

definition peek_upload :: "storage_config \<Rightarrow> string \<Rightarrow> datetime \<Rightarrow> (upload_claims \<times> int) result" where
  "peek_upload cfg token now =
     bind_result (token_decode cfg token ''put'' now) (\<lambda>p.
     bind_result (claims_from p) (\<lambda>c.
       Inr (c, case ps_max_bytes p of None \<Rightarrow> 0 | Some n \<Rightarrow> n)))"

definition accept_upload :: "storage_config \<Rightarrow> string \<Rightarrow> bytes \<Rightarrow> datetime \<Rightarrow> files \<Rightarrow> (upload_claims \<times> files) result" where
  "accept_upload cfg token data now fs =
     bind_result (token_decode cfg token ''put'' now) (\<lambda>p.
     bind_result (ensure (case ps_max_bytes p of None \<Rightarrow> True | Some n \<Rightarrow> int (length data) \<le> n)
         (ValidationError ''Upload exceeds the size declared when it was requested.'')) (\<lambda>_.
     bind_result (claims_from p) (\<lambda>c.
     bind_result (storage_write (st_root cfg) (uc_storage_key c) data fs) (\<lambda>fs'. Inr (c, fs')))))"

record downloaded_object =
  do_data :: bytes
  do_content_type :: string

definition resolve_download :: "storage_config \<Rightarrow> string \<Rightarrow> datetime \<Rightarrow> files \<Rightarrow> downloaded_object result" where
  "resolve_download cfg token now fs =
     bind_result (token_decode cfg token ''get'' now) (\<lambda>p.
     bind_result (storage_read (st_root cfg) (ps_storage_key p) fs) (\<lambda>data.
     bind_result (require (KeyError ''content_type'') (ps_content_type p)) (\<lambda>ty.
       Inr \<lparr>do_data = data, do_content_type = ty\<rparr>)))"

section \<open>Inspection\<close>

text \<open>\<open>decode\<close> is Pillow: the format and the size of a readable image.\<close>

type_synonym pillow = "bytes \<Rightarrow> (string option \<times> int \<times> int) option"

definition FORMAT_TO_MIME :: "(string, string) dict" where
  "FORMAT_TO_MIME = [(''JPEG'', ''image/jpeg''), (''PNG'', ''image/png''), (''WEBP'', ''image/webp'')]"

definition inspect_image :: "pillow \<Rightarrow> bytes \<Rightarrow> image_inspection result" where
  "inspect_image decode data =
     (case decode data of
        None \<Rightarrow> Inl (ValidationError ''File is not a readable image.'')
      | Some (fmt, width, height) \<Rightarrow>
          (case map_of FORMAT_TO_MIME (case fmt of None \<Rightarrow> [] | Some f \<Rightarrow> f) of
             None \<Rightarrow> Inl (ValidationError (''Unsupported image format: ''
                    @ (case fmt of None \<Rightarrow> ''None'' | Some f \<Rightarrow> py_repr f) @ ''.''))
           | Some mime \<Rightarrow> Inr \<lparr>ins_mime = mime, ins_width = width, ins_height = height\<rparr>))"

section \<open>Use cases\<close>

definition UPLOADABLE_ASSET_KINDS :: "asset_kind list" where
  "UPLOADABLE_ASSET_KINDS = [ASSET_TEMPLATE, ASSET_INPUT]"

definition UPLOAD_MAX_BYTES :: int where "UPLOAD_MAX_BYTES = 20000000"
definition UPLOAD_MAX_DIMENSION :: int where "UPLOAD_MAX_DIMENSION = 8000"
definition PRESIGN_EXPIRES_IN :: timedelta where "PRESIGN_EXPIRES_IN = minutes 15"

definition not_uploadable :: "asset_kind \<Rightarrow> exn" where
  "not_uploadable kind =
     ValidationError (''Kind '' @ quoted (asset_kind_value kind) @ '' cannot be uploaded directly.'')"

definition RequestUpload ::
  "storage_config \<Rightarrow> uuid \<Rightarrow> uuid \<Rightarrow> asset_kind \<Rightarrow> string \<Rightarrow> string \<Rightarrow> uuid \<Rightarrow> datetime \<Rightarrow> presigned_upload result" where
  "RequestUpload cfg drawn tenant_id kind extension content_type uploaded_by now =
     bind_result (ensure (kind \<in> set UPLOADABLE_ASSET_KINDS) (not_uploadable kind)) (\<lambda>_.
       Inr (presign_put (st_jwt_encode cfg) (st_base_url cfg) tenant_id
         (new_storage_key drawn tenant_id (asset_kind_value kind) extension) (asset_kind_value kind)
         uploaded_by content_type UPLOAD_MAX_BYTES now PRESIGN_EXPIRES_IN))"

definition RequestDownload :: "storage_config \<Rightarrow> uuid \<Rightarrow> uuid \<Rightarrow> datetime \<Rightarrow> db \<Rightarrow> string result" where
  "RequestDownload cfg tenant_id wanted now s =
     bind_result (require (NotFoundError ''Asset not found.'') (asset_get tenant_id wanted s)) (\<lambda>a.
       Inr (presign_get (st_jwt_encode cfg) (st_base_url cfg) (asset_storage_key a) (asset_mime a) now
         PRESIGN_EXPIRES_IN))"

text \<open>The moderation service's verdict, and the scanner configured today.\<close>

record moderation_verdict =
  mv_is_safe :: bool
  mv_reason :: "string option"

definition NullContentModerationScanner_scan :: "bytes \<Rightarrow> string \<Rightarrow> moderation_verdict result" where
  "NullContentModerationScanner_scan data mime = Inr \<lparr>mv_is_safe = True, mv_reason = None\<rparr>"

record upload_services =
  us_decode :: pillow
  us_scan :: "bytes \<Rightarrow> string \<Rightarrow> moderation_verdict result"
  us_sha256 :: "bytes \<Rightarrow> string"

text \<open>\<open>delete\<close>, then \<open>raise\<close>.\<close>

definition reject_upload :: "storage_config \<Rightarrow> string \<Rightarrow> exn \<Rightarrow> db \<times> files \<Rightarrow> asset result \<times> db \<times> files" where
  "reject_upload cfg storage_key e w =
     (case storage_delete (st_root cfg) storage_key (snd w) of
        Inl e' \<Rightarrow> (Inl e', w)
      | Inr fs \<Rightarrow> (Inl e, fst w, fs))"

definition register_upload ::
  "storage_config \<Rightarrow> uuid \<Rightarrow> uuid \<Rightarrow> uuid \<Rightarrow> string \<Rightarrow> asset_kind \<Rightarrow> uuid \<Rightarrow> string \<Rightarrow> int \<Rightarrow> image_inspection \<Rightarrow> datetime
    \<Rightarrow> db \<times> files \<Rightarrow> asset result \<times> db \<times> files" where
  "register_upload cfg new_id audit_id tenant_id storage_key kind uploaded_by sha256 nbytes inspection now w =
     (case w of (s, fs) \<Rightarrow>
       (case asset_get_by_sha256 tenant_id sha256 kind s of
          Inl e \<Rightarrow> (Inl e, s, fs)
        | Inr (Some existing) \<Rightarrow>
            (case storage_delete (st_root cfg) storage_key fs of
               Inl e \<Rightarrow> (Inl e, s, fs)
             | Inr fs' \<Rightarrow> (Inr existing, s, fs'))
        | Inr None \<Rightarrow>
            (case run_uow (\<lambda>s.
               bind_result (Asset_create new_id tenant_id storage_key sha256 (ins_mime inspection)
                 (ins_width inspection) (ins_height inspection) nbytes kind ''upload'' now None None
                 (Some uploaded_by)) (\<lambda>a.
               bind_result (asset_add a s) (\<lambda>s1.
               bind_result (audit_record audit_id tenant_id (Some uploaded_by) ''asset.uploaded'' ''asset'' (asset_id a)
                 None (Some [(''kind'', JStr (asset_kind_value kind)), (''sha256'', JStr sha256)]) now s1) (\<lambda>s2.
                 Inr (a, s2))))) s of
               (r, s') \<Rightarrow> (r, s', fs))))"

definition VerifyAndRegisterUpload ::
  "storage_config \<Rightarrow> upload_services \<Rightarrow> uuid \<Rightarrow> uuid \<Rightarrow> uuid \<Rightarrow> string \<Rightarrow> asset_kind \<Rightarrow> uuid \<Rightarrow> datetime
    \<Rightarrow> db \<times> files \<Rightarrow> asset result \<times> db \<times> files" where
  "VerifyAndRegisterUpload cfg sv new_id audit_id tenant_id storage_key kind uploaded_by now w =
     (if kind \<notin> set UPLOADABLE_ASSET_KINDS then (Inl (not_uploadable kind), w)
      else (case storage_read (st_root cfg) storage_key (snd w) of
        Inl e \<Rightarrow> (Inl e, w)
      | Inr data \<Rightarrow>
          if int (length data) > UPLOAD_MAX_BYTES
          then reject_upload cfg storage_key (ValidationError ''Upload exceeds the maximum allowed size.'') w
          else (case inspect_image (us_decode sv) data of
            Inl e \<Rightarrow> reject_upload cfg storage_key e w
          | Inr inspection \<Rightarrow>
              if ins_width inspection > UPLOAD_MAX_DIMENSION \<or> ins_height inspection > UPLOAD_MAX_DIMENSION
              then reject_upload cfg storage_key (ValidationError ''Image dimensions exceed the maximum allowed.'') w
              else (case us_scan sv data (ins_mime inspection) of
                Inl e \<Rightarrow> (Inl e, w)
              | Inr verdict \<Rightarrow>
                  if \<not> mv_is_safe verdict
                  then reject_upload cfg storage_key (ValidationError (''Upload rejected by content moderation: ''
                         @ (case mv_reason verdict of None \<Rightarrow> ''None'' | Some r \<Rightarrow> r))) w
                  else register_upload cfg new_id audit_id tenant_id storage_key kind uploaded_by
                         (us_sha256 sv data) (int (length data)) inspection now w))))"

section \<open>The routes\<close>

definition asset_kind_of :: "string \<Rightarrow> asset_kind option" where
  "asset_kind_of v = find (\<lambda>k. asset_kind_value k = v) [ASSET_TEMPLATE, ASSET_INPUT, ASSET_GENERATED, ASSET_DERIVATIVE]"

text \<open>
  \<open>declared\<close> is the content-length header when it is a number; \<open>now\<close> the time of the token's checks and
  \<open>later\<close> that of the registration.
\<close>

definition receive_upload ::
  "storage_config \<Rightarrow> upload_services \<Rightarrow> uuid \<Rightarrow> uuid \<Rightarrow> string \<Rightarrow> int option \<Rightarrow> bytes \<Rightarrow> datetime \<Rightarrow> datetime
    \<Rightarrow> db \<times> files \<Rightarrow> asset result \<times> db \<times> files" where
  "receive_upload cfg sv new_id audit_id token declared body now later w =
     (case peek_upload cfg token now of
        Inl e \<Rightarrow> (Inl e, w)
      | Inr (claims, max_bytes) \<Rightarrow>
          if (case declared of None \<Rightarrow> False | Some n \<Rightarrow> n > max_bytes) \<or> int (length body) > max_bytes
          then (Inl (ValidationError ''Upload exceeds the size declared when it was requested.''), w)
          else (case accept_upload cfg token body now (snd w) of
            Inl e \<Rightarrow> (Inl e, w)
          | Inr (_, fs) \<Rightarrow>
              (case asset_kind_of (uc_kind claims) of
                 None \<Rightarrow> (Inl (ValidationError (''Unknown asset kind '' @ py_repr (uc_kind claims)
                        @ '' in upload token.'')), fst w, fs)
               | Some kind \<Rightarrow> VerifyAndRegisterUpload cfg sv new_id audit_id (uc_tenant_id claims)
                   (uc_storage_key claims) kind (uc_uploaded_by claims) later (fst w, fs))))"

definition download_asset :: "storage_config \<Rightarrow> string \<Rightarrow> datetime \<Rightarrow> files \<Rightarrow> downloaded_object result" where
  "download_asset cfg token now fs = resolve_download cfg token now fs"

end
