(* ===== verification/Assets_Protocol.thy ===== *)
theory Assets_Protocol
  imports Assets Generation_Protocol Json_Text
begin

text \<open>
  What the upload and download flow promises, and where it does not hold: the contract of an object
  store, interpreted by the local file store; rows and files agree as long as every upload goes to a
  place of its own; a token used twice, or an extension with a path in it, breaks that.
\<close>

section \<open>The contract of an object store\<close>

locale object_store =
  fixes place :: "string \<Rightarrow> 'p"
    and fetch :: "string \<Rightarrow> 'f \<Rightarrow> bytes result"
    and store :: "string \<Rightarrow> bytes \<Rightarrow> 'f \<Rightarrow> 'f result"
    and discard :: "string \<Rightarrow> 'f \<Rightarrow> 'f result"
  assumes fetch_store: "store k d fs = Inr fs' \<Longrightarrow> fetch k' fs' = (if place k' = place k then Inr d else fetch k' fs)"
    and fetch_discard: "discard k fs = Inr fs' \<Longrightarrow> place k' \<noteq> place k \<Longrightarrow> fetch k' fs' = fetch k' fs"
    and discard_gone: "discard k fs = Inr fs' \<Longrightarrow> \<exists>e. fetch k fs' = Inl e"
begin

text \<open>Each of the given keys and digests has its bytes in the store.\<close>

definition backs :: "(bytes \<Rightarrow> string) \<Rightarrow> (string \<times> string) set \<Rightarrow> 'f \<Rightarrow> bool" where
  "backs digest ks fs \<longleftrightarrow> (\<forall>(k, h) \<in> ks. \<exists>d. fetch k fs = Inr d \<and> digest d = h)"

lemma backs_elsewhere:
  "\<lbrakk>backs digest ks fs; \<forall>(k', h) \<in> ks. place k' \<noteq> place k; \<forall>k'. place k' \<noteq> place k \<longrightarrow> fetch k' fs' = fetch k' fs\<rbrakk>
   \<Longrightarrow> backs digest ks fs'"
  by (fastforce simp: backs_def)

lemma backs_store:
  "\<lbrakk>backs digest ks fs; \<forall>(k', h) \<in> ks. place k' \<noteq> place k; store k d fs = Inr fs'\<rbrakk>
   \<Longrightarrow> backs digest (insert (k, digest d) ks) fs'"
  by (fastforce simp: backs_def fetch_store)

lemma lost: "\<lbrakk>discard k fs = Inr fs'; (k, h) \<in> ks\<rbrakk> \<Longrightarrow> \<not> backs digest ks fs'"
  using discard_gone [of k fs fs'] by (fastforce simp: backs_def)

end

lemma map_of_filter_fst: "map_of (filter (\<lambda>e. fst e \<noteq> p) fs) q = (if q = p then None else map_of fs q)"
  by (induction fs) auto

interpretation local: object_store "path_for R" "storage_read R" "storage_write R" "storage_delete R" for R
proof unfold_locales
  show "storage_read R k' fs' = (if path_for R k' = path_for R k then Inr d else storage_read R k' fs)"
    if "storage_write R k d fs = Inr fs'" for k d fs fs' k'
    using that by (cases "path_for R k'")
      (auto simp: storage_write_def storage_read_def bind_result_eq_Inr update_conv' require_def split: if_splits)
  show "storage_read R k' fs' = storage_read R k' fs"
    if "storage_delete R k fs = Inr fs'" "path_for R k' \<noteq> path_for R k" for k fs fs' k'
    using that by (cases "path_for R k'")
      (auto simp: storage_delete_def storage_read_def bind_result_eq_Inr map_of_filter_fst require_def split: if_splits)
  show "\<exists>e. storage_read R k fs' = Inl e" if "storage_delete R k fs = Inr fs'" for k fs fs'
    using that by (auto simp: storage_delete_def storage_read_def bind_result_eq_Inr map_of_filter_fst split: if_splits)
qed

text \<open>Every row of the asset table has its bytes, with its digest.\<close>

definition files_back_assets :: "storage_config \<Rightarrow> (bytes \<Rightarrow> string) \<Rightarrow> db \<Rightarrow> files \<Rightarrow> bool" where
  "files_back_assets cfg digest s fs \<longleftrightarrow> (\<forall>a \<in> set (rows (db_assets s)).
     \<exists>d. storage_read (st_root cfg) (asset_storage_key a) fs = Inr d \<and> digest d = asset_sha256 a)"

lemma files_back_assets_backs:
  "files_back_assets cfg digest s fs
     = local.backs (st_root cfg) digest ((\<lambda>a. (asset_storage_key a, asset_sha256 a)) ` set (rows (db_assets s))) fs"
  by (auto simp: files_back_assets_def local.backs_def)

section \<open>What a registration does\<close>

lemma if_Inl: "(if b then Inl e else x) = Inr y \<Longrightarrow> x = Inr y"
  by (simp split: if_splits)

lemma Asset_create_InrD:
  "Asset_create i T k h m wd ht n kind src now p meta u = Inr a \<Longrightarrow> asset_id a = i \<and> asset_tenant_id a = T
     \<and> asset_storage_key a = k \<and> asset_sha256 a = lower h \<and> asset_mime a = m \<and> asset_kind a = kind"
  unfolding Asset_create_def Let_def by (drule if_Inl)+ auto

definition elsewhere :: "storage_config \<Rightarrow> string \<Rightarrow> files \<Rightarrow> files \<Rightarrow> bool" where
  "elsewhere cfg k fs fs' \<longleftrightarrow> (\<forall>k'. path_for (st_root cfg) k' \<noteq> path_for (st_root cfg) k
     \<longrightarrow> storage_read (st_root cfg) k' fs' = storage_read (st_root cfg) k' fs)"

lemma elsewhere_refl [simp]: "elsewhere cfg k fs fs"
  by (simp add: elsewhere_def)

lemma elsewhere_delete: "storage_delete (st_root cfg) k fs = Inr fs' \<Longrightarrow> elsewhere cfg k fs fs'"
  by (simp add: elsewhere_def local.fetch_discard)

lemma reject_upload_result:
  "reject_upload cfg k e w = (r, s', fs') \<Longrightarrow> (\<exists>e. r = Inl e) \<and> s' = fst w \<and> elsewhere cfg k (snd w) fs'"
  by (auto simp: reject_upload_def elsewhere_delete split: sum.splits)

definition registered :: "storage_config \<Rightarrow> (bytes \<Rightarrow> string) \<Rightarrow> uuid \<Rightarrow> string \<Rightarrow> asset_kind \<Rightarrow> bytes
    \<Rightarrow> db \<times> files \<Rightarrow> asset result \<Rightarrow> db \<times> files \<Rightarrow> bool" where
  "registered cfg digest T k kind data w r w' \<longleftrightarrow> elsewhere cfg k (snd w) (snd w')
     \<and> (\<forall>e. r = Inl e \<longrightarrow> fst w' = fst w)
     \<and> (\<forall>a. r = Inr a \<longrightarrow> asset_tenant_id a = T \<and> asset_sha256 a = digest data \<and> asset_kind a = kind
          \<and> (a \<in> set (rows (db_assets (fst w))) \<and> fst w' = fst w
               \<and> storage_delete (st_root cfg) k (snd w) = Inr (snd w')
             \<or> asset_storage_key a = k \<and> rows (db_assets (fst w')) = rows (db_assets (fst w)) @ [a]
               \<and> snd w' = snd w))"

lemma register_upload_result:
  assumes "register_upload cfg i au T k kind u (digest data) n ins now w = (r, w')"
    and "lower (digest data) = digest data"
  shows "registered cfg digest T k kind data w r w'"
proof -
  obtain s fs where w: "w = (s, fs)" by (cases w)
  show ?thesis
  proof (cases "asset_get_by_sha256 T (digest data) kind s")
    case (Inl e)
    with assms w show ?thesis by (auto simp: register_upload_def registered_def)
  next
    case (Inr found)
    show ?thesis
    proof (cases found)
      case (Some a)
      have "a \<in> set (rows (db_assets s)) \<and> asset_tenant_id a = T \<and> asset_sha256 a = lower (digest data) \<and> asset_kind a = kind"
        using scalar_Some [OF Inr [unfolded Some asset_get_by_sha256_def]] by simp
      with assms w Inr Some show ?thesis
        by (auto simp: register_upload_def registered_def elsewhere_delete split: sum.splits)
    next
      case None
      with assms w Inr obtain s' where run: "run_uow (\<lambda>s.
               bind_result (Asset_create i T k (digest data) (ins_mime ins)
                 (ins_width ins) (ins_height ins) n kind ''upload'' now None None (Some u)) (\<lambda>a.
               bind_result (asset_add a s) (\<lambda>s1.
               bind_result (audit_record au T (Some u) ''asset.uploaded'' ''asset'' (asset_id a)
                 None (Some [(''kind'', JStr (asset_kind_value kind)), (''sha256'', JStr (digest data))]) now s1) (\<lambda>s2.
                 Inr (a, s2))))) s = (r, s')" and w': "w' = (s', fs)"
        by (auto simp: register_upload_def split: prod.splits)
      show ?thesis
      proof (cases r)
        case (Inl e)
        with run_uow_rollback [of _ s e s'] run w w' show ?thesis by (auto simp: registered_def)
      next
        case r: (Inr a)
        from run [unfolded r run_uow_Inr] obtain s1 where
          c: "Asset_create i T k (digest data) (ins_mime ins) (ins_width ins) (ins_height ins) n kind ''upload'' now None None (Some u) = Inr a"
          and s1: "asset_add a s = Inr s1" and audit: "audit_record au T (Some u) ''asset.uploaded'' ''asset''
            (asset_id a) None (Some [(''kind'', JStr (asset_kind_value kind)), (''sha256'', JStr (digest data))]) now s1 = Inr s'"
          by (auto simp: bind_result_eq_Inr)
        note s' = audit_record_Inr [OF audit]
        have "asset_storage_key a = k \<and> asset_tenant_id a = T \<and> asset_sha256 a = digest data \<and> asset_kind a = kind"
          using Asset_create_InrD [OF c] assms(2) by simp
        moreover have "rows (db_assets s1) = rows (db_assets s) @ [a]"
          using s1 by (auto simp: asset_add_def bind_result_eq_Inr tbl_add_unique_Inr rows_tbl_add)
        ultimately show ?thesis using r w w' s' by (auto simp: registered_def)
      qed
    qed
  qed
qed

lemma verify_result:
  assumes "VerifyAndRegisterUpload cfg sv i au T k kind u now w = (r, w')"
    and "storage_read (st_root cfg) k (snd w) = Inr data"
    and "lower (us_sha256 sv data) = us_sha256 sv data"
  shows "registered cfg (us_sha256 sv) T k kind data w r w'"
proof -
  have inl: "registered cfg (us_sha256 sv) T k kind data w (Inl e) w" for e
    by (simp add: registered_def)
  have rej: "registered cfg (us_sha256 sv) T k kind data w r w'" if "reject_upload cfg k e w = (r, w')" for e
    using reject_upload_result [of cfg k e w r "fst w'" "snd w'"] that by (auto simp: registered_def)
  have reg: "registered cfg (us_sha256 sv) T k kind data w r w'"
    if "register_upload cfg i au T k kind u (us_sha256 sv data) n ins now w = (r, w')" for n ins
    using register_upload_result [where digest = "us_sha256 sv" and data = data, OF that assms(3)] .
  show ?thesis
    using assms(1,2) inl unfolding VerifyAndRegisterUpload_def
    by (auto split: if_splits sum.splits intro: rej reg)
qed

section \<open>The upload route\<close>

lemma peek_accept:
  assumes "peek_upload cfg token now = Inr (c, n)" and "accept_upload cfg token d now fs = Inr (c', fs')"
  shows "c' = c \<and> storage_write (st_root cfg) (uc_storage_key c) d fs = Inr fs'"
  using assms by (auto simp: peek_upload_def accept_upload_def bind_result_eq_Inr)

lemma token_decode_same:
  "\<lbrakk>token_decode cfg token u t = Inr p; token_decode cfg token u' t' = Inr p'\<rbrakk> \<Longrightarrow> p' = p"
  by (auto simp: token_decode_def PresignTokenCodec_decode_def split: option.splits if_splits)

lemma accept_again:
  assumes "accept_upload cfg token d now fs = Inr (c, fs')" and "peek_upload cfg token now2 = Inr (c, n)"
    and "storage_write (st_root cfg) (uc_storage_key c) d fs1 = Inr fs2"
  shows "accept_upload cfg token d now2 fs1 = Inr (c, fs2)"
proof -
  from assms(1) obtain p where p: "token_decode cfg token ''put'' now = Inr p"
      "case ps_max_bytes p of None \<Rightarrow> True | Some n \<Rightarrow> int (length d) \<le> n" "claims_from p = Inr c"
    by (auto simp: accept_upload_def bind_result_eq_Inr)
  moreover from assms(2) obtain p' where "token_decode cfg token ''put'' now2 = Inr p'"
    by (auto simp: peek_upload_def bind_result_eq_Inr)
  ultimately have "token_decode cfg token ''put'' now2 = Inr p"
    using token_decode_same by metis
  with p assms(3) show ?thesis by (simp add: accept_upload_def)
qed

lemma receive_upload_success:
  assumes "receive_upload cfg sv i au token dec body now later w = (Inr a, w')"
    and "peek_upload cfg token now = Inr (c, n)"
  shows "\<exists>fs0 kind. accept_upload cfg token body now (snd w) = Inr (c, fs0)
    \<and> \<not> ((case dec of None \<Rightarrow> False | Some m \<Rightarrow> m > n) \<or> int (length body) > n)
    \<and> asset_kind_of (uc_kind c) = Some kind
    \<and> VerifyAndRegisterUpload cfg sv i au (uc_tenant_id c) (uc_storage_key c) kind (uc_uploaded_by c) later
        (fst w, fs0) = (Inr a, w')"
proof (cases "accept_upload cfg token body now (snd w)")
  case (Inl e)
  then show ?thesis using assms by (auto simp: receive_upload_def split: if_splits)
next
  case (Inr x)
  then obtain c' fs1 where acc: "accept_upload cfg token body now (snd w) = Inr (c', fs1)" by (cases x) auto
  with peek_accept [OF assms(2) acc] show ?thesis
    using assms by (auto simp: receive_upload_def split: if_splits option.splits)
qed

text \<open>The route ends before anything is written, after the write only, or with the registration.\<close>

lemma receive_upload_cases:
  assumes "receive_upload cfg sv i au token dec body now later w = (r, w')"
  shows "(\<exists>e. r = Inl e) \<and> w' = w \<or> (\<exists>c n fs1. peek_upload cfg token now = Inr (c, n)
     \<and> storage_write (st_root cfg) (uc_storage_key c) body (snd w) = Inr fs1
     \<and> ((\<exists>e. r = Inl e) \<and> w' = (fst w, fs1)
        \<or> (\<exists>kind. VerifyAndRegisterUpload cfg sv i au (uc_tenant_id c) (uc_storage_key c) kind
              (uc_uploaded_by c) later (fst w, fs1) = (r, w'))))"
proof (cases "peek_upload cfg token now")
  case (Inr cn)
  obtain c n where peek: "peek_upload cfg token now = Inr (c, n)" using Inr by (cases cn) auto
  show ?thesis
  proof (cases "accept_upload cfg token body now (snd w)")
    case (Inl e)
    then show ?thesis using assms peek by (auto simp: receive_upload_def split: if_splits)
  next
    case (Inr a)
    then obtain c' fs1 where acc: "accept_upload cfg token body now (snd w) = Inr (c', fs1)" by (cases a) auto
    with peek_accept [OF peek acc] show ?thesis
      using assms peek by (auto simp: receive_upload_def split: if_splits option.splits)
  qed
qed (use assms in \<open>auto simp: receive_upload_def\<close>)

definition fresh_place :: "storage_config \<Rightarrow> db \<Rightarrow> string \<Rightarrow> bool" where
  "fresh_place cfg s k \<longleftrightarrow> (\<forall>a \<in> set (rows (db_assets s)). path_for (st_root cfg) (asset_storage_key a) \<noteq> path_for (st_root cfg) k)"

lemma fresh_upload_backed:
  assumes "receive_upload cfg sv i au token dec body now later (s, fs) = (r, s', fs')"
    and "\<And>c n. peek_upload cfg token now = Inr (c, n) \<Longrightarrow> fresh_place cfg s (uc_storage_key c)"
    and "\<And>d. lower (us_sha256 sv d) = us_sha256 sv d"
    and "files_back_assets cfg (us_sha256 sv) s fs"
  shows "files_back_assets cfg (us_sha256 sv) s' fs'
    \<and> (case r of Inl _ \<Rightarrow> s' = s | Inr a \<Rightarrow> a \<in> set (rows (db_assets s')) \<and> asset_sha256 a = us_sha256 sv body)"
  using receive_upload_cases [OF assms(1)]
proof (elim disjE exE conjE)
  fix c n fs1
  assume peek: "peek_upload cfg token now = Inr (c, n)"
    and store: "storage_write (st_root cfg) (uc_storage_key c) body (snd (s, fs)) = Inr fs1"
  let ?k = "uc_storage_key c"
  have fresh: "path_for (st_root cfg) (asset_storage_key a) \<noteq> path_for (st_root cfg) ?k" if "a \<in> set (rows (db_assets s))" for a
    using assms(2) [OF peek] that by (simp add: fresh_place_def)
  have back1: "files_back_assets cfg (us_sha256 sv) s fs1"
    using assms(4) fresh store local.fetch_store by (fastforce simp: files_back_assets_def)
  {
    fix e assume "r = Inl e" "(s', fs') = (fst (s, fs), fs1)"
    with back1 show ?thesis by simp
  next
    fix kind
    assume v: "VerifyAndRegisterUpload cfg sv i au (uc_tenant_id c) ?k kind (uc_uploaded_by c) later (fst (s, fs), fs1) = (r, s', fs')"
    have data: "storage_read (st_root cfg) ?k (snd (s, fs1)) = Inr body"
      using local.fetch_store [OF store, of ?k] by simp
    have reg: "registered cfg (us_sha256 sv) (uc_tenant_id c) ?k kind body (s, fs1) r (s', fs')"
      using verify_result [of cfg sv i au _ ?k kind _ later "(s, fs1)", OF _ data assms(3)] v by simp
    have else1: "storage_read (st_root cfg) (asset_storage_key a) fs' = storage_read (st_root cfg) (asset_storage_key a) fs1"
      if "a \<in> set (rows (db_assets s))" for a
      using reg fresh [OF that] by (simp add: registered_def elsewhere_def)
    have back2: "files_back_assets cfg (us_sha256 sv) s fs'"
      using back1 else1 by (fastforce simp: files_back_assets_def)
    show ?thesis
    proof (cases r)
      case (Inl e)
      with reg back2 show ?thesis by (simp add: registered_def)
    next
      case (Inr a)
      with reg consider (old) "a \<in> set (rows (db_assets s))" "s' = s" "asset_sha256 a = us_sha256 sv body"
        | (added) "asset_storage_key a = ?k" "rows (db_assets s') = rows (db_assets s) @ [a]" "fs' = fs1"
            "asset_sha256 a = us_sha256 sv body"
        by (auto simp: registered_def)
      then show ?thesis
      proof cases
        case old
        with back2 Inr show ?thesis by simp
      next
        case added
        with back2 data Inr show ?thesis by (auto simp: files_back_assets_def)
      qed
    qed
  }
qed (use assms(4) in auto)

text \<open>Whatever an upload does, it does at the place its token names and to at most one row.\<close>

lemma upload_at_its_place:
  assumes "receive_upload cfg sv i au token dec body now later (s, fs) = (r, s', fs')"
    and "\<And>d. lower (us_sha256 sv d) = us_sha256 sv d"
  shows "case peek_upload cfg token now of Inl _ \<Rightarrow> isl r \<and> s' = s \<and> fs' = fs
    | Inr (c, _) \<Rightarrow> elsewhere cfg (uc_storage_key c) fs fs'
        \<and> (case r of Inl _ \<Rightarrow> s' = s | Inr a \<Rightarrow> asset_tenant_id a = uc_tenant_id c \<and> asset_sha256 a = us_sha256 sv body
            \<and> (a \<in> set (rows (db_assets s)) \<and> s' = s
               \<or> asset_storage_key a = uc_storage_key c \<and> rows (db_assets s') = rows (db_assets s) @ [a]))"
  using receive_upload_cases [OF assms(1)]
proof (elim disjE exE conjE)
  fix c n fs1
  assume peek: "peek_upload cfg token now = Inr (c, n)"
    and store: "storage_write (st_root cfg) (uc_storage_key c) body (snd (s, fs)) = Inr fs1"
  have stored: "elsewhere cfg (uc_storage_key c) fs fs1" using local.fetch_store [OF store] by (simp add: elsewhere_def)
  {
    fix e assume "r = Inl e" "(s', fs') = (fst (s, fs), fs1)"
    with stored peek show ?thesis by simp
  next
    fix kind
    assume v: "VerifyAndRegisterUpload cfg sv i au (uc_tenant_id c) (uc_storage_key c) kind (uc_uploaded_by c) later
      (fst (s, fs), fs1) = (r, s', fs')"
    have data: "storage_read (st_root cfg) (uc_storage_key c) (snd (s, fs1)) = Inr body"
      using local.fetch_store [OF store, of "uc_storage_key c"] by simp
    have reg: "registered cfg (us_sha256 sv) (uc_tenant_id c) (uc_storage_key c) kind body (s, fs1) r (s', fs')"
      using verify_result [of cfg sv i au _ "uc_storage_key c" kind _ later "(s, fs1)", OF _ data assms(2)] v by simp
    with stored have "elsewhere cfg (uc_storage_key c) fs fs'" by (simp add: registered_def elsewhere_def)
    with reg peek show ?thesis by (cases r) (auto simp: registered_def)
  }
qed (auto split: sum.split)

text \<open>
  C35: An upload touches no file but the one its token names, and no row unless it succeeds; then it adds at most one, of the
  token's tenant and place and with the digest of the bytes sent. If in addition no asset is stored at the named place yet
  (a token used twice names a taken one, and so may an extension with a path in it), every asset row that was backed by the bytes it was
  verified with still is, and so is the new one, whether the upload is registered, recognised as a duplicate or rejected.
\<close>

theorem upload_keeps_files:
  assumes "receive_upload cfg sv i au token dec body now later (s, fs) = (r, s', fs')"
    and "\<And>d. lower (us_sha256 sv d) = us_sha256 sv d"
  shows "case peek_upload cfg token now of Inl _ \<Rightarrow> isl r \<and> s' = s \<and> fs' = fs
    | Inr (c, _) \<Rightarrow>
        (\<forall>k. path_for (st_root cfg) k \<noteq> path_for (st_root cfg) (uc_storage_key c)
            \<longrightarrow> storage_read (st_root cfg) k fs' = storage_read (st_root cfg) k fs)
        \<and> (case r of Inl _ \<Rightarrow> s' = s | Inr a \<Rightarrow> asset_tenant_id a = uc_tenant_id c \<and> asset_sha256 a = us_sha256 sv body
            \<and> (a \<in> set (rows (db_assets s)) \<and> s' = s
               \<or> asset_storage_key a = uc_storage_key c \<and> rows (db_assets s') = rows (db_assets s) @ [a]))
        \<and> (fresh_place cfg s (uc_storage_key c) \<longrightarrow> files_back_assets cfg (us_sha256 sv) s fs
            \<longrightarrow> files_back_assets cfg (us_sha256 sv) s' fs')"
proof (cases "peek_upload cfg token now")
  case (Inl e)
  with upload_at_its_place [OF assms] show ?thesis by simp
next
  case (Inr x)
  obtain c n where x: "x = (c, n)" by (cases x)
  have "files_back_assets cfg (us_sha256 sv) s' fs'"
    if "fresh_place cfg s (uc_storage_key c)" "files_back_assets cfg (us_sha256 sv) s fs"
    using fresh_upload_backed [OF assms(1) _ assms(2) that(2)] that(1) Inr x by simp
  with upload_at_its_place [OF assms] Inr x show ?thesis by (simp add: elsewhere_def)
qed

section \<open>A token used twice\<close>

text \<open>The checks before the registration, which depend on the bytes and the kind only.\<close>

definition passes_checks :: "upload_services \<Rightarrow> asset_kind \<Rightarrow> bytes \<Rightarrow> image_inspection \<Rightarrow> bool" where
  "passes_checks sv kind data ins \<longleftrightarrow> kind \<in> set UPLOADABLE_ASSET_KINDS \<and> int (length data) \<le> UPLOAD_MAX_BYTES
     \<and> inspect_image (us_decode sv) data = Inr ins
     \<and> ins_width ins \<le> UPLOAD_MAX_DIMENSION \<and> ins_height ins \<le> UPLOAD_MAX_DIMENSION
     \<and> (\<exists>v. us_scan sv data (ins_mime ins) = Inr v \<and> mv_is_safe v)"

lemma verify_passes:
  assumes "VerifyAndRegisterUpload cfg sv i au T k kind u now w = (Inr a, w')"
    and "storage_read (st_root cfg) k (snd w) = Inr data"
  shows "\<exists>ins. passes_checks sv kind data ins"
proof -
  have rej: False if "reject_upload cfg k e w = (Inr a, w')" for e
    using reject_upload_result [of cfg k e w "Inr a" "fst w'" "snd w'"] that by simp
  show ?thesis
    using assms unfolding VerifyAndRegisterUpload_def passes_checks_def
    by (auto split: if_splits sum.splits dest: rej)
qed

lemma verify_registers:
  "\<lbrakk>passes_checks sv kind data ins; storage_read (st_root cfg) k (snd w) = Inr data\<rbrakk>
   \<Longrightarrow> VerifyAndRegisterUpload cfg sv i au T k kind u now w
     = register_upload cfg i au T k kind u (us_sha256 sv data) (int (length data)) ins now w"
  by (auto simp: VerifyAndRegisterUpload_def passes_checks_def)

definition can_write :: "path \<Rightarrow> path \<Rightarrow> files \<Rightarrow> bool" where
  "can_write R p fs \<longleftrightarrow> \<not> is_directory R p fs \<and> \<not> (\<exists>q \<in> fst ` set fs. strictly_below q p)"

lemma storage_write_Inr: "storage_write R k d fs = Inr fs' \<longleftrightarrow>
    (\<exists>p. path_for R k = Inr p \<and> can_write R p fs \<and> fs' = dict_set p d fs)"
  by (auto simp: storage_write_def bind_result_eq_Inr can_write_def)

lemma storage_delete_Inr: "storage_delete R k fs = Inr fs' \<longleftrightarrow>
    (\<exists>p. path_for R k = Inr p \<and> can_write R p fs \<and> fs' = filter (\<lambda>e. fst e \<noteq> p) fs)"
  by (auto simp: storage_delete_def bind_result_eq_Inr can_write_def)

lemma can_write_subset:
  "\<lbrakk>can_write R p fs; fst ` set fs' \<subseteq> insert p (fst ` set fs)\<rbrakk> \<Longrightarrow> can_write R p fs'"
proof -
  assume w: "can_write R p fs" and sub: "fst ` set fs' \<subseteq> insert p (fst ` set fs)"
  have "\<not> strictly_below p p" by (simp add: strictly_below_def)
  then have "\<not> strictly_below p q \<and> \<not> strictly_below q p" if "q \<in> fst ` set fs'" for q
    using subsetD [OF sub that] w by (auto simp: can_write_def is_directory_def)
  with w show ?thesis by (auto simp: can_write_def is_directory_def)
qed

lemma can_write_update: "can_write R p fs \<Longrightarrow> can_write R p (dict_set p d fs)"
  by (erule can_write_subset) (simp add: dom_update)

lemma can_write_filter: "can_write R p fs \<Longrightarrow> can_write R p (filter P fs)"
  by (erule can_write_subset) auto

text \<open>
  C36: A client that sends the same bytes again with the same, still valid token is answered with the
  same asset, and the asset's only file is removed as if it were the copy of a duplicate.
\<close>

theorem reused_token_loses_file:
  assumes "receive_upload cfg sv i au token dec body now later (s, fs) = (Inr a, s1, fs1)"
    and "peek_upload cfg token now = Inr (c, n)" and "peek_upload cfg token now2 = Inr (c, n)"
    and "asset_storage_key a = uc_storage_key c"
    and "tbl_ok asset_id (db_assets s1)" and "unique_on asset_ukey (db_assets s1)"
    and "\<And>d. lower (us_sha256 sv d) = us_sha256 sv d"
  shows "\<exists>fs2 m. receive_upload cfg sv i2 au2 token dec body now2 later2 (s1, fs1) = (Inr a, s1, fs2)
     \<and> storage_read (st_root cfg) (asset_storage_key a) fs2 = Inl (NotFoundError m)"
proof -
  let ?k = "uc_storage_key c" and ?T = "uc_tenant_id c" and ?R = "st_root cfg"
  from assms(1,2) obtain fs0 kind where acc: "accept_upload cfg token body now fs = Inr (c, fs0)"
    and size: "\<not> ((case dec of None \<Rightarrow> False | Some m \<Rightarrow> m > n) \<or> int (length body) > n)"
    and kind: "asset_kind_of (uc_kind c) = Some kind"
    and v: "VerifyAndRegisterUpload cfg sv i au ?T ?k kind (uc_uploaded_by c) later (s, fs0) = (Inr a, s1, fs1)"
    using receive_upload_success [OF assms(1,2)] by auto
  have store0: "storage_write ?R ?k body fs = Inr fs0" using peek_accept [OF assms(2) acc] by simp
  then obtain p where p: "path_for ?R ?k = Inr p" "can_write ?R p fs" "fs0 = dict_set p body fs"
    by (auto simp: storage_write_Inr)
  have data0: "storage_read ?R ?k (snd (s, fs0)) = Inr body"
    using local.fetch_store [OF store0, of ?k] by simp
  obtain ins where pass: "passes_checks sv kind body ins" using verify_passes [OF v data0] by blast
  have reg: "registered cfg (us_sha256 sv) ?T ?k kind body (s, fs0) (Inr a) (s1, fs1)"
    by (rule verify_result [OF v data0 assms(7)])
  then have a: "a \<in> set (rows (db_assets s1))" "asset_tenant_id a = ?T" "asset_sha256 a = us_sha256 sv body" "asset_kind a = kind"
    by (auto simp: registered_def)
  have w1: "can_write ?R p fs1"
    using reg p by (auto simp: registered_def storage_delete_Inr intro: can_write_update can_write_filter)
  define fs3 where "fs3 = dict_set p body fs1"
  have store1: "storage_write ?R ?k body fs1 = Inr fs3" using p(1) w1 by (simp add: storage_write_Inr fs3_def)
  have acc1: "accept_upload cfg token body now2 fs1 = Inr (c, fs3)"
    by (rule accept_again [OF acc assms(3) store1])
  have data1: "storage_read ?R ?k (snd (s1, fs3)) = Inr body"
    using local.fetch_store [OF store1, of ?k] by simp
  have found: "asset_get_by_sha256 ?T (us_sha256 sv body) kind s1 = Inr (Some a)"
    unfolding asset_get_by_sha256_def
    by (rule asset_index.query_hit [OF assms(5,6), where k = "(?T, us_sha256 sv body, kind)"])
       (use a assms(7) in \<open>simp_all add: asset_ukey_def\<close>)
  define fs2 where "fs2 = filter (\<lambda>e. fst e \<noteq> p) fs3"
  have del: "storage_delete ?R ?k fs3 = Inr fs2"
    using p(1) can_write_update [OF w1] by (simp add: storage_delete_Inr fs2_def fs3_def)
  have "receive_upload cfg sv i2 au2 token dec body now2 later2 (s1, fs1) = (Inr a, s1, fs2)"
    using size by (simp add: receive_upload_def assms(3) acc1 kind verify_registers [OF pass data1] register_upload_def found del)
  moreover have "\<exists>m. storage_read ?R ?k fs2 = Inl (NotFoundError m)"
    using p(1) by (simp add: storage_read_def fs2_def map_of_filter_fst require_def)
  ultimately show ?thesis by (auto simp: assms(4))
qed

section \<open>Downloads\<close>

text \<open>What a JSON web token library documents: a signed payload is read back, and is valid until it expires.\<close>

definition signs :: "storage_config \<Rightarrow> bool" where
  "signs cfg \<longleftrightarrow> (\<forall>p. st_jwt_decode cfg (st_jwt_encode cfg p) = Some p)
     \<and> (\<forall>t p. ps_iss p = STORAGE_ISSUER \<longrightarrow> t < ps_exp p \<longrightarrow> st_jwt_valid cfg t STORAGE_ISSUER p)"

lemma token_decode_encode:
  assumes "signs cfg" and "timestamp later < timestamp (now + ttl)"
  shows "token_decode cfg (PresignTokenCodec_encode (st_jwt_encode cfg) k u now ttl ty mx T kd by1) u later
    = Inr \<lparr>ps_storage_key = k, ps_purpose = u, ps_iss = STORAGE_ISSUER, ps_iat = timestamp now,
        ps_exp = timestamp (now + ttl), ps_content_type = ty, ps_max_bytes = mx, ps_tenant_id = T, ps_kind = kd,
        ps_uploaded_by = by1\<rparr>"
  using assms by (simp add: token_decode_def PresignTokenCodec_decode_def PresignTokenCodec_encode_def signs_def)

lemma token_decode_purpose:
  assumes "signs cfg" and "u \<noteq> u'"
  shows "\<exists>m. token_decode cfg (PresignTokenCodec_encode (st_jwt_encode cfg) k u now ttl ty mx T kd by1) u' later
    = Inl (ValidationError m)"
  using assms by (auto simp: token_decode_def PresignTokenCodec_decode_def PresignTokenCodec_encode_def signs_def)

definition uploads_url :: "storage_config \<Rightarrow> string" where
  "uploads_url cfg = st_base_url cfg @ ''/api/v1/webhooks/uploads/''"

text \<open>
  C37: The address a download is answered with yields the asset's bytes and media type until it expires,
  and is never accepted as an upload token.
\<close>

theorem download_returns_file:
  assumes "signs cfg" and "asset_get T i s = Some a"
    and "storage_read (st_root cfg) (asset_storage_key a) fs = Inr d"
  shows "\<exists>token. RequestDownload cfg T i now s = Inr (uploads_url cfg @ token)
    \<and> (\<forall>later. timestamp later < timestamp (now + PRESIGN_EXPIRES_IN) \<longrightarrow>
         download_asset cfg token later fs = Inr \<lparr>do_data = d, do_content_type = asset_mime a\<rparr>)
    \<and> (\<forall>later. \<exists>m. peek_upload cfg token later = Inl (ValidationError m))"
proof -
  let ?t = "PresignTokenCodec_encode (st_jwt_encode cfg) (asset_storage_key a) ''get'' now PRESIGN_EXPIRES_IN
    (Some (asset_mime a)) None None None None"
  have "RequestDownload cfg T i now s = Inr (uploads_url cfg @ ?t)"
    by (simp add: RequestDownload_def assms(2) presign_get_def uploads_url_def)
  moreover have "download_asset cfg ?t later fs = Inr \<lparr>do_data = d, do_content_type = asset_mime a\<rparr>"
    if "timestamp later < timestamp (now + PRESIGN_EXPIRES_IN)" for later
    using token_decode_encode [OF assms(1) that] assms(3) by (simp add: download_asset_def resolve_download_def)
  moreover have "\<exists>m. peek_upload cfg ?t later = Inl (ValidationError m)" for later
  proof -
    have "\<exists>m. token_decode cfg ?t ''put'' later = Inl (ValidationError m)"
      by (rule token_decode_purpose [OF assms(1)]) simp
    then show ?thesis by (auto simp: peek_upload_def)
  qed
  ultimately show ?thesis by blast
qed

section \<open>Whose file a key names\<close>

lemma uuid_str_slash: "CHR ''/'' \<notin> set (uuid_str u)"
proof
  assume "CHR ''/'' \<in> set (uuid_str u)"
  then have "CHR ''/'' \<in> set (uuid_hex u)" by (auto simp: uuid_str_def Let_def dest!: in_set_takeD in_set_dropD)
  then obtain d where d: "d < 16" "CHR ''/'' = hex_char d"
    using set_hex_digits [of "CHR ''/''" 32 "unat u"] by (auto simp: uuid_hex_def)
  then have "hex_val (CHR ''/'') = Some d" using hex_char_cases by simp
  then show False by (simp add: hex_val_def)
qed

definition plain_component :: "string \<Rightarrow> bool" where
  "plain_component c \<longleftrightarrow> CHR ''/'' \<notin> set c \<and> c \<noteq> [] \<and> c \<noteq> ''.'' \<and> c \<noteq> ''..''"

lemma plain_uuid: "plain_component (uuid_str u)"
proof -
  have "CHR ''.'' \<notin> set (uuid_str u)" using set_uuid_str by blast
  then show ?thesis using uuid_str_slash by (auto simp: plain_component_def)
qed

text \<open>The key of a tenant's file, and an extension that leads to it from any other tenant's upload.\<close>

definition tenant_key :: "uuid \<Rightarrow> string \<Rightarrow> string \<Rightarrow> string" where
  "tenant_key V kd file = ''tenants/'' @ uuid_str V @ ''/'' @ kd @ ''/'' @ file"

definition climbing_extension :: "uuid \<Rightarrow> string \<Rightarrow> string \<Rightarrow> string" where
  "climbing_extension V kd file = ''x/../../../'' @ uuid_str V @ ''/'' @ kd @ ''/'' @ file"

lemma split_join: "ws \<noteq> [] \<Longrightarrow> \<forall>w \<in> set ws. d \<notin> set w \<Longrightarrow> split_on d (join [d] ws) = ws"
proof (induction ws rule: induct_list012)
  case (3 w w2 ws)
  then show ?case by (simp add: join_def split_on_word)
qed (simp_all add: join_def split_on_end)

lemma split_tenant_key:
  assumes "plain_component kd" and "plain_component file"
  shows "split_on (CHR ''/'') (tenant_key V kd file) = [''tenants'', uuid_str V, kd, file]"
proof -
  have "tenant_key V kd file = join ''/'' [''tenants'', uuid_str V, kd, file]"
    by (simp add: tenant_key_def join_def)
  then show ?thesis
    using assms uuid_str_slash by (simp only:) (rule split_join, auto simp: plain_component_def)
qed

lemma split_climbing_key:
  assumes "plain_component kd" and "plain_component file"
  shows "split_on (CHR ''/'') (new_storage_key drawn T (asset_kind_value k) (climbing_extension V kd file))
    = [''tenants'', uuid_str T, asset_kind_value k, uuid_str drawn @ ''.x'', ''..'', ''..'', ''..'', uuid_str V, kd, file]"
proof -
  have "new_storage_key drawn T (asset_kind_value k) (climbing_extension V kd file)
    = join ''/'' [''tenants'', uuid_str T, asset_kind_value k, uuid_str drawn @ ''.x'', ''..'', ''..'', ''..'', uuid_str V, kd, file]"
    by (simp add: new_storage_key_def climbing_extension_def join_def)
  moreover have "CHR ''/'' \<notin> set (asset_kind_value k)" by (cases k) simp_all
  ultimately show ?thesis
    using assms uuid_str_slash by (simp only:) (rule split_join, auto simp: plain_component_def)
qed

lemma climbing_same_place:
  assumes "plain_component kd" and "plain_component file"
  shows "path_for R (new_storage_key drawn T (asset_kind_value k) (climbing_extension V kd file)) = path_for R (tenant_key V kd file)"
proof -
  have k: "plain_component (asset_kind_value k)" by (cases k) (simp_all add: plain_component_def)
  have x: "uuid_str drawn @ ''.x'' \<notin> {[], ''.'', ''..''}" by auto
  have rel: "\<not> starts_with ''/'' (''t'' @ z)" for z by (simp add: starts_with_def)
  have "resolve_path R (new_storage_key drawn T (asset_kind_value k) (climbing_extension V kd file))
      = R @ [''tenants'', uuid_str V, kd, file]"
    using assms k x plain_uuid [of T] plain_uuid [of V] unfolding resolve_path_def split_climbing_key [OF assms]
    by (simp add: plain_component_def path_step_def new_storage_key_def starts_with_def butlast_append)
  moreover have "resolve_path R (tenant_key V kd file) = R @ [''tenants'', uuid_str V, kd, file]"
    using assms plain_uuid [of V] unfolding resolve_path_def split_tenant_key [OF assms]
    by (simp add: plain_component_def path_step_def tenant_key_def starts_with_def)
  ultimately show ?thesis by (simp add: path_for_def)
qed

text \<open>
  C38: The extension of an upload is not checked, so a member of any tenant can name one that leads the
  upload to a file of another tenant: the bytes sent are then that tenant's.
\<close>

theorem upload_overwrites_other_tenant:
  assumes "signs cfg" and "plain_component kd" and "plain_component file"
    and "RequestUpload cfg drawn T k (climbing_extension V kd file) ty u now = Inr pu"
    and "timestamp later < timestamp (now + PRESIGN_EXPIRES_IN)" and "int (length data) \<le> UPLOAD_MAX_BYTES"
    and "storage_write (st_root cfg) (tenant_key V kd file) data fs = Inr fs'"
  shows "\<exists>token c. pu_url pu = uploads_url cfg @ token \<and> accept_upload cfg token data later fs = Inr (c, fs')
    \<and> uc_tenant_id c = T \<and> storage_read (st_root cfg) (tenant_key V kd file) fs' = Inr data"
proof -
  let ?key = "new_storage_key drawn T (asset_kind_value k) (climbing_extension V kd file)"
  let ?t = "PresignTokenCodec_encode (st_jwt_encode cfg) ?key ''put'' now PRESIGN_EXPIRES_IN (Some ty)
    (Some UPLOAD_MAX_BYTES) (Some (uuid_str T)) (Some (asset_kind_value k)) (Some (uuid_str u))"
  have "storage_write (st_root cfg) ?key data fs = Inr fs'"
    using assms(7) climbing_same_place [OF assms(2,3), of "st_root cfg" drawn T k V] by (simp add: storage_write_def)
  then have "\<exists>c. accept_upload cfg ?t data later fs = Inr (c, fs') \<and> uc_tenant_id c = T"
    using token_decode_encode [OF assms(1,5)] assms(6) by (simp add: accept_upload_def claims_from_def)
  moreover have "pu_url pu = uploads_url cfg @ ?t"
    using assms(4) by (auto simp: RequestUpload_def bind_result_eq_Inr presign_put_def uploads_url_def)
  moreover have "storage_read (st_root cfg) (tenant_key V kd file) fs' = Inr data"
    using local.fetch_store [OF assms(7)] by simp
  ultimately show ?thesis by blast
qed

section \<open>A concrete store\<close>

text \<open>Tokens that are the payload itself, printed; every photo is a small PNG.\<close>

fun json_opt_str :: "json \<Rightarrow> string option" where
  "json_opt_str (JStr s) = Some s"
| "json_opt_str _ = None"

fun json_opt_int :: "json \<Rightarrow> int option" where
  "json_opt_int (JInt i) = Some i"
| "json_opt_int _ = None"

definition plain_encode :: "presign_payload \<Rightarrow> string" where
  "plain_encode p = json_dumps (JList [JStr (ps_storage_key p), JStr (ps_purpose p), JStr (ps_iss p), JInt (ps_iat p),
     JInt (ps_exp p), jstr_opt (ps_content_type p), (case ps_max_bytes p of None \<Rightarrow> JNull | Some i \<Rightarrow> JInt i),
     jstr_opt (ps_tenant_id p), jstr_opt (ps_kind p), jstr_opt (ps_uploaded_by p)])"

definition plain_decode :: "string \<Rightarrow> presign_payload option" where
  "plain_decode t = (case json_loads t of
     Some (JList [JStr k, JStr u, JStr i, JInt a, JInt e, ty, mx, tn, kd, up]) \<Rightarrow>
       Some \<lparr>ps_storage_key = k, ps_purpose = u, ps_iss = i, ps_iat = a, ps_exp = e,
         ps_content_type = json_opt_str ty, ps_max_bytes = json_opt_int mx, ps_tenant_id = json_opt_str tn,
         ps_kind = json_opt_str kd, ps_uploaded_by = json_opt_str up\<rparr>
   | _ \<Rightarrow> None)"

lemma json_opt_back [simp]:
  "json_opt_str (jstr_opt v) = v" "json_opt_int (case m of None \<Rightarrow> JNull | Some i \<Rightarrow> JInt i) = m"
  "json_plain (jstr_opt v)" "json_plain (case m of None \<Rightarrow> JNull | Some i \<Rightarrow> JInt i)"
  by (cases v; cases m; simp add: jstr_opt_def)+

lemma plain_decode_encode: "plain_decode (plain_encode p) = Some p"
  by (simp add: plain_decode_def plain_encode_def json_loads_dumps del: json_dumps.simps)

definition demo_store :: storage_config where
  "demo_store = \<lparr>st_root = [''srv''], st_base_url = ''https://x'', st_jwt_encode = plain_encode,
     st_jwt_decode = plain_decode, st_jwt_valid = (\<lambda>t issuer p. ps_iss p = issuer \<and> t < ps_exp p)\<rparr>"

lemma demo_store_signs: "signs demo_store"
  by (simp add: signs_def demo_store_def plain_decode_encode)

definition demo_services :: upload_services where
  "demo_services = \<lparr>us_decode = (\<lambda>_. Some (Some ''PNG'', 10, 10)), us_scan = NullContentModerationScanner_scan,
     us_sha256 = (\<lambda>_. replicate 64 (CHR ''a''))\<rparr>"

definition demo_key :: string where "demo_key = tenant_key 1 ''input'' ''f.png''"

definition demo_path :: path where "demo_path = [''srv'', ''tenants'', uuid_str 1, ''input'', ''f.png'']"

definition demo_token :: string where
  "demo_token = PresignTokenCodec_encode plain_encode demo_key ''put'' 0 PRESIGN_EXPIRES_IN (Some ''image/png'') (Some 100)
     (Some (uuid_str 1)) (Some ''input'') (Some (uuid_str 9))"

definition demo_claims :: upload_claims where
  "demo_claims = \<lparr>uc_tenant_id = 1, uc_storage_key = demo_key, uc_kind = ''input'', uc_uploaded_by = 9\<rparr>"

lemma demo_sha: "lower (us_sha256 demo_services d) = us_sha256 demo_services d"
  by (simp add: demo_services_def lower_def lower_char_def)

lemma demo_place: "path_for [''srv''] demo_key = Inr demo_path"
proof -
  have "plain_component ''input''" "plain_component ''f.png''" by (simp_all add: plain_component_def)
  note split = split_tenant_key [OF this, of 1]
  show ?thesis
    using plain_uuid [of 1]
    by (simp add: path_for_def resolve_path_def demo_key_def split demo_path_def path_step_def plain_component_def)
       (simp add: tenant_key_def starts_with_def)
qed

lemma demo_decode:
  "timestamp t < 900 \<Longrightarrow> token_decode demo_store demo_token ''put'' t = Inr \<lparr>ps_storage_key = demo_key, ps_purpose = ''put'',
     ps_iss = STORAGE_ISSUER, ps_iat = 0, ps_exp = 900, ps_content_type = Some ''image/png'', ps_max_bytes = Some 100,
     ps_tenant_id = Some (uuid_str 1), ps_kind = Some ''input'', ps_uploaded_by = Some (uuid_str 9)\<rparr>"
  using token_decode_encode [OF demo_store_signs, of t 0 PRESIGN_EXPIRES_IN demo_key "''put''"]
  by (simp add: demo_token_def demo_store_def timestamp_def timedelta_defs PRESIGN_EXPIRES_IN_def)

lemma demo_peek: "timestamp t < 900 \<Longrightarrow> peek_upload demo_store demo_token t = Inr (demo_claims, 100)"
  by (simp add: peek_upload_def demo_decode claims_from_def demo_claims_def)

definition demo_sha256 :: string where "demo_sha256 = replicate 64 (CHR ''a'')"

definition demo_upload :: asset where
  "demo_upload = \<lparr>asset_id = 30, asset_tenant_id = 1, asset_storage_key = demo_key, asset_sha256 = demo_sha256,
     asset_mime = ''image/png'', asset_width = 10, asset_height = 10, asset_bytes = 2, asset_kind = ASSET_INPUT,
     asset_source = ''upload'', asset_parent_asset_id = None, asset_meta = [], asset_uploaded_by = Some 9,
     asset_created_at = 0\<rparr>"

definition demo_uploaded :: db where
  "demo_uploaded = empty_db\<lparr>db_assets := [(30, demo_upload)], db_audit := [(31, \<lparr>au_id = 31, au_tenant_id = 1,
     au_actor_user_id = Some 9, au_action = ''asset.uploaded'', au_subject_type = ''asset'', au_subject_id = 30,
     au_before = None, au_after = Some [(''kind'', JStr ''input''), (''sha256'', JStr demo_sha256)], au_ip = None,
     au_occurred_at = 0\<rparr>)]\<rparr>"

lemma demo_asset_created: "Asset_create 30 1 demo_key demo_sha256 ''image/png'' 10 10 2 ASSET_INPUT ''upload'' 0 None None (Some 9)
    = Inr demo_upload"
  by (simp add: Asset_create_def demo_upload_def demo_sha256_def lower_def lower_char_def)

lemma demo_write: "storage_write [''srv''] demo_key d [] = Inr [(demo_path, d)]"
  by (simp add: storage_write_Inr demo_place can_write_def is_directory_def)
     (simp add: demo_path_def strictly_below_def)

lemma demo_accept: "timestamp t < 900 \<Longrightarrow> accept_upload demo_store demo_token [1, 2] t [] = Inr (demo_claims, [(demo_path, [1, 2])])"
  by (simp add: accept_upload_def demo_decode claims_from_def demo_claims_def)
     (simp add: demo_store_def demo_write)

lemma demo_receive:
  "receive_upload demo_store demo_services 30 31 demo_token None [1, 2] 0 0 (empty_db, [])
     = (Inr demo_upload, demo_uploaded, [(demo_path, [1, 2])])"
proof -
  have t: "timestamp 0 < 900" by (simp add: timestamp_def)
  have kind: "asset_kind_of ''input'' = Some ASSET_INPUT" by (simp add: asset_kind_of_def)
  have read: "storage_read [''srv''] demo_key [(demo_path, [1, 2])] = Inr [1, 2]"
    by (simp add: storage_read_def demo_place)
  have pass: "passes_checks demo_services ASSET_INPUT [1, 2] \<lparr>ins_mime = ''image/png'', ins_width = 10, ins_height = 10\<rparr>"
    by (simp add: passes_checks_def demo_services_def UPLOADABLE_ASSET_KINDS_def UPLOAD_MAX_BYTES_def UPLOAD_MAX_DIMENSION_def
        inspect_image_def FORMAT_TO_MIME_def NullContentModerationScanner_scan_def)
  have sha: "us_sha256 demo_services [1, 2] = demo_sha256" by (simp add: demo_services_def demo_sha256_def)
  have "register_upload demo_store 30 31 1 demo_key ASSET_INPUT 9 demo_sha256 2
      \<lparr>ins_mime = ''image/png'', ins_width = 10, ins_height = 10\<rparr> 0 (empty_db, [(demo_path, [1, 2])])
      = (Inr demo_upload, demo_uploaded, [(demo_path, [1, 2])])"
  proof -
    have none: "asset_get_by_sha256 1 demo_sha256 ASSET_INPUT empty_db = Inr None"
      by (simp add: asset_get_by_sha256_def scalar_one_or_none_def empty_db_def rows_def)
    have add: "asset_add demo_upload empty_db = Inr (empty_db\<lparr>db_assets := [(30, demo_upload)]\<rparr>)"
      by (simp add: asset_add_def tbl_add_unique_def tbl_add_def tbl_get_def empty_db_def rows_def)
         (simp add: demo_upload_def)
    have audit: "audit_record 31 1 (Some 9) ''asset.uploaded'' ''asset'' (asset_id demo_upload) None
        (Some [(''kind'', JStr ''input''), (''sha256'', JStr demo_sha256)]) 0 (empty_db\<lparr>db_assets := [(30, demo_upload)]\<rparr>)
        = Inr demo_uploaded"
      by (simp add: audit_record_def tbl_add_def tbl_get_def demo_uploaded_def) (simp add: empty_db_def demo_upload_def)
    show ?thesis by (simp add: register_upload_def none run_uow_def demo_asset_created add audit)
  qed
  then show ?thesis
    using verify_registers [OF pass, where cfg = demo_store and k = demo_key and w = "(empty_db, [(demo_path, [1, 2])])"] read sha
    by (simp add: receive_upload_def demo_peek [OF t] demo_accept [OF t] kind demo_claims_def) (simp add: demo_store_def)
qed

theorem upload_keeps_files_witness:
  "files_back_assets demo_store (us_sha256 demo_services) demo_uploaded [(demo_path, [1, 2])]
    \<and> rows (db_assets demo_uploaded) = [demo_upload]"
proof -
  have empty: "fresh_place demo_store empty_db k" "files_back_assets demo_store (us_sha256 demo_services) empty_db []" for k
    by (simp_all add: fresh_place_def files_back_assets_def empty_db_def rows_def)
  show ?thesis
    using upload_keeps_files [OF demo_receive demo_sha] empty by (auto simp: demo_peek timestamp_def demo_uploaded_def rows_def empty_db_def)
qed

theorem reused_token_loses_file_witness:
  "\<exists>fs2 m. receive_upload demo_store demo_services 32 33 demo_token None [1, 2] 60 60 (demo_uploaded, [(demo_path, [1, 2])])
       = (Inr demo_upload, demo_uploaded, fs2)
     \<and> storage_read (st_root demo_store) (asset_storage_key demo_upload) fs2 = Inl (NotFoundError m)"
proof (rule reused_token_loses_file [OF demo_receive demo_peek demo_peek _ _ _ demo_sha])
  show "timestamp 0 < 900" "timestamp 60 < 900" by (simp_all add: timestamp_def microseconds_per_second_def)
  show "asset_storage_key demo_upload = uc_storage_key demo_claims" by (simp add: demo_upload_def demo_claims_def)
  show "tbl_ok asset_id (db_assets demo_uploaded)" by (simp add: demo_uploaded_def tbl_ok_def demo_upload_def)
  show "unique_on asset_ukey (db_assets demo_uploaded)"
    by (simp add: demo_uploaded_def unique_on_def tbl_get_def)
qed

theorem download_returns_file_witness:
  "\<exists>token. RequestDownload demo_store 1 30 0 demo_uploaded = Inr (uploads_url demo_store @ token)
    \<and> download_asset demo_store token 60 [(demo_path, [1, 2])] = Inr \<lparr>do_data = [1, 2], do_content_type = ''image/png''\<rparr>"
proof -
  have get: "asset_get 1 30 demo_uploaded = Some demo_upload"
    by (simp add: asset_get_def scoped_get_def tbl_get_def demo_uploaded_def demo_upload_def)
  have read: "storage_read (st_root demo_store) (asset_storage_key demo_upload) [(demo_path, [1, 2])] = Inr [1, 2]"
    by (simp add: storage_read_def demo_store_def demo_upload_def demo_place)
  have t: "timestamp 60 < timestamp (0 + PRESIGN_EXPIRES_IN)"
    by (simp add: timestamp_def timedelta_defs PRESIGN_EXPIRES_IN_def)
  have m: "asset_mime demo_upload = ''image/png''" by (simp add: demo_upload_def)
  from download_returns_file [OF demo_store_signs get read, of 0] t show ?thesis unfolding m by blast
qed

theorem upload_overwrites_other_tenant_witness:
  "\<exists>token c. uploads_url demo_store @ token = pu_url (presign_put plain_encode ''https://x'' 2
         (new_storage_key 40 2 ''template'' (climbing_extension 1 ''input'' ''f.png'')) ''template'' 7 ''image/png'' UPLOAD_MAX_BYTES 0
         PRESIGN_EXPIRES_IN)
    \<and> accept_upload demo_store token [6] 60 [(demo_path, [1, 2])] = Inr (c, [(demo_path, [6])])
    \<and> uc_tenant_id c = 2 \<and> storage_read [''srv''] demo_key [(demo_path, [6])] = Inr [6]"
proof -
  let ?pu = "presign_put plain_encode ''https://x'' 2 (new_storage_key 40 2 ''template'' (climbing_extension 1 ''input'' ''f.png''))
      ''template'' 7 ''image/png'' UPLOAD_MAX_BYTES 0 PRESIGN_EXPIRES_IN"
  have plain: "plain_component ''input''" "plain_component ''f.png''" by (simp_all add: plain_component_def)
  have req: "RequestUpload demo_store 40 2 ASSET_TEMPLATE (climbing_extension 1 ''input'' ''f.png'') ''image/png'' 7 0 = Inr ?pu"
    by (simp add: RequestUpload_def UPLOADABLE_ASSET_KINDS_def demo_store_def)
  have t: "timestamp 60 < timestamp (0 + PRESIGN_EXPIRES_IN)"
    by (simp add: timestamp_def timedelta_defs PRESIGN_EXPIRES_IN_def)
  have small: "int (length [6 :: 8 word]) \<le> UPLOAD_MAX_BYTES" by (simp add: UPLOAD_MAX_BYTES_def)
  have free: "can_write [''srv''] demo_path [(demo_path, [1, 2])]"
    by (simp add: can_write_def is_directory_def) (simp add: demo_path_def strictly_below_def)
  then have put: "storage_write (st_root demo_store) (tenant_key 1 ''input'' ''f.png'') [6] [(demo_path, [1, 2])] = Inr [(demo_path, [6])]"
    by (simp add: storage_write_Inr demo_store_def demo_key_def [symmetric] demo_place)
  have root: "st_root demo_store = [''srv'']" by (simp add: demo_store_def)
  from upload_overwrites_other_tenant [OF demo_store_signs plain req t small put] show ?thesis
    unfolding root demo_key_def by metis
qed

end
