(* ===== verification/Products_Protocol.thy ===== *)
theory Products_Protocol
  imports Products Assets_Protocol
begin

text \<open>
  What holds of the catalogue while products, variants and photos are created, photos validated, files
  uploaded and new versions of a spec published: a product keeps the version it was created against, and
  its variants and photos stay valid under that version. Then the validation of one photo, end to end.
\<close>

section \<open>What a transaction keeps\<close>

text \<open>
  Later states extend earlier ones: no version, variant or asset changes, and a product changes in its
  status only.
\<close>

definition keeps :: "db \<Rightarrow> db \<Rightarrow> bool" where
  "keeps s s' \<longleftrightarrow> (\<forall>T i v. spec_version_get T i s = Some v \<longrightarrow> spec_version_get T i s' = Some v)
     \<and> (\<forall>T i p. product_get T i s = Some p \<longrightarrow> (\<exists>p'. product_get T i s' = Some p' \<and> product_ident p' = product_ident p))
     \<and> (\<forall>T i v. variant_get T i s = Some v \<longrightarrow> variant_get T i s' = Some v)
     \<and> (\<forall>T i a. asset_get T i s = Some a \<longrightarrow> asset_get T i s' = Some a)"

lemma keeps_refl [simp]: "keeps s s"
  by (simp add: keeps_def)

lemma keeps_trans: "\<lbrakk>keeps s t; keeps t u\<rbrakk> \<Longrightarrow> keeps s u"
  unfolding keeps_def by (intro conjI allI impI; (elim conjE)?; metis)

lemma keepsI:
  assumes "db_spec_versions s' = db_spec_versions s \<or> (\<exists>i r. tbl_add i r (db_spec_versions s) = Inr (db_spec_versions s'))"
    and "db_products s' = db_products s \<or> (\<exists>i r. tbl_add i r (db_products s) = Inr (db_products s'))
      \<or> (\<exists>i p q. tbl_get (db_products s) i = Some p \<and> product_ident q = product_ident p \<and> db_products s' = tbl_put i q (db_products s))"
    and "db_variants s' = db_variants s \<or> (\<exists>i r. tbl_add i r (db_variants s) = Inr (db_variants s'))"
    and "db_assets s' = db_assets s \<or> (\<exists>i r. tbl_add i r (db_assets s) = Inr (db_assets s'))"
  shows "keeps s s'"
proof -
  have add: "tbl_get t' j = Some x" if "t' = t \<or> (\<exists>i r. tbl_add i r t = Inr t')" "tbl_get t j = Some x" for t t' :: "'z table" and j x
    using that tbl.add_keeps by metis
  have prod: "\<exists>p'. product_get T i s' = Some p' \<and> product_ident p' = product_ident p" if "product_get T i s = Some p" for T i p
  proof -
    have p: "tbl_get (db_products s) i = Some p" "prod_tenant_id p = T"
      using that by (simp_all add: product_get_def scoped_get_Some)
    have "\<exists>p'. tbl_get (db_products s') i = Some p' \<and> product_ident p' = product_ident p"
      using assms(2) p(1) add [of "db_products s'" "db_products s" i p] by (auto simp: tbl_get_put)
    then show ?thesis using p(2) by (auto simp: product_get_def scoped_get_Some product_ident_def)
  qed
  show ?thesis
    unfolding keeps_def
    using prod add [OF assms(1)] add [OF assms(3)] add [OF assms(4)]
    by (auto simp: spec_version_get_def variant_get_def asset_get_def scoped_get_Some)
qed

section \<open>Well-formed catalogues\<close>

definition product_pinned :: "db \<Rightarrow> product \<Rightarrow> bool" where
  "product_pinned s p \<longleftrightarrow> (\<exists>v. spec_version_get (prod_tenant_id p) (prod_spec_version_id p) s = Some v
     \<and> csv_category_id v = prod_category_id p)"

definition variant_valid :: "db \<Rightarrow> product_variant \<Rightarrow> bool" where
  "variant_valid s r \<longleftrightarrow> (\<exists>p v. product_get (pv_tenant_id r) (pv_product_id r) s = Some p
     \<and> spec_version_get (pv_tenant_id r) (prod_spec_version_id p) s = Some v
     \<and> validate_axis_values (csv_snapshot v) (pv_axis_values r) = [])"

definition photo_valid :: "db \<Rightarrow> product_input_image \<Rightarrow> bool" where
  "photo_valid s i \<longleftrightarrow> (\<exists>p v a. product_get (pii_tenant_id i) (pii_product_id i) s = Some p
     \<and> spec_version_get (pii_tenant_id i) (prod_spec_version_id p) s = Some v
     \<and> uuid_str (pii_input_image_slot_id i) \<in> set (map sni_id (input_image_slots (csv_snapshot v)))
     \<and> asset_get (pii_tenant_id i) (pii_asset_id i) s = Some a \<and> asset_kind a = ASSET_INPUT
     \<and> (case pii_variant_id i of None \<Rightarrow> True
        | Some w \<Rightarrow> \<exists>r. variant_get (pii_tenant_id i) w s = Some r \<and> pv_product_id r = pii_product_id i))"

definition catalogue_ok :: "db \<Rightarrow> bool" where
  "catalogue_ok s \<longleftrightarrow> tbl_ok prod_id (db_products s) \<and> tbl_ok pv_id (db_variants s) \<and> tbl_ok pii_id (db_input_images s)
     \<and> tbl_ok csv_id (db_spec_versions s) \<and> (\<forall>p \<in> set (rows (db_products s)). product_pinned s p)
     \<and> (\<forall>r \<in> set (rows (db_variants s)). variant_valid s r)
     \<and> (\<forall>i \<in> set (rows (db_input_images s)). photo_valid s i)"

lemma keeps_product_pinned: "\<lbrakk>keeps s s'; product_pinned s p\<rbrakk> \<Longrightarrow> product_pinned s' p"
  unfolding keeps_def product_pinned_def by blast

lemma product_pinned_ident: "product_ident q = product_ident p \<Longrightarrow> product_pinned s q = product_pinned s p"
  by (simp add: product_pinned_def product_ident_def)

lemma keeps_pin:
  assumes "keeps s s'" and "product_get T i s = Some p" and "spec_version_get T (prod_spec_version_id p) s = Some v"
  shows "\<exists>p'. product_get T i s' = Some p' \<and> spec_version_get T (prod_spec_version_id p') s' = Some v"
proof -
  from assms(1,2) obtain p' where p': "product_get T i s' = Some p'" "product_ident p' = product_ident p"
    unfolding keeps_def by blast
  then have "prod_spec_version_id p' = prod_spec_version_id p" by (simp add: product_ident_def)
  moreover have "spec_version_get T (prod_spec_version_id p) s' = Some v"
    using assms(1,3) unfolding keeps_def by blast
  ultimately show ?thesis using p'(1) by auto
qed

lemma keeps_variant_valid: "\<lbrakk>keeps s s'; variant_valid s r\<rbrakk> \<Longrightarrow> variant_valid s' r"
  unfolding variant_valid_def using keeps_pin by meson

lemma keeps_photo_valid:
  assumes "keeps s s'" and "photo_valid s i"
  shows "photo_valid s' i"
proof -
  let ?T = "pii_tenant_id i"
  from assms(2) obtain p v a where *: "product_get ?T (pii_product_id i) s = Some p"
    "spec_version_get ?T (prod_spec_version_id p) s = Some v"
    "uuid_str (pii_input_image_slot_id i) \<in> set (map sni_id (input_image_slots (csv_snapshot v)))"
    "asset_get ?T (pii_asset_id i) s = Some a" "asset_kind a = ASSET_INPUT"
    "case pii_variant_id i of None \<Rightarrow> True
        | Some w \<Rightarrow> \<exists>r. variant_get ?T w s = Some r \<and> pv_product_id r = pii_product_id i"
    unfolding photo_valid_def by blast
  from keeps_pin [OF assms(1) *(1,2)] obtain p' where p': "product_get ?T (pii_product_id i) s' = Some p'"
    "spec_version_get ?T (prod_spec_version_id p') s' = Some v" by blast
  moreover have "asset_get ?T (pii_asset_id i) s' = Some a" using assms(1) *(4) unfolding keeps_def by blast
  moreover have "case pii_variant_id i of None \<Rightarrow> True
        | Some w \<Rightarrow> \<exists>r. variant_get ?T w s' = Some r \<and> pv_product_id r = pii_product_id i"
    using *(6) assms(1) unfolding keeps_def by (auto split: option.splits)
  ultimately show ?thesis unfolding photo_valid_def using *(3,5) by blast
qed

text \<open>So only the new and changed rows of a transaction need to be looked at.\<close>

lemma catalogue_okI:
  assumes "catalogue_ok s" and "keeps s s'"
    and "tbl_ok prod_id (db_products s')" "tbl_ok pv_id (db_variants s')" "tbl_ok pii_id (db_input_images s')"
      "tbl_ok csv_id (db_spec_versions s')"
    and "\<forall>p \<in> set (rows (db_products s')). p \<in> set (rows (db_products s)) \<or> product_pinned s p"
    and "\<forall>r \<in> set (rows (db_variants s')). r \<in> set (rows (db_variants s)) \<or> variant_valid s r"
    and "\<forall>i \<in> set (rows (db_input_images s')). i \<in> set (rows (db_input_images s)) \<or> photo_valid s i"
  shows "catalogue_ok s'"
  using assms keeps_product_pinned keeps_variant_valid keeps_photo_valid unfolding catalogue_ok_def by blast

section \<open>What each operation does to the catalogue\<close>

lemma CreateProduct_effect:
  assumes "CreateProduct mv i au T c attrs u now s = Inr (p, s')"
  shows "\<exists>t log v. tbl_add (prod_id p) p (db_products s) = Inr t \<and> s' = s\<lparr>db_products := t, db_audit := log\<rparr>
    \<and> prod_tenant_id p = T \<and> prod_category_id p = c \<and> prod_spec_version_id p = csv_id v \<and> prod_status p = PROD_DRAFT
    \<and> v \<in> set (rows (db_spec_versions s)) \<and> csv_tenant_id v = T \<and> csv_category_id v = c
    \<and> (\<exists>cat. category_get T c s = Some cat \<and> cat_current_spec_version cat = Some (csv_version v))"
proof -
  from assms obtain cat cur v model definitions where cat: "category_get T c s = Some cat" "cat_current_spec_version cat = Some cur"
    and v: "spec_version_get_by_version T c cur s = Inr (Some v)"
    and made: "(case mv model attrs of
        Inl msg \<Rightarrow> Inl (ValidationError (''Invalid attributes: '' @ msg))
      | Inr validated \<Rightarrow>
          bind_result (text_column (semantic_value ROLE_TITLE definitions validated)) (\<lambda>title.
          bind_result (text_column (semantic_value ROLE_SKU definitions validated)) (\<lambda>sku.
          bind_result (bigint_column (semantic_value ROLE_PRICE definitions validated)) (\<lambda>price_amount.
          let product = Product_create i T c (csv_id v) validated u now title sku price_amount None
          in bind_result (product_add product s) (\<lambda>s1.
             bind_result (audit_record au T (Some u) ''product.created'' ''product''
                 (prod_id product) None (Some [(''category_id'', JStr (uuid_str c))]) now s1) (\<lambda>s2.
               Inr (product, s2))))))) = Inr (p, s')"
    by (auto simp: CreateProduct_def bind_result_eq_Inr Let_def)
  from made obtain s1 attrs' title sku price where p: "p = Product_create i T c (csv_id v) attrs' u now title sku price None"
    and add: "product_add p s = Inr s1" and audit: "audit_record au T (Some u) ''product.created'' ''product'' (prod_id p) None
         (Some [(''category_id'', JStr (uuid_str c))]) now s1 = Inr s'"
    by (auto simp: bind_result_eq_Inr Let_def split: sum.splits)
  have "prod_id p = i" "prod_tenant_id p = T" "prod_category_id p = c" "prod_spec_version_id p = csv_id v" "prod_status p = PROD_DRAFT"
    by (simp_all add: p Product_create_def)
  note p = this
  from scalar_Some [OF v [unfolded spec_version_get_by_version_def]] cat add audit_record_Inr [OF audit] p show ?thesis
    by (auto simp: product_add_def bind_result_eq_Inr)
qed

lemma CreateProductVariant_effect:
  assumes "CreateProductVariant i au T pid ax u sku attrs dflt pos now s = Inr (r, s')"
  shows "\<exists>t log. tbl_add (pv_id r) r (db_variants s) = Inr t \<and> s' = s\<lparr>db_variants := t, db_audit := log\<rparr>
    \<and> pv_product_id r = pid \<and> variant_valid s r"
proof -
  from assms obtain p v s1 where *: "product_get T pid s = Some p" "spec_version_get T (prod_spec_version_id p) s = Some v"
      "validate_axis_values (csv_snapshot v) ax = []"
    and r: "r = ProductVariant_create i T pid ax u now sku attrs dflt pos"
    and add: "variant_add r s = Inr s1" and audit: "audit_record au T (Some u) ''product_variant.created''
            ''product_variant'' (pv_id r) None
            (Some [(''product_id'', JStr (uuid_str pid)),
                   (''axis_values'', JObj (map (\<lambda>(k, v). (k, JStr v)) ax))]) now s1 = Inr s'"
    by (auto simp: CreateProductVariant_def bind_result_eq_Inr Let_def)
  have rf: "pv_tenant_id r = T" "pv_product_id r = pid" "pv_axis_values r = ax"
    by (simp_all add: r ProductVariant_create_def)
  with * have "variant_valid s r" by (auto simp: variant_valid_def)
  with add audit_record_Inr [OF audit] rf(2) show ?thesis
    by (auto simp: variant_add_def bind_result_eq_Inr)
qed

lemma CaptureProductInputImage_effect:
  assumes "CaptureProductInputImage i au T pid slot aid u var now s = Inr (r, s')"
  shows "\<exists>t log. tbl_add (pii_id r) r (db_input_images s) = Inr t \<and> s' = s\<lparr>db_input_images := t, db_audit := log\<rparr>
    \<and> r = ProductInputImage_create i T pid slot aid u now var \<and> photo_valid s r"
proof -
  from assms obtain p v a s1 where *: "product_get T pid s = Some p" "spec_version_get T (prod_spec_version_id p) s = Some v"
      "uuid_str slot \<in> set (map sni_id (input_image_slots (csv_snapshot v)))" "asset_get T aid s = Some a" "asset_kind a = ASSET_INPUT"
    and var: "(case var of None \<Rightarrow> Inr () | Some v \<Rightarrow> (case variant_get T v s of
            None \<Rightarrow> Inl (NotFoundError ''Product variant not found.'')
          | Some variant \<Rightarrow> ensure (pv_product_id variant = pid) (NotFoundError ''Product variant not found.''))) = Inr ()"
    and r: "r = ProductInputImage_create i T pid slot aid u now var"
    and add: "input_image_add r s = Inr s1" and audit: "audit_record au T (Some u) ''product_input_image.captured''
            ''product_input_image'' (pii_id r) None
            (Some [(''product_id'', JStr (uuid_str pid)), (''asset_id'', JStr (uuid_str aid))]) now s1 = Inr s'"
    by (auto simp: CaptureProductInputImage_def bind_result_eq_Inr Let_def)
  have rf: "pii_tenant_id r = T" "pii_product_id r = pid" "pii_variant_id r = var" "pii_input_image_slot_id r = slot"
    "pii_asset_id r = aid" by (simp_all add: r ProductInputImage_create_def)
  have "case var of None \<Rightarrow> True | Some w \<Rightarrow> \<exists>q. variant_get T w s = Some q \<and> pv_product_id q = pid"
    using var by (auto split: option.splits)
  with * have "photo_valid s r" unfolding photo_valid_def rf by blast
  with add audit_record_Inr [OF audit] r show ?thesis
    by (auto simp: input_image_add_def bind_result_eq_Inr)
qed

lemma StartInputImageValidation_effect:
  assumes "StartInputImageValidation T i now s = Inr (ctx, s')"
  shows "\<exists>r r' a. input_image_get T i s = Some r \<and> asset_get T (pii_asset_id r) s = Some a
     \<and> ProductInputImage_start_validating now r = Inr r'
     \<and> s' = s\<lparr>db_input_images := tbl_put (pii_id r') r' (db_input_images s)\<rparr>
     \<and> ctx = \<lparr>ivc_image_id = pii_id r', ivc_storage_key = asset_storage_key a,
             ivc_width = asset_width a, ivc_height = asset_height a\<rparr>"
  using assms by (auto simp: StartInputImageValidation_def bind_result_eq_Inr input_image_update_def)

lemma CompleteInputImageValidation_effect:
  assumes "CompleteInputImageValidation au T i ok why now s = Inr (r', s')"
  shows "\<exists>r log. input_image_get T i s = Some r \<and> product_input_image_step r r'
     \<and> s' = s\<lparr>db_input_images := tbl_put (pii_id r') r' (db_input_images s), db_audit := log\<rparr>"
proof -
  from assms obtain r where r: "input_image_get T i s = Some r"
    and st: "(if ok then ProductInputImage_mark_ready now r else ProductInputImage_mark_rejected
          (case why of None \<Rightarrow> ''Validation failed.'' | Some w \<Rightarrow> if w = [] then ''Validation failed.'' else w) now r) = Inr r'"
    and audit: "audit_record au T None ''product_input_image.validation_completed'' ''product_input_image'' (pii_id r')
         (Some [(''status'', JStr (input_image_status_value (pii_status r)))])
         (Some [(''status'', JStr (input_image_status_value (pii_status r'))),
                (''rejection_reason'', jstr_opt (pii_rejection_reason r'))]) now (input_image_update r' s) = Inr s'"
    by (auto simp: CompleteInputImageValidation_def bind_result_eq_Inr)
  from st have "product_input_image_step r r'"
    by (auto split: if_splits intro: product_input_image_step.intros)
  with r audit_record_Inr [OF audit] show ?thesis by (auto simp: input_image_update_def)
qed

lemma RecomputeProductReadiness_effect:
  assumes "RecomputeProductReadiness T pid now s = Inr (p', s')"
  shows "\<exists>p. product_get T pid s = Some p \<and> product_ident p' = product_ident p
     \<and> s' = s\<lparr>db_products := tbl_put (prod_id p') p' (db_products s)\<rparr>"
  using assms
  by (auto simp: RecomputeProductReadiness_def bind_result_eq_Inr product_update_def split: if_splits
      dest!: product_step_ident [OF product_step.mark_ready] product_step_ident [OF product_step.mark_needs_attention])

lemma PublishCategorySpec_effect:
  assumes "PublishCategorySpec i au T c u now s = Inr (v, s')"
  shows "tbl_add (csv_id v) v (db_spec_versions s) = Inr (db_spec_versions s') \<and> db_products s' = db_products s
     \<and> db_variants s' = db_variants s \<and> db_input_images s' = db_input_images s \<and> db_assets s' = db_assets s"
  using assms
  by (auto simp: PublishCategorySpec_def bind_result_eq_Inr Let_def category_update_def introduce_rows_def
      tbl_add_unique_Inr CategorySpecVersion_create_def split: if_splits dest!: audit_record_Inr)

lemma reject_upload_db: "reject_upload cfg k e (s, fs) = (r, s', fs') \<Longrightarrow> s' = s"
  by (auto simp: reject_upload_def split: sum.splits)

lemma register_upload_db:
  assumes "register_upload cfg i au T k kind u h n ins now (s, fs) = (r, s', fs')"
  shows "s' = s \<or> (\<exists>j a t log. tbl_add j a (db_assets s) = Inr t \<and> s' = s\<lparr>db_assets := t, db_audit := log\<rparr>)"
proof (cases "s' = s")
  case False
  with assms obtain a s1 where "asset_add a s = Inr s1" and audit: "audit_record au T (Some u) ''asset.uploaded'' ''asset''
      (asset_id a) None (Some [(''kind'', JStr (asset_kind_value kind)), (''sha256'', JStr h)]) now s1 = Inr s'"
    by (auto simp: register_upload_def run_uow_def bind_result_eq_Inr split: sum.splits option.splits prod.splits)
  with audit_record_Inr [OF audit] show ?thesis
    by (auto simp: asset_add_def bind_result_eq_Inr tbl_add_unique_Inr)
qed simp

lemma VerifyAndRegisterUpload_db:
  assumes "VerifyAndRegisterUpload cfg sv i au T k kind u now (s, fs) = (r, s', fs')"
  shows "s' = s \<or> (\<exists>j a t log. tbl_add j a (db_assets s) = Inr t \<and> s' = s\<lparr>db_assets := t, db_audit := log\<rparr>)"
  using assms register_upload_db reject_upload_db
  by (auto simp: VerifyAndRegisterUpload_def split: if_splits sum.splits; metis)

section \<open>Any interleaving\<close>

text \<open>One committed transaction of any tenant's user or worker; what it returns is left out.\<close>

inductive catalogue_step :: "db \<Rightarrow> db \<Rightarrow> bool" where
  create_product: "CreateProduct mv i au T c attrs u now s = Inr (p, s') \<Longrightarrow> catalogue_step s s'"
| create_variant: "CreateProductVariant i au T pid ax u sku attrs dflt pos now s = Inr (r, s') \<Longrightarrow> catalogue_step s s'"
| capture: "CaptureProductInputImage i au T pid slot aid u var now s = Inr (ph, s') \<Longrightarrow> catalogue_step s s'"
| start_validation: "StartInputImageValidation T i now s = Inr (ctx, s') \<Longrightarrow> catalogue_step s s'"
| complete_validation: "CompleteInputImageValidation au T i ok why now s = Inr (ph, s') \<Longrightarrow> catalogue_step s s'"
| recompute: "RecomputeProductReadiness T pid now s = Inr (p, s') \<Longrightarrow> catalogue_step s s'"
| publish_spec: "PublishCategorySpec i au T c u now s = Inr (v, s') \<Longrightarrow> catalogue_step s s'"
| upload: "VerifyAndRegisterUpload cfg sv i au T k kind u now (s, fs) = (res, s', fs') \<Longrightarrow> catalogue_step s s'"

text \<open>Each changes one of the tables, in one of these ways.\<close>

definition catalogue_delta :: "db \<Rightarrow> db \<Rightarrow> bool" where
  "catalogue_delta s s' \<longleftrightarrow>
     (\<exists>p t log. tbl_add (prod_id p) p (db_products s) = Inr t \<and> s' = s\<lparr>db_products := t, db_audit := log\<rparr> \<and> product_pinned s p)
   \<or> (\<exists>p p'. product_get (prod_tenant_id p) (prod_id p) s = Some p \<and> product_ident p' = product_ident p
        \<and> s' = s\<lparr>db_products := tbl_put (prod_id p') p' (db_products s)\<rparr>)
   \<or> (\<exists>r t log. tbl_add (pv_id r) r (db_variants s) = Inr t \<and> s' = s\<lparr>db_variants := t, db_audit := log\<rparr> \<and> variant_valid s r)
   \<or> (\<exists>r t log. tbl_add (pii_id r) r (db_input_images s) = Inr t \<and> s' = s\<lparr>db_input_images := t, db_audit := log\<rparr> \<and> photo_valid s r)
   \<or> (\<exists>r r' log. r \<in> set (rows (db_input_images s)) \<and> product_input_image_ident r' = product_input_image_ident r
        \<and> s' = s\<lparr>db_input_images := tbl_put (pii_id r') r' (db_input_images s), db_audit := log\<rparr>)
   \<or> (\<exists>v. tbl_add (csv_id v) v (db_spec_versions s) = Inr (db_spec_versions s') \<and> db_products s' = db_products s
        \<and> db_variants s' = db_variants s \<and> db_input_images s' = db_input_images s \<and> db_assets s' = db_assets s)
   \<or> s' = s \<or> (\<exists>j a t log. tbl_add j a (db_assets s) = Inr t \<and> s' = s\<lparr>db_assets := t, db_audit := log\<rparr>)"

lemma photo_valid_ident:
  assumes "product_input_image_ident r' = product_input_image_ident r"
  shows "photo_valid s r' = photo_valid s r"
proof -
  have "pii_tenant_id r' = pii_tenant_id r" "pii_product_id r' = pii_product_id r" "pii_variant_id r' = pii_variant_id r"
    "pii_input_image_slot_id r' = pii_input_image_slot_id r" "pii_asset_id r' = pii_asset_id r"
    using assms by (simp_all add: product_input_image_ident_def)
  then show ?thesis unfolding photo_valid_def by (simp only:)
qed

lemma catalogue_delta_keeps: "catalogue_delta s s' \<Longrightarrow> keeps s s'"
  unfolding catalogue_delta_def
proof (elim disjE exE conjE)
  fix p p' assume "product_get (prod_tenant_id p) (prod_id p) s = Some p" "product_ident p' = product_ident p"
    "s' = s\<lparr>db_products := tbl_put (prod_id p') p' (db_products s)\<rparr>"
  moreover from this have "tbl_get (db_products s) (prod_id p') = Some p"
    by (simp add: product_get_def scoped_get_Some product_ident_def)
  ultimately show ?thesis by (intro keepsI) (simp_all, blast)
qed (rule keepsI; auto)+

lemma catalogue_delta_ok:
  assumes "catalogue_delta s s'" and "catalogue_ok s"
  shows "catalogue_ok s'"
proof -
  have keeps: "keeps s s'" by (rule catalogue_delta_keeps [OF assms(1)])
  have ok: "tbl_ok prod_id (db_products s)" "tbl_ok pv_id (db_variants s)" "tbl_ok pii_id (db_input_images s)"
    "tbl_ok csv_id (db_spec_versions s)" "\<forall>p \<in> set (rows (db_products s)). product_pinned s p"
    "\<forall>i \<in> set (rows (db_input_images s)). photo_valid s i"
    using assms(2) by (simp_all add: catalogue_ok_def)
  note okI = catalogue_okI [OF assms(2) keeps]
  from assms(1) show ?thesis
    unfolding catalogue_delta_def
  proof (elim disjE exE conjE)
    fix p t log assume "tbl_add (prod_id p) p (db_products s) = Inr t" "s' = s\<lparr>db_products := t, db_audit := log\<rparr>" "product_pinned s p"
    with ok show ?thesis by (intro okI) (simp_all add: rows_tbl_add tbl_ok_addedI)
  next
    fix p p' assume *: "product_get (prod_tenant_id p) (prod_id p) s = Some p" "product_ident p' = product_ident p"
      "s' = s\<lparr>db_products := tbl_put (prod_id p') p' (db_products s)\<rparr>"
    from *(1) have "p \<in> set (rows (db_products s))"
      by (auto simp: product_get_def scoped_get_Some dest: rows_mem)
    with ok(5) product_pinned_ident [OF *(2)] have "product_pinned s p'" by simp
    with ok * show ?thesis by (intro okI) (auto simp: tbl_ok_put dest: rows_put_subset)
  next
    fix r t log assume "tbl_add (pv_id r) r (db_variants s) = Inr t" "s' = s\<lparr>db_variants := t, db_audit := log\<rparr>" "variant_valid s r"
    with ok show ?thesis by (intro okI) (simp_all add: rows_tbl_add tbl_ok_addedI)
  next
    fix r t log assume "tbl_add (pii_id r) r (db_input_images s) = Inr t" "s' = s\<lparr>db_input_images := t, db_audit := log\<rparr>" "photo_valid s r"
    with ok show ?thesis by (intro okI) (simp_all add: rows_tbl_add tbl_ok_addedI)
  next
    fix r r' log assume *: "r \<in> set (rows (db_input_images s))" "product_input_image_ident r' = product_input_image_ident r"
      "s' = s\<lparr>db_input_images := tbl_put (pii_id r') r' (db_input_images s), db_audit := log\<rparr>"
    then have "photo_valid s r'" using ok(6) photo_valid_ident [of r' r s] by simp
    with ok * show ?thesis by (intro okI) (auto simp: tbl_ok_put dest: rows_put_subset)
  next
    fix v assume *: "tbl_add (csv_id v) v (db_spec_versions s) = Inr (db_spec_versions s')" and "db_products s' = db_products s"
      "db_variants s' = db_variants s" "db_input_images s' = db_input_images s" "db_assets s' = db_assets s"
    with ok tbl_ok_addedI [where key = csv_id, OF *] show ?thesis by (intro okI) simp_all
  next
    assume "s' = s" then show ?thesis using assms(2) by simp
  next
    fix j a t log assume "tbl_add j a (db_assets s) = Inr t" "s' = s\<lparr>db_assets := t, db_audit := log\<rparr>"
    with ok show ?thesis by (intro okI) simp_all
  qed
qed

lemma input_image_get_mem: "input_image_get T i s = Some r \<Longrightarrow> r \<in> set (rows (db_input_images s))"
  by (auto simp: input_image_get_def scoped_get_Some dest: rows_mem)

lemma catalogue_step_delta:
  assumes "catalogue_step s s'" and ok: "catalogue_ok s"
  shows "catalogue_delta s s'"
  using assms(1)
proof cases
  case create_product
  from CreateProduct_effect [OF this] obtain t log p v where *: "tbl_add (prod_id p) p (db_products s) = Inr t"
    "s' = s\<lparr>db_products := t, db_audit := log\<rparr>" and v: "prod_spec_version_id p = csv_id v" "v \<in> set (rows (db_spec_versions s))"
    "csv_tenant_id v = prod_tenant_id p" "csv_category_id v = prod_category_id p" by metis
  from ok v(2) have "tbl_get (db_spec_versions s) (csv_id v) = Some v"
    unfolding catalogue_ok_def by (elim conjE) (simp only: rows_iff [of csv_id])
  with v have "product_pinned s p" by (simp add: product_pinned_def spec_version_get_def scoped_get_Some)
  with * show ?thesis unfolding catalogue_delta_def by blast
next
  case create_variant
  from CreateProductVariant_effect [OF this] show ?thesis unfolding catalogue_delta_def by blast
next
  case capture
  from CaptureProductInputImage_effect [OF this] show ?thesis unfolding catalogue_delta_def by blast
next
  case start_validation
  from StartInputImageValidation_effect [OF this] obtain T i now r r' where r: "input_image_get T i s = Some r"
    and st: "ProductInputImage_start_validating now r = Inr r'"
    and s': "s' = s\<lparr>db_input_images := tbl_put (pii_id r') r' (db_input_images s)\<rparr>" by blast
  have "s' = s\<lparr>db_input_images := tbl_put (pii_id r') r' (db_input_images s), db_audit := db_audit s\<rparr>" by (simp add: s')
  with input_image_get_mem [OF r] product_input_image_step_ident [OF product_input_image_step.start_validating [OF st]]
  show ?thesis unfolding catalogue_delta_def by blast
next
  case complete_validation
  from CompleteInputImageValidation_effect [OF this] obtain T i r r' log where "input_image_get T i s = Some r"
    "product_input_image_step r r'" "s' = s\<lparr>db_input_images := tbl_put (pii_id r') r' (db_input_images s), db_audit := log\<rparr>"
    by blast
  with input_image_get_mem [of T i s r] product_input_image_step_ident [of r r'] show ?thesis
    unfolding catalogue_delta_def by blast
next
  case recompute
  from RecomputeProductReadiness_effect [OF this] obtain T pid p p' where "product_get T pid s = Some p" "product_ident p' = product_ident p"
    "s' = s\<lparr>db_products := tbl_put (prod_id p') p' (db_products s)\<rparr>" by blast
  moreover from this ok have "product_get (prod_tenant_id p) (prod_id p) s = Some p"
    by (auto simp: product_get_def scoped_get_Some catalogue_ok_def dest: tbl_get_key)
  ultimately show ?thesis unfolding catalogue_delta_def by blast
next
  case publish_spec
  from PublishCategorySpec_effect [OF this] show ?thesis unfolding catalogue_delta_def by blast
next
  case upload
  from VerifyAndRegisterUpload_db [OF this] show ?thesis unfolding catalogue_delta_def by blast
qed

text \<open>C8: Whatever products, variants, photos, uploads and spec versions a run of transactions adds, in any order:
  every product is pinned to a version of its own category, every variant's axis values and every photo's slot are
  valid under the version its product is pinned to, every photo's file is an input photo of the same tenant, and a
  version, a product's pin, a variant and an asset once stored stay as they are - publishing a new spec never changes
  what an existing product is checked against.\<close>

theorem pinned_catalogue:
  assumes "catalogue_step\<^sup>*\<^sup>* s s'" and "catalogue_ok s"
  shows "catalogue_ok s' \<and> keeps s s'"
  using assms(1)
proof induction
  case (step t u)
  from catalogue_step_delta [OF step.hyps(2)] step.IH have "catalogue_delta t u" by blast
  with catalogue_delta_keeps catalogue_delta_ok step.IH show ?case by (blast intro: keeps_trans)
qed (simp add: assms(2))

text \<open>A shop with one product whose spec asks for one photo, and an uploaded photo.\<close>

definition shop_slot :: snap_input_slot where
  "shop_slot = \<lparr>sni_id = uuid_str 5, sni_category_id = uuid_str 9, sni_key = ''front'', sni_label = ''Front'',
     sni_description = None, sni_capture_guidance = None, sni_example_asset_id = None, sni_normalisation = [],
     sni_is_required = True, sni_position = 0\<rparr>"

definition shop_version :: category_spec_version where
  "shop_version = CategorySpecVersion_create 3 1 9 1 \<lparr>attribute_definitions = [], variant_axes = [],
     input_image_slots = [shop_slot], catalog_image_slots = []\<rparr> 7 0 None"

definition shop_product :: product where
  "shop_product = Product_create 2 1 9 3 [] 7 0 None None None None"

definition shop_photo_file :: asset where
  "shop_photo_file = \<lparr>asset_id = 30, asset_tenant_id = 1, asset_storage_key = ''k'', asset_sha256 = replicate 64 (CHR ''a''),
     asset_mime = ''image/png'', asset_width = 800, asset_height = 600, asset_bytes = 900, asset_kind = ASSET_INPUT,
     asset_source = ''upload'', asset_parent_asset_id = None, asset_meta = [], asset_uploaded_by = Some 7,
     asset_created_at = 1\<rparr>"

definition shop_db :: db where
  "shop_db = empty_db\<lparr>db_spec_versions := [(3, shop_version)], db_products := [(2, shop_product)],
     db_assets := [(30, shop_photo_file)]\<rparr>"

definition shop_photo :: product_input_image where
  "shop_photo = ProductInputImage_create 6 1 2 5 30 7 1 None"

definition shop_captured :: db where
  "shop_captured = shop_db\<lparr>db_input_images := [(6, shop_photo)],
     db_audit := db_audit (snd (projr (CaptureProductInputImage 6 40 1 2 5 30 7 None 1 shop_db)))\<rparr>"

lemma shop_lookups:
  "product_get 1 2 shop_db = Some shop_product" "spec_version_get 1 3 shop_db = Some shop_version"
  "asset_get 1 30 shop_db = Some shop_photo_file"
  "prod_spec_version_id shop_product = 3" "prod_tenant_id shop_product = 1" "prod_category_id shop_product = 9"
  "prod_id shop_product = 2"
  "csv_snapshot shop_version = \<lparr>attribute_definitions = [], variant_axes = [], input_image_slots = [shop_slot], catalog_image_slots = []\<rparr>"
  "csv_category_id shop_version = 9" "csv_id shop_version = 3" "asset_kind shop_photo_file = ASSET_INPUT"
  by (simp_all add: product_get_def spec_version_get_def asset_get_def scoped_get_def tbl_get_def shop_db_def
      shop_product_def shop_version_def shop_photo_file_def Product_create_def CategorySpecVersion_create_def)

lemma shop_db_ok: "catalogue_ok shop_db"
proof -
  have "product_pinned shop_db shop_product" by (simp add: product_pinned_def shop_lookups)
  then show ?thesis
    by (simp add: catalogue_ok_def tbl_ok_def rows_def shop_db_def empty_db_def shop_lookups)
qed

lemma shop_capture: "\<exists>t. CaptureProductInputImage 6 40 1 2 5 30 7 None 1 shop_db
    = Inr (shop_photo, shop_db\<lparr>db_input_images := [(6, shop_photo)], db_audit := t\<rparr>)"
proof -
  have none: "db_input_images shop_db = []" "tbl_get (db_audit (shop_db\<lparr>db_input_images := x\<rparr>)) 40 = None" for x
    by (simp_all add: shop_db_def empty_db_def tbl_get_def)
  have id: "pii_id shop_photo = 6" by (simp add: shop_photo_def ProductInputImage_create_def)
  show ?thesis
    unfolding CaptureProductInputImage_def
    using audit_record_last [OF none(2) [of "[(6, shop_photo)]"], of 1 "Some 7" "''product_input_image.captured''"
      "''product_input_image''" 6 None "Some [(''product_id'', JStr (uuid_str 2)), (''asset_id'', JStr (uuid_str 30))]" 1 shop_photo]
    by (simp add: shop_lookups shop_slot_def shop_photo_def [symmetric] Let_def input_image_add_def id none(1)
        tbl_add_def tbl_get_def)
qed

theorem pinned_catalogue_witness:
  "catalogue_ok shop_captured \<and> keeps shop_db shop_captured"
proof -
  from shop_capture obtain t where c: "CaptureProductInputImage 6 40 1 2 5 30 7 None 1 shop_db
    = Inr (shop_photo, shop_db\<lparr>db_input_images := [(6, shop_photo)], db_audit := t\<rparr>)" by blast
  then have "shop_captured = shop_db\<lparr>db_input_images := [(6, shop_photo)], db_audit := t\<rparr>"
    by (simp add: shop_captured_def)
  with c have "catalogue_step shop_db shop_captured" by (auto intro: catalogue_step.capture)
  from pinned_catalogue [OF r_into_rtranclp, OF this shop_db_ok] show ?thesis .
qed

section \<open>The validation of one photo\<close>

text \<open>What the agent accepts: a photo that is read and decoded, large enough, in a usual framing, sharp and well lit.\<close>

definition acceptable_photo :: "photo_measures option result \<Rightarrow> int \<Rightarrow> int \<Rightarrow> bool" where
  "acceptable_photo stored w h \<longleftrightarrow> 600 \<le> w \<and> 600 \<le> h \<and> w \<le> 3 * h \<and> h \<le> 3 * w
     \<and> (\<exists>m. stored = Inr (Some m) \<and> 150 \<le> ph_blur_variance m \<and> 25 \<le> ph_brightness m \<and> ph_brightness m \<le> 230)"

definition photo_verdict :: "photo_measures option result \<Rightarrow> int \<Rightarrow> int \<Rightarrow> validation_verdict" where
  "photo_verdict stored w h = (case bind_result stored (\<lambda>data. validate_input_image data w h) of
       Inl _ \<Rightarrow> rejected ''Could not read the uploaded photo - try uploading it again.'' | Inr v \<Rightarrow> v)"

lemma photo_verdict_acceptable:
  "photo_verdict stored w h = \<lparr>vv_passed = True, vv_reason = None\<rparr> \<and> acceptable_photo stored w h
   \<or> (\<exists>why. why \<noteq> [] \<and> photo_verdict stored w h = rejected why) \<and> \<not> acceptable_photo stored w h"
  by (cases stored)
     (auto simp: photo_verdict_def acceptable_photo_def validate_input_image_def MIN_WIDTH_def MIN_HEIGHT_def
       MIN_BLUR_VARIANCE_def MIN_BRIGHTNESS_def MAX_BRIGHTNESS_def rejected_def split: option.splits)

text \<open>C34: The validation of a captured photo always finishes: it ends ready, without a reason, exactly when the file is
  read and decoded and the photo is at least 600 by 600, framed within one to three, sharp and neither too dark nor
  overexposed, and rejected with a reason otherwise - also when the storage fails. It is never left being validated.\<close>

theorem input_validation_outcome:
  assumes "input_image_get T i s = Some photo" and "pii_status photo = INPUT_CAPTURED"
    and "asset_get T (pii_asset_id photo) s = Some a"
    and "tbl_get (db_audit s) au = None" and "tbl_ok pii_id (db_input_images s)"
  shows "\<exists>photo' s'. InputImageValidationAgent_run read time au T i s = (Inr photo', s') \<and> input_image_get T i s' = Some photo'
     \<and> (if acceptable_photo (read (asset_storage_key a)) (asset_width a) (asset_height a)
        then pii_status photo' = INPUT_READY \<and> pii_rejection_reason photo' = None
        else pii_status photo' = INPUT_REJECTED \<and> (\<exists>why. why \<noteq> [] \<and> pii_rejection_reason photo' = Some why))"
proof -
  have ids: "pii_id photo = i" "pii_tenant_id photo = T" "tbl_get (db_input_images s) i = Some photo"
    using assms(1,5) tbl_get_key by (fastforce simp: input_image_get_def scoped_get_Some)+
  define p1 where "p1 = photo\<lparr>pii_status := INPUT_VALIDATING, pii_updated_at := time 0\<rparr>"
  define s1 where "s1 = input_image_update p1 s"
  define v where "v = photo_verdict (read (asset_storage_key a)) (asset_width a) (asset_height a)"
  have p1: "pii_id p1 = i" "pii_tenant_id p1 = T" "pii_status p1 = INPUT_VALIDATING" by (simp_all add: p1_def ids)
  have start: "StartInputImageValidation T i (time 0) s = Inr (\<lparr>ivc_image_id = i,
      ivc_storage_key = asset_storage_key a, ivc_width = asset_width a, ivc_height = asset_height a\<rparr>, s1)"
    by (simp add: StartInputImageValidation_def assms(1,2,3) ProductInputImage_start_validating_def p1_def [symmetric] s1_def p1(1))
  have get1: "input_image_get T i s1 = Some p1"
    by (simp add: s1_def input_image_update_def input_image_get_def scoped_get_def tbl_get_put p1)
  have audit1: "tbl_get (db_audit s1) au = None" by (simp add: s1_def input_image_update_def assms(4))
  define p2 where "p2 = (if vv_passed v then p1\<lparr>pii_status := INPUT_READY, pii_rejection_reason := None, pii_updated_at := time 1\<rparr>
      else p1\<lparr>pii_status := INPUT_REJECTED, pii_rejection_reason := vv_reason v, pii_updated_at := time 1\<rparr>)"
  have p2: "pii_id p2 = i" "pii_tenant_id p2 = T" by (simp_all add: p2_def p1)
  have mark: "(if vv_passed v then ProductInputImage_mark_ready (time 1) p1 else ProductInputImage_mark_rejected
      (case vv_reason v of None \<Rightarrow> ''Validation failed.'' | Some r \<Rightarrow> if r = [] then ''Validation failed.'' else r) (time 1) p1) = Inr p2"
    using photo_verdict_acceptable [of "read (asset_storage_key a)" "asset_width a" "asset_height a", folded v_def]
    by (auto simp: p2_def p1 ProductInputImage_method_defs rejected_def)
  have get2: "input_image_get T i (input_image_update p2 s1\<lparr>db_audit := log\<rparr>) = Some p2" for log
    by (simp add: input_image_update_def input_image_get_def scoped_get_def tbl_get_put p2)
  have audit2: "tbl_get (db_audit (input_image_update p2 s1)) au = None"
    using audit1 by (simp add: input_image_update_def)
  have "\<exists>log. CompleteInputImageValidation au T i (vv_passed v) (vv_reason v) (time 1) s1
      = Inr (p2, input_image_update p2 s1\<lparr>db_audit := log\<rparr>)"
    unfolding CompleteInputImageValidation_def get1 require_simps bind_result_simps mark
    by (rule audit_record_last [OF audit2])
  then obtain log where "InputImageValidationAgent_run read time au T i s = (Inr p2, input_image_update p2 s1\<lparr>db_audit := log\<rparr>)"
    by (auto simp: InputImageValidationAgent_run_def start v_def photo_verdict_def Let_def)
  moreover have "if acceptable_photo (read (asset_storage_key a)) (asset_width a) (asset_height a)
        then pii_status p2 = INPUT_READY \<and> pii_rejection_reason p2 = None
        else pii_status p2 = INPUT_REJECTED \<and> (\<exists>why. why \<noteq> [] \<and> pii_rejection_reason p2 = Some why)"
    using photo_verdict_acceptable [of "read (asset_storage_key a)" "asset_width a" "asset_height a", folded v_def]
    by (auto simp: p2_def rejected_def)
  ultimately show ?thesis using get2 by blast
qed

theorem input_validation_outcome_witness:
  "\<exists>photo' s'. InputImageValidationAgent_run (\<lambda>_. Inr (Some \<lparr>ph_blur_variance = 200, ph_brightness = 100\<rparr>)) int 41 1 6
      (shop_db\<lparr>db_input_images := [(6, shop_photo)]\<rparr>) = (Inr photo', s') \<and> pii_status photo' = INPUT_READY"
proof -
  let ?s = "shop_db\<lparr>db_input_images := [(6, shop_photo)]\<rparr>"
  have f: "pii_status shop_photo = INPUT_CAPTURED" "pii_asset_id shop_photo = 30" "pii_tenant_id shop_photo = 1" "pii_id shop_photo = 6"
    by (simp_all add: shop_photo_def ProductInputImage_create_def)
  have get: "input_image_get 1 6 ?s = Some shop_photo"
    by (simp add: input_image_get_def scoped_get_def tbl_get_def f)
  have a: "asset_get 1 (pii_asset_id shop_photo) ?s = Some shop_photo_file"
    using shop_lookups(3) by (simp add: asset_get_def f)
  have "tbl_get (db_audit ?s) 41 = None" "tbl_ok pii_id (db_input_images ?s)"
    by (simp_all add: shop_db_def empty_db_def tbl_get_def tbl_ok_def f)
  note input_validation_outcome [OF get f(1) a this, of "\<lambda>_. Inr (Some \<lparr>ph_blur_variance = 200, ph_brightness = 100\<rparr>)" int]
  moreover have "acceptable_photo (Inr (Some \<lparr>ph_blur_variance = 200, ph_brightness = 100\<rparr>)) 800 600"
    by (simp add: acceptable_photo_def)
  ultimately show ?thesis by (auto simp: shop_photo_file_def)
qed

end
