(* ===== verification/Templates_Protocol.thy ===== *)
theory Templates_Protocol
  imports Templates Products_Protocol Generation_Properties "HOL-Library.Multiset"
begin

text \<open>
  What holds of the templates of a slot over every sequence of transactions: their versions, what never becomes of
  them, and what a usable template guarantees; then the outcome of an analysis and of seeding the stock presets.
\<close>

section \<open>Elementary changes of the table\<close>

text \<open>A change of one template that the code makes: every method but \<open>retry_analysis\<close>, which nothing calls.\<close>

definition live_step :: "catalog_template \<Rightarrow> catalog_template \<Rightarrow> bool" where
  "live_step t u \<longleftrightarrow> catalog_template_step t u \<and> ct_status t \<noteq> TPL_ANALYSIS_FAILED"

lemma live_step_ident: "live_step t u \<Longrightarrow> catalog_template_ident u = catalog_template_ident t"
  by (simp add: live_step_def catalog_template_step_ident)

lemma live_steps_ident: "live_step\<^sup>*\<^sup>* t u \<Longrightarrow> catalog_template_ident u = catalog_template_ident t"
  by (induction rule: rtranclp_induct) (simp_all add: live_step_ident)


inductive table_step :: "catalog_template table \<Rightarrow> catalog_template table \<Rightarrow> bool" where
  added: "\<lbrakk>tbl_add_unique template_clash (ct_id t) t (db_templates s) = Inr ts'; \<not> ct_is_default t;
     ct_version t = next_version (ct_tenant_id t) (ct_catalog_image_slot_id t) (ct_name t) s\<rbrakk>
   \<Longrightarrow> table_step (db_templates s) ts'"
| moved: "\<lbrakk>tbl_get ts (ct_id t) = Some t; live_step\<^sup>*\<^sup>* t u\<rbrakk> \<Longrightarrow> table_step ts (tbl_put (ct_id u) u ts)"

section \<open>Every transaction is a sequence of them\<close>

lemma template_add_step:
  assumes "template_add t s = Inr s1" and "\<not> ct_is_default t"
    and "ct_version t = next_version (ct_tenant_id t) (ct_catalog_image_slot_id t) (ct_name t) s"
  shows "table_step (db_templates s) (db_templates s1) \<and> tbl_get (db_templates s1) (ct_id t) = Some t"
proof -
  from assms(1) have add: "tbl_add_unique template_clash (ct_id t) t (db_templates s) = Inr (db_templates s1)"
    by (auto simp: template_add_def bind_result_eq_Inr)
  have "tbl_get (db_templates s1) (ct_id t) = Some t"
    using add tbl_get_add [of "ct_id t" t "db_templates s" "db_templates s1"] by (simp add: tbl_add_unique_Inr)
  with table_step.added [OF add assms(2,3)] show ?thesis by blast
qed

lemma start_settle_steps:
  assumes "CatalogTemplate_start_analysing now t = Inr u" and "settle_analysis problems p a m now' u = Inr v"
  shows "live_step\<^sup>*\<^sup>* t v"
proof -
  have "live_step t u"
    using assms(1) by (auto simp: live_step_def CatalogTemplate_start_analysing_def split: if_splits
        intro: catalog_template_step.start_analysing)
  moreover have "live_step u v"
    using assms by (auto simp: live_step_def settle_analysis_def CatalogTemplate_method_defs split: if_splits
        intro: catalog_template_step.mark_analysed catalog_template_step.mark_invalid)
  ultimately show ?thesis by simp
qed

lemma created_fields:
  "ct_id (CatalogTemplate_create_authored i T sl nm p u now v d pos) = i"
  "ct_tenant_id (CatalogTemplate_create_authored i T sl nm p u now v d pos) = T"
  "ct_catalog_image_slot_id (CatalogTemplate_create_authored i T sl nm p u now v d pos) = sl"
  "ct_name (CatalogTemplate_create_authored i T sl nm p u now v d pos) = nm"
  "ct_version (CatalogTemplate_create_authored i T sl nm p u now v d pos) = v"
  "ct_is_default (CatalogTemplate_create_authored i T sl nm p u now v d pos) = d"
  "ct_status (CatalogTemplate_create_authored i T sl nm p u now v d pos) = TPL_UPLOADED"
  "ct_id (CatalogTemplate_create_from_upload i T sl nm a u now v d pos) = i"
  "ct_tenant_id (CatalogTemplate_create_from_upload i T sl nm a u now v d pos) = T"
  "ct_catalog_image_slot_id (CatalogTemplate_create_from_upload i T sl nm a u now v d pos) = sl"
  "ct_name (CatalogTemplate_create_from_upload i T sl nm a u now v d pos) = nm"
  "ct_version (CatalogTemplate_create_from_upload i T sl nm a u now v d pos) = v"
  "ct_is_default (CatalogTemplate_create_from_upload i T sl nm a u now v d pos) = d"
  by (simp_all add: CatalogTemplate_create_authored_def CatalogTemplate_create_from_upload_def)

lemma authored_steps:
  assumes add: "template_add (CatalogTemplate_create_authored i T sl nm p u now (next_version T sl nm s) False pos) s = Inr s1"
    and start: "CatalogTemplate_start_analysing now (CatalogTemplate_create_authored i T sl nm p u now (next_version T sl nm s) False pos) = Inr t"
    and settle: "settle_analysis problems p a m now t = Inr t'"
  shows "table_step\<^sup>*\<^sup>* (db_templates s) (db_templates (template_update t' s1))"
proof -
  let ?t = "CatalogTemplate_create_authored i T sl nm p u now (next_version T sl nm s) False pos"
  from template_add_step [OF add] have *: "table_step (db_templates s) (db_templates s1)"
    "tbl_get (db_templates s1) (ct_id ?t) = Some ?t" by (simp_all add: created_fields)
  from table_step.moved [OF *(2) start_settle_steps [OF start settle]]
  have "table_step (db_templates s1) (db_templates (template_update t' s1))" by (simp add: template_update_def)
  with *(1) show ?thesis by simp
qed

lemma CreateAuthoredTemplate_steps:
  assumes "CreateAuthoredTemplate i au T sl nm p u now s = Inr (t, s')"
  shows "table_step\<^sup>*\<^sup>* (db_templates s) (db_templates s')"
proof -
  from assms obtain problems s1 t1 where
    "template_add (CatalogTemplate_create_authored i T sl nm p u now (next_version T sl nm s) False 0) s = Inr s1"
    "CatalogTemplate_start_analysing now (CatalogTemplate_create_authored i T sl nm p u now (next_version T sl nm s) False 0) = Inr t1"
    "settle_analysis problems p None None now t1 = Inr t" and s': "db_templates s' = db_templates (template_update t s1)"
    by (auto simp: CreateAuthoredTemplate_def bind_result_eq_Inr Let_def dest!: audit_record_Inr)
  from authored_steps [OF this(1-3)] s' show ?thesis by simp
qed

lemma seed_one_steps:
  assumes "seed_one ids T sl u snap now preset w = Inr w'"
  shows "table_step\<^sup>*\<^sup>* (db_templates (snd w)) (db_templates (snd w'))"
proof -
  obtain pos nm p ts s where pw: "preset = (pos, nm, p)" "w = (ts, s)" by (metis prod_cases3 surj_pair)
  from assms pw obtain s1 t1 t problems where
    "template_add (CatalogTemplate_create_authored (ids pos) T sl nm p u now (next_version T sl nm s) False (int pos)) s = Inr s1"
    "CatalogTemplate_start_analysing now (CatalogTemplate_create_authored (ids pos) T sl nm p u now (next_version T sl nm s) False (int pos)) = Inr t1"
    "settle_analysis problems p None None now t1 = Inr t" and w': "snd w' = template_update t s1"
    by (auto simp: seed_one_def bind_result_eq_Inr Let_def)
  from authored_steps [OF this(1-3)] pw w' show ?thesis by simp
qed

lemma SeedStockPresets_steps:
  assumes "SeedStockPresets ids au T sl u presets now s = Inr (r, s')"
  shows "table_step\<^sup>*\<^sup>* (db_templates s) (db_templates s')"
proof -
  from assms obtain snap s1 where fold: "fold_result (seed_one ids T sl u snap now) (enumerate 0 presets) ([], s) = Inr (r, s1)"
    and s': "db_templates s' = db_templates s1"
    by (auto simp: SeedStockPresets_def bind_result_eq_Inr dest!: audit_record_Inr)
  have "table_step\<^sup>*\<^sup>* (db_templates s) (db_templates (snd (r, s1)))"
  proof (rule fold_result_invariant [OF fold, where P = "\<lambda>w. table_step\<^sup>*\<^sup>* (db_templates s) (db_templates (snd w))"])
    fix x w w' assume "seed_one ids T sl u snap now x w = Inr w'" "table_step\<^sup>*\<^sup>* (db_templates s) (db_templates (snd w))"
    with seed_one_steps [of ids T sl u snap now x w w'] show "table_step\<^sup>*\<^sup>* (db_templates s) (db_templates (snd w'))"
      by (meson rtranclp_trans)
  qed simp
  with s' show ?thesis by simp
qed

lemma CreateTemplateFromUpload_steps:
  assumes "CreateTemplateFromUpload i au T sl nm a u now s = Inr (t, s')"
  shows "table_step\<^sup>*\<^sup>* (db_templates s) (db_templates s')"
proof -
  from assms obtain s1 where
    add: "template_add (CatalogTemplate_create_from_upload i T sl nm a u now (next_version T sl nm s) False 0) s = Inr s1"
    and s': "db_templates s' = db_templates s1"
    by (auto simp: CreateTemplateFromUpload_def bind_result_eq_Inr Let_def dest!: audit_record_Inr)
  from template_add_step [OF add] s' show ?thesis by (simp add: created_fields r_into_rtranclp)
qed

lemma template_get_row: "\<lbrakk>template_get T i s = Some t; tbl_ok ct_id (db_templates s)\<rbrakk> \<Longrightarrow> tbl_get (db_templates s) (ct_id t) = Some t"
  by (auto simp: template_get_def scoped_get_Some dest: tbl_get_key)

lemma update_steps:
  assumes "template_get T i s = Some t" and "tbl_ok ct_id (db_templates s)" and "live_step t u"
  shows "table_step\<^sup>*\<^sup>* (db_templates s) (db_templates (template_update u s))"
  using table_step.moved [OF template_get_row [OF assms(1,2)] r_into_rtranclp [of live_step, OF assms(3)]]
  by (simp add: template_update_def r_into_rtranclp)

lemma StartTemplateAnalysis_steps:
  assumes "StartTemplateAnalysis T i now s = Inr (ctx, s')" and "tbl_ok ct_id (db_templates s)"
  shows "table_step\<^sup>*\<^sup>* (db_templates s) (db_templates s')"
proof -
  from assms(1) obtain t u where t: "template_get T i s = Some t" and st: "CatalogTemplate_start_analysing now t = Inr u"
    and s': "s' = template_update u s"
    by (auto simp: StartTemplateAnalysis_def bind_result_eq_Inr split: option.splits if_splits)
  have "live_step t u"
    using st by (auto simp: live_step_def CatalogTemplate_start_analysing_def split: if_splits
        intro: catalog_template_step.start_analysing)
  from update_steps [OF t assms(2) this] s' show ?thesis by simp
qed

lemma CompleteTemplateAnalysis_steps:
  assumes "CompleteTemplateAnalysis au T i c an p m now s = Inr (u, s')" and "tbl_ok ct_id (db_templates s)"
  shows "table_step\<^sup>*\<^sup>* (db_templates s) (db_templates s')"
proof -
  from assms(1) obtain t problems where t: "template_get T i s = Some t" and st: "settle_analysis problems p an m now t = Inr u"
    and s': "db_templates s' = db_templates (template_update u s)"
    by (auto simp: CompleteTemplateAnalysis_def bind_result_eq_Inr Let_def dest!: audit_record_Inr)
  have "live_step t u"
    using st by (auto simp: live_step_def settle_analysis_def CatalogTemplate_method_defs split: if_splits
        intro: catalog_template_step.mark_analysed catalog_template_step.mark_invalid)
  from update_steps [OF t assms(2) this] s' show ?thesis by simp
qed

lemma FailTemplateAnalysis_steps:
  assumes "FailTemplateAnalysis au T i why now s = Inr (u, s')" and "tbl_ok ct_id (db_templates s)"
  shows "table_step\<^sup>*\<^sup>* (db_templates s) (db_templates s')"
proof -
  from assms(1) obtain t where t: "template_get T i s = Some t" and st: "CatalogTemplate_mark_analysis_failed why now t = Inr u"
    and s': "db_templates s' = db_templates (template_update u s)"
    by (auto simp: FailTemplateAnalysis_def bind_result_eq_Inr dest!: audit_record_Inr)
  have "live_step t u"
    using st by (auto simp: live_step_def CatalogTemplate_mark_analysis_failed_def split: if_splits
        intro: catalog_template_step.mark_analysis_failed)
  from update_steps [OF t assms(2) this] s' show ?thesis by simp
qed

lemma ArchiveTemplate_steps:
  assumes "ArchiveTemplate T i now s = Inr (u, s')" and "tbl_ok ct_id (db_templates s)"
  shows "table_step\<^sup>*\<^sup>* (db_templates s) (db_templates s')"
proof -
  from assms(1) obtain t where t: "template_get T i s = Some t" and st: "CatalogTemplate_archive now t = Inr u"
    and s': "s' = template_update u s"
    by (auto simp: ArchiveTemplate_def bind_result_eq_Inr)
  have "live_step t u"
    using st by (auto simp: live_step_def CatalogTemplate_archive_def split: if_splits intro: catalog_template_step.archive)
  from update_steps [OF t assms(2) this] s' show ?thesis by simp
qed

text \<open>One committed transaction: one of the templates' own, or any that leaves the table alone.\<close>

inductive template_step :: "db \<Rightarrow> db \<Rightarrow> bool" where
  authored: "CreateAuthoredTemplate i au T sl nm p u now s = Inr (t, s') \<Longrightarrow> template_step s s'"
| seeded: "SeedStockPresets ids au T sl u presets now s = Inr (r, s') \<Longrightarrow> template_step s s'"
| from_upload: "CreateTemplateFromUpload i au T sl nm a u now s = Inr (t, s') \<Longrightarrow> template_step s s'"
| started: "StartTemplateAnalysis T i now s = Inr (ctx, s') \<Longrightarrow> template_step s s'"
| completed: "CompleteTemplateAnalysis au T i c an p m now s = Inr (t, s') \<Longrightarrow> template_step s s'"
| failed: "FailTemplateAnalysis au T i why now s = Inr (t, s') \<Longrightarrow> template_step s s'"
| archived: "ArchiveTemplate T i now s = Inr (t, s') \<Longrightarrow> template_step s s'"
| elsewhere: "db_templates s' = db_templates s \<Longrightarrow> template_step s s'"

lemma template_step_table:
  assumes "template_step s s'" and "tbl_ok ct_id (db_templates s)"
  shows "table_step\<^sup>*\<^sup>* (db_templates s) (db_templates s')"
  using assms
  by cases (simp_all add: CreateAuthoredTemplate_steps SeedStockPresets_steps CreateTemplateFromUpload_steps
      StartTemplateAnalysis_steps CompleteTemplateAnalysis_steps FailTemplateAnalysis_steps ArchiveTemplate_steps)

section \<open>Versions\<close>

text \<open>The versions a name has in a slot, and a table where they are 1, 2, 3 ... each once.\<close>

definition versions_of :: "catalog_template table \<Rightarrow> uuid \<Rightarrow> uuid \<Rightarrow> string \<Rightarrow> int list" where
  "versions_of ts T sl nm = map ct_version (filter (\<lambda>t. ct_tenant_id t = T \<and> ct_catalog_image_slot_id t = sl
     \<and> ct_name t = nm) (rows ts))"

definition numbered :: "catalog_template table \<Rightarrow> bool" where
  "numbered ts \<longleftrightarrow> (\<forall>T sl nm. sort (versions_of ts T sl nm) = [1..int (length (versions_of ts T sl nm))])"

definition no_default :: "catalog_template table \<Rightarrow> bool" where
  "no_default ts \<longleftrightarrow> (\<forall>t \<in> set (rows ts). \<not> ct_is_default t)"

lemma next_version_numbered:
  assumes "numbered (db_templates s)"
  shows "next_version T sl nm s = int (length (versions_of (db_templates s) T sl nm)) + 1"
proof -
  let ?P = "\<lambda>t. ct_tenant_id t = T \<and> ct_catalog_image_slot_id t = sl \<and> ct_name t = nm"
  let ?rs = "filter ?P (rows (db_templates s))"
  let ?n = "int (length (versions_of (db_templates s) T sl nm))"
  have vs: "ct_version ` set ?rs = {1..?n}"
  proof -
    have "set (versions_of (db_templates s) T sl nm) = set (sort (versions_of (db_templates s) T sl nm))" by simp
    also have "\<dots> = {1..?n}" using assms by (simp add: numbered_def)
    finally show ?thesis by (simp add: versions_of_def)
  qed
  show ?thesis
  proof (cases "get_latest_version T sl nm s")
    case None
    then have "?rs = []" by (simp only: get_latest_version_def first_by_None)
    then show ?thesis using None by (simp add: next_version_def versions_of_def)
  next
    case (Some t)
    note latest = first_by_Some [OF Some [unfolded get_latest_version_def]]
    have "ct_version t \<in> {1..?n}" using latest(1) vs by blast
    moreover have "?n \<in> ct_version ` set ?rs" using calculation vs by simp
    then obtain r where "r \<in> set ?rs" "ct_version r = ?n" by auto
    with latest(2) [of r] have "?n \<le> ct_version t" by simp
    ultimately show ?thesis using Some by (simp add: next_version_def)
  qed
qed

lemma sort_snoc_top: "\<forall>x \<in> set xs. x \<le> y \<Longrightarrow> sort (xs @ [y]) = sort xs @ [y]"
  by (rule properties_for_sort) (auto simp: sorted_append)

lemma numbered_added:
  assumes "numbered (db_templates s)" and "tbl_add_unique template_clash (ct_id t) t (db_templates s) = Inr ts'"
    and "ct_version t = next_version (ct_tenant_id t) (ct_catalog_image_slot_id t) (ct_name t) s"
  shows "numbered ts'"
  unfolding numbered_def
proof (intro allI)
  fix T sl nm
  let ?old = "versions_of (db_templates s) T sl nm"
  have old: "sort ?old = [1..int (length ?old)]" using assms(1) by (simp add: numbered_def)
  have rows: "rows ts' = rows (db_templates s) @ [t]"
    using assms(2) by (auto simp: tbl_add_unique_Inr intro: rows_tbl_add)
  show "sort (versions_of ts' T sl nm) = [1..int (length (versions_of ts' T sl nm))]"
  proof (cases "ct_tenant_id t = T \<and> ct_catalog_image_slot_id t = sl \<and> ct_name t = nm")
    case True
    then have new: "versions_of ts' T sl nm = ?old @ [int (length ?old) + 1]"
      using assms(3) next_version_numbered [OF assms(1)] by (simp add: versions_of_def rows)
    have "set ?old = {1..int (length ?old)}" using arg_cong [OF old, of set] by simp
    then have "sort (?old @ [int (length ?old) + 1]) = [1..int (length ?old)] @ [int (length ?old) + 1]"
      using old by (subst sort_snoc_top) auto
    then show ?thesis unfolding new by (simp add: upto_rec2)
  next
    case False
    then have "versions_of ts' T sl nm = ?old" by (auto simp: versions_of_def rows)
    then show ?thesis using old by simp
  qed
qed

lemma rows_put_map:
  assumes "tbl_ok key t" and "tbl_get t i = Some r"
  shows "rows (tbl_put i q t) = map (\<lambda>x. if key x = i then q else x) (rows t)"
proof -
  have "map snd (AList.update i q t) = map (\<lambda>x. if key x = i then q else x) (map snd t)"
    if "distinct (map fst t)" "\<forall>(j, x) \<in> set t. key x = j" "map_of t i \<noteq> None" for t
    using that
  proof (induction t)
    case (Cons e t)
    obtain j x where e: "e = (j, x)" by fastforce
    show ?case
    proof (cases "j = i")
      case True
      have "map (\<lambda>x. if key x = i then q else x) (map snd t) = map snd t"
        using Cons.prems e True by (intro map_idI) force
      then show ?thesis using Cons.prems e True by simp
    qed (use Cons e in simp)
  qed simp
  from this [of t] show ?thesis using assms unfolding rows_def tbl_put_def tbl_ok_def tbl_get_def by auto
qed

lemma map_filter_map:
  "(\<And>x. x \<in> set xs \<Longrightarrow> P (f x) = P x \<and> g (f x) = g x) \<Longrightarrow> map g (filter P (map f xs)) = map g (filter P xs)"
  by (induction xs) simp_all

lemma versions_moved:
  assumes "tbl_ok ct_id ts" and "tbl_get ts (ct_id t) = Some t" and "live_step\<^sup>*\<^sup>* t u"
  shows "versions_of (tbl_put (ct_id u) u ts) T sl nm = versions_of ts T sl nm"
proof -
  have u: "ct_id u = ct_id t" "ct_version u = ct_version t" "ct_tenant_id u = ct_tenant_id t"
    "ct_catalog_image_slot_id u = ct_catalog_image_slot_id t" "ct_name u = ct_name t"
    using live_steps_ident [OF assms(3)] by (simp_all add: catalog_template_ident_def)
  have "r = t" if "r \<in> set (rows ts)" "ct_id r = ct_id t" for r
    using that assms(1,2) rows_iff [OF assms(1), of r] by simp
  then show ?thesis
    unfolding versions_of_def u(1) rows_put_map [OF assms(1,2)]
    by (intro map_filter_map) (auto simp: u)
qed

definition templates_ok :: "catalog_template table \<Rightarrow> bool" where
  "templates_ok ts \<longleftrightarrow> tbl_ok ct_id ts \<and> numbered ts \<and> no_default ts"

lemma table_step_ok: "\<lbrakk>table_step ts ts'; templates_ok ts\<rbrakk> \<Longrightarrow> templates_ok ts'"
proof (induction rule: table_step.induct)
  case (added t s ts')
  then show ?case
    by (auto simp: templates_ok_def no_default_def tbl_add_unique_Inr rows_tbl_add
        intro: tbl_ok_addedI [where key = ct_id] numbered_added)
next
  case (moved ts t u)
  have u: "ct_id u = ct_id t" "ct_is_default u = ct_is_default t"
    using live_steps_ident [OF moved.hyps(2)] by (simp_all add: catalog_template_ident_def)
  have ok: "tbl_ok ct_id ts" "numbered ts" "no_default ts" using moved.prems by (simp_all add: templates_ok_def)
  have "numbered (tbl_put (ct_id u) u ts)"
    using ok(2) by (simp add: numbered_def versions_moved [OF ok(1) moved.hyps])
  moreover have "no_default (tbl_put (ct_id u) u ts)"
    using ok(3) rows_mem [OF moved.hyps(1)] u by (auto simp: no_default_def dest: rows_put_subset)
  ultimately show ?case using ok(1) by (simp add: templates_ok_def tbl_ok_put)
qed

lemma template_steps_table:
  assumes "template_step\<^sup>*\<^sup>* s s'" and "templates_ok (db_templates s)"
  shows "table_step\<^sup>*\<^sup>* (db_templates s) (db_templates s') \<and> templates_ok (db_templates s')"
  using assms(1)
proof induction
  case (step s1 s2)
  then have "table_step\<^sup>*\<^sup>* (db_templates s1) (db_templates s2)"
    by (intro template_step_table) (simp_all add: templates_ok_def)
  moreover from this have "templates_ok (db_templates s2)"
    using step.IH by (induction rule: rtranclp_induct) (auto dest: table_step_ok)
  ultimately show ?case using step.IH by (meson rtranclp_trans)
qed (simp add: assms(2))

text \<open>
  C22: Over every sequence of transactions the versions of a template's name in its slot are 1, 2, 3 and so on,
  each once, and the next one created gets the number after the last.
\<close>

theorem template_versions_numbered:
  assumes "template_step\<^sup>*\<^sup>* s s'" and "templates_ok (db_templates s)"
  shows "sort (versions_of (db_templates s') T sl nm) = [1..int (length (versions_of (db_templates s') T sl nm))]
     \<and> next_version T sl nm s' = int (length (versions_of (db_templates s') T sl nm)) + 1"
proof -
  from template_steps_table [OF assms] have "numbered (db_templates s')" by (simp add: templates_ok_def)
  then show ?thesis by (simp add: numbered_def next_version_numbered)
qed

section \<open>Templates nobody can use\<close>



section \<open>What a usable template guarantees\<close>

lemma build_templates: "SpecSnapshotBuilder_build T c (s\<lparr>db_templates := ts\<rparr>) = SpecSnapshotBuilder_build T c s"
  by (simp add: SpecSnapshotBuilder_build_def category_get_def list_for_axis_def list_for_catalog_slot_def)

lemma template_add_db: "template_add t s = Inr s1 \<Longrightarrow> \<exists>ts. s1 = s\<lparr>db_templates := ts\<rparr>"
  by (auto simp: template_add_def bind_result_eq_Inr)

lemma settle_total:
  "ct_status t = TPL_ANALYSING \<Longrightarrow>
    \<exists>u. settle_analysis problems p a m now t = Inr u \<and> ct_id u = ct_id t \<and> ct_tenant_id u = ct_tenant_id t"
  by (simp add: settle_analysis_def CatalogTemplate_mark_invalid_def CatalogTemplate_mark_analysed_def)

lemma settled_status:
  assumes "settle_analysis problems p a m now t = Inr u"
  shows "if problems = [] then ct_status u = TPL_ANALYSED \<and> ct_prompt_template u = Some p \<and> ct_analysis_error u = None
     else ct_status u = TPL_INVALID \<and> ct_analysis_error u = Some (join ''; '' problems)"
  using assms by (auto simp: settle_analysis_def CatalogTemplate_method_defs split: if_splits)

text \<open>
  C24: A template written by hand is stored as analysed exactly when its placeholders are valid in the live spec of
  its slot's category, and as invalid with the list of problems otherwise. An analysed one composes for every
  product that has a key for each attribute and axis of that spec.
\<close>

theorem authored_template_composes:
  assumes "CreateAuthoredTemplate i au T sl nm p u now s = Inr (t, s')"
    and "catalog_slot_get T sl s = Some slot" and "SpecSnapshotBuilder_build T (cis_category_id slot) s = Inr snap"
  shows "(let problems = validate_template_placeholders snap (uuid_str sl) p in
       if problems = [] then ct_status t = TPL_ANALYSED
       else ct_status t = TPL_INVALID \<and> ct_analysis_error t = Some (join ''; '' problems))
     \<and> (ct_status t = TPL_ANALYSED \<longrightarrow> (\<forall>attributes axis_values.
          sna_key ` set (attribute_definitions snap) \<subseteq> fst ` set attributes \<longrightarrow>
          snx_key ` set (variant_axes snap) \<subseteq> fst ` set axis_values \<longrightarrow>
          (\<exists>prompt. compose_prompt snap (uuid_str sl) (or_empty (ct_prompt_template t)) attributes axis_values = Inr prompt)))"
proof -
  from assms(1,2) obtain s1 snap1 t1 where
    add: "template_add (CatalogTemplate_create_authored i T sl nm p u now (next_version T sl nm s) False 0) s = Inr s1"
    and snap1: "SpecSnapshotBuilder_build T (cis_category_id slot) s1 = Inr snap1"
    and settle: "settle_analysis (validate_template_placeholders snap1 (uuid_str sl) p) p None None now t1 = Inr t"
    by (auto simp: CreateAuthoredTemplate_def bind_result_eq_Inr Let_def)
  from template_add_db [OF add] snap1 assms(3) have "snap1 = snap" by (auto simp: build_templates)
  with settled_status [OF settle] show ?thesis
    by (auto simp: Let_def or_empty_def intro: validated_composes split: if_splits)
qed

text \<open>
  C25: The analysis of an uploaded picture always ends: with the provider's prompt when it answers one that is valid
  in the live spec, invalid with the problems when it answers another, failed with the reason when it does not answer.
  The template is never left being analysed.
\<close>

theorem template_analysis_outcome:
  assumes "template_get T i s = Some t" and "ct_status t = TPL_UPLOADED" and "ct_kind t = TPL_ANALYSED_IMAGE"
    and "ct_source_asset_id t = Some aid" and "asset_get T aid s = Some a"
    and "catalog_slot_get T (ct_catalog_image_slot_id t) s = Some slot"
    and "SpecSnapshotBuilder_build T (cis_category_id slot) s = Inr snap"
    and "tbl_get (db_audit s) au = None" and "tbl_ok ct_id (db_templates s)"
  shows "\<exists>t' s'. TemplateAnalysisAgent_run analyse time au T i s = (Inr t', s') \<and> template_get T i s' = Some t'
     \<and> (case analyse (asset_storage_key a) (asset_mime a) of
          Inl reason \<Rightarrow> ct_status t' = TPL_ANALYSIS_FAILED \<and> ct_analysis_error t' = Some reason
        | Inr answer \<Rightarrow>
            let problems = validate_template_placeholders snap (uuid_str (ct_catalog_image_slot_id t)) (tan_prompt_template answer)
            in if problems = [] then ct_status t' = TPL_ANALYSED \<and> ct_prompt_template t' = Some (tan_prompt_template answer)
               else ct_status t' = TPL_INVALID \<and> ct_analysis_error t' = Some (join ''; '' problems))"
proof -
  have ids: "ct_id t = i" "ct_tenant_id t = T"
    using assms(1,9) tbl_get_key by (fastforce simp: template_get_def scoped_get_Some)+
  define t1 where "t1 = t\<lparr>ct_status := TPL_ANALYSING, ct_updated_at := time 0\<rparr>"
  have t1: "ct_id t1 = i" "ct_tenant_id t1 = T" "ct_status t1 = TPL_ANALYSING"
    "ct_catalog_image_slot_id t1 = ct_catalog_image_slot_id t" by (simp_all add: t1_def ids)
  define s1 where "s1 = template_update t1 s"
  have start: "StartTemplateAnalysis T i (time 0) s = Inr (\<lparr>tac_template_id = i, tac_category_id = cis_category_id slot,
      tac_storage_key = asset_storage_key a, tac_mime = asset_mime a\<rparr>, s1)"
    by (simp add: StartTemplateAnalysis_def assms(1-6) CatalogTemplate_start_analysing_def t1_def [symmetric] t1(1) s1_def)
  have s1: "template_get T i s1 = Some t1" "SpecSnapshotBuilder_build T (cis_category_id slot) s1 = Inr snap"
    using assms(7) by (simp_all add: s1_def template_update_def template_get_def scoped_get_def tbl_get_put t1 build_templates)
  have after: "tbl_get (db_audit (template_update t2 s1)) au = None" for t2
    using assms(8) by (simp add: s1_def template_update_def)
  have stored: "template_get T i (template_update t2 s1\<lparr>db_audit := log\<rparr>) = Some t2"
    if "ct_id t2 = i" "ct_tenant_id t2 = T" for t2 log
    using that by (simp add: template_update_def template_get_def scoped_get_def tbl_get_put)
  show ?thesis
  proof (cases "analyse (asset_storage_key a) (asset_mime a)")
    case (Inl reason)
    define t2 where "t2 = t1\<lparr>ct_status := TPL_ANALYSIS_FAILED, ct_analysis_error := Some reason, ct_updated_at := time 1\<rparr>"
    have "CatalogTemplate_mark_analysis_failed reason (time 1) t1 = Inr t2"
      by (simp add: CatalogTemplate_mark_analysis_failed_def t1 t2_def)
    then have "\<exists>log. FailTemplateAnalysis au T i reason (time 1) s1 = Inr (t2, template_update t2 s1\<lparr>db_audit := log\<rparr>)"
      unfolding FailTemplateAnalysis_def s1 require_simps bind_result_simps by (simp only: bind_result_simps audit_record_last [OF after])
    then show ?thesis using Inl stored [of t2] by (auto simp: TemplateAnalysisAgent_run_def start t2_def t1)
  next
    case (Inr answer)
    let ?problems = "validate_template_placeholders snap (uuid_str (ct_catalog_image_slot_id t)) (tan_prompt_template answer)"
    obtain t2 where settle: "settle_analysis ?problems (tan_prompt_template answer) (Some (tan_analysis answer))
        (Some (tan_model answer)) (time 1) t1 = Inr t2" and t2: "ct_id t2 = i" "ct_tenant_id t2 = T"
      using settle_total [OF t1(3)] t1(1,2) by metis
    have "\<exists>log. CompleteTemplateAnalysis au T i (cis_category_id slot) (Some (tan_analysis answer)) (tan_prompt_template answer)
        (Some (tan_model answer)) (time 1) s1 = Inr (t2, template_update t2 s1\<lparr>db_audit := log\<rparr>)"
      unfolding CompleteTemplateAnalysis_def s1 require_simps bind_result_simps Let_def t1 settle
      by (rule audit_record_last [OF after])
    then show ?thesis using Inr stored [OF t2] settled_status [OF settle]
      by (auto simp: TemplateAnalysisAgent_run_def start Let_def)
  qed
qed

section \<open>Inhabitants\<close>

text \<open>A category with one image slot, a picture uploaded as a template, and nothing else.\<close>

definition studio_slot :: catalog_image_slot where
  "studio_slot = \<lparr>cis_id = 5, cis_tenant_id = 9, cis_category_id = 1, cis_key = ''front'', cis_label = ''Front'',
     cis_description = None, cis_position = 0, cis_aspect_ratio = ''1:1'', cis_target_width = 512, cis_target_height = 512,
     cis_is_required = True, cis_introduced_in_version = None, cis_retired_in_version = None, cis_created_at = 0,
     cis_updated_at = 0\<rparr>"

definition studio_picture :: asset where
  "studio_picture = \<lparr>asset_id = 6, asset_tenant_id = 9, asset_storage_key = ''k'', asset_sha256 = [], asset_mime = ''image/png'',
     asset_width = 10, asset_height = 10, asset_bytes = 2, asset_kind = ASSET_TEMPLATE, asset_source = ''upload'',
     asset_parent_asset_id = None, asset_meta = [], asset_uploaded_by = None, asset_created_at = 0\<rparr>"

definition studio_upload :: catalog_template where
  "studio_upload = CatalogTemplate_create_from_upload 7 9 5 ''Scene'' 6 8 0 1 False 0"

definition studio :: db where
  "studio = demo_taxonomy\<lparr>db_catalog_slots := [(5, studio_slot)], db_assets := [(6, studio_picture)]\<rparr>"

definition studio_spec :: spec_snapshot where
  "studio_spec = \<lparr>attribute_definitions = [], variant_axes = [], input_image_slots = [],
     catalog_image_slots = [serialize_catalog_image_slot studio_slot []]\<rparr>"

lemma studio_tables:
  "db_categories studio = [(1, demo_root)]" "db_catalog_slots studio = [(5, studio_slot)]" "db_attributes studio = []"
  "db_axes studio = []" "db_axis_values studio = []" "db_input_slots studio = []" "db_requirements studio = []"
  "db_templates studio = []" "db_audit studio = []" "db_assets studio = [(6, studio_picture)]"
  by (simp_all add: studio_def demo_taxonomy_def empty_db_def)

lemma studio_gets:
  "category_get 9 1 studio = Some demo_root" "catalog_slot_get 9 5 studio = Some studio_slot"
  "asset_get 9 6 studio = Some studio_picture" "cis_category_id studio_slot = 1"
  by (simp_all add: category_get_def catalog_slot_get_def asset_get_def scoped_get_def tbl_get_def studio_tables
      demo_root_def Category_create_def Let_def studio_slot_def studio_picture_def)

lemma studio_build: "SpecSnapshotBuilder_build 9 1 studio = Inr studio_spec"
proof -
  have chain: "Category_ancestor_ids demo_root = Inr [1]"
    unfolding demo_root_def by (rule located_ancestor_ids [OF located_create_root])
  have none: "list_for_categories t ct pos [] T ids = []" "resolve_inherited ct key [1] [] = []"
    for t ct pos T ids and key :: "'z \<Rightarrow> string"
    by (simp_all add: list_for_categories_def rows_def resolve_inherited_dict_of chain_rows_def dict_of_def)
  have slots: "list_for_categories cis_tenant_id cis_category_id cis_position [(5, studio_slot)] 9 [1] = [studio_slot]"
    by (simp add: list_for_categories_def rows_def sort_key_def studio_slot_def)
  have one: "resolve_inherited cis_category_id cis_key [1] [studio_slot] = [(''front'', studio_slot)]"
    by (simp add: resolve_inherited_dict_of chain_rows_def dict_of_def studio_slot_def)
  have reqs: "list_for_catalog_slot 9 i studio = []" for i by (simp add: list_for_catalog_slot_def studio_tables)
  show ?thesis
    by (simp add: SpecSnapshotBuilder_build_def studio_gets chain studio_tables none slots one Let_def dict_values_def
        build_snapshot_def reqs dict_of_def dict_get_def studio_spec_def)
qed

lemma studio_valid: "validate_template_placeholders studio_spec (uuid_str 5) ''A plain photo.'' = []"
  by (simp add: validate_template_placeholders_def find_catalog_slot_def studio_spec_def serialize_catalog_image_slot_def
      studio_slot_def holes_def segments.simps match_at_def)

lemma studio_templates_ok: "templates_ok (db_templates studio)"
  by (simp add: studio_tables templates_ok_def tbl_ok_def numbered_def versions_of_def rows_def no_default_def)

lemma studio_added: "template_add t studio = Inr (studio\<lparr>db_templates := [(ct_id t, t)]\<rparr>)"
  by (simp add: template_add_def studio_tables tbl_add_unique_def tbl_add_def tbl_get_def rows_def)

lemma studio_first: "next_version T sl nm studio = 1"
  by (simp add: next_version_def get_latest_version_def studio_tables rows_def first_by_def)

theorem template_versions_numbered_witness:
  "\<exists>s'. CreateTemplateFromUpload 7 50 9 5 ''Scene'' 6 8 0 studio = Inr (studio_upload, s')
     \<and> next_version 9 5 ''Scene'' s' = 2 \<and> next_version 9 5 ''Linen'' s' = 1"
proof -
  let ?s = "studio\<lparr>db_templates := [(7, studio_upload)]\<rparr>"
  have upload: "ct_id studio_upload = 7" "ct_tenant_id studio_upload = 9" "ct_catalog_image_slot_id studio_upload = 5"
    "ct_name studio_upload = ''Scene''" by (simp_all add: studio_upload_def CatalogTemplate_create_from_upload_def)
  have fresh: "tbl_get (db_audit ?s) 50 = None" by (simp add: studio_tables tbl_get_def)
  have "\<exists>log. CreateTemplateFromUpload 7 50 9 5 ''Scene'' 6 8 0 studio = Inr (studio_upload, ?s\<lparr>db_audit := log\<rparr>)"
    unfolding CreateTemplateFromUpload_def studio_gets require_simps bind_result_simps studio_first Let_def
      studio_upload_def [symmetric] studio_added upload
    using audit_record_last [OF fresh] by (simp add: studio_picture_def)
  then obtain log where run: "CreateTemplateFromUpload 7 50 9 5 ''Scene'' 6 8 0 studio = Inr (studio_upload, ?s\<lparr>db_audit := log\<rparr>)"
    by blast
  then have "template_step\<^sup>*\<^sup>* studio (?s\<lparr>db_audit := log\<rparr>)" using template_step.from_upload by blast
  from template_versions_numbered [OF this studio_templates_ok, of 9 5]
  have n: "next_version 9 5 nm (?s\<lparr>db_audit := log\<rparr>) = int (length (versions_of [(7, studio_upload)] 9 5 nm)) + 1" for nm
    by simp
  show ?thesis
    by (intro exI [of _ "?s\<lparr>db_audit := log\<rparr>"] conjI run) (simp_all add: n versions_of_def rows_def upload)
qed

theorem authored_template_composes_witness:
  "\<exists>t s' prompt. CreateAuthoredTemplate 7 50 9 5 ''Plain'' ''A plain photo.'' 8 0 studio = Inr (t, s')
     \<and> ct_status t = TPL_ANALYSED \<and> compose_prompt studio_spec (uuid_str 5) (or_empty (ct_prompt_template t)) [] [] = Inr prompt"
proof -
  have "\<exists>t s'. CreateAuthoredTemplate 7 50 9 5 ''Plain'' ''A plain photo.'' 8 0 studio = Inr (t, s')"
    by (simp add: CreateAuthoredTemplate_def studio_gets studio_first studio_added build_templates studio_build studio_valid
        settle_analysis_def CatalogTemplate_create_authored_def CatalogTemplate_start_analysing_def CatalogTemplate_mark_analysed_def
        template_update_def audit_record_def studio_tables tbl_add_def tbl_get_def)
  then obtain t s' where run: "CreateAuthoredTemplate 7 50 9 5 ''Plain'' ''A plain photo.'' 8 0 studio = Inr (t, s')" by blast
  have "SpecSnapshotBuilder_build 9 (cis_category_id studio_slot) studio = Inr studio_spec"
    by (simp add: studio_gets studio_build)
  note th = authored_template_composes [OF run studio_gets(2) this]
  then have "ct_status t = TPL_ANALYSED" by (simp add: studio_valid)
  moreover with th have "\<exists>prompt. compose_prompt studio_spec (uuid_str 5) (or_empty (ct_prompt_template t)) [] [] = Inr prompt"
    by (simp add: studio_spec_def)
  ultimately show ?thesis using run by blast
qed

theorem template_analysis_outcome_witness:
  "\<exists>t s'. TemplateAnalysisAgent_run (\<lambda>_ _. Inr \<lparr>tan_analysis = [], tan_prompt_template = ''A plain photo.'', tan_model = ''m''\<rparr>)
       (\<lambda>n. int n) 50 9 7 (studio\<lparr>db_templates := [(7, studio_upload)]\<rparr>) = (Inr t, s') \<and> ct_status t = TPL_ANALYSED"
proof -
  let ?s = "studio\<lparr>db_templates := [(7, studio_upload)]\<rparr>"
  have upload: "ct_status studio_upload = TPL_UPLOADED" "ct_kind studio_upload = TPL_ANALYSED_IMAGE"
    "ct_source_asset_id studio_upload = Some 6" "ct_catalog_image_slot_id studio_upload = 5" "ct_id studio_upload = 7"
    "ct_tenant_id studio_upload = 9" by (simp_all add: studio_upload_def CatalogTemplate_create_from_upload_def)
  have gets: "template_get 9 7 ?s = Some studio_upload" "asset_get 9 6 ?s = Some studio_picture"
    "catalog_slot_get 9 (ct_catalog_image_slot_id studio_upload) ?s = Some studio_slot"
    "SpecSnapshotBuilder_build 9 (cis_category_id studio_slot) ?s = Inr studio_spec"
    "tbl_get (db_audit ?s) 50 = None" "tbl_ok ct_id (db_templates ?s)"
    by (simp_all add: template_get_def asset_get_def catalog_slot_get_def scoped_get_def tbl_get_def tbl_ok_def upload
        studio_tables studio_slot_def studio_picture_def build_templates studio_build)
  from template_analysis_outcome [OF gets(1) upload(1-3) gets(2-6),
      where analyse = "\<lambda>_ _. Inr \<lparr>tan_analysis = [], tan_prompt_template = ''A plain photo.'', tan_model = ''m''\<rparr>"
        and time = "\<lambda>n. int n"]
  show ?thesis by (auto simp: upload studio_valid)
qed


end
