(* ===== verification/Taxonomy_Protocol.thy ===== *)
theory Taxonomy_Protocol
  imports Taxonomy
begin

text \<open>
  What holds of a tenant's taxonomy over every sequence of edits: the category tree and its stored paths, the keys
  of a spec's definitions, and settings.
\<close>

section \<open>Paths\<close>

lemma split_on_append: "split_on d (u @ d # v) = split_on d u @ split_on d v"
proof (induction u)
  case (Cons c u)
  have "split_on d u \<noteq> []" by (cases u) (simp_all split: list.splits)
  then show ?case using Cons by (auto split: list.splits)
qed simp

lemma split_on_nonempty [simp]: "split_on d u \<noteq> []"
  by (cases u) (simp_all split: list.splits)

lemma located_unique: "\<lbrakk>located a c; located b c\<rbrakk> \<Longrightarrow> a = b"
  using located_ancestor_ids [of a c] located_ancestor_ids [of b c] by simp

lemma starts_with_path:
  assumes "ids \<noteq> []" and "pre \<noteq> []"
  shows "starts_with (path_of pre @ ''.'') (path_of ids) \<longleftrightarrow> (\<exists>suf. suf \<noteq> [] \<and> ids = pre @ suf)"
proof
  assume "starts_with (path_of pre @ ''.'') (path_of ids)"
  then obtain rest where "path_of ids = path_of pre @ CHR ''.'' # rest"
    unfolding starts_with_def by (metis append.assoc append_Cons append_Nil append_take_drop_id)
  then have "map uuid_str ids = map uuid_str pre @ split_on (CHR ''.'') rest"
    using split_path_of [OF assms(1)] split_path_of [OF assms(2)] split_on_append by metis
  then obtain suf where suf: "map uuid_str suf = split_on (CHR ''.'') rest" "map uuid_str ids = map uuid_str (pre @ suf)"
    by (metis append_eq_map_conv map_append)
  have "inj uuid_str" by (rule injI) simp
  with suf(2) have "ids = pre @ suf" by (simp only: inj_map_eq_map)
  moreover from suf(1) have "suf \<noteq> []" by (metis list.simps(8) split_on_nonempty)
  ultimately show "\<exists>suf. suf \<noteq> [] \<and> ids = pre @ suf" by blast
next
  assume "\<exists>suf. suf \<noteq> [] \<and> ids = pre @ suf"
  then obtain suf where "suf \<noteq> []" "ids = pre @ suf" by blast
  with path_of_append [OF assms(2)] starts_with_append [of "path_of pre @ ''.''"]
  show "starts_with (path_of pre @ ''.'') (path_of ids)" by simp
qed

section \<open>The category tree\<close>

text \<open>
  A row stands under its parent: its path is the parent's followed by its own identifier, and the parent is a row
  of the same tenant.
\<close>

definition well_placed :: "db \<Rightarrow> category \<Rightarrow> bool" where
  "well_placed s c \<longleftrightarrow> (case cat_parent_id c of
       None \<Rightarrow> located [cat_id c] c
     | Some p \<Rightarrow> \<exists>q ids. category_get (cat_tenant_id c) p s = Some q \<and> located ids q \<and> located (ids @ [cat_id c]) c)"

definition tree_ok :: "db \<Rightarrow> bool" where
  "tree_ok s \<longleftrightarrow> tbl_ok cat_id (db_categories s) \<and> (\<forall>c \<in> set (rows (db_categories s)). well_placed s c)"

lemma tree_okD:
  assumes "tree_ok s" and "category_get T i s = Some c"
  shows "cat_id c = i" "cat_tenant_id c = T" "well_placed s c" "tbl_get (db_categories s) i = Some c"
    "c \<in> set (rows (db_categories s))"
proof -
  from assms(2) have c: "tbl_get (db_categories s) i = Some c" "cat_tenant_id c = T"
    by (simp_all add: category_get_def scoped_get_Some)
  from assms(1) have ok: "tbl_ok cat_id (db_categories s)" "\<forall>c \<in> set (rows (db_categories s)). well_placed s c"
    by (simp_all add: tree_ok_def)
  show "cat_id c = i" by (rule tbl_get_key [OF ok(1) c(1)])
  show mem: "c \<in> set (rows (db_categories s))" by (rule rows_mem [OF c(1)])
  with ok(2) show "well_placed s c" by blast
  show "tbl_get (db_categories s) i = Some c" "cat_tenant_id c = T" by (rule c)+
qed

lemma row_category_get:
  "\<lbrakk>tree_ok s; c \<in> set (rows (db_categories s))\<rbrakk> \<Longrightarrow> category_get (cat_tenant_id c) (cat_id c) s = Some c"
  using rows_iff [of cat_id "db_categories s" c] by (simp add: tree_ok_def category_get_def scoped_get_Some)

lemma well_placed_located: "well_placed s c \<Longrightarrow> \<exists>ids. located ids c"
  by (auto simp: well_placed_def split: option.splits)

text \<open>Every prefix of a row's path is the path of a row: its ancestors.\<close>

lemma ancestor_rows:
  assumes ok: "tree_ok s" and "category_get T i s = Some c" and "located ids c" and "k < length ids"
  shows "\<exists>r. category_get T (ids ! k) s = Some r \<and> located (take (Suc k) ids) r
     \<and> cat_parent_id r = (if k = 0 then None else Some (ids ! (k - 1)))"
  using assms(2-4)
proof (induction "length ids" arbitrary: i c ids k rule: less_induct)
  case less
  note c = tree_okD [OF ok less.prems(1)]
  have id: "last ids = i" "ids \<noteq> []" using less.prems(2) c(1) by (auto simp: located_def)
  show ?case
  proof (cases "cat_parent_id c")
    case None
    with c(1,3) less.prems(2) have "ids = [i]" by (simp add: well_placed_def located_unique)
    with less.prems None show ?thesis by simp
  next
    case (Some p)
    with c obtain q pre where q: "category_get T p s = Some q" "located pre q" "located (pre @ [i]) c"
      by (auto simp: well_placed_def)
    then have ids: "ids = pre @ [i]" using less.prems(2) by (simp add: located_unique)
    have pre: "last pre = p" "pre \<noteq> []" using q(2) tree_okD(1) [OF ok q(1)] by (auto simp: located_def)
    show ?thesis
    proof (cases "k < length pre")
      case True
      then have "k - 1 < length pre" by simp
      with True have "take (Suc k) ids = take (Suc k) pre" "ids ! k = pre ! k" "ids ! (k - 1) = pre ! (k - 1)"
        by (simp_all add: ids nth_append)
      with less.hyps [OF _ q(1,2) True] ids show ?thesis by (simp only: length_append_singleton lessI)
    next
      case False
      with less.prems(3) ids have k: "k = length pre" by simp
      then have "ids ! k = i" "take (Suc k) ids = ids" "ids ! (k - 1) = p"
        using ids pre by (simp_all add: nth_append last_conv_nth)
      with less.prems(1,2) Some k pre(2) show ?thesis by simp
    qed
  qed
qed

lemma chain_distinct:
  assumes "tree_ok s" and "category_get T i s = Some c" and "located ids c"
  shows "distinct ids"
  unfolding distinct_conv_nth
proof (intro allI impI)
  fix j k assume jk: "j < length ids" "k < length ids" "j \<noteq> k"
  show "ids ! j \<noteq> ids ! k"
  proof
    assume same: "ids ! j = ids ! k"
    from ancestor_rows [OF assms jk(1)] ancestor_rows [OF assms jk(2)] same
    obtain r where "located (take (Suc j) ids) r" "located (take (Suc k) ids) r" by auto
    then have "take (Suc j) ids = take (Suc k) ids" by (rule located_unique)
    then have "length (take (Suc j) ids) = length (take (Suc k) ids)" by simp
    with jk show False by simp
  qed
qed

section \<open>Edits keep the tree\<close>

lemma tree_ok_other: "db_categories s' = db_categories s \<Longrightarrow> tree_ok s' = tree_ok s"
  by (simp add: tree_ok_def well_placed_def category_get_def cong: option.case_cong)

lemma tree_ok_added:
  assumes ok: "tree_ok s" and add: "tbl_add (cat_id c) c (db_categories s) = Inr (db_categories s')"
    and c: "well_placed s c"
  shows "tree_ok s'"
proof -
  have get: "category_get T i s' = Some q" if "category_get T i s = Some q" for T i q
    using that tbl.add_keeps [OF add] by (simp add: category_get_def scoped_get_Some)
  have "well_placed s' r" if "well_placed s r" for r
    using that unfolding well_placed_def by (cases "cat_parent_id r") (auto dest: get)
  with ok c show ?thesis
    by (auto simp: tree_ok_def rows_tbl_add [OF add] intro: tbl_ok_addedI [where key = cat_id, OF add])
qed

text \<open>A change of a row that leaves its place alone.\<close>

definition same_place :: "category \<Rightarrow> category \<Rightarrow> bool" where
  "same_place c d \<longleftrightarrow> cat_id d = cat_id c \<and> cat_tenant_id d = cat_tenant_id c \<and> cat_parent_id d = cat_parent_id c
     \<and> cat_path d = cat_path c \<and> cat_depth d = cat_depth c"

lemma tree_ok_updated:
  assumes ok: "tree_ok s" and c: "tbl_get (db_categories s) (cat_id c) = Some c" and d: "same_place c d"
    and s': "db_categories s' = tbl_put (cat_id d) d (db_categories s)"
  shows "tree_ok s'"
proof -
  have loc: "located ids d = located ids c" for ids using d by (simp add: same_place_def located_def)
  have get: "\<exists>q'. category_get T i s' = Some q' \<and> (\<forall>ids. located ids q' = located ids q)"
    if "category_get T i s = Some q" for T i q
  proof (cases "i = cat_id c")
    case True
    with that c have "q = c" by (simp add: category_get_def scoped_get_Some)
    with that True d loc show ?thesis
      by (intro exI [of _ d]) (simp add: category_get_def scoped_get_Some s' tbl_get_put same_place_def)
  qed (use that d in \<open>simp add: category_get_def scoped_get_Some s' tbl_get_put same_place_def\<close>)
  have keep: "well_placed s' r" if "well_placed s r" for r
    using that unfolding well_placed_def by (cases "cat_parent_id r") (auto dest!: get)
  have "well_placed s d"
    using ok rows_mem [OF c] d loc by (auto simp: tree_ok_def well_placed_def same_place_def split: option.splits)
  with ok keep d show ?thesis
    by (auto simp: tree_ok_def s' dest!: rows_put_subset intro: tbl_ok_put)
qed

section \<open>A move\<close>

lemma subtree_mem:
  assumes ok: "tree_ok s" and c: "category_get T i s = Some c" and pre: "located pre c"
  shows "r \<in> set (list_subtree T i s) \<longleftrightarrow> r \<in> set (rows (db_categories s)) \<and> cat_tenant_id r = T
     \<and> (\<exists>suf. located (pre @ suf) r \<and> (suf = [] \<longleftrightarrow> cat_id r = i))"
proof (cases "r \<in> set (rows (db_categories s)) \<and> cat_tenant_id r = T")
  case True
  note row = tree_okD [OF ok row_category_get [OF ok]]
  from True row(3) well_placed_located obtain ids where ids: "located ids r" by blast
  have ne: "ids \<noteq> []" "pre \<noteq> []" "cat_path r = path_of ids" "cat_path c = path_of pre" "last pre = i" "last ids = cat_id r"
    using ids pre tree_okD(1) [OF ok c] by (auto simp: located_def)
  have "cat_id r = i \<longleftrightarrow> ids = pre"
  proof
    assume "cat_id r = i"
    with True row_category_get [OF ok, of r] c have "r = c" by simp
    with ids pre show "ids = pre" by (simp add: located_unique)
  next
    assume "ids = pre" with ne show "cat_id r = i" by simp
  qed
  moreover have "starts_with (cat_path c @ ''.'') (cat_path r) \<longleftrightarrow> (\<exists>suf. suf \<noteq> [] \<and> ids = pre @ suf)"
    using starts_with_path [OF ne(1,2)] ne(3,4) by simp
  moreover have "located (pre @ suf) r \<longleftrightarrow> ids = pre @ suf" for suf
    using ids located_unique by blast
  ultimately show ?thesis using True c by (auto simp: list_subtree_def)
qed (use c in \<open>auto simp: list_subtree_def\<close>)

lemma flush_all: "fold_result category_flush ms s = Inr s' \<Longrightarrow> s' = fold category_update ms s"
  by (induction ms arbitrary: s) (auto simp: category_flush_def bind_result_eq_Inr split: if_splits)

lemma category_update_rows: "db_categories (category_update c s) = tbl_put (cat_id c) c (db_categories s)"
  by (simp add: category_update_def)

lemma updates_lookup:
  "if i \<in> cat_id ` set ms
   then \<exists>m \<in> set ms. cat_id m = i \<and> tbl_get (db_categories (fold category_update ms s)) i = Some m
   else tbl_get (db_categories (fold category_update ms s)) i = tbl_get (db_categories s) i"
  by (induction ms rule: rev_induct) (auto simp: category_update_rows tbl_get_put)

lemma updates_ok: "tbl_ok cat_id (db_categories s) \<Longrightarrow> tbl_ok cat_id (db_categories (fold category_update ms s))"
  by (induction ms rule: rev_induct) (simp_all add: category_update_rows tbl_ok_put)

lemma reparent_one_tenant: "reparent_one c path delta p now r = Inr r' \<Longrightarrow> cat_tenant_id r' = cat_tenant_id r"
  by (auto simp: reparent_one_def bind_result_eq_Inr Let_def split: if_splits)

lemma map_result_mem:
  assumes "map_result f xs = Inr ys"
  shows "y \<in> set ys \<longleftrightarrow> (\<exists>x \<in> set xs. f x = Inr y)"
  using map_result_rel [OF assms] by (induction xs ys rule: list_all2_induct) auto

text \<open>The rows after a move: those of the subtree at their new place, all others as they were.\<close>

lemma moved_rows:
  assumes ok: "tree_ok s" and c: "category_get T i s = Some c" and at: "located (old @ [i]) c"
    and moved: "map_result (reparent_one c (path_of (new @ [i])) (int (length new) - int (length old)) pid now)
      (list_subtree T i s) = Inr ms"
  shows "r \<in> set (list_subtree T i s) \<Longrightarrow> located (old @ [i] @ suf) r \<Longrightarrow>
      \<exists>r'. category_get T (cat_id r) (fold category_update ms s) = Some r' \<and> located (new @ [i] @ suf) r'
        \<and> cat_id r' = cat_id r \<and> cat_tenant_id r' = T
        \<and> cat_parent_id r' = (if cat_id r = i then pid else cat_parent_id r)" (is "?in \<Longrightarrow> ?loc \<Longrightarrow> _")
    and "(\<And>q. q \<in> set (list_subtree T i s) \<Longrightarrow> cat_id q \<noteq> j) \<Longrightarrow>
      tbl_get (db_categories (fold category_update ms s)) j = tbl_get (db_categories s) j"
proof -
  have cid: "cat_id c = i" by (rule tree_okD(1) [OF ok c])
  have rows: "q \<in> set (rows (db_categories s))" "cat_tenant_id q = T" "\<exists>suf. located (old @ [i] @ suf) q \<and> (suf = [] \<longleftrightarrow> cat_id q = i)"
    if "q \<in> set (list_subtree T i s)" for q
    using that subtree_mem [OF ok c at] by auto
  let ?f = "reparent_one c (path_of (new @ [i])) (int (length new) - int (length old)) pid now"
  have f: "\<exists>q'. ?f q = Inr q' \<and> located (new @ [i] @ suf) q' \<and> cat_id q' = cat_id q \<and> cat_tenant_id q' = T
      \<and> cat_parent_id q' = (if cat_id q = i then pid else cat_parent_id q)"
    if "q \<in> set (list_subtree T i s)" "located (old @ [i] @ suf) q" for q suf
  proof -
    from rows [OF that(1)] that(2) have "suf = [] \<longleftrightarrow> cat_id q = i" by (auto dest: located_unique)
    with reparent_one_located [of old c suf q new pid now] at that(2) cid
    obtain q' where "?f q = Inr q'" "located (new @ [i] @ suf) q'" "cat_id q' = cat_id q"
      "cat_parent_id q' = (if cat_id q = i then pid else cat_parent_id q)" by auto
    with reparent_one_tenant rows(2) [OF that(1)] show ?thesis by metis
  qed
  have ms: "m \<in> set ms \<longleftrightarrow> (\<exists>q \<in> set (list_subtree T i s). ?f q = Inr m)" for m by (rule map_result_mem [OF moved])
  have mid: "cat_id m = cat_id q" if "?f q = Inr m" "q \<in> set (list_subtree T i s)" for m q
    using f [OF that(2)] rows(3) [OF that(2)] that(1) by force
  show "\<exists>r'. category_get T (cat_id r) (fold category_update ms s) = Some r' \<and> located (new @ [i] @ suf) r'
        \<and> cat_id r' = cat_id r \<and> cat_tenant_id r' = T \<and> cat_parent_id r' = (if cat_id r = i then pid else cat_parent_id r)"
    if "?in" "?loc"
  proof -
    from f [OF that] obtain r' where r': "?f r = Inr r'" "located (new @ [i] @ suf) r'" "cat_id r' = cat_id r"
      "cat_tenant_id r' = T" "cat_parent_id r' = (if cat_id r = i then pid else cat_parent_id r)" by blast
    have "r' \<in> set ms" using ms that(1) r'(1) by blast
    with r'(3) have "cat_id r \<in> cat_id ` set ms" by (metis imageI)
    with updates_lookup [of "cat_id r" ms s] obtain m where m: "m \<in> set ms" "cat_id m = cat_id r"
      "tbl_get (db_categories (fold category_update ms s)) (cat_id r) = Some m" by auto
    then obtain q where q: "q \<in> set (list_subtree T i s)" "?f q = Inr m" using ms by blast
    with mid m(2) have "cat_id q = cat_id r" by simp
    with row_category_get [OF ok rows(1) [OF q(1)]] row_category_get [OF ok rows(1) [OF that(1)]]
      rows(2) [OF q(1)] rows(2) [OF that(1)] have "q = r" by simp
    with q(2) r'(1) have "m = r'" by simp
    with m(3) r' show ?thesis by (auto simp: category_get_def scoped_get_Some)
  qed
  show "tbl_get (db_categories (fold category_update ms s)) j = tbl_get (db_categories s) j"
    if "\<And>q. q \<in> set (list_subtree T i s) \<Longrightarrow> cat_id q \<noteq> j"
  proof -
    have "j \<notin> cat_id ` set ms" using that ms mid by force
    with updates_lookup [of j ms s] show ?thesis by simp
  qed
qed

lemma moved_tree_ok:
  assumes ok: "tree_ok s" and c: "category_get T i s = Some c" and at: "located (old @ [i]) c"
    and moved: "map_result (reparent_one c (path_of (new @ [i])) (int (length new) - int (length old)) pid now)
      (list_subtree T i s) = Inr ms"
    and np: "case pid of None \<Rightarrow> new = [] | Some p \<Rightarrow> \<exists>q. category_get T p s = Some q \<and> located new q
      \<and> q \<notin> set (list_subtree T i s)"
  shows "tree_ok (fold category_update ms s)" (is "tree_ok ?s")
proof -
  note inside = moved_rows(1) [OF ok c at moved] and outside = moved_rows(2) [OF ok c at moved]
  have ids: "q = r" if "q \<in> set (rows (db_categories s))" "r \<in> set (rows (db_categories s))" "cat_id q = cat_id r" for q r
    using that ok by (auto simp: tree_ok_def rows_iff)
  have out: "category_get U (cat_id q) ?s = Some q"
    if "category_get U (cat_id q) s = Some q" "q \<notin> set (list_subtree T i s)" for U q
  proof -
    have "q \<in> set (rows (db_categories s))" using tree_okD(5) [OF ok that(1)] .
    then have "cat_id r \<noteq> cat_id q" if "r \<in> set (list_subtree T i s)" for r
      using that \<open>q \<notin> _\<close> subtree_mem [OF ok c at] ids by blast
    then show ?thesis using outside [of "cat_id q"] that(1) by (simp add: category_get_def scoped_get_Some)
  qed
  have tbl: "tbl_ok cat_id (db_categories ?s)" using ok by (simp add: tree_ok_def updates_ok)
  moreover have "well_placed ?s x" if x: "x \<in> set (rows (db_categories ?s))" for x
  proof -
    have x_get: "tbl_get (db_categories ?s) (cat_id x) = Some x" using x tbl by (simp add: rows_iff)
    show ?thesis
    proof (cases "\<exists>r \<in> set (list_subtree T i s). cat_id r = cat_id x")
      case True
      then obtain r where r: "r \<in> set (list_subtree T i s)" "cat_id r = cat_id x" by blast
      then obtain suf where suf: "located (old @ [i] @ suf) r" "suf = [] \<longleftrightarrow> cat_id r = i"
        and row: "r \<in> set (rows (db_categories s))" "cat_tenant_id r = T" using subtree_mem [OF ok c at] by auto
      from inside [OF r(1) suf(1)] x_get r(2) have new: "located (new @ [i] @ suf) x" "cat_tenant_id x = T"
        "cat_parent_id x = (if cat_id x = i then pid else cat_parent_id r)"
        by (auto simp: category_get_def scoped_get_Some)
      show ?thesis
      proof (cases "suf = []")
        case True
        with suf r new have top: "cat_id x = i" "located (new @ [i]) x" "cat_parent_id x = pid" by simp_all
        show ?thesis
        proof (cases pid)
          case None with top np show ?thesis by (simp add: well_placed_def)
        next
          case (Some p)
          with np obtain q where q: "category_get T p s = Some q" "located new q" "q \<notin> set (list_subtree T i s)" by auto
          with out [of T q] tree_okD(1) [OF ok q(1)] have "category_get T p ?s = Some q" by simp
          with q(2) top Some new(2) show ?thesis by (auto simp: well_placed_def)
        qed
      next
        case False
        have wp: "well_placed s r" using ok row(1) by (simp add: tree_ok_def)
        have last: "last suf = cat_id r" using suf(1) False by (simp add: located_def)
        show ?thesis
        proof (cases "cat_parent_id r")
          case None
          with wp have "located [cat_id r] r" by (simp add: well_placed_def)
          from located_unique [OF this suf(1)] have "length [cat_id r] = length (old @ [i] @ suf)" by simp
          with False show ?thesis by simp
        next
          case (Some p)
          with wp row(2) obtain q pre where q: "category_get T p s = Some q" "located pre q" "located (pre @ [cat_id r]) r"
            by (auto simp: well_placed_def)
          have "pre @ [cat_id r] = old @ [i] @ suf" by (rule located_unique [OF q(3) suf(1)])
          then have pre: "pre = old @ [i] @ butlast suf" using False by (metis butlast_append butlast_snoc append_is_Nil_conv)
          have "butlast suf = [] \<longleftrightarrow> cat_id q = i"
          proof
            assume "butlast suf = []"
            with pre q(2) show "cat_id q = i" by (simp add: located_def)
          next
            assume "cat_id q = i"
            with q(1) c tree_okD(1) [OF ok q(1)] have "q = c" by simp
            with q(2) at pre located_unique show "butlast suf = []" by fastforce
          qed
          then have "q \<in> set (list_subtree T i s)"
            using subtree_mem [OF ok c at, of q] tree_okD(2,5) [OF ok q(1)] q(2) pre row(2) by auto
          from inside [OF this, of "butlast suf"] q(2) pre obtain q' where q': "category_get T (cat_id q) ?s = Some q'"
            "located (new @ [i] @ butlast suf) q'" by auto
          have "new @ [i] @ suf = (new @ [i] @ butlast suf) @ [cat_id x]" using append_butlast_last_id [OF False] last r(2) by simp
          with new q' Some suf(2) False r(2) tree_okD(1) [OF ok q(1)] show ?thesis
            by (auto simp: well_placed_def)
        qed
      qed
    next
      case False
      then have x_old: "tbl_get (db_categories s) (cat_id x) = Some x" using outside [of "cat_id x"] x_get by auto
      then have row: "x \<in> set (rows (db_categories s))" by (rule rows_mem)
      then have wp: "well_placed s x" using ok by (simp add: tree_ok_def)
      show ?thesis
      proof (cases "cat_parent_id x")
        case None with wp show ?thesis by (simp add: well_placed_def)
      next
        case (Some p)
        with wp obtain q pre where q: "category_get (cat_tenant_id x) p s = Some q" "located pre q" "located (pre @ [cat_id x]) x"
          by (auto simp: well_placed_def)
        have "q \<notin> set (list_subtree T i s)"
        proof
          assume "q \<in> set (list_subtree T i s)"
          then obtain suf where "located ((old @ [i]) @ suf) q" "cat_tenant_id q = T" using subtree_mem [OF ok c at] by blast
          then have "located ((old @ [i]) @ suf @ [cat_id x]) x" "cat_tenant_id x = T"
            using q located_unique [OF q(2)] tree_okD(2) [OF ok q(1)] by auto
          moreover have "c \<in> set (list_subtree T i s)"
            using subtree_mem [OF ok c at, of c] tree_okD(1,2,5) [OF ok c] at by auto
          with False tree_okD(1) [OF ok c] have "cat_id x \<noteq> i" by auto
          ultimately have "x \<in> set (list_subtree T i s)" using row subtree_mem [OF ok c at, of x] by blast
          with False show False by blast
        qed
        with out [of "cat_tenant_id x" q] q Some tree_okD(1) [OF ok q(1)] show ?thesis by (auto simp: well_placed_def)
      qed
    qed
  qed
  ultimately show ?thesis by (simp add: tree_ok_def)
qed

section \<open>The use cases that write categories\<close>

lemma reparent_subtree_shape:
  assumes c: "located (old @ [cat_id c]) c" and np: "case np of None \<Rightarrow> new = [] | Some p \<Rightarrow> located new p"
    and ms: "reparent_subtree c rs np now = Inr ms"
  shows "map_result (reparent_one c (path_of (new @ [cat_id c])) (int (length new) - int (length old))
      (map_option cat_id np) now) rs = Inr ms \<and> (\<forall>p. np = Some p \<longrightarrow> p \<notin> set rs)"
proof -
  let ?path = "case np of Some p \<Rightarrow> cat_path p @ ''.'' @ uuid_str (cat_id c) | None \<Rightarrow> uuid_str (cat_id c)"
  let ?delta = "(case np of Some p \<Rightarrow> cat_depth p + 1 | None \<Rightarrow> 0) - cat_depth c"
  have path: "?path = path_of (new @ [cat_id c])"
    using np by (auto simp: located_def path_of_append split: option.splits)
  have delta: "?delta = int (length new) - int (length old)"
    using np c by (auto simp: located_def split: option.splits)
  have "map_result (reparent_one c ?path ?delta (map_option cat_id np) now) rs = Inr ms"
    and "\<forall>p. np = Some p \<longrightarrow> p \<notin> set rs"
    using ms by (auto simp: reparent_subtree_def Let_def split: if_splits option.splits)
  then show ?thesis by (simp only: path delta)
qed

lemma audit_record_categories: "audit_record i T a act st si b c now s = Inr s' \<Longrightarrow> db_categories s' = db_categories s"
  by (auto dest: audit_record_Inr)

lemma MoveCategory_tree:
  assumes run: "MoveCategory au T i np_id u now s = Inr (r, s')" and ok: "tree_ok s"
  shows "tree_ok s'"
proof -
  from run obtain c np ms s1 where c: "category_get T i s = Some c"
    and np: "case np_id of None \<Rightarrow> np = None | Some p \<Rightarrow> \<exists>q. category_get T p s = Some q \<and> np = Some q"
    and ms: "reparent_subtree c (list_subtree T i s) np now = Inr ms"
    and flush: "fold_result category_flush ms s = Inr s1" and cats: "db_categories s' = db_categories s1"
    by (auto simp: MoveCategory_def bind_result_eq_Inr Let_def require_Inr dest!: audit_record_categories
        split: option.splits)
  note row = tree_okD [OF ok c]
  from well_placed_located [OF row(3)] obtain ids where "located ids c" by blast
  then have old: "located (butlast ids @ [cat_id c]) c" by (metis append_butlast_last_id located_def)
  obtain new where new: "case np of None \<Rightarrow> new = [] | Some q \<Rightarrow> located new q \<and> category_get T (cat_id q) s = Some q"
  proof (cases np_id)
    case None with np that [of "[]"] show ?thesis by simp
  next
    case (Some p)
    with np obtain q where q: "category_get T p s = Some q" "np = Some q" by auto
    from well_placed_located [OF tree_okD(3) [OF ok q(1)]] obtain new where "located new q" by blast
    with q tree_okD(1) [OF ok q(1)] that [of new] show ?thesis by simp
  qed
  then have loc: "case np of None \<Rightarrow> new = [] | Some p \<Rightarrow> located new p" by (auto split: option.splits)
  note shape = reparent_subtree_shape [OF old loc ms]
  have "tree_ok (fold category_update ms s)"
  proof (rule moved_tree_ok [OF ok c])
    show "located (butlast ids @ [i]) c" using old row(1) by simp
    show "map_result (reparent_one c (path_of (new @ [i])) (int (length new) - int (length (butlast ids)))
        (map_option cat_id np) now) (list_subtree T i s) = Inr ms" using shape row(1) by simp
    show "case map_option cat_id np of None \<Rightarrow> new = [] | Some p \<Rightarrow> \<exists>q. category_get T p s = Some q \<and> located new q
        \<and> q \<notin> set (list_subtree T i s)" using new shape by (auto split: option.splits)
  qed
  with flush_all [OF flush] tree_ok_other [OF cats] show ?thesis by simp
qed

lemma CreateCategory_tree:
  assumes run: "CreateCategory i au T key name slug p desc pos u now s = Inr (c, s')" and ok: "tree_ok s"
  shows "tree_ok s'"
proof -
  from run obtain np s1 where np: "case p of None \<Rightarrow> np = None | Some j \<Rightarrow> \<exists>q. category_get T j s = Some q \<and> np = Some q"
    and c: "c = Category_create i T key name slug np now desc pos" and add: "category_add c s = Inr s1"
    and cats: "db_categories s' = db_categories s1"
    by (auto simp: CreateCategory_def bind_result_eq_Inr Let_def require_Inr dest!: audit_record_categories
        split: option.splits)
  have id: "cat_id c = i" "cat_tenant_id c = T" "cat_parent_id c = map_option cat_id np"
    by (simp_all add: c Category_create_def Let_def split: option.splits)
  have "well_placed s c"
  proof (cases np)
    case None
    with id show ?thesis by (simp add: well_placed_def c located_create_root)
  next
    case (Some q)
    with np obtain j where q: "category_get T j s = Some q" by (auto split: option.splits)
    from well_placed_located [OF tree_okD(3) [OF ok q]] obtain ids where ids: "located ids q" by blast
    from located_create_child [OF ids] have "located (ids @ [i]) c" by (simp add: c Some)
    with q ids id Some tree_okD(1) [OF ok q] show ?thesis by (auto simp: well_placed_def)
  qed
  moreover from add have "tbl_add (cat_id c) c (db_categories s) = Inr (db_categories s1)"
    by (auto simp: category_add_def bind_result_eq_Inr tbl_add_unique_Inr)
  ultimately have "tree_ok s1" using tree_ok_added [OF ok] by blast
  with tree_ok_other [OF cats] show ?thesis by simp
qed

lemma UpdateCategory_tree:
  assumes run: "UpdateCategory au T i name desc pos act u now s = Inr (c, s')" and ok: "tree_ok s"
  shows "tree_ok s'"
proof -
  from run obtain old where old: "category_get T i s = Some old"
    and c: "c = old\<lparr>cat_name := name, cat_description := desc, cat_position := pos, cat_is_active := act, cat_updated_at := now\<rparr>"
    and cats: "db_categories s' = db_categories (category_update c s)"
    by (auto simp: UpdateCategory_def bind_result_eq_Inr Let_def require_Inr dest!: audit_record_categories)
  show ?thesis
  proof (rule tree_ok_updated [OF ok])
    show "tbl_get (db_categories s) (cat_id old) = Some old" using tree_okD(1,4) [OF ok old] by simp
    show "same_place old c" by (simp add: same_place_def c)
    show "db_categories s' = tbl_put (cat_id c) c (db_categories s)" by (simp add: cats category_update_rows)
  qed
qed

lemma introduce_rows_categories: "db_categories (introduce_rows T c v s) = db_categories s"
  by (simp add: introduce_rows_def)

lemma PublishCategorySpec_tree:
  assumes run: "PublishCategorySpec i au T cid u now s = Inr (v, s')" and ok: "tree_ok s"
  shows "tree_ok s'"
proof -
  from run obtain old c n vs s1 where old: "category_get T cid s = Some old"
    and c: "c = old\<lparr>cat_current_spec_version := Some n, cat_draft_spec_version := None, cat_updated_at := now\<rparr>"
    and cats: "db_categories s' = db_categories (category_update c (s1\<lparr>db_spec_versions := vs\<rparr>))"
    and s1: "db_categories s1 = db_categories s"
    unfolding PublishCategorySpec_def bind_result_eq_Inr Let_def require_Inr
    by (auto simp: bind_result_eq_Inr introduce_rows_categories dest!: audit_record_categories split: if_splits)
  show ?thesis
  proof (rule tree_ok_updated [OF ok])
    show "tbl_get (db_categories s) (cat_id old) = Some old" using tree_okD(1,4) [OF ok old] by simp
    show "same_place old c" by (simp add: same_place_def c)
    show "db_categories s' = tbl_put (cat_id c) c (db_categories s)" by (simp add: cats category_update_rows s1)
  qed
qed

text \<open>A transaction: one of the use cases that write categories, or one that leaves them alone.\<close>

inductive category_step :: "db \<Rightarrow> db \<Rightarrow> bool" where
  created: "CreateCategory i au T key name slug p desc pos u now s = Inr (c, s') \<Longrightarrow> category_step s s'"
| edited: "UpdateCategory au T i name desc pos act u now s = Inr (c, s') \<Longrightarrow> category_step s s'"
| moved: "MoveCategory au T i p u now s = Inr (r, s') \<Longrightarrow> category_step s s'"
| published: "PublishCategorySpec i au T cid u now s = Inr (v, s') \<Longrightarrow> category_step s s'"
| elsewhere: "db_categories s' = db_categories s \<Longrightarrow> category_step s s'"

lemma category_step_tree: "\<lbrakk>category_step s s'; tree_ok s\<rbrakk> \<Longrightarrow> tree_ok s'"
proof (induction rule: category_step.induct)
  case elsewhere
  then show ?case using tree_ok_other by blast
qed (blast intro: CreateCategory_tree UpdateCategory_tree MoveCategory_tree PublishCategorySpec_tree)+

lemma category_steps_tree: "\<lbrakk>category_step\<^sup>*\<^sup>* s s'; tree_ok s\<rbrakk> \<Longrightarrow> tree_ok s'"
  by (induction rule: rtranclp_induct) (auto dest: category_step_tree)

text \<open>
  C6: Over every sequence of transactions the stored paths and depths of a tenant's categories describe a forest. The
  identifiers read off a category's path are different from each other, end with its own, and are all categories
  of the tenant, each the parent of the next and each with the path up to itself; the depth is their number less one.
  So no edit closes a cycle, leaves a row below a parent that is gone or crosses into another tenant.
\<close>

theorem category_tree_sound:
  assumes "category_step\<^sup>*\<^sup>* s s'" and "tree_ok s" and "category_get T i s' = Some c"
  shows "\<exists>ids. Category_ancestor_ids c = Inr ids \<and> ids \<noteq> [] \<and> last ids = i \<and> distinct ids
     \<and> cat_depth c = int (length ids) - 1
     \<and> (\<forall>k < length ids. \<exists>r. category_get T (ids ! k) s' = Some r \<and> Category_ancestor_ids r = Inr (take (Suc k) ids)
          \<and> cat_parent_id r = (if k = 0 then None else Some (ids ! (k - 1))))"
proof -
  have ok: "tree_ok s'" by (rule category_steps_tree [OF assms(1,2)])
  from well_placed_located [OF tree_okD(3) [OF ok assms(3)]] obtain ids where ids: "located ids c" by blast
  have "\<exists>r. category_get T (ids ! k) s' = Some r \<and> Category_ancestor_ids r = Inr (take (Suc k) ids)
      \<and> cat_parent_id r = (if k = 0 then None else Some (ids ! (k - 1)))" if "k < length ids" for k
    using ancestor_rows [OF ok assms(3) ids that] located_ancestor_ids by blast
  with ids tree_okD(1) [OF ok assms(3)] chain_distinct [OF ok assms(3) ids] show ?thesis
    by (intro exI [of _ ids]) (auto simp: located_ancestor_ids, auto simp: located_def)
qed

theorem category_tree_sound_witness:
  "\<exists>s' ids. CreateCategory 2 50 9 ''boots'' ''Boots'' ''boots'' (Some 1) None 0 8 0 demo_taxonomy = Inr (demo_branch, s')
     \<and> Category_ancestor_ids demo_branch = Inr ids \<and> length ids = 2 \<and> last ids = 2 \<and> distinct ids
     \<and> category_get 9 (ids ! 0) s' \<noteq> None"
proof -
  have root: "cat_id demo_root = 1" "cat_tenant_id demo_root = 9" "cat_parent_id demo_root = None" "cat_key demo_root = ''shoes''"
    "cat_slug demo_root = ''shoes''"
    by (simp_all add: demo_root_def Category_create_def Let_def)
  have branch: "cat_id demo_branch = 2" "cat_tenant_id demo_branch = 9" "cat_parent_id demo_branch = Some 1"
    "cat_key demo_branch = ''boots''" "cat_slug demo_branch = ''boots''" "cat_depth demo_branch = 1"
    by (simp_all add: demo_branch_def demo_root_def Category_create_def Let_def)
  have get: "category_get 9 1 demo_taxonomy = Some demo_root"
    by (simp add: category_get_def demo_taxonomy_def scoped_get_def tbl_get_def root)
  have "located [1] demo_root" unfolding demo_root_def by (rule located_create_root)
  then have ok: "tree_ok demo_taxonomy"
    by (simp add: tree_ok_def well_placed_def demo_taxonomy_def rows_def tbl_ok_def root)
  have add: "category_add demo_branch demo_taxonomy = Inr (demo_taxonomy\<lparr>db_categories := [(1, demo_root), (2, demo_branch)]\<rparr>)"
    by (simp add: category_add_def demo_taxonomy_def tbl_add_unique_def tbl_add_def tbl_get_def rows_def slug_clash_def
        sibling_clash_def root branch)
  define s1 where "s1 = demo_taxonomy\<lparr>db_categories := [(1, demo_root), (2, demo_branch)]\<rparr>"
  have run: "\<exists>t. CreateCategory 2 50 9 ''boots'' ''Boots'' ''boots'' (Some 1) None 0 8 0 demo_taxonomy
      = Inr (demo_branch, s1\<lparr>db_audit := t\<rparr>)"
    unfolding CreateCategory_def option.case get require_simps bind_result_simps Let_def demo_branch_def [symmetric] add
      s1_def [symmetric]
    by (rule audit_record_last) (simp add: s1_def demo_taxonomy_def empty_db_def tbl_get_def)
  then obtain t where t: "CreateCategory 2 50 9 ''boots'' ''Boots'' ''boots'' (Some 1) None 0 8 0 demo_taxonomy
      = Inr (demo_branch, s1\<lparr>db_audit := t\<rparr>)" (is "_ = Inr (_, ?s)") by blast
  have "category_get 9 2 ?s = Some demo_branch"
    by (simp add: category_get_def scoped_get_def s1_def tbl_get_def branch)
  moreover have "category_step\<^sup>*\<^sup>* demo_taxonomy ?s" using category_step.created [OF t] by blast
  ultimately have "\<exists>ids. Category_ancestor_ids demo_branch = Inr ids \<and> ids \<noteq> [] \<and> last ids = 2 \<and> distinct ids
     \<and> cat_depth demo_branch = int (length ids) - 1
     \<and> (\<forall>k < length ids. \<exists>r. category_get 9 (ids ! k) ?s = Some r \<and> Category_ancestor_ids r = Inr (take (Suc k) ids)
          \<and> cat_parent_id r = (if k = 0 then None else Some (ids ! (k - 1))))"
    using category_tree_sound ok by blast
  then
  obtain ids where ids: "Category_ancestor_ids demo_branch = Inr ids" "ids \<noteq> []" "last ids = 2" "distinct ids"
    "cat_depth demo_branch = int (length ids) - 1" "\<exists>r. category_get 9 (ids ! 0) ?s = Some r" by (metis length_greater_0_conv)
  with t branch(6) show ?thesis by (intro exI [of _ ?s] exI [of _ ids]) auto
qed

end
