(* ===== verification/Settings_Protocol.thy ===== *)
theory Settings_Protocol
  imports Taxonomy
begin

text \<open>
  Settings as a map from position (tenant, scope, identifier, key) to value: what the unique indexes and the guards of
  the writer make of the table, and that the writer is the update of the map.
\<close>

interpretation setting_index: unique_index set_id setting_key setting_clash
  by unfold_locales (auto simp: setting_clash_def)

definition setting_place :: "setting \<Rightarrow> uuid option \<times> setting_scope \<times> uuid option \<times> string" where
  "setting_place r = (set_tenant_id r, set_scope_type r, set_scope_id r, set_key r)"

text \<open>Every row is under its index, as the check constraint of migration 77ef8de529f6 has it.\<close>

definition settings_ok :: "db \<Rightarrow> bool" where
  "settings_ok s \<longleftrightarrow> tbl_ok set_id (db_settings s) \<and> unique_on setting_key (db_settings s)
     \<and> (\<forall>r \<in> set (rows (db_settings s)). setting_key r = Some (setting_place r))"

definition settings_map :: "db \<Rightarrow> uuid option \<times> setting_scope \<times> uuid option \<times> string \<Rightarrow> json option" where
  "settings_map s = (\<lambda>(T, sc, i, k). case setting_get T sc i k s of Inr (Some r) \<Rightarrow> Some (set_value r) | _ \<Rightarrow> None)"

lemma setting_get_key:
  assumes "settings_ok s"
  shows "setting_get T sc i k s
    = scalar_one_or_none (filter (\<lambda>r. setting_key r = Some (T, sc, i, k)) (rows (db_settings s)))"
  unfolding setting_get_def
  by (rule arg_cong [of _ _ scalar_one_or_none], rule filter_cong)
     (use assms in \<open>auto simp: settings_ok_def setting_place_def\<close>)

lemma setting_get_total: "settings_ok s \<Longrightarrow> \<exists>x. setting_get T sc i k s = Inr x"
  by (simp add: setting_get_key setting_index.query_unique settings_ok_def)

lemma setting_get_iff:
  assumes "settings_ok s"
  shows "setting_get T sc i k s = Inr (Some r)
    \<longleftrightarrow> tbl_get (db_settings s) (set_id r) = Some r \<and> setting_key r = Some (T, sc, i, k)"
proof -
  have t: "tbl_ok set_id (db_settings s)" "unique_on setting_key (db_settings s)" using assms by (simp_all add: settings_ok_def)
  show ?thesis
    unfolding setting_get_key [OF assms] rows_iff [OF t(1), symmetric]
    using scalar_Some [of "\<lambda>r. setting_key r = Some (T, sc, i, k)" "rows (db_settings s)" r]
      setting_index.query_hit [OF t, of "\<lambda>r. setting_key r = Some (T, sc, i, k)" "(T, sc, i, k)" r] by blast
qed

lemma settings_map_eq:
  assumes "settings_ok s"
  shows "settings_map s p = Some v
    \<longleftrightarrow> (\<exists>r. tbl_get (db_settings s) (set_id r) = Some r \<and> setting_key r = Some p \<and> set_value r = v)"
proof -
  obtain T sc i k where p: "p = (T, sc, i, k)" by (cases p) auto
  obtain x where x: "setting_get T sc i k s = Inr x" using setting_get_total [OF assms] by blast
  show ?thesis
    unfolding p setting_get_iff [OF assms, symmetric] conj_assoc [symmetric]
    by (cases x) (simp_all add: settings_map_def x)
qed

lemma settings_map_ext:
  assumes "settings_ok s" and "settings_ok s'"
    and "\<And>q v. (\<exists>r. tbl_get (db_settings s') (set_id r) = Some r \<and> setting_key r = Some q \<and> set_value r = v)
      \<longleftrightarrow> (if q = p then v = w
           else \<exists>r. tbl_get (db_settings s) (set_id r) = Some r \<and> setting_key r = Some q \<and> set_value r = v)"
  shows "settings_map s' = (settings_map s)(p \<mapsto> w)"
proof
  fix q
  have "settings_map s' q = Some v \<longleftrightarrow> ((settings_map s)(p \<mapsto> w)) q = Some v" for v
    using settings_map_eq [OF assms(1)] settings_map_eq [OF assms(2)] assms(3) by auto
  then show "settings_map s' q = ((settings_map s)(p \<mapsto> w)) q" by (metis not_None_eq)
qed

lemma Setting_create_Inr:
  assumes "Setting_create n sc T i k v now = Inr r"
  shows "setting_key r = Some (T, sc, i, k)" "setting_place r = (T, sc, i, k)" "set_id r = n" "set_value r = v"
  using assms by (auto simp: Setting_create_def setting_key_def setting_place_def split: if_splits setting_scope.splits)

text \<open>
  C23: Over a table the constraints hold of, writing a setting is the update of the map at its position: it changes the
  value there and nowhere else, the constraints hold again, and no lookup can meet two rows.
\<close>

theorem upsert_is_map_update:
  assumes run: "UpsertSetting n T sc i k v now s = Inr (r, s')" and ok: "settings_ok s"
  shows "settings_map s' = (settings_map s)((T, sc, i, k) \<mapsto> v) \<and> settings_ok s'
     \<and> setting_get T sc i k s' = Inr (Some r)"
proof -
  let ?p = "(T, sc, i, k)"
  from run obtain existing where ex: "setting_get T sc i k s = Inr existing"
    by (auto simp: UpsertSetting_def bind_result_eq_Inr)
  have t: "tbl_ok set_id (db_settings s)" "unique_on setting_key (db_settings s)"
    "\<And>q. q \<in> set (rows (db_settings s)) \<Longrightarrow> setting_key q = Some (setting_place q)" using ok by (auto simp: settings_ok_def)
  have "settings_ok s' \<and> tbl_get (db_settings s') (set_id r) = Some r \<and> setting_key r = Some ?p \<and> set_value r = v
     \<and> (\<forall>j. j \<noteq> set_id r \<longrightarrow> tbl_get (db_settings s') j = tbl_get (db_settings s) j)
     \<and> (\<forall>q. tbl_get (db_settings s) (set_id r) = Some q \<longrightarrow> setting_key q = Some ?p)"
  proof (cases existing)
    case (Some old)
    with ex setting_get_iff [OF ok] have old: "tbl_get (db_settings s) (set_id old) = Some old" "setting_key old = Some ?p" by auto
    from run ex Some have r: "r = old\<lparr>set_value := v, set_updated_at := now\<rparr>" and s': "s' = setting_update r s"
      by (auto simp: UpsertSetting_def Let_def)
    have same: "set_id r = set_id old" "setting_key r = setting_key old" "setting_place r = setting_place old" "set_value r = v"
      by (simp_all add: r setting_key_def setting_place_def split: setting_scope.splits option.splits)
    have "settings_ok s'"
      using t same old rows_mem [OF old(1)] setting_index.put_unique [OF t(2) old(1), of r]
      by (auto simp: settings_ok_def s' setting_update_def tbl_ok_put dest!: rows_put_subset)
    with old same show ?thesis by (simp add: s' setting_update_def tbl_get_put)
  next
    case None
    with run ex obtain s1 where c: "Setting_create n sc T i k v now = Inr r" and s1: "setting_add r s = Inr s'"
      by (auto simp: UpsertSetting_def bind_result_eq_Inr)
    then obtain t' where add: "tbl_add (set_id r) r (db_settings s) = Inr t'" "\<not> list_ex (setting_clash r) (rows (db_settings s))"
      "s' = s\<lparr>db_settings := t'\<rparr>" by (auto simp: setting_add_def bind_result_eq_Inr tbl_add_unique_Inr)
    note row = Setting_create_Inr [OF c]
    have "settings_ok s'"
      using setting_index.add_unique [OF t(1,2) add(2,1)] t(3) row
      by (auto simp: settings_ok_def add(3) rows_tbl_add [OF add(1)])
    moreover have "tbl_get (db_settings s) (set_id r) = None" using add(1) by (simp add: tbl_add_def split: if_splits option.splits)
    ultimately show ?thesis using row by (simp add: add(3) tbl_get_add [OF add(1)])
  qed
  then have ok': "settings_ok s'" and r: "tbl_get (db_settings s') (set_id r) = Some r" "setting_key r = Some ?p" "set_value r = v"
    and other: "\<And>j. j \<noteq> set_id r \<Longrightarrow> tbl_get (db_settings s') j = tbl_get (db_settings s) j"
    and own: "\<And>q. tbl_get (db_settings s) (set_id r) = Some q \<Longrightarrow> setting_key q = Some ?p" by auto
  have t': "unique_on setting_key (db_settings s')" using ok' by (simp add: settings_ok_def)
  have only: "q = r" if "tbl_get (db_settings s') (set_id q) = Some q" "setting_key q = Some ?p" for q
  proof -
    have "set_id q = set_id r" by (rule unique_onD [OF t' that(1) r(1) that(2) r(2)])
    with that(1) r(1) show ?thesis by (metis option.inject)
  qed
  have "settings_map s' = (settings_map s)(?p \<mapsto> v)"
  proof (rule settings_map_ext [OF ok ok'])
    fix q w
    show "(\<exists>x. tbl_get (db_settings s') (set_id x) = Some x \<and> setting_key x = Some q \<and> set_value x = w)
      \<longleftrightarrow> (if q = ?p then w = v
           else \<exists>x. tbl_get (db_settings s) (set_id x) = Some x \<and> setting_key x = Some q \<and> set_value x = w)"
    proof (cases "q = ?p")
      case True
      have "w = v" if "tbl_get (db_settings s') (set_id x) = Some x" "setting_key x = Some q" "set_value x = w" for x
        using only [OF that(1)] that(2,3) r(3) True by blast
      moreover have "\<exists>x. tbl_get (db_settings s') (set_id x) = Some x \<and> setting_key x = Some q \<and> set_value x = v"
        unfolding True by (intro exI [of _ r] conjI r)
      ultimately show ?thesis unfolding if_P [OF True] by blast
    next
      case False
      then have "tbl_get (db_settings s') (set_id x) = Some x \<longleftrightarrow> tbl_get (db_settings s) (set_id x) = Some x"
        if "setting_key x = Some q" for x
      proof (cases "set_id x = set_id r")
        case True
        have "tbl_get (db_settings s') (set_id x) \<noteq> Some x" using True that False r(1,2) by (metis option.inject)
        moreover have "tbl_get (db_settings s) (set_id x) \<noteq> Some x" using True that False own by (metis option.inject)
        ultimately show ?thesis by blast
      qed (simp add: other)
      with False show ?thesis unfolding if_not_P [OF False] by blast
    qed
  qed
  with ok' r setting_get_iff [OF ok'] show ?thesis by simp
qed

theorem upsert_is_map_update_witness:
  "\<exists>r s'. UpsertSetting 7 (Some 1) SCOPE_TENANT None ''theme'' (JStr ''dark'') 3 empty_db = Inr (r, s')
     \<and> settings_map s' (Some 1, SCOPE_TENANT, None, ''theme'') = Some (JStr ''dark'')
     \<and> settings_map s' (None, SCOPE_PLATFORM, None, ''theme'') = None"
proof -
  have "\<exists>r s'. UpsertSetting 7 (Some 1) SCOPE_TENANT None ''theme'' (JStr ''dark'') 3 empty_db = Inr (r, s')"
    by (simp add: UpsertSetting_def setting_get_def empty_db_def rows_def scalar_one_or_none_def Setting_create_def
        setting_add_def tbl_add_unique_def tbl_add_def tbl_get_def strip_def lstrip_def py_space_def)
  then obtain r s' where run: "UpsertSetting 7 (Some 1) SCOPE_TENANT None ''theme'' (JStr ''dark'') 3 empty_db = Inr (r, s')"
    by blast
  have ok: "settings_ok empty_db" by (simp add: settings_ok_def empty_db_def rows_def)
  have "settings_map empty_db p = None" for p
    by (cases p) (simp add: settings_map_def setting_get_def empty_db_def rows_def scalar_one_or_none_def)
  with run upsert_is_map_update [OF run ok] show ?thesis by simp
qed

end
