(* ===== verification/Content.thy ===== *)
theory Content
  imports Generation Unique_Index
begin

text \<open>
  features/content/*.py and agents/copywriting.py: marketing copy for a variant, one live draft per channel and locale,
  generated by a provider or edited by a person, checked against the tenant's forbidden claims and put before the
  approval gate. The text provider is an argument.
\<close>

section \<open>The repository\<close>

text \<open>The partial unique index of migration 28b3907984f5, over the drafts nothing has superseded.\<close>

definition draft_key :: "content_draft \<Rightarrow> (uuid \<times> uuid \<times> string \<times> string) option" where
  "draft_key d = (if cd_superseded_by d = None
     then Some (cd_tenant_id d, cd_variant_id d, cd_channel d, cd_locale d) else None)"

definition draft_clash :: "content_draft \<Rightarrow> content_draft \<Rightarrow> bool" where
  "draft_clash d r \<longleftrightarrow> draft_key d \<noteq> None \<and> draft_key r = draft_key d"

definition draft_get :: "uuid \<Rightarrow> uuid \<Rightarrow> db \<Rightarrow> content_draft option" where
  "draft_get tenant_id draft_id s = scoped_get cd_tenant_id (db_drafts s) tenant_id draft_id"

definition draft_get_live :: "uuid \<Rightarrow> uuid \<Rightarrow> string \<Rightarrow> string \<Rightarrow> db \<Rightarrow> content_draft option result" where
  "draft_get_live tenant_id variant_id channel locale1 s =
     scalar_one_or_none (filter (\<lambda>d. cd_tenant_id d = tenant_id \<and> cd_variant_id d = variant_id
       \<and> cd_channel d = channel \<and> cd_locale d = locale1 \<and> cd_superseded_by d = None) (rows (db_drafts s)))"

definition draft_add :: "content_draft \<Rightarrow> db \<Rightarrow> db result" where
  "draft_add d s = bind_result (tbl_add_unique draft_clash (cd_id d) d (db_drafts s))
     (\<lambda>t. Inr (s\<lparr>db_drafts := t\<rparr>))"

definition draft_update :: "content_draft \<Rightarrow> db \<Rightarrow> db" where
  "draft_update d s = s\<lparr>db_drafts := tbl_put (cd_id d) d (db_drafts s)\<rparr>"

definition drafts_list_for_variant :: "uuid \<Rightarrow> uuid \<Rightarrow> db \<Rightarrow> content_draft list" where
  "drafts_list_for_variant tenant_id variant_id s =
     filter (\<lambda>d. cd_tenant_id d = tenant_id \<and> cd_variant_id d = variant_id) (rows (db_drafts s))"

definition images_list_for_variant :: "uuid \<Rightarrow> uuid \<Rightarrow> db \<Rightarrow> catalog_image list" where
  "images_list_for_variant tenant_id variant_id s =
     filter (\<lambda>i. ci_tenant_id i = tenant_id \<and> ci_variant_id i = variant_id) (rows (db_images s))"

section \<open>Asking for copy\<close>

definition GenerateContentDraft ::
  "uuid \<Rightarrow> string \<Rightarrow> uuid \<Rightarrow> uuid \<Rightarrow> string \<Rightarrow> string \<Rightarrow> datetime \<Rightarrow> unit use_case" where
  "GenerateContentDraft event_id model tenant_id variant_id channel locale1 now s =
     bind_result (require (NotFoundError ''Product variant not found.'') (variant_get tenant_id variant_id s)) (\<lambda>_.
     let images = images_list_for_variant tenant_id variant_id s;
         has_approved_image = list_ex (\<lambda>i. ci_superseded_by i = None \<and> ci_status i = IMG_APPROVED) images
     in bind_result (ensure has_approved_image
          (ValidationError ''Cannot generate copy for a variant with no approved catalog images.'')) (\<lambda>_.
        bind_result (outbox_add event_id tenant_id ''content_draft.generate_requested''
            [(''variant_id'', uuid_str variant_id), (''channel'', channel), (''locale'', locale1), (''model'', model)] now s)
          (\<lambda>s'. Inr ((), s'))))"

definition COPY_JOB_TYPE :: string where "COPY_JOB_TYPE = ''content_draft.generate_requested''"
definition COPY_CLAIMED_BY :: string where "COPY_CLAIMED_BY = ''copywriting-worker''"
definition FORBIDDEN_CLAIMS_KEY :: string where "FORBIDDEN_CLAIMS_KEY = ''content.forbidden_claims''"
definition COPY_PROMPT_VERSION :: string where "COPY_PROMPT_VERSION = ''v1''"

record copy_context =
  cc_job_id :: uuid
  cc_variant_id :: uuid
  cc_channel :: string
  cc_locale :: string
  cc_prompt :: string
  cc_model :: string
  cc_forbidden_claims :: "string list"

fun json_string :: "json \<Rightarrow> string option" where
  "json_string (JStr x) = Some x"
| "json_string _ = None"

definition resolve_forbidden_claims :: "json \<Rightarrow> string list result" where
  "resolve_forbidden_claims v = (case v of
     JNull \<Rightarrow> Inr []
   | JList items \<Rightarrow> (if list_all (\<lambda>i. json_string i \<noteq> None) items then Inr (map (\<lambda>i. or_empty (json_string i)) items)
       else Inl (ValidationError (py_repr FORBIDDEN_CLAIMS_KEY @ '' must be a list of strings, got '' @ json_repr v @ ''.'')))
   | _ \<Rightarrow> Inl (ValidationError (py_repr FORBIDDEN_CLAIMS_KEY @ '' must be a list of strings, got '' @ json_repr v @ ''.'')))"

text \<open>The settings a draft's product is under.\<close>

definition product_setting :: "uuid \<Rightarrow> string \<Rightarrow> product \<Rightarrow> db \<Rightarrow> json result" where
  "product_setting tenant_id key p s =
     SettingsResolver_resolve tenant_id key (Some (prod_category_id p)) (Some (prod_id p)) s"

text \<open>A job nothing can be generated for: failed, so that it is retried or buried.\<close>

definition give_up_job :: "rat \<Rightarrow> uuid \<Rightarrow> task_queue_job \<Rightarrow> string \<Rightarrow> datetime \<Rightarrow> copy_context option use_case" where
  "give_up_job jitter tenant_id job error now s =
     bind_result (fail_job jitter tenant_id (job_id job) error now (db_jobs s)) (\<lambda>(_, q). Inr (None, s\<lparr>db_jobs := q\<rparr>))"

definition copy_context_for ::
  "rat \<Rightarrow> uuid \<Rightarrow> task_queue_job \<Rightarrow> uuid \<Rightarrow> string \<Rightarrow> string \<Rightarrow> string \<Rightarrow> datetime \<Rightarrow> copy_context option use_case" where
  "copy_context_for jitter tenant_id job variant_id channel locale1 model now s =
     (case variant_get tenant_id variant_id s of
        None \<Rightarrow> give_up_job jitter tenant_id job (''product variant '' @ uuid_str variant_id @ '' not found'') now s
      | Some variant \<Rightarrow>
          bind_result (require (NotFoundError ''Product not found.'') (product_get tenant_id (pv_product_id variant) s)) (\<lambda>product.
          bind_result (product_setting tenant_id FORBIDDEN_CLAIMS_KEY product s) (\<lambda>raw_forbidden_claims.
          (case resolve_forbidden_claims raw_forbidden_claims of
             Inl (AppError _ message _) \<Rightarrow> give_up_job jitter tenant_id job message now s
           | Inl e \<Rightarrow> Inl e
           | Inr forbidden_claims \<Rightarrow>
               let merged_attributes = merge_attributes (prod_attributes product) (pv_attributes variant);
                   prompt = compose_copy_prompt channel locale1 merged_attributes
               in Inr (Some \<lparr>cc_job_id = job_id job, cc_variant_id = variant_id, cc_channel = channel, cc_locale = locale1,
                    cc_prompt = prompt, cc_model = model, cc_forbidden_claims = forbidden_claims\<rparr>, s)))))"

definition StartContentDraftGeneration :: "rat \<Rightarrow> uuid \<Rightarrow> datetime \<Rightarrow> copy_context option use_case" where
  "StartContentDraftGeneration jitter tenant_id now s =
     (case claim tenant_id COPY_CLAIMED_BY (Some COPY_JOB_TYPE) now (db_jobs s) of
        (None, _) \<Rightarrow> Inr (None, s)
      | (Some job, q) \<Rightarrow>
          bind_result (dict_item py_repr (job_payload job) ''variant_id'') (\<lambda>raw.
          bind_result (uuid_parse raw) (\<lambda>variant_id.
          bind_result (dict_item py_repr (job_payload job) ''channel'') (\<lambda>channel.
          bind_result (dict_item py_repr (job_payload job) ''locale'') (\<lambda>locale1.
          bind_result (dict_item py_repr (job_payload job) ''model'') (\<lambda>model.
            copy_context_for jitter tenant_id job variant_id channel locale1 model now (s\<lparr>db_jobs := q\<rparr>)))))))"

section \<open>A new draft\<close>

text \<open>
  \<open>pending_approval\<close>, then approved at once when the tenant has switched the approval off
  (\<open>approval_required is False\<close>).
\<close>

definition gate_draft :: "uuid \<Rightarrow> product \<Rightarrow> datetime \<Rightarrow> content_draft \<Rightarrow> db \<Rightarrow> content_draft result" where
  "gate_draft tenant_id p now d s =
     bind_result (ContentDraft_mark_pending_approval now d) (\<lambda>d.
     bind_result (product_setting tenant_id APPROVAL_REQUIRED_KEY p s) (\<lambda>approval_required.
       if approval_required = JBool False then ContentDraft_approve None now d else Inr d))"

text \<open>The live draft is marked first, then the new one is inserted: the index is not deferred.\<close>

definition supersede_draft :: "content_draft option \<Rightarrow> content_draft \<Rightarrow> datetime \<Rightarrow> db \<Rightarrow> db result" where
  "supersede_draft existing d now s =
     bind_result (case existing of None \<Rightarrow> Inr s
         | Some old \<Rightarrow> bind_result (ContentDraft_mark_superseded (cd_id d) now old) (\<lambda>old. Inr (draft_update old s)))
       (draft_add d)"

definition CompleteContentDraftGeneration ::
  "uuid \<Rightarrow> uuid \<Rightarrow> rat \<Rightarrow> uuid \<Rightarrow> uuid \<Rightarrow> string \<Rightarrow> string \<Rightarrow> uuid \<Rightarrow> generated_copy \<Rightarrow> string list \<Rightarrow> datetime
    \<Rightarrow> content_draft option use_case" where
  "CompleteContentDraftGeneration new_id audit_id jitter tenant_id variant_id channel locale1 jid c forbidden_claims now s =
     (case validate_copy c forbidden_claims of
        Some violation \<Rightarrow> bind_result (fail_job jitter tenant_id jid violation now (db_jobs s))
          (\<lambda>(_, q). Inr (None, s\<lparr>db_jobs := q\<rparr>))
      | None \<Rightarrow>
     bind_result (require (NotFoundError ''Product variant not found.'') (variant_get tenant_id variant_id s)) (\<lambda>variant.
     bind_result (require (NotFoundError ''Product not found.'') (product_get tenant_id (pv_product_id variant) s)) (\<lambda>product.
     bind_result (draft_get_live tenant_id variant_id channel locale1 s) (\<lambda>existing.
     bind_result (gate_draft tenant_id product now
         (ContentDraft_create new_id tenant_id variant_id channel locale1 (gc_body c) (gc_alt_text c) (gc_model c)
            COPY_PROMPT_VERSION now (gc_title c) (Some (gc_hashtags c)) (gc_cta c) None) s) (\<lambda>draft.
     bind_result (supersede_draft existing draft now s) (\<lambda>s1.
     bind_result (audit_record audit_id tenant_id None ''content_draft.generated'' ''content_draft'' (cd_id draft) None
         (Some [(''channel'', JStr channel), (''locale'', JStr locale1),
                (''status'', JStr (content_draft_status_value (cd_status draft)))]) now
         (s1\<lparr>db_jobs := complete_job tenant_id jid now (db_jobs s1)\<rparr>)) (\<lambda>s2.
       Inr (Some draft, s2))))))))"

definition FailContentDraftGeneration ::
  "rat \<Rightarrow> uuid \<Rightarrow> uuid \<Rightarrow> string \<Rightarrow> string \<Rightarrow> datetime \<Rightarrow> unit use_case" where
  "FailContentDraftGeneration jitter tenant_id jid error_code error_detail now s =
     bind_result (fail_job jitter tenant_id jid (error_code @ '': '' @ error_detail) now (db_jobs s))
       (\<lambda>(_, q). Inr ((), s\<lparr>db_jobs := q\<rparr>))"

section \<open>Editing and review\<close>

definition EditContentDraft ::
  "uuid \<Rightarrow> uuid \<Rightarrow> uuid \<Rightarrow> uuid \<Rightarrow> uuid \<Rightarrow> string option \<Rightarrow> string \<Rightarrow> string list \<Rightarrow> string option \<Rightarrow> string \<Rightarrow> datetime
    \<Rightarrow> content_draft use_case" where
  "EditContentDraft new_id audit_id tenant_id draft_id edited_by title body hashtags cta alt_text now s =
     bind_result (require (NotFoundError ''Content draft not found.'') (draft_get tenant_id draft_id s)) (\<lambda>existing.
     bind_result (ensure (cd_superseded_by existing = None)
         (ValidationError ''Cannot edit a superseded content draft; edit the live draft instead.'')) (\<lambda>_.
     bind_result (require (NotFoundError ''Product variant not found.'') (variant_get tenant_id (cd_variant_id existing) s)) (\<lambda>variant.
     bind_result (require (NotFoundError ''Product not found.'') (product_get tenant_id (pv_product_id variant) s)) (\<lambda>product.
     bind_result (product_setting tenant_id FORBIDDEN_CLAIMS_KEY product s) (\<lambda>raw_forbidden_claims.
     bind_result (resolve_forbidden_claims raw_forbidden_claims) (\<lambda>forbidden_claims.
     let candidate = \<lparr>gc_title = title, gc_body = body, gc_hashtags = hashtags, gc_cta = cta, gc_alt_text = alt_text,
           gc_model = cd_model existing, gc_cost_micros = 0, gc_latency_ms = 0\<rparr>
     in (case validate_copy candidate forbidden_claims of Some violation \<Rightarrow> Inl (ValidationError violation) | None \<Rightarrow>
     bind_result (gate_draft tenant_id product now
         (ContentDraft_create new_id tenant_id (cd_variant_id existing) (cd_channel existing) (cd_locale existing) body alt_text
            (cd_model existing) (cd_prompt_version existing) now title (Some hashtags) cta (Some edited_by)) s) (\<lambda>draft.
     bind_result (supersede_draft (Some existing) draft now s) (\<lambda>s1.
     bind_result (audit_record audit_id tenant_id (Some edited_by) ''content_draft.edited'' ''content_draft'' (cd_id draft)
         (Some [(''status'', JStr (content_draft_status_value (cd_status existing))), (''body'', JStr (cd_body existing))])
         (Some [(''status'', JStr (content_draft_status_value (cd_status draft))), (''body'', JStr (cd_body draft))]) now s1) (\<lambda>s2.
       Inr (draft, s2)))))))))))"

definition ApproveContentDraft :: "uuid \<Rightarrow> uuid \<Rightarrow> uuid \<Rightarrow> uuid \<Rightarrow> datetime \<Rightarrow> content_draft use_case" where
  "ApproveContentDraft audit_id tenant_id draft_id approved_by now s =
     bind_result (require (NotFoundError ''Content draft not found.'') (draft_get tenant_id draft_id s)) (\<lambda>old.
     bind_result (ContentDraft_approve (Some approved_by) now old) (\<lambda>draft.
     bind_result (audit_record audit_id tenant_id (Some approved_by) ''content_draft.approved'' ''content_draft'' draft_id
         (Some [(''status'', JStr (content_draft_status_value (cd_status old)))])
         (Some [(''status'', JStr (content_draft_status_value (cd_status draft)))]) now (draft_update draft s)) (\<lambda>s1.
       Inr (draft, s1))))"

definition RejectContentDraft :: "uuid \<Rightarrow> uuid \<Rightarrow> uuid \<Rightarrow> string \<Rightarrow> uuid \<Rightarrow> datetime \<Rightarrow> content_draft use_case" where
  "RejectContentDraft audit_id tenant_id draft_id reason rejected_by now s =
     bind_result (require (NotFoundError ''Content draft not found.'') (draft_get tenant_id draft_id s)) (\<lambda>old.
     bind_result (ContentDraft_reject reason now old) (\<lambda>draft.
     bind_result (audit_record audit_id tenant_id (Some rejected_by) ''content_draft.rejected'' ''content_draft'' draft_id
         (Some [(''status'', JStr (content_draft_status_value (cd_status old)))])
         (Some [(''status'', JStr (content_draft_status_value (cd_status draft))), (''rejection_reason'', JStr reason)]) now
         (draft_update draft s)) (\<lambda>s1.
       Inr (draft, s1))))"

definition ListContentDraftsForVariant :: "uuid \<Rightarrow> uuid \<Rightarrow> db \<Rightarrow> content_draft list" where
  "ListContentDraftsForVariant tenant_id variant_id s =
     filter (\<lambda>d. cd_superseded_by d = None) (drafts_list_for_variant tenant_id variant_id s)"

section \<open>The worker\<close>

text \<open>The provider answers with an exception (its type's name and its text) or with copy.\<close>

record copy_draws =
  cw_time :: "nat \<Rightarrow> datetime"
  cw_jitter :: "nat \<Rightarrow> rat"
  cw_draft_id :: uuid
  cw_audit_id :: uuid

definition CopywritingAgent_run ::
  "(string \<Rightarrow> string \<Rightarrow> (string \<times> string) + generated_copy) \<Rightarrow> copy_draws \<Rightarrow> uuid \<Rightarrow> db \<Rightarrow> content_draft option result \<times> db" where
  "CopywritingAgent_run generate d tenant_id s =
     (case run_uow (StartContentDraftGeneration (cw_jitter d 0) tenant_id (cw_time d 0)) s of
        (Inl e, s1) \<Rightarrow> (Inl e, s1)
      | (Inr None, s1) \<Rightarrow> (Inr None, s1)
      | (Inr (Some ctx), s1) \<Rightarrow>
          (case generate (cc_prompt ctx) (cc_model ctx) of
             Inl (code, detail) \<Rightarrow>
               (case run_uow (FailContentDraftGeneration (cw_jitter d 1) tenant_id (cc_job_id ctx) code detail (cw_time d 1)) s1 of
                  (r, s2) \<Rightarrow> (bind_result r (\<lambda>_. Inr None), s2))
           | Inr c \<Rightarrow> run_uow (CompleteContentDraftGeneration (cw_draft_id d) (cw_audit_id d) (cw_jitter d 1) tenant_id
               (cc_variant_id ctx) (cc_channel ctx) (cc_locale ctx) (cc_job_id ctx) c (cc_forbidden_claims ctx) (cw_time d 1)) s1))"

end
