(* ===== verification/Content_Protocol.thy ===== *)
theory Content_Protocol
  imports Content
begin

text \<open>
  What holds of a tenant's drafts over every sequence of transactions, what a new draft has passed, and how a run of
  the copywriting worker ends.
\<close>

interpretation draft_index: unique_index cd_id draft_key draft_clash
  by unfold_locales (auto simp: draft_clash_def)

definition drafts_ok :: "db \<Rightarrow> bool" where
  "drafts_ok s \<longleftrightarrow> tbl_ok cd_id (db_drafts s) \<and> unique_on draft_key (db_drafts s)"

lemma draft_get_live_total:
  assumes "drafts_ok s"
  shows "\<exists>x. draft_get_live T v ch lo s = Inr x"
proof -
  have "length (filter (\<lambda>d. cd_tenant_id d = T \<and> cd_variant_id d = v \<and> cd_channel d = ch \<and> cd_locale d = lo
      \<and> cd_superseded_by d = None) (rows (db_drafts s))) \<le> 1"
    by (rule draft_index.query_at_most_one [where k = "(T, v, ch, lo)"])
       (use assms in \<open>auto simp: drafts_ok_def draft_key_def\<close>)
  then show ?thesis unfolding draft_get_live_def by (rule scalar_one_or_none_defined)
qed

lemma draft_get_live_hit:
  assumes "drafts_ok s" and "tbl_get (db_drafts s) i = Some d" and "draft_key d = Some (T, v, ch, lo)"
  shows "draft_get_live T v ch lo s = Inr (Some d)"
  unfolding draft_get_live_def
  by (rule draft_index.query_hit [where k = "(T, v, ch, lo)"])
     (use assms rows_mem [OF assms(2)] in \<open>auto simp: drafts_ok_def draft_key_def split: if_splits\<close>)

lemma draft_get_live_row:
  assumes "drafts_ok s" and "draft_get_live T v ch lo s = Inr (Some d)"
  shows "tbl_get (db_drafts s) (cd_id d) = Some d \<and> draft_key d = Some (T, v, ch, lo)"
  using scalar_Some [OF assms(2) [unfolded draft_get_live_def]] assms(1) rows_iff [of cd_id "db_drafts s" d]
  by (simp add: drafts_ok_def draft_key_def)

section \<open>The table of drafts\<close>

text \<open>What a transaction does to the table: insert a new draft, or take a row along its life cycle.\<close>

inductive drafts_step :: "content_draft table \<Rightarrow> content_draft table \<Rightarrow> bool" where
  added: "tbl_add_unique draft_clash (cd_id d) d ts = Inr ts' \<Longrightarrow> drafts_step ts ts'"
| moved: "tbl_get ts (cd_id d) = Some d \<Longrightarrow> content_draft_step d e \<Longrightarrow> drafts_step ts (tbl_put (cd_id e) e ts)"

definition draft_kept :: "content_draft \<Rightarrow> content_draft \<Rightarrow> bool" where
  "draft_kept d e \<longleftrightarrow> content_draft_ident e = content_draft_ident d
     \<and> (cd_status d \<in> {DRAFT_APPROVED, DRAFT_REJECTED} \<longrightarrow> cd_status e = cd_status d \<and> cd_approved_by e = cd_approved_by d)
     \<and> (cd_superseded_by d \<noteq> None \<longrightarrow> cd_superseded_by e = cd_superseded_by d)"

lemma draft_kept_refl [simp]: "draft_kept d d"
  by (simp add: draft_kept_def)

lemma draft_kept_trans: "\<lbrakk>draft_kept a b; draft_kept b c\<rbrakk> \<Longrightarrow> draft_kept a c"
  by (auto simp: draft_kept_def)

lemma draft_step_kept: "content_draft_step d e \<Longrightarrow> draft_kept d e"
  using content_draft_step_ident [of d e]
  by (auto simp: draft_kept_def ContentDraft_method_defs elim!: content_draft_stepE split: if_splits)

lemma drafts_step_ok:
  assumes "drafts_step ts ts'" and "tbl_ok cd_id ts" and "unique_on draft_key ts"
  shows "tbl_ok cd_id ts' \<and> unique_on draft_key ts' \<and> (\<forall>i d. tbl_get ts i = Some d \<longrightarrow> (\<exists>e. tbl_get ts' i = Some e \<and> draft_kept d e))"
  using assms(1)
proof cases
  case (added d)
  then have add: "tbl_add (cd_id d) d ts = Inr ts'" "\<not> list_ex (draft_clash d) (rows ts)" by (auto simp: tbl_add_unique_Inr)
  from draft_index.add_unique [OF assms(2,3) add(2,1)] tbl.add_keeps [OF add(1)] show ?thesis by auto
next
  case (moved d e)
  note kept = draft_step_kept [OF moved(3)]
  then have id: "cd_id e = cd_id d" by (simp add: draft_kept_def content_draft_ident_def)
  have "draft_key e = draft_key d \<or> draft_key e = None"
    using kept by (auto simp: draft_kept_def draft_key_def content_draft_ident_def)
  with draft_index.put_unique [OF assms(3) moved(2)] id assms(2) kept moved(1,2) show ?thesis
    by (auto simp: tbl_ok_put tbl_get_put)
qed

lemma drafts_steps_ok:
  assumes "drafts_step\<^sup>*\<^sup>* ts ts'" and "tbl_ok cd_id ts" and "unique_on draft_key ts"
  shows "tbl_ok cd_id ts' \<and> unique_on draft_key ts' \<and> (\<forall>i d. tbl_get ts i = Some d \<longrightarrow> (\<exists>e. tbl_get ts' i = Some e \<and> draft_kept d e))"
  using assms(1)
proof induction
  case base
  then show ?case using assms(2,3) by auto
next
  case (step ts1 ts2)
  with drafts_step_ok [OF step.hyps(2)] show ?case by (meson draft_kept_trans)
qed

section \<open>What each use case does to it\<close>

lemma draft_get_row: "\<lbrakk>draft_get T i s = Some d; drafts_ok s\<rbrakk> \<Longrightarrow> tbl_get (db_drafts s) (cd_id d) = Some d"
  by (auto simp: draft_get_def scoped_get_Some drafts_ok_def dest: tbl_get_key)

lemma update_draft_steps:
  assumes "tbl_get (db_drafts s) (cd_id d) = Some d" and "content_draft_step d e"
  shows "drafts_step\<^sup>*\<^sup>* (db_drafts s) (db_drafts (draft_update e s))"
  using drafts_step.moved [OF assms] by (simp add: draft_update_def r_into_rtranclp)

lemma supersede_steps:
  assumes "supersede_draft existing d now s = Inr s'"
    and "\<And>old. existing = Some old \<Longrightarrow> tbl_get (db_drafts s) (cd_id old) = Some old"
  shows "drafts_step\<^sup>*\<^sup>* (db_drafts s) (db_drafts s')"
proof -
  have add: "drafts_step (db_drafts r) (db_drafts s')" if "draft_add d r = Inr s'" for r
    using that by (auto simp: draft_add_def bind_result_eq_Inr intro: drafts_step.added)
  show ?thesis
  proof (cases existing)
    case None
    with assms(1) add show ?thesis by (auto simp: supersede_draft_def)
  next
    case (Some old)
    with assms(1) obtain e where e: "ContentDraft_mark_superseded (cd_id d) now old = Inr e" "draft_add d (draft_update e s) = Inr s'"
      by (auto simp: supersede_draft_def bind_result_eq_Inr)
    from update_draft_steps [OF assms(2) [OF Some] content_draft_step.mark_superseded [OF e(1)]] add [OF e(2)]
    show ?thesis by (meson rtranclp.rtrancl_into_rtrancl)
  qed
qed

lemma CompleteContentDraftGeneration_steps:
  assumes "CompleteContentDraftGeneration i au j T v ch lo jid c fs now s = Inr (r, s')" and ok: "drafts_ok s"
  shows "drafts_step\<^sup>*\<^sup>* (db_drafts s) (db_drafts s')"
proof (cases "validate_copy c fs")
  case None
  with assms(1) obtain existing d s1 where live: "draft_get_live T v ch lo s = Inr existing"
    and sup: "supersede_draft existing d now s = Inr s1" and s': "db_drafts s' = db_drafts s1"
    by (auto simp: CompleteContentDraftGeneration_def bind_result_eq_Inr dest!: audit_record_Inr)
  have "tbl_get (db_drafts s) (cd_id old) = Some old" if "existing = Some old" for old
    using draft_get_live_row [OF ok] live that by blast
  from supersede_steps [OF sup this] s' show ?thesis by simp
qed (use assms in \<open>auto simp: CompleteContentDraftGeneration_def bind_result_eq_Inr\<close>)

lemma EditContentDraft_steps:
  assumes "EditContentDraft i au T di u ti b hs cta al now s = Inr (r, s')" and ok: "drafts_ok s"
  shows "drafts_step\<^sup>*\<^sup>* (db_drafts s) (db_drafts s')"
proof -
  from assms(1) obtain old d s1 where old: "draft_get T di s = Some old"
    and sup: "supersede_draft (Some old) d now s = Inr s1" and s': "db_drafts s' = db_drafts s1"
    by (auto simp: EditContentDraft_def bind_result_eq_Inr Let_def dest!: audit_record_Inr split: option.splits)
  from supersede_steps [OF sup] draft_get_row [OF old ok] s' show ?thesis by auto
qed

lemma ApproveContentDraft_steps:
  assumes "ApproveContentDraft au T di u now s = Inr (r, s')" and ok: "drafts_ok s"
  shows "drafts_step\<^sup>*\<^sup>* (db_drafts s) (db_drafts s')"
proof -
  from assms(1) obtain old where old: "draft_get T di s = Some old" and st: "ContentDraft_approve (Some u) now old = Inr r"
    and s': "db_drafts s' = db_drafts (draft_update r s)"
    by (auto simp: ApproveContentDraft_def bind_result_eq_Inr dest!: audit_record_Inr)
  from update_draft_steps [OF draft_get_row [OF old ok] content_draft_step.approve [OF st]] s' show ?thesis by simp
qed

lemma RejectContentDraft_steps:
  assumes "RejectContentDraft au T di why u now s = Inr (r, s')" and ok: "drafts_ok s"
  shows "drafts_step\<^sup>*\<^sup>* (db_drafts s) (db_drafts s')"
proof -
  from assms(1) obtain old where old: "draft_get T di s = Some old" and st: "ContentDraft_reject why now old = Inr r"
    and s': "db_drafts s' = db_drafts (draft_update r s)"
    by (auto simp: RejectContentDraft_def bind_result_eq_Inr dest!: audit_record_Inr)
  from update_draft_steps [OF draft_get_row [OF old ok] content_draft_step.reject [OF st]] s' show ?thesis by simp
qed

text \<open>A transaction: one of the use cases that write drafts, or one that leaves them alone.\<close>

inductive content_step :: "db \<Rightarrow> db \<Rightarrow> bool" where
  generated: "CompleteContentDraftGeneration i au j T v ch lo jid c fs now s = Inr (r, s') \<Longrightarrow> content_step s s'"
| edited: "EditContentDraft i au T di u ti b hs cta al now s = Inr (d, s') \<Longrightarrow> content_step s s'"
| approved: "ApproveContentDraft au T di u now s = Inr (d, s') \<Longrightarrow> content_step s s'"
| rejected: "RejectContentDraft au T di why u now s = Inr (d, s') \<Longrightarrow> content_step s s'"
| elsewhere: "db_drafts s' = db_drafts s \<Longrightarrow> content_step s s'"

lemma content_step_steps: "\<lbrakk>content_step s s'; drafts_ok s\<rbrakk> \<Longrightarrow> drafts_step\<^sup>*\<^sup>* (db_drafts s) (db_drafts s')"
  by (induction rule: content_step.induct)
     (blast intro: CompleteContentDraftGeneration_steps EditContentDraft_steps ApproveContentDraft_steps RejectContentDraft_steps,
      simp_all add: EditContentDraft_steps ApproveContentDraft_steps RejectContentDraft_steps)

lemma content_steps_ok:
  assumes "content_step\<^sup>*\<^sup>* s s'" and "drafts_ok s"
  shows "drafts_step\<^sup>*\<^sup>* (db_drafts s) (db_drafts s') \<and> drafts_ok s'"
  using assms(1)
proof induction
  case (step s1 s2)
  then have "drafts_step\<^sup>*\<^sup>* (db_drafts s1) (db_drafts s2)" by (intro content_step_steps) simp_all
  with step.IH drafts_steps_ok [OF this] show ?case by (auto simp: drafts_ok_def intro: rtranclp_trans)
qed (simp add: assms(2))

text \<open>
  C9: Over every sequence of transactions a stored draft keeps its text, its variant, its channel and its author: a
  publication that refers to it never finds other words there. An approved or rejected draft stays so, a superseded
  one stays superseded by the same draft, and the lookup of a channel's live draft never meets two.
\<close>

theorem drafts_never_rewritten:
  assumes "content_step\<^sup>*\<^sup>* s s'" and "drafts_ok s" and "draft_get T i s = Some d"
  shows "(\<exists>e. draft_get T i s' = Some e \<and> content_draft_ident e = content_draft_ident d
       \<and> (cd_status d \<in> {DRAFT_APPROVED, DRAFT_REJECTED} \<longrightarrow> cd_status e = cd_status d \<and> cd_approved_by e = cd_approved_by d)
       \<and> (cd_superseded_by d \<noteq> None \<longrightarrow> cd_superseded_by e = cd_superseded_by d))
     \<and> (\<exists>live. draft_get_live T v ch lo s' = Inr live)"
proof -
  from content_steps_ok [OF assms(1,2)] have ok: "drafts_step\<^sup>*\<^sup>* (db_drafts s) (db_drafts s')" "drafts_ok s'" by auto
  have d: "tbl_get (db_drafts s) i = Some d" "cd_tenant_id d = T" using assms(3) by (simp_all add: draft_get_def scoped_get_Some)
  from drafts_steps_ok [OF ok(1)] assms(2) d(1) obtain e where e: "tbl_get (db_drafts s') i = Some e" "draft_kept d e"
    unfolding drafts_ok_def by blast
  then have "draft_get T i s' = Some e" using d(2) by (simp add: draft_get_def scoped_get_Some draft_kept_def content_draft_ident_def)
  with e(2) draft_get_live_total [OF ok(2)] show ?thesis by (auto simp: draft_kept_def)
qed

section \<open>What a new draft has passed\<close>

lemma gate_draft_Inr:
  assumes "gate_draft T p now d0 s = Inr d"
  shows "\<exists>v. product_setting T APPROVAL_REQUIRED_KEY p s = Inr v
     \<and> cd_status d = (if v = JBool False then DRAFT_APPROVED else DRAFT_PENDING_APPROVAL)
     \<and> content_draft_ident d = content_draft_ident d0 \<and> cd_superseded_by d = cd_superseded_by d0"
proof -
  from assms obtain d1 v where d1: "ContentDraft_mark_pending_approval now d0 = Inr d1"
    and v: "product_setting T APPROVAL_REQUIRED_KEY p s = Inr v"
    and d: "(if v = JBool False then ContentDraft_approve None now d1 else Inr d1) = Inr d"
    by (auto simp: gate_draft_def bind_result_eq_Inr)
  from d1 have "d1 = d0\<lparr>cd_status := DRAFT_PENDING_APPROVAL, cd_updated_at := now\<rparr>"
    by (simp add: ContentDraft_mark_pending_approval_def split: if_splits)
  with d v show ?thesis
    by (cases "v = JBool False") (auto simp: ContentDraft_approve_def content_draft_ident_def)
qed

lemma gate_draft_total:
  "\<lbrakk>product_setting T APPROVAL_REQUIRED_KEY p s = Inr v; cd_status d0 = DRAFT_GENERATED\<rbrakk> \<Longrightarrow> \<exists>d. gate_draft T p now d0 s = Inr d"
  by (simp add: gate_draft_def ContentDraft_method_defs)

lemma created_draft:
  "content_draft_ident (ContentDraft_create i T v ch lo b al m pv now ti (Some hs) cta u)
     = (i, T, v, ch, lo, ti, b, hs, cta, al, m, pv, u, now)"
  "cd_superseded_by (ContentDraft_create i T v ch lo b al m pv now ti (Some hs) cta u) = None"
  "cd_status (ContentDraft_create i T v ch lo b al m pv now ti (Some hs) cta u) = DRAFT_GENERATED"
  by (simp_all add: ContentDraft_create_def content_draft_ident_def)

lemma supersede_live:
  assumes sup: "supersede_draft existing d now s = Inr s'" and ok: "drafts_ok s"
    and live: "\<And>old. existing = Some old \<Longrightarrow> tbl_get (db_drafts s) (cd_id old) = Some old"
    and key: "draft_key d = Some (T, v, ch, lo)"
  shows "draft_get_live T v ch lo s' = Inr (Some d)"
    and "existing = Some old \<Longrightarrow> tbl_get (db_drafts s') (cd_id old) = Some (old\<lparr>cd_superseded_by := Some (cd_id d), cd_updated_at := now\<rparr>)"
proof -
  from sup obtain r ts where r: "case existing of None \<Rightarrow> r = s
      | Some old \<Rightarrow> r = draft_update (old\<lparr>cd_superseded_by := Some (cd_id d), cd_updated_at := now\<rparr>) s"
    and add: "tbl_add (cd_id d) d (db_drafts r) = Inr (db_drafts s')"
    by (auto simp: supersede_draft_def draft_add_def bind_result_eq_Inr tbl_add_unique_Inr ContentDraft_mark_superseded_def
        split: option.splits if_splits)
  have "drafts_step\<^sup>*\<^sup>* (db_drafts s) (db_drafts s')" using supersede_steps [OF sup] live by blast
  then have "drafts_ok s'" using drafts_steps_ok ok by (simp add: drafts_ok_def)
  moreover have "tbl_get (db_drafts s') (cd_id d) = Some d" by (simp add: tbl_get_add [OF add])
  ultimately show "draft_get_live T v ch lo s' = Inr (Some d)" using key by (rule draft_get_live_hit)
  show "tbl_get (db_drafts s') (cd_id old) = Some (old\<lparr>cd_superseded_by := Some (cd_id d), cd_updated_at := now\<rparr>)" if "existing = Some old"
    using tbl.add_keeps [OF add] r that by (simp add: draft_update_def tbl_get_put)
qed

text \<open>The alternative text plays no part in whether an edit goes through.\<close>

lemma gate_draft_alt_text:
  "gate_draft T p now (d\<lparr>cd_alt_text := al\<rparr>) s = map_sum id (\<lambda>d. d\<lparr>cd_alt_text := al\<rparr>) (gate_draft T p now d s)"
  by (auto simp: gate_draft_def ContentDraft_mark_pending_approval_def ContentDraft_approve_def bind_result_def split: sum.split)

lemma draft_add_alt_text:
  assumes "draft_add d s = Inr s1"
  shows "db_audit s1 = db_audit s \<and> (\<exists>s2. draft_add (d\<lparr>cd_alt_text := al\<rparr>) s = Inr s2 \<and> db_audit s2 = db_audit s)"
proof -
  have "draft_clash (d\<lparr>cd_alt_text := al\<rparr>) = draft_clash d" by (simp add: draft_clash_def draft_key_def fun_eq_iff)
  with assms show ?thesis
    by (auto simp: draft_add_def tbl_add_unique_def tbl_add_def bind_result_eq_Inr split: option.splits if_splits)
qed

lemma supersede_draft_alt_text:
  assumes "supersede_draft e d now s = Inr s1"
  shows "db_audit s1 = db_audit s \<and> (\<exists>s2. supersede_draft e (d\<lparr>cd_alt_text := al\<rparr>) now s = Inr s2 \<and> db_audit s2 = db_audit s)"
proof -
  from assms obtain s0 where s0: "(case e of None \<Rightarrow> Inr s
      | Some old \<Rightarrow> bind_result (ContentDraft_mark_superseded (cd_id d) now old) (\<lambda>old. Inr (draft_update old s))) = Inr s0"
    and add: "draft_add d s0 = Inr s1" by (auto simp: supersede_draft_def bind_result_eq_Inr)
  from s0 have "db_audit s0 = db_audit s" by (auto simp: draft_update_def bind_result_eq_Inr split: option.splits)
  moreover have "supersede_draft e (d\<lparr>cd_alt_text := al\<rparr>) now s = draft_add (d\<lparr>cd_alt_text := al\<rparr>) s0"
    using s0 by (cases e) (simp_all add: supersede_draft_def)
  ultimately show ?thesis using draft_add_alt_text [OF add, of al] by simp
qed

lemma audit_record_any:
  "\<lbrakk>audit_record n T u a ty i b v now s = Inr s1; db_audit s2 = db_audit s\<rbrakk> \<Longrightarrow> \<exists>s3. audit_record n T u a ty i b' v' now s2 = Inr s3"
  by (auto simp: audit_record_def tbl_add_def bind_result_eq_Inr split: if_splits option.splits)

lemma edit_any_alt_text:
  assumes "EditContentDraft i au T di u ti b hs cta al now s = Inr (d, s')"
  shows "\<exists>d' s''. EditContentDraft i au T di u ti b hs cta al' now s = Inr (d', s'') \<and> cd_alt_text d' = al'"
proof -
  from assms obtain old variant product raw phrases s1 where
    guards: "draft_get T di s = Some old" "cd_superseded_by old = None" "variant_get T (cd_variant_id old) s = Some variant"
      "product_get T (pv_product_id variant) s = Some product" "product_setting T FORBIDDEN_CLAIMS_KEY product s = Inr raw"
      "resolve_forbidden_claims raw = Inr phrases"
    and valid: "validate_copy \<lparr>gc_title = ti, gc_body = b, gc_hashtags = hs, gc_cta = cta, gc_alt_text = al,
        gc_model = cd_model old, gc_cost_micros = 0, gc_latency_ms = 0\<rparr> phrases = None"
    and gate: "gate_draft T product now (ContentDraft_create i T (cd_variant_id old) (cd_channel old) (cd_locale old) b al
        (cd_model old) (cd_prompt_version old) now ti (Some hs) cta (Some u)) s = Inr d"
    and sup: "supersede_draft (Some old) d now s = Inr s1"
    and log: "\<exists>v v' s2. audit_record au T (Some u) ''content_draft.edited'' ''content_draft'' (cd_id d) v v' now s1 = Inr s2"
    by (fastforce simp: EditContentDraft_def bind_result_eq_Inr Let_def split: option.splits)
  have valid': "validate_copy \<lparr>gc_title = ti, gc_body = b, gc_hashtags = hs, gc_cta = cta, gc_alt_text = al',
        gc_model = cd_model old, gc_cost_micros = 0, gc_latency_ms = 0\<rparr> phrases = None"
    using valid by (simp add: validate_copy_def copy_haystack_def)
  let ?d = "d\<lparr>cd_alt_text := al'\<rparr>"
  have "gate_draft T product now (ContentDraft_create i T (cd_variant_id old) (cd_channel old) (cd_locale old) b al'
        (cd_model old) (cd_prompt_version old) now ti (Some hs) cta (Some u)) s = Inr ?d"
    using gate_draft_alt_text [where T = T and p = product and now = now and al = al' and s = s and d = "ContentDraft_create i T
        (cd_variant_id old) (cd_channel old) (cd_locale old) b al (cd_model old) (cd_prompt_version old) now ti (Some hs) cta (Some u)"] gate
    by (simp add: ContentDraft_create_def)
  moreover from supersede_draft_alt_text [OF sup, of al'] obtain s2 where s2: "supersede_draft (Some old) ?d now s = Inr s2"
    "db_audit s2 = db_audit s1" by auto
  moreover have "\<exists>s3. audit_record au T (Some u) ''content_draft.edited'' ''content_draft'' (cd_id d) v v' now s2 = Inr s3" for v v'
    using log s2(2) by (blast intro: audit_record_any)
  ultimately show ?thesis
    using guards valid' by (auto simp: EditContentDraft_def Let_def bind_result_eq_Inr)
qed

text \<open>
  C19: A person's edit passes what a generated text passes. The new words contain none of the claims the tenant forbids
  for the product, in any letter case, in title, body, call to action or a hashtag; the alternative text is not looked at, an
  edit that goes through goes through with any other one. The words are stored as a draft of their own
  that is now the live one of the channel and locale, before the approval gate unless the tenant has switched it off,
  and the draft edited stays as it was but for the mark that the new one superseded it.
\<close>

theorem edited_copy_gated:
  assumes run: "EditContentDraft i au T di u ti b hs cta al now s = Inr (d, s')" and ok: "drafts_ok s"
    and old: "draft_get T di s = Some old" and w: "variant_get T (cd_variant_id old) s = Some w"
    and p: "product_get T (pv_product_id w) s = Some p"
    and claims: "product_setting T FORBIDDEN_CLAIMS_KEY p s = Inr claims"
  shows "\<exists>phrases gate. resolve_forbidden_claims claims = Inr phrases \<and> product_setting T APPROVAL_REQUIRED_KEY p s = Inr gate
     \<and> (\<forall>phrase \<in> set phrases. \<not> occurs_in (lower phrase) (lower (or_empty ti)) \<and> \<not> occurs_in (lower phrase) (lower b)
          \<and> \<not> occurs_in (lower phrase) (lower (or_empty cta)) \<and> (\<forall>tag \<in> set hs. \<not> occurs_in (lower phrase) (lower tag)))
     \<and> (\<forall>al'. \<exists>d' s''. EditContentDraft i au T di u ti b hs cta al' now s = Inr (d', s'') \<and> cd_alt_text d' = al')
     \<and> content_draft_ident d = (i, T, cd_variant_id old, cd_channel old, cd_locale old, ti, b, hs, cta, al, cd_model old,
          cd_prompt_version old, Some u, now)
     \<and> cd_status d = (if gate = JBool False then DRAFT_APPROVED else DRAFT_PENDING_APPROVAL)
     \<and> draft_get_live T (cd_variant_id old) (cd_channel old) (cd_locale old) s' = Inr (Some d)
     \<and> draft_get T di s' = Some (old\<lparr>cd_superseded_by := Some i, cd_updated_at := now\<rparr>)"
proof -
  from run old w p claims obtain phrases s1 where phrases: "resolve_forbidden_claims claims = Inr phrases"
    and valid: "validate_copy \<lparr>gc_title = ti, gc_body = b, gc_hashtags = hs, gc_cta = cta, gc_alt_text = al,
        gc_model = cd_model old, gc_cost_micros = 0, gc_latency_ms = 0\<rparr> phrases = None" (is "validate_copy ?c _ = _")
    and gate: "gate_draft T p now (ContentDraft_create i T (cd_variant_id old) (cd_channel old) (cd_locale old) b al
        (cd_model old) (cd_prompt_version old) now ti (Some hs) cta (Some u)) s = Inr d"
    and sup: "supersede_draft (Some old) d now s = Inr s1" and s': "db_drafts s' = db_drafts s1"
    by (auto simp: EditContentDraft_def bind_result_eq_Inr Let_def dest!: audit_record_Inr split: option.splits)
  from gate_draft_Inr [OF gate] obtain v where v: "product_setting T APPROVAL_REQUIRED_KEY p s = Inr v"
    "cd_status d = (if v = JBool False then DRAFT_APPROVED else DRAFT_PENDING_APPROVAL)" "cd_superseded_by d = None"
    and ident: "content_draft_ident d = (i, T, cd_variant_id old, cd_channel old, cd_locale old, ti, b, hs, cta, al,
      cd_model old, cd_prompt_version old, Some u, now)" by (auto simp: created_draft)
  have key: "draft_key d = Some (T, cd_variant_id old, cd_channel old, cd_locale old)" and di: "cd_id d = i"
    using ident v(3) by (simp_all add: draft_key_def content_draft_ident_def)
  have row: "tbl_get (db_drafts s) (cd_id old) = Some old" "cd_id old = di" "cd_tenant_id old = T"
    using draft_get_row [OF old ok] old ok by (auto simp: draft_get_def scoped_get_Some drafts_ok_def dest: tbl_get_key)
  have live: "x = old \<Longrightarrow> tbl_get (db_drafts s) (cd_id x) = Some x" for x using row(1) by simp
  from supersede_live [OF sup ok _ key] row have after:
    "draft_get_live T (cd_variant_id old) (cd_channel old) (cd_locale old) s1 = Inr (Some d)"
    "tbl_get (db_drafts s1) di = Some (old\<lparr>cd_superseded_by := Some i, cd_updated_at := now\<rparr>)" by (auto simp: di)
  have "draft_get_live T (cd_variant_id old) (cd_channel old) (cd_locale old) s' = Inr (Some d)"
    "draft_get T di s' = Some (old\<lparr>cd_superseded_by := Some i, cd_updated_at := now\<rparr>)"
    using after row(3) by (simp_all add: draft_get_live_def draft_get_def scoped_get_Some s')
  with phrases v ident clean_copy [OF valid] edit_any_alt_text [OF run] show ?thesis by auto
qed

section \<open>A run of the worker\<close>

lemma fail_job_total:
  assumes "get_job T i q = Some j" and "0 \<le> jitter" and "jitter \<le> 1" and "job_max_attempts j \<le> 1024"
  shows "\<exists>st q'. fail_job jitter T i err now q = Inr (st, q')"
proof (cases "job_attempts j + 1 \<ge> job_max_attempts j")
  case False
  with assms(4) have "job_attempts j + 1 \<le> 1024" by simp
  from compute_backoff_bounds [OF assms(2,3) this] assms(1) show ?thesis by (auto simp: fail_job_def Let_def)
qed (use assms(1) in \<open>simp add: fail_job_def Let_def\<close>)

lemma failed_job:
  assumes "fail_job jitter T i err now q = Inr (st, q')"
  shows "\<exists>j. get_job T i q' = Some j \<and> job_status j \<in> {JOB_PENDING, JOB_DEAD} \<and> job_last_error j = Some err"
proof -
  from fail_job_InrD [OF assms] obtain j j' where "job_tenant_id j = T" "same_work j j'" "st = fail_verdict j"
    "job_status j' = st" "job_last_error j' = Some err" "q' = tbl_put i j' q" by blast
  then show ?thesis by (auto simp: get_job_def scoped_get_Some tbl_get_put same_work_def fail_verdict_def)
qed

lemma give_up_job_None: "give_up_job j T job e now s \<noteq> Inr (Some ctx, s1)"
  by (auto simp: give_up_job_def bind_result_eq_Inr)

lemma copy_context_for_Some:
  assumes "copy_context_for j T job v ch lo m now s = Inr (Some ctx, s1)"
  shows "s1 = s \<and> cc_job_id ctx = job_id job"
proof -
  from assms obtain w where w: "variant_get T v s = Some w"
    by (cases "variant_get T v s") (simp_all add: copy_context_for_def give_up_job_None)
  from assms w obtain p where p: "product_get T (pv_product_id w) s = Some p"
    by (cases "product_get T (pv_product_id w) s") (simp_all add: copy_context_for_def)
  from assms w p obtain x where x: "product_setting T FORBIDDEN_CLAIMS_KEY p s = Inr x"
    by (cases "product_setting T FORBIDDEN_CLAIMS_KEY p s") (simp_all add: copy_context_for_def)
  show ?thesis
  proof (cases "resolve_forbidden_claims x")
    case (Inl e)
    with assms w p x show ?thesis by (cases e) (simp_all add: copy_context_for_def give_up_job_None)
  qed (use assms w p x in \<open>auto simp: copy_context_for_def Let_def\<close>)
qed

lemma StartContentDraftGeneration_Some:
  assumes run: "StartContentDraftGeneration j T now s = Inr (Some ctx, s1)" and ok: "jobs_ok (db_jobs s)"
  shows "\<exists>job q. s1 = s\<lparr>db_jobs := q\<rparr> \<and> get_job T (cc_job_id ctx) q = Some job \<and> job_status job = JOB_RUNNING"
proof -
  obtain r q where cl: "claim T COPY_CLAIMED_BY (Some COPY_JOB_TYPE) now (db_jobs s) = (r, q)" by fastforce
  show ?thesis
  proof (cases r)
    case None with run cl show ?thesis by (simp add: StartContentDraftGeneration_def)
  next
    case (Some job)
    from run cl Some obtain v ch lo m where "copy_context_for j T job v ch lo m now (s\<lparr>db_jobs := q\<rparr>) = Inr (Some ctx, s1)"
      by (auto simp: StartContentDraftGeneration_def bind_result_eq_Inr)
    from copy_context_for_Some [OF this] have "s1 = s\<lparr>db_jobs := q\<rparr> \<and> cc_job_id ctx = job_id job" .
    moreover from claim_SomeD [OF ok cl [unfolded Some]] have "get_job T (job_id job) q = Some job \<and> job_status job = JOB_RUNNING"
      by (auto simp: get_job_def scoped_get_Some tbl_get_put job_claimed_def claimable_def)
    ultimately show ?thesis by (intro exI [of _ job] exI [of _ q]) simp
  qed
qed

lemma CompleteContentDraftGeneration_violation:
  assumes "validate_copy c fs = Some violation" and "get_job T jid (db_jobs s) = Some job"
    and "0 \<le> jit" and "jit \<le> 1" and "job_max_attempts job \<le> 1024"
  shows "\<exists>q j. CompleteContentDraftGeneration i au jit T v ch lo jid c fs now s = Inr (None, s\<lparr>db_jobs := q\<rparr>)
     \<and> get_job T jid q = Some j \<and> job_status j \<in> {JOB_PENDING, JOB_DEAD} \<and> job_last_error j = Some violation"
proof -
  from fail_job_total [OF assms(2-5)] obtain st q where f: "fail_job jit T jid violation now (db_jobs s) = Inr (st, q)" by blast
  moreover obtain j where "get_job T jid q = Some j" "job_status j \<in> {JOB_PENDING, JOB_DEAD}" "job_last_error j = Some violation"
    using failed_job [OF f] by blast
  ultimately show ?thesis using assms(1) by (intro exI [of _ q] exI [of _ j]) (simp add: CompleteContentDraftGeneration_def)
qed

lemma complete_job_get:
  "get_job T i q = Some j \<Longrightarrow> \<exists>k. get_job T i (complete_job T i now q) = Some k \<and> job_status k = JOB_SUCCEEDED"
  by (auto simp: complete_job_def, auto simp: get_job_def scoped_get_Some tbl_get_put)

lemma CompleteContentDraftGeneration_clean:
  assumes valid: "validate_copy c fs = None" and ok: "drafts_ok s" and w: "variant_get T v s = Some w"
    and p: "product_get T (pv_product_id w) s = Some p" and gate: "product_setting T APPROVAL_REQUIRED_KEY p s = Inr setting"
    and fresh: "tbl_get (db_drafts s) i = None" "tbl_get (db_audit s) au = None"
  shows "\<exists>d s'. CompleteContentDraftGeneration i au jit T v ch lo jid c fs now s = Inr (Some d, s')
     \<and> db_jobs s' = complete_job T jid now (db_jobs s) \<and> draft_get_live T v ch lo s' = Inr (Some d) \<and> cd_body d = gc_body c
     \<and> cd_status d = (if setting = JBool False then DRAFT_APPROVED else DRAFT_PENDING_APPROVAL)"
proof -
  obtain existing where live: "draft_get_live T v ch lo s = Inr existing" using draft_get_live_total [OF ok] by blast
  let ?d0 = "ContentDraft_create i T v ch lo (gc_body c) (gc_alt_text c) (gc_model c) COPY_PROMPT_VERSION now (gc_title c)
    (Some (gc_hashtags c)) (gc_cta c) None"
  from gate_draft_total [OF gate created_draft(3)] obtain d where d: "gate_draft T p now ?d0 s = Inr d" by blast
  from gate_draft_Inr [OF d] gate have st: "cd_status d = (if setting = JBool False then DRAFT_APPROVED else DRAFT_PENDING_APPROVAL)"
    and ident: "content_draft_ident d = content_draft_ident ?d0" and sup: "cd_superseded_by d = None" by (auto simp: created_draft)
  then have f: "cd_id d = i" "draft_key d = Some (T, v, ch, lo)" "cd_body d = gc_body c"
    by (simp_all add: created_draft draft_key_def, simp_all add: content_draft_ident_def)
  have row: "tbl_get (db_drafts s) (cd_id old) = Some old" "draft_key old = Some (T, v, ch, lo)" if "existing = Some old" for old
    using draft_get_live_row [OF ok] live that by auto
  have "\<exists>ts. supersede_draft existing d now s = Inr (s\<lparr>db_drafts := ts\<rparr>)"
  proof -
    define r where "r = (case existing of None \<Rightarrow> s
      | Some old \<Rightarrow> draft_update (old\<lparr>cd_superseded_by := Some i, cd_updated_at := now\<rparr>) s)"
    have "supersede_draft existing d now s = draft_add d r"
    proof (cases existing)
      case (Some old)
      with row(2) [OF Some] have "cd_superseded_by old = None" by (simp add: draft_key_def split: if_splits)
      with Some show ?thesis by (simp add: supersede_draft_def r_def ContentDraft_mark_superseded_def f(1))
    qed (simp add: supersede_draft_def r_def)
    moreover have "\<not> draft_clash d q" if q: "q \<in> set (rows (db_drafts r))" for q
    proof
      assume "draft_clash d q"
      then have k: "draft_key q = Some (T, v, ch, lo)" by (simp add: draft_clash_def f(2))
      have "q \<in> set (rows (db_drafts s)) \<and> existing \<noteq> Some q"
      proof (cases existing)
        case (Some old)
        have "tbl_ok cd_id (db_drafts r)" using ok by (simp add: r_def Some draft_update_def drafts_ok_def tbl_ok_put)
        with q have "tbl_get (db_drafts r) (cd_id q) = Some q" by (simp add: rows_iff)
        with k have "cd_id q \<noteq> cd_id old \<and> tbl_get (db_drafts s) (cd_id q) = Some q"
          by (auto simp: r_def Some draft_update_def tbl_get_put draft_key_def split: if_splits)
        then show ?thesis using Some rows_mem by auto
      qed (use q in \<open>simp add: r_def\<close>)
      moreover have "draft_get_live T v ch lo s = Inr (Some q)" if "q \<in> set (rows (db_drafts s))"
      proof -
        from ok that have "tbl_get (db_drafts s) (cd_id q) = Some q" using rows_iff [of cd_id "db_drafts s" q] by (simp add: drafts_ok_def)
        from draft_get_live_hit [OF ok this k] show ?thesis .
      qed
      ultimately show False using live by simp
    qed
    moreover have "tbl_get (db_drafts r) (cd_id d) = None"
      using fresh(1) row(1) by (auto simp: r_def draft_update_def tbl_get_put f(1) split: option.splits)
    moreover have "r = s\<lparr>db_drafts := db_drafts r\<rparr>" by (cases existing) (auto simp: r_def draft_update_def)
    then have "\<exists>ts. r = s\<lparr>db_drafts := ts\<rparr>" ..
    ultimately show ?thesis by (auto simp: draft_add_def tbl_add_unique_def tbl_add_def list_ex_iff)
  qed
  then obtain ts where s1: "supersede_draft existing d now s = Inr (s\<lparr>db_drafts := ts\<rparr>)" by blast
  let ?s2 = "s\<lparr>db_drafts := ts, db_jobs := complete_job T jid now (db_jobs s)\<rparr>"
  have free: "tbl_get (db_audit ?s2) au = None" using fresh(2) by simp
  have "\<exists>log. CompleteContentDraftGeneration i au jit T v ch lo jid c fs now s = Inr (Some d, ?s2\<lparr>db_audit := log\<rparr>)"
    unfolding CompleteContentDraftGeneration_def valid option.case w p require_simps bind_result_simps live d s1
    using audit_record_last [OF free] by simp
  then obtain log where
    "CompleteContentDraftGeneration i au jit T v ch lo jid c fs now s = Inr (Some d, ?s2\<lparr>db_audit := log\<rparr>)" by blast
  moreover have "draft_get_live T v ch lo (s\<lparr>db_drafts := ts\<rparr>) = Inr (Some d)"
    by (rule supersede_live(1) [OF s1 ok row(1) f(2)])
  ultimately show ?thesis using st f(3) by (auto simp: draft_get_live_def)
qed

text \<open>
  C20: A run of the copywriting worker settles the job it claimed: a provider's failure and a brand violation put it back or
  bury it with the reason and leave every draft alone; clean copy ends it and becomes the live draft of its channel and
  locale, behind the approval gate unless the tenant has switched that off.
\<close>

theorem copywriting_outcome:
  assumes start: "StartContentDraftGeneration (cw_jitter d 0) T (cw_time d 0) s = Inr (Some ctx, s1)"
    and ok: "jobs_ok (db_jobs s)" "drafts_ok s"
    and jitter: "0 \<le> cw_jitter d 1" "cw_jitter d 1 \<le> 1"
    and budget: "\<And>job. get_job T (cc_job_id ctx) (db_jobs s1) = Some job \<Longrightarrow> job_max_attempts job \<le> 1024"
    and w: "variant_get T (cc_variant_id ctx) s = Some w" and p: "product_get T (pv_product_id w) s = Some p"
    and gate: "product_setting T APPROVAL_REQUIRED_KEY p s = Inr setting"
    and fresh: "tbl_get (db_drafts s) (cw_draft_id d) = None" "tbl_get (db_audit s) (cw_audit_id d) = None"
  shows "\<exists>r s' job. CopywritingAgent_run generate d T s = (Inr r, s') \<and> get_job T (cc_job_id ctx) (db_jobs s') = Some job
     \<and> (case generate (cc_prompt ctx) (cc_model ctx) of
          Inl (code, detail) \<Rightarrow> r = None \<and> db_drafts s' = db_drafts s \<and> job_status job \<in> {JOB_PENDING, JOB_DEAD}
            \<and> job_last_error job = Some (code @ '': '' @ detail)
        | Inr c \<Rightarrow> (case validate_copy c (cc_forbidden_claims ctx) of
            Some violation \<Rightarrow> r = None \<and> db_drafts s' = db_drafts s \<and> job_status job \<in> {JOB_PENDING, JOB_DEAD}
              \<and> job_last_error job = Some violation
          | None \<Rightarrow> job_status job = JOB_SUCCEEDED \<and> (\<exists>x. r = Some x \<and> cd_body x = gc_body c
              \<and> draft_get_live T (cc_variant_id ctx) (cc_channel ctx) (cc_locale ctx) s' = Inr (Some x)
              \<and> cd_status x = (if setting = JBool False then DRAFT_APPROVED else DRAFT_PENDING_APPROVAL))))"
proof -
  from StartContentDraftGeneration_Some [OF start ok(1)] obtain job q where
    s1: "s1 = s\<lparr>db_jobs := q\<rparr>" and job: "get_job T (cc_job_id ctx) (db_jobs s1) = Some job" by auto
  have run: "run_uow (StartContentDraftGeneration (cw_jitter d 0) T (cw_time d 0)) s = (Inr (Some ctx), s1)" using start by simp
  show ?thesis
  proof (cases "generate (cc_prompt ctx) (cc_model ctx)")
    case (Inl a)
    obtain code detail where a: "a = (code, detail)" by fastforce
    from fail_job_total [OF job jitter budget [OF job]] obtain st q' where
      f: "fail_job (cw_jitter d 1) T (cc_job_id ctx) (code @ '': '' @ detail) (cw_time d 1) (db_jobs s1) = Inr (st, q')" by blast
    have "run_uow (FailContentDraftGeneration (cw_jitter d 1) T (cc_job_id ctx) code detail (cw_time d 1)) s1
      = (Inr (), s1\<lparr>db_jobs := q'\<rparr>)" using f by (simp del: One_nat_def add: FailContentDraftGeneration_def run_uow_def)
    then have "CopywritingAgent_run generate d T s = (Inr None, s1\<lparr>db_jobs := q'\<rparr>)"
      by (simp del: One_nat_def add: CopywritingAgent_run_def run Inl a)
    with failed_job [OF f] Inl a s1 show ?thesis by auto
  next
    case (Inr c)
    show ?thesis
    proof (cases "validate_copy c (cc_forbidden_claims ctx)")
      case (Some violation)
      from CompleteContentDraftGeneration_violation [OF Some job jitter budget [OF job]] obtain q' j where
        c: "CompleteContentDraftGeneration (cw_draft_id d) (cw_audit_id d) (cw_jitter d 1) T (cc_variant_id ctx) (cc_channel ctx)
          (cc_locale ctx) (cc_job_id ctx) c (cc_forbidden_claims ctx) (cw_time d 1) s1 = Inr (None, s1\<lparr>db_jobs := q'\<rparr>)"
        "get_job T (cc_job_id ctx) q' = Some j" "job_status j \<in> {JOB_PENDING, JOB_DEAD}" "job_last_error j = Some violation"
        by blast
      then have "CopywritingAgent_run generate d T s = (Inr None, s1\<lparr>db_jobs := q'\<rparr>)"
        by (simp del: One_nat_def add: CopywritingAgent_run_def run Inr)
      with c Inr Some s1 show ?thesis by auto
    next
      case None
      have in_s1: "drafts_ok s1" "variant_get T (cc_variant_id ctx) s1 = Some w" "product_get T (pv_product_id w) s1 = Some p"
        "tbl_get (db_drafts s1) (cw_draft_id d) = None" "tbl_get (db_audit s1) (cw_audit_id d) = None"
        using ok(2) w p fresh by (simp_all add: s1 drafts_ok_def variant_get_def product_get_def)
      have "product_setting T APPROVAL_REQUIRED_KEY p s1 = Inr setting"
        using gate by (simp add: s1 product_setting_def SettingsResolver_resolve_def setting_get_def category_get_def)
      from CompleteContentDraftGeneration_clean [OF None in_s1(1-3) this in_s1(4,5)] obtain x s' where
        c: "CompleteContentDraftGeneration (cw_draft_id d) (cw_audit_id d) (cw_jitter d 1) T (cc_variant_id ctx) (cc_channel ctx)
          (cc_locale ctx) (cc_job_id ctx) c (cc_forbidden_claims ctx) (cw_time d 1) s1 = Inr (Some x, s')"
        "db_jobs s' = complete_job T (cc_job_id ctx) (cw_time d 1) (db_jobs s1)"
        "draft_get_live T (cc_variant_id ctx) (cc_channel ctx) (cc_locale ctx) s' = Inr (Some x)" "cd_body x = gc_body c"
        "cd_status x = (if setting = JBool False then DRAFT_APPROVED else DRAFT_PENDING_APPROVAL)" by blast
      then have "CopywritingAgent_run generate d T s = (Inr (Some x), s')"
        by (simp del: One_nat_def add: CopywritingAgent_run_def run Inr)
      with c complete_job_get [OF job, of "cw_time d 1"] Inr None show ?thesis by auto
    qed
  qed
qed

section \<open>Inhabitants\<close>

definition copy_draft :: content_draft where
  "copy_draft = (ContentDraft_create 6 9 4 ''shop'' ''en'' ''Soft shoes'' ''Shoes'' ''m'' ''v1'' 0 None (Some []) None None)
     \<lparr>cd_status := DRAFT_PENDING_APPROVAL\<rparr>"

definition copy_product :: product where "copy_product = Product_create 2 9 1 3 [] 7 0 None None None None"
definition copy_variant :: product_variant where "copy_variant = ProductVariant_create 4 9 2 [] 7 0 None None True 0"

definition copy_job :: task_queue_job where
  "copy_job = \<lparr>job_id = 7, job_tenant_id = 9, job_type = COPY_JOB_TYPE,
     job_payload = [(''variant_id'', uuid_str 4), (''channel'', ''shop''), (''locale'', ''en''), (''model'', ''m'')],
     job_status = JOB_PENDING, job_attempts = 0, job_max_attempts = 5, job_run_at = 0, job_claimed_at = None, job_claimed_by = None,
     job_last_error = None, job_created_at = 0, job_updated_at = 0\<rparr>"

definition copy_desk :: db where
  "copy_desk = demo_taxonomy\<lparr>db_products := [(2, copy_product)], db_variants := [(4, copy_variant)],
     db_drafts := [(6, copy_draft)], db_jobs := [(7, copy_job)]\<rparr>"

lemma copy_tables:
  "db_categories copy_desk = [(1, demo_root)]" "db_products copy_desk = [(2, copy_product)]" "db_variants copy_desk = [(4, copy_variant)]"
  "db_drafts copy_desk = [(6, copy_draft)]" "db_jobs copy_desk = [(7, copy_job)]" "db_settings copy_desk = []" "db_audit copy_desk = []"
  by (simp_all add: copy_desk_def demo_taxonomy_def empty_db_def)

lemma copy_fields:
  "cd_id copy_draft = 6" "cd_tenant_id copy_draft = 9" "cd_variant_id copy_draft = 4" "cd_channel copy_draft = ''shop''"
  "cd_locale copy_draft = ''en''" "cd_superseded_by copy_draft = None" "cd_status copy_draft = DRAFT_PENDING_APPROVAL"
  "cd_model copy_draft = ''m''" "pv_product_id copy_variant = 2" "pv_tenant_id copy_variant = 9" "prod_tenant_id copy_product = 9"
  "prod_category_id copy_product = 1" "prod_id copy_product = 2" "prod_attributes copy_product = []" "pv_attributes copy_variant = []"
  by (simp_all add: copy_draft_def ContentDraft_create_def copy_variant_def ProductVariant_create_def copy_product_def Product_create_def)

lemma copy_gets:
  "draft_get 9 6 copy_desk = Some copy_draft" "variant_get 9 4 copy_desk = Some copy_variant" "product_get 9 2 copy_desk = Some copy_product"
  "category_get 9 1 copy_desk = Some demo_root"
  by (simp_all add: draft_get_def variant_get_def product_get_def category_get_def scoped_get_def tbl_get_def copy_tables copy_fields
      demo_root_def Category_create_def Let_def)

lemma copy_ok: "drafts_ok copy_desk" "jobs_ok (db_jobs copy_desk)"
  by (auto simp: drafts_ok_def tbl_ok_def unique_on_def tbl_get_def copy_tables copy_fields jobs_ok_def job_ok_def copy_job_def
      split: if_splits)

lemma copy_setting: "product_setting 9 key copy_product (copy_desk\<lparr>db_jobs := q\<rparr>) = Inr JNull"
proof -
  have chain: "Category_ancestor_ids demo_root = Inr [1]"
    unfolding demo_root_def by (rule located_ancestor_ids [OF located_create_root])
  have cat: "category_get 9 1 (copy_desk\<lparr>db_jobs := q\<rparr>) = Some demo_root" using copy_gets(4) by (simp add: category_get_def)
  have none: "setting_get T sc i k (copy_desk\<lparr>db_jobs := q\<rparr>) = Inr None" for T sc i k
    by (simp add: setting_get_def copy_tables rows_def scalar_one_or_none_def)
  show ?thesis
    by (simp add: product_setting_def SettingsResolver_resolve_def none copy_fields cat chain override_def Let_def)
qed

lemma copy_setting_plain: "product_setting 9 key copy_product copy_desk = Inr JNull"
  using copy_setting [of key "db_jobs copy_desk"] by simp

theorem drafts_never_rewritten_witness:
  "\<exists>d s' e. ApproveContentDraft 50 9 6 8 1 copy_desk = Inr (d, s') \<and> draft_get 9 6 s' = Some e
     \<and> content_draft_ident e = content_draft_ident copy_draft \<and> (\<exists>live. draft_get_live 9 4 ''shop'' ''en'' s' = Inr live)"
proof -
  have "\<exists>d s'. ApproveContentDraft 50 9 6 8 1 copy_desk = Inr (d, s')"
    by (simp add: ApproveContentDraft_def copy_gets ContentDraft_approve_def copy_fields audit_record_def draft_update_def
        copy_tables tbl_add_def tbl_get_def)
  then obtain d s' where run: "ApproveContentDraft 50 9 6 8 1 copy_desk = Inr (d, s')" by blast
  then have "content_step\<^sup>*\<^sup>* copy_desk s'" using content_step.approved by blast
  from drafts_never_rewritten [OF this copy_ok(1) copy_gets(1), of 4 "''shop''" "''en''"] run show ?thesis by blast
qed

theorem edited_copy_gated_witness:
  "\<exists>d s'. EditContentDraft 10 50 9 6 8 None ''Warm shoes'' [] None ''Shoes'' 1 copy_desk = Inr (d, s')
     \<and> cd_status d = DRAFT_PENDING_APPROVAL \<and> draft_get_live 9 4 ''shop'' ''en'' s' = Inr (Some d)"
proof -
  have gate: "gate_draft 9 copy_product 1 d0 copy_desk = ContentDraft_mark_pending_approval 1 d0" for d0
    by (cases "ContentDraft_mark_pending_approval 1 d0") (simp_all add: gate_draft_def copy_setting_plain)
  have "\<exists>d s'. EditContentDraft 10 50 9 6 8 None ''Warm shoes'' [] None ''Shoes'' 1 copy_desk = Inr (d, s')"
    by (simp add: EditContentDraft_def copy_gets copy_fields copy_setting_plain resolve_forbidden_claims_def validate_copy_def
        gate ContentDraft_mark_pending_approval_def ContentDraft_create_def supersede_draft_def ContentDraft_mark_superseded_def
        draft_update_def draft_add_def tbl_add_unique_def tbl_add_def tbl_put_def tbl_get_def rows_def draft_clash_def draft_key_def
        audit_record_def copy_tables)
  then obtain d s' where run: "EditContentDraft 10 50 9 6 8 None ''Warm shoes'' [] None ''Shoes'' 1 copy_desk = Inr (d, s')" by blast
  from edited_copy_gated [OF run copy_ok(1) copy_gets(1), unfolded copy_fields, OF copy_gets(2), unfolded copy_fields,
      OF copy_gets(3) copy_setting_plain] run
  show ?thesis by (auto simp: copy_setting_plain)
qed

theorem copywriting_outcome_witness:
  "\<exists>r s'. CopywritingAgent_run (\<lambda>_ _. Inl (''Timeout'', ''no answer'')) \<lparr>cw_time = int, cw_jitter = (\<lambda>_. 0), cw_draft_id = 10, cw_audit_id = 50\<rparr>
       9 copy_desk = (Inr r, s') \<and> r = None \<and> db_drafts s' = db_drafts copy_desk"
proof -
  let ?d = "\<lparr>cw_time = int, cw_jitter = (\<lambda>_. 0), cw_draft_id = 10, cw_audit_id = 50\<rparr>"
  have "\<exists>q. claim 9 COPY_CLAIMED_BY (Some COPY_JOB_TYPE) 0 (db_jobs copy_desk)
      = (Some (job_claimed COPY_CLAIMED_BY 0 copy_job), [(7, job_claimed COPY_CLAIMED_BY 0 copy_job)])"
    by (simp add: claim_def claimable_def copy_tables rows_def first_by_def copy_job_def job_claimed_def tbl_put_def Let_def)
  then have claim: "claim 9 COPY_CLAIMED_BY (Some COPY_JOB_TYPE) 0 (db_jobs copy_desk)
      = (Some (job_claimed COPY_CLAIMED_BY 0 copy_job), [(7, job_claimed COPY_CLAIMED_BY 0 copy_job)])" by simp
  have payload: "job_payload (job_claimed COPY_CLAIMED_BY 0 copy_job) = [(''variant_id'', uuid_str 4), (''channel'', ''shop''),
      (''locale'', ''en''), (''model'', ''m'')]" "job_id (job_claimed COPY_CLAIMED_BY 0 copy_job) = 7"
    "job_max_attempts (job_claimed COPY_CLAIMED_BY 0 copy_job) = 5" by (simp_all add: job_claimed_def copy_job_def)
  let ?s1 = "copy_desk\<lparr>db_jobs := [(7, job_claimed COPY_CLAIMED_BY 0 copy_job)]\<rparr>"
  have gets: "variant_get 9 4 ?s1 = Some copy_variant" "product_get 9 2 ?s1 = Some copy_product"
    using copy_gets(2,3) by (simp_all add: variant_get_def product_get_def)
  have "\<exists>ctx. StartContentDraftGeneration 0 9 0 copy_desk = Inr (Some ctx, ?s1) \<and> cc_variant_id ctx = 4 \<and> cc_job_id ctx = 7"
    by (simp add: StartContentDraftGeneration_def claim payload dict_item_def copy_context_for_def gets copy_fields copy_setting
        resolve_forbidden_claims_def)
  then obtain ctx where start: "StartContentDraftGeneration 0 9 0 copy_desk = Inr (Some ctx, ?s1)" and ctx: "cc_variant_id ctx = 4" "cc_job_id ctx = 7"
    by blast
  have "job_max_attempts job \<le> 1024" if "get_job 9 7 (db_jobs ?s1) = Some job" for job
    using that payload(3) by (auto simp: get_job_def scoped_get_Some tbl_get_def)
  then show ?thesis
    using copywriting_outcome [of ?d 9 copy_desk ctx ?s1 copy_variant copy_product JNull "\<lambda>_ _. Inl (''Timeout'', ''no answer'')"]
      start copy_ok copy_gets(2,3) copy_setting_plain ctx
    by (auto simp: copy_fields copy_tables tbl_get_def)
qed

end
