(* ===== verification/Http_Responses.thy ===== *)
theory Http_Responses
  imports Access_Entities Catalog_Entities Content_Entities Generation_Entities Publication_Entity Taxonomy_Entities Calendar
begin

text \<open>
  What the routes of api/routers/*.py answer: the response models and how they are read off the entities. The
  serialisation of a model to JSON is FastAPI's.
\<close>

text \<open>api/routers/admin\_taxonomy.py\<close>

record category_response =
  rcat_id :: uuid
  rcat_parent_id :: "uuid option"
  rcat_key :: string
  rcat_name :: string
  rcat_slug :: string
  rcat_description :: "string option"
  rcat_position :: int
  rcat_is_active :: bool
  rcat_depth :: int
  rcat_path :: string
  rcat_current_spec_version :: "int option"
  rcat_draft_spec_version :: "int option"

definition CategoryResponse_from_entity :: "category \<Rightarrow> category_response" where
  "CategoryResponse_from_entity e =
     \<lparr>rcat_id = cat_id e, rcat_parent_id = cat_parent_id e, rcat_key = cat_key e, rcat_name = cat_name e,
      rcat_slug = cat_slug e, rcat_description = cat_description e, rcat_position = cat_position e,
      rcat_is_active = cat_is_active e, rcat_depth = cat_depth e, rcat_path = cat_path e,
      rcat_current_spec_version = cat_current_spec_version e,
      rcat_draft_spec_version = cat_draft_spec_version e\<rparr>"

record category_spec_version_response =
  rcsv_id :: string
  rcsv_version :: int
  rcsv_status :: string
  rcsv_published_by :: string
  rcsv_published_at :: string
  rcsv_change_summary :: "json option"

definition CategorySpecVersionResponse_from_entity :: "category_spec_version \<Rightarrow> category_spec_version_response" where
  "CategorySpecVersionResponse_from_entity e =
     \<lparr>rcsv_id = uuid_str (csv_id e), rcsv_version = csv_version e,
      rcsv_status = spec_version_status_value (csv_status e), rcsv_published_by = uuid_str (csv_published_by e),
      rcsv_published_at = isoformat (csv_published_at e), rcsv_change_summary = csv_change_summary e\<rparr>"

text \<open>api/routers/admin\_attributes.py\<close>

record attribute_definition_response =
  rad_id :: uuid
  rad_category_id :: uuid
  rad_key :: string
  rad_label :: string
  rad_help_text :: "string option"
  rad_data_type :: string
  rad_semantic_role :: "string option"
  rad_is_required :: bool
  rad_is_filterable :: bool
  rad_is_public :: bool
  rad_position :: int
  rad_validation :: "(string, json) dict"
  rad_ui :: "(string, json) dict"
  rad_default_value :: json
  rad_introduced_in_version :: "int option"
  rad_retired_in_version :: "int option"

definition AttributeDefinitionResponse_from_entity :: "attribute_definition \<Rightarrow> attribute_definition_response" where
  "AttributeDefinitionResponse_from_entity e =
     \<lparr>rad_id = ad_id e, rad_category_id = ad_category_id e, rad_key = ad_key e, rad_label = ad_label e,
      rad_help_text = ad_help_text e, rad_data_type = attribute_data_type_value (ad_data_type e),
      rad_semantic_role = map_option semantic_role_value (ad_semantic_role e),
      rad_is_required = ad_is_required e, rad_is_filterable = ad_is_filterable e,
      rad_is_public = ad_is_public e, rad_position = ad_position e, rad_validation = ad_validation e,
      rad_ui = ad_ui e, rad_default_value = ad_default_value e,
      rad_introduced_in_version = ad_introduced_in_version e,
      rad_retired_in_version = ad_retired_in_version e\<rparr>"

record variant_axis_response =
  rva_id :: uuid
  rva_category_id :: uuid
  rva_key :: string
  rva_label :: string
  rva_position :: int
  rva_affects_imagery :: bool
  rva_introduced_in_version :: "int option"
  rva_retired_in_version :: "int option"

definition VariantAxisResponse_from_entity :: "variant_axis \<Rightarrow> variant_axis_response" where
  "VariantAxisResponse_from_entity e =
     \<lparr>rva_id = va_id e, rva_category_id = va_category_id e, rva_key = va_key e, rva_label = va_label e,
      rva_position = va_position e, rva_affects_imagery = va_affects_imagery e,
      rva_introduced_in_version = va_introduced_in_version e,
      rva_retired_in_version = va_retired_in_version e\<rparr>"

record variant_axis_value_response =
  rvav_id :: uuid
  rvav_axis_id :: uuid
  rvav_value :: string
  rvav_label :: string
  rvav_metadata :: "(string, json) dict"

definition VariantAxisValueResponse_from_entity :: "variant_axis_value \<Rightarrow> variant_axis_value_response" where
  "VariantAxisValueResponse_from_entity e =
     \<lparr>rvav_id = vav_id e, rvav_axis_id = vav_axis_id e, rvav_value = vav_value e,
      rvav_label = vav_label e, rvav_metadata = vav_metadata e\<rparr>"

text \<open>api/routers/admin\_image\_slots.py\<close>

record input_image_slot_response =
  riis_id :: uuid
  riis_category_id :: uuid
  riis_key :: string
  riis_label :: string
  riis_description :: "string option"
  riis_capture_guidance :: "string option"
  riis_example_asset_id :: "uuid option"
  riis_is_required :: bool
  riis_position :: int

definition InputImageSlotResponse_from_entity :: "input_image_slot \<Rightarrow> input_image_slot_response" where
  "InputImageSlotResponse_from_entity e =
     \<lparr>riis_id = iis_id e, riis_category_id = iis_category_id e, riis_key = iis_key e,
      riis_label = iis_label e, riis_description = iis_description e,
      riis_capture_guidance = iis_capture_guidance e, riis_example_asset_id = iis_example_asset_id e,
      riis_is_required = iis_is_required e, riis_position = iis_position e\<rparr>"

record catalog_image_slot_response =
  rcis_id :: uuid
  rcis_category_id :: uuid
  rcis_key :: string
  rcis_label :: string
  rcis_description :: "string option"
  rcis_aspect_ratio :: string
  rcis_target_width :: int
  rcis_target_height :: int
  rcis_is_required :: bool
  rcis_position :: int

definition CatalogImageSlotResponse_from_entity :: "catalog_image_slot \<Rightarrow> catalog_image_slot_response" where
  "CatalogImageSlotResponse_from_entity e =
     \<lparr>rcis_id = cis_id e, rcis_category_id = cis_category_id e, rcis_key = cis_key e,
      rcis_label = cis_label e, rcis_description = cis_description e, rcis_aspect_ratio = cis_aspect_ratio e,
      rcis_target_width = cis_target_width e, rcis_target_height = cis_target_height e,
      rcis_is_required = cis_is_required e, rcis_position = cis_position e\<rparr>"

record requirement_response =
  rreq_catalog_image_slot_id :: uuid
  rreq_input_image_slot_id :: uuid
  rreq_role :: string
  rreq_prompt_position :: int
  rreq_is_required :: bool

definition RequirementResponse_from_entity :: "catalog_slot_input_requirement \<Rightarrow> requirement_response" where
  "RequirementResponse_from_entity e =
     \<lparr>rreq_catalog_image_slot_id = req_catalog_image_slot_id e,
      rreq_input_image_slot_id = req_input_image_slot_id e, rreq_role = req_role e,
      rreq_prompt_position = req_prompt_position e, rreq_is_required = req_is_required e\<rparr>"

text \<open>api/routers/admin\_settings.py\<close>

record setting_response =
  rset_key :: string
  rset_value :: json

definition SettingResponse_from_entity :: "setting \<Rightarrow> setting_response" where
  "SettingResponse_from_entity e =
     \<lparr>rset_key = set_key e, rset_value = set_value e\<rparr>"

text \<open>api/routers/admin\_templates.py\<close>

record template_response =
  rct_id :: uuid
  rct_catalog_image_slot_id :: uuid
  rct_name :: string
  rct_version :: int
  rct_is_default :: bool
  rct_kind :: string
  rct_status :: string
  rct_source_asset_id :: "uuid option"
  rct_prompt_template :: "string option"
  rct_analysis :: "((string, json) dict) option"
  rct_analysis_error :: "string option"
  rct_analysed_at :: "datetime option"

definition TemplateResponse_from_entity :: "catalog_template \<Rightarrow> template_response" where
  "TemplateResponse_from_entity e =
     \<lparr>rct_id = ct_id e, rct_catalog_image_slot_id = ct_catalog_image_slot_id e, rct_name = ct_name e,
      rct_version = ct_version e, rct_is_default = ct_is_default e, rct_kind = template_kind_value (ct_kind e),
      rct_status = template_status_value (ct_status e), rct_source_asset_id = ct_source_asset_id e,
      rct_prompt_template = ct_prompt_template e, rct_analysis = ct_analysis e,
      rct_analysis_error = ct_analysis_error e, rct_analysed_at = ct_analysed_at e\<rparr>"

text \<open>api/routers/admin\_products.py\<close>

record product_response =
  rprod_id :: uuid
  rprod_category_id :: uuid
  rprod_spec_version_id :: uuid
  rprod_attributes :: "(string, json) dict"
  rprod_title :: "string option"
  rprod_sku :: "string option"
  rprod_price_amount :: "int option"
  rprod_price_currency :: "string option"
  rprod_status :: string
  rprod_updated_at :: datetime

definition ProductResponse_from_entity :: "product \<Rightarrow> product_response" where
  "ProductResponse_from_entity e =
     \<lparr>rprod_id = prod_id e, rprod_category_id = prod_category_id e,
      rprod_spec_version_id = prod_spec_version_id e, rprod_attributes = prod_attributes e,
      rprod_title = prod_title e, rprod_sku = prod_sku e, rprod_price_amount = prod_price_amount e,
      rprod_price_currency = prod_price_currency e, rprod_status = product_status_value (prod_status e),
      rprod_updated_at = prod_updated_at e\<rparr>"

record product_variant_response =
  rpv_id :: uuid
  rpv_product_id :: uuid
  rpv_sku :: "string option"
  rpv_axis_values :: "(string, string) dict"
  rpv_attributes :: "(string, json) dict"
  rpv_status :: string
  rpv_is_default :: bool

definition ProductVariantResponse_from_entity :: "product_variant \<Rightarrow> product_variant_response" where
  "ProductVariantResponse_from_entity e =
     \<lparr>rpv_id = pv_id e, rpv_product_id = pv_product_id e, rpv_sku = pv_sku e,
      rpv_axis_values = pv_axis_values e, rpv_attributes = pv_attributes e,
      rpv_status = product_status_value (pv_status e), rpv_is_default = pv_is_default e\<rparr>"

record input_image_response =
  rpii_id :: uuid
  rpii_product_id :: uuid
  rpii_variant_id :: "uuid option"
  rpii_input_image_slot_id :: uuid
  rpii_asset_id :: uuid
  rpii_status :: string
  rpii_rejection_reason :: "string option"

definition InputImageResponse_from_entity :: "product_input_image \<Rightarrow> input_image_response" where
  "InputImageResponse_from_entity e =
     \<lparr>rpii_id = pii_id e, rpii_product_id = pii_product_id e, rpii_variant_id = pii_variant_id e,
      rpii_input_image_slot_id = pii_input_image_slot_id e, rpii_asset_id = pii_asset_id e,
      rpii_status = input_image_status_value (pii_status e),
      rpii_rejection_reason = pii_rejection_reason e\<rparr>"

record generation_request_response =
  rgr_id :: uuid
  rgr_product_id :: uuid
  rgr_variant_id :: uuid
  rgr_status :: string
  rgr_created_at :: datetime

definition GenerationRequestResponse_from_entity :: "generation_request \<Rightarrow> generation_request_response" where
  "GenerationRequestResponse_from_entity e =
     \<lparr>rgr_id = gr_id e, rgr_product_id = gr_product_id e, rgr_variant_id = gr_variant_id e,
      rgr_status = generation_request_status_value (gr_status e), rgr_created_at = gr_created_at e\<rparr>"

text \<open>api/routers/admin\_generation.py\<close>

record generation_item_response =
  rgi_id :: uuid
  rgi_request_id :: uuid
  rgi_catalog_image_slot_id :: uuid
  rgi_attempt_no :: int
  rgi_status :: string
  rgi_output_asset_id :: "uuid option"
  rgi_cost_micros :: "int option"
  rgi_latency_ms :: "int option"
  rgi_error_code :: "string option"

definition GenerationItemResponse_from_entity :: "generation_item \<Rightarrow> generation_item_response" where
  "GenerationItemResponse_from_entity e =
     \<lparr>rgi_id = gi_id e, rgi_request_id = gi_request_id e,
      rgi_catalog_image_slot_id = gi_catalog_image_slot_id e, rgi_attempt_no = gi_attempt_no e,
      rgi_status = generation_item_status_value (gi_status e), rgi_output_asset_id = gi_output_asset_id e,
      rgi_cost_micros = gi_cost_micros e, rgi_latency_ms = gi_latency_ms e,
      rgi_error_code = gi_error_code e\<rparr>"

text \<open>api/routers/admin\_catalog\_images.py\<close>

record catalog_image_response =
  rci_id :: uuid
  rci_variant_id :: uuid
  rci_catalog_image_slot_id :: uuid
  rci_asset_id :: uuid
  rci_generation_item_id :: uuid
  rci_status :: string
  rci_is_primary :: bool
  rci_approved_by :: "uuid option"
  rci_approved_at :: "datetime option"
  rci_rejection_reason :: "string option"
  rci_updated_at :: datetime

definition CatalogImageResponse_from_entity :: "catalog_image \<Rightarrow> catalog_image_response" where
  "CatalogImageResponse_from_entity e =
     \<lparr>rci_id = ci_id e, rci_variant_id = ci_variant_id e,
      rci_catalog_image_slot_id = ci_catalog_image_slot_id e, rci_asset_id = ci_asset_id e,
      rci_generation_item_id = ci_generation_item_id e, rci_status = catalog_image_status_value (ci_status e),
      rci_is_primary = ci_is_primary e, rci_approved_by = ci_approved_by e, rci_approved_at = ci_approved_at e,
      rci_rejection_reason = ci_rejection_reason e, rci_updated_at = ci_updated_at e\<rparr>"

text \<open>api/routers/admin\_content.py\<close>

record content_draft_response =
  rcd_id :: uuid
  rcd_variant_id :: uuid
  rcd_channel :: string
  rcd_locale :: string
  rcd_title :: "string option"
  rcd_body :: string
  rcd_hashtags :: "string list"
  rcd_cta :: "string option"
  rcd_alt_text :: string
  rcd_status :: string
  rcd_edited_by :: "uuid option"
  rcd_approved_by :: "uuid option"
  rcd_rejection_reason :: "string option"
  rcd_created_at :: datetime

definition ContentDraftResponse_from_entity :: "content_draft \<Rightarrow> content_draft_response" where
  "ContentDraftResponse_from_entity e =
     \<lparr>rcd_id = cd_id e, rcd_variant_id = cd_variant_id e, rcd_channel = cd_channel e,
      rcd_locale = cd_locale e, rcd_title = cd_title e, rcd_body = cd_body e, rcd_hashtags = cd_hashtags e,
      rcd_cta = cd_cta e, rcd_alt_text = cd_alt_text e, rcd_status = content_draft_status_value (cd_status e),
      rcd_edited_by = cd_edited_by e, rcd_approved_by = cd_approved_by e,
      rcd_rejection_reason = cd_rejection_reason e, rcd_created_at = cd_created_at e\<rparr>"

text \<open>api/routers/admin\_publishing.py\<close>

record publication_response =
  rpub_id :: uuid
  rpub_variant_id :: uuid
  rpub_channel_id :: uuid
  rpub_status :: string
  rpub_due_at :: datetime
  rpub_external_post_id :: "string option"
  rpub_permalink :: "string option"
  rpub_attempts :: int
  rpub_last_error :: "string option"
  rpub_metrics :: "channel_metrics option"
  rpub_created_at :: datetime

definition PublicationResponse_from_entity :: "publication \<Rightarrow> publication_response" where
  "PublicationResponse_from_entity e =
     \<lparr>rpub_id = pub_id e, rpub_variant_id = pub_variant_id e, rpub_channel_id = pub_channel_id e,
      rpub_status = publication_status_value (pub_status e), rpub_due_at = pub_due_at e,
      rpub_external_post_id = pub_external_post_id e, rpub_permalink = pub_permalink e,
      rpub_attempts = pub_attempts e, rpub_last_error = pub_last_error e, rpub_metrics = pub_metrics e,
      rpub_created_at = pub_created_at e\<rparr>"

text \<open>api/routers/admin\_tenant\_domains.py\<close>

record tenant_domain_response =
  rtd_id :: string
  rtd_hostname :: string
  rtd_is_primary :: bool
  rtd_verified :: bool

definition TenantDomainResponse_from_entity :: "tenant_domain \<Rightarrow> tenant_domain_response" where
  "TenantDomainResponse_from_entity e =
     \<lparr>rtd_id = uuid_str (td_id e), rtd_hostname = td_hostname e, rtd_is_primary = td_is_primary e,
      rtd_verified = td_verified e\<rparr>"

text \<open>api/routers/public.py\<close>

record public_category_response =
  rpc_id :: uuid
  rpc_parent_id :: "uuid option"
  rpc_name :: string
  rpc_slug :: string
  rpc_description :: "string option"
  rpc_position :: int

definition PublicCategoryResponse_from_entity :: "category \<Rightarrow> public_category_response" where
  "PublicCategoryResponse_from_entity e =
     \<lparr>rpc_id = cat_id e, rpc_parent_id = cat_parent_id e, rpc_name = cat_name e, rpc_slug = cat_slug e,
      rpc_description = cat_description e, rpc_position = cat_position e\<rparr>"

record public_product_response =
  rpp_id :: uuid
  rpp_category_id :: uuid
  rpp_attributes :: "(string, json) dict"
  rpp_title :: "string option"
  rpp_price_amount :: "int option"
  rpp_price_currency :: "string option"

definition PublicProductResponse_from_entity :: "product \<Rightarrow> public_product_response" where
  "PublicProductResponse_from_entity e =
     \<lparr>rpp_id = prod_id e, rpp_category_id = prod_category_id e, rpp_attributes = prod_attributes e,
      rpp_title = prod_title e, rpp_price_amount = prod_price_amount e,
      rpp_price_currency = prod_price_currency e\<rparr>"

section \<open>Answers that are not entities\<close>

record 'a page_response =
  rpage_items :: "'a list"
  rpage_next_cursor :: "string option"

record fan_out_response =
  rfan_item_ids :: "uuid list"
  rfan_generation_request_status :: string

record resolved_setting_response =
  rrs_key :: string
  rrs_value :: json

record generate_content_draft_ack =
  rack_variant_id :: uuid
  rack_channel :: string
  rack_locale :: string

record public_catalog_image_response =
  rpi_id :: uuid
  rpi_catalog_image_slot_id :: uuid
  rpi_is_primary :: bool
  rpi_download_url :: string

end
