(* ===== verification/Http.thy ===== *)
theory Http
  imports Http_Responses Access Content Templates Publishing Assets
begin

text \<open>
  The HTTP boundary: api/errors.py, the gates of api/routers/admin.py and platform.py, and the handler of every route of
  api/routers/*.py, each from its guard over its use case to its response model. What FastAPI does before a handler
  (reading the path, the query and the body against their types) and after it (JSON) is not modelled: a handler's
  parameters are the values read, its reply the response model or the problem document.
\<close>

section \<open>Replies\<close>

text \<open>\<open>title()\<close> of a string: a letter after a letter in lower case, any other letter in upper case.\<close>

definition is_letter :: "char \<Rightarrow> bool" where
  "is_letter c \<longleftrightarrow> (CHR ''a'' \<le> c \<and> c \<le> CHR ''z'') \<or> (CHR ''A'' \<le> c \<and> c \<le> CHR ''Z'')"

definition upper_char :: "char \<Rightarrow> char" where
  "upper_char c = (if CHR ''a'' \<le> c \<and> c \<le> CHR ''z'' then char_of (of_char c - (32::nat)) else c)"

fun title_case :: "bool \<Rightarrow> string \<Rightarrow> string" where
  "title_case in_word [] = []"
| "title_case in_word (c # cs) = (if in_word then lower_char c else upper_char c) # title_case (is_letter c) cs"

text \<open>A reply with its status code, or a problem document: status, title, code, detail.\<close>

datatype 'a reply = Reply int 'a | Problem int string string string

definition problem_of :: "exn \<Rightarrow> 'a reply" where
  "problem_of e = (case e of
     AppError c message code \<Rightarrow>
       Problem (status_for c) (title_case False (map (\<lambda>c. if c = CHR ''_'' then CHR '' '' else c) code)) code message
   | IntegrityError _ \<Rightarrow> Problem 409 ''Conflict'' ''conflict'' ''The request conflicts with existing state.''
   | _ \<Rightarrow> Problem 500 ''Internal Server Error'' ''internal_error'' ''An unexpected error occurred.'')"

fun reply_status :: "'a reply \<Rightarrow> int" where
  "reply_status (Reply n _) = n"
| "reply_status (Problem n _ _ _) = n"

section \<open>The server\<close>

text \<open>What a process keeps between requests: the database and the counters of the rate limiter.\<close>

record web =
  web_platform :: platform
  web_windows :: windows

type_synonym 'a action = "web \<Rightarrow> 'a result \<times> web"

definition on_platform :: "(platform \<Rightarrow> 'a result \<times> platform) \<Rightarrow> 'a action" where
  "on_platform f w = (case f (web_platform w) of (r, p) \<Rightarrow> (r, w\<lparr>web_platform := p\<rparr>))"

definition on_db :: "(db \<Rightarrow> 'a result \<times> db) \<Rightarrow> 'a action" where
  "on_db f = on_platform (\<lambda>p. case f (pf_db p) of (r, s) \<Rightarrow> (r, p\<lparr>pf_db := s\<rparr>))"

definition on_windows :: "(db \<Rightarrow> windows \<Rightarrow> 'a result \<times> db \<times> windows) \<Rightarrow> 'a action" where
  "on_windows f w = (case f (pf_db (web_platform w)) (web_windows w) of
     (r, s, ws) \<Rightarrow> (r, w\<lparr>web_platform := (web_platform w)\<lparr>pf_db := s\<rparr>, web_windows := ws\<rparr>))"

text \<open>A use case in its unit of work, and a query.\<close>

definition exec :: "'a use_case \<Rightarrow> 'a action" where
  "exec f = on_db (run_uow f)"

definition query :: "(db \<Rightarrow> 'a result) \<Rightarrow> 'a action" where
  "query f w = (f (pf_db (web_platform w)), w)"

text \<open>
  What the process is configured with and what it draws or is told from outside while it serves one request: the clock,
  fresh identifiers and jitter, the storage, the providers.
\<close>

record env =
  en_now :: "nat \<Rightarrow> datetime"
  en_id :: "nat \<Rightarrow> uuid"
  en_id_for :: "uuid \<Rightarrow> uuid"
  en_jitter :: "nat \<Rightarrow> rat"
  en_jitter_for :: "uuid \<Rightarrow> rat"
  en_storage :: storage_config
  en_model_validate :: "attribute_model \<Rightarrow> (string, json) dict \<Rightarrow> string + (string, json) dict"
  en_iso_other :: "string \<Rightarrow> datetime result"
  en_read_photo :: "string \<Rightarrow> photo_measures option result"
  en_analyse :: "string \<Rightarrow> string \<Rightarrow> string + template_analysis"
  en_render :: "render_context \<Rightarrow> (string \<times> string) + (stored_file \<times> int \<times> int)"
  en_evaluate :: "qc_context \<Rightarrow> string + qc_verdict"
  en_generation :: generation_draws
  en_items :: "nat \<Rightarrow> item_draw"
  en_image_provider :: string
  en_image_model :: string
  en_copy :: "string \<Rightarrow> string \<Rightarrow> (string \<times> string) + generated_copy"
  en_copy_draws :: copy_draws
  en_copy_model :: string
  en_channel :: "string provider"
  en_publish_limit :: int
  en_publish_draws :: "nat \<Rightarrow> draws"
  en_str_exc :: "exn \<Rightarrow> string"
  en_metrics :: "string \<Rightarrow> string + channel_metrics"

section \<open>The gates\<close>

definition respond :: "int \<Rightarrow> ('a \<Rightarrow> 'b) \<Rightarrow> 'a result \<times> web \<Rightarrow> 'b reply \<times> web" where
  "respond code render = (\<lambda>(r, w). (case r of Inl e \<Rightarrow> problem_of e | Inr x \<Rightarrow> Reply code (render x), w))"

definition if_required :: "capability option \<Rightarrow> principal \<Rightarrow> principal result" where
  "if_required cap p = (case cap of None \<Rightarrow> Inr p | Some c \<Rightarrow> require_capability (capability_value c) p)"

text \<open>
  The tenant-admin plane: the principal of the request (or why there is none), the router's gate, the route's own
  capability, the \<open>assert\<close>, then the action for that tenant and user.
\<close>

definition admin_route ::
  "capability option \<Rightarrow> int \<Rightarrow> ('a \<Rightarrow> 'b) \<Rightarrow> (uuid \<Rightarrow> uuid \<Rightarrow> 'a action) \<Rightarrow> principal result \<Rightarrow> web \<Rightarrow> 'b reply \<times> web" where
  "admin_route cap code render act who w =
     (case bind_result who (\<lambda>p. bind_result (require_tenant_context p) (if_required cap)) of
        Inl e \<Rightarrow> (problem_of e, w)
      | Inr p \<Rightarrow> (case pr_tenant_id p of
          None \<Rightarrow> (problem_of AssertionError, w)
        | Some tenant_id \<Rightarrow> respond code render (act tenant_id (pr_user_id p) w)))"

text \<open>The operator plane.\<close>

definition platform_route ::
  "int \<Rightarrow> ('a \<Rightarrow> 'b) \<Rightarrow> (uuid \<Rightarrow> 'a action) \<Rightarrow> principal result \<Rightarrow> web \<Rightarrow> 'b reply \<times> web" where
  "platform_route code render act who w =
     (case bind_result who require_platform_admin of
        Inl e \<Rightarrow> (problem_of e, w)
      | Inr p \<Rightarrow> respond code render (act (pr_user_id p) w))"

text \<open>The storefront: the tenant is that of the Host header.\<close>

definition public_route ::
  "('a \<Rightarrow> 'b) \<Rightarrow> (uuid \<Rightarrow> 'a action) \<Rightarrow> string option \<Rightarrow> web \<Rightarrow> 'b reply \<times> web" where
  "public_route render act host w =
     (case get_public_tenant_id host (web_platform w) of
        Inl e \<Rightarrow> (problem_of e, w)
      | Inr tenant_id \<Rightarrow> respond 200 render (act tenant_id w))"

definition no_content :: "'a \<Rightarrow> unit" where "no_content x = ()"

definition to_page_response :: "('a \<Rightarrow> 'b) \<Rightarrow> 'a page \<Rightarrow> 'b page_response" where
  "to_page_response f p = \<lparr>rpage_items = map f (pg_items p), rpage_next_cursor = pg_next_cursor p\<rparr>"

section \<open>Categories\<close>

definition create_category ::
  "env \<Rightarrow> string \<Rightarrow> string \<Rightarrow> string \<Rightarrow> uuid option \<Rightarrow> string option \<Rightarrow> int \<Rightarrow> principal result \<Rightarrow> web
    \<Rightarrow> category_response reply \<times> web" where
  "create_category e key name slug parent_id description position =
     admin_route (Some CAP_TAXONOMY_MANAGE) 201 CategoryResponse_from_entity (\<lambda>tenant_id user_id.
       exec (CreateCategory (en_id e 0) (en_id e 1) tenant_id key name slug parent_id description position user_id (en_now e 0)))"

definition get_category :: "uuid \<Rightarrow> principal result \<Rightarrow> web \<Rightarrow> category_response reply \<times> web" where
  "get_category category_id =
     admin_route None 200 CategoryResponse_from_entity (\<lambda>tenant_id _. query (GetCategory tenant_id category_id))"

definition list_categories :: "uuid option \<Rightarrow> principal result \<Rightarrow> web \<Rightarrow> category_response list reply \<times> web" where
  "list_categories parent_id = admin_route None 200 (map CategoryResponse_from_entity) (\<lambda>tenant_id _.
     query (\<lambda>s. Inr (ListCategoryChildren tenant_id parent_id s)))"

definition update_category ::
  "env \<Rightarrow> uuid \<Rightarrow> string \<Rightarrow> string option \<Rightarrow> int \<Rightarrow> bool \<Rightarrow> principal result \<Rightarrow> web \<Rightarrow> category_response reply \<times> web" where
  "update_category e category_id name description position is_active =
     admin_route (Some CAP_TAXONOMY_MANAGE) 200 CategoryResponse_from_entity (\<lambda>tenant_id user_id.
       exec (UpdateCategory (en_id e 0) tenant_id category_id name description position is_active user_id (en_now e 0)))"

definition move_category :: "env \<Rightarrow> uuid \<Rightarrow> uuid option \<Rightarrow> principal result \<Rightarrow> web \<Rightarrow> unit reply \<times> web" where
  "move_category e category_id new_parent_id =
     admin_route (Some CAP_TAXONOMY_MANAGE) 204 no_content (\<lambda>tenant_id user_id.
       exec (MoveCategory (en_id e 0) tenant_id category_id new_parent_id user_id (en_now e 0)))"

definition publish_category_spec ::
  "env \<Rightarrow> uuid \<Rightarrow> principal result \<Rightarrow> web \<Rightarrow> category_spec_version_response reply \<times> web" where
  "publish_category_spec e category_id =
     admin_route (Some CAP_CATALOG_PUBLISH) 200 CategorySpecVersionResponse_from_entity (\<lambda>tenant_id user_id.
       exec (PublishCategorySpec (en_id e 0) (en_id e 1) tenant_id category_id user_id (en_now e 0)))"

definition get_published_category_spec ::
  "uuid \<Rightarrow> int \<Rightarrow> principal result \<Rightarrow> web \<Rightarrow> spec_snapshot reply \<times> web" where
  "get_published_category_spec category_id version =
     admin_route None 200 (\<lambda>snapshot. snapshot) (\<lambda>tenant_id _. query (GetPublishedCategorySpec tenant_id category_id version))"

section \<open>Attribute definitions and axes\<close>

definition create_attribute_definition ::
  "env \<Rightarrow> uuid \<Rightarrow> string \<Rightarrow> string \<Rightarrow> attribute_data_type \<Rightarrow> string option \<Rightarrow> semantic_role option \<Rightarrow> bool \<Rightarrow> bool
    \<Rightarrow> bool \<Rightarrow> int \<Rightarrow> ((string, json) dict) option \<Rightarrow> ((string, json) dict) option \<Rightarrow> json \<Rightarrow> principal result \<Rightarrow> web
    \<Rightarrow> attribute_definition_response reply \<times> web" where
  "create_attribute_definition e category_id key label data_type help_text semantic_role is_required is_filterable is_public
      position validation ui default_value =
     admin_route (Some CAP_TAXONOMY_MANAGE) 201 AttributeDefinitionResponse_from_entity (\<lambda>tenant_id user_id.
       exec (CreateAttributeDefinition (en_id e 0) (en_id e 1) tenant_id category_id key label data_type help_text semantic_role
         is_required is_filterable is_public position validation ui default_value user_id (en_now e 0)))"

definition list_attribute_definitions ::
  "uuid \<Rightarrow> principal result \<Rightarrow> web \<Rightarrow> attribute_definition_response list reply \<times> web" where
  "list_attribute_definitions category_id = admin_route None 200 (map AttributeDefinitionResponse_from_entity)
     (\<lambda>tenant_id _. query (\<lambda>s. Inr (ListAttributeDefinitions tenant_id category_id s)))"

definition update_attribute_definition ::
  "env \<Rightarrow> uuid \<Rightarrow> string \<Rightarrow> string option \<Rightarrow> semantic_role option \<Rightarrow> bool \<Rightarrow> bool \<Rightarrow> bool \<Rightarrow> int
    \<Rightarrow> (string, json) dict \<Rightarrow> (string, json) dict \<Rightarrow> json \<Rightarrow> principal result \<Rightarrow> web
    \<Rightarrow> attribute_definition_response reply \<times> web" where
  "update_attribute_definition e definition_id label help_text semantic_role is_required is_filterable is_public position
      validation ui default_value =
     admin_route (Some CAP_TAXONOMY_MANAGE) 200 AttributeDefinitionResponse_from_entity (\<lambda>tenant_id user_id.
       exec (UpdateAttributeDefinition (en_id e 0) tenant_id definition_id label help_text semantic_role is_required
         is_filterable is_public position validation ui default_value user_id (en_now e 0)))"

definition create_variant_axis ::
  "env \<Rightarrow> uuid \<Rightarrow> string \<Rightarrow> string \<Rightarrow> bool \<Rightarrow> int \<Rightarrow> principal result \<Rightarrow> web \<Rightarrow> variant_axis_response reply \<times> web" where
  "create_variant_axis e category_id key label affects_imagery position =
     admin_route (Some CAP_TAXONOMY_MANAGE) 201 VariantAxisResponse_from_entity (\<lambda>tenant_id user_id.
       exec (CreateVariantAxis (en_id e 0) (en_id e 1) tenant_id category_id key label affects_imagery position user_id
         (en_now e 0)))"

definition list_variant_axes :: "uuid \<Rightarrow> principal result \<Rightarrow> web \<Rightarrow> variant_axis_response list reply \<times> web" where
  "list_variant_axes category_id = admin_route None 200 (map VariantAxisResponse_from_entity)
     (\<lambda>tenant_id _. query (\<lambda>s. Inr (ListVariantAxes tenant_id category_id s)))"

definition update_variant_axis ::
  "env \<Rightarrow> uuid \<Rightarrow> string \<Rightarrow> bool \<Rightarrow> int \<Rightarrow> principal result \<Rightarrow> web \<Rightarrow> variant_axis_response reply \<times> web" where
  "update_variant_axis e axis_id label affects_imagery position =
     admin_route (Some CAP_TAXONOMY_MANAGE) 200 VariantAxisResponse_from_entity (\<lambda>tenant_id user_id.
       exec (UpdateVariantAxis (en_id e 0) tenant_id axis_id label affects_imagery position user_id (en_now e 0)))"

definition create_variant_axis_value ::
  "env \<Rightarrow> uuid \<Rightarrow> string \<Rightarrow> string \<Rightarrow> ((string, json) dict) option \<Rightarrow> principal result \<Rightarrow> web
    \<Rightarrow> variant_axis_value_response reply \<times> web" where
  "create_variant_axis_value e axis_id value_name label metadata =
     admin_route (Some CAP_TAXONOMY_MANAGE) 201 VariantAxisValueResponse_from_entity (\<lambda>tenant_id user_id.
       exec (CreateVariantAxisValue (en_id e 0) (en_id e 1) tenant_id axis_id value_name label metadata user_id (en_now e 0)))"

definition list_variant_axis_values ::
  "uuid \<Rightarrow> principal result \<Rightarrow> web \<Rightarrow> variant_axis_value_response list reply \<times> web" where
  "list_variant_axis_values axis_id = admin_route None 200 (map VariantAxisValueResponse_from_entity)
     (\<lambda>tenant_id _. query (\<lambda>s. Inr (ListVariantAxisValues tenant_id axis_id s)))"

definition update_variant_axis_value ::
  "env \<Rightarrow> uuid \<Rightarrow> string \<Rightarrow> (string, json) dict \<Rightarrow> principal result \<Rightarrow> web \<Rightarrow> variant_axis_value_response reply \<times> web" where
  "update_variant_axis_value e value_id label metadata =
     admin_route (Some CAP_TAXONOMY_MANAGE) 200 VariantAxisValueResponse_from_entity (\<lambda>tenant_id user_id.
       exec (UpdateVariantAxisValue (en_id e 0) tenant_id value_id label metadata user_id (en_now e 0)))"

section \<open>Image slots\<close>

definition create_input_image_slot ::
  "env \<Rightarrow> uuid \<Rightarrow> string \<Rightarrow> string \<Rightarrow> string option \<Rightarrow> string option \<Rightarrow> bool \<Rightarrow> int \<Rightarrow> principal result \<Rightarrow> web
    \<Rightarrow> input_image_slot_response reply \<times> web" where
  "create_input_image_slot e category_id key label description capture_guidance is_required position =
     admin_route (Some CAP_TAXONOMY_MANAGE) 201 InputImageSlotResponse_from_entity (\<lambda>tenant_id user_id.
       exec (CreateInputImageSlot (en_id e 0) (en_id e 1) tenant_id category_id key label description capture_guidance None None
         is_required position user_id (en_now e 0)))"

definition list_input_image_slots :: "uuid \<Rightarrow> principal result \<Rightarrow> web \<Rightarrow> input_image_slot_response list reply \<times> web" where
  "list_input_image_slots category_id = admin_route None 200 (map InputImageSlotResponse_from_entity)
     (\<lambda>tenant_id _. query (\<lambda>s. Inr (ListInputImageSlots tenant_id category_id s)))"

definition update_input_image_slot ::
  "env \<Rightarrow> uuid \<Rightarrow> string \<Rightarrow> string option \<Rightarrow> string option \<Rightarrow> uuid option \<Rightarrow> (string, json) dict \<Rightarrow> bool \<Rightarrow> int
    \<Rightarrow> principal result \<Rightarrow> web \<Rightarrow> input_image_slot_response reply \<times> web" where
  "update_input_image_slot e slot_id label description capture_guidance example_asset_id normalisation is_required position =
     admin_route (Some CAP_TAXONOMY_MANAGE) 200 InputImageSlotResponse_from_entity (\<lambda>tenant_id user_id.
       exec (UpdateInputImageSlot (en_id e 0) tenant_id slot_id label description capture_guidance example_asset_id normalisation
         is_required position user_id (en_now e 0)))"

definition create_catalog_image_slot ::
  "env \<Rightarrow> uuid \<Rightarrow> string \<Rightarrow> string \<Rightarrow> string \<Rightarrow> int \<Rightarrow> int \<Rightarrow> string option \<Rightarrow> bool \<Rightarrow> int \<Rightarrow> principal result \<Rightarrow> web
    \<Rightarrow> catalog_image_slot_response reply \<times> web" where
  "create_catalog_image_slot e category_id key label aspect_ratio target_width target_height description is_required position =
     admin_route (Some CAP_TAXONOMY_MANAGE) 201 CatalogImageSlotResponse_from_entity (\<lambda>tenant_id user_id.
       exec (CreateCatalogImageSlot (en_id e 0) (en_id e 1) tenant_id category_id key label aspect_ratio target_width target_height
         description is_required position user_id (en_now e 0)))"

definition list_catalog_image_slots :: "uuid \<Rightarrow> principal result \<Rightarrow> web \<Rightarrow> catalog_image_slot_response list reply \<times> web" where
  "list_catalog_image_slots category_id = admin_route None 200 (map CatalogImageSlotResponse_from_entity)
     (\<lambda>tenant_id _. query (\<lambda>s. Inr (ListCatalogImageSlots tenant_id category_id s)))"

definition update_catalog_image_slot ::
  "env \<Rightarrow> uuid \<Rightarrow> string \<Rightarrow> string option \<Rightarrow> string \<Rightarrow> int \<Rightarrow> int \<Rightarrow> bool \<Rightarrow> int \<Rightarrow> principal result \<Rightarrow> web
    \<Rightarrow> catalog_image_slot_response reply \<times> web" where
  "update_catalog_image_slot e slot_id label description aspect_ratio target_width target_height is_required position =
     admin_route (Some CAP_TAXONOMY_MANAGE) 200 CatalogImageSlotResponse_from_entity (\<lambda>tenant_id user_id.
       exec (UpdateCatalogImageSlot (en_id e 0) tenant_id slot_id label description aspect_ratio target_width target_height
         is_required position user_id (en_now e 0)))"

definition attach_input_to_catalog_slot ::
  "env \<Rightarrow> uuid \<Rightarrow> uuid \<Rightarrow> string \<Rightarrow> int \<Rightarrow> bool \<Rightarrow> principal result \<Rightarrow> web \<Rightarrow> requirement_response reply \<times> web" where
  "attach_input_to_catalog_slot e catalog_image_slot_id input_image_slot_id role_name prompt_position is_required =
     admin_route (Some CAP_TAXONOMY_MANAGE) 201 RequirementResponse_from_entity (\<lambda>tenant_id user_id.
       exec (AttachInputToCatalogSlot (en_id e 0) (en_id e 1) tenant_id catalog_image_slot_id input_image_slot_id role_name
         prompt_position is_required user_id (en_now e 0)))"

definition list_catalog_slot_requirements :: "uuid \<Rightarrow> principal result \<Rightarrow> web \<Rightarrow> requirement_response list reply \<times> web" where
  "list_catalog_slot_requirements catalog_image_slot_id = admin_route None 200 (map RequirementResponse_from_entity)
     (\<lambda>tenant_id _. query (\<lambda>s. Inr (ListCatalogSlotInputRequirements tenant_id catalog_image_slot_id s)))"

definition update_catalog_slot_requirement ::
  "env \<Rightarrow> uuid \<Rightarrow> uuid \<Rightarrow> string \<Rightarrow> int \<Rightarrow> bool \<Rightarrow> principal result \<Rightarrow> web \<Rightarrow> requirement_response reply \<times> web" where
  "update_catalog_slot_requirement e catalog_image_slot_id input_image_slot_id role_name prompt_position is_required =
     admin_route (Some CAP_TAXONOMY_MANAGE) 200 RequirementResponse_from_entity (\<lambda>tenant_id user_id.
       exec (UpdateCatalogSlotInputRequirement (en_id e 0) tenant_id catalog_image_slot_id input_image_slot_id role_name
         prompt_position is_required user_id (en_now e 0)))"

definition detach_input_from_catalog_slot :: "env \<Rightarrow> uuid \<Rightarrow> uuid \<Rightarrow> principal result \<Rightarrow> web \<Rightarrow> unit reply \<times> web" where
  "detach_input_from_catalog_slot e catalog_image_slot_id input_image_slot_id =
     admin_route (Some CAP_TAXONOMY_MANAGE) 204 no_content (\<lambda>tenant_id user_id.
       exec (DetachInputFromCatalogSlot (en_id e 0) tenant_id catalog_image_slot_id input_image_slot_id user_id (en_now e 0)))"

section \<open>Settings\<close>

definition upsert_tenant_setting :: "env \<Rightarrow> string \<Rightarrow> json \<Rightarrow> principal result \<Rightarrow> web \<Rightarrow> setting_response reply \<times> web" where
  "upsert_tenant_setting e key v =
     admin_route (Some CAP_SETTINGS_MANAGE) 200 SettingResponse_from_entity (\<lambda>tenant_id _.
       exec (UpsertSetting (en_id e 0) (Some tenant_id) SCOPE_TENANT None key v (en_now e 0)))"

definition upsert_category_setting ::
  "env \<Rightarrow> uuid \<Rightarrow> string \<Rightarrow> json \<Rightarrow> principal result \<Rightarrow> web \<Rightarrow> setting_response reply \<times> web" where
  "upsert_category_setting e category_id key v =
     admin_route (Some CAP_SETTINGS_MANAGE) 200 SettingResponse_from_entity (\<lambda>tenant_id _.
       exec (UpsertSetting (en_id e 0) (Some tenant_id) SCOPE_CATEGORY (Some category_id) key v (en_now e 0)))"

definition upsert_product_setting ::
  "env \<Rightarrow> uuid \<Rightarrow> string \<Rightarrow> json \<Rightarrow> principal result \<Rightarrow> web \<Rightarrow> setting_response reply \<times> web" where
  "upsert_product_setting e product_id key v =
     admin_route (Some CAP_SETTINGS_MANAGE) 200 SettingResponse_from_entity (\<lambda>tenant_id _.
       exec (UpsertSetting (en_id e 0) (Some tenant_id) SCOPE_PRODUCT (Some product_id) key v (en_now e 0)))"

definition resolve_setting ::
  "string \<Rightarrow> uuid option \<Rightarrow> uuid option \<Rightarrow> principal result \<Rightarrow> web \<Rightarrow> resolved_setting_response reply \<times> web" where
  "resolve_setting key category_id product_id = admin_route None 200 (\<lambda>v. \<lparr>rrs_key = key, rrs_value = v\<rparr>) (\<lambda>tenant_id _.
     query (ResolveSetting tenant_id key category_id product_id))"

section \<open>Assets and templates\<close>

text \<open>The response model of an upload has the fields of \<open>PresignedUpload\<close>.\<close>

definition request_upload ::
  "env \<Rightarrow> asset_kind \<Rightarrow> string \<Rightarrow> string \<Rightarrow> principal result \<Rightarrow> web \<Rightarrow> presigned_upload reply \<times> web" where
  "request_upload e kind extension content_type =
     admin_route (Some CAP_TEMPLATE_MANAGE) 201 (\<lambda>u. u) (\<lambda>tenant_id user_id.
       query (\<lambda>_. RequestUpload (en_storage e) (en_id e 0) tenant_id kind extension content_type user_id (en_now e 0)))"

definition request_download :: "env \<Rightarrow> uuid \<Rightarrow> principal result \<Rightarrow> web \<Rightarrow> string reply \<times> web" where
  "request_download e wanted = admin_route (Some CAP_TEMPLATE_MANAGE) 200 (\<lambda>url. url) (\<lambda>tenant_id _.
     query (RequestDownload (en_storage e) tenant_id wanted (en_now e 0)))"

definition create_authored_template ::
  "env \<Rightarrow> uuid \<Rightarrow> string \<Rightarrow> string \<Rightarrow> principal result \<Rightarrow> web \<Rightarrow> template_response reply \<times> web" where
  "create_authored_template e slot_id name prompt_template =
     admin_route (Some CAP_TEMPLATE_MANAGE) 201 TemplateResponse_from_entity (\<lambda>tenant_id user_id.
       exec (CreateAuthoredTemplate (en_id e 0) (en_id e 1) tenant_id slot_id name prompt_template user_id (en_now e 0)))"

definition create_template_from_upload ::
  "env \<Rightarrow> uuid \<Rightarrow> string \<Rightarrow> uuid \<Rightarrow> principal result \<Rightarrow> web \<Rightarrow> template_response reply \<times> web" where
  "create_template_from_upload e slot_id name source_asset_id =
     admin_route (Some CAP_TEMPLATE_MANAGE) 201 TemplateResponse_from_entity (\<lambda>tenant_id user_id.
       exec (CreateTemplateFromUpload (en_id e 0) (en_id e 1) tenant_id slot_id name source_asset_id user_id (en_now e 0)))"

definition seed_stock_presets :: "env \<Rightarrow> uuid \<Rightarrow> principal result \<Rightarrow> web \<Rightarrow> template_response list reply \<times> web" where
  "seed_stock_presets e slot_id =
     admin_route (Some CAP_TEMPLATE_MANAGE) 201 (map TemplateResponse_from_entity) (\<lambda>tenant_id user_id.
       exec (SeedStockPresets (\<lambda>n. en_id e (n + 1)) (en_id e 0) tenant_id slot_id user_id DEFAULT_STOCK_SCENE_PRESETS
         (en_now e 0)))"

definition list_templates :: "uuid \<Rightarrow> principal result \<Rightarrow> web \<Rightarrow> template_response list reply \<times> web" where
  "list_templates slot_id = admin_route None 200 (map TemplateResponse_from_entity)
     (\<lambda>tenant_id _. query (\<lambda>s. Inr (ListTemplates tenant_id slot_id s)))"

definition analyse_template :: "env \<Rightarrow> uuid \<Rightarrow> principal result \<Rightarrow> web \<Rightarrow> template_response reply \<times> web" where
  "analyse_template e template_id =
     admin_route (Some CAP_TEMPLATE_MANAGE) 200 TemplateResponse_from_entity (\<lambda>tenant_id _.
       on_db (TemplateAnalysisAgent_run (en_analyse e) (en_now e) (en_id e 0) tenant_id template_id))"

definition archive_template :: "env \<Rightarrow> uuid \<Rightarrow> principal result \<Rightarrow> web \<Rightarrow> template_response reply \<times> web" where
  "archive_template e template_id =
     admin_route (Some CAP_TEMPLATE_MANAGE) 200 TemplateResponse_from_entity (\<lambda>tenant_id _.
       exec (ArchiveTemplate tenant_id template_id (en_now e 0)))"

section \<open>Products\<close>

definition create_product ::
  "env \<Rightarrow> uuid \<Rightarrow> (string, json) dict \<Rightarrow> principal result \<Rightarrow> web \<Rightarrow> product_response reply \<times> web" where
  "create_product e category_id attributes =
     admin_route (Some CAP_PRODUCT_MANAGE) 201 ProductResponse_from_entity (\<lambda>tenant_id user_id.
       exec (CreateProduct (en_model_validate e) (en_id e 0) (en_id e 1) tenant_id category_id attributes user_id (en_now e 0)))"

definition list_products ::
  "env \<Rightarrow> uuid option \<Rightarrow> string option \<Rightarrow> int \<Rightarrow> principal result \<Rightarrow> web \<Rightarrow> product_response page_response reply \<times> web" where
  "list_products e category_id cursor limit =
     admin_route (Some CAP_PRODUCT_MANAGE) 200 (to_page_response ProductResponse_from_entity) (\<lambda>tenant_id _.
       query (ListProducts (en_iso_other e) tenant_id category_id cursor limit))"

definition recompute_product_readiness :: "env \<Rightarrow> uuid \<Rightarrow> principal result \<Rightarrow> web \<Rightarrow> product_response reply \<times> web" where
  "recompute_product_readiness e product_id =
     admin_route (Some CAP_PRODUCT_MANAGE) 200 ProductResponse_from_entity (\<lambda>tenant_id _.
       exec (RecomputeProductReadiness tenant_id product_id (en_now e 0)))"

definition create_product_variant ::
  "env \<Rightarrow> uuid \<Rightarrow> (string, string) dict \<Rightarrow> string option \<Rightarrow> (string, json) dict \<Rightarrow> bool \<Rightarrow> int \<Rightarrow> principal result \<Rightarrow> web
    \<Rightarrow> product_variant_response reply \<times> web" where
  "create_product_variant e product_id axis_values sku attributes is_default position =
     admin_route (Some CAP_PRODUCT_MANAGE) 201 ProductVariantResponse_from_entity (\<lambda>tenant_id user_id.
       exec (CreateProductVariant (en_id e 0) (en_id e 1) tenant_id product_id axis_values user_id sku (Some attributes)
         is_default position (en_now e 0)))"

definition capture_product_input_image ::
  "env \<Rightarrow> uuid \<Rightarrow> uuid \<Rightarrow> uuid \<Rightarrow> uuid option \<Rightarrow> principal result \<Rightarrow> web \<Rightarrow> input_image_response reply \<times> web" where
  "capture_product_input_image e product_id input_image_slot_id captured variant_id =
     admin_route (Some CAP_PRODUCT_MANAGE) 201 InputImageResponse_from_entity (\<lambda>tenant_id user_id.
       exec (CaptureProductInputImage (en_id e 0) (en_id e 1) tenant_id product_id input_image_slot_id captured user_id variant_id
         (en_now e 0)))"

definition validate_captured_image :: "env \<Rightarrow> uuid \<Rightarrow> principal result \<Rightarrow> web \<Rightarrow> input_image_response reply \<times> web" where
  "validate_captured_image e image_id =
     admin_route (Some CAP_PRODUCT_MANAGE) 200 InputImageResponse_from_entity (\<lambda>tenant_id _.
       on_db (InputImageValidationAgent_run (en_read_photo e) (en_now e) (en_id e 0) tenant_id image_id))"

definition create_generation_request ::
  "env \<Rightarrow> uuid \<Rightarrow> uuid \<Rightarrow> principal result \<Rightarrow> web \<Rightarrow> generation_request_response reply \<times> web" where
  "create_generation_request e product_id variant_id =
     admin_route (Some CAP_PRODUCT_MANAGE) 201 GenerationRequestResponse_from_entity (\<lambda>tenant_id user_id.
       exec (CreateGenerationRequest (en_id e 0) (en_id e 1) (en_id e 2) tenant_id product_id variant_id user_id (en_now e 0)))"

definition fan_out_generation_items ::
  "env \<Rightarrow> uuid \<Rightarrow> principal result \<Rightarrow> web \<Rightarrow> fan_out_response reply \<times> web" where
  "fan_out_generation_items e generation_request_id =
     admin_route (Some CAP_PRODUCT_MANAGE) 200
       (\<lambda>items. \<lparr>rfan_item_ids = map gi_id items, rfan_generation_request_status = ''running''\<rparr>) (\<lambda>tenant_id _.
       exec (FanOutGenerationItems (en_image_provider e) (en_image_model e) (en_items e) (en_id e 0) tenant_id
         generation_request_id (en_now e 0)))"

section \<open>Generation and review\<close>

definition render_next_generation_item ::
  "env \<Rightarrow> principal result \<Rightarrow> web \<Rightarrow> generation_item_response option reply \<times> web" where
  "render_next_generation_item e =
     admin_route (Some CAP_PRODUCT_MANAGE) 200 (map_option GenerationItemResponse_from_entity) (\<lambda>tenant_id _.
       on_db (GenerationRenderAgent_run (en_render e) (en_generation e) tenant_id))"

definition qc_next_catalog_image :: "env \<Rightarrow> principal result \<Rightarrow> web \<Rightarrow> bool reply \<times> web" where
  "qc_next_catalog_image e = admin_route (Some CAP_PRODUCT_MANAGE) 200 (\<lambda>ran. ran) (\<lambda>tenant_id _.
     on_db (CatalogImageQcAgent_run (en_evaluate e) (en_generation e) tenant_id))"

definition reap_stuck_jobs :: "env \<Rightarrow> principal result \<Rightarrow> web \<Rightarrow> nat reply \<times> web" where
  "reap_stuck_jobs e = admin_route (Some CAP_PRODUCT_MANAGE) 200 (\<lambda>reaped. reaped) (\<lambda>tenant_id _.
     exec (\<lambda>s. bind_result (ReapStuckTaskQueueJobs (en_jitter_for e) tenant_id (en_now e 0) (db_jobs s))
       (\<lambda>(n, q). Inr (n, s\<lparr>db_jobs := q\<rparr>))))"

definition RECONCILE_LIMIT :: nat where "RECONCILE_LIMIT = 50"

definition reconcile_generation_requests :: "env \<Rightarrow> principal result \<Rightarrow> web \<Rightarrow> nat reply \<times> web" where
  "reconcile_generation_requests e = admin_route (Some CAP_PRODUCT_MANAGE) 200 (\<lambda>settled. settled) (\<lambda>tenant_id _.
     exec (ReconcileGenerationRequestsForTenant tenant_id RECONCILE_LIMIT (en_now e 0)))"

definition list_catalog_images_for_review ::
  "env \<Rightarrow> catalog_image_status option \<Rightarrow> uuid option \<Rightarrow> string option \<Rightarrow> int \<Rightarrow> principal result \<Rightarrow> web
    \<Rightarrow> catalog_image_response page_response reply \<times> web" where
  "list_catalog_images_for_review e status product_id cursor limit =
     admin_route (Some CAP_CATALOG_APPROVE) 200 (to_page_response CatalogImageResponse_from_entity) (\<lambda>tenant_id _.
       query (ListCatalogImagesForReview (en_iso_other e) tenant_id status product_id cursor limit))"

definition approve_catalog_image :: "env \<Rightarrow> uuid \<Rightarrow> principal result \<Rightarrow> web \<Rightarrow> catalog_image_response reply \<times> web" where
  "approve_catalog_image e image_id =
     admin_route (Some CAP_CATALOG_APPROVE) 200 CatalogImageResponse_from_entity (\<lambda>tenant_id user_id.
       exec (ApproveCatalogImage (en_id e 0) tenant_id image_id user_id (en_now e 0)))"

definition reject_catalog_image ::
  "env \<Rightarrow> uuid \<Rightarrow> string \<Rightarrow> principal result \<Rightarrow> web \<Rightarrow> catalog_image_response reply \<times> web" where
  "reject_catalog_image e image_id reason =
     admin_route (Some CAP_CATALOG_APPROVE) 200 CatalogImageResponse_from_entity (\<lambda>tenant_id user_id.
       exec (RejectCatalogImage (en_id e 0) tenant_id image_id reason user_id (en_now e 0)))"

definition bulk_approve_catalog_images_for_product :: "env \<Rightarrow> uuid \<Rightarrow> principal result \<Rightarrow> web \<Rightarrow> nat reply \<times> web" where
  "bulk_approve_catalog_images_for_product e product_id =
     admin_route (Some CAP_CATALOG_APPROVE) 200 (\<lambda>approved. approved) (\<lambda>tenant_id user_id.
       exec (BulkApproveCatalogImagesForProduct (en_id_for e) tenant_id product_id user_id (en_now e 0)))"

section \<open>Copy\<close>

definition generate_content_draft ::
  "env \<Rightarrow> uuid \<Rightarrow> string \<Rightarrow> string \<Rightarrow> principal result \<Rightarrow> web \<Rightarrow> generate_content_draft_ack reply \<times> web" where
  "generate_content_draft e variant_id channel locale1 =
     admin_route (Some CAP_PRODUCT_MANAGE) 202 (\<lambda>_. \<lparr>rack_variant_id = variant_id, rack_channel = channel, rack_locale = locale1\<rparr>)
       (\<lambda>tenant_id _. exec (GenerateContentDraft (en_id e 0) (en_copy_model e) tenant_id variant_id channel locale1 (en_now e 0)))"

definition generate_next_content_draft ::
  "env \<Rightarrow> principal result \<Rightarrow> web \<Rightarrow> content_draft_response option reply \<times> web" where
  "generate_next_content_draft e =
     admin_route (Some CAP_PRODUCT_MANAGE) 200 (map_option ContentDraftResponse_from_entity) (\<lambda>tenant_id _.
       on_db (CopywritingAgent_run (en_copy e) (en_copy_draws e) tenant_id))"

definition list_content_drafts_for_variant ::
  "uuid \<Rightarrow> principal result \<Rightarrow> web \<Rightarrow> content_draft_response list reply \<times> web" where
  "list_content_drafts_for_variant variant_id =
     admin_route (Some CAP_CATALOG_APPROVE) 200 (map ContentDraftResponse_from_entity)
       (\<lambda>tenant_id _. query (\<lambda>s. Inr (ListContentDraftsForVariant tenant_id variant_id s)))"

definition approve_content_draft :: "env \<Rightarrow> uuid \<Rightarrow> principal result \<Rightarrow> web \<Rightarrow> content_draft_response reply \<times> web" where
  "approve_content_draft e draft_id =
     admin_route (Some CAP_CATALOG_APPROVE) 200 ContentDraftResponse_from_entity (\<lambda>tenant_id user_id.
       exec (ApproveContentDraft (en_id e 0) tenant_id draft_id user_id (en_now e 0)))"

definition reject_content_draft ::
  "env \<Rightarrow> uuid \<Rightarrow> string \<Rightarrow> principal result \<Rightarrow> web \<Rightarrow> content_draft_response reply \<times> web" where
  "reject_content_draft e draft_id reason =
     admin_route (Some CAP_CATALOG_APPROVE) 200 ContentDraftResponse_from_entity (\<lambda>tenant_id user_id.
       exec (RejectContentDraft (en_id e 0) tenant_id draft_id reason user_id (en_now e 0)))"

definition edit_content_draft ::
  "env \<Rightarrow> uuid \<Rightarrow> string option \<Rightarrow> string \<Rightarrow> string list \<Rightarrow> string option \<Rightarrow> string \<Rightarrow> principal result \<Rightarrow> web
    \<Rightarrow> content_draft_response reply \<times> web" where
  "edit_content_draft e draft_id title body hashtags cta alt_text =
     admin_route (Some CAP_PRODUCT_MANAGE) 200 ContentDraftResponse_from_entity (\<lambda>tenant_id user_id.
       exec (EditContentDraft (en_id e 0) (en_id e 1) tenant_id draft_id user_id title body hashtags cta alt_text (en_now e 0)))"

section \<open>Publishing and domains\<close>

definition create_publication ::
  "env \<Rightarrow> uuid \<Rightarrow> uuid \<Rightarrow> uuid option \<Rightarrow> string \<Rightarrow> uuid list \<Rightarrow> string option \<Rightarrow> datetime option \<Rightarrow> principal result \<Rightarrow> web
    \<Rightarrow> publication_response reply \<times> web" where
  "create_publication e variant_id channel_id content_draft_id caption media_asset_ids link due_at =
     admin_route (Some CAP_PRODUCT_MANAGE) 202 PublicationResponse_from_entity (\<lambda>tenant_id _.
       exec (CreatePublication (en_id e 0) (en_id e 1) tenant_id variant_id channel_id content_draft_id caption media_asset_ids link
         due_at (en_now e 0)))"

definition publish_next :: "env \<Rightarrow> principal result \<Rightarrow> web \<Rightarrow> publication_response option reply \<times> web" where
  "publish_next e = admin_route (Some CAP_PRODUCT_MANAGE) 200 (map_option PublicationResponse_from_entity) (\<lambda>tenant_id _.
     on_windows (PublishChannelAgent_run (en_str_exc e) (en_channel e) (en_publish_limit e) (en_publish_draws e) tenant_id))"

definition RELEASE_LIMIT :: nat where "RELEASE_LIMIT = 50"

definition release_scheduled_publications :: "env \<Rightarrow> principal result \<Rightarrow> web \<Rightarrow> nat reply \<times> web" where
  "release_scheduled_publications e = admin_route (Some CAP_PRODUCT_MANAGE) 200 (\<lambda>released. released) (\<lambda>tenant_id _.
     exec (ReleaseScheduledPublicationsForTenant (en_id_for e) tenant_id RELEASE_LIMIT (en_now e 0)))"

definition cancel_publication :: "env \<Rightarrow> uuid \<Rightarrow> principal result \<Rightarrow> web \<Rightarrow> publication_response reply \<times> web" where
  "cancel_publication e publication_id =
     admin_route (Some CAP_PRODUCT_MANAGE) 200 PublicationResponse_from_entity (\<lambda>tenant_id user_id.
       exec (CancelPublication (en_id e 0) tenant_id publication_id user_id (en_now e 0)))"

definition fetch_metrics_next :: "env \<Rightarrow> principal result \<Rightarrow> web \<Rightarrow> publication_response option reply \<times> web" where
  "fetch_metrics_next e =
     admin_route (Some CAP_PRODUCT_MANAGE) 200 (map_option PublicationResponse_from_entity) (\<lambda>tenant_id _.
       on_db (PublicationMetricsAgent_run (en_metrics e) (en_publish_draws e) tenant_id))"

definition register_domain :: "env \<Rightarrow> string \<Rightarrow> principal result \<Rightarrow> web \<Rightarrow> tenant_domain_response reply \<times> web" where
  "register_domain e hostname =
     admin_route (Some CAP_DOMAINS_MANAGE) 201 TenantDomainResponse_from_entity (\<lambda>tenant_id user_id.
       on_platform (run_uow (RegisterTenantDomain (en_id e 0) (en_id e 1) tenant_id hostname user_id (en_now e 0))))"

definition list_domains :: "principal result \<Rightarrow> web \<Rightarrow> tenant_domain_response list reply \<times> web" where
  "list_domains = admin_route None 200 (map TenantDomainResponse_from_entity) (\<lambda>tenant_id _ w.
     (Inr (ListTenantDomains tenant_id (web_platform w)), w))"

section \<open>The operator plane and the storefront\<close>

definition impersonate ::
  "env \<Rightarrow> (access_token_claims \<Rightarrow> datetime \<Rightarrow> string) \<Rightarrow> uuid \<Rightarrow> uuid \<Rightarrow> string \<Rightarrow> principal result \<Rightarrow> web \<Rightarrow> string reply \<times> web" where
  "impersonate e encode target_user_id target_tenant_id reason = platform_route 200 (\<lambda>access_token. access_token) (\<lambda>user_id.
     on_platform (run_uow (StartImpersonation encode (en_id e 0) user_id target_user_id target_tenant_id reason (en_now e 0))))"

definition public_list_categories ::
  "uuid option \<Rightarrow> string option \<Rightarrow> web \<Rightarrow> public_category_response list reply \<times> web" where
  "public_list_categories parent_id = public_route (map PublicCategoryResponse_from_entity)
     (\<lambda>tenant_id. query (\<lambda>s. Inr (ListPublicCategoryChildren tenant_id parent_id s)))"

definition public_list_products ::
  "env \<Rightarrow> uuid option \<Rightarrow> string option \<Rightarrow> int \<Rightarrow> string option \<Rightarrow> web \<Rightarrow> public_product_response page_response reply \<times> web" where
  "public_list_products e category_id cursor limit = public_route (to_page_response PublicProductResponse_from_entity)
     (\<lambda>tenant_id. query (ListPublicProducts (en_iso_other e) tenant_id category_id cursor limit))"

definition public_get_product :: "uuid \<Rightarrow> string option \<Rightarrow> web \<Rightarrow> public_product_response reply \<times> web" where
  "public_get_product product_id =
     public_route PublicProductResponse_from_entity (\<lambda>tenant_id. query (GetPublicProduct tenant_id product_id))"

definition public_image :: "env \<Rightarrow> uuid \<Rightarrow> db \<Rightarrow> nat \<times> catalog_image \<Rightarrow> public_catalog_image_response result" where
  "public_image e tenant_id s = (\<lambda>(n, i).
     bind_result (RequestDownload (en_storage e) tenant_id (ci_asset_id i) (en_now e n) s) (\<lambda>url.
       Inr \<lparr>rpi_id = ci_id i, rpi_catalog_image_slot_id = ci_catalog_image_slot_id i, rpi_is_primary = ci_is_primary i,
            rpi_download_url = url\<rparr>))"

definition public_list_product_images ::
  "env \<Rightarrow> uuid \<Rightarrow> string option \<Rightarrow> web \<Rightarrow> public_catalog_image_response list reply \<times> web" where
  "public_list_product_images e product_id = public_route (\<lambda>images. images) (\<lambda>tenant_id. query (\<lambda>s.
     bind_result (ListPublicCatalogImagesForProduct tenant_id product_id s) (\<lambda>images.
       map_result (public_image e tenant_id s) (enumerate 0 images))))"

section \<open>Sessions\<close>

definition auth_route :: "int \<Rightarrow> ('a \<Rightarrow> 'b) \<Rightarrow> 'a platform_use_case \<Rightarrow> web \<Rightarrow> 'b reply \<times> web" where
  "auth_route code render f w = respond code render (on_platform (run_uow f) w)"

definition google_callback ::
  "env \<Rightarrow> (string \<Rightarrow> string) \<Rightarrow> (access_token_claims \<Rightarrow> datetime \<Rightarrow> string) \<Rightarrow> login_settings \<Rightarrow> login_draws
    \<Rightarrow> string \<Rightarrow> string \<Rightarrow> oidc_claims result \<Rightarrow> web \<Rightarrow> token_pair reply \<times> web" where
  "google_callback e hash_token encode cfg d expected_state state exchange =
     auth_route 200 (\<lambda>pair. pair) (CompleteLogin hash_token encode cfg d expected_state state exchange (en_now e 0))"

definition refresh_token_pair ::
  "env \<Rightarrow> (string \<Rightarrow> string) \<Rightarrow> (access_token_claims \<Rightarrow> datetime \<Rightarrow> string) \<Rightarrow> string \<Rightarrow> string \<Rightarrow> web
    \<Rightarrow> token_pair reply \<times> web" where
  "refresh_token_pair e hash_token encode drawn refresh_token =
     auth_route 200 (\<lambda>pair. pair) (RefreshSession hash_token encode drawn refresh_token (en_now e 0))"

definition select_tenant ::
  "env \<Rightarrow> (string \<Rightarrow> string) \<Rightarrow> (access_token_claims \<Rightarrow> datetime \<Rightarrow> string) \<Rightarrow> string \<Rightarrow> string \<Rightarrow> uuid \<Rightarrow> web
    \<Rightarrow> token_pair reply \<times> web" where
  "select_tenant e hash_token encode drawn refresh_token tenant_id =
     auth_route 200 (\<lambda>pair. pair) (SelectTenant hash_token encode drawn refresh_token tenant_id (en_now e 0))"

definition logout :: "env \<Rightarrow> (string \<Rightarrow> string) \<Rightarrow> string \<Rightarrow> web \<Rightarrow> unit reply \<times> web" where
  "logout e hash_token refresh_token = auth_route 204 no_content (Logout hash_token refresh_token (en_now e 0))"

end
