(* ===== verification/Http_Protocol.thy ===== *)
theory Http_Protocol
  imports Http
begin

text \<open>
  The tenant-admin plane as a whole: one rule per route, what a request may change and what it answers when it is refused.
\<close>

section \<open>The requests\<close>

definition admitted :: "capability option \<Rightarrow> principal result \<Rightarrow> principal result" where
  "admitted cap who = bind_result who (\<lambda>p. bind_result (require_tenant_context p) (if_required cap))"

text \<open>The routes that run one transaction or one query.\<close>

inductive admin_request :: "capability option \<Rightarrow> principal result \<Rightarrow> web \<Rightarrow> int \<Rightarrow> web \<Rightarrow> bool" where
  create_category: "create_category e key name slug parent_id description position who w = (r, w') \<Longrightarrow> admin_request (Some CAP_TAXONOMY_MANAGE) who w (reply_status r) w'"
| get_category: "get_category category_id who w = (r, w') \<Longrightarrow> admin_request None who w (reply_status r) w'"
| list_categories: "list_categories parent_id who w = (r, w') \<Longrightarrow> admin_request None who w (reply_status r) w'"
| update_category: "update_category e category_id name description position is_active who w = (r, w') \<Longrightarrow> admin_request (Some CAP_TAXONOMY_MANAGE) who w (reply_status r) w'"
| move_category: "move_category e category_id new_parent_id who w = (r, w') \<Longrightarrow> admin_request (Some CAP_TAXONOMY_MANAGE) who w (reply_status r) w'"
| publish_category_spec: "publish_category_spec e category_id who w = (r, w') \<Longrightarrow> admin_request (Some CAP_CATALOG_PUBLISH) who w (reply_status r) w'"
| get_published_category_spec: "get_published_category_spec category_id version who w = (r, w') \<Longrightarrow> admin_request None who w (reply_status r) w'"
| create_attribute_definition: "create_attribute_definition e category_id key label data_type help_text semantic_role is_required is_filterable is_public position validation ui default_value who w = (r, w') \<Longrightarrow> admin_request (Some CAP_TAXONOMY_MANAGE) who w (reply_status r) w'"
| list_attribute_definitions: "list_attribute_definitions category_id who w = (r, w') \<Longrightarrow> admin_request None who w (reply_status r) w'"
| update_attribute_definition: "update_attribute_definition e definition_id label help_text semantic_role is_required is_filterable is_public position validation ui default_value who w = (r, w') \<Longrightarrow> admin_request (Some CAP_TAXONOMY_MANAGE) who w (reply_status r) w'"
| create_variant_axis: "create_variant_axis e category_id key label affects_imagery position who w = (r, w') \<Longrightarrow> admin_request (Some CAP_TAXONOMY_MANAGE) who w (reply_status r) w'"
| list_variant_axes: "list_variant_axes category_id who w = (r, w') \<Longrightarrow> admin_request None who w (reply_status r) w'"
| update_variant_axis: "update_variant_axis e axis_id label affects_imagery position who w = (r, w') \<Longrightarrow> admin_request (Some CAP_TAXONOMY_MANAGE) who w (reply_status r) w'"
| create_variant_axis_value: "create_variant_axis_value e axis_id value_name label metadata who w = (r, w') \<Longrightarrow> admin_request (Some CAP_TAXONOMY_MANAGE) who w (reply_status r) w'"
| list_variant_axis_values: "list_variant_axis_values axis_id who w = (r, w') \<Longrightarrow> admin_request None who w (reply_status r) w'"
| update_variant_axis_value: "update_variant_axis_value e value_id label metadata who w = (r, w') \<Longrightarrow> admin_request (Some CAP_TAXONOMY_MANAGE) who w (reply_status r) w'"
| create_input_image_slot: "create_input_image_slot e category_id key label description capture_guidance is_required position who w = (r, w') \<Longrightarrow> admin_request (Some CAP_TAXONOMY_MANAGE) who w (reply_status r) w'"
| list_input_image_slots: "list_input_image_slots category_id who w = (r, w') \<Longrightarrow> admin_request None who w (reply_status r) w'"
| update_input_image_slot: "update_input_image_slot e slot_id label description capture_guidance example_asset_id normalisation is_required position who w = (r, w') \<Longrightarrow> admin_request (Some CAP_TAXONOMY_MANAGE) who w (reply_status r) w'"
| create_catalog_image_slot: "create_catalog_image_slot e category_id key label aspect_ratio target_width target_height description is_required position who w = (r, w') \<Longrightarrow> admin_request (Some CAP_TAXONOMY_MANAGE) who w (reply_status r) w'"
| list_catalog_image_slots: "list_catalog_image_slots category_id who w = (r, w') \<Longrightarrow> admin_request None who w (reply_status r) w'"
| update_catalog_image_slot: "update_catalog_image_slot e slot_id label description aspect_ratio target_width target_height is_required position who w = (r, w') \<Longrightarrow> admin_request (Some CAP_TAXONOMY_MANAGE) who w (reply_status r) w'"
| attach_input_to_catalog_slot: "attach_input_to_catalog_slot e catalog_image_slot_id input_image_slot_id role_name prompt_position is_required who w = (r, w') \<Longrightarrow> admin_request (Some CAP_TAXONOMY_MANAGE) who w (reply_status r) w'"
| list_catalog_slot_requirements: "list_catalog_slot_requirements catalog_image_slot_id who w = (r, w') \<Longrightarrow> admin_request None who w (reply_status r) w'"
| update_catalog_slot_requirement: "update_catalog_slot_requirement e catalog_image_slot_id input_image_slot_id role_name prompt_position is_required who w = (r, w') \<Longrightarrow> admin_request (Some CAP_TAXONOMY_MANAGE) who w (reply_status r) w'"
| detach_input_from_catalog_slot: "detach_input_from_catalog_slot e catalog_image_slot_id input_image_slot_id who w = (r, w') \<Longrightarrow> admin_request (Some CAP_TAXONOMY_MANAGE) who w (reply_status r) w'"
| upsert_tenant_setting: "upsert_tenant_setting e key v who w = (r, w') \<Longrightarrow> admin_request (Some CAP_SETTINGS_MANAGE) who w (reply_status r) w'"
| upsert_category_setting: "upsert_category_setting e category_id key v who w = (r, w') \<Longrightarrow> admin_request (Some CAP_SETTINGS_MANAGE) who w (reply_status r) w'"
| upsert_product_setting: "upsert_product_setting e product_id key v who w = (r, w') \<Longrightarrow> admin_request (Some CAP_SETTINGS_MANAGE) who w (reply_status r) w'"
| resolve_setting: "resolve_setting key category_id product_id who w = (r, w') \<Longrightarrow> admin_request None who w (reply_status r) w'"
| request_upload: "request_upload e kind extension content_type who w = (r, w') \<Longrightarrow> admin_request (Some CAP_TEMPLATE_MANAGE) who w (reply_status r) w'"
| request_download: "request_download e wanted who w = (r, w') \<Longrightarrow> admin_request (Some CAP_TEMPLATE_MANAGE) who w (reply_status r) w'"
| create_authored_template: "create_authored_template e slot_id name prompt_template who w = (r, w') \<Longrightarrow> admin_request (Some CAP_TEMPLATE_MANAGE) who w (reply_status r) w'"
| create_template_from_upload: "create_template_from_upload e slot_id name source_asset_id who w = (r, w') \<Longrightarrow> admin_request (Some CAP_TEMPLATE_MANAGE) who w (reply_status r) w'"
| seed_stock_presets: "seed_stock_presets e slot_id who w = (r, w') \<Longrightarrow> admin_request (Some CAP_TEMPLATE_MANAGE) who w (reply_status r) w'"
| list_templates: "list_templates slot_id who w = (r, w') \<Longrightarrow> admin_request None who w (reply_status r) w'"
| archive_template: "archive_template e template_id who w = (r, w') \<Longrightarrow> admin_request (Some CAP_TEMPLATE_MANAGE) who w (reply_status r) w'"
| create_product: "create_product e category_id attributes who w = (r, w') \<Longrightarrow> admin_request (Some CAP_PRODUCT_MANAGE) who w (reply_status r) w'"
| list_products: "list_products e category_id cursor limit who w = (r, w') \<Longrightarrow> admin_request (Some CAP_PRODUCT_MANAGE) who w (reply_status r) w'"
| recompute_product_readiness: "recompute_product_readiness e product_id who w = (r, w') \<Longrightarrow> admin_request (Some CAP_PRODUCT_MANAGE) who w (reply_status r) w'"
| create_product_variant: "create_product_variant e product_id axis_values sku attributes is_default position who w = (r, w') \<Longrightarrow> admin_request (Some CAP_PRODUCT_MANAGE) who w (reply_status r) w'"
| capture_product_input_image: "capture_product_input_image e product_id input_image_slot_id captured variant_id who w = (r, w') \<Longrightarrow> admin_request (Some CAP_PRODUCT_MANAGE) who w (reply_status r) w'"
| create_generation_request: "create_generation_request e product_id variant_id who w = (r, w') \<Longrightarrow> admin_request (Some CAP_PRODUCT_MANAGE) who w (reply_status r) w'"
| fan_out_generation_items: "fan_out_generation_items e generation_request_id who w = (r, w') \<Longrightarrow> admin_request (Some CAP_PRODUCT_MANAGE) who w (reply_status r) w'"
| reap_stuck_jobs: "reap_stuck_jobs e who w = (r, w') \<Longrightarrow> admin_request (Some CAP_PRODUCT_MANAGE) who w (reply_status r) w'"
| reconcile_generation_requests: "reconcile_generation_requests e who w = (r, w') \<Longrightarrow> admin_request (Some CAP_PRODUCT_MANAGE) who w (reply_status r) w'"
| list_catalog_images_for_review: "list_catalog_images_for_review e status product_id cursor limit who w = (r, w') \<Longrightarrow> admin_request (Some CAP_CATALOG_APPROVE) who w (reply_status r) w'"
| approve_catalog_image: "approve_catalog_image e image_id who w = (r, w') \<Longrightarrow> admin_request (Some CAP_CATALOG_APPROVE) who w (reply_status r) w'"
| reject_catalog_image: "reject_catalog_image e image_id reason who w = (r, w') \<Longrightarrow> admin_request (Some CAP_CATALOG_APPROVE) who w (reply_status r) w'"
| bulk_approve_catalog_images_for_product: "bulk_approve_catalog_images_for_product e product_id who w = (r, w') \<Longrightarrow> admin_request (Some CAP_CATALOG_APPROVE) who w (reply_status r) w'"
| generate_content_draft: "generate_content_draft e variant_id channel locale1 who w = (r, w') \<Longrightarrow> admin_request (Some CAP_PRODUCT_MANAGE) who w (reply_status r) w'"
| list_content_drafts_for_variant: "list_content_drafts_for_variant variant_id who w = (r, w') \<Longrightarrow> admin_request (Some CAP_CATALOG_APPROVE) who w (reply_status r) w'"
| approve_content_draft: "approve_content_draft e draft_id who w = (r, w') \<Longrightarrow> admin_request (Some CAP_CATALOG_APPROVE) who w (reply_status r) w'"
| reject_content_draft: "reject_content_draft e draft_id reason who w = (r, w') \<Longrightarrow> admin_request (Some CAP_CATALOG_APPROVE) who w (reply_status r) w'"
| edit_content_draft: "edit_content_draft e draft_id title body hashtags cta alt_text who w = (r, w') \<Longrightarrow> admin_request (Some CAP_PRODUCT_MANAGE) who w (reply_status r) w'"
| create_publication: "create_publication e variant_id channel_id content_draft_id caption media_asset_ids link due_at who w = (r, w') \<Longrightarrow> admin_request (Some CAP_PRODUCT_MANAGE) who w (reply_status r) w'"
| release_scheduled_publications: "release_scheduled_publications e who w = (r, w') \<Longrightarrow> admin_request (Some CAP_PRODUCT_MANAGE) who w (reply_status r) w'"
| cancel_publication: "cancel_publication e publication_id who w = (r, w') \<Longrightarrow> admin_request (Some CAP_PRODUCT_MANAGE) who w (reply_status r) w'"
| register_domain: "register_domain e hostname who w = (r, w') \<Longrightarrow> admin_request (Some CAP_DOMAINS_MANAGE) who w (reply_status r) w'"
| list_domains: "list_domains who w = (r, w') \<Longrightarrow> admin_request None who w (reply_status r) w'"

text \<open>The routes that run an agent: several transactions with calls to a provider between them.\<close>

inductive agent_request :: "capability option \<Rightarrow> principal result \<Rightarrow> web \<Rightarrow> int \<Rightarrow> web \<Rightarrow> bool" where
  analyse_template: "analyse_template e template_id who w = (r, w') \<Longrightarrow> agent_request (Some CAP_TEMPLATE_MANAGE) who w (reply_status r) w'"
| validate_captured_image: "validate_captured_image e image_id who w = (r, w') \<Longrightarrow> agent_request (Some CAP_PRODUCT_MANAGE) who w (reply_status r) w'"
| render_next_generation_item: "render_next_generation_item e who w = (r, w') \<Longrightarrow> agent_request (Some CAP_PRODUCT_MANAGE) who w (reply_status r) w'"
| qc_next_catalog_image: "qc_next_catalog_image e who w = (r, w') \<Longrightarrow> agent_request (Some CAP_PRODUCT_MANAGE) who w (reply_status r) w'"
| generate_next_content_draft: "generate_next_content_draft e who w = (r, w') \<Longrightarrow> agent_request (Some CAP_PRODUCT_MANAGE) who w (reply_status r) w'"
| publish_next: "publish_next e who w = (r, w') \<Longrightarrow> agent_request (Some CAP_PRODUCT_MANAGE) who w (reply_status r) w'"
| fetch_metrics_next: "fetch_metrics_next e who w = (r, w') \<Longrightarrow> agent_request (Some CAP_PRODUCT_MANAGE) who w (reply_status r) w'"

lemmas request_defs =
  create_category_def get_category_def list_categories_def update_category_def move_category_def
  publish_category_spec_def get_published_category_spec_def create_attribute_definition_def
  list_attribute_definitions_def update_attribute_definition_def create_variant_axis_def list_variant_axes_def
  update_variant_axis_def create_variant_axis_value_def list_variant_axis_values_def update_variant_axis_value_def
  create_input_image_slot_def list_input_image_slots_def update_input_image_slot_def create_catalog_image_slot_def
  list_catalog_image_slots_def update_catalog_image_slot_def attach_input_to_catalog_slot_def
  list_catalog_slot_requirements_def update_catalog_slot_requirement_def detach_input_from_catalog_slot_def
  upsert_tenant_setting_def upsert_category_setting_def upsert_product_setting_def resolve_setting_def
  request_upload_def request_download_def create_authored_template_def create_template_from_upload_def
  seed_stock_presets_def list_templates_def archive_template_def create_product_def list_products_def
  recompute_product_readiness_def create_product_variant_def capture_product_input_image_def
  create_generation_request_def fan_out_generation_items_def reap_stuck_jobs_def reconcile_generation_requests_def
  list_catalog_images_for_review_def approve_catalog_image_def reject_catalog_image_def
  bulk_approve_catalog_images_for_product_def generate_content_draft_def list_content_drafts_for_variant_def
  approve_content_draft_def reject_content_draft_def edit_content_draft_def create_publication_def
  release_scheduled_publications_def cancel_publication_def register_domain_def list_domains_def

lemmas agent_request_defs =
  analyse_template_def validate_captured_image_def render_next_generation_item_def qc_next_catalog_image_def
  generate_next_content_draft_def publish_next_def fetch_metrics_next_def

section \<open>What a gate lets through\<close>

lemma status_problem [simp]: "reply_status (problem_of e :: 'a reply) = status_of_exception e"
  by (simp add: problem_of_def status_of_exception_def split: exn.splits)

text \<open>Capabilities of a tenant member, and the tenant.\<close>

definition entitled :: "capability option \<Rightarrow> principal \<Rightarrow> bool" where
  "entitled cap p \<longleftrightarrow> pr_tenant_id p \<noteq> None
     \<and> (case cap of None \<Rightarrow> True | Some c \<Rightarrow> capability_value c \<in> set (pr_capabilities p))"

lemma admitted_Inr: "admitted cap who = Inr p \<longleftrightarrow> who = Inr p \<and> entitled cap p"
  by (auto simp: admitted_def bind_result_eq_Inr require_tenant_context_def if_required_def require_capability_def
      Principal_require_capability_def Principal_has_capability_def entitled_def split: option.splits if_splits)

lemma not_entitled_403: "\<not> entitled cap p \<Longrightarrow> \<exists>e. admitted cap (Inr p) = Inl e \<and> status_of_exception e = 403"
  by (cases cap) (auto simp: admitted_def require_tenant_context_def if_required_def require_capability_def
      Principal_require_capability_def Principal_has_capability_def entitled_def status_of_exception_def)

lemma admin_route_refused:
  "admitted cap who = Inl e \<Longrightarrow> admin_route cap code render act who w = (problem_of e, w)"
  by (simp add: admin_route_def admitted_def)

lemma admin_route_admitted:
  assumes "admitted cap who = Inr p" and "pr_tenant_id p = Some T"
  shows "admin_route cap code render act who w = respond code render (act T (pr_user_id p) w)"
  using assms by (simp add: admin_route_def admitted_def)

text \<open>
  An action is atomic when an error leaves everything as it was, which a transaction and a query are.
\<close>

definition atomic :: "(uuid \<Rightarrow> uuid \<Rightarrow> 'a action) \<Rightarrow> bool" where
  "atomic act \<longleftrightarrow> (\<forall>T u w e w'. act T u w = (Inl e, w') \<longrightarrow> w' = w)"

lemma atomic_run: "atomic (\<lambda>T u. on_platform (run_uow (f T u)))"
  by (auto simp: atomic_def on_platform_def run_uow_def split: sum.splits prod.splits)

lemma atomic_exec: "atomic (\<lambda>T u. exec (f T u))"
  by (auto simp: atomic_def exec_def on_db_def on_platform_def run_uow_def split: sum.splits prod.splits)

lemma atomic_query: "atomic (\<lambda>T u. query (f T u))" "atomic (\<lambda>T u w. (Inr (g T u w), w))"
  by (auto simp: atomic_def query_def)

lemmas atomics = atomic_run atomic_exec atomic_query

text \<open>What the caller of a route observes.\<close>

definition answered :: "capability option \<Rightarrow> principal result \<Rightarrow> web \<Rightarrow> int \<Rightarrow> web \<Rightarrow> bool" where
  "answered cap who w st w' \<longleftrightarrow>
     (case admitted cap who of
        Inl e \<Rightarrow> st = status_of_exception e \<and> w' = w
      | Inr _ \<Rightarrow> st \<in> {200, 201, 202, 204} \<or> (\<exists>e. st = status_of_exception e) \<and> w' = w)"

lemma admin_route_answered:
  assumes "admin_route cap code render act who w = (r, w')" and "atomic act" and "code \<in> {200, 201, 202, 204}"
  shows "answered cap who w (reply_status r) w'"
proof (cases "admitted cap who")
  case (Inl e)
  with assms(1) admin_route_refused [OF Inl, of code render act w] show ?thesis by (auto simp: answered_def)
next
  case (Inr p)
  then obtain T where T: "pr_tenant_id p = Some T" by (auto simp: admitted_Inr entitled_def)
  obtain x w1 where x: "act T (pr_user_id p) w = (x, w1)" by fastforce
  from assms(1) admin_route_admitted [OF Inr T, of code render act w] x have r: "respond code render (x, w1) = (r, w')" by simp
  show ?thesis
  proof (cases x)
    case (Inl e)
    with assms(2) x have "w1 = w" by (auto simp: atomic_def)
    with Inl r Inr show ?thesis by (auto simp: answered_def respond_def)
  qed (use r Inr assms(3) in \<open>auto simp: answered_def respond_def\<close>)
qed

lemma admin_request_answered: "admin_request cap who w st w' \<Longrightarrow> answered cap who w st w'"
  by (induction rule: admin_request.induct) (unfold request_defs, (erule admin_route_answered, rule atomics, simp)+)

lemma admin_route_authorised:
  assumes "admin_route cap code render act who w = (r, w')"
  shows "(\<exists>e. admitted cap who = Inl e \<and> w' = w) \<or> (\<exists>p. admitted cap who = Inr p)"
  using assms admin_route_refused [of cap who _ code render act w] by (cases "admitted cap who") auto

lemma agent_request_authorised:
  "agent_request cap who w st w' \<Longrightarrow> (\<exists>e. admitted cap who = Inl e \<and> w' = w) \<or> (\<exists>p. admitted cap who = Inr p)"
  by (induction rule: agent_request.induct) (unfold agent_request_defs, (erule admin_route_authorised)+)

text \<open>The routes without a capability of their own are the reading ones.\<close>

definition reads :: "(uuid \<Rightarrow> uuid \<Rightarrow> 'a action) \<Rightarrow> bool" where
  "reads act \<longleftrightarrow> (\<forall>T u w. snd (act T u w) = w)"

lemma reads_query: "reads (\<lambda>T u. query (f T u))" "reads (\<lambda>T u w. (Inr (g T u w), w))"
  by (simp_all add: reads_def query_def)

lemma admin_route_reads:
  assumes "admin_route cap code render act who w = (r, w')" and "reads act"
  shows "w' = w"
proof (cases "admitted cap who")
  case (Inr p)
  then obtain T where T: "pr_tenant_id p = Some T" by (auto simp: admitted_Inr entitled_def)
  from assms(1) admin_route_admitted [OF Inr T, of code render act w] have "respond code render (act T (pr_user_id p) w) = (r, w')" by simp
  with assms(2) show ?thesis
    unfolding respond_def reads_def by (metis (mono_tags, lifting) case_prod_beta snd_conv)
qed (use assms(1) admin_route_refused [of cap who _ code render act w] in auto)

lemma admin_request_reads: "admin_request cap who w st w' \<Longrightarrow> cap = None \<longrightarrow> w' = w"
  by (induction rule: admin_request.induct)
    (simp_all only: simp_thms option.distinct, unfold request_defs, (erule admin_route_reads, rule reads_query)+)

lemma agent_request_capability: "agent_request cap who w st w' \<Longrightarrow> cap \<noteq> None"
  by (induction rule: agent_request.induct) simp_all

section \<open>What each route promises\<close>

text \<open>
  The status of an error as the table of api/errors.py has it, a conflict for what a constraint of the database refused, and
  500 for anything else.
\<close>

fun documented_status :: "exn \<Rightarrow> int" where
  "documented_status (AppError ValidationErrorC _ _) = 422"
| "documented_status (AppError NotFoundErrorC _ _) = 404"
| "documented_status (AppError ConflictErrorC _ _) = 409"
| "documented_status (AppError AuthenticationErrorC _ _) = 401"
| "documented_status (AppError PermissionDeniedErrorC _ _) = 403"
| "documented_status (AppError QuotaExceededErrorC _ _) = 402"
| "documented_status (AppError RateLimitedErrorC _ _) = 429"
| "documented_status (AppError UnavailableErrorC _ _) = 503"
| "documented_status (IntegrityError _) = 409"
| "documented_status _ = 500"

lemma documented_status_eq: "status_of_exception e = documented_status e"
  by (cases e rule: documented_status.cases) (simp_all add: status_of_exception_def)

text \<open>What a route does to the tables of the platform, for a tenant and a user: it fails, or it leaves these tables.\<close>

type_synonym work = "uuid \<Rightarrow> uuid \<Rightarrow> platform \<Rightarrow> platform result"

definition changes :: "(uuid \<Rightarrow> uuid \<Rightarrow> 'a use_case) \<Rightarrow> work" where
  "changes f T u p = (case f T u (pf_db p) of Inl e \<Rightarrow> Inl e | Inr (_, s) \<Rightarrow> Inr (p\<lparr>pf_db := s\<rparr>))"

definition looks :: "(uuid \<Rightarrow> uuid \<Rightarrow> db \<Rightarrow> 'a result) \<Rightarrow> work" where
  "looks f T u p = (case f T u (pf_db p) of Inl e \<Rightarrow> Inl e | Inr _ \<Rightarrow> Inr p)"

definition on_tables :: "(uuid \<Rightarrow> uuid \<Rightarrow> 'a platform_use_case) \<Rightarrow> work" where
  "on_tables f T u p = (case f T u p of Inl e \<Rightarrow> Inl e | Inr (_, p') \<Rightarrow> Inr p')"

text \<open>The status and the server a handler leaves, and the contract it is to meet.\<close>

type_synonym observation = "principal result \<Rightarrow> web \<Rightarrow> int \<times> web"

definition observed :: "(principal result \<Rightarrow> web \<Rightarrow> 'b reply \<times> web) \<Rightarrow> observation" where
  "observed handler who w = map_prod reply_status (\<lambda>w'. w') (handler who w)"

definition promised :: "capability option \<Rightarrow> int \<Rightarrow> work \<Rightarrow> observation" where
  "promised cap code f who w =
     (case who of
        Inl e \<Rightarrow> (documented_status e, w)
      | Inr p \<Rightarrow> (case pr_tenant_id p of
          None \<Rightarrow> (403, w)
        | Some T \<Rightarrow>
            if case cap of None \<Rightarrow> True | Some c \<Rightarrow> capability_value c \<in> set (pr_capabilities p)
            then (case f T (pr_user_id p) (web_platform w) of
                    Inl e \<Rightarrow> (documented_status e, w)
                  | Inr tables \<Rightarrow> (code, w\<lparr>web_platform := tables\<rparr>))
            else (403, w)))"

lemma observed_admin_route:
  assumes "\<And>T u. (case act T u w of (Inl e, w') \<Rightarrow> f T u (web_platform w) = Inl e \<and> w' = w
                    | (Inr x, w') \<Rightarrow> f T u (web_platform w) = Inr (web_platform w') \<and> w' = w\<lparr>web_platform := web_platform w'\<rparr>)"
  shows "observed (admin_route cap code render act) who w = promised cap code f who w"
proof (cases who)
  case (Inl e)
  then show ?thesis
    by (simp add: observed_def promised_def admin_route_def documented_status_eq)
next
  case (Inr p)
  show ?thesis
  proof (cases "entitled cap p")
    case True
    then obtain T where T: "pr_tenant_id p = Some T" by (auto simp: entitled_def)
    from Inr True have "admitted cap who = Inr p" by (simp add: admitted_Inr)
    with T have "observed (admin_route cap code render act) who w = map_prod reply_status (\<lambda>w'. w') (respond code render (act T (pr_user_id p) w))"
      by (simp add: observed_def admin_route_admitted)
    with True Inr T assms [of T "pr_user_id p"] show ?thesis
      by (auto simp: promised_def entitled_def respond_def documented_status_eq split: sum.splits prod.splits)
  next
    case False
    then obtain e where e: "admitted cap (Inr p) = Inl e" "status_of_exception e = 403" using not_entitled_403 by blast
    with Inr have "observed (admin_route cap code render act) who w = (403, w)"
      by (simp add: observed_def admin_route_refused)
    with Inr False show ?thesis by (auto simp: promised_def entitled_def split: option.splits)
  qed
qed

lemma observed_exec: "observed (admin_route cap code render (\<lambda>T u. exec (f T u))) who w = promised cap code (changes f) who w"
  by (rule observed_admin_route)
    (auto simp: exec_def on_db_def on_platform_def run_uow_def changes_def split: sum.splits prod.splits)

lemma observed_query: "observed (admin_route cap code render (\<lambda>T u. query (f T u))) who w = promised cap code (looks f) who w"
  by (rule observed_admin_route) (auto simp: query_def looks_def split: sum.splits)

lemma observed_tables:
  "observed (admin_route cap code render (\<lambda>T u. on_platform (run_uow (f T u)))) who w = promised cap code (on_tables f) who w"
  "observed (admin_route cap code render (\<lambda>T u w. (Inr (g T u (web_platform w)), w))) who w
    = promised cap code (on_tables (\<lambda>T u p. Inr (g T u p, p))) who w"
  by (rule observed_admin_route, auto simp: on_platform_def run_uow_def on_tables_def split: sum.splits prod.splits)+

lemmas observed_routes = observed_exec observed_query observed_tables

text \<open>The routes of one transaction or one query: capability, success status, handler, what it does to the tables.\<close>

inductive admin_table :: "capability option \<Rightarrow> int \<Rightarrow> observation \<Rightarrow> work \<Rightarrow> bool" where
  create_category: "admin_table (Some CAP_TAXONOMY_MANAGE) 201 (observed (create_category e key name slug parent_id description
      position))
    (changes (\<lambda>tenant_id user_id. CreateCategory (en_id e 0) (en_id e 1) tenant_id key name slug parent_id description
      position user_id (en_now e 0)))"
| get_category: "admin_table None 200 (observed (get_category category_id))
    (looks (\<lambda>tenant_id _. GetCategory tenant_id category_id))"
| list_categories: "admin_table None 200 (observed (list_categories parent_id))
    (looks (\<lambda>tenant_id _ s. Inr (ListCategoryChildren tenant_id parent_id s)))"
| update_category: "admin_table (Some CAP_TAXONOMY_MANAGE) 200 (observed (update_category e category_id name description
      position is_active))
    (changes (\<lambda>tenant_id user_id. UpdateCategory (en_id e 0) tenant_id category_id name description position is_active
      user_id (en_now e 0)))"
| move_category: "admin_table (Some CAP_TAXONOMY_MANAGE) 204 (observed (move_category e category_id new_parent_id))
    (changes (\<lambda>tenant_id user_id. MoveCategory (en_id e 0) tenant_id category_id new_parent_id user_id (en_now e 0)))"
| publish_category_spec: "admin_table (Some CAP_CATALOG_PUBLISH) 200 (observed (publish_category_spec e category_id))
    (changes (\<lambda>tenant_id user_id. PublishCategorySpec (en_id e 0) (en_id e 1) tenant_id category_id user_id (en_now e
      0)))"
| get_published_category_spec: "admin_table None 200 (observed (get_published_category_spec category_id version))
    (looks (\<lambda>tenant_id _. GetPublishedCategorySpec tenant_id category_id version))"
| create_attribute_definition: "admin_table (Some CAP_TAXONOMY_MANAGE) 201 (observed (create_attribute_definition e category_id
      key label data_type help_text semantic_role is_required is_filterable is_public position validation ui default_value))
    (changes (\<lambda>tenant_id user_id. CreateAttributeDefinition (en_id e 0) (en_id e 1) tenant_id category_id key label
      data_type help_text semantic_role is_required is_filterable is_public position validation ui default_value user_id
      (en_now e 0)))"
| list_attribute_definitions: "admin_table None 200 (observed (list_attribute_definitions category_id))
    (looks (\<lambda>tenant_id _ s. Inr (ListAttributeDefinitions tenant_id category_id s)))"
| update_attribute_definition: "admin_table (Some CAP_TAXONOMY_MANAGE) 200 (observed (update_attribute_definition e
      definition_id label help_text semantic_role is_required is_filterable is_public position validation ui default_value))
    (changes (\<lambda>tenant_id user_id. UpdateAttributeDefinition (en_id e 0) tenant_id definition_id label help_text
      semantic_role is_required is_filterable is_public position validation ui default_value user_id (en_now e 0)))"
| create_variant_axis: "admin_table (Some CAP_TAXONOMY_MANAGE) 201 (observed (create_variant_axis e category_id key label
      affects_imagery position))
    (changes (\<lambda>tenant_id user_id. CreateVariantAxis (en_id e 0) (en_id e 1) tenant_id category_id key label
      affects_imagery position user_id (en_now e 0)))"
| list_variant_axes: "admin_table None 200 (observed (list_variant_axes category_id))
    (looks (\<lambda>tenant_id _ s. Inr (ListVariantAxes tenant_id category_id s)))"
| update_variant_axis: "admin_table (Some CAP_TAXONOMY_MANAGE) 200 (observed (update_variant_axis e axis_id label
      affects_imagery position))
    (changes (\<lambda>tenant_id user_id. UpdateVariantAxis (en_id e 0) tenant_id axis_id label affects_imagery position
      user_id (en_now e 0)))"
| create_variant_axis_value: "admin_table (Some CAP_TAXONOMY_MANAGE) 201 (observed (create_variant_axis_value e axis_id
      value_name label metadata))
    (changes (\<lambda>tenant_id user_id. CreateVariantAxisValue (en_id e 0) (en_id e 1) tenant_id axis_id value_name label
      metadata user_id (en_now e 0)))"
| list_variant_axis_values: "admin_table None 200 (observed (list_variant_axis_values axis_id))
    (looks (\<lambda>tenant_id _ s. Inr (ListVariantAxisValues tenant_id axis_id s)))"
| update_variant_axis_value: "admin_table (Some CAP_TAXONOMY_MANAGE) 200 (observed (update_variant_axis_value e value_id label
      metadata))
    (changes (\<lambda>tenant_id user_id. UpdateVariantAxisValue (en_id e 0) tenant_id value_id label metadata user_id (en_now
      e 0)))"
| create_input_image_slot: "admin_table (Some CAP_TAXONOMY_MANAGE) 201 (observed (create_input_image_slot e category_id key
      label description capture_guidance is_required position))
    (changes (\<lambda>tenant_id user_id. CreateInputImageSlot (en_id e 0) (en_id e 1) tenant_id category_id key label
      description capture_guidance None None is_required position user_id (en_now e 0)))"
| list_input_image_slots: "admin_table None 200 (observed (list_input_image_slots category_id))
    (looks (\<lambda>tenant_id _ s. Inr (ListInputImageSlots tenant_id category_id s)))"
| update_input_image_slot: "admin_table (Some CAP_TAXONOMY_MANAGE) 200 (observed (update_input_image_slot e slot_id label
      description capture_guidance example_asset_id normalisation is_required position))
    (changes (\<lambda>tenant_id user_id. UpdateInputImageSlot (en_id e 0) tenant_id slot_id label description
      capture_guidance example_asset_id normalisation is_required position user_id (en_now e 0)))"
| create_catalog_image_slot: "admin_table (Some CAP_TAXONOMY_MANAGE) 201 (observed (create_catalog_image_slot e category_id key
      label aspect_ratio target_width target_height description is_required position))
    (changes (\<lambda>tenant_id user_id. CreateCatalogImageSlot (en_id e 0) (en_id e 1) tenant_id category_id key label
      aspect_ratio target_width target_height description is_required position user_id (en_now e 0)))"
| list_catalog_image_slots: "admin_table None 200 (observed (list_catalog_image_slots category_id))
    (looks (\<lambda>tenant_id _ s. Inr (ListCatalogImageSlots tenant_id category_id s)))"
| update_catalog_image_slot: "admin_table (Some CAP_TAXONOMY_MANAGE) 200 (observed (update_catalog_image_slot e slot_id label
      description aspect_ratio target_width target_height is_required position))
    (changes (\<lambda>tenant_id user_id. UpdateCatalogImageSlot (en_id e 0) tenant_id slot_id label description aspect_ratio
      target_width target_height is_required position user_id (en_now e 0)))"
| attach_input_to_catalog_slot: "admin_table (Some CAP_TAXONOMY_MANAGE) 201 (observed (attach_input_to_catalog_slot e
      catalog_image_slot_id input_image_slot_id role_name prompt_position is_required))
    (changes (\<lambda>tenant_id user_id. AttachInputToCatalogSlot (en_id e 0) (en_id e 1) tenant_id catalog_image_slot_id
      input_image_slot_id role_name prompt_position is_required user_id (en_now e 0)))"
| list_catalog_slot_requirements: "admin_table None 200 (observed (list_catalog_slot_requirements catalog_image_slot_id))
    (looks (\<lambda>tenant_id _ s. Inr (ListCatalogSlotInputRequirements tenant_id catalog_image_slot_id s)))"
| update_catalog_slot_requirement: "admin_table (Some CAP_TAXONOMY_MANAGE) 200 (observed (update_catalog_slot_requirement e
      catalog_image_slot_id input_image_slot_id role_name prompt_position is_required))
    (changes (\<lambda>tenant_id user_id. UpdateCatalogSlotInputRequirement (en_id e 0) tenant_id catalog_image_slot_id
      input_image_slot_id role_name prompt_position is_required user_id (en_now e 0)))"
| detach_input_from_catalog_slot: "admin_table (Some CAP_TAXONOMY_MANAGE) 204 (observed (detach_input_from_catalog_slot e
      catalog_image_slot_id input_image_slot_id))
    (changes (\<lambda>tenant_id user_id. DetachInputFromCatalogSlot (en_id e 0) tenant_id catalog_image_slot_id
      input_image_slot_id user_id (en_now e 0)))"
| upsert_tenant_setting: "admin_table (Some CAP_SETTINGS_MANAGE) 200 (observed (upsert_tenant_setting e key v))
    (changes (\<lambda>tenant_id _. UpsertSetting (en_id e 0) (Some tenant_id) SCOPE_TENANT None key v (en_now e 0)))"
| upsert_category_setting: "admin_table (Some CAP_SETTINGS_MANAGE) 200 (observed (upsert_category_setting e category_id key v))
    (changes (\<lambda>tenant_id _. UpsertSetting (en_id e 0) (Some tenant_id) SCOPE_CATEGORY (Some category_id) key v (en_now
      e 0)))"
| upsert_product_setting: "admin_table (Some CAP_SETTINGS_MANAGE) 200 (observed (upsert_product_setting e product_id key v))
    (changes (\<lambda>tenant_id _. UpsertSetting (en_id e 0) (Some tenant_id) SCOPE_PRODUCT (Some product_id) key v (en_now e
      0)))"
| resolve_setting: "admin_table None 200 (observed (resolve_setting key category_id product_id))
    (looks (\<lambda>tenant_id _. ResolveSetting tenant_id key category_id product_id))"
| request_upload: "admin_table (Some CAP_TEMPLATE_MANAGE) 201 (observed (request_upload e kind extension content_type))
    (looks (\<lambda>tenant_id user_id. \<lambda>_. RequestUpload (en_storage e) (en_id e 0) tenant_id kind extension
      content_type user_id (en_now e 0)))"
| request_download: "admin_table (Some CAP_TEMPLATE_MANAGE) 200 (observed (request_download e wanted))
    (looks (\<lambda>tenant_id _. RequestDownload (en_storage e) tenant_id wanted (en_now e 0)))"
| create_authored_template: "admin_table (Some CAP_TEMPLATE_MANAGE) 201 (observed (create_authored_template e slot_id name
      prompt_template))
    (changes (\<lambda>tenant_id user_id. CreateAuthoredTemplate (en_id e 0) (en_id e 1) tenant_id slot_id name
      prompt_template user_id (en_now e 0)))"
| create_template_from_upload: "admin_table (Some CAP_TEMPLATE_MANAGE) 201 (observed (create_template_from_upload e slot_id name
      source_asset_id))
    (changes (\<lambda>tenant_id user_id. CreateTemplateFromUpload (en_id e 0) (en_id e 1) tenant_id slot_id name
      source_asset_id user_id (en_now e 0)))"
| seed_stock_presets: "admin_table (Some CAP_TEMPLATE_MANAGE) 201 (observed (seed_stock_presets e slot_id))
    (changes (\<lambda>tenant_id user_id. SeedStockPresets (\<lambda>n. en_id e (n + 1)) (en_id e 0) tenant_id slot_id user_id
      DEFAULT_STOCK_SCENE_PRESETS (en_now e 0)))"
| list_templates: "admin_table None 200 (observed (list_templates slot_id))
    (looks (\<lambda>tenant_id _ s. Inr (ListTemplates tenant_id slot_id s)))"
| archive_template: "admin_table (Some CAP_TEMPLATE_MANAGE) 200 (observed (archive_template e template_id))
    (changes (\<lambda>tenant_id _. ArchiveTemplate tenant_id template_id (en_now e 0)))"
| create_product: "admin_table (Some CAP_PRODUCT_MANAGE) 201 (observed (create_product e category_id attributes))
    (changes (\<lambda>tenant_id user_id. CreateProduct (en_model_validate e) (en_id e 0) (en_id e 1) tenant_id category_id
      attributes user_id (en_now e 0)))"
| list_products: "admin_table (Some CAP_PRODUCT_MANAGE) 200 (observed (list_products e category_id cursor limit))
    (looks (\<lambda>tenant_id _. ListProducts (en_iso_other e) tenant_id category_id cursor limit))"
| recompute_product_readiness: "admin_table (Some CAP_PRODUCT_MANAGE) 200 (observed (recompute_product_readiness e product_id))
    (changes (\<lambda>tenant_id _. RecomputeProductReadiness tenant_id product_id (en_now e 0)))"
| create_product_variant: "admin_table (Some CAP_PRODUCT_MANAGE) 201 (observed (create_product_variant e product_id axis_values
      sku attributes is_default position))
    (changes (\<lambda>tenant_id user_id. CreateProductVariant (en_id e 0) (en_id e 1) tenant_id product_id axis_values
      user_id sku (Some attributes) is_default position (en_now e 0)))"
| capture_product_input_image: "admin_table (Some CAP_PRODUCT_MANAGE) 201 (observed (capture_product_input_image e product_id
      input_image_slot_id captured variant_id))
    (changes (\<lambda>tenant_id user_id. CaptureProductInputImage (en_id e 0) (en_id e 1) tenant_id product_id
      input_image_slot_id captured user_id variant_id (en_now e 0)))"
| create_generation_request: "admin_table (Some CAP_PRODUCT_MANAGE) 201 (observed (create_generation_request e product_id
      variant_id))
    (changes (\<lambda>tenant_id user_id. CreateGenerationRequest (en_id e 0) (en_id e 1) (en_id e 2) tenant_id product_id
      variant_id user_id (en_now e 0)))"
| fan_out_generation_items: "admin_table (Some CAP_PRODUCT_MANAGE) 200 (observed (fan_out_generation_items e
      generation_request_id))
    (changes (\<lambda>tenant_id _. FanOutGenerationItems (en_image_provider e) (en_image_model e) (en_items e) (en_id e 0)
      tenant_id generation_request_id (en_now e 0)))"
| reap_stuck_jobs: "admin_table (Some CAP_PRODUCT_MANAGE) 200 (observed (reap_stuck_jobs e))
    (changes (\<lambda>tenant_id _ s. bind_result (ReapStuckTaskQueueJobs (en_jitter_for e) tenant_id (en_now e 0)
      (db_jobs s)) (\<lambda>(n, q). Inr (n, s\<lparr>db_jobs := q\<rparr>))))"
| reconcile_generation_requests: "admin_table (Some CAP_PRODUCT_MANAGE) 200 (observed (reconcile_generation_requests e))
    (changes (\<lambda>tenant_id _. ReconcileGenerationRequestsForTenant tenant_id RECONCILE_LIMIT (en_now e 0)))"
| list_catalog_images_for_review: "admin_table (Some CAP_CATALOG_APPROVE) 200 (observed (list_catalog_images_for_review e status
      product_id cursor limit))
    (looks (\<lambda>tenant_id _. ListCatalogImagesForReview (en_iso_other e) tenant_id status product_id cursor limit))"
| approve_catalog_image: "admin_table (Some CAP_CATALOG_APPROVE) 200 (observed (approve_catalog_image e image_id))
    (changes (\<lambda>tenant_id user_id. ApproveCatalogImage (en_id e 0) tenant_id image_id user_id (en_now e 0)))"
| reject_catalog_image: "admin_table (Some CAP_CATALOG_APPROVE) 200 (observed (reject_catalog_image e image_id reason))
    (changes (\<lambda>tenant_id user_id. RejectCatalogImage (en_id e 0) tenant_id image_id reason user_id (en_now e 0)))"
| bulk_approve_catalog_images_for_product: "admin_table (Some CAP_CATALOG_APPROVE) 200 (observed
      (bulk_approve_catalog_images_for_product e product_id))
    (changes (\<lambda>tenant_id user_id. BulkApproveCatalogImagesForProduct (en_id_for e) tenant_id product_id user_id
      (en_now e 0)))"
| generate_content_draft: "admin_table (Some CAP_PRODUCT_MANAGE) 202 (observed (generate_content_draft e variant_id channel
      locale1))
    (changes (\<lambda>tenant_id _. GenerateContentDraft (en_id e 0) (en_copy_model e) tenant_id variant_id channel locale1
      (en_now e 0)))"
| list_content_drafts_for_variant: "admin_table (Some CAP_CATALOG_APPROVE) 200 (observed (list_content_drafts_for_variant
      variant_id))
    (looks (\<lambda>tenant_id _ s. Inr (ListContentDraftsForVariant tenant_id variant_id s)))"
| approve_content_draft: "admin_table (Some CAP_CATALOG_APPROVE) 200 (observed (approve_content_draft e draft_id))
    (changes (\<lambda>tenant_id user_id. ApproveContentDraft (en_id e 0) tenant_id draft_id user_id (en_now e 0)))"
| reject_content_draft: "admin_table (Some CAP_CATALOG_APPROVE) 200 (observed (reject_content_draft e draft_id reason))
    (changes (\<lambda>tenant_id user_id. RejectContentDraft (en_id e 0) tenant_id draft_id reason user_id (en_now e 0)))"
| edit_content_draft: "admin_table (Some CAP_PRODUCT_MANAGE) 200 (observed (edit_content_draft e draft_id title body hashtags
      cta alt_text))
    (changes (\<lambda>tenant_id user_id. EditContentDraft (en_id e 0) (en_id e 1) tenant_id draft_id user_id title body
      hashtags cta alt_text (en_now e 0)))"
| create_publication: "admin_table (Some CAP_PRODUCT_MANAGE) 202 (observed (create_publication e variant_id channel_id
      content_draft_id caption media_asset_ids link due_at))
    (changes (\<lambda>tenant_id _. CreatePublication (en_id e 0) (en_id e 1) tenant_id variant_id channel_id content_draft_id
      caption media_asset_ids link due_at (en_now e 0)))"
| release_scheduled_publications: "admin_table (Some CAP_PRODUCT_MANAGE) 200 (observed (release_scheduled_publications e))
    (changes (\<lambda>tenant_id _. ReleaseScheduledPublicationsForTenant (en_id_for e) tenant_id RELEASE_LIMIT (en_now e 0)))"
| cancel_publication: "admin_table (Some CAP_PRODUCT_MANAGE) 200 (observed (cancel_publication e publication_id))
    (changes (\<lambda>tenant_id user_id. CancelPublication (en_id e 0) tenant_id publication_id user_id (en_now e 0)))"
| register_domain: "admin_table (Some CAP_DOMAINS_MANAGE) 201 (observed (register_domain e hostname))
    (on_tables (\<lambda>tenant_id user_id. RegisterTenantDomain (en_id e 0) (en_id e 1) tenant_id hostname user_id (en_now e
      0)))"
| list_domains: "admin_table None 200 (observed list_domains)
    (on_tables (\<lambda>tenant_id _ p. Inr (ListTenantDomains tenant_id p, p)))"

text \<open>Each of them is in the table.\<close>

lemma in_table:
  "\<lbrakk>admin_table cap code (observed handler) f; handler who w = (r, w')\<rbrakk>
    \<Longrightarrow> \<exists>code handler f. admin_table cap code handler f \<and> handler who w = (reply_status r, w')"
  by (intro exI conjI) (assumption, simp add: observed_def)

lemma admin_request_tabled:
  "admin_request cap who w st w' \<Longrightarrow> \<exists>code handler f. admin_table cap code handler f \<and> handler who w = (st, w')"
  by (induction rule: admin_request.induct) (rule in_table, rule admin_table.intros, assumption)+

section \<open>Properties\<close>

text \<open>
  C4: Whatever an admin route changes, it changes for a caller whose token names a tenant and grants the capability of
  that route; every other request, and every route without a capability of its own, leaves the server as it was.
\<close>

theorem admin_changes_authorised:
  assumes "admin_request cap who w st w' \<or> agent_request cap who w st w'" and "w' \<noteq> w"
  shows "\<exists>c p T. cap = Some c \<and> who = Inr p \<and> pr_tenant_id p = Some T \<and> capability_value c \<in> set (pr_capabilities p)"
proof -
  have "cap \<noteq> None" using assms admin_request_reads agent_request_capability by blast
  moreover have "\<exists>p. admitted cap who = Inr p"
    using assms admin_request_answered [of cap who w st w'] agent_request_authorised [of cap who w st w']
    by (cases "admitted cap who") (auto simp: answered_def)
  ultimately show ?thesis by (auto simp: admitted_Inr entitled_def)
qed

text \<open>
  C21: A request of one transaction or query answers the status of the error of its token when there is no principal, and
  403 when the token names no tenant or lacks the capability of the route. Otherwise the route's use case runs for that
  tenant and user: when it returns, the answer is the route's success status and the tables are the ones it left; when it
  raises, the answer is the status of its error in the table of api/errors.py, and nothing changed.
\<close>

theorem admin_request_outcome:
  assumes "admin_table cap code handler f"
  shows "handler who w =
    (case who of
       Inl e \<Rightarrow> (documented_status e, w)
     | Inr p \<Rightarrow> (case pr_tenant_id p of
         None \<Rightarrow> (403, w)
       | Some T \<Rightarrow>
           if case cap of None \<Rightarrow> True | Some c \<Rightarrow> capability_value c \<in> set (pr_capabilities p)
           then (case f T (pr_user_id p) (web_platform w) of
                   Inl e \<Rightarrow> (documented_status e, w)
                 | Inr tables \<Rightarrow> (code, w\<lparr>web_platform := tables\<rparr>))
           else (403, w)))"
proof -
  from assms have "handler who w = promised cap code f who w"
    by (induction rule: admin_table.induct) (unfold request_defs, (rule observed_routes)+)
  then show ?thesis by (simp only: promised_def)
qed

section \<open>A server\<close>

definition clerk :: principal where
  "clerk = \<lparr>pr_user_id = 2, pr_tenant_id = Some 9, pr_role = None, pr_capabilities = [''taxonomy.manage''],
     pr_is_platform_admin = False, pr_impersonated_by = None\<rparr>"

definition new_server :: web where
  "new_server = \<lparr>web_platform = \<lparr>pf_users = [], pf_identities = [], pf_memberships = [], pf_admins = [], pf_sessions = [],
     pf_domains = [], pf_idempotency = [], pf_db = empty_db\<rparr>, web_windows = []\<rparr>"

lemma clerk_entitled: "admitted (Some CAP_TAXONOMY_MANAGE) (Inr clerk) = Inr clerk" "pr_tenant_id clerk = Some 9"
  by (simp_all add: admitted_Inr entitled_def clerk_def)

lemma clerk_creates:
  "\<exists>r w'. create_category e ''shoes'' ''Shoes'' ''shoes'' None None 0 (Inr clerk) new_server = (r, w')
     \<and> reply_status r = 201 \<and> w' \<noteq> new_server"
proof -
  have "\<exists>c t a. CreateCategory (en_id e 0) (en_id e 1) 9 ''shoes'' ''Shoes'' ''shoes'' None None 0 (pr_user_id clerk) (en_now e 0) empty_db
      = Inr (c, empty_db\<lparr>db_categories := [t], db_audit := [a]\<rparr>)"
    by (simp add: CreateCategory_def Let_def category_add_def tbl_add_unique_def tbl_add_def tbl_get_def rows_def empty_db_def
        audit_record_def)
  then obtain c t a where "CreateCategory (en_id e 0) (en_id e 1) 9 ''shoes'' ''Shoes'' ''shoes'' None None 0 (pr_user_id clerk)
      (en_now e 0) empty_db = Inr (c, empty_db\<lparr>db_categories := [t], db_audit := [a]\<rparr>)" by blast
  then show ?thesis
    unfolding create_category_def admin_route_admitted [OF clerk_entitled]
    by (simp add: exec_def on_db_def on_platform_def new_server_def run_uow_def respond_def empty_db_def)
qed

theorem admin_changes_authorised_witness:
  "\<exists>w'. w' \<noteq> new_server \<and> (\<exists>c p T. Some CAP_TAXONOMY_MANAGE = Some c \<and> (Inr clerk :: principal result) = Inr p
     \<and> pr_tenant_id p = Some T \<and> capability_value c \<in> set (pr_capabilities p))"
proof -
  obtain r w' where c: "create_category undefined ''shoes'' ''Shoes'' ''shoes'' None None 0 (Inr clerk) new_server = (r, w')"
    "w' \<noteq> new_server" using clerk_creates by blast
  from admin_changes_authorised [OF disjI1 [OF admin_request.create_category [OF c(1)]] c(2)] c(2) show ?thesis by blast
qed

text \<open>The clerk creates a category; a clerk without the capability, and a visitor without a token, are turned away.\<close>

theorem admin_request_outcome_witness:
  "\<forall>e. \<exists>w'. observed (create_category e ''shoes'' ''Shoes'' ''shoes'' None None 0) (Inr clerk) new_server = (201, w') \<and> w' \<noteq> new_server
    \<and> observed (create_category e ''shoes'' ''Shoes'' ''shoes'' None None 0) (Inr (clerk\<lparr>pr_capabilities := []\<rparr>)) new_server
        = (403, new_server)
    \<and> observed (create_category e ''shoes'' ''Shoes'' ''shoes'' None None 0) (Inl (AppError AuthenticationErrorC ''no token'' ''unauthenticated''))
        new_server = (401, new_server)"
proof
  fix e
  let ?h = "create_category e ''shoes'' ''Shoes'' ''shoes'' None None 0"
  obtain r w' where c: "?h (Inr clerk) new_server = (r, w')" "reply_status r = 201" "w' \<noteq> new_server" using clerk_creates by blast
  note spec = admin_request_outcome [OF admin_table.create_category, of e "''shoes''" "''Shoes''" "''shoes''" None None 0 _ new_server]
  have "observed ?h (Inr clerk) new_server = (201, w')" using c by (simp add: observed_def)
  moreover have "observed ?h (Inr (clerk\<lparr>pr_capabilities := []\<rparr>)) new_server = (403, new_server)"
    by (simp add: spec clerk_def)
  moreover have "observed ?h (Inl (AppError AuthenticationErrorC ''no token'' ''unauthenticated'')) new_server = (401, new_server)"
    by (simp add: spec)
  ultimately show "\<exists>w'. observed ?h (Inr clerk) new_server = (201, w') \<and> w' \<noteq> new_server
    \<and> observed ?h (Inr (clerk\<lparr>pr_capabilities := []\<rparr>)) new_server = (403, new_server)
    \<and> observed ?h (Inl (AppError AuthenticationErrorC ''no token'' ''unauthenticated'')) new_server = (401, new_server)"
    using c(3) by blast
qed

end
