(* ===== verification/Tenant_Data.thy ===== *)
theory Tenant_Data
  imports Http
begin

text \<open>
  Whose rows a transaction writes. \<open>others\<close> are the rows of a table that a tenant does not own; \<open>touch T s s'\<close> says that a
  transaction on \<open>s\<close> left the rows of every other tenant in every table alone and the tables' keys in order. The contract of
  one table is the locale \<open>tenant_table\<close>, interpreted for each of the tables.
\<close>

section \<open>One table\<close>

definition others :: "('r \<Rightarrow> bool) \<Rightarrow> (uuid \<times> 'r) list \<Rightarrow> (uuid \<times> 'r) list" where
  "others mine t = filter (\<lambda>e. \<not> mine (snd e)) t"

definition kept :: "('r \<Rightarrow> bool) \<Rightarrow> ('r \<Rightarrow> uuid) \<Rightarrow> 'r table \<Rightarrow> 'r table \<Rightarrow> bool" where
  "kept mine key t t' \<longleftrightarrow> (tbl_ok key t \<longrightarrow> tbl_ok key t' \<and> others mine t' = others mine t)"

lemma kept_refl [simp]: "kept mine key t t"
  by (simp add: kept_def)

lemma kept_trans: "\<lbrakk>kept mine key t t1; kept mine key t1 t2\<rbrakk> \<Longrightarrow> kept mine key t t2"
  by (simp add: kept_def)

text \<open>Only the first entry of a key is updated.\<close>

lemma filter_update:
  assumes "\<And>x. map_of t k = Some x \<Longrightarrow> \<not> P (k, x)" and "\<not> P (k, y)"
  shows "filter P (AList.update k y t) = filter P t"
  using assms(1)
proof (induction t)
  case (Cons e t)
  then show ?case using assms(2) by (cases e) (auto split: if_splits)
qed (simp add: assms(2))

lemma kept_put:
  assumes "kept mine key t t1" and "kept mine key t t2" and "old \<in> set (rows t2)" and "mine old"
    and "key r = key old" and "mine r"
  shows "kept mine key t (tbl_put (key r) r t1)"
  unfolding kept_def
proof
  assume "tbl_ok key t"
  with assms(1,2) have ok: "tbl_ok key t1" "tbl_ok key t2" and same: "others mine t1 = others mine t" "others mine t2 = others mine t"
    by (simp_all add: kept_def)
  have "mine x" if "map_of t1 (key r) = Some x" for x
  proof (rule ccontr)
    assume "\<not> mine x"
    with that same have "(key r, x) \<in> set (others mine t2)" by (metis (mono_tags, lifting) map_of_SomeD mem_Collect_eq others_def set_filter snd_conv)
    then have "tbl_get t2 (key r) = Some x" using ok(2) by (simp add: others_def tbl_get_def tbl_ok_def)
    moreover have "tbl_get t2 (key r) = Some old" using rows_iff [OF ok(2), of old] assms(3,5) by simp
    ultimately show False using assms(4) \<open>\<not> mine x\<close> by simp
  qed
  then have "others mine (tbl_put (key r) r t1) = others mine t1"
    unfolding others_def tbl_put_def using assms(6) by (intro filter_update) auto
  with same ok show "tbl_ok key (tbl_put (key r) r t1) \<and> others mine (tbl_put (key r) r t1) = others mine t"
    by (simp add: tbl_ok_put)
qed

lemma kept_add:
  assumes "kept mine key t t1" and "tbl_add (key r) r t1 = Inr t'" and "mine r"
  shows "kept mine key t t'"
  using assms by (auto simp: kept_def others_def tbl_add_def intro: tbl_ok_add split: if_splits)

lemma kept_put_at:
  assumes "kept mine key t t1" and "tbl_get t1 i = Some old" and "mine old" and "key r = key old" and "mine r"
  shows "kept mine key t (tbl_put i r t1)"
proof (cases "tbl_ok key t")
  case True
  with assms(1) have "tbl_ok key t1" by (simp add: kept_def)
  with assms(2,4) have "i = key r" by (simp add: tbl_get_key)
  with kept_put [OF assms(1,1) rows_mem [OF assms(2)] assms(3-5)] show ?thesis by simp
qed (simp add: kept_def)

section \<open>The database\<close>

definition quota_kept :: "uuid \<Rightarrow> (quota_key, quota_reservation) dict \<Rightarrow> (quota_key, quota_reservation) dict \<Rightarrow> bool" where
  "quota_kept T q q' \<longleftrightarrow> filter (\<lambda>e. fst (fst e) \<noteq> T) q' = filter (\<lambda>e. fst (fst e) \<noteq> T) q"

text \<open>The requirements have no key of their own but the pair of slots they join.\<close>

definition requirements_kept :: "uuid \<Rightarrow> catalog_slot_input_requirement list \<Rightarrow> catalog_slot_input_requirement list \<Rightarrow> bool" where
  "requirements_kept T rs rs' \<longleftrightarrow> (distinct (map requirement_key rs) \<longrightarrow> distinct (map requirement_key rs')
     \<and> filter (\<lambda>r. req_tenant_id r \<noteq> T) rs' = filter (\<lambda>r. req_tenant_id r \<noteq> T) rs)"

definition touch :: "uuid \<Rightarrow> db \<Rightarrow> db \<Rightarrow> bool" where
  "touch T s s' \<longleftrightarrow> quota_kept T (db_quota s) (db_quota s') \<and> requirements_kept T (db_requirements s) (db_requirements s')
     \<and> kept (\<lambda>r. job_tenant_id r = T) job_id (db_jobs s) (db_jobs s')
     \<and> kept (\<lambda>r. au_tenant_id r = T) au_id (db_audit s) (db_audit s')
     \<and> kept (\<lambda>r. ev_tenant_id r = T) ev_id (db_outbox s) (db_outbox s')
     \<and> kept (\<lambda>r. pub_tenant_id r = T) pub_id (db_publications s) (db_publications s')
     \<and> kept (\<lambda>r. sa_tenant_id r = T) sa_id (db_social_accounts s) (db_social_accounts s')
     \<and> kept (\<lambda>r. cd_tenant_id r = T) cd_id (db_drafts s) (db_drafts s')
     \<and> kept (\<lambda>r. pv_tenant_id r = T) pv_id (db_variants s) (db_variants s')
     \<and> kept (\<lambda>r. prod_tenant_id r = T) prod_id (db_products s) (db_products s')
     \<and> kept (\<lambda>r. pii_tenant_id r = T) pii_id (db_input_images s) (db_input_images s')
     \<and> kept (\<lambda>r. asset_tenant_id r = T) asset_id (db_assets s) (db_assets s')
     \<and> kept (\<lambda>r. ct_tenant_id r = T) ct_id (db_templates s) (db_templates s')
     \<and> kept (\<lambda>r. gr_tenant_id r = T) gr_id (db_requests s) (db_requests s')
     \<and> kept (\<lambda>r. gi_tenant_id r = T) gi_id (db_items s) (db_items s')
     \<and> kept (\<lambda>r. ci_tenant_id r = T) ci_id (db_images s) (db_images s')
     \<and> kept (\<lambda>r. cat_tenant_id r = T) cat_id (db_categories s) (db_categories s')
     \<and> kept (\<lambda>r. ad_tenant_id r = T) ad_id (db_attributes s) (db_attributes s')
     \<and> kept (\<lambda>r. va_tenant_id r = T) va_id (db_axes s) (db_axes s')
     \<and> kept (\<lambda>r. vav_tenant_id r = T) vav_id (db_axis_values s) (db_axis_values s')
     \<and> kept (\<lambda>r. iis_tenant_id r = T) iis_id (db_input_slots s) (db_input_slots s')
     \<and> kept (\<lambda>r. cis_tenant_id r = T) cis_id (db_catalog_slots s) (db_catalog_slots s')
     \<and> kept (\<lambda>r. csv_tenant_id r = T) csv_id (db_spec_versions s) (db_spec_versions s')
     \<and> kept (\<lambda>r. set_tenant_id r = Some T) set_id (db_settings s) (db_settings s')"

lemma touch_refl [simp]: "touch T s s"
  by (simp add: touch_def quota_kept_def requirements_kept_def)

lemma touch_trans: "\<lbrakk>touch T s s1; touch T s1 s2\<rbrakk> \<Longrightarrow> touch T s s2"
  unfolding touch_def quota_kept_def requirements_kept_def by (auto elim: kept_trans)

locale tenant_table =
  fixes tab :: "db \<Rightarrow> 'r table" and store :: "'r table \<Rightarrow> db \<Rightarrow> db" and owned :: "uuid \<Rightarrow> 'r \<Rightarrow> bool" and key :: "'r \<Rightarrow> uuid"
  assumes touched: "touch T s s' \<Longrightarrow> kept (owned T) key (tab s) (tab s')"
    and stored: "\<lbrakk>touch T s s1; kept (owned T) key (tab s) t\<rbrakk> \<Longrightarrow> touch T s (store t s1)"
begin

text \<open>An update of a row that is the tenant's, read earlier in the transaction.\<close>

lemma put_since:
  assumes "touch T s s2" and "old \<in> set (rows (tab s2))" and "touch T s s1" and "owned T old" and "key r = key old" and "owned T r"
  shows "touch T s (store (tbl_put (key r) r (tab s1)) s1)"
  using stored [OF assms(3)] kept_put [OF touched [OF assms(3)] touched [OF assms(1)] assms(2,4-6)] by blast

lemmas put = put_since [OF touch_refl]

lemma put_old:
  "\<lbrakk>old \<in> set (rows (tab s)); touch T s s1; owned T old; key r = key old; owned T r\<rbrakk>
    \<Longrightarrow> touch T s (store (tbl_put (key old) r (tab s1)) s1)"
  using put by metis

lemma put_at:
  "\<lbrakk>tbl_get (tab s1) i = Some old; touch T s s1; owned T old; key r = key old; owned T r\<rbrakk>
    \<Longrightarrow> touch T s (store (tbl_put i r (tab s1)) s1)"
  using stored kept_put_at [OF touched] by blast

lemma add: "\<lbrakk>tbl_add (key r) r (tab s1) = Inr t; touch T s s1; owned T r\<rbrakk> \<Longrightarrow> touch T s (store t s1)"
  using stored kept_add [OF touched] by blast

lemma add_at: "\<lbrakk>tbl_add i r (tab s1) = Inr t; touch T s s1; key r = i; owned T r\<rbrakk> \<Longrightarrow> touch T s (store t s1)"
  using add by blast

end

interpretation jobs: tenant_table db_jobs "\<lambda>t s. s\<lparr>db_jobs := t\<rparr>" "\<lambda>T r. job_tenant_id r = T" job_id
  by unfold_locales (simp_all add: touch_def)

interpretation audit: tenant_table db_audit "\<lambda>t s. s\<lparr>db_audit := t\<rparr>" "\<lambda>T r. au_tenant_id r = T" au_id
  by unfold_locales (simp_all add: touch_def)

interpretation outbox: tenant_table db_outbox "\<lambda>t s. s\<lparr>db_outbox := t\<rparr>" "\<lambda>T r. ev_tenant_id r = T" ev_id
  by unfold_locales (simp_all add: touch_def)

interpretation publications: tenant_table db_publications "\<lambda>t s. s\<lparr>db_publications := t\<rparr>" "\<lambda>T r. pub_tenant_id r = T" pub_id
  by unfold_locales (simp_all add: touch_def)

interpretation social_accounts: tenant_table db_social_accounts "\<lambda>t s. s\<lparr>db_social_accounts := t\<rparr>" "\<lambda>T r. sa_tenant_id r = T" sa_id
  by unfold_locales (simp_all add: touch_def)

interpretation drafts: tenant_table db_drafts "\<lambda>t s. s\<lparr>db_drafts := t\<rparr>" "\<lambda>T r. cd_tenant_id r = T" cd_id
  by unfold_locales (simp_all add: touch_def)

interpretation variants: tenant_table db_variants "\<lambda>t s. s\<lparr>db_variants := t\<rparr>" "\<lambda>T r. pv_tenant_id r = T" pv_id
  by unfold_locales (simp_all add: touch_def)

interpretation products: tenant_table db_products "\<lambda>t s. s\<lparr>db_products := t\<rparr>" "\<lambda>T r. prod_tenant_id r = T" prod_id
  by unfold_locales (simp_all add: touch_def)

interpretation input_images: tenant_table db_input_images "\<lambda>t s. s\<lparr>db_input_images := t\<rparr>" "\<lambda>T r. pii_tenant_id r = T" pii_id
  by unfold_locales (simp_all add: touch_def)

interpretation assets: tenant_table db_assets "\<lambda>t s. s\<lparr>db_assets := t\<rparr>" "\<lambda>T r. asset_tenant_id r = T" asset_id
  by unfold_locales (simp_all add: touch_def)

interpretation templates: tenant_table db_templates "\<lambda>t s. s\<lparr>db_templates := t\<rparr>" "\<lambda>T r. ct_tenant_id r = T" ct_id
  by unfold_locales (simp_all add: touch_def)

interpretation requests: tenant_table db_requests "\<lambda>t s. s\<lparr>db_requests := t\<rparr>" "\<lambda>T r. gr_tenant_id r = T" gr_id
  by unfold_locales (simp_all add: touch_def)

interpretation items: tenant_table db_items "\<lambda>t s. s\<lparr>db_items := t\<rparr>" "\<lambda>T r. gi_tenant_id r = T" gi_id
  by unfold_locales (simp_all add: touch_def)

interpretation images: tenant_table db_images "\<lambda>t s. s\<lparr>db_images := t\<rparr>" "\<lambda>T r. ci_tenant_id r = T" ci_id
  by unfold_locales (simp_all add: touch_def)

interpretation categories: tenant_table db_categories "\<lambda>t s. s\<lparr>db_categories := t\<rparr>" "\<lambda>T r. cat_tenant_id r = T" cat_id
  by unfold_locales (simp_all add: touch_def)

interpretation attributes: tenant_table db_attributes "\<lambda>t s. s\<lparr>db_attributes := t\<rparr>" "\<lambda>T r. ad_tenant_id r = T" ad_id
  by unfold_locales (simp_all add: touch_def)

interpretation axes: tenant_table db_axes "\<lambda>t s. s\<lparr>db_axes := t\<rparr>" "\<lambda>T r. va_tenant_id r = T" va_id
  by unfold_locales (simp_all add: touch_def)

interpretation axis_values: tenant_table db_axis_values "\<lambda>t s. s\<lparr>db_axis_values := t\<rparr>" "\<lambda>T r. vav_tenant_id r = T" vav_id
  by unfold_locales (simp_all add: touch_def)

interpretation input_slots: tenant_table db_input_slots "\<lambda>t s. s\<lparr>db_input_slots := t\<rparr>" "\<lambda>T r. iis_tenant_id r = T" iis_id
  by unfold_locales (simp_all add: touch_def)

interpretation catalog_slots: tenant_table db_catalog_slots "\<lambda>t s. s\<lparr>db_catalog_slots := t\<rparr>" "\<lambda>T r. cis_tenant_id r = T" cis_id
  by unfold_locales (simp_all add: touch_def)

interpretation spec_versions: tenant_table db_spec_versions "\<lambda>t s. s\<lparr>db_spec_versions := t\<rparr>" "\<lambda>T r. csv_tenant_id r = T" csv_id
  by unfold_locales (simp_all add: touch_def)

interpretation settings: tenant_table db_settings "\<lambda>t s. s\<lparr>db_settings := t\<rparr>" "\<lambda>T r. set_tenant_id r = Some T" set_id
  by unfold_locales (simp_all add: touch_def)

section \<open>Methods keep a row's identity\<close>

lemma template_ids:
  "CatalogTemplate_start_analysing now t = Inr t' \<Longrightarrow> ct_id t' = ct_id t \<and> ct_tenant_id t' = ct_tenant_id t"
  "settle_analysis problems p a m now t = Inr t' \<Longrightarrow> ct_id t' = ct_id t \<and> ct_tenant_id t' = ct_tenant_id t"
  "CatalogTemplate_mark_analysis_failed reason now t = Inr t' \<Longrightarrow> ct_id t' = ct_id t \<and> ct_tenant_id t' = ct_tenant_id t"
  "CatalogTemplate_archive now t = Inr t' \<Longrightarrow> ct_id t' = ct_id t \<and> ct_tenant_id t' = ct_tenant_id t"
  by (auto simp: CatalogTemplate_method_defs settle_analysis_def split: if_splits)

lemma product_ids:
  "Product_mark_ready now p = Inr p' \<Longrightarrow> prod_id p' = prod_id p \<and> prod_tenant_id p' = prod_tenant_id p"
  "Product_mark_needs_attention now p = Inr p' \<Longrightarrow> prod_id p' = prod_id p \<and> prod_tenant_id p' = prod_tenant_id p"
  by (auto simp: Product_method_defs split: if_splits)

lemma input_image_ids:
  "ProductInputImage_start_validating now i = Inr i' \<Longrightarrow> pii_id i' = pii_id i \<and> pii_tenant_id i' = pii_tenant_id i"
  "ProductInputImage_mark_ready now i = Inr i' \<Longrightarrow> pii_id i' = pii_id i \<and> pii_tenant_id i' = pii_tenant_id i"
  "ProductInputImage_mark_rejected reason now i = Inr i' \<Longrightarrow> pii_id i' = pii_id i \<and> pii_tenant_id i' = pii_tenant_id i"
  by (auto simp: ProductInputImage_method_defs split: if_splits)

lemma item_ids:
  "GenerationItem_mark_running i = Inr i' \<Longrightarrow> gi_id i' = gi_id i \<and> gi_tenant_id i' = gi_tenant_id i"
  "GenerationItem_mark_succeeded a c l i = Inr i' \<Longrightarrow> gi_id i' = gi_id i \<and> gi_tenant_id i' = gi_tenant_id i"
  "GenerationItem_mark_failed code detail i = Inr i' \<Longrightarrow> gi_id i' = gi_id i \<and> gi_tenant_id i' = gi_tenant_id i"
  "GenerationItem_mark_dead i = Inr i' \<Longrightarrow> gi_id i' = gi_id i \<and> gi_tenant_id i' = gi_tenant_id i"
  by (auto simp: GenerationItem_method_defs split: if_splits)

lemma request_ids:
  "GenerationRequest_mark_running now r = Inr r' \<Longrightarrow> gr_id r' = gr_id r \<and> gr_tenant_id r' = gr_tenant_id r"
  "settle_request st now r = Inr r' \<Longrightarrow> gr_id r' = gr_id r \<and> gr_tenant_id r' = gr_tenant_id r
     \<and> gr_created_at r' = gr_created_at r"
  by (auto simp: GenerationRequest_method_defs settle_request_def split: if_splits)

lemma image_ids:
  "CatalogImage_mark_superseded new now i = Inr i' \<Longrightarrow> ci_id i' = ci_id i \<and> ci_tenant_id i' = ci_tenant_id i"
  "CatalogImage_mark_qc_passed qc now i = Inr i' \<Longrightarrow> ci_id i' = ci_id i \<and> ci_tenant_id i' = ci_tenant_id i"
  "CatalogImage_mark_qc_failed qc now i = Inr i' \<Longrightarrow> ci_id i' = ci_id i \<and> ci_tenant_id i' = ci_tenant_id i"
  "CatalogImage_mark_human_review reason now i = Inr i' \<Longrightarrow> ci_id i' = ci_id i \<and> ci_tenant_id i' = ci_tenant_id i"
  "CatalogImage_approve u now i = Inr i' \<Longrightarrow> ci_id i' = ci_id i \<and> ci_tenant_id i' = ci_tenant_id i"
  "CatalogImage_reject reason now i = Inr i' \<Longrightarrow> ci_id i' = ci_id i \<and> ci_tenant_id i' = ci_tenant_id i"
  by (auto simp: CatalogImage_method_defs split: if_splits)

lemma draft_ids:
  "ContentDraft_mark_superseded new now d = Inr d' \<Longrightarrow> cd_id d' = cd_id d \<and> cd_tenant_id d' = cd_tenant_id d"
  "ContentDraft_mark_pending_approval now d = Inr d' \<Longrightarrow> cd_id d' = cd_id d \<and> cd_tenant_id d' = cd_tenant_id d"
  "ContentDraft_approve u now d = Inr d' \<Longrightarrow> cd_id d' = cd_id d \<and> cd_tenant_id d' = cd_tenant_id d"
  "ContentDraft_reject reason now d = Inr d' \<Longrightarrow> cd_id d' = cd_id d \<and> cd_tenant_id d' = cd_tenant_id d"
  by (auto simp: ContentDraft_method_defs split: if_splits)

lemma publication_ids:
  "Publication_defer_dispatch t now p = Inr p' \<Longrightarrow> pub_id p' = pub_id p \<and> pub_tenant_id p' = pub_tenant_id p"
  "Publication_mark_dispatching now p = Inr p' \<Longrightarrow> pub_id p' = pub_id p \<and> pub_tenant_id p' = pub_tenant_id p"
  "Publication_mark_published e l now p = Inr p' \<Longrightarrow> pub_id p' = pub_id p \<and> pub_tenant_id p' = pub_tenant_id p"
  "Publication_record_attempt_failure e b now p = Inr p' \<Longrightarrow> pub_id p' = pub_id p \<and> pub_tenant_id p' = pub_tenant_id p"
  "Publication_defer r t now p = Inr p' \<Longrightarrow> pub_id p' = pub_id p \<and> pub_tenant_id p' = pub_tenant_id p"
  "Publication_cancel now p = Inr p' \<Longrightarrow> pub_id p' = pub_id p \<and> pub_tenant_id p' = pub_tenant_id p"
  "Publication_mark_metrics_fetch_attempted now p = Inr p' \<Longrightarrow> pub_id p' = pub_id p \<and> pub_tenant_id p' = pub_tenant_id p"
  "Publication_record_metrics m now p = Inr p' \<Longrightarrow> pub_id p' = pub_id p \<and> pub_tenant_id p' = pub_tenant_id p"
  by (auto simp: Publication_method_defs split: if_splits)

lemmas method_ids = template_ids product_ids input_image_ids item_ids request_ids image_ids draft_ids publication_ids

section \<open>The repositories\<close>

text \<open>Reads: a row of the tenant, and one found by a query.\<close>

lemma scoped_row: "scoped_get owner t T i = Some r \<Longrightarrow> r \<in> set (rows t) \<and> owner r = T"
  by (auto simp: scoped_get_Some rows_mem)

lemmas get_defs = category_get_def attribute_get_def axis_get_def axis_value_get_def input_slot_get_def catalog_slot_get_def
  template_get_def product_get_def variant_get_def input_image_get_def asset_get_def request_get_def item_get_def image_get_def
  draft_get_def publication_get_def

text \<open>Updates.\<close>

lemmas touch_updates =
  categories.put [folded category_update_def] attributes.put [folded attribute_update_def] axes.put [folded axis_update_def]
  axis_values.put [folded axis_value_update_def] input_slots.put [folded input_slot_update_def]
  catalog_slots.put [folded catalog_slot_update_def] settings.put [folded setting_update_def]
  templates.put [folded template_update_def] products.put [folded product_update_def]
  input_images.put [folded input_image_update_def] requests.put [folded request_update_def] items.put [folded item_update_def]
  images.put [folded image_update_def] drafts.put [folded draft_update_def] publications.put [folded publication_update_def]

text \<open>Inserts.\<close>

lemmas insert_defs = category_add_def attribute_add_def axis_add_def axis_value_add_def input_slot_add_def catalog_slot_add_def
  setting_add_def template_add_def product_add_def variant_add_def input_image_add_def asset_add_def request_add_def item_add_def
  image_add_def draft_add_def publication_add_def

lemma touch_adds:
  "\<lbrakk>category_add c s1 = Inr s2; touch T s s1; cat_tenant_id c = T\<rbrakk> \<Longrightarrow> touch T s s2"
  "\<lbrakk>attribute_add a s1 = Inr s2; touch T s s1; ad_tenant_id a = T\<rbrakk> \<Longrightarrow> touch T s s2"
  "\<lbrakk>axis_add x s1 = Inr s2; touch T s s1; va_tenant_id x = T\<rbrakk> \<Longrightarrow> touch T s s2"
  "\<lbrakk>axis_value_add v s1 = Inr s2; touch T s s1; vav_tenant_id v = T\<rbrakk> \<Longrightarrow> touch T s s2"
  "\<lbrakk>input_slot_add i s1 = Inr s2; touch T s s1; iis_tenant_id i = T\<rbrakk> \<Longrightarrow> touch T s s2"
  "\<lbrakk>catalog_slot_add k s1 = Inr s2; touch T s s1; cis_tenant_id k = T\<rbrakk> \<Longrightarrow> touch T s s2"
  "\<lbrakk>setting_add r s1 = Inr s2; touch T s s1; set_tenant_id r = Some T\<rbrakk> \<Longrightarrow> touch T s s2"
  "\<lbrakk>template_add t s1 = Inr s2; touch T s s1; ct_tenant_id t = T\<rbrakk> \<Longrightarrow> touch T s s2"
  "\<lbrakk>product_add p s1 = Inr s2; touch T s s1; prod_tenant_id p = T\<rbrakk> \<Longrightarrow> touch T s s2"
  "\<lbrakk>variant_add w s1 = Inr s2; touch T s s1; pv_tenant_id w = T\<rbrakk> \<Longrightarrow> touch T s s2"
  "\<lbrakk>input_image_add ph s1 = Inr s2; touch T s s1; pii_tenant_id ph = T\<rbrakk> \<Longrightarrow> touch T s s2"
  "\<lbrakk>asset_add f s1 = Inr s2; touch T s s1; asset_tenant_id f = T\<rbrakk> \<Longrightarrow> touch T s s2"
  "\<lbrakk>request_add q s1 = Inr s2; touch T s s1; gr_tenant_id q = T\<rbrakk> \<Longrightarrow> touch T s s2"
  "\<lbrakk>item_add it s1 = Inr s2; touch T s s1; gi_tenant_id it = T\<rbrakk> \<Longrightarrow> touch T s s2"
  "\<lbrakk>image_add im s1 = Inr s2; touch T s s1; ci_tenant_id im = T\<rbrakk> \<Longrightarrow> touch T s s2"
  "\<lbrakk>draft_add d s1 = Inr s2; touch T s s1; cd_tenant_id d = T\<rbrakk> \<Longrightarrow> touch T s s2"
  "\<lbrakk>publication_add pb s1 = Inr s2; touch T s s1; pub_tenant_id pb = T\<rbrakk> \<Longrightarrow> touch T s s2"
  by (auto simp: insert_defs bind_result_eq_Inr tbl_add_unique_Inr intro: categories.add attributes.add axes.add axis_values.add
      input_slots.add catalog_slots.add settings.add templates.add products.add variants.add input_images.add assets.add
      requests.add items.add images.add drafts.add publications.add)

lemma touch_log:
  "\<lbrakk>audit_record n T u a st i b f now s1 = Inr s2; touch T s s1\<rbrakk> \<Longrightarrow> touch T s s2"
  "\<lbrakk>outbox_add e T ty p now s1 = Inr s2; touch T s s1\<rbrakk> \<Longrightarrow> touch T s s2"
  "\<lbrakk>enqueue_job e T ty p due now s1 = Inr s2; touch T s s1\<rbrakk> \<Longrightarrow> touch T s s2"
  by (auto simp: audit_record_def outbox_add_def enqueue_job_def enqueue_def bind_result_eq_Inr intro: audit.add_at outbox.add_at jobs.add_at)

section \<open>The queue\<close>

lemma touch_claim: "claim T worker ty now (db_jobs s) = (Some j, q) \<Longrightarrow> touch T s (s\<lparr>db_jobs := q\<rparr>)"
  unfolding claim_def
  by (auto simp: Let_def claimable_def split: option.splits dest!: first_by_Some(1) intro!: jobs.put_old)

lemma touch_complete_job:
  "\<lbrakk>touch T s s1; db_jobs s1 = q\<rbrakk> \<Longrightarrow> touch T s (s1\<lparr>db_jobs := complete_job T i now q\<rparr>)"
  unfolding complete_job_def get_job_def
  by (auto simp: scoped_get_Some split: option.splits intro!: jobs.put_at)

lemma touch_fail_job:
  "\<lbrakk>fail_job jitter T i err now q = Inr (st, q'); touch T s s1; db_jobs s1 = q\<rbrakk> \<Longrightarrow> touch T s (s1\<lparr>db_jobs := q'\<rparr>)"
  by (auto simp: fail_job_def get_job_def scoped_get_Some Let_def bind_result_eq_Inr split: option.splits if_splits
      intro!: jobs.put_at)

end
