(* ===== verification/Tenant_Isolation.thy ===== *)
theory Tenant_Isolation
  imports Tenant_Data Taxonomy_Protocol Assets_Protocol
begin

text \<open>
  Every use case of the tenant-admin plane and every agent run touches the rows of the caller's tenant only: one lemma per
  operation, stated with \<open>touch\<close>, which the isolation of the plane puts together.
\<close>

lemmas uc_simps = bind_result_eq_Inr Let_def get_defs

lemma touch_CreateProduct: "CreateProduct a b c T d e f now s = Inr (res, s') \<Longrightarrow> touch T s s'"
  by (clarsimp simp: CreateProduct_def uc_simps dest!: scoped_row method_ids)
    (auto simp: bind_result_eq_Inr Let_def Product_create_def split: sum.splits elim!: touch_log touch_adds)

lemma created_category_tenant [simp]: "cat_tenant_id (Category_create n T k nm sl p now d pos) = T"
  by (simp add: Category_create_def split: prod.split)

lemma touch_CreateCategory: "CreateCategory a b T c d e f g h k now s = Inr (res, s') \<Longrightarrow> touch T s s'"
  by (auto simp: CreateCategory_def uc_simps elim!: touch_log touch_adds)


lemma touch_UpsertSetting: "UpsertSetting n (Some T) sc i k v now s = Inr (r, s') \<Longrightarrow> touch T s s'"
  by (clarsimp simp: UpsertSetting_def setting_get_def uc_simps)
    (auto simp: bind_result_eq_Inr Let_def Setting_create_def split: option.splits if_splits dest!: scalar_Some
      elim!: touch_adds intro!: touch_updates)

lemma touch_fold:
  assumes "fold_result f xs s1 = Inr s'" and "touch T s s1"
    and "\<And>x t t'. \<lbrakk>x \<in> set xs; f x t = Inr t'; touch T s t\<rbrakk> \<Longrightarrow> touch T s t'"
  shows "touch T s s'"
  using fold_result_invariant [OF assms(1), of "touch T s"] assms(2,3) by blast

lemma touch_flush:
  "\<lbrakk>category_flush c s1 = Inr s2; touch T s s1; old \<in> set (rows (db_categories s)); cat_tenant_id old = T;
    cat_id c = cat_id old; cat_tenant_id c = T\<rbrakk> \<Longrightarrow> touch T s s2"
  by (auto simp: category_flush_def split: if_splits intro: touch_updates)

lemma reparented:
  assumes "reparent_subtree c subtree p now = Inr moved" and "r \<in> set moved"
  shows "\<exists>q \<in> set subtree. cat_id r = cat_id q \<and> cat_tenant_id r = cat_tenant_id q"
proof -
  from assms obtain q where "q \<in> set subtree" and one: "\<exists>np dd pi. reparent_one c np dd pi now q = Inr r"
    by (auto simp: reparent_subtree_def Let_def map_result_mem split: if_splits option.splits)
  moreover from one have "cat_id r = cat_id q \<and> cat_tenant_id r = cat_tenant_id q"
    by (auto simp: reparent_one_def bind_result_eq_Inr Let_def split: if_splits)
  ultimately show ?thesis by blast
qed

lemma touch_MoveCategory:
  assumes "MoveCategory au T i p u now s = Inr (x, s')"
  shows "touch T s s'"
proof -
  from assms obtain c np moved s1 where m: "reparent_subtree c (list_subtree T i s) np now = Inr moved"
    and f: "fold_result category_flush moved s = Inr s1" and a: "\<exists>b v. audit_record au T (Some u) ''category.moved'' ''category''
      i b v now s1 = Inr s'"
    by (clarsimp simp: MoveCategory_def bind_result_eq_Inr Let_def) blast
  have "touch T s s1"
  proof (rule touch_fold [OF f touch_refl])
    fix r t t' assume r: "r \<in> set moved" and fl: "category_flush r t = Inr t'" and t: "touch T s t"
    from reparented [OF m r] obtain q where q: "q \<in> set (list_subtree T i s)" "cat_id r = cat_id q"
      "cat_tenant_id r = cat_tenant_id q" by blast
    from q(1) have "q \<in> set (rows (db_categories s))" "cat_tenant_id q = T"
      by (auto simp: list_subtree_def split: option.splits)
    with touch_flush [OF fl t] q show "touch T s t'" by auto
  qed
  with a touch_log(1) show ?thesis by blast
qed

lemma kept_introduce:
  assumes "kept mine key t t1" and "set rs \<subseteq> set (rows t)" and "\<forall>r \<in> set rs. mine r \<and> mine (stamp r) \<and> key (stamp r) = key r"
  shows "kept mine key t (introduce key introduced stamp rs t1)"
  using assms
proof (induction rs arbitrary: t1)
  case (Cons r rs)
  have "kept mine key t (tbl_put (key (stamp r)) (stamp r) t1)"
    by (rule kept_put [OF Cons.prems(1) kept_refl]) (use Cons.prems in auto)
  then show ?case using Cons by (simp add: introduce_def)
qed (simp add: introduce_def)

lemma rows_for_category: "set (list_for_category ten cat pos t T c) \<subseteq> {r \<in> set (rows t). ten r = T}"
  by (auto simp: list_for_category_def)

lemma touch_introduce_rows: "touch T s (introduce_rows T c v s)"
proof -
  note in_rows = rows_for_category [THEN subsetD]
  show ?thesis
    unfolding introduce_rows_def
    by (rule catalog_slots.stored [OF input_slots.stored [OF axes.stored [OF attributes.stored [OF touch_refl]]]];
        rule kept_introduce [OF kept_refl]; auto dest: in_rows)
qed

lemma touch_PublishCategorySpec:
  assumes "PublishCategorySpec n au T c u now s = Inr (v, s')"
  shows "touch T s s'"
proof -
  from assms obtain k ver vs s1 b w where k: "category_get T c s = Some k"
    and v: "tbl_add_unique version_clash n ver (db_spec_versions (introduce_rows T c w s)) = Inr vs" "csv_tenant_id ver = T" "csv_id ver = n"
    and a: "audit_record au T (Some u) ''category_spec.published'' ''category'' c b (Some [(''current_spec_version'', JInt w)]) now
       (category_update (k\<lparr>cat_current_spec_version := Some w, cat_draft_spec_version := None, cat_updated_at := now\<rparr>)
          ((introduce_rows T c w s)\<lparr>db_spec_versions := vs\<rparr>)) = Inr s'"
    by (auto simp: PublishCategorySpec_def bind_result_eq_Inr Let_def CategorySpecVersion_create_def split: if_splits)
  have "touch T s ((introduce_rows T c w s)\<lparr>db_spec_versions := vs\<rparr>)"
    using v spec_versions.add_at [OF _ touch_introduce_rows] by (auto simp: tbl_add_unique_Inr)
  with k have "touch T s (category_update (k\<lparr>cat_current_spec_version := Some w, cat_draft_spec_version := None, cat_updated_at := now\<rparr>)
      ((introduce_rows T c w s)\<lparr>db_spec_versions := vs\<rparr>))"
    by (intro touch_updates) (auto simp: category_get_def dest!: scoped_row)
  with a touch_log(1) show ?thesis by blast
qed

text \<open>Requirements.\<close>

lemma touch_requirements: "\<lbrakk>touch T s s1; requirements_kept T (db_requirements s1) rs\<rbrakk> \<Longrightarrow> touch T s (s1\<lparr>db_requirements := rs\<rparr>)"
  by (auto simp: touch_def requirements_kept_def)

lemma touch_requirement_add: "\<lbrakk>requirement_add r s1 = Inr s2; touch T s s1; req_tenant_id r = T\<rbrakk> \<Longrightarrow> touch T s s2"
  by (auto simp: requirement_add_def requirements_kept_def split: if_splits intro!: touch_requirements)

lemma touch_requirement_remove: "touch T s (requirement_remove T c i s)"
  unfolding requirement_remove_def
  by (rule touch_requirements [OF touch_refl]) (auto simp: requirements_kept_def distinct_map filter_filter inj_on_def intro: filter_cong)

lemma touch_requirement_update:
  assumes "old \<in> set (db_requirements s)" and "req_tenant_id old = T" and "requirement_key r = requirement_key old" and "req_tenant_id r = T"
  shows "touch T s (requirement_update r s)"
  unfolding requirement_update_def
proof (rule touch_requirements [OF touch_refl])
  let ?f = "\<lambda>q. if requirement_key q = requirement_key r then r else q"
  have keys: "map requirement_key (map ?f rs) = map requirement_key rs" for rs by (induction rs) auto
  have "filter (\<lambda>r. req_tenant_id r \<noteq> T) (map ?f rs) = filter (\<lambda>r. req_tenant_id r \<noteq> T) rs"
    if "\<forall>q \<in> set rs. requirement_key q = requirement_key r \<longrightarrow> q = old" for rs
    using that assms(2,4) by (induction rs) auto
  moreover have "q = old" if "distinct (map requirement_key (db_requirements s))" "q \<in> set (db_requirements s)"
    "requirement_key q = requirement_key r" for q
    using that assms(1,3) by (auto simp: distinct_map inj_on_def)
  ultimately show "requirements_kept T (db_requirements s) (map ?f (db_requirements s))"
    unfolding requirements_kept_def keys by blast
qed

lemma touch_AttachInputToCatalogSlot: "AttachInputToCatalogSlot a b T c d e f g h now s = Inr (res, s') \<Longrightarrow> touch T s s'"
  by (auto simp: AttachInputToCatalogSlot_def uc_simps
      CatalogSlotInputRequirement_create_def elim!: touch_log touch_requirement_add)

lemma touch_DetachInputFromCatalogSlot: "DetachInputFromCatalogSlot a T b c d now s = Inr (res, s') \<Longrightarrow> touch T s s'"
  by (auto simp: DetachInputFromCatalogSlot_def uc_simps
      elim!: touch_log intro: touch_requirement_remove)

lemma touch_UpdateCatalogSlotInputRequirement: "UpdateCatalogSlotInputRequirement a T b c d e f g now s = Inr (res, s') \<Longrightarrow> touch T s s'"
  by (auto simp: UpdateCatalogSlotInputRequirement_def uc_simps
      requirement_get_def requirement_key_def dest!: scalar_Some elim!: touch_log intro!: touch_requirement_update)

section \<open>Use cases that read, write and log\<close>

lemma touch_Taxonomy:
  "UpdateCategory a1 T b1 c1 d1 e1 f1 g1 now s = Inr (r1, s') \<Longrightarrow> touch T s s'"
  "CreateAttributeDefinition a2 b2 T c2 d2 e2 f2 g2 h2 k2 l2 m2 n2 p2 q2 u2 v2 now s = Inr (r2, s') \<Longrightarrow> touch T s s'"
  "UpdateAttributeDefinition a3 T b3 c3 d3 e3 f3 g3 h3 k3 l3 m3 n3 p3 now s = Inr (r3, s') \<Longrightarrow> touch T s s'"
  "CreateVariantAxis a4 b4 T c4 d4 e4 f4 g4 h4 now s = Inr (r4, s') \<Longrightarrow> touch T s s'"
  "UpdateVariantAxis a5 T b5 c5 d5 e5 f5 now s = Inr (r5, s') \<Longrightarrow> touch T s s'"
  "CreateVariantAxisValue a6 b6 T c6 d6 e6 f6 g6 now s = Inr (r6, s') \<Longrightarrow> touch T s s'"
  "UpdateVariantAxisValue a7 T b7 c7 d7 e7 now s = Inr (r7, s') \<Longrightarrow> touch T s s'"
  "CreateInputImageSlot a8 b8 T c8 d8 e8 f8 g8 h8 k8 l8 m8 n8 now s = Inr (r8, s') \<Longrightarrow> touch T s s'"
  "UpdateInputImageSlot a9 T b9 c9 d9 e9 f9 g9 h9 k9 l9 now s = Inr (r9, s') \<Longrightarrow> touch T s s'"
  "CreateCatalogImageSlot a10 b10 T c10 d10 e10 f10 g10 h10 k10 l10 m10 n10 now s = Inr (r10, s') \<Longrightarrow> touch T s s'"
  "UpdateCatalogImageSlot a11 T b11 c11 d11 e11 f11 g11 h11 k11 l11 now s = Inr (r11, s') \<Longrightarrow> touch T s s'"
  by (auto simp: uc_simps UpdateCategory_def CreateAttributeDefinition_def UpdateAttributeDefinition_def
      CreateVariantAxis_def UpdateVariantAxis_def CreateVariantAxisValue_def UpdateVariantAxisValue_def
      CreateInputImageSlot_def UpdateInputImageSlot_def CreateCatalogImageSlot_def UpdateCatalogImageSlot_def
      AttributeDefinition_create_def owning_category_def VariantAxis_create_def VariantAxisValue_create_def
      InputImageSlot_create_def CatalogImageSlot_create_def
      dest!: scoped_row method_ids elim!: touch_log touch_adds intro!: touch_updates)

lemma touch_Reviews:
  "ArchiveTemplate T a1 now s = Inr (r1, s') \<Longrightarrow> touch T s s'"
  "CompleteTemplateAnalysis a2 T b2 c2 d2 e2 f2 now s = Inr (r2, s') \<Longrightarrow> touch T s s'"
  "FailTemplateAnalysis a3 T b3 c3 now s = Inr (r3, s') \<Longrightarrow> touch T s s'"
  "CreateTemplateFromUpload a4 b4 T c4 d4 e4 f4 now s = Inr (r4, s') \<Longrightarrow> touch T s s'"
  "CreateProductVariant a5 b5 T c5 d5 e5 f5 g5 h5 k5 now s = Inr (r5, s') \<Longrightarrow> touch T s s'"
  "StartInputImageValidation T a6 now s = Inr (r6, s') \<Longrightarrow> touch T s s'"
  "ApproveCatalogImage a7 T b7 c7 now s = Inr (r7, s') \<Longrightarrow> touch T s s'"
  "RejectCatalogImage a8 T b8 c8 d8 now s = Inr (r8, s') \<Longrightarrow> touch T s s'"
  "GenerateContentDraft a9 b9 T c9 d9 e9 now s = Inr (r9, s') \<Longrightarrow> touch T s s'"
  "ApproveContentDraft a10 T b10 c10 now s = Inr (r10, s') \<Longrightarrow> touch T s s'"
  "RejectContentDraft a11 T b11 c11 d11 now s = Inr (r11, s') \<Longrightarrow> touch T s s'"
  "CancelPublication a12 T b12 c12 now s = Inr (r12, s') \<Longrightarrow> touch T s s'"
  "CompletePublicationMetricsFetch T a13 b13 now s = Inr (r13, s') \<Longrightarrow> touch T s s'"
  by (auto simp: uc_simps ArchiveTemplate_def CompleteTemplateAnalysis_def FailTemplateAnalysis_def
      CreateTemplateFromUpload_def CreateProductVariant_def StartInputImageValidation_def ApproveCatalogImage_def
      RejectCatalogImage_def GenerateContentDraft_def ApproveContentDraft_def RejectContentDraft_def
      CancelPublication_def CompletePublicationMetricsFetch_def CatalogTemplate_create_from_upload_def
      ProductVariant_create_def
      dest!: scoped_row method_ids elim!: touch_log touch_adds intro!: touch_updates)

lemma touch_Guarded:
  "CreatePublication a1 b1 T c1 d1 e1 f1 g1 h1 k1 now s = Inr (r1, s') \<Longrightarrow> touch T s s'"
  "CaptureProductInputImage a2 b2 T c2 d2 e2 f2 g2 now s = Inr (r2, s') \<Longrightarrow> touch T s s'"
  "StartTemplateAnalysis T a3 now s = Inr (r3, s') \<Longrightarrow> touch T s s'"
  "RecomputeProductReadiness T a4 now s = Inr (r4, s') \<Longrightarrow> touch T s s'"
  "CompleteInputImageValidation a5 T b5 c5 d5 now s = Inr (r5, s') \<Longrightarrow> touch T s s'"
  by (auto simp: uc_simps CreatePublication_def CaptureProductInputImage_def StartTemplateAnalysis_def
      RecomputeProductReadiness_def CompleteInputImageValidation_def Publication_create_def
      ProductInputImage_create_def
      split: if_splits option.splits
      dest!: scoped_row method_ids elim!: touch_log touch_adds intro!: touch_updates)


lemma touch_StartPublicationMetricsFetch: "StartPublicationMetricsFetch T st now s = Inr (r, s') \<Longrightarrow> touch T s s'"
  by (auto simp: StartPublicationMetricsFetch_def claim_for_metrics_fetch_def uc_simps split: option.splits
      dest!: first_by_Some(1) method_ids intro!: touch_updates)

section \<open>Templates\<close>

lemma touch_template_settled:
  assumes "template_add t s1 = Inr s2" and "touch T s s1" and "ct_tenant_id t = T" and "ct_id r = ct_id t" and "ct_tenant_id r = T"
  shows "touch T s (template_update r s2)"
proof -
  have "touch T s s2" using assms(1-3) touch_adds(8) by blast
  moreover have "t \<in> set (rows (db_templates s2))"
    using assms(1) by (auto simp: template_add_def bind_result_eq_Inr tbl_add_unique_Inr dest: rows_tbl_add)
  ultimately show ?thesis using templates.put_since [folded template_update_def] assms(3-5) by blast
qed

lemma touch_CreateAuthoredTemplate: "CreateAuthoredTemplate n au T sl nm p u now s = Inr (t, s') \<Longrightarrow> touch T s s'"
  by (auto simp: CreateAuthoredTemplate_def uc_simps CatalogTemplate_create_authored_def dest!: method_ids
      elim!: touch_log touch_template_settled)

lemma touch_SeedStockPresets:
  assumes "SeedStockPresets ids au T sl u ps now s = Inr (ts, s')"
  shows "touch T s s'"
proof -
  from assms obtain snap s1 where f: "fold_result (seed_one ids T sl u snap now) (enumerate 0 ps) ([], s) = Inr (ts, s1)"
    and a: "\<exists>b v. audit_record au T (Some u) ''catalog_template.stock_presets_seeded'' ''catalog_image_slot'' sl b v now s1 = Inr s'"
    by (clarsimp simp: SeedStockPresets_def bind_result_eq_Inr Let_def) blast
  have "case (ts, s1) of (l, t) \<Rightarrow> touch T s t"
    by (rule fold_result_invariant [OF f])
      (auto simp: seed_one_def bind_result_eq_Inr Let_def CatalogTemplate_create_authored_def dest!: method_ids
        elim!: touch_template_settled split: prod.splits)
  with a touch_log(1) show ?thesis by auto
qed

section \<open>Generation\<close>

lemma touch_quota: "\<lbrakk>touch T s s1; quota_kept T (db_quota s1) q\<rbrakk> \<Longrightarrow> touch T s (s1\<lparr>db_quota := q\<rparr>)"
  by (auto simp: touch_def quota_kept_def)

lemma quota_kept_update: "fst k = T \<Longrightarrow> quota_kept T q (AList.update k r q)"
  unfolding quota_kept_def by (intro filter_update) auto

lemma quota_key_tenant [simp]: "fst (quota_key_of T t) = T"
  by (simp add: quota_key_of_def)

lemma touch_quota_ops:
  "\<lbrakk>quota_reserve (quota_key_of T d) n now s1 = (b, s2); touch T s s1\<rbrakk> \<Longrightarrow> touch T s s2"
  "touch T s s1 \<Longrightarrow> touch T s (quota_commit (quota_key_of T d) n now s1)"
  "\<lbrakk>quota_release (quota_key_of T d) n now s1 = Inr s2; touch T s s1\<rbrakk> \<Longrightarrow> touch T s s2"
  by (auto simp: quota_reserve_def quota_commit_def quota_release_def split: option.splits if_splits
      intro!: touch_quota quota_kept_update)

lemma touch_CreateGenerationRequest: "CreateGenerationRequest n ev au T p v u now s = Inr (r, s') \<Longrightarrow> touch T s s'"
  by (auto simp: CreateGenerationRequest_def bind_result_eq_Inr Let_def GenerationRequest_create_def split: if_splits prod.splits
      elim!: touch_log touch_adds touch_quota_ops)

lemma touch_request_render: "\<lbrakk>request_render T now e i s1 = Inr s2; touch T s s1; gi_tenant_id i = T\<rbrakk> \<Longrightarrow> touch T s s2"
  by (auto simp: request_render_def bind_result_eq_Inr elim!: touch_log touch_adds)

lemma touch_FanOutGenerationItems:
  assumes "FanOutGenerationItems prov model draw au T rid now s = Inr (items, s')"
  shows "touch T s s'"
proof -
  from assms obtain inp slots r r' s1 u where r: "request_get T rid s = Some r" "GenerationRequest_mark_running now r = Inr r'"
    and f: "fold_result (fan_out_one inp T now draw) slots ([], s) = Inr (items, s1)"
    and a: "\<exists>b v. audit_record au T u ''generation_request.fanned_out'' ''generation_request'' (gr_id r') b v now (request_update r' s1) = Inr s'"
    by (clarsimp simp: FanOutGenerationItems_def bind_result_eq_Inr Let_def split: if_splits) blast
  have "case (items, s1) of (l, t) \<Rightarrow> touch T s t"
    by (rule fold_result_invariant [OF f])
      (auto simp: fan_out_one_def fan_out_item_def bind_result_eq_Inr Let_def GenerationItem_create_def elim!: touch_request_render)
  then have "touch T s (request_update r' s1)"
    using r by (intro requests.put [folded request_update_def, where old = r])
      (auto simp: request_get_def dest!: scoped_row method_ids)
  with a touch_log(1) show ?thesis by blast
qed

lemma touch_claim_fail:
  assumes "claim T worker ty now (db_jobs s) = (Some j, q)" and "fail_job jitter T i err now q = Inr (st, q')"
  shows "touch T s (s\<lparr>db_jobs := q'\<rparr>)"
  using touch_fail_job [OF assms(2) touch_claim [OF assms(1)]] by simp

lemma touch_StartGenerationItemRender: "StartGenerationItemRender jitter T now s = Inr (ctx, s') \<Longrightarrow> touch T s s'"
  by (clarsimp simp: StartGenerationItemRender_def split: prod.splits option.splits)
    (clarsimp simp: uc_simps; auto simp: bind_result_eq_Inr split: option.splits dest!: scoped_row method_ids
      elim: touch_claim_fail intro: touch_claim intro!: touch_updates)

lemma touch_replace_live_image:
  "\<lbrakk>replace_live_image i now s1 = Inr s2; touch T s s1; db_images s1 = db_images s; ci_tenant_id i = T\<rbrakk> \<Longrightarrow> touch T s s2"
  by (clarsimp simp: replace_live_image_def image_get_live_def same_slot_def bind_result_eq_Inr)
    (auto simp: bind_result_eq_Inr split: option.splits dest!: scalar_Some method_ids elim!: touch_adds intro!: touch_updates)

lemma touch_register_generated_asset:
  "\<lbrakk>register_generated_asset n T f ins now s1 = Inr (a, s2); touch T s s1\<rbrakk> \<Longrightarrow> touch T s s2 \<and> db_images s2 = db_images s1"
  by (clarsimp simp: register_generated_asset_def bind_result_eq_Inr)
    (auto simp: bind_result_eq_Inr asset_add_def tbl_add_unique_Inr split: option.splits dest!: Asset_create_InrD
      intro!: assets.add)

lemma touch_CompleteGenerationItemRender:
  "CompleteGenerationItemRender ids f T i j c l now s = Inr (x, s') \<Longrightarrow> touch T s s'"
  by (auto simp: CompleteGenerationItemRender_def uc_simps CatalogImage_create_def item_update_def
      dest!: scoped_row method_ids touch_register_generated_asset [OF _ touch_refl]
      elim!: touch_log touch_replace_live_image intro!: touch_complete_job touch_updates [unfolded item_update_def])

lemma touch_FailGenerationItemRender: "FailGenerationItemRender jit au T i j c d now s = Inr (x, s') \<Longrightarrow> touch T s s'"
  by (auto simp: FailGenerationItemRender_def uc_simps split: if_splits dest!: scoped_row method_ids
      elim!: touch_log touch_fail_job intro!: touch_updates)

lemma touch_StartCatalogImageQc: "StartCatalogImageQc jitter T now s = Inr (ctx, s') \<Longrightarrow> touch T s s'"
  by (clarsimp simp: StartCatalogImageQc_def split: prod.splits option.splits)
    (clarsimp simp: bind_result_eq_Inr Let_def; auto simp: bind_result_eq_Inr Let_def split: option.splits
      elim: touch_claim_fail intro: touch_claim)

lemma qc_passed_ids: "qc_passed_image T v now i s = Inr i' \<Longrightarrow> ci_id i' = ci_id i \<and> ci_tenant_id i' = ci_tenant_id i"
  by (auto simp: qc_passed_image_def bind_result_eq_Inr split: if_splits dest!: method_ids)

lemma touch_qc_failed_step:
  "\<lbrakk>qc_failed_step d T v now i s = Inr s'; i \<in> set (rows (db_images s)); ci_tenant_id i = T\<rbrakk> \<Longrightarrow> touch T s s'"
  by (clarsimp simp: qc_failed_step_def bind_result_eq_Inr Let_def dest!: method_ids)
    (auto simp: bind_result_eq_Inr retry_item_def GenerationItem_create_def split: option.splits if_splits
      dest!: method_ids elim!: touch_request_render intro!: touch_updates)

lemma touch_CompleteCatalogImageQc: "CompleteCatalogImageQc d T i j v now s = Inr (x, s') \<Longrightarrow> touch T s s'"
  by (auto simp: CompleteCatalogImageQc_def uc_simps split: if_splits dest!: scoped_row qc_passed_ids
      elim: touch_qc_failed_step intro!: touch_complete_job touch_updates)

lemma touch_FailCatalogImageQc: "FailCatalogImageQc jit T j e now s = Inr (x, s') \<Longrightarrow> touch T s s'"
  by (auto simp: FailCatalogImageQc_def bind_result_eq_Inr elim: touch_fail_job)

lemma touch_reap:
  assumes "ReapStuckTaskQueueJobs jit T now (db_jobs s) = Inr (n, q)"
  shows "touch T s (s\<lparr>db_jobs := q\<rparr>)"
proof -
  from assms obtain ids cb where f: "fold_result (\<lambda>i t. bind_result (fail_job (jit i) T i (stuck_error cb) now t)
      (\<lambda>(_, t'). Inr t')) ids (db_jobs s) = Inr q"
    by (auto simp: ReapStuckTaskQueueJobs_def reap_stuck_def bind_result_eq_Inr Let_def)
  show ?thesis
  proof (rule fold_result_invariant [OF f, of "\<lambda>t. touch T s (s\<lparr>db_jobs := t\<rparr>)"])
    fix i t t' assume "bind_result (fail_job (jit i) T i (stuck_error cb) now t) (\<lambda>(_, t'). Inr t') = Inr t'"
      and t: "touch T s (s\<lparr>db_jobs := t\<rparr>)"
    then obtain st where "fail_job (jit i) T i (stuck_error cb) now t = Inr (st, t')"
      by (auto simp: bind_result_eq_Inr)
    from touch_fail_job [OF this t] show "touch T s (s\<lparr>db_jobs := t'\<rparr>)" by simp
  qed simp
qed

lemma touch_settle_quota: "\<lbrakk>settle_quota T r ru now s1 = Inr s2; touch T s s1\<rbrakk> \<Longrightarrow> touch T s s2"
  by (auto simp: settle_quota_def bind_result_eq_Inr Let_def split: option.splits if_splits elim!: touch_quota_ops(3)
      intro!: touch_quota_ops(2))

lemma touch_ReconcileGenerationRequests:
  assumes "ReconcileGenerationRequestsForTenant T lm now s = Inr (n, s')"
  shows "touch T s s'"
proof -
  have "case (n, s') of (_, t) \<Rightarrow> touch T s t"
  proof (rule fold_result_invariant [OF assms [unfolded ReconcileGenerationRequestsForTenant_def]])
    fix r a b assume "r \<in> set (list_running_for_update T lm s)" and one: "reconcile_one T now r a = Inr b"
      and inv: "case a of (_, t) \<Rightarrow> touch T s t"
    then have "r \<in> set (rows (db_requests s))" "gr_tenant_id r = T"
      by (auto simp: list_running_for_update_def dest!: in_set_takeD)
    with one inv show "case b of (_, t) \<Rightarrow> touch T s t"
      by (clarsimp simp: reconcile_one_def bind_result_eq_Inr Let_def split: prod.splits)
        (auto simp: bind_result_eq_Inr split: option.splits dest!: method_ids elim!: touch_settle_quota intro!: touch_updates)
  qed simp
  then show ?thesis by simp
qed

lemma page_rows: "set (images_list_page T st p cur lm s) \<subseteq> {i \<in> set (rows (db_images s)). ci_tenant_id i = T}"
  by (auto simp: images_list_page_def dest!: in_set_takeD)

lemma touch_BulkApproveCatalogImages:
  assumes "BulkApproveCatalogImagesForProduct ids T p u now s = Inr (n, s')"
  shows "touch T s s'"
proof -
  let ?xs = "images_list_page T (Some IMG_PENDING_APPROVAL) (Some p) None (BULK_LIMIT + 1) s"
  have f: "fold_result (bulk_approve_one ids T u now) ?xs s = Inr s'"
    using assms unfolding BulkApproveCatalogImagesForProduct_def Let_def
    by (clarsimp simp only: bind_result_eq_Inr) (auto simp: bind_result_eq_Inr split: if_splits)
  show ?thesis
    by (rule touch_fold [OF f touch_refl])
      (use page_rows in \<open>fastforce simp: bulk_approve_one_def bind_result_eq_Inr dest!: method_ids elim!: touch_log
        intro!: touch_updates\<close>)
qed

section \<open>Copy\<close>

lemma copy_context_for_state:
  assumes "copy_context_for jit T job v ch lo m now s = Inr (ctx, s')"
  shows "s' = s \<or> (\<exists>e. give_up_job jit T job e now s = Inr (ctx, s'))"
proof (cases "variant_get T v s")
  case (Some w)
  with assms obtain p x where p: "product_get T (pv_product_id w) s = Some p"
    and x: "product_setting T FORBIDDEN_CLAIMS_KEY p s = Inr x" by (auto simp: copy_context_for_def bind_result_eq_Inr)
  show ?thesis
  proof (cases "resolve_forbidden_claims x")
    case (Inl e)
    with assms Some p x show ?thesis by (cases e) (auto simp: copy_context_for_def)
  qed (use assms Some p x in \<open>auto simp: copy_context_for_def Let_def\<close>)
qed (use assms in \<open>auto simp: copy_context_for_def\<close>)

lemma touch_StartContentDraftGeneration:
  assumes "StartContentDraftGeneration jitter T now s = Inr (ctx, s')"
  shows "touch T s s'"
proof -
  obtain r q where cl: "claim T COPY_CLAIMED_BY (Some COPY_JOB_TYPE) now (db_jobs s) = (r, q)" by fastforce
  show ?thesis
  proof (cases r)
    case (Some job)
    with assms cl obtain v ch lo m where "copy_context_for jitter T job v ch lo m now (s\<lparr>db_jobs := q\<rparr>) = Inr (ctx, s')"
      by (auto simp: StartContentDraftGeneration_def bind_result_eq_Inr)
    with copy_context_for_state show ?thesis
      using cl Some by (fastforce simp: give_up_job_def bind_result_eq_Inr intro: touch_claim elim: touch_claim_fail)
  qed (use assms cl in \<open>auto simp: StartContentDraftGeneration_def\<close>)
qed

lemma gate_draft_ids: "gate_draft T p now d s = Inr d' \<Longrightarrow> cd_id d' = cd_id d \<and> cd_tenant_id d' = cd_tenant_id d"
  by (auto simp: gate_draft_def bind_result_eq_Inr split: if_splits dest!: method_ids)

lemma touch_supersede_draft:
  "\<lbrakk>supersede_draft old d now s = Inr s2; \<And>x. old = Some x \<Longrightarrow> x \<in> set (rows (db_drafts s)) \<and> cd_tenant_id x = T; cd_tenant_id d = T\<rbrakk>
    \<Longrightarrow> touch T s s2"
  by (auto simp: supersede_draft_def bind_result_eq_Inr split: option.splits dest!: method_ids elim!: touch_adds intro!: touch_updates)

lemma touch_CompleteContentDraftGeneration:
  "CompleteContentDraftGeneration n au jit T v ch lo j c f now s = Inr (x, s') \<Longrightarrow> touch T s s'"
  by (clarsimp simp: CompleteContentDraftGeneration_def split: option.splits)
    (auto simp: bind_result_eq_Inr draft_get_live_def ContentDraft_create_def dest!: scalar_Some gate_draft_ids
      elim!: touch_log touch_fail_job intro!: touch_complete_job elim: touch_supersede_draft)

lemma touch_FailContentDraftGeneration: "FailContentDraftGeneration jit T j c d now s = Inr (x, s') \<Longrightarrow> touch T s s'"
  by (auto simp: FailContentDraftGeneration_def bind_result_eq_Inr elim: touch_fail_job)

lemma touch_EditContentDraft: "EditContentDraft n au T i u ti b hs cta al now s = Inr (d, s') \<Longrightarrow> touch T s s'"
  by (clarsimp simp: EditContentDraft_def uc_simps dest!: scoped_row)
    (auto simp: bind_result_eq_Inr ContentDraft_create_def split: option.splits dest!: gate_draft_ids elim!: touch_log
      elim: touch_supersede_draft)

section \<open>Publishing\<close>

lemma touch_StartPublicationPublish: "StartPublicationPublish jitter T now s = Inr (ctx, s') \<Longrightarrow> touch T s s'"
  by (clarsimp simp: StartPublicationPublish_def split: prod.splits option.splits)
    (clarsimp simp: uc_simps; auto simp: bind_result_eq_Inr split: option.splits if_splits dest!: scoped_row method_ids
      elim: touch_claim_fail intro: touch_claim intro!: touch_updates)

lemma touch_CompletePublicationPublish: "CompletePublicationPublish au T i j p l now s = Inr (x, s') \<Longrightarrow> touch T s s'"
  by (auto simp: CompletePublicationPublish_def uc_simps dest!: scoped_row method_ids elim!: touch_log
      intro!: touch_complete_job touch_updates)

lemma touch_FailPublicationPublish: "FailPublicationPublish jit au T i j e now s = Inr (x, s') \<Longrightarrow> touch T s s'"
  by (auto simp: FailPublicationPublish_def uc_simps dest!: scoped_row method_ids elim!: touch_log touch_fail_job
      intro!: touch_updates)

lemma touch_DeferPublicationPublish: "DeferPublicationPublish T i j r d now s = Inr (x, s') \<Longrightarrow> touch T s s'"
  by (auto simp: DeferPublicationPublish_def uc_simps dest!: scoped_row method_ids intro!: touch_complete_job touch_updates)

lemma touch_close_attempt: "close_attempt se d d' T ctx c s = Inr (x, s') \<Longrightarrow> touch T s s'"
  by (auto simp: close_attempt_def fail_attempt_def split: closing.splits sum.splits
      intro: touch_CompletePublicationPublish touch_FailPublicationPublish touch_DeferPublicationPublish)

lemma touch_ReleaseScheduledPublications:
  assumes "ReleaseScheduledPublicationsForTenant ids T lm now s = Inr (n, s')"
  shows "touch T s s'"
proof -
  from assms have f: "fold_result (release_one ids T now) (list_due_for_release T now lm s) s = Inr s'"
    by (auto simp: ReleaseScheduledPublicationsForTenant_def bind_result_eq_Inr Let_def)
  show ?thesis
    by (rule touch_fold [OF f touch_refl])
      (auto simp: release_one_def list_due_for_release_def bind_result_eq_Inr dest!: in_set_takeD method_ids
        elim!: touch_log intro!: touch_updates)
qed

section \<open>The agents\<close>

lemma touch_ran:
  assumes "run_uow f s1 = (r, s2)" and "touch T s s1" and "\<And>x t. f s1 = Inr (x, t) \<Longrightarrow> touch T s1 t"
  shows "touch T s s2"
  using assms by (auto simp: run_uow_def split: sum.splits intro: touch_trans)

lemma touch_TemplateAnalysisAgent: "TemplateAnalysisAgent_run an time au T i s = (r, s') \<Longrightarrow> touch T s s'"
  by (auto simp: TemplateAnalysisAgent_run_def split: prod.splits sum.splits
      elim!: touch_ran intro: touch_Reviews touch_Guarded)

lemma touch_InputImageValidationAgent: "InputImageValidationAgent_run rd time au T i s = (r, s') \<Longrightarrow> touch T s s'"
  by (auto simp: InputImageValidationAgent_run_def Let_def split: prod.splits sum.splits
      elim!: touch_ran intro: touch_Reviews touch_Guarded)

lemma touch_GenerationRenderAgent: "GenerationRenderAgent_run gen d T s = (r, s') \<Longrightarrow> touch T s s'"
  by (auto simp: GenerationRenderAgent_run_def split: prod.splits sum.splits option.splits
      elim!: touch_ran intro: touch_StartGenerationItemRender touch_CompleteGenerationItemRender touch_FailGenerationItemRender)

lemma touch_CatalogImageQcAgent: "CatalogImageQcAgent_run ev d T s = (r, s') \<Longrightarrow> touch T s s'"
  by (auto simp: CatalogImageQcAgent_run_def split: prod.splits sum.splits option.splits
      elim!: touch_ran intro: touch_StartCatalogImageQc touch_CompleteCatalogImageQc touch_FailCatalogImageQc)

lemma touch_CopywritingAgent: "CopywritingAgent_run gen d T s = (r, s') \<Longrightarrow> touch T s s'"
  by (auto simp: CopywritingAgent_run_def split: prod.splits sum.splits option.splits
      elim!: touch_ran intro: touch_StartContentDraftGeneration touch_CompleteContentDraftGeneration
        touch_FailContentDraftGeneration)

lemma touch_PublicationMetricsAgent: "PublicationMetricsAgent_run fe d T s = (r, s') \<Longrightarrow> touch T s s'"
  by (auto simp: PublicationMetricsAgent_run_def split: prod.splits sum.splits option.splits
      elim!: touch_ran intro: touch_StartPublicationMetricsFetch touch_Reviews)

definition windows_kept :: "uuid \<Rightarrow> windows \<Rightarrow> windows \<Rightarrow> bool" where
  "windows_kept T ws ws' \<longleftrightarrow> filter (\<lambda>e. fst (fst e) \<noteq> T) ws' = filter (\<lambda>e. fst (fst e) \<noteq> T) ws"

lemma windows_kept_refl [simp]: "windows_kept T ws ws"
  by (simp add: windows_kept_def)

lemma windows_kept_allow: "allow T b lm wd now ws = Inr (ok, ws') \<Longrightarrow> windows_kept T ws ws'"
  by (auto simp: allow_def bind_result_eq_Inr Let_def windows_kept_def split: option.splits if_splits
      intro!: filter_update)

lemma touch_PublishChannelAgent:
  "PublishChannelAgent_run se pv lm d T s ws = (r, s', ws') \<Longrightarrow> touch T s s' \<and> windows_kept T ws ws'"
  by (auto simp: PublishChannelAgent_run_def Let_def split: prod.splits sum.splits option.splits
      elim!: touch_ran intro: touch_StartPublicationPublish touch_close_attempt windows_kept_allow)

end
