(* ===== verification/Tenant_Plane.thy ===== *)
theory Tenant_Plane
  imports Tenant_Isolation Http_Protocol
begin

text \<open>
  The isolation of tenants on the admin plane: whatever the requests of other tenants do, in any order, a tenant finds
  its data as it left them.
\<close>

section \<open>What belongs to a tenant\<close>

text \<open>The rows of one tenant in every table.\<close>

definition data_of :: "uuid \<Rightarrow> db \<Rightarrow> db" where
  "data_of U s = \<lparr>db_jobs = filter (\<lambda>e. job_tenant_id (snd e) = U) (db_jobs s),
     db_audit = filter (\<lambda>e. au_tenant_id (snd e) = U) (db_audit s),
     db_outbox = filter (\<lambda>e. ev_tenant_id (snd e) = U) (db_outbox s),
     db_quota = filter (\<lambda>e. fst (fst e) = U) (db_quota s),
     db_publications = filter (\<lambda>e. pub_tenant_id (snd e) = U) (db_publications s),
     db_social_accounts = filter (\<lambda>e. sa_tenant_id (snd e) = U) (db_social_accounts s),
     db_drafts = filter (\<lambda>e. cd_tenant_id (snd e) = U) (db_drafts s),
     db_variants = filter (\<lambda>e. pv_tenant_id (snd e) = U) (db_variants s),
     db_products = filter (\<lambda>e. prod_tenant_id (snd e) = U) (db_products s),
     db_input_images = filter (\<lambda>e. pii_tenant_id (snd e) = U) (db_input_images s),
     db_assets = filter (\<lambda>e. asset_tenant_id (snd e) = U) (db_assets s),
     db_templates = filter (\<lambda>e. ct_tenant_id (snd e) = U) (db_templates s),
     db_requests = filter (\<lambda>e. gr_tenant_id (snd e) = U) (db_requests s),
     db_items = filter (\<lambda>e. gi_tenant_id (snd e) = U) (db_items s),
     db_images = filter (\<lambda>e. ci_tenant_id (snd e) = U) (db_images s),
     db_categories = filter (\<lambda>e. cat_tenant_id (snd e) = U) (db_categories s),
     db_attributes = filter (\<lambda>e. ad_tenant_id (snd e) = U) (db_attributes s),
     db_axes = filter (\<lambda>e. va_tenant_id (snd e) = U) (db_axes s),
     db_axis_values = filter (\<lambda>e. vav_tenant_id (snd e) = U) (db_axis_values s),
     db_input_slots = filter (\<lambda>e. iis_tenant_id (snd e) = U) (db_input_slots s),
     db_catalog_slots = filter (\<lambda>e. cis_tenant_id (snd e) = U) (db_catalog_slots s),
     db_requirements = filter (\<lambda>r. req_tenant_id r = U) (db_requirements s),
     db_spec_versions = filter (\<lambda>e. csv_tenant_id (snd e) = U) (db_spec_versions s),
     db_settings = filter (\<lambda>e. set_tenant_id (snd e) = Some U) (db_settings s)\<rparr>"

text \<open>The primary keys.\<close>

definition db_ok :: "db \<Rightarrow> bool" where
  "db_ok s \<longleftrightarrow> distinct (map requirement_key (db_requirements s))
     \<and> tbl_ok job_id (db_jobs s)
     \<and> tbl_ok au_id (db_audit s)
     \<and> tbl_ok ev_id (db_outbox s)
     \<and> tbl_ok pub_id (db_publications s)
     \<and> tbl_ok sa_id (db_social_accounts s)
     \<and> tbl_ok cd_id (db_drafts s)
     \<and> tbl_ok pv_id (db_variants s)
     \<and> tbl_ok prod_id (db_products s)
     \<and> tbl_ok pii_id (db_input_images s)
     \<and> tbl_ok asset_id (db_assets s)
     \<and> tbl_ok ct_id (db_templates s)
     \<and> tbl_ok gr_id (db_requests s)
     \<and> tbl_ok gi_id (db_items s)
     \<and> tbl_ok ci_id (db_images s)
     \<and> tbl_ok cat_id (db_categories s)
     \<and> tbl_ok ad_id (db_attributes s)
     \<and> tbl_ok va_id (db_axes s)
     \<and> tbl_ok vav_id (db_axis_values s)
     \<and> tbl_ok iis_id (db_input_slots s)
     \<and> tbl_ok cis_id (db_catalog_slots s)
     \<and> tbl_ok csv_id (db_spec_versions s)
     \<and> tbl_ok set_id (db_settings s)"

lemma kept_elsewhere:
  assumes "kept (\<lambda>r. owner r = T) key t t'" and "tbl_ok key t" and "U \<noteq> T"
  shows "filter (\<lambda>e. owner (snd e) = U) t' = filter (\<lambda>e. owner (snd e) = U) t"
proof -
  have part: "filter (\<lambda>e. owner (snd e) = U) x = filter (\<lambda>e. owner (snd e) = U) (others (\<lambda>r. owner r = T) x)" for x
    using assms(3) by (auto simp: others_def intro: filter_cong)
  have "others (\<lambda>r. owner r = T) t' = others (\<lambda>r. owner r = T) t" using assms(1,2) by (simp add: kept_def)
  then show ?thesis by (simp only: part [of t'] part [of t])
qed

lemma filter_elsewhere:
  assumes "filter (\<lambda>e. f e \<noteq> T) t' = filter (\<lambda>e. f e \<noteq> T) t" and "U \<noteq> T"
  shows "filter (\<lambda>e. f e = U) t' = filter (\<lambda>e. f e = U) t"
proof -
  have part: "filter (\<lambda>e. f e = U) x = filter (\<lambda>e. f e = U) (filter (\<lambda>e. f e \<noteq> T) x)" for x
    using assms(2) by (auto intro: filter_cong)
  show ?thesis by (simp only: part [of t'] part [of t] assms(1))
qed

lemma touch_data_of:
  assumes "touch T s s'" and "db_ok s" and "U \<noteq> T"
  shows "data_of U s' = data_of U s" and "db_ok s'"
proof -
  have set: "filter (\<lambda>e. set_tenant_id (snd e) = Some U) (db_settings s') = filter (\<lambda>e. set_tenant_id (snd e) = Some U) (db_settings s)"
    using assms by (intro kept_elsewhere [where T = "Some T" and key = set_id]) (simp_all add: touch_def db_ok_def)
  have quota: "filter (\<lambda>e. fst (fst e) = U) (db_quota s') = filter (\<lambda>e. fst (fst e) = U) (db_quota s)"
    using assms(1) by (intro filter_elsewhere [OF _ assms(3)]) (simp add: touch_def quota_kept_def)
  have reqs: "filter (\<lambda>r. req_tenant_id r = U) (db_requirements s') = filter (\<lambda>r. req_tenant_id r = U) (db_requirements s)"
    using assms(1,2) by (intro filter_elsewhere [OF _ assms(3)]) (simp add: touch_def requirements_kept_def db_ok_def)
  note keep = kept_elsewhere [OF _ _ assms(3)]
  show "data_of U s' = data_of U s"
    using assms(1,2) unfolding data_of_def set quota reqs touch_def db_ok_def by (elim conjE) (intro db.equality; simp add: keep)
  show "db_ok s'" using assms(1,2) by (simp add: touch_def db_ok_def kept_def requirements_kept_def)
qed

section \<open>Requests\<close>

text \<open>
  The server as one tenant is concerned: its own rows, its domains, its rate windows, and the accounts of all users.
\<close>

definition tenant_view :: "uuid \<Rightarrow> web \<Rightarrow> web" where
  "tenant_view U w = w\<lparr>web_platform := (web_platform w)\<lparr>
       pf_domains := filter (\<lambda>e. td_tenant_id (snd e) = U) (pf_domains (web_platform w)),
       pf_db := data_of U (pf_db (web_platform w))\<rparr>,
     web_windows := filter (\<lambda>e. fst (fst e) = U) (web_windows w)\<rparr>"

definition server_ok :: "web \<Rightarrow> bool" where
  "server_ok w \<longleftrightarrow> db_ok (pf_db (web_platform w)) \<and> tbl_ok td_id (pf_domains (web_platform w))"

definition touches :: "uuid \<Rightarrow> web \<Rightarrow> web \<Rightarrow> bool" where
  "touches T w w' \<longleftrightarrow> touch T (pf_db (web_platform w)) (pf_db (web_platform w'))
     \<and> kept (\<lambda>d. td_tenant_id d = T) td_id (pf_domains (web_platform w)) (pf_domains (web_platform w'))
     \<and> windows_kept T (web_windows w) (web_windows w')
     \<and> web_platform w' = (web_platform w)\<lparr>pf_domains := pf_domains (web_platform w'), pf_db := pf_db (web_platform w')\<rparr>"

lemma touches_refl [simp]: "touches T w w"
  by (simp add: touches_def)

lemma touches_view:
  assumes "touches T w w'" and "server_ok w" and "U \<noteq> T"
  shows "tenant_view U w' = tenant_view U w \<and> server_ok w'"
proof -
  from assms have db: "touch T (pf_db (web_platform w)) (pf_db (web_platform w'))" "db_ok (pf_db (web_platform w))"
    and dom: "kept (\<lambda>d. td_tenant_id d = T) td_id (pf_domains (web_platform w)) (pf_domains (web_platform w'))"
    "tbl_ok td_id (pf_domains (web_platform w))"
    and win: "filter (\<lambda>e. fst (fst e) \<noteq> T) (web_windows w') = filter (\<lambda>e. fst (fst e) \<noteq> T) (web_windows w)"
    and rest: "web_platform w' = (web_platform w)\<lparr>pf_domains := pf_domains (web_platform w'), pf_db := pf_db (web_platform w')\<rparr>"
    by (simp_all add: touches_def server_ok_def windows_kept_def)
  note views = touch_data_of [OF db assms(3)] kept_elsewhere [OF dom assms(3)] filter_elsewhere [OF win assms(3)]
  have "tenant_view U w' = tenant_view U w"
    unfolding tenant_view_def views(1,3,4) by (subst rest) (cases w, cases w', simp)
  moreover have "server_ok w'" using views(2) dom by (simp add: server_ok_def kept_def)
  ultimately show ?thesis by blast
qed

text \<open>An action on behalf of a tenant touches that tenant's data only.\<close>

definition scoped :: "(uuid \<Rightarrow> uuid \<Rightarrow> 'a action) \<Rightarrow> bool" where
  "scoped act \<longleftrightarrow> (\<forall>T u w. touches T w (snd (act T u w)))"

lemma scoped_db:
  assumes "\<And>T u s r s'. f T u s = (r, s') \<Longrightarrow> touch T s s'"
  shows "scoped (\<lambda>T u. on_db (f T u))"
  using assms by (auto simp: scoped_def touches_def on_db_def on_platform_def split: prod.splits)

lemma scoped_exec:
  assumes "\<And>T u s x s'. f T u s = Inr (x, s') \<Longrightarrow> touch T s s'"
  shows "scoped (\<lambda>T u. exec (f T u))"
  unfolding exec_def by (rule scoped_db) (auto simp: run_uow_def split: sum.splits intro: assms)

lemma scoped_query: "scoped (\<lambda>T u. query (f T u))" "scoped (\<lambda>T u w. (Inr (g T u w), w))"
  by (simp_all add: scoped_def query_def)

lemma scoped_publish: "scoped (\<lambda>T u. on_windows (PublishChannelAgent_run se pv lm d T))"
  by (auto simp: scoped_def touches_def on_windows_def split: prod.splits dest!: touch_PublishChannelAgent)

lemma scoped_reap:
  "scoped (\<lambda>T u. exec (\<lambda>s. bind_result (ReapStuckTaskQueueJobs jit T now (db_jobs s)) (\<lambda>(n, q). Inr (n, s\<lparr>db_jobs := q\<rparr>))))"
  by (rule scoped_exec) (auto simp: bind_result_eq_Inr intro: touch_reap)

lemma scoped_domain: "scoped (\<lambda>T u. on_platform (run_uow (RegisterTenantDomain n au T h u now)))"
proof -
  have "touches T w (snd (on_platform (run_uow (RegisterTenantDomain n au T h u now)) w))" for T u w
  proof (cases "RegisterTenantDomain n au T h u now (web_platform w)")
    case (Inr y)
    then obtain d p where y: "RegisterTenantDomain n au T h u now (web_platform w) = Inr (d, p)" by (cases y) auto
    then obtain t a where d: "TenantDomain_create n T h False now = Inr d"
      and t: "tbl_add (td_id d) d (pf_domains (web_platform w)) = Inr t"
      and a: "\<exists>b v. audit_record au T (Some u) ''tenant_domain.registered'' ''tenant_domain'' (td_id d) b v now (pf_db (web_platform w)) = Inr a"
      and p: "p = (web_platform w)\<lparr>pf_domains := t, pf_db := a\<rparr>"
      by (fastforce simp: RegisterTenantDomain_def bind_result_eq_Inr domain_add_def tbl_add_unique_Inr)
    from d have "td_tenant_id d = T" by (auto simp: TenantDomain_create_def Let_def split: if_splits)
    with t have "kept (\<lambda>d. td_tenant_id d = T) td_id (pf_domains (web_platform w)) t" by (intro kept_add [OF kept_refl])
    moreover from a have "touch T (pf_db (web_platform w)) a" using touch_log(1) touch_refl by blast
    ultimately show ?thesis by (simp add: touches_def on_platform_def run_uow_def y p)
  qed (simp add: on_platform_def run_uow_def)
  then show ?thesis by (simp add: scoped_def)
qed

lemma admin_route_scoped:
  assumes "admin_route cap code render act who w = (r, w')" and "scoped act"
  shows "w' = w \<or> (\<exists>p T. who = Inr p \<and> pr_tenant_id p = Some T \<and> touches T w w')"
proof (cases "admitted cap who")
  case (Inl e)
  with assms(1) admin_route_refused [of cap who e code render act w] show ?thesis by simp
next
  case (Inr p)
  then obtain T where T: "pr_tenant_id p = Some T" and who: "who = Inr p" by (auto simp: admitted_Inr entitled_def)
  from assms(1) admin_route_admitted [OF Inr T, of code render act w] have "respond code render (act T (pr_user_id p) w) = (r, w')" by simp
  then have "w' = snd (act T (pr_user_id p) w)" by (auto simp: respond_def split: prod.splits)
  with assms(2) T who show ?thesis by (auto simp: scoped_def)
qed

lemmas use_cases_touch =
  touch_CreateProduct touch_CreateCategory touch_UpsertSetting touch_MoveCategory touch_PublishCategorySpec
  touch_AttachInputToCatalogSlot touch_DetachInputFromCatalogSlot touch_UpdateCatalogSlotInputRequirement
  touch_Taxonomy touch_Reviews touch_Guarded touch_StartPublicationMetricsFetch touch_CreateAuthoredTemplate
  touch_SeedStockPresets touch_CreateGenerationRequest touch_FanOutGenerationItems touch_StartGenerationItemRender
  touch_CompleteGenerationItemRender touch_FailGenerationItemRender touch_StartCatalogImageQc
  touch_CompleteCatalogImageQc touch_FailCatalogImageQc touch_ReconcileGenerationRequests
  touch_BulkApproveCatalogImages touch_StartContentDraftGeneration touch_CompleteContentDraftGeneration
  touch_FailContentDraftGeneration touch_EditContentDraft touch_StartPublicationPublish
  touch_CompletePublicationPublish touch_FailPublicationPublish touch_DeferPublicationPublish
  touch_ReleaseScheduledPublications

lemmas agents_touch =
  touch_TemplateAnalysisAgent touch_InputImageValidationAgent touch_GenerationRenderAgent touch_CatalogImageQcAgent
  touch_CopywritingAgent touch_PublicationMetricsAgent

lemma admin_request_scoped:
  "admin_request cap who w st w' \<Longrightarrow> w' = w \<or> (\<exists>p T. who = Inr p \<and> pr_tenant_id p = Some T \<and> touches T w w')"
  by (induction rule: admin_request.induct)
    (unfold request_defs, (erule admin_route_scoped, (rule scoped_query scoped_reap scoped_domain | (rule scoped_exec, erule use_cases_touch)))+)

lemma agent_request_scoped:
  "agent_request cap who w st w' \<Longrightarrow> w' = w \<or> (\<exists>p T. who = Inr p \<and> pr_tenant_id p = Some T \<and> touches T w w')"
  by (induction rule: agent_request.induct)
    (unfold agent_request_defs, (erule admin_route_scoped, (rule scoped_publish | (rule scoped_db, erule agents_touch)))+)

text \<open>A request of anybody but a member of \<open>U\<close>.\<close>

definition request_of_others :: "uuid \<Rightarrow> web \<Rightarrow> web \<Rightarrow> bool" where
  "request_of_others U w w' \<longleftrightarrow> (\<exists>cap who st. (admin_request cap who w st w' \<or> agent_request cap who w st w')
     \<and> (\<forall>p. who = Inr p \<longrightarrow> pr_tenant_id p \<noteq> Some U))"

lemma request_of_others_view:
  assumes "request_of_others U w w'" and "server_ok w"
  shows "tenant_view U w' = tenant_view U w \<and> server_ok w'"
proof -
  from assms(1) obtain cap who st where other: "\<forall>p. who = Inr p \<longrightarrow> pr_tenant_id p \<noteq> Some U"
    and r: "admin_request cap who w st w' \<or> agent_request cap who w st w'"
    unfolding request_of_others_def by blast
  from r have "w' = w \<or> (\<exists>p T. who = Inr p \<and> pr_tenant_id p = Some T \<and> touches T w w')"
    using admin_request_scoped [of cap who w st w'] agent_request_scoped [of cap who w st w'] by (elim disjE) simp_all
  then show ?thesis
  proof
    assume "\<exists>p T. who = Inr p \<and> pr_tenant_id p = Some T \<and> touches T w w'"
    then obtain p T where "who = Inr p" "pr_tenant_id p = Some T" and t: "touches T w w'" by blast
    with other have "U \<noteq> T" by auto
    then show ?thesis by (rule touches_view [OF t assms(2)])
  qed (simp add: assms(2))
qed

text \<open>
  C1: However many requests the members of other tenants send to any route of the admin plane, in any order, with whatever
  identifiers, the agents' runs among them: every row of a tenant in every table is exactly as it was, and so are its domains,
  its rate windows and the accounts, sessions and memberships of all users.
\<close>

theorem tenants_isolated:
  assumes "(request_of_others U)\<^sup>*\<^sup>* w w'" and "server_ok w"
  shows "tenant_view U w' = tenant_view U w \<and> server_ok w'"
  using assms(1)
proof (induction rule: rtranclp_induct)
  case (step w1 w2)
  with request_of_others_view [of U w1 w2] show ?case by simp
qed (simp add: assms(2))

text \<open>A clerk of tenant 9 creates a category while tenant 8 has one of its own.\<close>

definition shared_server :: web where
  "shared_server = new_server\<lparr>web_platform := (web_platform new_server)\<lparr>pf_db :=
     empty_db\<lparr>db_categories := [(1, Category_create 1 8 ''bags'' ''Bags'' ''bags'' None 0 None 0)]\<rparr>\<rparr>\<rparr>"

lemma shared_ok: "server_ok shared_server"
  by (simp add: server_ok_def shared_server_def new_server_def db_ok_def empty_db_def tbl_ok_def Category_create_def)

theorem tenants_isolated_witness:
  "\<exists>w'. w' \<noteq> shared_server \<and> tenant_view 8 w' = tenant_view 8 shared_server \<and> server_ok w'"
proof -
  let ?s = "pf_db (web_platform shared_server)"
  have "\<exists>c t a. CreateCategory 2 1 9 ''shoes'' ''Shoes'' ''shoes'' None None 0 (pr_user_id clerk) 0 ?s
      = Inr (c, ?s\<lparr>db_categories := t, db_audit := [a]\<rparr>)"
    by (simp add: CreateCategory_def Let_def category_add_def tbl_add_unique_def tbl_add_def tbl_get_def rows_def shared_server_def
        empty_db_def audit_record_def Category_create_def slug_clash_def sibling_clash_def)
  then obtain c t a where created: "CreateCategory 2 1 9 ''shoes'' ''Shoes'' ''shoes'' None None 0 (pr_user_id clerk) 0 ?s
      = Inr (c, ?s\<lparr>db_categories := t, db_audit := [a]\<rparr>)" by blast
  let ?e = "undefined\<lparr>en_id := \<lambda>n. if n = 0 then 2 else 1, en_now := \<lambda>_. 0\<rparr>"
  obtain r w' where c: "create_category ?e ''shoes'' ''Shoes'' ''shoes'' None None 0 (Inr clerk) shared_server = (r, w')" and "w' \<noteq> shared_server"
    unfolding create_category_def admin_route_admitted [OF clerk_entitled]
    using created by (simp add: exec_def on_db_def on_platform_def run_uow_def respond_def shared_server_def new_server_def empty_db_def)
  have "request_of_others 8 shared_server w'"
    unfolding request_of_others_def using admin_request.create_category [OF c] by (fastforce simp: clerk_def)
  from tenants_isolated [OF r_into_rtranclp [of "request_of_others 8", OF this] shared_ok] \<open>w' \<noteq> shared_server\<close> show ?thesis by blast
qed

end
