(* ===== verification/Unit_Of_Work.thy ===== *)
theory Unit_Of_Work
  imports Database
begin

text \<open>
  infrastructure/persistence/unit_of_work.py: the object behind \<open>run_uow\<close>. It opens a session, binds the tenant before anything
  else is executed, hands out one repository per kind bound to that session, and commits or rolls back and closes at the end. A
  session is a working copy of the committed database with an identifier; whether a commit succeeds is the database's answer. The
  refinement lemma says that the object implements \<open>run_uow\<close>.
\<close>

section \<open>Sessions\<close>

datatype repository =
  Repo_users | Repo_identities | Repo_platform_admins | Repo_tenant_memberships | Repo_sessions | Repo_idempotency_keys
  | Repo_audit_log | Repo_categories | Repo_attribute_definitions | Repo_variant_axes | Repo_variant_axis_values
  | Repo_input_image_slots | Repo_catalog_image_slots | Repo_catalog_slot_input_requirements | Repo_category_spec_versions
  | Repo_settings | Repo_assets | Repo_catalog_templates | Repo_products | Repo_product_variants | Repo_product_input_images
  | Repo_outbox_events | Repo_task_queue | Repo_tenants | Repo_quota_reservations | Repo_generation_requests
  | Repo_generation_items | Repo_catalog_images | Repo_content_drafts | Repo_social_accounts | Repo_publications
  | Repo_tenant_domains

datatype failure = RuntimeError string | Raised exn | CommitFailed

datatype session_event = Began nat | TenantBound nat uuid | Committed nat | RolledBack nat | Closed nat

record 's session_copy =
  sn_id :: nat
  sn_state :: 's

record 's world =
  wd_state :: 's
  wd_next :: nat
  wd_trace :: "session_event list"

definition trace_event :: "session_event \<Rightarrow> 's world \<Rightarrow> 's world" where
  "trace_event ev w = w\<lparr>wd_trace := wd_trace w @ [ev]\<rparr>"

section \<open>SqlUnitOfWork\<close>

record 's unit_of_work =
  uw_tenant_id :: "uuid option"
  uw_session :: "'s session_copy option"
  uw_repositories :: "(repository, nat) dict" \<comment> \<open>the cached ones, with the session they hold\<close>

text \<open>\<open>factory(tenant_id)\<close>\<close>

definition make_unit_of_work :: "uuid option \<Rightarrow> 's unit_of_work" where
  "make_unit_of_work tenant_id = \<lparr>uw_tenant_id = tenant_id, uw_session = None, uw_repositories = []\<rparr>"

definition uow_session :: "'s unit_of_work \<Rightarrow> failure + 's session_copy" where
  "uow_session u = (case uw_session u of
     None \<Rightarrow> Inl (RuntimeError ''SqlUnitOfWork used outside its `async with` block'')
   | Some sn \<Rightarrow> Inr sn)"

text \<open>The 32 properties, each for its own repository.\<close>

definition uow_repository :: "repository \<Rightarrow> 's unit_of_work \<Rightarrow> failure + nat \<times> 's unit_of_work" where
  "uow_repository r u = (case map_of (uw_repositories u) r of
     Some i \<Rightarrow> Inr (i, u)
   | None \<Rightarrow> (case uow_session u of
       Inl e \<Rightarrow> Inl e
     | Inr sn \<Rightarrow> Inr (sn_id sn, u\<lparr>uw_repositories := dict_set r (sn_id sn) (uw_repositories u)\<rparr>)))"

definition uow_enter :: "'s unit_of_work \<Rightarrow> 's world \<Rightarrow> 's unit_of_work \<times> 's world" where
  "uow_enter u w =
     (let i = wd_next w;
          w1 = trace_event (Began i) (w\<lparr>wd_next := Suc i\<rparr>);
          w2 = (case uw_tenant_id u of None \<Rightarrow> w1 | Some T \<Rightarrow> trace_event (TenantBound i T) w1)
      in (u\<lparr>uw_session := Some \<lparr>sn_id = i, sn_state = wd_state w\<rparr>\<rparr>, w2))"

text \<open>\<open>raised\<close>: whether the block raised; \<open>commits\<close>: whether the database accepts the commit.\<close>

definition uow_exit :: "bool \<Rightarrow> bool \<Rightarrow> 's unit_of_work \<Rightarrow> 's world \<Rightarrow> (failure + unit) \<times> 's unit_of_work \<times> 's world" where
  "uow_exit commits raised u w =
     (case uow_session u of
        Inl e \<Rightarrow> (Inl e, u, w)
      | Inr sn \<Rightarrow>
          (let (r, w1) = (if raised then (Inr (), trace_event (RolledBack (sn_id sn)) w)
                 else if commits then (Inr (), trace_event (Committed (sn_id sn)) (w\<lparr>wd_state := sn_state sn\<rparr>))
                 else (Inl CommitFailed, w));
               w2 = trace_event (Closed (sn_id sn)) w1
           in (r, u\<lparr>uw_session := None, uw_repositories := []\<rparr>, w2)))"

text \<open>
  \<open>async with uow:\<close> around a use case that takes the repositories \<open>rs\<close>, one after the other, and then works on the session.
  An exception of the block is raised again after the exit, one of the exit replaces it.
\<close>

fun take_repositories :: "repository list \<Rightarrow> 's unit_of_work \<Rightarrow> failure + nat list \<times> 's unit_of_work" where
  "take_repositories [] u = Inr ([], u)"
| "take_repositories (r # rs) u = (case uow_repository r u of
     Inl e \<Rightarrow> Inl e
   | Inr (i, u1) \<Rightarrow> (case take_repositories rs u1 of Inl e \<Rightarrow> Inl e | Inr (js, u2) \<Rightarrow> Inr (i # js, u2)))"

definition uow_block ::
  "repository list \<Rightarrow> ('s \<Rightarrow> ('a \<times> 's) result) \<Rightarrow> 's unit_of_work \<Rightarrow> failure + 'a \<times> 's unit_of_work" where
  "uow_block rs f u = (case take_repositories rs u of
     Inl e \<Rightarrow> Inl e
   | Inr (_, u1) \<Rightarrow> (case uow_session u1 of
       Inl e \<Rightarrow> Inl e
     | Inr sn \<Rightarrow> (case f (sn_state sn) of
         Inl e \<Rightarrow> Inl (Raised e)
       | Inr (x, s') \<Rightarrow> Inr (x, u1\<lparr>uw_session := Some (sn\<lparr>sn_state := s'\<rparr>)\<rparr>))))"

definition async_with ::
  "bool \<Rightarrow> repository list \<Rightarrow> ('s \<Rightarrow> ('a \<times> 's) result) \<Rightarrow> 's unit_of_work \<Rightarrow> 's world
     \<Rightarrow> (failure + 'a) \<times> 's unit_of_work \<times> 's world" where
  "async_with commits rs f u w =
     (case uow_enter u w of (u1, w1) \<Rightarrow>
        (case uow_block rs f u1 of
           Inl e \<Rightarrow> (case uow_exit commits True u1 w1 of
               (Inl e', rest) \<Rightarrow> (Inl e', rest) | (Inr _, rest) \<Rightarrow> (Inl e, rest))
         | Inr (x, u2) \<Rightarrow> (case uow_exit commits False u2 w1 of
               (Inl e', rest) \<Rightarrow> (Inl e', rest) | (Inr _, rest) \<Rightarrow> (Inr x, rest))))"

section \<open>The object implements the transaction\<close>

text \<open>Every repository handed out within a block holds that block's session, whatever was asked for before.\<close>

definition bound_to :: "nat \<Rightarrow> 's unit_of_work \<Rightarrow> bool" where
  "bound_to i u \<longleftrightarrow> (\<exists>sn. uw_session u = Some sn \<and> sn_id sn = i) \<and> (\<forall>(r, j) \<in> set (uw_repositories u). j = i)"

lemma set_dict_set: "set (dict_set k v d) \<subseteq> insert (k, v) (set d)"
  by (induction d) auto

lemma uow_repository_bound:
  assumes "bound_to i u"
  shows "\<exists>u'. uow_repository r u = Inr (i, u') \<and> bound_to i u' \<and> uw_session u' = uw_session u \<and> uw_tenant_id u' = uw_tenant_id u"
proof (cases "map_of (uw_repositories u) r")
  case None
  with assms set_dict_set [of r i "uw_repositories u"] show ?thesis by (fastforce simp: uow_repository_def uow_session_def bound_to_def)
next
  case (Some j)
  with assms have "j = i" by (auto simp: bound_to_def dest: map_of_SomeD)
  with Some assms show ?thesis by (simp add: uow_repository_def)
qed

lemma take_repositories_bound:
  assumes "bound_to i u"
  shows "\<exists>u'. take_repositories rs u = Inr (replicate (length rs) i, u') \<and> bound_to i u' \<and> uw_session u' = uw_session u
    \<and> uw_tenant_id u' = uw_tenant_id u"
  using assms
proof (induction rs arbitrary: u)
  case (Cons r rs)
  from uow_repository_bound [OF Cons.prems, of r] obtain u1 where u1: "uow_repository r u = Inr (i, u1)" "bound_to i u1"
    "uw_session u1 = uw_session u" "uw_tenant_id u1 = uw_tenant_id u" by blast
  from Cons.IH [OF u1(2)] u1 show ?case by fastforce
qed simp

lemma outside_block: "uow_repository r (make_unit_of_work T) = Inl (RuntimeError ''SqlUnitOfWork used outside its `async with` block'')"
  by (simp add: uow_repository_def uow_session_def make_unit_of_work_def)

text \<open>
  Entered and left, the object has done what \<open>run_uow\<close> says: one session, bound to the tenant before anything else, committed
  when the use case returned and rolled back when it raised, then closed; and it is as new afterwards.
\<close>

definition first_events :: "nat \<Rightarrow> uuid option \<Rightarrow> session_event list" where
  "first_events i tenant_id = Began i # (case tenant_id of None \<Rightarrow> [] | Some T \<Rightarrow> [TenantBound i T])"

lemma async_with_run_uow:
  "async_with commits rs f (make_unit_of_work T) w =
     (case f (wd_state w) of
        Inl e \<Rightarrow> (Inl (Raised e), make_unit_of_work T,
          w\<lparr>wd_next := Suc (wd_next w),
            wd_trace := wd_trace w @ first_events (wd_next w) T @ [RolledBack (wd_next w), Closed (wd_next w)]\<rparr>)
      | Inr (x, s') \<Rightarrow>
          if commits then (Inr x, make_unit_of_work T,
            w\<lparr>wd_state := s', wd_next := Suc (wd_next w),
              wd_trace := wd_trace w @ first_events (wd_next w) T @ [Committed (wd_next w), Closed (wd_next w)]\<rparr>)
          else (Inl CommitFailed, make_unit_of_work T,
            w\<lparr>wd_next := Suc (wd_next w), wd_trace := wd_trace w @ first_events (wd_next w) T @ [Closed (wd_next w)]\<rparr>))"
proof -
  let ?i = "wd_next w" and ?sn = "\<lparr>sn_id = wd_next w, sn_state = wd_state w\<rparr>"
  let ?u1 = "(make_unit_of_work T)\<lparr>uw_session := Some ?sn\<rparr>"
  have "bound_to ?i ?u1" by (simp add: bound_to_def make_unit_of_work_def)
  from take_repositories_bound [OF this, of rs] obtain u' where u': "take_repositories rs ?u1 = Inr (replicate (length rs) ?i, u')"
    "uw_session u' = Some ?sn" "uw_tenant_id u' = T"
    by (auto simp: make_unit_of_work_def)
  let ?w1 = "w\<lparr>wd_next := Suc ?i, wd_trace := wd_trace w @ first_events ?i T\<rparr>"
  have enter: "uow_enter (make_unit_of_work T) w = (?u1, ?w1)"
    by (cases w) (simp add: uow_enter_def Let_def trace_event_def first_events_def make_unit_of_work_def split: option.split)
  have block: "uow_block rs f ?u1 = (case f (wd_state w) of Inl e \<Rightarrow> Inl (Raised e)
      | Inr (x, s') \<Rightarrow> Inr (x, u'\<lparr>uw_session := Some \<lparr>sn_id = ?i, sn_state = s'\<rparr>\<rparr>))"
    using u'(2) unfolding uow_block_def u'(1) by (simp add: uow_session_def split: sum.split prod.split)
  have closed: "v\<lparr>uw_session := None, uw_repositories := []\<rparr> = make_unit_of_work T" if "uw_tenant_id v = T" for v :: "'b unit_of_work"
    using that by (cases v) (simp add: make_unit_of_work_def)
  have left: "uow_exit commits raised (v\<lparr>uw_session := Some \<lparr>sn_id = ?i, sn_state = s'\<rparr>\<rparr>) ?w1
      = (if raised then (Inr (), make_unit_of_work T, trace_event (Closed ?i) (trace_event (RolledBack ?i) ?w1))
         else if commits then (Inr (), make_unit_of_work T, trace_event (Closed ?i) (trace_event (Committed ?i) (?w1\<lparr>wd_state := s'\<rparr>)))
         else (Inl CommitFailed, make_unit_of_work T, trace_event (Closed ?i) ?w1))" if "uw_tenant_id v = T" for raised s' and v :: "'b unit_of_work"
    using closed [of v] that by (simp add: uow_exit_def uow_session_def Let_def)
  have new: "uw_tenant_id (make_unit_of_work T :: 'b unit_of_work) = T" by (simp add: make_unit_of_work_def)
  show ?thesis
    unfolding async_with_def enter by (simp add: block left u'(3) new trace_event_def split: sum.split prod.split)
qed

text \<open>The refinement: with commits that succeed, the committed state and the answer are those of \<open>run_uow\<close>.\<close>

lemma async_with_refines:
  assumes "async_with True rs f (make_unit_of_work T) w = (r, u, w')"
  shows "run_uow f (wd_state w) = (case r of Inr x \<Rightarrow> Inr x | Inl (Raised e) \<Rightarrow> Inl e, wd_state w') \<and> u = make_unit_of_work T"
  using assms unfolding async_with_run_uow by (auto simp: run_uow_def split: sum.splits prod.splits)

text \<open>A commit that fails changes nothing.\<close>

lemma async_with_commit_fails: "wd_state (snd (snd (async_with False rs f (make_unit_of_work T) w))) = wd_state w"
  unfolding async_with_run_uow by (simp split: sum.split prod.split)

end
