(* ===== verification/Observability.thy ===== *)
theory Observability
  imports Json "HOL-Library.Sublist"
begin

text \<open>
  Log lines: the identifiers bound to a request (shared/logging.py) and the pipeline every line runs through, with its
  redaction of secrets (infrastructure/observability/logging.py). The processors of the structlog library are an argument;
  \<open>structlog_ok\<close> is what its documentation says of them. A value that is neither a mapping nor a sequence is a scalar of the
  JSON values.
\<close>

section \<open>Redaction\<close>

definition REDACTED :: string where "REDACTED = ''***redacted***''"

definition SENSITIVE_KEY_PARTS :: "string list" where
  "SENSITIVE_KEY_PARTS = [''password'', ''passwd'', ''secret'', ''token'', ''authorization'', ''auth_header'', ''credential'',
     ''api_key'', ''apikey'', ''access_key'', ''private_key'', ''client_secret'', ''session_id'', ''cookie'', ''dsn'']"

definition MAX_REDACTION_DEPTH :: nat where "MAX_REDACTION_DEPTH = 12"

text \<open>\<open>s.translate(_SEPARATORS)\<close>\<close>

definition drop_separators :: "string \<Rightarrow> string" where
  "drop_separators s = filter (\<lambda>c. c \<notin> set ''-_. '') s"

definition NORMALISED_PARTS :: "string list" where
  "NORMALISED_PARTS = map drop_separators SENSITIVE_KEY_PARTS"

definition is_sensitive :: "string \<Rightarrow> bool" where
  "is_sensitive key = (let normalised = drop_separators (lower key) in list_ex (\<lambda>part. sublist part normalised) NORMALISED_PARTS)"

function redact :: "nat \<Rightarrow> json \<Rightarrow> json" where
  "redact depth v =
     (if depth \<ge> MAX_REDACTION_DEPTH then v
      else case v of
        JObj kvs \<Rightarrow> JObj (map (\<lambda>(k, x). (k, if is_sensitive k then JStr REDACTED else redact (depth + 1) x)) kvs)
      | JList xs \<Rightarrow> JList (map (redact (depth + 1)) xs)
      | _ \<Rightarrow> v)"
  by auto
termination by (relation "measure (\<lambda>(depth, v). MAX_REDACTION_DEPTH - depth)") auto

declare redact.simps [simp del]

type_synonym event_dict = "(string, json) dict"

definition redact_processor :: "event_dict \<Rightarrow> event_dict" where
  "redact_processor event = (case redact 0 (JObj event) of JObj e \<Rightarrow> e | _ \<Rightarrow> event)"

lemma redact_scalar [simp]:
  "redact d JNull = JNull" "redact d (JBool b) = JBool b" "redact d (JInt i) = JInt i" "redact d (JReal t) = JReal t"
  "redact d (JStr s) = JStr s"
  by (simp_all add: redact.simps)

lemma redact_deep: "d \<ge> MAX_REDACTION_DEPTH \<Longrightarrow> redact d v = v"
  by (simp add: redact.simps)

lemma redact_below:
  assumes "d < MAX_REDACTION_DEPTH"
  shows "redact d (JObj kvs) = JObj (map (\<lambda>(k, x). (k, if is_sensitive k then JStr REDACTED else redact (Suc d) x)) kvs)"
    and "redact d (JList xs) = JList (map (redact (Suc d)) xs)"
  using assms by (auto simp: redact.simps [of d "JObj kvs"] redact.simps [of d "JList xs"])

text \<open>A place inside a value, and what is there.\<close>

datatype place = Key string | Index nat

fun value_at :: "place list \<Rightarrow> json \<Rightarrow> json option" where
  "value_at [] v = Some v"
| "value_at (Key k # p) (JObj kvs) = Option.bind (map_of kvs k) (value_at p)"
| "value_at (Index i # p) (JList xs) = (if i < length xs then value_at p (xs ! i) else None)"
| "value_at _ _ = None"

lemma value_at_scalar [simp]: "value_at (a # p) (JStr s) = None" "value_at (a # p) JNull = None"
  by (cases a; simp)+

text \<open>
  The outermost sensitive key on the way to a place, as the redaction sees it: \<open>Some\<close> of what is left of the way below that
  key, \<open>None\<close> when there is no such key before the redaction gives up.
\<close>

fun covered :: "nat \<Rightarrow> place list \<Rightarrow> place list option" where
  "covered d [] = None"
| "covered d (a # p) =
     (if d \<ge> MAX_REDACTION_DEPTH then None
      else if (case a of Key k \<Rightarrow> is_sensitive k | Index _ \<Rightarrow> False) then Some p
      else covered (Suc d) p)"

lemma map_of_redacted:
  "map_of (map (\<lambda>(k, x). (k, if is_sensitive k then JStr REDACTED else f x)) kvs) k
     = map_option (\<lambda>x. if is_sensitive k then JStr REDACTED else f x) (map_of kvs k)"
  by (induction kvs) auto

text \<open>What is not under a sensitive key is where it was; what is, is gone.\<close>

lemma value_at_redact:
  "covered d p = None \<Longrightarrow> value_at p (redact d v) = map_option (redact (d + length p)) (value_at p v)"
proof (induction p arbitrary: d v)
  case (Cons a p)
  show ?case
  proof (cases "d < MAX_REDACTION_DEPTH")
    case True
    note IH = Cons.IH [of "Suc d"]
    from True Cons.prems have "covered (Suc d) p = None" "\<And>k. a = Key k \<Longrightarrow> \<not> is_sensitive k"
      by (auto split: if_splits place.splits)
    with True IH show ?thesis
      by (cases a; cases v) (auto simp: redact_below map_of_redacted split: bind_splits)
  qed (simp add: redact_deep option.map_ident)
qed simp

lemma value_at_covered:
  "covered d p = Some q \<Longrightarrow> value_at p (redact d v) = None \<or> value_at p (redact d v) = Some (JStr REDACTED)"
proof (induction p arbitrary: d v)
  case (Cons a p)
  then have d: "d < MAX_REDACTION_DEPTH" by (auto split: if_splits)
  show ?case
  proof (cases "\<exists>k. a = Key k \<and> is_sensitive k")
    case True
    with d show ?thesis
      by (cases v; cases p) (auto simp: redact_below map_of_redacted split: bind_splits)
  next
    case False
    then have "covered (Suc d) p = Some q" using Cons.prems by (auto split: if_splits place.splits)
    from Cons.IH [OF this] False d show ?thesis
      by (cases a; cases v) (auto simp: redact_below map_of_redacted split: bind_splits)
  qed
qed simp

lemma map_of_redact_processor:
  "map_of (redact_processor e) k = map_option (\<lambda>x. if is_sensitive k then JStr REDACTED else redact (Suc 0) x) (map_of e k)"
  by (simp add: redact_processor_def redact_below MAX_REDACTION_DEPTH_def map_of_redacted)

section \<open>The context of a request\<close>

definition bind_request_context :: "string option \<Rightarrow> string option \<Rightarrow> string option \<Rightarrow> event_dict \<Rightarrow> event_dict" where
  "bind_request_context request_id tenant_id trace_id ctx =
     (let values = [(''request_id'', request_id), (''tenant_id'', tenant_id), (''trace_id'', trace_id)];
          present = [(k, v). (k, Some v) \<leftarrow> values]
      in if present \<noteq> [] then fold (\<lambda>(k, v). dict_set k (JStr v)) present ctx else ctx)"

definition clear_request_context :: "event_dict \<Rightarrow> event_dict" where
  "clear_request_context ctx = []"

section \<open>The pipeline\<close>

datatype processor = MergeContextvars | AddLogLevel | AddLoggerName | TimeStamper | StackInfoRenderer | UnicodeDecoder
  | RedactProcessor | ConsoleRenderer | FormatExcInfo | EventRenamer string | JSONRenderer

datatype log_format = FormatJson | FormatConsole

definition build_processors :: "log_format \<Rightarrow> processor list" where
  "build_processors fmt =
     (let shared = [MergeContextvars, AddLogLevel, AddLoggerName, TimeStamper, StackInfoRenderer, UnicodeDecoder, RedactProcessor]
      in if fmt = FormatConsole then shared @ [ConsoleRenderer]
         else shared @ [FormatExcInfo, EventRenamer ''message'', JSONRenderer])"

type_synonym structlog = "processor \<Rightarrow> event_dict \<Rightarrow> event_dict \<Rightarrow> event_dict"

definition run_processor :: "structlog \<Rightarrow> event_dict \<Rightarrow> processor \<Rightarrow> event_dict \<Rightarrow> event_dict" where
  "run_processor lib ctx p event = (if p = RedactProcessor then redact_processor event else lib p ctx event)"

text \<open>What the renderer at the end of the pipeline is given: the line's fields.\<close>

definition log_line :: "structlog \<Rightarrow> log_format \<Rightarrow> event_dict \<Rightarrow> event_dict \<Rightarrow> event_dict" where
  "log_line lib fmt ctx event = fold (run_processor lib ctx) (butlast (build_processors fmt)) event"

text \<open>
  The library, as documented: the context fills in what the event does not say; the next five only write fields of their
  own; an exception becomes a text; the event is moved to another field.
\<close>

definition merges :: "structlog \<Rightarrow> bool" where
  "merges lib \<longleftrightarrow> (\<forall>ctx e k. map_of (lib MergeContextvars ctx e) k = (case map_of e k of None \<Rightarrow> map_of ctx k | Some v \<Rightarrow> Some v))"

definition enriches :: "structlog \<Rightarrow> bool" where
  "enriches lib \<longleftrightarrow> (\<forall>p \<in> {AddLogLevel, AddLoggerName, TimeStamper, StackInfoRenderer, UnicodeDecoder}. \<forall>ctx e k.
     k \<notin> {''level'', ''logger'', ''timestamp'', ''stack'', ''stack_info''} \<longrightarrow> map_of (lib p ctx e) k = map_of e k)"

definition formats_exceptions :: "structlog \<Rightarrow> bool" where
  "formats_exceptions lib \<longleftrightarrow> (\<forall>ctx e k. map_of (lib FormatExcInfo ctx e) k = map_of e k
     \<or> k = ''exc_info'' \<and> map_of (lib FormatExcInfo ctx e) k = None
     \<or> k = ''exception'' \<and> (\<exists>s. map_of (lib FormatExcInfo ctx e) k = Some (JStr s)))"

definition renames :: "structlog \<Rightarrow> bool" where
  "renames lib \<longleftrightarrow> (\<forall>n ctx e k. map_of (lib (EventRenamer n) ctx e) k
     = (if k = n then map_of e ''event'' else if k = ''event'' then None else map_of e k))"

definition structlog_ok :: "structlog \<Rightarrow> bool" where
  "structlog_ok lib \<longleftrightarrow> merges lib \<and> enriches lib \<and> formats_exceptions lib \<and> renames lib"

text \<open>The fields the library writes.\<close>

definition library_fields :: "string list" where
  "library_fields = [''level'', ''logger'', ''timestamp'', ''stack'', ''stack_info'', ''exc_info'', ''exception'', ''event'', ''message'']"

lemma library_fields_public: "\<not> is_sensitive ''event''" "\<not> is_sensitive ''message''" "\<not> is_sensitive ''exception''"
    "\<not> is_sensitive ''exc_info''" "\<not> is_sensitive ''request_id''" "\<not> is_sensitive ''tenant_id''"
  by code_simp+

lemma structlog_field:
  assumes "structlog_ok lib" and "k \<notin> set library_fields"
  shows "map_of (lib MergeContextvars ctx e) k = (case map_of e k of None \<Rightarrow> map_of ctx k | Some v \<Rightarrow> Some v)"
    and "p \<in> {AddLogLevel, AddLoggerName, TimeStamper, StackInfoRenderer, UnicodeDecoder} \<Longrightarrow> map_of (lib p ctx e) k = map_of e k"
    and "map_of (lib FormatExcInfo ctx e) k = map_of e k"
    and "map_of (lib (EventRenamer ''message'') ctx e) k = map_of e k"
proof -
  from assms(2) have k: "k \<notin> {''level'', ''logger'', ''timestamp'', ''stack'', ''stack_info''}" "k \<noteq> ''exc_info''" "k \<noteq> ''exception''"
      "k \<noteq> ''event''" "k \<noteq> ''message''"
    by (simp_all add: library_fields_def)
  from assms(1) have ok: "merges lib" "enriches lib" "formats_exceptions lib" "renames lib" by (simp_all add: structlog_ok_def)
  show "map_of (lib MergeContextvars ctx e) k = (case map_of e k of None \<Rightarrow> map_of ctx k | Some v \<Rightarrow> Some v)"
    using ok(1) unfolding merges_def by blast
  show "map_of (lib p ctx e) k = map_of e k" if "p \<in> {AddLogLevel, AddLoggerName, TimeStamper, StackInfoRenderer, UnicodeDecoder}"
    by (rule ok(2) [unfolded enriches_def, rule_format, OF that k(1)])
  show "map_of (lib FormatExcInfo ctx e) k = map_of e k"
    using ok(3) [unfolded formats_exceptions_def, rule_format, of ctx e k] k(2,3) by argo
  show "map_of (lib (EventRenamer ''message'') ctx e) k = map_of e k"
    using ok(4) k(4,5) unfolding renames_def by simp
qed

lemma structlog_before:
  assumes "structlog_ok lib" and "k \<notin> set library_fields"
  shows "map_of (lib UnicodeDecoder ctx (lib StackInfoRenderer ctx (lib TimeStamper ctx (lib AddLoggerName ctx
      (lib AddLogLevel ctx (lib MergeContextvars ctx e)))))) k = (case map_of e k of None \<Rightarrow> map_of ctx k | Some v \<Rightarrow> Some v)"
  by (simp add: structlog_field [OF assms])

lemma structlog_after:
  assumes "structlog_ok lib"
  shows "map_of (lib (EventRenamer ''message'') ctx (lib FormatExcInfo ctx e)) k
    = map_of e k \<or> map_of (lib (EventRenamer ''message'') ctx (lib FormatExcInfo ctx e)) k = None
    \<or> k = ''message'' \<and> map_of (lib (EventRenamer ''message'') ctx (lib FormatExcInfo ctx e)) k = map_of e ''event''
    \<or> k = ''exception'' \<and> (\<exists>s. map_of (lib (EventRenamer ''message'') ctx (lib FormatExcInfo ctx e)) k = Some (JStr s))"
proof -
  have r: "map_of (lib (EventRenamer ''message'') ctx e') k
      = (if k = ''message'' then map_of e' ''event'' else if k = ''event'' then None else map_of e' k)" for e'
    using assms unfolding structlog_ok_def renames_def by blast
  have f: "map_of (lib FormatExcInfo ctx e) j = map_of e j \<or> j = ''exc_info'' \<and> map_of (lib FormatExcInfo ctx e) j = None
        \<or> j = ''exception'' \<and> (\<exists>s. map_of (lib FormatExcInfo ctx e) j = Some (JStr s))" for j
    using assms unfolding structlog_ok_def formats_exceptions_def by blast
  from f [of k] f [of "''event''"] show ?thesis unfolding r by auto
qed

lemma log_line_unfold:
  "log_line lib FormatConsole ctx e = redact_processor (lib UnicodeDecoder ctx (lib StackInfoRenderer ctx (lib TimeStamper ctx
     (lib AddLoggerName ctx (lib AddLogLevel ctx (lib MergeContextvars ctx e))))))"
  "log_line lib FormatJson ctx e = lib (EventRenamer ''message'') ctx (lib FormatExcInfo ctx (log_line lib FormatConsole ctx e))"
  by (simp_all add: log_line_def build_processors_def run_processor_def)

text \<open>A field of the event or of the context reaches the line, redacted.\<close>

lemma log_line_field:
  assumes "structlog_ok lib" and "k \<notin> set library_fields" and "\<not> is_sensitive k"
  shows "map_of (log_line lib fmt ctx e) k
    = map_option (redact (Suc 0)) (case map_of e k of None \<Rightarrow> map_of ctx k | Some v \<Rightarrow> Some v)"
proof -
  have c: "map_of (log_line lib FormatConsole ctx e) k
      = map_option (redact (Suc 0)) (case map_of e k of None \<Rightarrow> map_of ctx k | Some v \<Rightarrow> Some v)"
    using assms(3) by (simp add: log_line_unfold(1) map_of_redact_processor structlog_before [OF assms(1,2)])
  have "map_of (log_line lib FormatJson ctx e) k = map_of (log_line lib FormatConsole ctx e) k"
    by (simp only: log_line_unfold(2) structlog_field [OF assms(1,2)])
  with c show ?thesis by (cases fmt) simp_all
qed

text \<open>No line shows a secret.\<close>

lemma log_line_covered:
  assumes "structlog_ok lib" and "covered 0 p = Some q"
  shows "value_at p (JObj (log_line lib fmt ctx e)) \<in> {None, Some (JStr REDACTED)}"
proof -
  let ?e = "log_line lib FormatConsole ctx e"
  have redacted: "JObj (redact_processor x) = redact 0 (JObj x)" for x
    by (simp add: redact_processor_def redact_below MAX_REDACTION_DEPTH_def)
  have console: "value_at p' (JObj ?e) \<in> {None, Some (JStr REDACTED)}" if "covered 0 p' = Some q" for p'
    using value_at_covered [OF that] by (simp add: log_line_unfold(1) redacted)
  have "value_at p (JObj (log_line lib FormatJson ctx e)) \<in> {None, Some (JStr REDACTED)}"
  proof (cases p)
    case (Cons a r)
    show ?thesis
    proof (cases a)
      case (Key k)
      from structlog_after [OF assms(1), of ctx ?e k]
      consider (same) "map_of (log_line lib FormatJson ctx e) k = map_of ?e k"
        | (gone) "map_of (log_line lib FormatJson ctx e) k = None"
        | (event) "k = ''message''" "map_of (log_line lib FormatJson ctx e) k = map_of ?e ''event''"
        | (exc) s where "k = ''exception''" "map_of (log_line lib FormatJson ctx e) k = Some (JStr s)"
        by (auto simp: log_line_unfold(2))
      then show ?thesis
      proof cases
        case same
        with console [OF assms(2)] show ?thesis by (simp add: Cons Key)
      next
        case gone
        then show ?thesis by (simp add: Cons Key)
      next
        case event
        with assms(2) have "covered 0 (Key ''event'' # r) = Some q"
          by (simp add: Cons Key library_fields_public MAX_REDACTION_DEPTH_def)
        from console [OF this] event show ?thesis by (simp add: Cons Key)
      next
        case (exc s)
        with assms(2) have "r \<noteq> []" by (auto simp: Cons Key library_fields_public MAX_REDACTION_DEPTH_def)
        with exc show ?thesis by (cases r) (simp_all add: Cons Key)
      qed
    qed (simp add: Cons)
  qed (use assms(2) in simp)
  with console [OF assms(2)] show ?thesis by (cases fmt) simp_all
qed

section \<open>Emitting a line\<close>

text \<open>What \<open>configure_logging\<close> fixes, and what a request sees of logging: its context and the lines written so far.\<close>

record log_config =
  lc_level :: int
  lc_format :: log_format
  lc_structlog :: structlog

record logs =
  lg_context :: event_dict
  lg_lines :: "event_dict list"

definition LEVEL_INFO :: int where "LEVEL_INFO = 20"

text \<open>\<open>make_filtering_bound_logger\<close>: a call below the level does nothing.\<close>

definition emit :: "log_config \<Rightarrow> int \<Rightarrow> event_dict \<Rightarrow> logs \<Rightarrow> logs" where
  "emit cfg level event lg =
     (if level < lc_level cfg then lg
      else lg\<lparr>lg_lines := lg_lines lg @ [log_line (lc_structlog cfg) (lc_format cfg) (lg_context lg) event]\<rparr>)"

end
