(* ===== verification/Edge.thy ===== *)
theory Edge
  imports Observability Http
begin

text \<open>
  The edge of the process: the request identifier and the access log, the cache headers of the storefront
  (api/middleware.py), the order in which create_app (bootstrap/app.py) stacks them, and the health routes (api/health.py).
  The application below the middleware is an argument: the log calls it makes for a request, and its response or exception.
  Header names are in lower case, as Starlette keeps them; SHA-256 is an argument.
\<close>

section \<open>Requests and responses\<close>

record http_request =
  rq_method :: string
  rq_path :: string
  rq_headers :: "(string, string) dict"

datatype chunk = StrChunk string | BytesChunk bytes

record http_response =
  rs_status :: int
  rs_headers :: "(string \<times> string) list"
  rs_body :: "chunk list"
  rs_media_type :: "string option"

text \<open>\<open>headers[k] = v\<close>: the first header of that name is overwritten, any other dropped.\<close>

fun header_set :: "string \<Rightarrow> string \<Rightarrow> (string \<times> string) list \<Rightarrow> (string \<times> string) list" where
  "header_set k v [] = [(k, v)]"
| "header_set k v ((j, w) # hs) = (if j = k then (k, v) # filter (\<lambda>h. fst h \<noteq> k) hs else (j, w) # header_set k v hs)"

lemma map_of_header_set: "map_of (header_set k v hs) j = (if j = k then Some v else map_of hs j)"
proof -
  have "j \<noteq> k \<Longrightarrow> map_of (filter (\<lambda>h. fst h \<noteq> k) xs) j = map_of xs j" for xs :: "(string \<times> string) list"
    by (induction xs) auto
  then show ?thesis by (induction hs) auto
qed

lemma header_set_unique: "\<lbrakk>(k, w) \<in> set (header_set k v hs)\<rbrakk> \<Longrightarrow> w = v"
  by (induction hs) (auto split: if_splits)

section \<open>The request identifier\<close>

text \<open>\<open>c.isalnum()\<close> on Latin-1: letters, decimal digits, superscripts and fractions.\<close>

definition alnum_char :: "char \<Rightarrow> bool" where
  "alnum_char c = (let n = (of_char c :: nat) in
     (48 \<le> n \<and> n \<le> 57) \<or> (65 \<le> n \<and> n \<le> 90) \<or> (97 \<le> n \<and> n \<le> 122) \<or> n = 170 \<or> n = 178 \<or> n = 179 \<or> n = 181 \<or> n = 185
     \<or> n = 186 \<or> (188 \<le> n \<and> n \<le> 190) \<or> (192 \<le> n \<and> n \<le> 214) \<or> (216 \<le> n \<and> n \<le> 246) \<or> 248 \<le> n)"

definition is_safe_request_id :: "string \<Rightarrow> bool" where
  "is_safe_request_id v \<longleftrightarrow> v \<noteq> [] \<and> length v \<le> 64
     \<and> (let w = filter (\<lambda>c. c \<noteq> CHR ''-'') v in w \<noteq> [] \<and> list_all alnum_char w)"

definition REQUEST_ID_HEADER :: string where "REQUEST_ID_HEADER = ''x-request-id''"

definition request_id_for :: "uuid \<Rightarrow> http_request \<Rightarrow> string" where
  "request_id_for fresh request =
     (let inbound = dict_get (rq_headers request) REQUEST_ID_HEADER ''''
      in if is_safe_request_id inbound then inbound else uuid_hex fresh)"

lemma alnum_hex_char: "d < 16 \<Longrightarrow> alnum_char (hex_char d)"
proof -
  assume "d < 16"
  then have "d \<in> {0,1,2,3,4,5,6,7,8,9,10,11,12,13,14,15}" by simp presburger
  then show ?thesis by (elim insertE emptyE; hypsubst; code_simp)
qed

lemma uuid_hex_safe: "is_safe_request_id (uuid_hex u)"
proof -
  have len: "length (uuid_hex u) = 32" by (simp add: uuid_hex_def)
  have "filter (\<lambda>c. c \<noteq> CHR ''-'') (uuid_hex u) = uuid_hex u" using set_uuid_hex by (intro filter_True) blast
  moreover have "list_all alnum_char (uuid_hex u)"
    unfolding list_all_iff uuid_hex_def using set_hex_digits alnum_hex_char by blast
  ultimately show ?thesis using len by (auto simp: is_safe_request_id_def)
qed

lemma request_id_safe: "is_safe_request_id (request_id_for fresh request)"
  by (simp add: request_id_for_def Let_def uuid_hex_safe)

section \<open>RequestContextMiddleware\<close>

text \<open>
  What the application does to the log while it handles a request: it writes lines, and get_current_principal
  (api/deps/authorization.py) binds the tenant. It runs as a task of its own, on a copy of the context.
\<close>

datatype log_act = Write int event_dict | BindTenant uuid

type_synonym application = "string \<Rightarrow> http_request \<Rightarrow> log_act list \<times> http_response result"

fun log_call :: "log_config \<Rightarrow> log_act \<Rightarrow> logs \<Rightarrow> logs" where
  "log_call cfg (Write level event) lg = emit cfg level event lg"
| "log_call cfg (BindTenant t) lg = lg\<lparr>lg_context := bind_request_context None (Some (uuid_str t)) None (lg_context lg)\<rparr>"

definition call_next :: "log_config \<Rightarrow> application \<Rightarrow> string \<Rightarrow> http_request \<Rightarrow> logs \<Rightarrow> http_response result \<times> logs" where
  "call_next cfg app request_id request lg =
     (case app request_id request of (calls, out) \<Rightarrow> (out, (fold (log_call cfg) calls lg)\<lparr>lg_context := lg_context lg\<rparr>))"

definition request_completed :: "http_request \<Rightarrow> int \<Rightarrow> string \<Rightarrow> event_dict" where
  "request_completed request status duration_ms =
     [(''method'', JStr (rq_method request)), (''path'', JStr (rq_path request)), (''status'', JInt status),
      (''duration_ms'', JReal duration_ms), (''event'', JStr ''request_completed'')]"

definition RequestContextMiddleware_dispatch ::
  "log_config \<Rightarrow> uuid \<Rightarrow> string \<Rightarrow> application \<Rightarrow> http_request \<Rightarrow> logs \<Rightarrow> http_response result \<times> logs" where
  "RequestContextMiddleware_dispatch cfg fresh duration_ms app request lg =
     (let request_id = request_id_for fresh request;
          lg1 = lg\<lparr>lg_context := bind_request_context (Some request_id) None None (clear_request_context (lg_context lg))\<rparr>
      in case call_next cfg app request_id request lg1 of
           (Inl e, lg2) \<Rightarrow>
             (let lg3 = emit cfg LEVEL_INFO (request_completed request 500 duration_ms) lg2
              in (Inl e, lg3\<lparr>lg_context := clear_request_context (lg_context lg3)\<rparr>))
         | (Inr response, lg2) \<Rightarrow>
             (let lg3 = lg2\<lparr>lg_context := clear_request_context (lg_context lg2)\<rparr>;
                  response = response\<lparr>rs_headers := header_set REQUEST_ID_HEADER request_id (rs_headers response)\<rparr>
              in (Inr response, emit cfg LEVEL_INFO (request_completed request (rs_status response) duration_ms) lg3)))"

section \<open>PublicCacheHeadersMiddleware\<close>

definition PUBLIC_MAX_AGE_SECONDS :: int where "PUBLIC_MAX_AGE_SECONDS = 60"

definition utf8_encode :: "string \<Rightarrow> bytes" where
  "utf8_encode s = concat (map (\<lambda>c. let n = (of_char c :: nat) in
     if n < 128 then [of_nat n] else [of_nat (192 + n div 64), of_nat (128 + n mod 64)]) s)"

fun chunk_bytes :: "chunk \<Rightarrow> bytes" where
  "chunk_bytes (StrChunk s) = utf8_encode s"
| "chunk_bytes (BytesChunk b) = b"

definition body_of :: "http_response \<Rightarrow> bytes" where
  "body_of response = concat (map chunk_bytes (rs_body response))"

definition etag_of :: "(bytes \<Rightarrow> string) \<Rightarrow> bytes \<Rightarrow> string" where
  "etag_of sha256 body = [CHR 0x22] @ sha256 body @ [CHR 0x22]"

definition ends_with :: "string \<Rightarrow> string \<Rightarrow> bool" where
  "ends_with s p \<longleftrightarrow> starts_with (rev p) (rev s)"

definition cached_path :: "string \<Rightarrow> http_request \<Rightarrow> bool" where
  "cached_path api_prefix request \<longleftrightarrow> rq_method request = ''GET'' \<and> starts_with (api_prefix @ ''/public/'') (rq_path request)"

definition cache_headers :: "(bytes \<Rightarrow> string) \<Rightarrow> http_request \<Rightarrow> http_response \<Rightarrow> (string, string) dict" where
  "cache_headers sha256 request response =
     (let cache_scope = (if ends_with (rq_path request) ''/images'' then ''private'' else ''public'');
          headers = dict_of (filter (\<lambda>(key, _). lower key \<notin> {''content-length'', ''etag'', ''cache-control'', ''vary''}) (rs_headers response))
      in dict_set ''Vary'' ''Host''
          (dict_set ''Cache-Control'' (cache_scope @ '', max-age='' @ str_int PUBLIC_MAX_AGE_SECONDS)
            (dict_set ''ETag'' (etag_of sha256 (body_of response)) headers)))"

definition PublicCacheHeadersMiddleware_dispatch ::
  "(bytes \<Rightarrow> string) \<Rightarrow> string \<Rightarrow> (http_request \<Rightarrow> logs \<Rightarrow> http_response result \<times> logs) \<Rightarrow> http_request \<Rightarrow> logs
     \<Rightarrow> http_response result \<times> logs" where
  "PublicCacheHeadersMiddleware_dispatch sha256 api_prefix next_app request lg =
     (case next_app request lg of
        (Inl e, lg') \<Rightarrow> (Inl e, lg')
      | (Inr response, lg') \<Rightarrow>
          (if \<not> cached_path api_prefix request then (Inr response, lg')
           else if rs_status response \<noteq> 200 then (Inr response, lg')
           else let body = body_of response; headers = cache_headers sha256 request response
             in if map_of (rq_headers request) ''if-none-match'' = Some (etag_of sha256 body)
                then (Inr \<lparr>rs_status = 304, rs_headers = headers, rs_body = [], rs_media_type = None\<rparr>, lg')
                else (Inr \<lparr>rs_status = rs_status response, rs_headers = headers, rs_body = [BytesChunk body],
                        rs_media_type = rs_media_type response\<rparr>, lg')))"

text \<open>create_app adds the cache headers outside of the request context.\<close>

definition middleware_stack ::
  "log_config \<Rightarrow> (bytes \<Rightarrow> string) \<Rightarrow> string \<Rightarrow> uuid \<Rightarrow> string \<Rightarrow> application \<Rightarrow> http_request \<Rightarrow> logs \<Rightarrow> http_response result \<times> logs" where
  "middleware_stack cfg sha256 api_prefix fresh duration_ms app =
     PublicCacheHeadersMiddleware_dispatch sha256 api_prefix (RequestContextMiddleware_dispatch cfg fresh duration_ms app)"

section \<open>Health\<close>

text \<open>The outcome of a readiness check: \<open>None\<close>, or the name of the exception's type.\<close>

type_synonym check_result = "string option"

record readiness_response =
  rd_status :: string
  rd_checks :: "(string, string) dict"

definition health :: "string reply" where "health = Reply 200 ''ok''"

definition ready :: "(string, check_result) dict \<Rightarrow> readiness_response reply" where
  "ready checks =
     (if checks = [] then Reply 200 \<lparr>rd_status = ''ready'', rd_checks = []\<rparr>
      else let (healthy, report) = fold (\<lambda>(name, result) (healthy, report).
               case result of
                 Some exc \<Rightarrow> (False, dict_set name (''error: '' @ exc) report)
               | None \<Rightarrow> (healthy, dict_set name ''ok'' report)) checks (True, [])
           in Reply (if healthy then 200 else 503) \<lparr>rd_status = (if healthy then ''ready'' else ''degraded''), rd_checks = report\<rparr>)"

definition register_readiness_check :: "string \<Rightarrow> 'c \<Rightarrow> (string, 'c) dict \<Rightarrow> (string, 'c) dict" where
  "register_readiness_check name check existing = dict_set name check existing"

lemma ready_status: "reply_status (ready checks) = (if \<forall>c \<in> set checks. snd c = None then 200 else 503)"
proof -
  let ?f = "\<lambda>(name, result) (healthy, report). case result of
      Some exc \<Rightarrow> (False, dict_set name (''error: '' @ exc) report) | None \<Rightarrow> (healthy, dict_set name ''ok'' report)"
  have "fst (fold ?f cs (h, r)) \<longleftrightarrow> h \<and> (\<forall>c \<in> set cs. snd c = None)" for cs :: "(string, check_result) dict" and h r
  proof (induction cs arbitrary: h r)
    case (Cons c cs)
    then show ?case by (cases c; cases "snd c") simp_all
  qed simp
  from this [of checks True "[]"] show ?thesis
    by (auto simp: ready_def split: prod.splits)
qed

section \<open>What the storefront's replies tell a cache\<close>

lemma RequestContext_response:
  assumes "app (request_id_for fresh request) request = (calls, Inr resp)"
  shows "\<exists>lg'. RequestContextMiddleware_dispatch cfg fresh duration_ms app request lg
    = (Inr (resp\<lparr>rs_headers := header_set REQUEST_ID_HEADER (request_id_for fresh request) (rs_headers resp)\<rparr>), lg')"
  using assms by (simp add: RequestContextMiddleware_dispatch_def Let_def call_next_def)

lemma middleware_stack_answers:
  assumes "app (request_id_for fresh request) request = (calls, Inr resp)"
  shows "\<exists>reply lg'. middleware_stack cfg sha256 api_prefix fresh duration_ms app request lg = (Inr reply, lg')"
  using RequestContext_response [of app fresh request calls resp cfg duration_ms lg, OF assms]
  by (elim exE) (simp add: middleware_stack_def PublicCacheHeadersMiddleware_dispatch_def Let_def)

lemma cache_headers_lookup:
  "map_of (cache_headers sha256 request response) ''Vary'' = Some ''Host''"
  "map_of (cache_headers sha256 request response) ''ETag'' = Some (etag_of sha256 (body_of response))"
  "map_of (cache_headers sha256 request response) ''Cache-Control''
     = Some ((if ends_with (rq_path request) ''/images'' then ''private'' else ''public'') @ '', max-age=60'')"
proof -
  have "str_int PUBLIC_MAX_AGE_SECONDS = ''60''" by code_simp
  then show "map_of (cache_headers sha256 request response) ''Vary'' = Some ''Host''"
    and "map_of (cache_headers sha256 request response) ''ETag'' = Some (etag_of sha256 (body_of response))"
    and "map_of (cache_headers sha256 request response) ''Cache-Control''
     = Some ((if ends_with (rq_path request) ''/images'' then ''private'' else ''public'') @ '', max-age=60'')"
    by (simp_all add: cache_headers_def Let_def update_conv')
qed

definition cache_fields :: "string set" where
  "cache_fields = {''content-length'', ''etag'', ''cache-control'', ''vary''}"

lemma cache_headers_only:
  "\<lbrakk>(k, v) \<in> set (cache_headers sha256 request response); lower k \<in> cache_fields\<rbrakk> \<Longrightarrow> k \<in> {''Vary'', ''ETag'', ''Cache-Control''}"
proof -
  assume "(k, v) \<in> set (cache_headers sha256 request response)" and f: "lower k \<in> cache_fields"
  then have "k \<in> fst ` set (cache_headers sha256 request response)" by force
  with f show ?thesis by (auto simp: cache_headers_def Let_def dom_update keys_dict_of cache_fields_def)
qed

lemma cache_names: "lower ''Vary'' \<in> cache_fields" "lower ''ETag'' \<in> cache_fields" "lower ''Cache-Control'' \<in> cache_fields"
  unfolding cache_fields_def by code_simp+

lemma cache_headers_other:
  assumes "lower k \<notin> cache_fields" and "(k, v) \<in> set (rs_headers response)" and "\<And>w. (k, w) \<in> set (rs_headers response) \<Longrightarrow> w = v"
  shows "map_of (cache_headers sha256 request response) k = Some v"
proof -
  let ?hs = "filter (\<lambda>(key, _). lower key \<notin> {''content-length'', ''etag'', ''cache-control'', ''vary''}) (rs_headers response)"
  from assms(1,2) have "(k, v) \<in> set ?hs" by (simp add: cache_fields_def)
  moreover have "w = v" if "(k, w) \<in> set ?hs" for w using that assms(3) by simp
  ultimately have "map_of (rev ?hs) k = Some v"
    by (metis (no_types, lifting) map_of_SomeD not_None_eq map_of_eq_None_iff set_rev image_eqI fst_conv)
  moreover have "k \<noteq> ''Vary''" "k \<noteq> ''ETag''" "k \<noteq> ''Cache-Control''" using assms(1) cache_names by blast+
  ultimately show ?thesis by (simp add: cache_headers_def Let_def update_conv' map_of_dict_of)
qed

text \<open>
  C39: Whatever the application answers to a GET under the public prefix with status 200, the reply says \<open>Vary: Host\<close>, is
  private exactly for the image listings and public otherwise, carries the tag of its own body and no other caching header,
  and echoes a request identifier of at most 64 letters, digits and hyphens. A client that shows the tag of a body it holds is
  answered 304 without a body exactly when the body is still the same, as long as the digest tells the two apart, and is sent
  the new body otherwise.
\<close>

theorem public_reply_cacheable:
  assumes "cached_path api_prefix request"
    and "app (request_id_for fresh request) request = (calls, Inr response)" and "rs_status response = 200"
    and "middleware_stack cfg sha256 api_prefix fresh duration_ms app request lg = (Inr reply, lg')"
    and "map_of (rq_headers request) ''if-none-match'' = map_option (etag_of sha256) held"
    and "\<forall>old. held = Some old \<and> sha256 old = sha256 (body_of response) \<longrightarrow> old = body_of response"
  shows "map_of (rs_headers reply) ''Vary'' = Some ''Host''
    \<and> map_of (rs_headers reply) ''Cache-Control''
        = Some ((if ends_with (rq_path request) ''/images'' then ''private'' else ''public'') @ '', max-age=60'')
    \<and> map_of (rs_headers reply) ''ETag'' = Some (etag_of sha256 (body_of response))
    \<and> (\<forall>(k, v) \<in> set (rs_headers reply). lower k \<in> cache_fields \<longrightarrow> k \<in> {''Vary'', ''ETag'', ''Cache-Control''})
    \<and> (\<exists>i. map_of (rs_headers reply) REQUEST_ID_HEADER = Some i \<and> is_safe_request_id i)
    \<and> (if held = Some (body_of response) then rs_status reply = 304 \<and> rs_body reply = []
       else rs_status reply = 200 \<and> body_of reply = body_of response)"
proof -
  let ?i = "request_id_for fresh request"
  let ?r = "response\<lparr>rs_headers := header_set REQUEST_ID_HEADER ?i (rs_headers response)\<rparr>"
  have body: "body_of ?r = body_of response" by (simp add: body_of_def)
  obtain lg1 where "RequestContextMiddleware_dispatch cfg fresh duration_ms app request lg = (Inr ?r, lg1)"
    using RequestContext_response [of app fresh request calls response] assms(2) by blast
  with assms(1,3,4) have reply: "reply = (if map_of (rq_headers request) ''if-none-match'' = Some (etag_of sha256 (body_of response))
      then \<lparr>rs_status = 304, rs_headers = cache_headers sha256 request ?r, rs_body = [], rs_media_type = None\<rparr>
      else \<lparr>rs_status = 200, rs_headers = cache_headers sha256 request ?r, rs_body = [BytesChunk (body_of response)],
        rs_media_type = rs_media_type response\<rparr>)"
    by (simp add: middleware_stack_def PublicCacheHeadersMiddleware_dispatch_def Let_def body split: if_splits)
  then have headers: "rs_headers reply = cache_headers sha256 request ?r" by (simp split: if_splits)
  have "lower REQUEST_ID_HEADER \<notin> cache_fields" by code_simp
  moreover have "(REQUEST_ID_HEADER, ?i) \<in> set (rs_headers ?r)"
    by (simp add: map_of_SomeD map_of_header_set)
  moreover have "w = ?i" if "(REQUEST_ID_HEADER, w) \<in> set (rs_headers ?r)" for w
    using header_set_unique that by simp
  ultimately have "map_of (rs_headers reply) REQUEST_ID_HEADER = Some ?i"
    unfolding headers by (rule cache_headers_other)
  with request_id_safe have i: "\<exists>i. map_of (rs_headers reply) REQUEST_ID_HEADER = Some i \<and> is_safe_request_id i" by blast
  have only: "\<forall>(k, v) \<in> set (rs_headers reply). lower k \<in> cache_fields \<longrightarrow> k \<in> {''Vary'', ''ETag'', ''Cache-Control''}"
    unfolding headers using cache_headers_only by blast
  have "map_of (rq_headers request) ''if-none-match'' = Some (etag_of sha256 (body_of response)) \<longleftrightarrow> held = Some (body_of response)"
    using assms(5,6) by (auto simp: etag_of_def)
  with reply have "if held = Some (body_of response) then rs_status reply = 304 \<and> rs_body reply = []
       else rs_status reply = 200 \<and> body_of reply = body_of response"
    by (simp add: body_of_def split: if_splits)
  with i only show ?thesis by (simp only: headers cache_headers_lookup body simp_thms)
qed

section \<open>What a request writes to the log\<close>












text \<open>A structlog that does no more than it documents, and a request to the storefront.\<close>

fun quiet_structlog :: structlog where
  "quiet_structlog MergeContextvars ctx e = e @ ctx"
| "quiet_structlog (EventRenamer n) ctx e =
     (case map_of e ''event'' of None \<Rightarrow> [] | Some v \<Rightarrow> [(n, v)]) @ AList.delete n (AList.delete ''event'' e)"
| "quiet_structlog _ ctx e = e"


definition plain_logging :: log_config where
  "plain_logging = \<lparr>lc_level = 20, lc_format = FormatJson, lc_structlog = quiet_structlog\<rparr>"

definition product_page :: http_request where
  "product_page = \<lparr>rq_method = ''GET'', rq_path = ''/api/v1/public/products'', rq_headers = [(''x-request-id'', ''cart-7'')]\<rparr>"

definition shop :: application where
  "shop i request = ([BindTenant 9, Write 20 [(''api_key'', JStr ''k1''), (''event'', JStr ''priced'')]],
     Inr \<lparr>rs_status = 200, rs_headers = [(''vary'', ''Origin''), (''content-type'', ''application/json'')],
       rs_body = [BytesChunk [91], StrChunk '']''], rs_media_type = Some ''application/json''\<rparr>)"

definition shout :: "bytes \<Rightarrow> string" where "shout b = ''x'' @ digits (length b)"

theorem public_reply_cacheable_witness:
  "\<exists>reply lg'. middleware_stack plain_logging shout ''/api/v1'' 5 ''1.5'' shop
      (product_page\<lparr>rq_headers := [(''if-none-match'', etag_of shout [91, 93])]\<rparr>) \<lparr>lg_context = [], lg_lines = []\<rparr> = (Inr reply, lg')
    \<and> rs_status reply = 304 \<and> map_of (rs_headers reply) ''Vary'' = Some ''Host''"
proof -
  let ?rq = "product_page\<lparr>rq_headers := [(''if-none-match'', etag_of shout [91, 93])]\<rparr>"
  let ?resp = "\<lparr>rs_status = 200, rs_headers = [(''vary'', ''Origin''), (''content-type'', ''application/json'')],
       rs_body = [BytesChunk [91], StrChunk '']''], rs_media_type = Some ''application/json''\<rparr>"
  have c: "cached_path ''/api/v1'' ?rq" by (simp add: cached_path_def product_page_def starts_with_def)
  have app: "shop (request_id_for 5 ?rq) ?rq = ([BindTenant 9, Write 20 [(''api_key'', JStr ''k1''), (''event'', JStr ''priced'')]], Inr ?resp)"
    by (simp add: shop_def)
  have body: "body_of ?resp = [91, 93]" by (simp add: body_of_def utf8_encode_def)
  obtain reply lg' where m: "middleware_stack plain_logging shout ''/api/v1'' 5 ''1.5'' shop ?rq \<lparr>lg_context = [], lg_lines = []\<rparr> = (Inr reply, lg')"
    using middleware_stack_answers [of shop 5 ?rq _ ?resp] app by blast
  have "rs_status reply = 304 \<and> map_of (rs_headers reply) ''Vary'' = Some ''Host''"
    using public_reply_cacheable [OF c app _ m, of "Some [91, 93]"] by (simp add: body product_page_def)
  with m show ?thesis by blast
qed


end
