(* ===== verification/Deployment.thy ===== *)
theory Deployment
  imports Edge
begin

text \<open>
  How a process is put together: the settings with their defaults (bootstrap/settings.py), what create_app makes of them
  (bootstrap/app.py) and the dependencies of api/deps/*.py that hand the routes their providers. Reading the environment into
  the settings is Pydantic's; the adapters create_app constructs are recorded with the arguments they get. The providers of
  vision, images, quality, text and channels are arguments: a deployment may set them, create_app never does.
\<close>

section \<open>Settings\<close>

datatype environment = EnvLocal | EnvTest | EnvStaging | EnvProduction
datatype email_backend = EmailSmtp | EmailConsole

record app_settings =
  se_environment :: environment
  se_debug :: bool
  se_log_level :: string
  se_log_format :: log_format
  se_database_url :: string
  se_database_pool_size :: int
  se_database_max_overflow :: int
  se_database_echo :: bool
  se_api_prefix :: string
  se_cors_origins :: "string list"
  se_access_token_signing_key :: string
  se_google_client_id :: string
  se_google_client_secret :: string
  se_google_discovery_url :: string
  se_admin_emails :: "string list"
  se_bootstrap_owner_email :: "string option"
  se_bootstrap_owner_tenant_id :: "uuid option"
  se_email_backend :: email_backend
  se_smtp_host :: string
  se_smtp_port :: int
  se_smtp_user :: string
  se_smtp_password :: string
  se_email_from :: string
  se_object_storage_local_root :: string
  se_object_storage_public_base_url :: string
  se_object_storage_signing_key :: string
  se_generation_provider :: string
  se_generation_model :: string
  se_content_generation_model :: string
  se_publish_rate_limit :: int

definition default_settings :: app_settings where
  "default_settings = \<lparr>
     se_environment = EnvLocal, se_debug = False, se_log_level = ''INFO'', se_log_format = FormatJson,
     se_database_url = ''postgresql+asyncpg://softbox_app@localhost:5432/softbox'', se_database_pool_size = 10,
     se_database_max_overflow = 5, se_database_echo = False,
     se_api_prefix = ''/api/v1'', se_cors_origins = [],
     se_access_token_signing_key = ''dev-only-access-token-signing-key-not-for-production-use'',
     se_google_client_id = '''', se_google_client_secret = '''',
     se_google_discovery_url = ''https://accounts.google.com/.well-known/openid-configuration'',
     se_admin_emails = [], se_bootstrap_owner_email = None, se_bootstrap_owner_tenant_id = None,
     se_email_backend = EmailConsole, se_smtp_host = ''smtp.gmail.com'', se_smtp_port = 587, se_smtp_user = '''',
     se_smtp_password = '''', se_email_from = ''Softbox AI <no-reply@example.com>'',
     se_object_storage_local_root = ''./.data/object-storage'', se_object_storage_public_base_url = ''http://localhost:8000'',
     se_object_storage_signing_key = ''dev-only-object-storage-signing-key-not-for-production-use'',
     se_generation_provider = ''nano-banana'', se_generation_model = ''nano-banana-2'',
     se_content_generation_model = ''placeholder-text-model'', se_publish_rate_limit = 50\<rparr>"

definition is_production :: "app_settings \<Rightarrow> bool" where
  "is_production s \<longleftrightarrow> se_environment s = EnvProduction"

text \<open>\<open>getLevelNamesMapping()[level]\<close> on the four levels the settings allow.\<close>

definition level_number :: "string \<Rightarrow> int" where
  "level_number level = (if level = ''DEBUG'' then 10 else if level = ''INFO'' then 20 else if level = ''WARNING'' then 30 else 40)"

definition configure_logging :: "structlog \<Rightarrow> string \<Rightarrow> log_format \<Rightarrow> log_config" where
  "configure_logging lib level fmt = \<lparr>lc_level = level_number level, lc_format = fmt, lc_structlog = lib\<rparr>"

section \<open>The application\<close>

datatype email_sender = ConsoleEmailSender | SmtpEmailSender string int string string string
datatype middleware = RequestContextMiddleware | PublicCacheHeadersMiddleware | CORSMiddleware "string list"
datatype router = HealthRouter | PlatformRouter | AdminRouter | PublicRouter | WebhooksRouter | AuthRouter

record app_state =
  ap_docs_url :: "string option"
  ap_openapi_url :: "string option"
  ap_logging :: log_config
  ap_middleware :: "middleware list" \<comment> \<open>in the order they are added: the last is the outermost\<close>
  ap_routers :: "(string \<times> router) list"
  ap_readiness_checks :: "(string, string) dict" \<comment> \<open>name, dependency pinged\<close>
  ap_token_signing_key :: string
  ap_email_sender :: email_sender
  ap_storage :: "string \<times> string \<times> string" \<comment> \<open>root, base URL, signing key\<close>
  ap_vision_analysis :: "(string \<Rightarrow> string \<Rightarrow> string + template_analysis) option"
  ap_image_generation :: "(render_context \<Rightarrow> (string \<times> string) + (stored_file \<times> int \<times> int)) option"
  ap_quality_control :: "(qc_context \<Rightarrow> string + qc_verdict) option"
  ap_text_generation :: "(string \<Rightarrow> string \<Rightarrow> (string \<times> string) + generated_copy) option"
  ap_channel_publisher :: "string provider option"

definition create_app :: "structlog \<Rightarrow> app_settings \<Rightarrow> app_state" where
  "create_app lib settings = \<lparr>
     ap_docs_url = (if is_production settings then None else Some ''/docs''),
     ap_openapi_url = (if is_production settings then None else Some ''/openapi.json''),
     ap_logging = configure_logging lib (se_log_level settings) (se_log_format settings),
     ap_middleware = [RequestContextMiddleware, PublicCacheHeadersMiddleware]
       @ (if se_cors_origins settings \<noteq> [] then [CORSMiddleware (se_cors_origins settings)] else []),
     ap_routers = ('''', HealthRouter)
       # map (\<lambda>r. (se_api_prefix settings, r)) [PlatformRouter, AdminRouter, PublicRouter, WebhooksRouter, AuthRouter],
     ap_readiness_checks = register_readiness_check ''database'' (se_database_url settings) [],
     ap_token_signing_key = se_access_token_signing_key settings,
     ap_email_sender = (if se_email_backend settings = EmailSmtp
       then SmtpEmailSender (se_smtp_host settings) (se_smtp_port settings) (se_smtp_user settings) (se_smtp_password settings)
         (se_email_from settings)
       else ConsoleEmailSender),
     ap_storage = (se_object_storage_local_root settings, se_object_storage_public_base_url settings,
       se_object_storage_signing_key settings),
     ap_vision_analysis = None, ap_image_generation = None, ap_quality_control = None, ap_text_generation = None,
     ap_channel_publisher = None\<rparr>"

section \<open>Providers\<close>

definition get_vision_analysis :: "app_state \<Rightarrow> (string \<Rightarrow> string \<Rightarrow> string + template_analysis) result" where
  "get_vision_analysis st = require (AppError UnavailableErrorC ''Template analysis is not configured on this deployment.''
     ''vision_analysis_unavailable'') (ap_vision_analysis st)"

definition get_image_generation :: "app_state \<Rightarrow> (render_context \<Rightarrow> (string \<times> string) + (stored_file \<times> int \<times> int)) result" where
  "get_image_generation st = require (AppError UnavailableErrorC ''Image generation is not configured on this deployment.''
     ''image_generation_unavailable'') (ap_image_generation st)"

definition get_quality_control :: "app_state \<Rightarrow> (qc_context \<Rightarrow> string + qc_verdict) result" where
  "get_quality_control st = require (AppError UnavailableErrorC ''Quality control is not configured on this deployment.''
     ''quality_control_unavailable'') (ap_quality_control st)"

definition get_text_generation :: "app_state \<Rightarrow> (string \<Rightarrow> string \<Rightarrow> (string \<times> string) + generated_copy) result" where
  "get_text_generation st = require (AppError UnavailableErrorC ''Text generation is not configured on this deployment.''
     ''text_generation_unavailable'') (ap_text_generation st)"

definition get_channel_publisher :: "app_state \<Rightarrow> string provider result" where
  "get_channel_publisher st = require (AppError UnavailableErrorC ''Channel publishing is not configured on this deployment.''
     ''channel_publisher_unavailable'') (ap_channel_publisher st)"

definition get_email_sender :: "app_state \<Rightarrow> email_sender" where
  "get_email_sender st = ap_email_sender st"

definition get_object_storage :: "app_state \<Rightarrow> string \<times> string \<times> string" where
  "get_object_storage st = ap_storage st"

text \<open>The agents' routes answer 503 until a deployment sets their providers itself.\<close>

lemma providers_unavailable:
  "get_vision_analysis (create_app lib s) = Inl e \<Longrightarrow> reply_status (problem_of e) = 503"
  "get_image_generation (create_app lib s) = Inl e \<Longrightarrow> reply_status (problem_of e) = 503"
  "get_quality_control (create_app lib s) = Inl e \<Longrightarrow> reply_status (problem_of e) = 503"
  "get_text_generation (create_app lib s) = Inl e \<Longrightarrow> reply_status (problem_of e) = 503"
  "get_channel_publisher (create_app lib s) = Inl e \<Longrightarrow> reply_status (problem_of e) = 503"
  by (auto simp: get_vision_analysis_def get_image_generation_def get_quality_control_def get_text_generation_def
      get_channel_publisher_def require_def create_app_def problem_of_def)

lemma no_provider:
  "isl (get_vision_analysis (create_app lib s))" "isl (get_image_generation (create_app lib s))"
  "isl (get_quality_control (create_app lib s))" "isl (get_text_generation (create_app lib s))"
  "isl (get_channel_publisher (create_app lib s))"
  by (simp_all add: get_vision_analysis_def get_image_generation_def get_quality_control_def get_text_generation_def
      get_channel_publisher_def require_def create_app_def)

text \<open>The interactive documentation is closed in production, and the cache headers wrap the request context.\<close>

lemma create_app_surface:
  "ap_docs_url (create_app lib s) = None \<longleftrightarrow> is_production s"
  "take 2 (ap_middleware (create_app lib s)) = [RequestContextMiddleware, PublicCacheHeadersMiddleware]"
  by (simp_all add: create_app_def)

end
