(* ===== verification/Spec2Isabelle.thy ===== *)
theory Spec2Isabelle
  imports Publishing_Protocol Generation_Properties Access_Protocol Templates_Protocol Taxonomy_Protocol Settings_Protocol Content_Protocol Http_Protocol Tenant_Plane Unit_Of_Work Deployment
begin

text \<open>
  Softbox AI: a multi-tenant backend that turns product photos into catalogue images and marketing copy and posts them to
  sales channels. This library models the Python program under src/src/app (file names below are relative to it) and proves
  what makes its parts correct. This theory only gathers the others.

  THE PROGRAM. A tenant describes its goods by a tree of categories, each with attributes, variant axes and image slots; the
  definitions inherited along the tree are published as a numbered, immutable spec snapshot. A product is created against the
  snapshot current at the time and keeps it. Its photos are uploaded under signed tokens, inspected and validated. A generation
  request reserves quota and fans out into one item per variant, slot and copy; workers render the items through an image
  provider, a quality check accepts, retries or rejects the result, and a person or a setting approves it. Copy is generated or
  edited in the same way. An approved variant is published to a channel; a publication is claimed, sent and closed by a worker.
  Work is handed out by a job queue in the database, calls to a channel are limited by counters, every change is audited.
  Access is by OIDC login, refresh tokens and memberships of tenants with roles; requests come in through FastAPI routes on five
  planes (platform, admin, public, webhooks, auth).

  HOW IT IS MODELLED. Every layer is executable. A class is a record, an enum a datatype, an identifier a 128-bit word; a method
  that may raise returns an error or a value (type result, errors of shared/errors.py and of Python as constructors of exn). The
  database (Database) is a record of tables, a table an association list in insertion order; a repository method is a function
  on it, a use case a function from a database to an error or a result with a new database, and run_uow makes it a transaction:
  an error leaves nothing behind. Unique indexes and the check constraints the code relies on are part of the insert operations.
  An agent is the composition of its transactions with the answers of its provider; two workers interleave at the borders of
  transactions, so a system is an inductive relation with one rule per committed transaction, and a crash is a worker that takes
  no further step. SELECT ... FOR UPDATE SKIP LOCKED and INSERT ... ON CONFLICT are one atomic step each. Whatever is drawn or
  answered outside the program (clock, identifiers, jitter, seeds, providers, Pillow, SHA-256, JSON web tokens, Pydantic) is an
  argument, and what is used of it is a hypothesis of the theorem that needs it.

  FOUNDATIONS
  Prelude, Store: errors, Python strings (code points of Latin-1), UUIDs, dicts, sorting, tables; the locale keyed_store.
  Lifecycle: the locale lifecycle (a status moves along the edges of a diagram, identifying fields never change), interpreted
    for every stateful entity in its theory. Unique_Index: the locale unique_index, interpreted for each index of the schema.
  Calendar, Iso_Time: civil dates, isoformat and fromisoformat. Base64, Json, Json_Text: urlsafe base64, JSON values, json.dumps
    and json.loads, with their round trips.

  DATA AND SERVICES
  Taxonomy_Entities, Catalog_Entities, Generation_Entities, Content_Entities, Publication_Entity, Access_Entities: entities/*.py.
  Task_Queue: services/task_backoff.py and infrastructure/persistence/task_queue.py, with the locale job_queue.
  Rate_Limiter: infrastructure/persistence/rate_limiter.py. Database: the audit log, outbox, quota and repositories.
  Unit_Of_Work: infrastructure/persistence/unit_of_work.py, the object with its session and repositories; it refines run_uow.
  Specs: spec inheritance, snapshots and their comparison, moving a category, publishing a spec, the settings chain.
  Generation_Services, Prompts: the pure services of generation and the texts sent to the providers.

  USE CASES, one theory per directory of features/ and the agents that drive them, each with its repositories
  Taxonomy (taxonomy, settings), Products, Templates, Generation, Content, Publishing, Assets (with local_object_storage.py),
  Access (identity, tenancy, access_tokens.py, api/deps), Pagination (shared/pagination.py and the keyset listings).

  THE EDGE
  Http_Responses, Http: the response models, api/errors.py and the handler of every route of api/routers; a route is its gate
    (principal, tenant, capability), its use case and its response. Edge: api/middleware.py and api/health.py.
  Observability: shared/logging.py and infrastructure/observability/logging.py. Deployment: bootstrap/settings.py, bootstrap/app.py
    and the provider dependencies of api/deps.

  WHAT IS PROVED
  Tenant_Data, Tenant_Isolation, Tenant_Plane: every operation of the admin plane writes rows of the caller's tenant only (one
    lemma per operation over the locale tenant_table, interpreted for the 22 tables), hence no sequence of requests of other
    tenants changes anything of a tenant. Http_Protocol: nothing changes without the route's capability; each route
    of one transaction meets its line of a table (capability, success status, use case), errors included.
  Publishing_Protocol: over every interleaving, calls to the provider are accounted for by attempts, one worker per publication,
    one live publication per variant and channel; a run of the agent refines an abstract publication; a worker that dies while
    dispatching strands its publication.
  Generation_Protocol, Quota_Ledger, Generation_Runs, Generation_Properties: the quota ledger balances, attempts are bounded, a
    slot has one live image; the effects of the fan-out and of the quality check; a worker that dies while rendering can
    stop the queue of its tenant.
  Specs, Taxonomy_Protocol, Settings_Protocol: publishing stores the snapshot of the live definitions as the next version; the
    categories stay a forest with true paths and depths; writing a setting is the update of a map, reading it takes the most
    specific one.
  Products_Protocol, Templates_Protocol, Content_Protocol: products stay valid under their pinned spec; template versions are
    1, 2, 3 and so on; text of stored drafts never changes and edited copy is checked; outcomes of the photo validation, the
    template analysis and the copywriting worker.
  Access_Protocol: standing comes from memberships and grants only; tokens carry it; a registered host leads to its tenant; a
    replayed refresh token revokes nothing.
  Assets_Protocol: rows and files agree under the locale object_store; the three ways to break that. Pagination: following the
    cursors lists each row exactly once (locale keyset_listing, three interpretations). Task_Queue, Rate_Limiter: a job is handed
    out at most as often as its attempts allow; a window never admits more calls than its limit,
    or one where the limit is below one.
  Edge, Observability: what caches are told, and what the log shows.

  BOUNDS AND TERMINATION. No fuel is used. Recursion is structural, or over a measure (redact descends at most 12 levels, the
  segments of a template shrink, digits divide by ten); retries are bounded by attempt counters in the data, and the theorems on
  them state the bound. A loop over requests or jobs is a relation, and its invariants hold however long it runs. Integers of
  the program are Python's and the database's bigints and kept unbounded, identifiers and bytes are words.

  NOT MODELLED
  FastAPI and Pydantic: reading a request against its types, JSON rendering, and the members details, instance and request_id of
    a problem document; a handler starts from the values read. google_login redirects to the provider and keeps nothing.
  SQLAlchemy: bootstrap/di.py, infrastructure/persistence/mapping.py, database.py and tenant_scope.py, and the migrations only
    name tables, columns and sessions; foreign keys, row-level security and the isolation level are not part of the model, so a
    use case is trusted to run as one atomic transaction and a tenant test is one only where the code writes it.
  Code outside the repository: Pillow, SHA-256, PyJWT, the OIDC client, SMTP, structlog and the providers of images, text,
    vision, quality and channels (arguments). The directory tree of the object store has no symbolic links.
  Characters beyond Latin-1, and ISO time forms that isoformat does not print (the argument iso_other or en_iso_other).
  services/ports (interfaces only), infrastructure/email, src/scripts (demo data) and the documentation.
\<close>

end
